(* ===== verification/Prelude.thy ===== *)
theory Prelude
  imports Main
begin

text \<open>
  Shared vocabulary of the development: thrown JavaScript values, the
  state-and-exception results of effectful functions, strings, JSON values,
  and runs of event-driven components with the generic invariant lemmas that
  every component instantiates.
\<close>

named_theorems js_defs
named_theorems handler_defs

subsection \<open>Thrown values and effectful results\<close>

text \<open>
  A JavaScript \<open>throw\<close> raises any value.  The clients distinguish only
  \<open>e instanceof Error\<close> (then they read \<open>e.message\<close>) from every other value
  (then they use a fallback, or \<open>String(e)\<close>).
\<close>

datatype js_thrown = Js_Error string | Js_Value string

definition message_or :: "string \<Rightarrow> js_thrown \<Rightarrow> string" where
  "message_or fallback e = (case e of Js_Error m \<Rightarrow> m | Js_Value _ \<Rightarrow> fallback)"

lemma message_or_simps [simp]:
  "message_or f (Js_Error m) = m"
  "message_or f (Js_Value v) = f"
  by (simp_all add: message_or_def)

type_synonym ('w, 'a) eff = "'w \<Rightarrow> (js_thrown + 'a) \<times> 'w"

definition bindE :: "('w, 'a) eff \<Rightarrow> ('a \<Rightarrow> ('w, 'b) eff) \<Rightarrow> ('w, 'b) eff" where
  "bindE m f = (\<lambda>w. case m w of (Inl e, w') \<Rightarrow> (Inl e, w') | (Inr a, w') \<Rightarrow> f a w')"

definition returnE :: "'a \<Rightarrow> ('w, 'a) eff" where
  "returnE a = (\<lambda>w. (Inr a, w))"

definition throwE :: "js_thrown \<Rightarrow> ('w, 'a) eff" where
  "throwE e = (\<lambda>w. (Inl e, w))"

definition readE :: "('w \<Rightarrow> 'a) \<Rightarrow> ('w, 'a) eff" where
  "readE f = (\<lambda>w. (Inr (f w), w))"

lemma bindE_apply_Inr: "m w = (Inr a, w') \<Longrightarrow> bindE m f w = f a w'"
  by (simp add: bindE_def)

lemma bindE_apply_Inl: "m w = (Inl e, w') \<Longrightarrow> bindE m f w = (Inl e, w')"
  by (simp add: bindE_def)

lemma eff_simps [simp]:
  "bindE (returnE a) f = f a"
  "bindE (throwE e) f = throwE e"
  "bindE (readE g) f w = f (g w) w"
  "returnE a w = (Inr a, w)"
  "throwE e w = (Inl e, w)"
  "readE g w = (Inr (g w), w)"
  by (simp_all add: bindE_def returnE_def throwE_def readE_def)

subsection \<open>Strings\<close>

text \<open>
  A string is a list of characters, each standing for one code unit.
  \<open>truthy\<close> is the JavaScript truth value of a nullable string: \<open>null\<close> and
  the empty string are false.
\<close>

definition truthy :: "string option \<Rightarrow> bool" where
  "truthy s = (case s of None \<Rightarrow> False | Some x \<Rightarrow> x \<noteq> [])"

lemma truthy_simps [simp]:
  "\<not> truthy None"
  "truthy (Some x) = (x \<noteq> [])"
  by (simp_all add: truthy_def)

definition or_else :: "string option \<Rightarrow> string \<Rightarrow> string" where
  "or_else s d = (if truthy s then the s else d)"

lemma or_else_simps [simp]:
  "or_else None d = d"
  "or_else (Some x) d = (if x = [] then d else x)"
  by (simp_all add: or_else_def)

definition nullish :: "'a option \<Rightarrow> 'a \<Rightarrow> 'a" where
  "nullish x d = (case x of None \<Rightarrow> d | Some y \<Rightarrow> y)"

lemma nullish_simps [simp]:
  "nullish None d = d"
  "nullish (Some y) d = y"
  by (simp_all add: nullish_def)

fun show_nat :: "nat \<Rightarrow> string" where
  "show_nat n = (if n < 10 then [char_of (48 + n)] else show_nat (n div 10) @ [char_of (48 + n mod 10)])"

declare show_nat.simps [simp del]

definition show_int :: "int \<Rightarrow> string" where
  "show_int i = (if i < 0 then ''-'' @ show_nat (nat (- i)) else show_nat (nat i))"

text \<open>\<open>String.prototype.replaceAll\<close> of one character, and upper case of an ASCII string.\<close>

definition replace_char :: "char \<Rightarrow> char \<Rightarrow> string \<Rightarrow> string" where
  "replace_char a b s = map (\<lambda>c. if c = a then b else c) s"

definition upper_char :: "char \<Rightarrow> char" where
  "upper_char c = (let n = (of_char c :: nat) in if 97 \<le> n \<and> n \<le> 122 then char_of (n - 32) else c)"

definition to_upper :: "string \<Rightarrow> string" where
  "to_upper s = map upper_char s"

definition slice_to :: "nat \<Rightarrow> string \<Rightarrow> string" where
  "slice_to n s = take n s"

lemma length_slice_to: "length (slice_to n s) \<le> n"
  by (simp add: slice_to_def)

lemma length_to_upper [simp]: "length (to_upper s) = length s"
  by (simp add: to_upper_def)

lemma upper_char_idem: "upper_char (upper_char c) = upper_char c"
  by (auto simp: upper_char_def Let_def)

lemma to_upper_idem: "to_upper (to_upper s) = to_upper s"
  by (simp add: to_upper_def upper_char_idem)

subsection \<open>Runs of event-driven components\<close>

fun run :: "('s \<Rightarrow> 'e \<Rightarrow> 's) \<Rightarrow> 's \<Rightarrow> 'e list \<Rightarrow> 's" where
  "run step s [] = s"
| "run step s (e # es) = run step (step s e) es"

lemma run_append: "run step s (es @ fs) = run step (run step s es) fs"
  by (induction es arbitrary: s) simp_all

fun legal :: "('s \<Rightarrow> 'e \<Rightarrow> bool) \<Rightarrow> ('s \<Rightarrow> 'e \<Rightarrow> 's) \<Rightarrow> 's \<Rightarrow> 'e list \<Rightarrow> bool" where
  "legal en step s [] = True"
| "legal en step s (e # es) = (en s e \<and> legal en step (step s e) es)"

lemma legal_append:
  "legal en step s (es @ fs) = (legal en step s es \<and> legal en step (run step s es) fs)"
  by (induction es arbitrary: s) auto

text \<open>
  An event-driven component with an invariant: \<open>enabled\<close> says which events the
  environment (the page, the browser) can deliver in a state.
\<close>

locale guarded_machine =
  fixes init :: "'s"
    and enabled :: "'s \<Rightarrow> 'e \<Rightarrow> bool"
    and step :: "'s \<Rightarrow> 'e \<Rightarrow> 's"
    and inv :: "'s \<Rightarrow> bool"
  assumes inv_init: "inv init"
    and inv_step: "inv s \<Longrightarrow> enabled s e \<Longrightarrow> inv (step s e)"
begin

lemma inv_run_from: "inv s \<Longrightarrow> legal enabled step s es \<Longrightarrow> inv (run step s es)"
  by (induction es arbitrary: s) (auto intro: inv_step)

lemma inv_run: "legal enabled step init es \<Longrightarrow> inv (run step init es)"
  by (rule inv_run_from [OF inv_init])

end

text \<open>A component whose every event preserves the invariant.\<close>

locale machine =
  fixes init :: "'s"
    and step :: "'s \<Rightarrow> 'e \<Rightarrow> 's"
    and inv :: "'s \<Rightarrow> bool"
  assumes start: "inv init"
    and preserved: "inv s \<Longrightarrow> inv (step s e)"

sublocale machine \<subseteq> guarded_machine init "\<lambda>_ _. True" step inv
  by unfold_locales (auto intro: start preserved)

context machine
begin

lemma always_legal: "legal (\<lambda>_ _. True) step s es"
  by (induction es arbitrary: s) auto

lemma always: "inv (run step init es)"
  by (rule inv_run [OF always_legal])

lemma always_from: "inv s \<Longrightarrow> inv (run step s es)"
  by (rule inv_run_from [OF _ always_legal])

end

subsection \<open>Comparing two components\<close>

text \<open>
  Two components in step: every event the first one allows is answered by an
  event of the second, and the relation between their states is kept.
\<close>

locale simulation =
  fixes cstep :: "'c \<Rightarrow> 'e \<Rightarrow> 'c"
    and astep :: "'a \<Rightarrow> 'f \<Rightarrow> 'a"
    and ev :: "'e \<Rightarrow> 'f"
    and cok :: "'c \<Rightarrow> 'e \<Rightarrow> bool"
    and aok :: "'a \<Rightarrow> 'f \<Rightarrow> bool"
    and rel :: "'a \<Rightarrow> 'c \<Rightarrow> bool"
  assumes sim_step: "rel a c \<Longrightarrow> cok c e \<Longrightarrow> rel (astep a (ev e)) (cstep c e)"
    and sim_ok: "rel a c \<Longrightarrow> cok c e \<Longrightarrow> aok a (ev e)"
begin

lemma sim_run:
  "rel a c \<Longrightarrow> legal cok cstep c es \<Longrightarrow>
   rel (run astep a (map ev es)) (run cstep c es) \<and> legal aok astep a (map ev es)"
  by (induction es arbitrary: a c) (auto intro: sim_step sim_ok)

end

end
