(* ===== verification/Api_Types.thy ===== *)
theory Api_Types
  imports Prelude
begin

text \<open>
  The wire types of \<open>web/src/lib/api.ts\<close> (the mobile client declares the same
  ones) and the action tables of \<open>web/src/lib/actions.ts\<close>.  A TypeScript
  interface is a record whose field names carry a prefix naming the interface,
  since Isabelle's field selectors are global; a string-literal union is a
  datatype together with the function that gives its literals.  \<open>T | null\<close> is
  \<open>T option\<close>; the counters are JavaScript numbers that only ever hold integers.
\<close>

subsection \<open>String-literal unions\<close>

datatype action = Charge | Block | Attack | EnergyWave | Teleport

fun action_str :: "action \<Rightarrow> string" where
  "action_str Charge = ''charge''"
| "action_str Block = ''block''"
| "action_str Attack = ''attack''"
| "action_str EnergyWave = ''energy_wave''"
| "action_str Teleport = ''teleport''"

datatype difficulty = Novice | Easy | Medium | Hard | Expert | Grandmaster

fun difficulty_str :: "difficulty \<Rightarrow> string" where
  "difficulty_str Novice = ''novice''"
| "difficulty_str Easy = ''easy''"
| "difficulty_str Medium = ''medium''"
| "difficulty_str Hard = ''hard''"
| "difficulty_str Expert = ''expert''"
| "difficulty_str Grandmaster = ''grandmaster''"

datatype turn_outcome = P1WinsRound | P2WinsRound | Clash | Blocked | Dodged | Neutral

fun outcome_str :: "turn_outcome \<Rightarrow> string" where
  "outcome_str P1WinsRound = ''p1_wins_round''"
| "outcome_str P2WinsRound = ''p2_wins_round''"
| "outcome_str Clash = ''clash''"
| "outcome_str Blocked = ''blocked''"
| "outcome_str Dodged = ''dodged''"
| "outcome_str Neutral = ''neutral''"

datatype round_winner = WinP1 | WinP2 | WinDraw

datatype match_status = InProgress | Completed | Abandoned

datatype room_status = RoomWaiting | RoomBothPresent | RoomInGame | RoomFinished

subsection \<open>Interfaces\<close>

record token_response =
  access_token :: string
  refresh_token :: string
  token_type :: string
  tok_player_id :: string
  tok_display_name :: string

record turn_result =
  tr_turn_number :: int
  tr_p1_action :: action
  tr_p2_action :: action
  tr_outcome :: turn_outcome
  tr_p1_ki_after :: int
  tr_p2_ki_after :: int

record round_result =
  rr_round_number :: int
  rr_winner :: round_winner
  rr_total_turns :: int

record match_result =
  mr_winner :: round_winner
  mr_rounds_won_p1 :: int
  mr_rounds_won_p2 :: int
  mr_total_turns :: int

record round_state =
  rs_round_number :: int
  rs_p1_ki :: int
  rs_p2_ki :: int
  rs_turn_number :: int
  rs_turn_history :: "turn_result list"

record game_state =
  game_id :: string
  match_type :: string
  gs_status :: match_status
  gs_rounds_won_p1 :: int
  gs_rounds_won_p2 :: int
  current_round :: "round_state option"
  round_results :: "round_result list"

record submit_action_response =
  sa_turn_result :: turn_result
  sa_round_result :: "round_result option"
  sa_match_result :: "match_result option"
  sa_game_state :: game_state

record player_profile =
  pp_id :: string
  pp_display_name :: string
  pp_email :: "string option"
  pp_wins :: int
  pp_losses :: int
  pp_draws :: int
  pp_elo_rating :: int
  pp_ranked_wins :: int
  pp_ranked_losses :: int
  pp_ad_free :: bool
  pp_created_at :: string

record leaderboard_entry =
  le_rank :: int
  le_player_id :: string
  le_display_name :: string
  le_elo_rating :: int
  le_ranked_wins :: int
  le_ranked_losses :: int

record room_player_data =
  rp_id :: string
  rp_name :: string
  rp_character_id :: "string option"
  rp_ready :: bool

record room_data =
  room_code :: string
  room_host :: room_player_data
  room_guest :: "room_player_data option"
  room_status :: room_status
  room_game_id :: "string option"
  room_created_at :: int
  room_updated_at :: int

subsection \<open>Order of the unions\<close>

text \<open>
  The difficulties in the order in which the lobby lists them, from the mildest
  to the strongest.
\<close>

fun difficulty_rank :: "difficulty \<Rightarrow> nat" where
  "difficulty_rank Novice = 0"
| "difficulty_rank Easy = 1"
| "difficulty_rank Medium = 2"
| "difficulty_rank Hard = 3"
| "difficulty_rank Expert = 4"
| "difficulty_rank Grandmaster = 5"

lemma difficulty_rank_inj: "difficulty_rank a = difficulty_rank b \<Longrightarrow> a = b"
  by (cases a; cases b) simp_all

instantiation difficulty :: linorder
begin

definition less_eq_difficulty :: "difficulty \<Rightarrow> difficulty \<Rightarrow> bool" where
  "less_eq_difficulty a b = (difficulty_rank a \<le> difficulty_rank b)"

definition less_difficulty :: "difficulty \<Rightarrow> difficulty \<Rightarrow> bool" where
  "less_difficulty a b = (difficulty_rank a < difficulty_rank b)"

instance
  by standard (auto simp: less_eq_difficulty_def less_difficulty_def dest: difficulty_rank_inj)

end

subsection \<open>Action tables (\<open>lib/actions.ts\<close>)\<close>

datatype action_kind =
  KCharge | KBlock | KAttack | KEnergyWave | KTeleport | KVictory | KDefeat

datatype action_phase = PhIdle | PhWindup | PhImpact | PhRecover

fun API_TO_ACTION :: "action \<Rightarrow> action_kind" where
  "API_TO_ACTION Charge = KCharge"
| "API_TO_ACTION Block = KBlock"
| "API_TO_ACTION Attack = KAttack"
| "API_TO_ACTION EnergyWave = KEnergyWave"
| "API_TO_ACTION Teleport = KTeleport"

text \<open>
  \<open>ACTION_LABEL\<close> is a JavaScript object indexed by an arbitrary string in
  \<open>formatActionLabel\<close>, so its model is a partial function on strings.
\<close>

definition ACTION_LABEL :: "string \<Rightarrow> string option" where
  "ACTION_LABEL = map_of
     [(''charge'', ''Charge''), (''block'', ''Block''), (''attack'', ''Attack''),
      (''energy_wave'', ''Ki Burst''), (''teleport'', ''Teleport'')]"

definition formatActionLabel :: "string \<Rightarrow> string" where
  "formatActionLabel a = nullish (ACTION_LABEL a) (replace_char CHR ''_'' CHR '' '' a)"

lemma action_str_inj [simp]: "(action_str a = action_str b) = (a = b)"
  by (cases a; cases b) simp_all

lemma outcome_str_inj [simp]: "(outcome_str a = outcome_str b) = (a = b)"
  by (cases a; cases b) simp_all

lemma difficulty_str_inj [simp]: "(difficulty_str a = difficulty_str b) = (a = b)"
  by (cases a; cases b) simp_all

lemma API_TO_ACTION_inj [simp]: "(API_TO_ACTION a = API_TO_ACTION b) = (a = b)"
  by (cases a; cases b) simp_all

lemma API_TO_ACTION_playable: "API_TO_ACTION a \<noteq> KVictory \<and> API_TO_ACTION a \<noteq> KDefeat"
  by (cases a) simp_all

lemma ACTION_LABEL_total: "ACTION_LABEL (action_str a) \<noteq> None"
  by (cases a) (simp_all add: ACTION_LABEL_def)

lemma ACTION_LABEL_keys: "ACTION_LABEL s \<noteq> None \<Longrightarrow> \<exists>a. s = action_str a"
  by (auto simp: ACTION_LABEL_def split: if_splits intro: exI [of _ Charge] exI [of _ Block]
      exI [of _ Attack] exI [of _ EnergyWave] exI [of _ Teleport])

end
