(* ===== verification/Engine.thy ===== *)
theory Engine
  imports Api_Types
begin

text \<open>
  The rules the clients rely on: the server's pure game engine
  (\<open>app/core/game_engine/outcome_matrix.py\<close>, \<open>types.py\<close>, \<open>engine.py\<close>).  The
  engine mutates a \<open>GameState\<close>; the model returns the updated one.  A Python
  \<open>ValueError\<close> is the left value of a sum.
\<close>

subsection \<open>Rules of one turn\<close>

definition KI_CAP :: int where "KI_CAP = 10"
definition TURN_LIMIT :: int where "TURN_LIMIT = 20"
definition ROUNDS_TO_WIN :: int where "ROUNDS_TO_WIN = 2"

fun ACTION_KI_COST :: "action \<Rightarrow> int" where
  "ACTION_KI_COST Charge = 0"
| "ACTION_KI_COST Block = 0"
| "ACTION_KI_COST Attack = 1"
| "ACTION_KI_COST EnergyWave = 3"
| "ACTION_KI_COST Teleport = 1"

fun ACTION_KI_GAIN :: "action \<Rightarrow> int" where
  "ACTION_KI_GAIN Charge = 1"
| "ACTION_KI_GAIN Block = 0"
| "ACTION_KI_GAIN Attack = 0"
| "ACTION_KI_GAIN EnergyWave = 0"
| "ACTION_KI_GAIN Teleport = 0"

fun resolve_actions :: "action \<Rightarrow> action \<Rightarrow> turn_outcome" where
  "resolve_actions Charge Charge = Neutral"
| "resolve_actions Charge Block = Neutral"
| "resolve_actions Charge Attack = P2WinsRound"
| "resolve_actions Charge EnergyWave = P2WinsRound"
| "resolve_actions Charge Teleport = Neutral"
| "resolve_actions Block Charge = Neutral"
| "resolve_actions Block Block = Neutral"
| "resolve_actions Block Attack = Blocked"
| "resolve_actions Block EnergyWave = P2WinsRound"
| "resolve_actions Block Teleport = Neutral"
| "resolve_actions Attack Charge = P1WinsRound"
| "resolve_actions Attack Block = Blocked"
| "resolve_actions Attack Attack = Clash"
| "resolve_actions Attack EnergyWave = P2WinsRound"
| "resolve_actions Attack Teleport = Dodged"
| "resolve_actions EnergyWave Charge = P1WinsRound"
| "resolve_actions EnergyWave Block = P1WinsRound"
| "resolve_actions EnergyWave Attack = P1WinsRound"
| "resolve_actions EnergyWave EnergyWave = Clash"
| "resolve_actions EnergyWave Teleport = Dodged"
| "resolve_actions Teleport Charge = Neutral"
| "resolve_actions Teleport Block = Neutral"
| "resolve_actions Teleport Attack = Dodged"
| "resolve_actions Teleport EnergyWave = Dodged"
| "resolve_actions Teleport Teleport = Neutral"

definition validate_action :: "action \<Rightarrow> int \<Rightarrow> bool" where
  "validate_action a ki = (ki \<ge> ACTION_KI_COST a)"

definition calculate_ki_after :: "action \<Rightarrow> action \<Rightarrow> int \<Rightarrow> turn_outcome \<Rightarrow> int" where
  "calculate_ki_after a opponent_action current_ki outc =
     (let ki = current_ki - ACTION_KI_COST a + ACTION_KI_GAIN a in max 0 (min ki KI_CAP))"

definition resolve_turn :: "int \<Rightarrow> action \<Rightarrow> action \<Rightarrow> int \<Rightarrow> int \<Rightarrow> turn_result" where
  "resolve_turn n a1 a2 ki1 ki2 =
     (let outc = resolve_actions a1 a2 in
      \<lparr>tr_turn_number = n, tr_p1_action = a1, tr_p2_action = a2, tr_outcome = outc,
       tr_p1_ki_after = calculate_ki_after a1 a2 ki1 outc,
       tr_p2_ki_after = calculate_ki_after a2 a1 ki2 outc\<rparr>)"

subsection \<open>The match\<close>

definition start_new_round :: "game_state \<Rightarrow> game_state" where
  "start_new_round s =
     s\<lparr>current_round := Some \<lparr>rs_round_number = int (length (round_results s)) + 1,
        rs_p1_ki = 0, rs_p2_ki = 0, rs_turn_number = 0, rs_turn_history = []\<rparr>\<rparr>"

definition start_match :: "string \<Rightarrow> string \<Rightarrow> game_state" where
  "start_match gid mtype = start_new_round
     \<lparr>game_id = gid, match_type = mtype, gs_status = InProgress, gs_rounds_won_p1 = 0,
      gs_rounds_won_p2 = 0, current_round = None, round_results = []\<rparr>"

definition check_round_end :: "turn_result \<Rightarrow> round_state \<Rightarrow> round_result option" where
  "check_round_end tr r =
     (let winner =
        (if tr_outcome tr = P1WinsRound then Some WinP1
         else if tr_outcome tr = P2WinsRound then Some WinP2
         else if rs_turn_number r \<ge> TURN_LIMIT then
           (if rs_p1_ki r > rs_p2_ki r then Some WinP1
            else if rs_p2_ki r > rs_p1_ki r then Some WinP2
            else Some WinDraw)
         else None)
      in case winner of None \<Rightarrow> None
         | Some w \<Rightarrow> Some \<lparr>rr_round_number = rs_round_number r, rr_winner = w,
                            rr_total_turns = rs_turn_number r\<rparr>)"

definition check_match_end :: "game_state \<Rightarrow> match_result option" where
  "check_match_end s =
     (let total = sum_list (map rr_total_turns (round_results s));
          mk = (\<lambda>w. \<lparr>mr_winner = w, mr_rounds_won_p1 = gs_rounds_won_p1 s,
                     mr_rounds_won_p2 = gs_rounds_won_p2 s, mr_total_turns = total\<rparr>)
      in if gs_rounds_won_p1 s \<ge> ROUNDS_TO_WIN then Some (mk WinP1)
         else if gs_rounds_won_p2 s \<ge> ROUNDS_TO_WIN then Some (mk WinP2)
         else if length (round_results s) \<ge> 3 then Some (mk WinDraw)
         else None)"

definition award_round :: "game_state \<Rightarrow> round_winner \<Rightarrow> game_state" where
  "award_round s w = (case w of
       WinP1 \<Rightarrow> s\<lparr>gs_rounds_won_p1 := gs_rounds_won_p1 s + 1\<rparr>
     | WinP2 \<Rightarrow> s\<lparr>gs_rounds_won_p2 := gs_rounds_won_p2 s + 1\<rparr>
     | WinDraw \<Rightarrow> s)"

text \<open>The status as a format string shows it: Python 3.11 gives the name of the enumeration's member.\<close>

fun status_text :: "match_status \<Rightarrow> string" where
  "status_text InProgress = ''MatchStatus.IN_PROGRESS''"
| "status_text Completed = ''MatchStatus.COMPLETED''"
| "status_text Abandoned = ''MatchStatus.ABANDONED''"

definition submit_turn ::
  "game_state \<Rightarrow> action \<Rightarrow> action \<Rightarrow>
     string + game_state \<times> turn_result \<times> round_result option \<times> match_result option" where
  "submit_turn s a1 a2 =
     (if gs_status s \<noteq> InProgress then Inl (''Match is not in progress (status='' @ status_text (gs_status s) @ '')'')
      else case current_round s of
        None \<Rightarrow> Inl ''No active round''
      | Some r \<Rightarrow>
          if \<not> validate_action a1 (rs_p1_ki r) then Inl (''P1 cannot afford '' @ action_str a1 @ '' (ki='' @ show_int (rs_p1_ki r) @ '')'')
          else if \<not> validate_action a2 (rs_p2_ki r) then Inl (''P2 cannot afford '' @ action_str a2 @ '' (ki='' @ show_int (rs_p2_ki r) @ '')'')
          else
            (let n = rs_turn_number r + 1;
                 tr = resolve_turn n a1 a2 (rs_p1_ki r) (rs_p2_ki r);
                 r' = r\<lparr>rs_turn_number := n, rs_p1_ki := tr_p1_ki_after tr,
                        rs_p2_ki := tr_p2_ki_after tr,
                        rs_turn_history := rs_turn_history r @ [tr]\<rparr>
             in case check_round_end tr r' of
                  None \<Rightarrow> Inr (s\<lparr>current_round := Some r'\<rparr>, tr, None, None)
                | Some rr \<Rightarrow>
                    (let s1 = award_round s (rr_winner rr);
                         s2 = s1\<lparr>round_results := round_results s1 @ [rr], current_round := None\<rparr>
                     in case check_match_end s2 of
                          Some mr \<Rightarrow> Inr (s2\<lparr>gs_status := Completed\<rparr>, tr, Some rr, Some mr)
                        | None \<Rightarrow> Inr (start_new_round s2, tr, Some rr, None))))"

subsection \<open>Facts about one turn\<close>

fun flip_outcome :: "turn_outcome \<Rightarrow> turn_outcome" where
  "flip_outcome P1WinsRound = P2WinsRound"
| "flip_outcome P2WinsRound = P1WinsRound"
| "flip_outcome x = x"

lemma flip_outcome_idem [simp]: "flip_outcome (flip_outcome x) = x"
  by (cases x) simp_all

lemma ACTION_KI_COST_bounds: "0 \<le> ACTION_KI_COST a \<and> ACTION_KI_COST a \<le> 3"
  by (cases a) simp_all

lemma ACTION_KI_GAIN_bounds: "0 \<le> ACTION_KI_GAIN a \<and> ACTION_KI_GAIN a \<le> 1"
  by (cases a) simp_all

lemma resolve_actions_swap: "resolve_actions a2 a1 = flip_outcome (resolve_actions a1 a2)"
  by (cases a1; cases a2) simp_all

lemma calculate_ki_after_bounds:
  "0 \<le> calculate_ki_after a b ki outc \<and> calculate_ki_after a b ki outc \<le> KI_CAP"
  by (simp add: calculate_ki_after_def Let_def KI_CAP_def)

lemma validate_charge: "0 \<le> ki \<Longrightarrow> validate_action Charge ki"
  by (simp add: validate_action_def)

text \<open>An affordable action is paid exactly: the lower clamp never fires.\<close>

lemma calculate_ki_after_paid:
  "validate_action a ki \<Longrightarrow> ki \<le> KI_CAP \<Longrightarrow>
   calculate_ki_after a b ki outc = min (ki - ACTION_KI_COST a + ACTION_KI_GAIN a) KI_CAP"
  using ACTION_KI_COST_bounds [of a] ACTION_KI_GAIN_bounds [of a]
  by (auto simp: calculate_ki_after_def validate_action_def Let_def)

lemma resolve_turn_simps [simp]:
  "tr_outcome (resolve_turn n a1 a2 k1 k2) = resolve_actions a1 a2"
  "tr_turn_number (resolve_turn n a1 a2 k1 k2) = n"
  "tr_p1_action (resolve_turn n a1 a2 k1 k2) = a1"
  "tr_p2_action (resolve_turn n a1 a2 k1 k2) = a2"
  by (simp_all add: resolve_turn_def Let_def)

lemma resolve_turn_ki:
  "0 \<le> tr_p1_ki_after (resolve_turn n a1 a2 k1 k2) \<and> tr_p1_ki_after (resolve_turn n a1 a2 k1 k2) \<le> KI_CAP"
  "0 \<le> tr_p2_ki_after (resolve_turn n a1 a2 k1 k2) \<and> tr_p2_ki_after (resolve_turn n a1 a2 k1 k2) \<le> KI_CAP"
  using calculate_ki_after_bounds by (simp_all add: resolve_turn_def Let_def)

lemma check_round_end_number:
  "check_round_end tr r = Some rr \<Longrightarrow>
     rr_round_number rr = rs_round_number r \<and> rr_total_turns rr = rs_turn_number r"
  by (auto simp: check_round_end_def Let_def split: if_splits)

lemma check_round_end_limit:
  "check_round_end tr r = None \<Longrightarrow> rs_turn_number r < TURN_LIMIT"
  by (auto simp: check_round_end_def Let_def split: if_splits)

subsection \<open>Match invariant\<close>

definition wins_of :: "round_winner \<Rightarrow> round_result list \<Rightarrow> int" where
  "wins_of w rs = int (length (filter (\<lambda>r. rr_winner r = w) rs))"

lemma wins_of_simps [simp]:
  "wins_of w [] = 0"
  "wins_of w (rs @ [r]) = wins_of w rs + (if rr_winner r = w then 1 else 0)"
  by (simp_all add: wins_of_def)

lemma wins_of_bounds: "0 \<le> wins_of w rs"
  by (simp add: wins_of_def)

definition round_ok :: "nat \<Rightarrow> round_state \<Rightarrow> bool" where
  "round_ok played r \<longleftrightarrow>
     rs_round_number r = int played + 1 \<and>
     0 \<le> rs_p1_ki r \<and> rs_p1_ki r \<le> KI_CAP \<and> 0 \<le> rs_p2_ki r \<and> rs_p2_ki r \<le> KI_CAP \<and>
     0 \<le> rs_turn_number r \<and> rs_turn_number r < TURN_LIMIT \<and>
     int (length (rs_turn_history r)) = rs_turn_number r"

definition score_ok :: "game_state \<Rightarrow> bool" where
  "score_ok s \<longleftrightarrow>
     gs_rounds_won_p1 s = wins_of WinP1 (round_results s) \<and>
     gs_rounds_won_p2 s = wins_of WinP2 (round_results s)"

definition match_inv :: "game_state \<Rightarrow> bool" where
  "match_inv s \<longleftrightarrow> score_ok s \<and>
     (case gs_status s of
        InProgress \<Rightarrow> length (round_results s) \<le> 2 \<and>
          gs_rounds_won_p1 s \<le> 1 \<and> gs_rounds_won_p2 s \<le> 1 \<and>
          (\<exists>r. current_round s = Some r \<and> round_ok (length (round_results s)) r)
      | Completed \<Rightarrow> current_round s = None \<and> length (round_results s) \<le> 3 \<and>
          gs_rounds_won_p1 s \<le> 2 \<and> gs_rounds_won_p2 s \<le> 2 \<and> check_match_end s \<noteq> None
      | Abandoned \<Rightarrow> True)"

lemma match_inv_start: "match_inv (start_match gid mt)"
  by (simp add: match_inv_def start_match_def start_new_round_def score_ok_def round_ok_def
      KI_CAP_def TURN_LIMIT_def)

lemma check_match_end_status [simp]: "check_match_end (s\<lparr>gs_status := x\<rparr>) = check_match_end s"
  by (simp add: check_match_end_def Let_def)

lemma round_ok_fresh:
  "round_ok n \<lparr>rs_round_number = int n + 1, rs_p1_ki = 0, rs_p2_ki = 0, rs_turn_number = 0,
     rs_turn_history = []\<rparr>"
  by (simp add: round_ok_def KI_CAP_def TURN_LIMIT_def)

lemma score_award:
  "score_ok s \<Longrightarrow> rr_winner rr = w \<Longrightarrow>
   score_ok ((award_round s w)\<lparr>round_results := round_results (award_round s w) @ [rr],
                               current_round := None\<rparr>)"
  by (cases w) (simp_all add: score_ok_def award_round_def)

lemma award_round_fields [simp]:
  "round_results (award_round s w) = round_results s"
  "gs_status (award_round s w) = gs_status s"
  "current_round (award_round s w) = current_round s"
  "game_id (award_round s w) = game_id s"
  by (cases w; simp add: award_round_def)+

lemma award_round_bounds:
  "gs_rounds_won_p1 s \<le> 1 \<Longrightarrow> gs_rounds_won_p1 (award_round s w) \<le> 2"
  "gs_rounds_won_p2 s \<le> 1 \<Longrightarrow> gs_rounds_won_p2 (award_round s w) \<le> 2"
  by (cases w; simp add: award_round_def)+


subsection \<open>Every accepted turn\<close>

text \<open>
  Inversion of \<open>submit_turn\<close>: an accepted turn is one of three kinds, each with
  the engine's exact next state.
\<close>

definition advance :: "round_state \<Rightarrow> turn_result \<Rightarrow> round_state" where
  "advance r tr = r\<lparr>rs_turn_number := rs_turn_number r + 1, rs_p1_ki := tr_p1_ki_after tr,
     rs_p2_ki := tr_p2_ki_after tr, rs_turn_history := rs_turn_history r @ [tr]\<rparr>"

definition close_round :: "game_state \<Rightarrow> round_result \<Rightarrow> game_state" where
  "close_round s rr = (award_round s (rr_winner rr))\<lparr>
     round_results := round_results s @ [rr], current_round := None\<rparr>"

lemma submit_turn_eq:
  assumes "gs_status s = InProgress" "current_round s = Some r"
    "validate_action a1 (rs_p1_ki r)" "validate_action a2 (rs_p2_ki r)"
    and tr: "tr = resolve_turn (rs_turn_number r + 1) a1 a2 (rs_p1_ki r) (rs_p2_ki r)"
  shows "submit_turn s a1 a2 =
    (case check_round_end tr (advance r tr) of
       None \<Rightarrow> Inr (s\<lparr>current_round := Some (advance r tr)\<rparr>, tr, None, None)
     | Some x \<Rightarrow> (case check_match_end (close_round s x) of
           Some m \<Rightarrow> Inr ((close_round s x)\<lparr>gs_status := Completed\<rparr>, tr, Some x, Some m)
         | None \<Rightarrow> Inr (start_new_round (close_round s x), tr, Some x, None)))"
  using assms(1-4) by (simp add: submit_turn_def Let_def advance_def close_round_def tr split: option.split)

lemma submit_turn_InrD:
  assumes "submit_turn s a1 a2 = Inr res"
  shows "gs_status s = InProgress \<and> (\<exists>r. current_round s = Some r \<and>
    validate_action a1 (rs_p1_ki r) \<and> validate_action a2 (rs_p2_ki r))"
  using assms by (auto simp: submit_turn_def split: if_splits option.splits)

lemma submit_turn_cases:
  assumes sub: "submit_turn s a1 a2 = Inr (s', tr, rr, mr)"
  obtains r where "gs_status s = InProgress" "current_round s = Some r"
    "validate_action a1 (rs_p1_ki r)" "validate_action a2 (rs_p2_ki r)"
    "tr = resolve_turn (rs_turn_number r + 1) a1 a2 (rs_p1_ki r) (rs_p2_ki r)"
    "check_round_end tr (advance r tr) = rr"
    "case rr of None \<Rightarrow> s' = s\<lparr>current_round := Some (advance r tr)\<rparr> \<and> mr = None
     | Some x \<Rightarrow> check_match_end (close_round s x) = mr \<and>
         s' = (case mr of None \<Rightarrow> start_new_round (close_round s x)
                | Some _ \<Rightarrow> (close_round s x)\<lparr>gs_status := Completed\<rparr>)"
proof -
  from submit_turn_InrD [OF sub] obtain r where r: "gs_status s = InProgress"
    "current_round s = Some r" "validate_action a1 (rs_p1_ki r)" "validate_action a2 (rs_p2_ki r)"
    by blast
  define t where "t = resolve_turn (rs_turn_number r + 1) a1 a2 (rs_p1_ki r) (rs_p2_ki r)"
  have "tr = t" and "check_round_end t (advance r t) = rr \<and>
    (case rr of None \<Rightarrow> s' = s\<lparr>current_round := Some (advance r t)\<rparr> \<and> mr = None
     | Some x \<Rightarrow> check_match_end (close_round s x) = mr \<and>
         s' = (case mr of None \<Rightarrow> start_new_round (close_round s x)
                | Some _ \<Rightarrow> (close_round s x)\<lparr>gs_status := Completed\<rparr>))"
    using sub unfolding submit_turn_eq [OF r t_def]
    by (cases "check_round_end t (advance r t)"; auto split: option.splits)+
  then show ?thesis
    using that [OF r] unfolding \<open>tr = t\<close> t_def by blast
qed

lemma submit_turn_accepts:
  assumes "gs_status s = InProgress" "current_round s = Some r"
    "validate_action a1 (rs_p1_ki r)" "validate_action a2 (rs_p2_ki r)"
  shows "\<exists>s' tr rr mr. submit_turn s a1 a2 = Inr (s', tr, rr, mr)"
  using assms by (simp add: submit_turn_def Let_def split: option.splits)

lemma round_ok_advance:
  assumes "round_ok n r" "tr = resolve_turn (rs_turn_number r + 1) a1 a2 (rs_p1_ki r) (rs_p2_ki r)"
    "check_round_end tr (advance r tr) = None"
  shows "round_ok n (advance r tr)"
proof -
  have "rs_turn_number (advance r tr) < TURN_LIMIT"
    using assms(3) by (rule check_round_end_limit)
  then show ?thesis
    using assms(1,2) resolve_turn_ki by (simp add: round_ok_def advance_def)
qed

lemma close_round_fields [simp]:
  "round_results (close_round s rr) = round_results s @ [rr]"
  "gs_status (close_round s rr) = gs_status s"
  "current_round (close_round s rr) = None"
  by (simp_all add: close_round_def)

lemma score_ok_close: "score_ok s \<Longrightarrow> score_ok (close_round s rr)"
  using score_award [of s rr] by (simp add: close_round_def)

lemma close_round_bounds:
  "gs_rounds_won_p1 s \<le> 1 \<Longrightarrow> gs_rounds_won_p1 (close_round s rr) \<le> 2"
  "gs_rounds_won_p2 s \<le> 1 \<Longrightarrow> gs_rounds_won_p2 (close_round s rr) \<le> 2"
  using award_round_bounds [of s "rr_winner rr"] by (simp_all add: close_round_def)

lemma check_match_end_None:
  "check_match_end s = None \<longleftrightarrow>
     gs_rounds_won_p1 s \<le> 1 \<and> gs_rounds_won_p2 s \<le> 1 \<and> length (round_results s) \<le> 2"
  by (auto simp: check_match_end_def Let_def ROUNDS_TO_WIN_def)

lemma start_new_round_fields [simp]:
  "round_results (start_new_round s) = round_results s"
  "gs_status (start_new_round s) = gs_status s"
  "gs_rounds_won_p1 (start_new_round s) = gs_rounds_won_p1 s"
  "gs_rounds_won_p2 (start_new_round s) = gs_rounds_won_p2 s"
  "score_ok (start_new_round s) = score_ok s"
  by (simp_all add: start_new_round_def score_ok_def)

lemma round_ok_start_new_round:
  "\<exists>r. current_round (start_new_round s) = Some r \<and> round_ok (length (round_results s)) r"
  using round_ok_fresh by (simp add: start_new_round_def)

lemma match_inv_new_round:
  assumes "score_ok s" "check_match_end s = None" "gs_status s = InProgress"
  shows "match_inv (start_new_round s)"
  using assms round_ok_start_new_round [of s] check_match_end_None [of s]
  by (auto simp: match_inv_def)

lemma match_inv_submit:
  assumes inv: "match_inv s" and sub: "submit_turn s a1 a2 = Inr (s', tr, rr, mr)"
  shows "match_inv s'"
  using sub
proof (cases rule: submit_turn_cases)
  case (1 r)
  from inv \<open>gs_status s = InProgress\<close> \<open>current_round s = Some r\<close>
  have ok: "score_ok s" "length (round_results s) \<le> 2" "gs_rounds_won_p1 s \<le> 1"
    "gs_rounds_won_p2 s \<le> 1" "round_ok (length (round_results s)) r"
    by (auto simp: match_inv_def)
  show ?thesis
  proof (cases rr)
    case None
    with 1 ok show ?thesis
      using round_ok_advance [of _ r tr a1 a2] by (auto simp: match_inv_def score_ok_def)
  next
    case (Some x)
    show ?thesis
    proof (cases mr)
      case None
      with 1 Some ok show ?thesis
        using score_ok_close [of s x] by (auto intro!: match_inv_new_round)
    next
      case (Some m)
      with 1 \<open>rr = Some x\<close> ok show ?thesis
        using score_ok_close [of s x] close_round_bounds [of s x]
        by (auto simp: match_inv_def score_ok_def)
    qed
  qed
qed

text \<open>The number of turns still available bounds the rest of the match.\<close>

definition turns_left :: "game_state \<Rightarrow> int" where
  "turns_left s = (if gs_status s \<noteq> InProgress then 0
     else case current_round s of None \<Rightarrow> 0
       | Some r \<Rightarrow> TURN_LIMIT * (3 - int (length (round_results s))) - rs_turn_number r)"

lemma turns_left_start: "turns_left (start_match gid mt) = 60"
  by (simp add: turns_left_def start_match_def start_new_round_def TURN_LIMIT_def)

lemma turns_left_pos: "match_inv s \<Longrightarrow> gs_status s = InProgress \<Longrightarrow> 0 < turns_left s"
  by (auto simp: match_inv_def turns_left_def round_ok_def TURN_LIMIT_def)

lemma turns_left_submit:
  assumes inv: "match_inv s" and sub: "submit_turn s a1 a2 = Inr (s', tr, rr, mr)"
  shows "turns_left s' < turns_left s"
  using sub
proof (cases rule: submit_turn_cases)
  case (1 r)
  with inv have "round_ok (length (round_results s)) r" "length (round_results s) \<le> 2"
    by (auto simp: match_inv_def)
  with 1 show ?thesis
    by (cases rr; cases mr)
      (auto simp: turns_left_def start_new_round_def advance_def round_ok_def TURN_LIMIT_def)
qed

text \<open>A whole match, played by two lists of moves.\<close>

fun play :: "game_state \<Rightarrow> (action \<times> action) list \<Rightarrow> string + game_state" where
  "play s [] = Inr s"
| "play s ((a1, a2) # ms) =
     (case submit_turn s a1 a2 of Inl e \<Rightarrow> Inl e | Inr (s', _) \<Rightarrow> play s' ms)"

lemma play_inv: "match_inv s \<Longrightarrow> play s ms = Inr s' \<Longrightarrow> match_inv s'"
  by (induction s ms rule: play.induct) (auto split: sum.splits dest: match_inv_submit)

lemma play_snoc:
  "play s ms = Inr s' \<Longrightarrow> play s (ms @ [(a1, a2)]) =
     (case submit_turn s' a1 a2 of Inl e \<Rightarrow> Inl e | Inr (s2, _) \<Rightarrow> Inr s2)"
  by (induction s ms rule: play.induct) (auto split: sum.splits)

lemma turns_left_nonneg: "match_inv s \<Longrightarrow> 0 \<le> turns_left s"
  using turns_left_pos [of s] by (cases "gs_status s") (auto simp: turns_left_def)

lemma play_bounded:
  "match_inv s \<Longrightarrow> play s ms = Inr s' \<Longrightarrow> int (length ms) + turns_left s' \<le> turns_left s"
proof (induction s ms rule: play.induct)
  case (1 s)
  then show ?case by simp
next
  case (2 s a1 a2 ms)
  then obtain s1 tr rr mr where sub: "submit_turn s a1 a2 = Inr (s1, tr, rr, mr)"
    and rest: "play s1 ms = Inr s'"
    by (auto split: sum.splits)
  from 2(2) sub have "match_inv s1" "turns_left s1 < turns_left s"
    by (auto intro: match_inv_submit turns_left_submit)
  with 2(1) [OF sub refl] rest show ?case by simp
qed


subsection \<open>What the clients rely on\<close>



text \<open>Claim C3: The score is sound in every reachable state of a match: the rounds won by each side
  are the recorded rounds it won, at most three rounds are played, ki stays between 0 and its cap,
  and a match is completed only with its result (two rounds won by a side, or three rounds played).\<close>

theorem match_score_sound:
  assumes "play (start_match gid mt) ms = Inr s"
  shows "gs_rounds_won_p1 s = wins_of WinP1 (round_results s) \<and>
    gs_rounds_won_p2 s = wins_of WinP2 (round_results s) \<and>
    (gs_status s = InProgress \<longrightarrow> length (round_results s) \<le> 2 \<and> check_match_end s = None \<and>
       (\<exists>r. current_round s = Some r \<and> 0 \<le> rs_p1_ki r \<and> rs_p1_ki r \<le> KI_CAP \<and>
            0 \<le> rs_p2_ki r \<and> rs_p2_ki r \<le> KI_CAP \<and> rs_turn_number r < TURN_LIMIT)) \<and>
    (gs_status s = Completed \<longrightarrow> length (round_results s) \<le> 3 \<and> current_round s = None \<and>
       check_match_end s \<noteq> None)"
  using play_inv [OF match_inv_start assms] check_match_end_None [of s]
  by (auto simp: match_inv_def score_ok_def round_ok_def)

theorem match_score_sound_witness:
  "\<exists>s. play (start_match ''g'' ''pvp'') [] = Inr s \<and> gs_rounds_won_p1 s = wins_of WinP1 (round_results s)"
  using match_score_sound [of "''g''" "''pvp''" "[]"] by auto

end
