(* ===== verification/Json.thy ===== *)
theory Json
  imports Prelude
begin

text \<open>
  JSON values as \<open>JSON.parse\<close> yields them, with the operations the clients
  apply: property access, truth value, conversion to a string.  Numbers are
  integers (the clients exchange no others); an object lists its properties in
  order, without repeated names.  A missing property reads as \<open>None\<close>
  (\<open>undefined\<close>).
\<close>

datatype json =
    JNull
  | JBool bool
  | JNum int
  | JStr string
  | JArr "json list"
  | JObj "(string \<times> json) list"

definition type_error :: js_thrown where
  "type_error = Js_Error ''Cannot read properties of null''"

definition jprop :: "json \<Rightarrow> string \<Rightarrow> js_thrown + json option" where
  "jprop j k = (case j of JNull \<Rightarrow> Inl type_error | JObj ps \<Rightarrow> Inr (map_of ps k) | _ \<Rightarrow> Inr None)"

text \<open>Optional chaining \<open>j?.k\<close> on a possibly undefined value.\<close>

definition jopt :: "json option \<Rightarrow> string \<Rightarrow> json option" where
  "jopt j k = (case j of Some (JObj ps) \<Rightarrow> map_of ps k | _ \<Rightarrow> None)"

fun jtruthy :: "json option \<Rightarrow> bool" where
  "jtruthy None = False"
| "jtruthy (Some JNull) = False"
| "jtruthy (Some (JBool b)) = b"
| "jtruthy (Some (JNum n)) = (n \<noteq> 0)"
| "jtruthy (Some (JStr s)) = (s \<noteq> [])"
| "jtruthy (Some (JArr _)) = True"
| "jtruthy (Some (JObj _)) = True"

fun join_comma :: "string list \<Rightarrow> string" where
  "join_comma [] = []"
| "join_comma [x] = x"
| "join_comma (x # y # zs) = x @ '','' @ join_comma (y # zs)"

fun js_str :: "json \<Rightarrow> string" where
  "js_str JNull = ''null''"
| "js_str (JBool b) = (if b then ''true'' else ''false'')"
| "js_str (JNum n) = show_int n"
| "js_str (JStr s) = s"
| "js_str (JArr xs) = join_comma (map (\<lambda>x. if x = JNull then [] else js_str x) xs)"
| "js_str (JObj _) = ''[object Object]''"

definition js_str_opt :: "json option \<Rightarrow> string" where
  "js_str_opt j = (case j of None \<Rightarrow> ''undefined'' | Some x \<Rightarrow> js_str x)"

lemma js_str_opt_simps [simp]:
  "js_str_opt None = ''undefined''"
  "js_str_opt (Some x) = js_str x"
  by (simp_all add: js_str_opt_def)

lemma jprop_simps [simp]:
  "jprop JNull k = Inl type_error"
  "jprop (JObj ps) k = Inr (map_of ps k)"
  "jprop (JBool b) k = Inr None"
  "jprop (JNum n) k = Inr None"
  "jprop (JStr s) k = Inr None"
  "jprop (JArr xs) k = Inr None"
  by (simp_all add: jprop_def)

lemma jopt_simps [simp]:
  "jopt None k = None"
  "jopt (Some (JObj ps)) k = map_of ps k"
  "jopt (Some JNull) k = None"
  by (simp_all add: jopt_def)

end
