(* ===== verification/Storage.thy ===== *)
theory Storage
  imports Prelude
begin

text \<open>
  String key-value stores: the interface both API clients persist their session
  through, its laws, and its model for the browser's \<open>localStorage\<close>.
\<close>

text \<open>The keys of one signed-in session (\<open>lib/api.ts\<close>, web and mobile).\<close>

definition K_TOKEN :: string where "K_TOKEN = ''ki_clash_token''"
definition K_REFRESH :: string where "K_REFRESH = ''ki_clash_refresh''"
definition K_PLAYER :: string where "K_PLAYER = ''ki_clash_player_id''"
definition K_NAME :: string where "K_NAME = ''ki_clash_display_name''"

definition session_keys :: "string list" where
  "session_keys = [K_TOKEN, K_REFRESH, K_PLAYER, K_NAME]"

lemmas key_defs = K_TOKEN_def K_REFRESH_def K_PLAYER_def K_NAME_def

lemma session_keys_distinct: "distinct session_keys"
  by (simp add: session_keys_def key_defs)

locale key_store =
  fixes get :: "'s \<Rightarrow> string \<Rightarrow> string option"
    and put :: "string \<Rightarrow> string \<Rightarrow> 's \<Rightarrow> 's"
    and remove :: "string \<Rightarrow> 's \<Rightarrow> 's"
  assumes get_put: "get (put k v s) k' = (if k' = k then Some v else get s k')"
    and get_remove: "get (remove k s) k' = (if k' = k then None else get s k')"
begin

lemma get_remove_all:
  "get (fold remove ks s) k = (if k \<in> set ks then None else get s k)"
  by (induction ks arbitrary: s) (auto simp: get_remove)

lemma get_put_all:
  "distinct (map fst kvs) \<Longrightarrow>
   get (fold (\<lambda>(k, v). put k v) kvs s) k =
     (case map_of kvs k of Some v \<Rightarrow> Some v | None \<Rightarrow> get s k)"
proof (induction kvs arbitrary: s)
  case Nil
  then show ?case by simp
next
  case (Cons p kvs)
  then have "fst p \<notin> set (map fst kvs)" by simp
  then have "map_of kvs (fst p) = None"
    by (simp only: map_of_eq_None_iff set_map not_False_eq_True)
  with Cons show ?case
    by (cases p) (auto simp: get_put split: option.splits)
qed

end

subsection \<open>\<open>localStorage\<close>\<close>

type_synonym local_storage = "string \<Rightarrow> string option"

definition st_get :: "local_storage \<Rightarrow> string \<Rightarrow> string option" where
  "st_get s k = s k"

definition st_put :: "string \<Rightarrow> string \<Rightarrow> local_storage \<Rightarrow> local_storage" where
  "st_put k v s = s(k := Some v)"

definition st_remove :: "string \<Rightarrow> local_storage \<Rightarrow> local_storage" where
  "st_remove k s = s(k := None)"

interpretation ls: key_store st_get st_put st_remove
  by unfold_locales (simp_all add: st_get_def st_put_def st_remove_def)

end
