(* ===== verification/Api_Client.thy ===== *)
theory Api_Client
  imports Api_Types Json Storage
begin

text \<open>
  The web API client, \<open>web/src/lib/api.ts\<close>.  Its world is the browser: whether
  \<open>window\<close> exists, \<open>localStorage\<close>, the backend's state and the log of the
  requests sent.  The backend behind \<open>fetch\<close> is a parameter: it answers each
  request, from its own state, with a rejection or a status and the outcome of
  \<open>res.json()\<close>.  A request body is kept as the value given to
  \<open>JSON.stringify\<close>.
\<close>

record request_init =
  ri_method :: "string option"
  ri_headers :: "string \<Rightarrow> string option"
  ri_body :: "json option"

record http_request =
  rq_url :: string
  rq_method :: string
  rq_headers :: "string \<Rightarrow> string option"
  rq_body :: "json option"

datatype fetch_outcome = Rejected js_thrown | Response int "js_thrown + json"

type_synonym 'srv backend = "http_request \<Rightarrow> 'srv \<Rightarrow> fetch_outcome \<times> 'srv"

record 'srv net =
  net_env :: "string option"
  net_fetch :: "'srv backend"

record 'srv web_world =
  ww_window :: bool
  ww_storage :: local_storage
  ww_server :: 'srv
  ww_log :: "http_request list"

definition API_BASE :: "'srv net \<Rightarrow> string" where
  "API_BASE net = or_else (net_env net) ''http://localhost:8000''"

subsection \<open>Token management\<close>

definition ls_write :: "(local_storage \<Rightarrow> local_storage) \<Rightarrow> ('srv web_world, unit) eff" where
  "ls_write f = (\<lambda>w. if ww_window w then (Inr (), w\<lparr>ww_storage := f (ww_storage w)\<rparr>)
                     else (Inl (Js_Error ''localStorage is not defined''), w))"

definition ls_read :: "string \<Rightarrow> 'srv web_world \<Rightarrow> string option" where
  "ls_read k w = (if \<not> ww_window w then None else st_get (ww_storage w) k)"

definition getToken :: "'srv web_world \<Rightarrow> string option" where
  "getToken w = ls_read ''ki_clash_token'' w"

definition setTokens :: "string \<Rightarrow> string \<Rightarrow> ('srv web_world, unit) eff" where
  "setTokens access refresh =
     bindE (ls_write (st_put ''ki_clash_token'' access)) (\<lambda>_.
       ls_write (st_put ''ki_clash_refresh'' refresh))"

definition getPlayerId :: "'srv web_world \<Rightarrow> string option" where
  "getPlayerId w = ls_read ''ki_clash_player_id'' w"

definition getDisplayName :: "'srv web_world \<Rightarrow> string option" where
  "getDisplayName w = ls_read ''ki_clash_display_name'' w"

definition isLoggedIn :: "'srv web_world \<Rightarrow> bool" where
  "isLoggedIn w \<longleftrightarrow> getToken w \<noteq> None"

definition logout :: "('srv web_world, unit) eff" where
  "logout =
     bindE (ls_write (st_remove ''ki_clash_token'')) (\<lambda>_.
     bindE (ls_write (st_remove ''ki_clash_refresh'')) (\<lambda>_.
     bindE (ls_write (st_remove ''ki_clash_player_id'')) (\<lambda>_.
       ls_write (st_remove ''ki_clash_display_name''))))"

subsection \<open>HTTP helpers\<close>

definition no_options :: request_init where
  "no_options = \<lparr>ri_method = None, ri_headers = (\<lambda>_. None), ri_body = None\<rparr>"

definition post_options :: request_init where
  "post_options = no_options\<lparr>ri_method := Some ''POST''\<rparr>"

definition with_body :: "string \<Rightarrow> (string \<times> json) list \<Rightarrow> request_init" where
  "with_body m kvs = no_options\<lparr>ri_method := Some m, ri_body := Some (JObj kvs)\<rparr>"

definition guest_path :: string where "guest_path = ''/api/v1/auth/guest''"

definition request_headers :: "request_init \<Rightarrow> string option \<Rightarrow> (string \<Rightarrow> string option)" where
  "request_headers options token =
     (let headers = [''Content-Type'' \<mapsto> ''application/json''] ++ ri_headers options
      in if truthy token then headers(''Authorization'' \<mapsto> ''Bearer '' @ the token) else headers)"

definition mk_request :: "'srv net \<Rightarrow> string \<Rightarrow> request_init \<Rightarrow> string option \<Rightarrow> http_request" where
  "mk_request net path options token =
     \<lparr>rq_url = API_BASE net @ path, rq_method = or_else (ri_method options) ''GET'',
      rq_headers = request_headers options token, rq_body = ri_body options\<rparr>"

definition fetch ::
  "'srv net \<Rightarrow> http_request \<Rightarrow> ('srv web_world, int \<times> (js_thrown + json)) eff" where
  "fetch net rq = (\<lambda>w.
     let (out, srv) = net_fetch net rq (ww_server w);
         w' = w\<lparr>ww_server := srv, ww_log := ww_log w @ [rq]\<rparr>
     in case out of Rejected e \<Rightarrow> (Inl e, w') | Response status body \<Rightarrow> (Inr (status, body), w'))"

definition res_ok :: "int \<Rightarrow> bool" where
  "res_ok status \<longleftrightarrow> 200 \<le> status \<and> status \<le> 299"

definition api_error :: "int \<Rightarrow> js_thrown + json \<Rightarrow> js_thrown" where
  "api_error status body =
     (let b = (case body of Inl _ \<Rightarrow> JObj [] | Inr j \<Rightarrow> j);
          m = jopt (jopt (Some b) ''error'') ''message''
      in Js_Error (if jtruthy m then js_str_opt m else ''API error: '' @ show_int status))"

definition store_session :: "json \<Rightarrow> ('srv web_world, unit) eff" where
  "store_session d =
     (case jprop d ''access_token'' of Inl e \<Rightarrow> throwE e
      | Inr access \<Rightarrow>
        (case jprop d ''refresh_token'' of Inl e \<Rightarrow> throwE e
         | Inr refresh \<Rightarrow>
           bindE (setTokens (js_str_opt access) (js_str_opt refresh)) (\<lambda>_.
             (case jprop d ''player_id'' of Inl e \<Rightarrow> throwE e
              | Inr pid \<Rightarrow>
                bindE (ls_write (st_put ''ki_clash_player_id'' (js_str_opt pid))) (\<lambda>_.
                  (case jprop d ''display_name'' of Inl e \<Rightarrow> throwE e
                   | Inr nm \<Rightarrow> ls_write (st_put ''ki_clash_display_name'' (js_str_opt nm))))))))"

text \<open>
  \<open>apiFetchInternal\<close> and \<open>createGuestSession\<close> call each other; the guest path is
  never healed, which is why the recursion ends.
\<close>

function (sequential)
  apiFetchInternal :: "'srv net \<Rightarrow> string \<Rightarrow> request_init \<Rightarrow> bool \<Rightarrow> ('srv web_world, json) eff" and
  createGuestSession :: "'srv net \<Rightarrow> ('srv web_world, json) eff"
where
  "apiFetchInternal net path options allowAuthRetry w =
     (case fetch net (mk_request net path options (getToken w)) w of
        (Inl e, w1) \<Rightarrow> (Inl e, w1)
      | (Inr (status, body), w1) \<Rightarrow>
          if status = 401 \<and> allowAuthRetry \<and> path \<noteq> guest_path then
            (case logout w1 of
               (Inl e, w2) \<Rightarrow> (Inl e, w2)
             | (Inr _, w2) \<Rightarrow>
                 (case createGuestSession net w2 of
                    (Inl e, w3) \<Rightarrow> (Inl e, w3)
                  | (Inr _, w3) \<Rightarrow> apiFetchInternal net path options False w3))
          else if \<not> res_ok status then (Inl (api_error status body), w1)
          else (body, w1))"
| "createGuestSession net w =
     (case apiFetchInternal net guest_path post_options True w of
        (Inl e, w1) \<Rightarrow> (Inl e, w1)
      | (Inr d, w1) \<Rightarrow>
          (case store_session d w1 of
             (Inl e, w2) \<Rightarrow> (Inl e, w2)
           | (Inr _, w2) \<Rightarrow> (Inr d, w2)))"
  by pat_completeness auto
termination
  by (relation "measure (\<lambda>x. case x of
        Inl (net, path, options, allow, w) \<Rightarrow> (if allow \<and> path \<noteq> guest_path then 2 else 0)
      | Inr (net, w) \<Rightarrow> (1::nat))") auto

declare apiFetchInternal.simps [simp del] createGuestSession.simps [simp del]

definition apiFetch :: "'srv net \<Rightarrow> string \<Rightarrow> request_init \<Rightarrow> ('srv web_world, json) eff" where
  "apiFetch net path options = apiFetchInternal net path options True"

definition ensureAuth :: "'srv net \<Rightarrow> ('srv web_world, unit) eff" where
  "ensureAuth net = (\<lambda>w.
     if \<not> isLoggedIn w then bindE (createGuestSession net) (\<lambda>_. returnE ()) w else (Inr (), w))"

subsection \<open>API methods\<close>

definition createAIGame :: "'srv net \<Rightarrow> difficulty \<Rightarrow> ('srv web_world, json) eff" where
  "createAIGame net d = apiFetch net ''/api/v1/games/ai''
     (with_body ''POST'' [(''difficulty'', JStr (difficulty_str d))])"

definition getGameState :: "'srv net \<Rightarrow> string \<Rightarrow> ('srv web_world, json) eff" where
  "getGameState net gid = apiFetch net (''/api/v1/games/'' @ gid) no_options"

definition submitAction :: "'srv net \<Rightarrow> string \<Rightarrow> action \<Rightarrow> ('srv web_world, json) eff" where
  "submitAction net gid a = apiFetch net (''/api/v1/games/'' @ gid @ ''/action'')
     (with_body ''POST'' [(''action'', JStr (action_str a))])"

definition getMyProfile :: "'srv net \<Rightarrow> ('srv web_world, json) eff" where
  "getMyProfile net = apiFetch net ''/api/v1/players/me'' no_options"

definition getMatchHistory :: "'srv net \<Rightarrow> ('srv web_world, json) eff" where
  "getMatchHistory net = apiFetch net ''/api/v1/players/me/matches'' no_options"

definition getLeaderboard :: "'srv net \<Rightarrow> int option \<Rightarrow> ('srv web_world, json) eff" where
  "getLeaderboard net limit =
     apiFetch net (''/api/v1/ranked/leaderboard?limit='' @ show_int (nullish limit 50)) no_options"

definition getMyRank :: "'srv net \<Rightarrow> ('srv web_world, json) eff" where
  "getMyRank net = apiFetch net ''/api/v1/ranked/me'' no_options"

definition getAdFreeStatus :: "'srv net \<Rightarrow> ('srv web_world, json) eff" where
  "getAdFreeStatus net = apiFetch net ''/api/v1/purchases/ad-free-status'' no_options"

definition checkout_options :: "string \<Rightarrow> string \<Rightarrow> request_init" where
  "checkout_options successUrl cancelUrl =
     with_body ''POST'' [(''success_url'', JStr successUrl), (''cancel_url'', JStr cancelUrl)]"

definition createAdFreeCheckout :: "'srv net \<Rightarrow> string \<Rightarrow> string \<Rightarrow> ('srv web_world, json) eff" where
  "createAdFreeCheckout net successUrl cancelUrl =
     apiFetch net ''/api/v1/purchases/checkout/ad-free'' (checkout_options successUrl cancelUrl)"

definition createFounderPassCheckout :: "'srv net \<Rightarrow> string \<Rightarrow> string \<Rightarrow> ('srv web_world, json) eff" where
  "createFounderPassCheckout net successUrl cancelUrl =
     apiFetch net ''/api/v1/purchases/checkout/founder-pass'' (checkout_options successUrl cancelUrl)"

definition room_path :: "string \<Rightarrow> string \<Rightarrow> string" where
  "room_path code suffix = ''/api/v1/rooms/'' @ to_upper code @ suffix"

definition createRoom :: "'srv net \<Rightarrow> ('srv web_world, json) eff" where
  "createRoom net = apiFetch net ''/api/v1/rooms'' post_options"

definition getRoom :: "'srv net \<Rightarrow> string \<Rightarrow> ('srv web_world, json) eff" where
  "getRoom net code = apiFetch net (room_path code []) no_options"

definition joinRoom :: "'srv net \<Rightarrow> string \<Rightarrow> ('srv web_world, json) eff" where
  "joinRoom net code = apiFetch net (room_path code ''/join'') post_options"

definition setRoomCharacter :: "'srv net \<Rightarrow> string \<Rightarrow> string \<Rightarrow> ('srv web_world, json) eff" where
  "setRoomCharacter net code characterId = apiFetch net (room_path code ''/character'')
     (with_body ''PUT'' [(''character_id'', JStr characterId)])"

definition setRoomReady :: "'srv net \<Rightarrow> string \<Rightarrow> bool \<Rightarrow> ('srv web_world, json) eff" where
  "setRoomReady net code ready = apiFetch net (room_path code ''/ready'')
     (with_body ''PUT'' [(''ready'', JBool ready)])"

definition startRoomGame :: "'srv net \<Rightarrow> string \<Rightarrow> ('srv web_world, json) eff" where
  "startRoomGame net code = apiFetch net (room_path code ''/start'') post_options"

definition leaveRoom :: "'srv net \<Rightarrow> string \<Rightarrow> ('srv web_world, unit) eff" where
  "leaveRoom net code = bindE (apiFetch net (room_path code ''/leave'') post_options) (\<lambda>_. returnE ())"

end
