(* ===== verification/Api_Session.thy ===== *)
theory Api_Session
  imports Api_Client
begin

text \<open>
  Facts about the web API client: what \<open>logout\<close> and \<open>store_session\<close> do to
  \<open>localStorage\<close> (through the key-value interface), the closed form of a call
  that cannot retry, and the healing of an expired token.
\<close>

lemma ls_write_simps [simp]:
  "ww_window w \<Longrightarrow> ls_write f w = (Inr (), w\<lparr>ww_storage := f (ww_storage w)\<rparr>)"
  "\<not> ww_window w \<Longrightarrow> ls_write f w = (Inl (Js_Error ''localStorage is not defined''), w)"
  by (simp_all add: ls_write_def)

lemma logout_window:
  "ww_window w \<Longrightarrow>
   logout w = (Inr (), w\<lparr>ww_storage := fold st_remove session_keys (ww_storage w)\<rparr>)"
  by (simp add: logout_def bindE_def session_keys_def key_defs)

lemma logout_no_window:
  "\<not> ww_window w \<Longrightarrow> logout w = (Inl (Js_Error ''localStorage is not defined''), w)"
  by (simp add: logout_def bindE_def)

lemma logout_get:
  "ww_window w \<Longrightarrow> logout w = (r, w') \<Longrightarrow>
   st_get (ww_storage w') k = (if k \<in> set session_keys then None else st_get (ww_storage w) k)"
  by (auto simp: logout_window ls.get_remove_all)

text \<open>The session that the four properties of a guest response describe.\<close>

definition session_of :: "(string \<times> json) list \<Rightarrow> (string \<times> string) list" where
  "session_of ps =
     [(K_TOKEN, js_str_opt (map_of ps ''access_token'')),
      (K_REFRESH, js_str_opt (map_of ps ''refresh_token'')),
      (K_PLAYER, js_str_opt (map_of ps ''player_id'')),
      (K_NAME, js_str_opt (map_of ps ''display_name''))]"

lemma session_of_keys: "map fst (session_of ps) = session_keys"
  by (simp add: session_of_def session_keys_def)

definition props :: "json \<Rightarrow> (string \<times> json) list" where
  "props d = (case d of JObj ps \<Rightarrow> ps | _ \<Rightarrow> [])"

lemma props_simps [simp]: "props (JObj ps) = ps"
  by (simp add: props_def)

lemma jprop_props: "d \<noteq> JNull \<Longrightarrow> jprop d k = Inr (map_of (props d) k)"
  by (cases d) (simp_all add: props_def)

lemma store_session_window:
  "ww_window w \<Longrightarrow> d \<noteq> JNull \<Longrightarrow> store_session d w =
     (Inr (), w\<lparr>ww_storage := fold (\<lambda>(k, v). st_put k v) (session_of (props d)) (ww_storage w)\<rparr>)"
  by (simp add: store_session_def setTokens_def bindE_def session_of_def key_defs jprop_props)

lemma store_session_fails:
  "\<not> ww_window w \<or> d = JNull \<Longrightarrow> \<exists>e. store_session d w = (Inl e, w)"
  by (cases "d = JNull")
    (auto simp: store_session_def setTokens_def bindE_def throwE_def jprop_props)

lemma store_session_get:
  "ww_window w \<Longrightarrow> store_session (JObj ps) w = (r, w') \<Longrightarrow>
   st_get (ww_storage w') k =
     (case map_of (session_of ps) k of Some v \<Rightarrow> Some v | None \<Rightarrow> st_get (ww_storage w) k)"
  using session_keys_distinct
  by (auto simp: store_session_window ls.get_put_all session_of_keys)

lemma store_session_ok:
  assumes "store_session d w = (Inr u, w')"
  shows "ww_window w \<and> ww_window w' \<and> ww_log w' = ww_log w \<and> getToken w' \<noteq> None"
proof -
  from assms store_session_fails [of w d] have "ww_window w" "d \<noteq> JNull" by auto
  with assms have "w' = w\<lparr>ww_storage := fold (\<lambda>(k, v). st_put k v) (session_of (props d)) (ww_storage w)\<rparr>"
    by (simp add: store_session_window)
  with \<open>ww_window w\<close> show ?thesis
    by (simp add: getToken_def ls_read_def session_of_def key_defs st_put_def st_get_def)
qed

lemma store_session_log: "ww_log (snd (store_session d w)) = ww_log w"
  using store_session_fails [of w d]
  by (cases "ww_window w \<and> d \<noteq> JNull") (auto simp: store_session_window)

lemma store_session_logD: "store_session d w = (r, w') \<Longrightarrow> ww_log w' = ww_log w"
  using store_session_log [of d w] by simp

lemma logout_log: "ww_log (snd (logout w)) = ww_log w"
  by (cases "ww_window w") (simp_all add: logout_window logout_no_window)

subsection \<open>A call that cannot retry\<close>

definition http_once :: "'srv net \<Rightarrow> string \<Rightarrow> request_init \<Rightarrow> ('srv web_world, json) eff" where
  "http_once net path options w =
     (case fetch net (mk_request net path options (getToken w)) w of
        (Inl e, w1) \<Rightarrow> (Inl e, w1)
      | (Inr (status, body), w1) \<Rightarrow>
          if \<not> res_ok status then (Inl (api_error status body), w1) else (body, w1))"

lemma apiFetchInternal_once:
  "\<not> allow \<or> path = guest_path \<Longrightarrow>
   apiFetchInternal net path options allow w = http_once net path options w"
  by (auto simp: apiFetchInternal.simps http_once_def split: prod.splits sum.splits)

lemma createGuestSession_once:
  "createGuestSession net w =
     (case http_once net guest_path post_options w of
        (Inl e, w1) \<Rightarrow> (Inl e, w1)
      | (Inr d, w1) \<Rightarrow>
          (case store_session d w1 of (Inl e, w2) \<Rightarrow> (Inl e, w2) | (Inr _, w2) \<Rightarrow> (Inr d, w2)))"
  by (simp add: createGuestSession.simps apiFetchInternal_once)

lemma apiFetch_unfold:
  "path \<noteq> guest_path \<Longrightarrow> apiFetch net path options w =
     (case fetch net (mk_request net path options (getToken w)) w of
        (Inl e, w1) \<Rightarrow> (Inl e, w1)
      | (Inr (status, body), w1) \<Rightarrow>
          if status = 401 then
            (case logout w1 of
               (Inl e, w2) \<Rightarrow> (Inl e, w2)
             | (Inr _, w2) \<Rightarrow>
                 (case createGuestSession net w2 of
                    (Inl e, w3) \<Rightarrow> (Inl e, w3)
                  | (Inr _, w3) \<Rightarrow> http_once net path options w3))
          else if \<not> res_ok status then (Inl (api_error status body), w1)
          else (body, w1))"
  by (simp add: apiFetch_def apiFetchInternal.simps [of net path options True]
      apiFetchInternal_once split: prod.split sum.split)

subsection \<open>The request log\<close>

definition sends :: "('srv web_world \<Rightarrow> 'a \<times> 'srv web_world) \<Rightarrow> 'srv web_world \<Rightarrow> nat \<Rightarrow> string set \<Rightarrow> bool" where
  "sends f w n urls \<longleftrightarrow>
     (\<exists>rs. ww_log (snd (f w)) = ww_log w @ rs \<and> length rs \<le> n \<and> set (map rq_url rs) \<subseteq> urls)"

lemma sends_trans:
  assumes "ww_log w1 = ww_log w @ rs" "length rs \<le> k" "set (map rq_url rs) \<subseteq> urls"
    "sends f w1 n urls" "snd (f w1) = snd (g w)"
  shows "sends g w (k + n) urls"
proof -
  from assms(4,5) obtain qs where "ww_log (snd (g w)) = ww_log w1 @ qs" "length qs \<le> n"
    "set (map rq_url qs) \<subseteq> urls"
    by (auto simp: sends_def)
  with assms(1-3) show ?thesis
    unfolding sends_def by (intro exI [of _ "rs @ qs"]) auto
qed

lemma fetch_log: "ww_log (snd (fetch net rq w)) = ww_log w @ [rq]"
  by (simp add: fetch_def Let_def split: prod.splits fetch_outcome.splits)

lemma fetch_frame:
  "ww_storage (snd (fetch net rq w)) = ww_storage w"
  "ww_window (snd (fetch net rq w)) = ww_window w"
  by (simp_all add: fetch_def Let_def split: prod.splits fetch_outcome.splits)

lemma http_once_state:
  "snd (http_once net path options w) = snd (fetch net (mk_request net path options (getToken w)) w)"
  by (auto simp: http_once_def split: prod.splits sum.splits)

lemma http_once_log:
  "ww_log (snd (http_once net path options w)) =
     ww_log w @ [mk_request net path options (getToken w)]"
  by (simp add: http_once_state fetch_log)

lemma http_once_frame:
  "ww_storage (snd (http_once net path options w)) = ww_storage w"
  "ww_window (snd (http_once net path options w)) = ww_window w"
  by (simp_all add: http_once_state fetch_frame)

lemma createGuestSession_log:
  "ww_log (snd (createGuestSession net w)) =
     ww_log w @ [mk_request net guest_path post_options (getToken w)]"
proof -
  obtain r w1 where h: "http_once net guest_path post_options w = (r, w1)" by (cases "http_once net guest_path post_options w")
  with http_once_log [of net guest_path post_options w]
  have "ww_log w1 = ww_log w @ [mk_request net guest_path post_options (getToken w)]" by simp
  then show ?thesis
    using h by (auto simp: createGuestSession_once dest: store_session_logD
        split: sum.splits prod.splits)
qed

lemma mk_request_url [simp]: "rq_url (mk_request net path options t) = API_BASE net @ path"
  by (simp add: mk_request_def)

lemma fetch_Response:
  "net_fetch net rq (ww_server w) = (Response st b, srv) \<Longrightarrow>
   fetch net rq w = (Inr (st, b), w\<lparr>ww_server := srv, ww_log := ww_log w @ [rq]\<rparr>)"
  by (simp add: fetch_def)

lemma fetch_Rejected:
  "net_fetch net rq (ww_server w) = (Rejected e, srv) \<Longrightarrow>
   fetch net rq w = (Inl e, w\<lparr>ww_server := srv, ww_log := ww_log w @ [rq]\<rparr>)"
  by (simp add: fetch_def)

lemma getToken_update [simp]:
  "getToken (w\<lparr>ww_server := srv\<rparr>) = getToken w"
  "getToken (w\<lparr>ww_log := l\<rparr>) = getToken w"
  "getToken (w\<lparr>ww_server := srv, ww_log := l\<rparr>) = getToken w"
  by (simp_all add: getToken_def ls_read_def)

lemma getToken_logged_out:
  "ww_window w \<Longrightarrow>
   getToken (w\<lparr>ww_storage := fold st_remove session_keys (ww_storage w)\<rparr>) = None"
  by (simp add: getToken_def ls_read_def ls.get_remove session_keys_def key_defs)

lemma session_token:
  "map_of (session_of ps) ''ki_clash_token'' = Some (js_str_opt (map_of ps ''access_token''))"
  by (simp add: session_of_def key_defs)

subsection \<open>Properties of the client\<close>

text \<open>
  Claim C6: one API call never sends more than three requests (the call, one
  guest sign-in, one retry), the first of which carries the stored token, and
  every one of them goes to the call's own URL or to the guest sign-in.
\<close>

theorem apiFetch_at_most_three:
  "\<exists>rs. ww_log (snd (apiFetch net path options w)) = ww_log w @ rs \<and> 1 \<le> length rs \<and> length rs \<le> 3 \<and>
        hd rs = mk_request net path options (getToken w) \<and>
        set (map rq_url rs) \<subseteq> {API_BASE net @ path, API_BASE net @ guest_path}"
proof (cases "path = guest_path")
  case True
  then show ?thesis
    by (simp add: apiFetch_def apiFetchInternal_once http_once_log)
next
  case False
  let ?q = "mk_request net path options (getToken w)"
  obtain r w1 where f: "fetch net ?q w = (r, w1)" by (cases "fetch net ?q w")
  with fetch_log [of net ?q w] have l1: "ww_log w1 = ww_log w @ [?q]" by simp
  obtain lr w2 where lo: "logout w1 = (lr, w2)" by (cases "logout w1")
  with logout_log [of w1] l1 have l2: "ww_log w2 = ww_log w @ [?q]" by simp
  obtain gr w3 where g: "createGuestSession net w2 = (gr, w3)"
    by (cases "createGuestSession net w2")
  with createGuestSession_log [of net w2] l2
  have l3: "ww_log w3 = ww_log w @ [?q, mk_request net guest_path post_options (getToken w2)]"
    by simp
  show ?thesis
    unfolding apiFetch_unfold [OF False] f prod.case
    using l1 l2 l3 http_once_log [of net path options w3]
    by (auto simp: lo g split: sum.splits prod.splits)
qed

text \<open>
  Claim C7: an expired token is healed.  When the backend answers 401, the client
  signs in as a new guest without a token, stores the four session values, and
  returns the answer to the same request sent again with the new token.
\<close>

theorem apiFetch_heals_expired_token:
  assumes "ww_window w" "path \<noteq> guest_path"
    and "net_fetch net (mk_request net path options (getToken w)) (ww_server w) = (Response 401 b, s1)"
    and "net_fetch net (mk_request net guest_path post_options None) s1 =
           (Response st (Inr (JObj ps)), s2)" "res_ok st"
    and "map_of ps ''access_token'' = Some (JStr t)"
    and "net_fetch net (mk_request net path options (Some t)) s2 = (Response st' (Inr j), s3)"
        "res_ok st'"
  shows "fst (apiFetch net path options w) = Inr j \<and>
         ww_server (snd (apiFetch net path options w)) = s3 \<and>
         (\<forall>k. st_get (ww_storage (snd (apiFetch net path options w))) k =
            (case map_of (session_of ps) k of Some v \<Rightarrow> Some v
             | None \<Rightarrow> st_get (ww_storage w) k))"
proof -
  let ?q = "mk_request net path options (getToken w)"
  let ?w1 = "w\<lparr>ww_server := s1, ww_log := ww_log w @ [?q]\<rparr>"
  let ?w2 = "?w1\<lparr>ww_storage := fold st_remove session_keys (ww_storage w)\<rparr>"
  let ?g = "mk_request net guest_path post_options None"
  let ?w3 = "?w2\<lparr>ww_server := s2, ww_log := ww_log ?w2 @ [?g]\<rparr>"
  let ?w4 = "?w3\<lparr>ww_storage := fold (\<lambda>(k, v). st_put k v) (session_of ps) (ww_storage ?w3)\<rparr>"
  have f1: "fetch net ?q w = (Inr (401, b), ?w1)" using assms(3) by (rule fetch_Response)
  have lo: "logout ?w1 = (Inr (), ?w2)" using assms(1) logout_window [of ?w1] by simp
  have tok2: "getToken ?w2 = None" using assms(1) getToken_logged_out [of ?w1] by simp
  have "fetch net ?g ?w2 = (Inr (st, Inr (JObj ps)), ?w3)"
    using assms(4) by (simp add: fetch_Response)
  then have "http_once net guest_path post_options ?w2 = (Inr (JObj ps), ?w3)"
    using assms(5) tok2 by (simp add: http_once_def)
  moreover have "store_session (JObj ps) ?w3 = (Inr (), ?w4)"
    using assms(1) store_session_window [of ?w3 "JObj ps"] by simp
  ultimately have g: "createGuestSession net ?w2 = (Inr (JObj ps), ?w4)"
    by (simp add: createGuestSession_once)
  have got: "st_get (ww_storage ?w4) k =
      (case map_of (session_of ps) k of Some v \<Rightarrow> Some v | None \<Rightarrow> st_get (ww_storage w) k)" for k
  proof (cases "k \<in> set session_keys")
    case True
    then have "map_of (session_of ps) k \<noteq> None"
      by (auto simp: session_of_def session_keys_def key_defs)
    then show ?thesis
      using session_keys_distinct by (auto simp: ls.get_put_all session_of_keys)
  next
    case False
    then show ?thesis
      using session_keys_distinct
      by (simp add: ls.get_put_all session_of_keys ls.get_remove_all split: option.splits)
  qed
  have "getToken ?w4 = Some t"
    using got [of "''ki_clash_token''"] assms(1,6)
    by (simp add: getToken_def ls_read_def session_token)
  then have "http_once net path options ?w4 =
      (Inr j, ?w4\<lparr>ww_server := s3, ww_log := ww_log ?w4 @ [mk_request net path options (Some t)]\<rparr>)"
    using assms(7,8) by (simp add: http_once_def fetch_Response)
  then have "apiFetch net path options w =
      (Inr j, ?w4\<lparr>ww_server := s3, ww_log := ww_log ?w4 @ [mk_request net path options (Some t)]\<rparr>)"
    using f1 lo g by (simp add: apiFetch_unfold [OF assms(2)])
  then show ?thesis using got by simp
qed


text \<open>
  A failed healing signs the user out.  When the 401 is followed by a
  rejected guest sign-in, the call throws that rejection and all four session
  keys are gone, while every other key of \<open>localStorage\<close> is kept.
\<close>

theorem apiFetch_failed_heal_signs_out:
  assumes "ww_window w" "path \<noteq> guest_path"
    and "net_fetch net (mk_request net path options (getToken w)) (ww_server w) = (Response 401 b, s1)"
    and "net_fetch net (mk_request net guest_path post_options None) s1 = (Rejected e, s2)"
  shows "fst (apiFetch net path options w) = Inl e \<and>
         (\<forall>k. st_get (ww_storage (snd (apiFetch net path options w))) k =
            (if k \<in> set session_keys then None else st_get (ww_storage w) k))"
proof -
  let ?q = "mk_request net path options (getToken w)"
  let ?w1 = "w\<lparr>ww_server := s1, ww_log := ww_log w @ [?q]\<rparr>"
  let ?w2 = "?w1\<lparr>ww_storage := fold st_remove session_keys (ww_storage w)\<rparr>"
  let ?w3 = "?w2\<lparr>ww_server := s2, ww_log := ww_log ?w2 @ [mk_request net guest_path post_options None]\<rparr>"
  have f1: "fetch net ?q w = (Inr (401, b), ?w1)" using assms(3) by (rule fetch_Response)
  have lo: "logout ?w1 = (Inr (), ?w2)" using assms(1) logout_window [of ?w1] by simp
  have tok2: "getToken ?w2 = None" using assms(1) getToken_logged_out [of ?w1] by simp
  have "createGuestSession net ?w2 = (Inl e, ?w3)"
    using assms(4) tok2 fetch_Rejected [of net "mk_request net guest_path post_options None" ?w2 e s2]
    by (simp add: createGuestSession_once http_once_def)
  then have "apiFetch net path options w = (Inl e, ?w3)"
    using f1 lo by (simp add: apiFetch_unfold [OF assms(2)])
  then show ?thesis by (simp add: ls.get_remove_all)
qed

text \<open>
  An answer other than 401 leaves the stored session untouched, and the
  call returns the parsed body exactly when the status is a success.
\<close>

theorem apiFetch_other_status:
  assumes "net_fetch net (mk_request net path options (getToken w)) (ww_server w) = (Response st body, s1)"
    and "st \<noteq> 401"
  shows "ww_storage (snd (apiFetch net path options w)) = ww_storage w \<and>
         fst (apiFetch net path options w) =
           (if res_ok st then body else Inl (api_error st body))"
proof -
  have f1: "fetch net (mk_request net path options (getToken w)) w =
      (Inr (st, body), w\<lparr>ww_server := s1, ww_log := ww_log w @ [mk_request net path options (getToken w)]\<rparr>)"
    using assms(1) by (rule fetch_Response)
  show ?thesis
    using assms(2) f1
    by (simp add: apiFetch_def apiFetchInternal.simps [of net path options True])
qed

text \<open>
  After \<open>ensureAuth\<close> succeeds a token is stored; with a token already
  stored it sends nothing and changes nothing.
\<close>

theorem ensureAuth_logs_in:
  assumes "ensureAuth net w = (Inr u, w')"
  shows "isLoggedIn w' \<and> (if isLoggedIn w then w' = w else length (ww_log w') = length (ww_log w) + 1)"
proof (cases "isLoggedIn w")
  case True
  with assms show ?thesis by (simp add: ensureAuth_def)
next
  case False
  with assms obtain d where g: "createGuestSession net w = (Inr d, w')"
    by (auto simp: ensureAuth_def bindE_def split: prod.splits sum.splits)
  then obtain w1 where "store_session d w1 = (Inr (), w')"
    by (auto simp: createGuestSession_once split: prod.splits sum.splits)
  then have "isLoggedIn w'" by (simp add: isLoggedIn_def store_session_ok)
  with False g createGuestSession_log [of net w] show ?thesis by simp
qed

subsection \<open>Witnesses: a backend that expires every token but its own\<close>

text \<open>
  A concrete backend: the guest endpoint issues the token \<open>t1\<close>; any other request
  is answered 401 unless it carries that token.
\<close>

definition demo_backend :: "nat backend" where
  "demo_backend rq n =
     (if rq_url rq = ''http://localhost:8000'' @ guest_path then
        (Response 200 (Inr (JObj [(''access_token'', JStr ''t1''), (''refresh_token'', JStr ''r1''),
           (''player_id'', JStr ''p1''), (''display_name'', JStr ''Guest'')])), n + 1)
      else if rq_headers rq ''Authorization'' = Some ''Bearer t1'' then
        (Response 200 (Inr (JStr ''fine'')), n + 1)
      else (Response 401 (Inr (JObj [])), n + 1))"

definition demo_net :: "nat net" where
  "demo_net = \<lparr>net_env = None, net_fetch = demo_backend\<rparr>"

definition demo_world :: "nat web_world" where
  "demo_world = \<lparr>ww_window = True, ww_storage = [''ki_clash_token'' \<mapsto> ''old''], ww_server = 0, ww_log = []\<rparr>"

definition dead_net :: "nat net" where
  "dead_net = \<lparr>net_env = None, net_fetch =
     (\<lambda>rq n. if rq_url rq = ''http://localhost:8000'' @ guest_path
             then (Rejected (Js_Error ''offline''), n) else (Response 401 (Inr JNull), n))\<rparr>"

lemmas demo_defs = demo_net_def demo_world_def demo_backend_def dead_net_def mk_request_def
  API_BASE_def getToken_def ls_read_def st_get_def request_headers_def post_options_def
  no_options_def guest_path_def res_ok_def

theorem apiFetch_heals_expired_token_witness:
  "fst (apiFetch demo_net ''/api/v1/players/me'' no_options demo_world) = Inr (JStr ''fine'')"
  using apiFetch_heals_expired_token [of demo_world "''/api/v1/players/me''" demo_net no_options
      "Inr (JObj [])" 1 200 "[(''access_token'', JStr ''t1''), (''refresh_token'', JStr ''r1''),
           (''player_id'', JStr ''p1''), (''display_name'', JStr ''Guest'')]" 2 "''t1''" 200
      "JStr ''fine''" 3]
  by (simp add: demo_defs)

theorem apiFetch_failed_heal_signs_out_witness:
  "fst (apiFetch dead_net ''/api/v1/players/me'' no_options demo_world) = Inl (Js_Error ''offline'')"
  using apiFetch_failed_heal_signs_out [of demo_world "''/api/v1/players/me''" dead_net no_options
      "Inr JNull" 0 "Js_Error ''offline''" 0]
  by (simp add: demo_defs)

theorem apiFetch_other_status_witness:
  "fst (apiFetch demo_net guest_path post_options demo_world) \<noteq> Inl type_error"
  using apiFetch_other_status [of demo_net guest_path post_options demo_world 200
      "Inr (JObj [(''access_token'', JStr ''t1''), (''refresh_token'', JStr ''r1''),
           (''player_id'', JStr ''p1''), (''display_name'', JStr ''Guest'')])" 1]
  by (simp add: demo_defs)

theorem ensureAuth_logs_in_witness: "isLoggedIn demo_world"
  using ensureAuth_logs_in [of demo_net demo_world "()" demo_world]
  by (simp add: ensureAuth_def isLoggedIn_def demo_defs)

end
