(* ===== verification/Characters.thy ===== *)
theory Characters
  imports Complex_Main Prelude
begin

text \<open>
  The fighter rosters, \<open>web/src/lib/characters.ts\<close> and
  \<open>mobile/src/lib/characters.ts\<close>, with the lookup and the random choice of the
  AI's fighter.  Text outside ASCII is written as the bytes of its UTF-8 form.
  \<open>Math.random()\<close> is an argument in the half-open unit interval.
\<close>

definition utf8 :: "nat list \<Rightarrow> string" where
  "utf8 bs = map char_of bs"

record character =
  ch_id :: string
  ch_name :: string
  ch_koreanName :: string
  ch_emoji :: string
  ch_color :: string
  ch_bio :: string
  ch_trashTalk :: "string list"

definition CHARACTERS :: "character list" where
  "CHARACTERS =
   [\<lparr>ch_id = ''haneul'', ch_name = ''Kael'',
      ch_koreanName = utf8 [237, 149, 152, 235, 138, 152] @ '' '' @ utf8 [194, 183] @ '' Sky'', ch_emoji = utf8 [240, 159, 140, 128],
      ch_color = ''#60A5FA'',
      ch_bio = ''Calm sky-monk. Strikes with the wind itself.'',
      ch_trashTalk =
       [''The wind whispers your next move to me...'',
        ''Stillness defeats all aggression.'',
        ''You fight the sky itself. How do you expect to win?'',
        ''Every clash brings you closer to enlightenment... and defeat.'']\<rparr>,
    \<lparr>ch_id = ''bora'', ch_name = ''Selene'',
      ch_koreanName = utf8 [235, 179, 180, 235, 157, 188] @ '' '' @ utf8 [194, 183] @ '' Moon Oracle'', ch_emoji = utf8 [240, 159, 148, 174],
      ch_color = ''#C084FC'',
      ch_bio = ''Lavender oracle. The moon reveals her next strike.'',
      ch_trashTalk =
       [''The cards already told me your next move...'',
        ''I saw this outcome three turns ago.'',
        ''How predictable. Try surprising me for once.'',
        ''The spirits laugh at your strategy.'',
        ''Fate has already chosen the winner. Spoiler: it's me.'']\<rparr>,
    \<lparr>ch_id = ''taeyang'', ch_name = ''Blaze'',
      ch_koreanName = utf8 [237, 131, 156, 236, 150, 145] @ '' '' @ utf8 [194, 183] @ '' Sun'', ch_emoji = utf8 [226, 152, 128, 239, 184, 143],
      ch_color = ''#FACC15'',
      ch_bio = ''Brash sun-born. Burns hotter than common sense.'',
      ch_trashTalk =
       [''HAHA! Is that all you've got?!'',
        ''My ki burns hotter than a thousand suns!'',
        ''Stop blocking and FIGHT me!'',
        ''You're about to get scorched!'',
        ''I don't need strategy '' @ utf8 [226, 128, 148] @ '' I have POWER!'']\<rparr>,
    \<lparr>ch_id = ''danbi'', ch_name = ''Yuki'',
      ch_koreanName = utf8 [235, 139, 168, 235, 185, 132] @ '' '' @ utf8 [194, 183] @ '' Sweet Rain'', ch_emoji = utf8 [240, 159, 140, 138],
      ch_color = ''#22D3EE'',
      ch_bio = ''Silver captain. Calm rain, drowning tsunami.'',
      ch_trashTalk =
       [''Flow like water... strike like a tsunami.'',
        ''Your aggression creates openings. Thank you.'',
        ''The river doesn't fight the rock. It wears it down.'',
        ''Patience is my greatest weapon.'']\<rparr>,
    \<lparr>ch_id = ''seokjin'', ch_name = ''Atlas'',
      ch_koreanName = utf8 [236, 132, 157, 236, 167, 132] @ '' '' @ utf8 [194, 183] @ '' Stone Master'', ch_emoji = utf8 [240, 159, 170, 168],
      ch_color = ''#FB923C'',
      ch_bio = ''Mountain-old master. Immovable, until you wake him.'',
      ch_trashTalk =
       [''I've been blocking attacks since before you were born.'',
        ''Hit me. Go on. I dare you.'',
        ''Mountains don't flinch.'',
        ''You'll tire before I do, young one.'',
        ''Hmph. Predictable.'']\<rparr>,
    \<lparr>ch_id = ''yuri'', ch_name = ''Rosa'',
      ch_koreanName = utf8 [236, 156, 160, 235, 166, 172] @ '' '' @ utf8 [194, 183] @ '' Crystal'', ch_emoji = utf8 [240, 159, 146, 142],
      ch_color = ''#F472B6'',
      ch_bio = ''Crystal-edged queen. Cold beauty, sharper words.'',
      ch_trashTalk =
       [''Oh, that was your best move? How... quaint.'',
        ''I could win this with my eyes closed, darling.'',
        ''You're making this too easy. It's almost boring.'',
        ''Diamonds cut through everything. Including your pride.'',
        ''Try harder. Or don't. The result is the same.'']\<rparr>,
    \<lparr>ch_id = ''seorin'', ch_name = ''Frost'',
      ch_koreanName = utf8 [236, 132, 156, 235, 166, 176] @ '' '' @ utf8 [194, 183] @ '' Frost'', ch_emoji = utf8 [226, 157, 132, 239, 184, 143],
      ch_color = ''#38BDF8'',
      ch_bio = ''Frost-calm duelist. Still as a frozen lake '' @ utf8 [226, 128, 148] @ '' until she strikes.'',
      ch_trashTalk =
       [''Cold reads win. Yours are lukewarm.'',
        ''The ice already knows where you'll step.'',
        ''Struggle. It's warmer that way.'',
        ''Freeze. ...Too late.'']\<rparr>,
    \<lparr>ch_id = ''cheon'', ch_name = ''Volt'',
      ch_koreanName = utf8 [236, 178, 156, 235, 145, 165] @ '' '' @ utf8 [194, 183] @ '' Thunder'', ch_emoji = utf8 [226, 154, 161],
      ch_color = ''#818CF8'',
      ch_bio = ''Storm-born brawler. Faster than the thunder that chases him.'',
      ch_trashTalk =
       [''Blink and it's over. So... blink.'',
        ''You're slow. Painfully slow.'',
        ''The strike lands before the sound. You lose twice.'',
        ''Zap. That was you, by the way.'',
        ''Too fast for you? Skill issue.'']\<rparr>,
    \<lparr>ch_id = ''yeonhwa'', ch_name = ''Shade'',
      ch_koreanName = utf8 [234, 183, 184, 235, 166, 188, 236, 158, 144] @ '' '' @ utf8 [194, 183] @ '' Shadow'', ch_emoji = utf8 [240, 159, 140, 145],
      ch_color = ''#7C3AED'',
      ch_bio = ''Shadow-step duelist. You never see the strike that lands.'',
      ch_trashTalk =
       [''You're fighting a shadow. Good luck.'',
        ''I was behind you three moves ago.'',
        ''The dark doesn't miss.'',
        ''Look away. It won't help.'',
        ''Silence is the last thing you'll read.'']\<rparr>]"

definition getCharacter :: "string \<Rightarrow> character option" where
  "getCharacter i = find (\<lambda>c. ch_id c = i) CHARACTERS"

definition pick_random :: "real \<Rightarrow> 'a list \<Rightarrow> 'a option" where
  "pick_random r xs =
     (let i = nat \<lfloor>r * real (length xs)\<rfloor> in if i < length xs then Some (xs ! i) else None)"

definition getRandomCharacterExcluding :: "string \<Rightarrow> real \<Rightarrow> character option" where
  "getRandomCharacterExcluding excludeId r =
     pick_random r (filter (\<lambda>c. ch_id c \<noteq> excludeId) CHARACTERS)"

definition M_CHARACTERS :: "character list" where
  "M_CHARACTERS =
   [\<lparr>ch_id = ''haneul'', ch_name = ''Haneul'',
      ch_koreanName = utf8 [237, 149, 152, 235, 138, 152], ch_emoji = utf8 [240, 159, 140, 128],
      ch_color = ''#60A5FA'',
      ch_bio = ''A calm philosophical monk who fights with the wind.'',
      ch_trashTalk =
       [''The wind whispers your next move to me...'',
        ''Stillness defeats all aggression.'',
        ''You fight the sky itself. How do you expect to win?'',
        ''Every clash brings you closer to enlightenment... and defeat.'']\<rparr>,
    \<lparr>ch_id = ''bora'', ch_name = ''Bora'',
      ch_koreanName = utf8 [235, 179, 180, 235, 157, 188], ch_emoji = utf8 [240, 159, 148, 174],
      ch_color = ''#C084FC'',
      ch_bio = ''A mysterious oracle who taunts from the shadows.'',
      ch_trashTalk =
       [''The cards already told me your next move...'',
        ''I saw this outcome three turns ago.'',
        ''How predictable. Try surprising me for once.'',
        ''The spirits laugh at your strategy.'',
        ''Fate has already chosen the winner. Spoiler: it's me.'']\<rparr>,
    \<lparr>ch_id = ''taeyang'', ch_name = ''Taeyang'',
      ch_koreanName = utf8 [237, 131, 156, 236, 150, 145], ch_emoji = utf8 [226, 152, 128, 239, 184, 143],
      ch_color = ''#FACC15'',
      ch_bio = ''A brash hothead who burns everything in his path.'',
      ch_trashTalk =
       [''HAHA! Is that all you've got?!'',
        ''My ki burns hotter than a thousand suns!'',
        ''Stop blocking and FIGHT me!'',
        ''You're about to get scorched!'',
        ''I don't need strategy '' @ utf8 [226, 128, 148] @ '' I have POWER!'']\<rparr>,
    \<lparr>ch_id = ''danbi'', ch_name = ''Danbi'',
      ch_koreanName = utf8 [235, 139, 168, 235, 185, 132], ch_emoji = utf8 [240, 159, 140, 138],
      ch_color = ''#22D3EE'',
      ch_bio = ''Serene like rain, but deadly like a flood.'',
      ch_trashTalk =
       [''Flow like water... strike like a tsunami.'',
        ''Your aggression creates openings. Thank you.'',
        ''The river doesn't fight the rock. It wears it down.'',
        ''Patience is my greatest weapon.'']\<rparr>,
    \<lparr>ch_id = ''seokjin'', ch_name = ''Seokjin'',
      ch_koreanName = utf8 [236, 132, 157, 236, 167, 132], ch_emoji = utf8 [240, 159, 170, 168],
      ch_color = ''#FB923C'',
      ch_bio = ''An immovable old master carved from mountain stone.'',
      ch_trashTalk =
       [''I've been blocking attacks since before you were born.'',
        ''Hit me. Go on. I dare you.'',
        ''Mountains don't flinch.'',
        ''You'll tire before I do, young one.'',
        ''Hmph. Predictable.'']\<rparr>,
    \<lparr>ch_id = ''yuri'', ch_name = ''Yuri'',
      ch_koreanName = utf8 [236, 156, 160, 235, 166, 172], ch_emoji = utf8 [240, 159, 146, 142],
      ch_color = ''#F472B6'',
      ch_bio = ''Elegant, precise, and utterly condescending.'',
      ch_trashTalk =
       [''Oh, that was your best move? How... quaint.'',
        ''I could win this with my eyes closed, darling.'',
        ''You're making this too easy. It's almost boring.'',
        ''Diamonds cut through everything. Including your pride.'',
        ''Try harder. Or don't. The result is the same.'']\<rparr>,
    \<lparr>ch_id = ''seorin'', ch_name = ''Seorin'',
      ch_koreanName = utf8 [236, 132, 156, 235, 166, 176], ch_emoji = utf8 [226, 157, 132, 239, 184, 143],
      ch_color = ''#38BDF8'',
      ch_bio = ''Frost-calm duelist. Still as a frozen lake '' @ utf8 [226, 128, 148] @ '' until she strikes.'',
      ch_trashTalk =
       [''Cold reads win. Yours are lukewarm.'',
        ''The ice already knows where you'll step.'',
        ''Struggle. It's warmer that way.'',
        ''Freeze. ...Too late.'']\<rparr>,
    \<lparr>ch_id = ''cheon'', ch_name = ''Cheon'',
      ch_koreanName = utf8 [236, 178, 156, 235, 145, 165], ch_emoji = utf8 [226, 154, 161],
      ch_color = ''#818CF8'',
      ch_bio = ''Storm-born brawler. Faster than the thunder that chases him.'',
      ch_trashTalk =
       [''Blink and it's over. So... blink.'',
        ''You're slow. Painfully slow.'',
        ''The strike lands before the sound. You lose twice.'',
        ''Zap. That was you, by the way.'',
        ''Too fast for you? Skill issue.'']\<rparr>,
    \<lparr>ch_id = ''yeonhwa'', ch_name = ''Yeonhwa'',
      ch_koreanName = utf8 [234, 183, 184, 235, 166, 188, 236, 158, 144], ch_emoji = utf8 [240, 159, 140, 145],
      ch_color = ''#7C3AED'',
      ch_bio = ''Shadow-step duelist. You never see the strike that lands.'',
      ch_trashTalk =
       [''You're fighting a shadow. Good luck.'',
        ''I was behind you three moves ago.'',
        ''The dark doesn't miss.'',
        ''Look away. It won't help.'',
        ''Silence is the last thing you'll read.'']\<rparr>]"

definition M_getCharacter :: "string \<Rightarrow> character option" where
  "M_getCharacter i = find (\<lambda>c. ch_id c = i) M_CHARACTERS"

definition M_getRandomCharacterExcluding :: "string \<Rightarrow> real \<Rightarrow> character option" where
  "M_getRandomCharacterExcluding excludeId r =
     pick_random r (filter (\<lambda>c. ch_id c \<noteq> excludeId) M_CHARACTERS)"

subsection \<open>Colours\<close>

text \<open>
  \<open>hexToNum\<close> of the pages: \<open>parseInt(hex.replace('#', ''), 16) || 0xffffff\<close>.
  \<open>parseInt\<close> reads the longest prefix of hexadecimal digits; without one it is
  \<open>NaN\<close>, which \<open>||\<close> replaces, as it replaces zero.
\<close>

definition hex_val :: "char \<Rightarrow> nat option" where
  "hex_val c = (let n = (of_char c :: nat) in
     if 48 \<le> n \<and> n \<le> 57 then Some (n - 48)
     else if 65 \<le> n \<and> n \<le> 70 then Some (n - 55)
     else if 97 \<le> n \<and> n \<le> 102 then Some (n - 87)
     else None)"

fun parse_hex :: "nat \<Rightarrow> string \<Rightarrow> nat" where
  "parse_hex acc [] = acc"
| "parse_hex acc (c # cs) = (case hex_val c of None \<Rightarrow> acc | Some d \<Rightarrow> parse_hex (16 * acc + d) cs)"

text \<open>\<open>n.toString(16)\<close>, in lower case.\<close>

definition hex_lower :: "nat \<Rightarrow> char" where
  "hex_lower d = (if d < 10 then char_of (48 + d) else char_of (87 + d))"

fun show_hex :: "nat \<Rightarrow> string" where
  "show_hex n = (if n < 16 then [hex_lower n] else show_hex (n div 16) @ [hex_lower (n mod 16)])"

declare show_hex.simps [simp del]

lemma hex_val_lower: "d < 16 \<Longrightarrow> hex_val (hex_lower d) = Some d"
  by (simp add: hex_val_def hex_lower_def Let_def)

lemma hex_val_bound: "hex_val c = Some d \<Longrightarrow> d < 16"
  by (auto simp: hex_val_def Let_def split: if_splits)

lemma hex_lower_0: "hex_lower 0 = CHR ''0''"
  by code_simp

definition hexToNum :: "string option \<Rightarrow> nat" where
  "hexToNum hex =
     (let n = parse_hex 0 (remove1 (CHR ''#'') (nullish hex [])) in if n = 0 then 16777215 else n)"

subsection \<open>Facts\<close>

definition roster_ids :: "string list" where
  "roster_ids = [''haneul'', ''bora'', ''taeyang'', ''danbi'', ''seokjin'', ''yuri'',
                 ''seorin'', ''cheon'', ''yeonhwa'']"

lemma CHARACTERS_ids: "map ch_id CHARACTERS = roster_ids"
  by (simp add: CHARACTERS_def roster_ids_def)

lemma M_CHARACTERS_ids: "map ch_id M_CHARACTERS = roster_ids"
  by (simp add: M_CHARACTERS_def roster_ids_def)

lemma roster_ids_distinct: "distinct roster_ids"
  by (simp add: roster_ids_def)

lemma length_CHARACTERS [simp]: "length CHARACTERS = 9" "length M_CHARACTERS = 9"
  by (simp_all add: CHARACTERS_def M_CHARACTERS_def)

lemma find_by_key:
  "distinct (map f xs) \<Longrightarrow> x \<in> set xs \<Longrightarrow> find (\<lambda>c. f c = f x) xs = Some x"
  by (induction xs) auto

lemma find_key_Some: "find (\<lambda>c. f c = k) xs = Some c \<Longrightarrow> c \<in> set xs \<and> f c = k"
  by (induction xs) (auto split: if_splits)

lemma find_key_None: "find (\<lambda>c. f c = k) xs = None \<longleftrightarrow> k \<notin> set (map f xs)"
  by (induction xs) auto

lemma getCharacter_Some: "getCharacter i = Some c \<Longrightarrow> c \<in> set CHARACTERS \<and> ch_id c = i"
  unfolding getCharacter_def by (rule find_key_Some)

lemma getCharacter_None: "getCharacter i = None \<longleftrightarrow> i \<notin> set roster_ids"
  unfolding getCharacter_def find_key_None CHARACTERS_ids ..

lemma getCharacter_member: "c \<in> set CHARACTERS \<Longrightarrow> getCharacter (ch_id c) = Some c"
  using roster_ids_distinct
  unfolding getCharacter_def CHARACTERS_ids [symmetric] by (rule find_by_key)

lemma random_index:
  assumes "0 \<le> r" "r < 1" "0 < n"
  shows "nat \<lfloor>r * real n\<rfloor> < n"
proof -
  have "r * real n < real n" using assms by simp
  then have "\<lfloor>r * real n\<rfloor> < int n" by (simp add: floor_less_iff)
  with assms(3) show ?thesis by linarith
qed

lemma pick_random_in:
  "0 \<le> r \<Longrightarrow> r < 1 \<Longrightarrow> xs \<noteq> [] \<Longrightarrow> \<exists>x. pick_random r xs = Some x \<and> x \<in> set xs"
  using random_index [of r "length xs"] by (simp add: pick_random_def Let_def)

lemma pick_random_reaches:
  assumes "x \<in> set xs"
  shows "\<exists>r. 0 \<le> r \<and> r < 1 \<and> pick_random r xs = Some x"
proof -
  from assms obtain i where i: "i < length xs" "xs ! i = x" by (auto simp: in_set_conv_nth)
  let ?r = "real i / real (length xs)"
  have "?r * real (length xs) = real i" using i by (cases xs) simp_all
  then have "pick_random ?r xs = Some x"
    using i by (simp add: pick_random_def Let_def del: times_divide_eq_left)
  moreover have "0 \<le> ?r" by simp
  moreover have "?r < 1" using i by (subst divide_less_eq_1) auto
  ultimately show ?thesis by blast
qed

lemma excluding_nonempty:
  assumes "distinct (map f xs)" "2 \<le> length xs"
  shows "filter (\<lambda>c. f c \<noteq> k) xs \<noteq> []"
proof
  assume "filter (\<lambda>c. f c \<noteq> k) xs = []"
  then have "set (map f xs) \<subseteq> {k}" by (auto simp: filter_empty_conv)
  then have "card (set (map f xs)) \<le> card {k}" by (rule card_mono [rotated]) simp
  moreover have "card (set (map f xs)) = length xs"
    using distinct_card [OF assms(1)] by simp
  ultimately show False using assms(2) by simp
qed

lemma pick_excluding:
  assumes "distinct (map f xs)" "2 \<le> length xs" "0 \<le> r" "r < 1"
  shows "\<exists>c. pick_random r (filter (\<lambda>c. f c \<noteq> k) xs) = Some c \<and> c \<in> set xs \<and> f c \<noteq> k"
  using pick_random_in [OF assms(3,4) excluding_nonempty [OF assms(1,2)]] by auto

lemma ai_character:
  assumes "0 \<le> r" "r < 1"
  obtains c where "getRandomCharacterExcluding i r = Some c" "c \<in> set CHARACTERS" "ch_id c \<noteq> i"
  using pick_excluding [of ch_id CHARACTERS r i] assms roster_ids_distinct
  by (auto simp: getRandomCharacterExcluding_def CHARACTERS_ids)

lemma M_ai_character:
  assumes "0 \<le> r" "r < 1"
  obtains c where "M_getRandomCharacterExcluding i r = Some c" "c \<in> set M_CHARACTERS" "ch_id c \<noteq> i"
  using pick_excluding [of ch_id M_CHARACTERS r i] assms roster_ids_distinct
  by (auto simp: M_getRandomCharacterExcluding_def M_CHARACTERS_ids)

subsection \<open>Properties of the roster\<close>

text \<open>
  The AI never mirrors the player.  For every player fighter (known or
  not) and every random number, the choice is a fighter of the roster other than
  the player's, and each such fighter is chosen by some random number.
\<close>

theorem random_opponent_never_mirrors:
  assumes "0 \<le> r" "r < 1"
  shows "(\<exists>c. getRandomCharacterExcluding i r = Some c \<and> getCharacter (ch_id c) = Some c \<and> ch_id c \<noteq> i) \<and>
         (\<forall>c \<in> set CHARACTERS. ch_id c \<noteq> i \<longrightarrow>
            (\<exists>q. 0 \<le> q \<and> q < 1 \<and> getRandomCharacterExcluding i q = Some c))"
proof
  show "\<exists>c. getRandomCharacterExcluding i r = Some c \<and> getCharacter (ch_id c) = Some c \<and> ch_id c \<noteq> i"
    using ai_character [OF assms, of i] getCharacter_member by metis
  show "\<forall>c \<in> set CHARACTERS. ch_id c \<noteq> i \<longrightarrow>
            (\<exists>q. 0 \<le> q \<and> q < 1 \<and> getRandomCharacterExcluding i q = Some c)"
    unfolding getRandomCharacterExcluding_def by (auto intro: pick_random_reaches)
qed

theorem random_opponent_never_mirrors_witness:
  "\<exists>c. getRandomCharacterExcluding ''bora'' (1 / 2) = Some c \<and> ch_id c \<noteq> ''bora''"
  using random_opponent_never_mirrors [of "1 / 2" "''bora''"] by auto

text \<open>
  The web and the mobile roster describe the same fighters, in the same
  order and with the same theme colours, and every colour is a 24-bit number
  under \<open>hexToNum\<close>.
\<close>

theorem rosters_agree:
  "map ch_id M_CHARACTERS = map ch_id CHARACTERS \<and>
   map ch_color M_CHARACTERS = map ch_color CHARACTERS \<and>
   distinct (map ch_id CHARACTERS) \<and>
   list_all (\<lambda>c. 0 < hexToNum (Some (ch_color c)) \<and> hexToNum (Some (ch_color c)) < 2 ^ 24) CHARACTERS"
proof (intro conjI)
  show "map ch_id M_CHARACTERS = map ch_id CHARACTERS"
    by (simp add: CHARACTERS_ids M_CHARACTERS_ids)
  show "map ch_color M_CHARACTERS = map ch_color CHARACTERS"
    by (simp add: CHARACTERS_def M_CHARACTERS_def)
  show "distinct (map ch_id CHARACTERS)"
    by (simp add: CHARACTERS_ids roster_ids_distinct)
  show "list_all (\<lambda>c. 0 < hexToNum (Some (ch_color c)) \<and> hexToNum (Some (ch_color c)) < 2 ^ 24) CHARACTERS"
    by (simp add: CHARACTERS_def hexToNum_def Let_def hex_val_def)
qed

end
