(* ===== verification/Assets.thy ===== *)
theory Assets
  imports Api_Client Characters
begin

text \<open>
  Asset paths and availability probes: \<open>web/src/lib/assets.ts\<close> and the static
  manifests of \<open>mobile/src/lib/assets.ts\<close>.  A probe is a promise; the cache keeps
  the promise itself, so the model numbers promises in the order they are made.
\<close>

subsection \<open>Identifiers\<close>

datatype character_id = Haneul | Bora | Taeyang | Danbi | Seokjin | Yuri

fun character_id_str :: "character_id \<Rightarrow> string" where
  "character_id_str Haneul = ''haneul''"
| "character_id_str Bora = ''bora''"
| "character_id_str Taeyang = ''taeyang''"
| "character_id_str Danbi = ''danbi''"
| "character_id_str Seokjin = ''seokjin''"
| "character_id_str Yuri = ''yuri''"

definition all_character_ids :: "character_id list" where
  "all_character_ids = [Haneul, Bora, Taeyang, Danbi, Seokjin, Yuri]"

datatype character_expression = ExPortrait | ExIdle | ExCharge | ExHit | ExWin

fun expression_str :: "character_expression \<Rightarrow> string" where
  "expression_str ExPortrait = ''portrait''"
| "expression_str ExIdle = ''idle''"
| "expression_str ExCharge = ''charge''"
| "expression_str ExHit = ''hit''"
| "expression_str ExWin = ''win''"

datatype asset_pose = PoIdle | PoWindup | PoImpact | PoHit | PoKo | PoVictory

fun pose_str :: "asset_pose \<Rightarrow> string" where
  "pose_str PoIdle = ''idle''"
| "pose_str PoWindup = ''windup''"
| "pose_str PoImpact = ''impact''"
| "pose_str PoHit = ''hit''"
| "pose_str PoKo = ''ko''"
| "pose_str PoVictory = ''victory''"

datatype effect_id =
  FxEnergyWave | FxAuraCharge | FxBlockShield | FxTeleportFlash | FxClashExplosion | FxImpactBurst

fun effect_str :: "effect_id \<Rightarrow> string" where
  "effect_str FxEnergyWave = ''energy-wave''"
| "effect_str FxAuraCharge = ''aura-charge''"
| "effect_str FxBlockShield = ''block-shield''"
| "effect_str FxTeleportFlash = ''teleport-flash''"
| "effect_str FxClashExplosion = ''clash-explosion''"
| "effect_str FxImpactBurst = ''impact-burst''"

datatype background_id = BgDojo | BgArena | BgMountain | BgVoid | BgCity

fun background_str :: "background_id \<Rightarrow> string" where
  "background_str BgDojo = ''dojo''"
| "background_str BgArena = ''arena''"
| "background_str BgMountain = ''mountain''"
| "background_str BgVoid = ''void''"
| "background_str BgCity = ''city''"

datatype sound_id =
  SnCardSelect | SnCountdownBeat | SnCountdownReveal | SnCharge | SnAttackImpact | SnEnergyWaveFire
  | SnBlockClang | SnTeleportWhoosh | SnClash | SnRoundWin | SnMatchWin | SnMatchLose

fun sound_str :: "sound_id \<Rightarrow> string" where
  "sound_str SnCardSelect = ''card-select''"
| "sound_str SnCountdownBeat = ''countdown-beat''"
| "sound_str SnCountdownReveal = ''countdown-reveal''"
| "sound_str SnCharge = ''charge''"
| "sound_str SnAttackImpact = ''attack-impact''"
| "sound_str SnEnergyWaveFire = ''energy-wave-fire''"
| "sound_str SnBlockClang = ''block-clang''"
| "sound_str SnTeleportWhoosh = ''teleport-whoosh''"
| "sound_str SnClash = ''clash''"
| "sound_str SnRoundWin = ''round-win''"
| "sound_str SnMatchWin = ''match-win''"
| "sound_str SnMatchLose = ''match-lose''"

subsection \<open>Web paths\<close>

definition characterAsset :: "character_id \<Rightarrow> character_expression option \<Rightarrow> string" where
  "characterAsset i e =
     ''/characters/'' @ character_id_str i @ ''/'' @ expression_str (nullish e ExPortrait) @ ''.png''"

definition fighterAsset :: "character_id \<Rightarrow> asset_pose option \<Rightarrow> string" where
  "fighterAsset i p = ''/fighters/'' @ character_id_str i @ ''/'' @ pose_str (nullish p PoIdle) @ ''.png''"

definition actionSlug :: "action \<Rightarrow> string" where
  "actionSlug a = replace_char CHR ''_'' CHR ''-'' (action_str a)"

definition cardIconAsset :: "action \<Rightarrow> string" where
  "cardIconAsset a = ''/cards/'' @ actionSlug a @ ''-icon.svg''"

definition cardFrameAsset :: "action \<Rightarrow> string" where
  "cardFrameAsset a = ''/cards/'' @ actionSlug a @ ''-frame.svg''"

definition effectAsset :: "effect_id \<Rightarrow> string" where
  "effectAsset i = ''/effects/'' @ effect_str i @ ''.png''"

definition backgroundAsset :: "background_id \<Rightarrow> string" where
  "backgroundAsset i = ''/backgrounds/'' @ background_str i @ ''.jpg''"

definition soundAsset :: "sound_id \<Rightarrow> string" where
  "soundAsset i = ''/sounds/'' @ sound_str i @ ''.mp3''"

subsection \<open>Availability probes\<close>

record probe_state =
  availability :: "string \<Rightarrow> nat option"
  probes :: "string list"

definition probe_init :: probe_state where
  "probe_init = \<lparr>availability = (\<lambda>_. None), probes = []\<rparr>"

definition assetExists :: "string \<Rightarrow> probe_state \<Rightarrow> nat \<times> probe_state" where
  "assetExists url s =
     (case availability s url of
        Some cached \<Rightarrow> (cached, s)
      | None \<Rightarrow>
          (let probe = length (probes s)
           in (probe, \<lparr>availability = (availability s)(url \<mapsto> probe), probes = probes s @ [url]\<rparr>)))"

text \<open>What the promise of a probe settles to, given the outcome of its HEAD request.\<close>

definition probe_settles :: "fetch_outcome \<Rightarrow> bool" where
  "probe_settles out = (case out of Rejected _ \<Rightarrow> False | Response st _ \<Rightarrow> res_ok st)"

subsection \<open>Mobile manifests\<close>

definition CHARACTER_MANIFEST :: "character_id \<Rightarrow> character_expression \<Rightarrow> nat option" where
  "CHARACTER_MANIFEST i e = None"

definition EFFECT_MANIFEST :: "effect_id \<Rightarrow> nat option" where
  "EFFECT_MANIFEST i = None"

definition BACKGROUND_MANIFEST :: "background_id \<Rightarrow> nat option" where
  "BACKGROUND_MANIFEST i = None"

definition SOUND_MANIFEST :: "sound_id \<Rightarrow> nat option" where
  "SOUND_MANIFEST i = None"

definition M_characterAsset :: "character_id \<Rightarrow> character_expression option \<Rightarrow> nat option" where
  "M_characterAsset i e = CHARACTER_MANIFEST i (nullish e ExPortrait)"

definition M_effectAsset :: "effect_id \<Rightarrow> nat option" where
  "M_effectAsset i = EFFECT_MANIFEST i"

definition M_backgroundAsset :: "background_id \<Rightarrow> nat option" where
  "M_backgroundAsset i = BACKGROUND_MANIFEST i"

definition M_soundAsset :: "sound_id \<Rightarrow> nat option" where
  "M_soundAsset i = SOUND_MANIFEST i"

subsection \<open>Facts\<close>

lemma actionSlug_inj: "actionSlug a = actionSlug b \<Longrightarrow> a = b"
  by (cases a; cases b) (simp_all add: actionSlug_def replace_char_def)

lemma sound_str_inj: "sound_str a = sound_str b \<Longrightarrow> a = b"
  by (cases a; cases b) simp_all

lemma effect_str_inj: "effect_str a = effect_str b \<Longrightarrow> a = b"
  by (cases a; cases b) simp_all

definition probe_inv :: "probe_state \<Rightarrow> bool" where
  "probe_inv s \<longleftrightarrow> distinct (probes s) \<and>
     (\<forall>url p. availability s url = Some p \<longleftrightarrow> (p < length (probes s) \<and> probes s ! p = url))"

lemma probe_inv_init: "probe_inv probe_init"
  by (simp add: probe_inv_def probe_init_def)

lemma probe_inv_asset:
  assumes inv: "probe_inv s"
  shows "probe_inv (snd (assetExists url s))"
proof (cases "availability s url")
  case None
  have fresh: "url \<notin> set (probes s)"
  proof
    assume "url \<in> set (probes s)"
    then obtain p where "p < length (probes s)" "probes s ! p = url"
      by (auto simp: in_set_conv_nth)
    then have "availability s url = Some p" using inv by (auto simp: probe_inv_def)
    with None show False by simp
  qed
  have "((availability s)(url \<mapsto> length (probes s))) u = Some p \<longleftrightarrow>
      p < length (probes s @ [url]) \<and> (probes s @ [url]) ! p = u" for u p
    using inv fresh by (auto simp: probe_inv_def nth_append less_Suc_eq)
  with None inv fresh show ?thesis
    by (simp add: probe_inv_def assetExists_def Let_def)
next
  case (Some p)
  with inv show ?thesis by (simp add: assetExists_def)
qed

interpretation pm: machine probe_init "\<lambda>s url. snd (assetExists url s)" probe_inv
  by unfold_locales (rule probe_inv_init, rule probe_inv_asset)

text \<open>
  An asset URL is probed at most once.  After any sequence of
  \<open>assetExists\<close> calls the HEAD requests sent are distinct, and asking again for a
  URL already asked for sends nothing and answers with the same promise.
\<close>

theorem asset_probed_once:
  "distinct (probes (run (\<lambda>s url. snd (assetExists url s)) probe_init urls)) \<and>
   (\<forall>url s. snd (assetExists url (snd (assetExists url s))) = snd (assetExists url s) \<and>
            fst (assetExists url (snd (assetExists url s))) = fst (assetExists url s))"
  using pm.always [of urls]
  by (simp add: probe_inv_def assetExists_def Let_def split: option.split)

text \<open>
  The \<open>CharacterId\<close> type of \<open>assets.ts\<close> names only fighters of the roster,
  but three fighters of the roster are not in it.
\<close>

theorem character_ids_lag_roster:
  "set (map character_id_str all_character_ids) \<subset> set (map ch_id CHARACTERS) \<and>
   set (map ch_id CHARACTERS) - set (map character_id_str all_character_ids) =
     {''seorin'', ''cheon'', ''yeonhwa''}"
proof
  have new: "''seorin'' \<notin> set (map character_id_str all_character_ids)"
    by (simp add: all_character_ids_def)
  show "set (map character_id_str all_character_ids) \<subset> set (map ch_id CHARACTERS)"
  proof (rule psubsetI)
    show "set (map character_id_str all_character_ids) \<subseteq> set (map ch_id CHARACTERS)"
      unfolding CHARACTERS_ids by (simp add: all_character_ids_def roster_ids_def)
    have "''seorin'' \<in> set (map ch_id CHARACTERS)"
      unfolding CHARACTERS_ids by (simp add: roster_ids_def)
    with new show "set (map character_id_str all_character_ids) \<noteq> set (map ch_id CHARACTERS)"
      by blast
  qed
  show "set (map ch_id CHARACTERS) - set (map character_id_str all_character_ids) =
     {''seorin'', ''cheon'', ''yeonhwa''}"
    unfolding CHARACTERS_ids by (simp add: all_character_ids_def roster_ids_def insert_Diff_if)
qed

end
