(* ===== verification/Use_Game.thy ===== *)
theory Use_Game
  imports Api_Types Json Characters Engine
begin

text \<open>
  The AI-match hook \<open>web/src/hooks/useGame.ts\<close>.  A handler that awaits the network
  is split at each \<open>await\<close>: the part before it queues what it waits for in
  \<open>g_awaiting\<close>, and a settling event runs the part after it.  The state setters of
  one handler take effect together, and a handler reads the state of the latest
  render.  \<open>trackEvent\<close> is recorded as the event name and its properties.
\<close>

type_synonym tracked = "string \<times> (string \<times> json) list"

datatype game_phase =
  GLobby | GCharacterSelect | GLoading | GPlaying | GRevealing | GRoundEnd | GMatchEnd

datatype game_await =
    AwaitAuth string string
  | AwaitCreate string string difficulty
  | AwaitSubmit game_state action

record game =
  g_phase :: game_phase
  g_gameState :: "game_state option"
  g_lastTurn :: "turn_result option"
  g_lastRound :: "round_result option"
  g_matchResult :: "match_result option"
  g_playerName :: string
  g_playerCharacterId :: "string option"
  g_aiCharacterId :: "string option"
  g_error :: "string option"
  g_difficulty :: difficulty
  g_awaiting :: "game_await list"
  g_tracked :: "tracked list"

definition game_init :: game where
  "game_init = \<lparr>g_phase = GLobby, g_gameState = None, g_lastTurn = None, g_lastRound = None,
     g_matchResult = None, g_playerName = ''Player'', g_playerCharacterId = None,
     g_aiCharacterId = None, g_error = None, g_difficulty = Easy, g_awaiting = [], g_tracked = []\<rparr>"

definition track :: "string \<Rightarrow> (string \<times> json) list \<Rightarrow> game \<Rightarrow> game" where
  "track ev ps s = s\<lparr>g_tracked := g_tracked s @ [(ev, ps)]\<rparr>"

fun winner_str :: "round_winner \<Rightarrow> string" where
  "winner_str WinP1 = ''p1''"
| "winner_str WinP2 = ''p2''"
| "winner_str WinDraw = ''draw''"

definition selectDifficulty :: "difficulty \<Rightarrow> game \<Rightarrow> game" where
  "selectDifficulty d s =
     (track ''difficulty_selected'' [(''mode'', JStr ''ai''), (''difficulty'', JStr (difficulty_str d))]
        (s\<lparr>g_difficulty := d\<rparr>))\<lparr>g_phase := GCharacterSelect\<rparr>"

definition start_failed :: "js_thrown \<Rightarrow> game \<Rightarrow> game" where
  "start_failed e s = s\<lparr>g_error := Some (message_or ''Failed to start game'' e), g_phase := GLobby\<rparr>"

definition startGame :: "string \<Rightarrow> real \<Rightarrow> game \<Rightarrow> game" where
  "startGame characterId rnd s =
     (let s1 = s\<lparr>g_error := None, g_phase := GLoading, g_playerCharacterId := Some characterId\<rparr>
      in case getRandomCharacterExcluding characterId rnd of
           None \<Rightarrow> start_failed (Js_Error ''Cannot read properties of undefined (reading 'id')'') s1
         | Some aiChar \<Rightarrow>
             s1\<lparr>g_aiCharacterId := Some (ch_id aiChar),
                g_awaiting := g_awaiting s @ [AwaitAuth characterId (ch_id aiChar)]\<rparr>)"

text \<open>After \<open>await ensureAuth()\<close>; the name is what \<open>getDisplayName()\<close> reads then.\<close>

definition startGame_authed :: "string \<Rightarrow> string \<Rightarrow> js_thrown + string option \<Rightarrow> game \<Rightarrow> game" where
  "startGame_authed characterId aiId out s =
     (case out of
        Inl e \<Rightarrow> start_failed e s
      | Inr name \<Rightarrow> s\<lparr>g_playerName := or_else name ''Player'',
          g_awaiting := g_awaiting s @ [AwaitCreate characterId aiId (g_difficulty s)]\<rparr>)"

definition startGame_created :: "string \<Rightarrow> string \<Rightarrow> js_thrown + game_state \<Rightarrow> game \<Rightarrow> game" where
  "startGame_created characterId aiId out s =
     (case out of
        Inl e \<Rightarrow> start_failed e s
      | Inr st \<Rightarrow>
          (track ''play_start''
             [(''mode'', JStr ''ai''), (''difficulty'', JStr (difficulty_str (g_difficulty s))),
              (''character_id'', JStr characterId), (''ai_character_id'', JStr aiId),
              (''game_id'', JStr (game_id st))]
             (s\<lparr>g_gameState := Some st, g_lastTurn := None, g_lastRound := None,
                g_matchResult := None\<rparr>))\<lparr>g_phase := GPlaying\<rparr>)"

definition playAction :: "action \<Rightarrow> game \<Rightarrow> game" where
  "playAction a s =
     (case g_gameState s of
        None \<Rightarrow> s
      | Some gs \<Rightarrow> s\<lparr>g_error := None, g_phase := GLoading,
                      g_awaiting := g_awaiting s @ [AwaitSubmit gs a]\<rparr>)"

definition playAction_settled ::
  "game_state \<Rightarrow> action \<Rightarrow> js_thrown + submit_action_response \<Rightarrow> game \<Rightarrow> game" where
  "playAction_settled gs a out s =
     (case out of
        Inl e \<Rightarrow> s\<lparr>g_error := Some (message_or ''Failed to submit action'' e), g_phase := GPlaying\<rparr>
      | Inr response \<Rightarrow>
          (let s1 = (track ''action_submitted''
                 [(''mode'', JStr ''ai''), (''action'', JStr (action_str a)),
                  (''game_id'', JStr (game_id gs)),
                  (''turn_number'', case current_round gs of None \<Rightarrow> JNull
                     | Some r \<Rightarrow> JNum (rs_turn_number r))] s)
                 \<lparr>g_lastTurn := Some (sa_turn_result response),
                  g_gameState := Some (sa_game_state response)\<rparr>
           in case sa_match_result response of
                Some mr \<Rightarrow>
                  (track ''match_finish''
                     [(''mode'', JStr ''ai''), (''game_id'', JStr (game_id (sa_game_state response))),
                      (''winner'', JStr (winner_str (mr_winner mr))),
                      (''rounds_won_p1'', JNum (mr_rounds_won_p1 mr)),
                      (''rounds_won_p2'', JNum (mr_rounds_won_p2 mr)),
                      (''total_turns'', JNum (mr_total_turns mr))]
                     (s1\<lparr>g_matchResult := Some mr, g_lastRound := sa_round_result response\<rparr>))
                  \<lparr>g_phase := GMatchEnd\<rparr>
              | None \<Rightarrow>
                  (case sa_round_result response of
                     Some rr \<Rightarrow> s1\<lparr>g_lastRound := Some rr, g_phase := GRoundEnd\<rparr>
                   | None \<Rightarrow> s1\<lparr>g_phase := GRevealing\<rparr>)))"

definition continueFromReveal :: "game \<Rightarrow> game" where
  "continueFromReveal s = s\<lparr>g_phase := GPlaying\<rparr>"

definition continueFromRound :: "game \<Rightarrow> game" where
  "continueFromRound s = s\<lparr>g_lastTurn := None, g_lastRound := None, g_phase := GPlaying\<rparr>"

definition backToLobby :: "game \<Rightarrow> game" where
  "backToLobby s = s\<lparr>g_gameState := None, g_lastTurn := None, g_lastRound := None,
     g_matchResult := None, g_playerCharacterId := None, g_aiCharacterId := None,
     g_error := None, g_phase := GLobby\<rparr>"

subsection \<open>Events\<close>

datatype game_event =
    SelectDifficulty difficulty
  | StartGame string real
  | AuthSettled "js_thrown + string option"
  | CreateSettled "js_thrown + game_state"
  | PlayAction action
  | SubmitSettled "js_thrown + submit_action_response"
  | ContinueFromReveal
  | ContinueFromRound
  | BackToLobby

text \<open>
  A settling event resumes the oldest wait when it is of its kind, and is
  otherwise impossible (modelled as no change).
\<close>

fun game_step :: "game \<Rightarrow> game_event \<Rightarrow> game" where
  "game_step s (SelectDifficulty d) = selectDifficulty d s"
| "game_step s (StartGame c r) = startGame c r s"
| "game_step s (AuthSettled out) =
     (case g_awaiting s of AwaitAuth c a # ws \<Rightarrow> startGame_authed c a out (s\<lparr>g_awaiting := ws\<rparr>) | _ \<Rightarrow> s)"
| "game_step s (CreateSettled out) =
     (case g_awaiting s of AwaitCreate c a d # ws \<Rightarrow> startGame_created c a out (s\<lparr>g_awaiting := ws\<rparr>) | _ \<Rightarrow> s)"
| "game_step s (PlayAction a) = playAction a s"
| "game_step s (SubmitSettled out) =
     (case g_awaiting s of AwaitSubmit gs a # ws \<Rightarrow> playAction_settled gs a out (s\<lparr>g_awaiting := ws\<rparr>) | _ \<Rightarrow> s)"
| "game_step s ContinueFromReveal = continueFromReveal s"
| "game_step s ContinueFromRound = continueFromRound s"
| "game_step s BackToLobby = backToLobby s"

text \<open>
  What the play page (\<open>app/play/page.tsx\<close>) lets happen: each control is rendered
  in one phase only, and the two auto-advance timers are armed in the phase they
  leave and cleared with it.
\<close>

fun game_enabled :: "game \<Rightarrow> game_event \<Rightarrow> bool" where
  "game_enabled s (SelectDifficulty d) = (g_phase s = GLobby)"
| "game_enabled s (StartGame c r) = (g_phase s = GCharacterSelect \<and> c \<in> set (map ch_id CHARACTERS) \<and> 0 \<le> r \<and> r < 1)"
| "game_enabled s (PlayAction a) = (g_phase s = GPlaying \<and> g_gameState s \<noteq> None)"
| "game_enabled s ContinueFromReveal = (g_phase s = GRevealing)"
| "game_enabled s ContinueFromRound = (g_phase s = GRoundEnd)"
| "game_enabled s BackToLobby = (g_phase s = GMatchEnd \<and> g_matchResult s \<noteq> None)"
| "game_enabled s _ = True"

subsection \<open>Invariant\<close>

definition fighters_ok :: "string \<Rightarrow> string \<Rightarrow> bool" where
  "fighters_ok p a \<longleftrightarrow> p \<noteq> a \<and> p \<in> set (map ch_id CHARACTERS) \<and> a \<in> set (map ch_id CHARACTERS)"

definition in_match :: "game \<Rightarrow> bool" where
  "in_match s \<longleftrightarrow> g_gameState s \<noteq> None \<and>
     (\<exists>p a. g_playerCharacterId s = Some p \<and> g_aiCharacterId s = Some a \<and> fighters_ok p a)"

fun await_ok :: "game \<Rightarrow> game_await \<Rightarrow> bool" where
  "await_ok s (AwaitAuth c a) =
     (g_playerCharacterId s = Some c \<and> g_aiCharacterId s = Some a \<and> fighters_ok c a)"
| "await_ok s (AwaitCreate c a d) =
     (g_playerCharacterId s = Some c \<and> g_aiCharacterId s = Some a \<and> fighters_ok c a \<and> d = g_difficulty s)"
| "await_ok s (AwaitSubmit gs a) = (in_match s \<and> g_gameState s = Some gs)"

fun game_phase_ok :: "game_phase \<Rightarrow> game \<Rightarrow> bool" where
  "game_phase_ok GLobby s = (g_awaiting s = [] \<and> g_matchResult s = None)"
| "game_phase_ok GCharacterSelect s = (g_awaiting s = [] \<and> g_matchResult s = None)"
| "game_phase_ok GLoading s =
     ((\<exists>w. g_awaiting s = [w] \<and> await_ok s w) \<and> g_matchResult s = None)"
| "game_phase_ok GPlaying s = (g_awaiting s = [] \<and> in_match s \<and> g_matchResult s = None)"
| "game_phase_ok GRevealing s =
     (g_awaiting s = [] \<and> in_match s \<and> g_lastTurn s \<noteq> None \<and> g_matchResult s = None)"
| "game_phase_ok GRoundEnd s =
     (g_awaiting s = [] \<and> in_match s \<and> g_lastTurn s \<noteq> None \<and> g_lastRound s \<noteq> None \<and>
      g_matchResult s = None)"
| "game_phase_ok GMatchEnd s =
     (g_awaiting s = [] \<and> in_match s \<and> g_lastTurn s \<noteq> None \<and> g_matchResult s \<noteq> None)"

definition game_inv :: "game \<Rightarrow> bool" where
  "game_inv s \<longleftrightarrow> game_phase_ok (g_phase s) s"

lemmas game_handler_defs = selectDifficulty_def startGame_def startGame_authed_def
  startGame_created_def start_failed_def playAction_def playAction_settled_def
  continueFromReveal_def continueFromRound_def backToLobby_def track_def Let_def

lemma game_inv_init: "game_inv game_init"
  by (simp add: game_inv_def game_init_def)

lemma startGame_starts:
  assumes "0 \<le> r" "r < 1"
  obtains a where "a \<noteq> c" "a \<in> set (map ch_id CHARACTERS)" "startGame c r s = s\<lparr>g_error := None, g_phase := GLoading,
    g_playerCharacterId := Some c, g_aiCharacterId := Some a,
    g_awaiting := g_awaiting s @ [AwaitAuth c a]\<rparr>"
proof -
  obtain x where x: "getRandomCharacterExcluding c r = Some x" "x \<in> set CHARACTERS" "ch_id x \<noteq> c"
    by (rule ai_character [OF assms])
  show ?thesis
    by (rule that [of "ch_id x"]) (use x in \<open>simp_all add: startGame_def Let_def del: length_map\<close>)
qed

lemma game_inv_startGame:
  assumes "game_inv s" "g_phase s = GCharacterSelect" "c \<in> set (map ch_id CHARACTERS)" "0 \<le> r" "r < 1"
  shows "game_inv (startGame c r s)"
proof -
  from assms(1,2) have "g_awaiting s = []" "g_matchResult s = None"
    by (simp_all add: game_inv_def)
  moreover obtain a where "a \<noteq> c" "a \<in> set (map ch_id CHARACTERS)" "startGame c r s = s\<lparr>g_error := None, g_phase := GLoading,
    g_playerCharacterId := Some c, g_aiCharacterId := Some a,
    g_awaiting := g_awaiting s @ [AwaitAuth c a]\<rparr>"
    using startGame_starts [OF assms(4,5)] by metis
  ultimately show ?thesis using assms(3) by (simp add: game_inv_def fighters_ok_def)
qed

lemma game_inv_settled:
  assumes "game_inv s" "g_awaiting s = w # ws"
  shows "g_phase s = GLoading \<and> ws = [] \<and> await_ok s w \<and> g_matchResult s = None"
  using assms by (cases "g_phase s") (auto simp: game_inv_def)

lemma game_inv_AuthSettled:
  assumes inv: "game_inv s"
  shows "game_inv (game_step s (AuthSettled out))"
proof (cases "g_awaiting s")
  case Nil
  with inv show ?thesis by simp
next
  case (Cons w ws)
  from game_inv_settled [OF inv this]
  have h: "g_phase s = GLoading" "ws = []" "await_ok s w" "g_matchResult s = None" by auto
  show ?thesis
  proof (cases out)
    case (Inl e)
    with h Cons inv show ?thesis
      by (cases w) (simp_all add: game_handler_defs game_inv_def in_match_def)
  next
    case (Inr x)
    with h Cons inv show ?thesis
      by (cases w) (auto simp: game_handler_defs game_inv_def in_match_def)
  qed
qed

lemma game_inv_CreateSettled:
  assumes inv: "game_inv s"
  shows "game_inv (game_step s (CreateSettled out))"
proof (cases "g_awaiting s")
  case Nil
  with inv show ?thesis by simp
next
  case (Cons w ws)
  from game_inv_settled [OF inv this]
  have h: "g_phase s = GLoading" "ws = []" "await_ok s w" "g_matchResult s = None" by auto
  show ?thesis
  proof (cases out)
    case (Inl e)
    with h Cons inv show ?thesis
      by (cases w) (simp_all add: game_handler_defs game_inv_def in_match_def)
  next
    case (Inr x)
    with h Cons inv show ?thesis
      by (cases w) (auto simp: game_handler_defs game_inv_def in_match_def)
  qed
qed

lemma game_inv_SubmitSettled:
  assumes inv: "game_inv s"
  shows "game_inv (game_step s (SubmitSettled out))"
proof (cases "g_awaiting s")
  case Nil
  with inv show ?thesis by simp
next
  case (Cons w ws)
  from game_inv_settled [OF inv this]
  have h: "g_phase s = GLoading" "ws = []" "await_ok s w" "g_matchResult s = None" by auto
  show ?thesis
  proof (cases out)
    case (Inl e)
    with h Cons inv show ?thesis
      by (cases w) (simp_all add: game_handler_defs game_inv_def in_match_def)
  next
    case (Inr x)
    with h Cons inv show ?thesis
      by (cases w) (auto simp: game_handler_defs game_inv_def in_match_def split: option.split)
  qed
qed

lemma game_inv_step: "game_inv s \<Longrightarrow> game_enabled s e \<Longrightarrow> game_inv (game_step s e)"
proof (cases e)
  case (StartGame c r)
  assume "game_inv s" "game_enabled s e"
  with StartGame show ?thesis by (simp add: game_inv_startGame)
next
  case (AuthSettled out)
  assume "game_inv s"
  with AuthSettled show ?thesis using game_inv_AuthSettled by blast
next
  case (CreateSettled out)
  assume "game_inv s"
  with CreateSettled show ?thesis using game_inv_CreateSettled by blast
next
  case (SubmitSettled out)
  assume "game_inv s"
  with SubmitSettled show ?thesis using game_inv_SubmitSettled by blast
qed (auto simp: game_handler_defs game_inv_def in_match_def)

interpretation gm: guarded_machine game_init game_enabled game_step game_inv
  by unfold_locales (rule game_inv_init, rule game_inv_step)


subsection \<open>What the page shows is always backed by data\<close>

text \<open>Claim C5: In every run of the AI-match hook that the play page allows (each control exists
  in one phase only; the network settles a request at most once), the hook is loading exactly when
  one request is in flight, the playing, revealing, round-end and match-end phases have the data
  they render (a game state, the last turn, the round result, the match result), and the two
  fighters of a match are different characters.\<close>

theorem game_phases_backed_by_data:
  assumes "legal game_enabled game_step game_init es"
    and s: "s = run game_step game_init es"
  shows "(g_phase s = GLoading \<longleftrightarrow> length (g_awaiting s) = 1) \<and> length (g_awaiting s) \<le> 1 \<and>
    (g_phase s \<in> {GPlaying, GRevealing, GRoundEnd, GMatchEnd} \<longrightarrow>
       g_gameState s \<noteq> None \<and> g_playerCharacterId s \<noteq> None \<and>
       g_aiCharacterId s \<noteq> None \<and> g_playerCharacterId s \<noteq> g_aiCharacterId s) \<and>
    (g_phase s \<in> {GRevealing, GRoundEnd, GMatchEnd} \<longrightarrow> g_lastTurn s \<noteq> None) \<and>
    (g_phase s = GRoundEnd \<longrightarrow> g_lastRound s \<noteq> None) \<and>
    (g_phase s = GMatchEnd \<longleftrightarrow> g_matchResult s \<noteq> None)"
proof -
  have "game_inv s" unfolding s by (rule gm.inv_run) (fact assms(1))
  then show ?thesis
    by (cases "g_phase s") (auto simp: game_inv_def in_match_def fighters_ok_def)
qed

subsection \<open>The hook against the engine\<close>

text \<open>
  The server answers an action of the player by one turn of the engine, with the
  action of its own opponent as second player (\<open>app/services/game_service.py\<close>,
  \<open>submit_action\<close>); a refusal reaches the hook as a thrown error.
\<close>

definition server_submit :: "action \<Rightarrow> game_state \<Rightarrow> action \<Rightarrow> js_thrown + submit_action_response" where
  "server_submit ai gs a =
     (case submit_turn gs a ai of
        Inl e \<Rightarrow> Inl (Js_Error e)
      | Inr (gs', tr, rr, mr) \<Rightarrow> Inr \<lparr>sa_turn_result = tr,
          sa_round_result = rr, sa_match_result = mr, sa_game_state = gs'\<rparr>)"

text \<open>One turn of the hook: the action, its answer, and the auto-advance that follows.\<close>

definition auto_advance :: "game \<Rightarrow> game" where
  "auto_advance s = (case g_phase s of
       GRevealing \<Rightarrow> game_step s ContinueFromReveal
     | GRoundEnd \<Rightarrow> game_step s ContinueFromRound
     | _ \<Rightarrow> s)"

definition hook_answer :: "action \<Rightarrow> game_state \<Rightarrow> action \<Rightarrow> game \<Rightarrow> game" where
  "hook_answer ai gs a s = run game_step s [PlayAction a, SubmitSettled (server_submit ai gs a)]"

fun hook_turns :: "game \<Rightarrow> (action \<times> action) list \<Rightarrow> game" where
  "hook_turns s [] = s"
| "hook_turns s ((a, ai) # ms) =
     (case g_gameState s of None \<Rightarrow> s
      | Some gs \<Rightarrow> hook_turns (auto_advance (hook_answer ai gs a s)) ms)"

lemma check_match_end_round:
  "submit_turn gs a ai = Inr (gs', tr, rr, Some m) \<Longrightarrow> rr \<noteq> None \<and> gs_status gs' = Completed"
  by (erule submit_turn_cases) (auto split: option.splits)

lemma submit_turn_continues:
  "submit_turn gs a ai = Inr (gs', tr, rr, None) \<Longrightarrow> gs_status gs' = InProgress"
  by (erule submit_turn_cases) (auto split: option.splits)

lemma hook_answer_fields:
  assumes "g_gameState s = Some gs" "g_awaiting s = []"
    and sub: "submit_turn gs a ai = Inr (gs', tr, rr, mr)"
  shows "g_gameState (hook_answer ai gs a s) = Some gs'"
    "g_awaiting (hook_answer ai gs a s) = []"
    "g_lastTurn (hook_answer ai gs a s) = Some tr"
    "g_phase (hook_answer ai gs a s) =
       (if mr \<noteq> None then GMatchEnd else if rr \<noteq> None then GRoundEnd else GRevealing)"
    "mr \<noteq> None \<Longrightarrow> g_matchResult (hook_answer ai gs a s) = mr"
    "g_error (hook_answer ai gs a s) = None"
  using assms
  by (auto simp: hook_answer_def playAction_def playAction_settled_def server_submit_def track_def Let_def
      split: option.split)

lemma first_ai_of_taeyang:
  "map_option ch_id (getRandomCharacterExcluding ''taeyang'' 0) = Some ''haneul''"
  by (simp add: getRandomCharacterExcluding_def pick_random_def CHARACTERS_def)

lemma startGame_taeyang:
  "startGame ''taeyang'' 0 s = s\<lparr>g_error := None, g_phase := GLoading,
     g_playerCharacterId := Some ''taeyang'', g_aiCharacterId := Some ''haneul'',
     g_awaiting := g_awaiting s @ [AwaitAuth ''taeyang'' ''haneul'']\<rparr>"
  using first_ai_of_taeyang by (auto simp: startGame_def Let_def split: option.splits)

definition sample_run :: "game_event list" where
  "sample_run = [SelectDifficulty Hard, StartGame ''taeyang'' 0, AuthSettled (Inr None),
     CreateSettled (Inr (start_match ''g'' ''ai_hard''))]"

lemmas sample_run_simps = sample_run_def startGame_taeyang selectDifficulty_def startGame_authed_def
  startGame_created_def track_def game_init_def

theorem game_phases_backed_by_data_witness:
  "legal game_enabled game_step game_init sample_run \<and>
   g_phase (run game_step game_init sample_run) = GPlaying \<and>
   g_playerCharacterId (run game_step game_init sample_run) \<noteq> g_aiCharacterId (run game_step game_init sample_run)"
proof -
  have l: "legal game_enabled game_step game_init sample_run"
    by (simp add: sample_run_simps CHARACTERS_ids roster_ids_def)
  have p: "g_phase (run game_step game_init sample_run) = GPlaying"
    by (simp add: sample_run_simps)
  show ?thesis using game_phases_backed_by_data [OF l refl] l p by simp
qed

text \<open>Claim C4: One turn of an AI match, as the hook plays it against the engine: when both actions
  are affordable the hook ends with the engine's next state, shows that turn, reports no error, and
  is in the match-end phase exactly when the engine has completed the match, in the round-end phase
  exactly when the turn ended a round of a match that goes on, and in the reveal phase otherwise.\<close>

theorem action_dispatches_engine_turn:
  assumes "g_gameState s = Some gs" "g_awaiting s = []" "match_inv gs" "gs_status gs = InProgress"
    and "current_round gs = Some r"
    and "validate_action a (rs_p1_ki r)" "validate_action ai (rs_p2_ki r)"
  shows "\<exists>gs' tr rr mr. submit_turn gs a ai = Inr (gs', tr, rr, mr) \<and>
    g_gameState (hook_answer ai gs a s) = Some gs' \<and>
    g_lastTurn (hook_answer ai gs a s) = Some tr \<and>
    g_error (hook_answer ai gs a s) = None \<and>
    (g_phase (hook_answer ai gs a s) = GMatchEnd \<longleftrightarrow> gs_status gs' = Completed) \<and>
    (g_phase (hook_answer ai gs a s) = GRoundEnd \<longleftrightarrow> rr \<noteq> None \<and> gs_status gs' = InProgress) \<and>
    (g_phase (hook_answer ai gs a s) = GRevealing \<longleftrightarrow> rr = None)"
proof -
  obtain gs' tr rr mr where sub: "submit_turn gs a ai = Inr (gs', tr, rr, mr)"
    using submit_turn_accepts [OF assms(4-7)] by blast
  note f = hook_answer_fields [OF assms(1,2) sub]
  show ?thesis
  proof (cases mr)
    case None
    then show ?thesis using f sub submit_turn_continues [of gs a ai gs' tr rr] by auto
  next
    case (Some m)
    then show ?thesis using f sub check_match_end_round [of gs a ai gs' tr rr m] by auto
  qed
qed

definition in_play :: game where
  "in_play = game_init\<lparr>g_phase := GPlaying, g_gameState := Some (start_match ''g'' ''ai_easy'')\<rparr>"

lemma in_play_fields:
  "g_gameState in_play = Some (start_match ''g'' ''ai_easy'')" "g_awaiting in_play = []"
  "g_phase in_play = GPlaying"
  by (simp_all add: in_play_def game_init_def)

theorem action_dispatches_engine_turn_witness:
  "\<exists>gs' tr rr mr. submit_turn (start_match ''g'' ''ai_easy'') Charge Block = Inr (gs', tr, rr, mr) \<and>
     g_gameState (hook_answer Block (start_match ''g'' ''ai_easy'') Charge in_play) = Some gs'"
proof -
  have "gs_status (start_match ''g'' ''ai_easy'') = InProgress"
    "current_round (start_match ''g'' ''ai_easy'') = Some \<lparr>rs_round_number = 1, rs_p1_ki = 0,
       rs_p2_ki = 0, rs_turn_number = 0, rs_turn_history = []\<rparr>"
    by (simp_all add: start_match_def start_new_round_def)
  from action_dispatches_engine_turn [OF in_play_fields(1,2) match_inv_start this, of Charge Block]
  show ?thesis by (auto simp: validate_action_def)
qed

lemma auto_advance_fields [simp]:
  "g_gameState (auto_advance s) = g_gameState s"
  "g_awaiting (auto_advance s) = g_awaiting s"
  "g_matchResult (auto_advance s) = g_matchResult s"
  by (simp_all add: auto_advance_def continueFromReveal_def continueFromRound_def split: game_phase.split)

lemma auto_advance_phase:
  "g_phase (auto_advance s) = (if g_phase s \<in> {GRevealing, GRoundEnd} then GPlaying else g_phase s)"
  by (simp add: auto_advance_def continueFromReveal_def continueFromRound_def split: game_phase.split)

lemma play_completed:
  "gs_status gs \<noteq> InProgress \<Longrightarrow> play gs ms = Inr gs' \<Longrightarrow> ms = []"
  by (cases ms) (auto simp: submit_turn_def split: prod.splits)

lemma hook_turns_mirror:
  "play gs ms = Inr gs' \<Longrightarrow> g_gameState s = Some gs \<Longrightarrow> g_awaiting s = [] \<Longrightarrow>
   (g_phase s = GMatchEnd \<longleftrightarrow> gs_status gs = Completed) \<Longrightarrow>
   (g_phase s = GPlaying \<longleftrightarrow> gs_status gs = InProgress) \<Longrightarrow>
   g_gameState (hook_turns s ms) = Some gs' \<and>
   (g_phase (hook_turns s ms) = GMatchEnd \<longleftrightarrow> gs_status gs' = Completed) \<and>
   (g_phase (hook_turns s ms) = GPlaying \<longleftrightarrow> gs_status gs' = InProgress)"
proof (induction ms arbitrary: gs s)
  case Nil
  then show ?case by simp
next
  case (Cons m ms)
  obtain a ai where m: "m = (a, ai)" by (cases m)
  with Cons.prems(1) obtain gs1 tr rr mr where sub: "submit_turn gs a ai = Inr (gs1, tr, rr, mr)"
    and rest: "play gs1 ms = Inr gs'" by (auto split: sum.splits)
  note f = hook_answer_fields [OF Cons.prems(2,3) sub]
  define s1 where "s1 = auto_advance (hook_answer ai gs a s)"
  have st: "gs_status gs1 = (if mr = None then InProgress else Completed)"
    using sub submit_turn_continues [of gs a ai gs1 tr rr]
      check_match_end_round [of gs a ai gs1 tr rr] by (cases mr) auto
  have "g_gameState s1 = Some gs1" "g_awaiting s1 = []"
    "g_phase s1 = GMatchEnd \<longleftrightarrow> gs_status gs1 = Completed"
    "g_phase s1 = GPlaying \<longleftrightarrow> gs_status gs1 = InProgress"
    using f st by (auto simp: s1_def auto_advance_phase)
  from Cons.IH [OF rest this] show ?case
    using Cons.prems(2) by (simp add: m s1_def)
qed

text \<open>Claim C1: A whole AI match: after any sequence of turns the engine accepts, the hook holds
  exactly the engine's state, it shows the match-end screen exactly when the match is completed and
  asks for another action exactly when it is not, and at most sixty turns were played.\<close>

theorem hook_follows_engine_to_the_end:
  assumes "play (start_match gid mt) ms = Inr gs'"
    and "g_gameState s = Some (start_match gid mt)" "g_awaiting s = []" "g_phase s = GPlaying"
  shows "g_gameState (hook_turns s ms) = Some gs' \<and>
    (g_phase (hook_turns s ms) = GMatchEnd \<longleftrightarrow> gs_status gs' = Completed) \<and>
    (g_phase (hook_turns s ms) = GPlaying \<longleftrightarrow> gs_status gs' = InProgress) \<and>
    length ms \<le> 60"
proof -
  have "gs_status (start_match gid mt) = InProgress"
    by (simp add: start_match_def)
  then show ?thesis
    using hook_turns_mirror [OF assms(1,2,3)] assms(4) play_bounded [OF match_inv_start assms(1)]
      turns_left_nonneg [OF play_inv [OF match_inv_start assms(1)]] turns_left_start [of gid mt]
    by simp
qed

lemma two_turns: "\<exists>gs'. play (start_match gid mt) [(Charge, Charge), (Attack, Block)] = Inr gs'"
  by (simp add: start_match_def start_new_round_def submit_turn_def validate_action_def
      resolve_turn_def calculate_ki_after_def check_round_end_def TURN_LIMIT_def KI_CAP_def Let_def)

theorem hook_follows_engine_to_the_end_witness:
  "\<exists>gs'. play (start_match ''g'' ''ai_easy'') [(Charge, Charge), (Attack, Block)] = Inr gs' \<and>
     g_gameState (hook_turns in_play [(Charge, Charge), (Attack, Block)]) = Some gs'"
proof -
  obtain gs' where p: "play (start_match ''g'' ''ai_easy'') [(Charge, Charge), (Attack, Block)] = Inr gs'"
    using two_turns by blast
  from hook_follows_engine_to_the_end [OF p in_play_fields] p show ?thesis by blast
qed

end
