(* ===== verification/Board.thy ===== *)
theory Board
  imports Use_Game
begin

text \<open>
  The pieces a player touches or reads during a turn: the action cards
  (\<open>web/src/components/ActionCard.tsx\<close>), the board with its select-and-confirm
  flow (\<open>GameBoard.tsx\<close>), the ki meter (\<open>KiMeter.tsx\<close>) and the score header
  (\<open>MatchHUD.tsx\<close>).  A component is the function from its props and state to the
  values it renders; a handler returns the next state and the action it submits.
\<close>

subsection \<open>Action cards\<close>

record action_config =
  ac_label :: string
  ac_korean :: string
  ac_emoji :: string
  ac_cost :: int
  ac_color :: string
  ac_bgColor :: string
  ac_description :: string

fun ACTION_CONFIG :: "action \<Rightarrow> action_config" where
  "ACTION_CONFIG Charge = \<lparr>ac_label = ''Charge'',
     ac_korean = utf8 [234, 184, 176] @ '' '' @ utf8 [235, 170, 168, 236, 156, 188, 234, 184, 176],
     ac_emoji = utf8 [226, 154, 161], ac_cost = 0,
     ac_color = ''border-yellow-400 ring-yellow-400'', ac_bgColor = ''bg-yellow-500/10'',
     ac_description = ''+1 Ki''\<rparr>"
| "ACTION_CONFIG Block = \<lparr>ac_label = ''Block'', ac_korean = utf8 [235, 167, 137, 234, 184, 176],
     ac_emoji = utf8 [240, 159, 155, 161, 239, 184, 143], ac_cost = 0,
     ac_color = ''border-blue-400 ring-blue-400'', ac_bgColor = ''bg-blue-500/10'',
     ac_description = ''Blocks Attack''\<rparr>"
| "ACTION_CONFIG Attack = \<lparr>ac_label = ''Attack'', ac_korean = utf8 [237, 140, 140],
     ac_emoji = utf8 [240, 159, 145, 138], ac_cost = 1,
     ac_color = ''border-red-400 ring-red-400'', ac_bgColor = ''bg-red-500/10'',
     ac_description = ''Hits Charge''\<rparr>"
| "ACTION_CONFIG EnergyWave = \<lparr>ac_label = ''Ki Burst'', ac_korean = utf8 [234, 184, 176, 237, 143, 173],
     ac_emoji = utf8 [240, 159, 148, 165], ac_cost = 3,
     ac_color = ''border-orange-400 ring-orange-400'', ac_bgColor = ''bg-orange-500/10'',
     ac_description = ''Pierces Block''\<rparr>"
| "ACTION_CONFIG Teleport = \<lparr>ac_label = ''Teleport'',
     ac_korean = utf8 [236, 136, 156, 234, 176, 132, 236, 157, 180, 235, 143, 153],
     ac_emoji = utf8 [240, 159, 146, 168], ac_cost = 1,
     ac_color = ''border-purple-400 ring-purple-400'', ac_bgColor = ''bg-purple-500/10'',
     ac_description = ''Dodges attacks''\<rparr>"

definition canAfford :: "action \<Rightarrow> int \<Rightarrow> bool" where
  "canAfford a playerKi \<longleftrightarrow> playerKi \<ge> ac_cost (ACTION_CONFIG a)"

definition card_disabled :: "action \<Rightarrow> int \<Rightarrow> bool \<Rightarrow> bool" where
  "card_disabled a playerKi disabled \<longleftrightarrow> disabled \<or> \<not> canAfford a playerKi"

text \<open>What a card shows: the class of its state, the cost badge, its texts.\<close>

record card_view =
  cv_disabled :: bool
  cv_class :: string
  cv_badge :: "(string \<times> string) option"
  cv_emoji :: string
  cv_label :: string
  cv_korean :: string
  cv_description :: string

definition ActionCard :: "action \<Rightarrow> int \<Rightarrow> bool \<Rightarrow> bool \<Rightarrow> card_view" where
  "ActionCard a playerKi isSelected disabled =
     (let config = ACTION_CONFIG a; isDisabled = card_disabled a playerKi disabled
      in \<lparr>cv_disabled = isDisabled,
          cv_class =
            (if isSelected then ac_color config @ '' ring-2 scale-105 '' @ ac_bgColor config
             else if isDisabled then ''border-gray-700 bg-gray-800/50 opacity-40 cursor-not-allowed''
             else ''border-gray-600 bg-gray-800 hover:border-gray-400 hover:scale-102 cursor-pointer''),
          cv_badge =
            (if ac_cost config > 0
             then Some (if canAfford a playerKi then ''bg-yellow-500 text-black''
                        else ''bg-gray-600 text-gray-400'', show_int (ac_cost config) @ '' Ki'')
             else None),
          cv_emoji = ac_emoji config, cv_label = ac_label config,
          cv_korean = ac_korean config, cv_description = ac_description config\<rparr>)"

definition card_click :: "action \<Rightarrow> int \<Rightarrow> bool \<Rightarrow> action option" where
  "card_click a playerKi disabled = (if card_disabled a playerKi disabled then None else Some a)"

text \<open>The icon falls back to the emoji once its image has failed to load.\<close>

datatype icon_view = IconImage string | IconEmoji string

definition ActionIcon :: "bool \<Rightarrow> action \<Rightarrow> string \<Rightarrow> (action \<Rightarrow> string) \<Rightarrow> icon_view" where
  "ActionIcon broken a emoji src = (if broken then IconEmoji emoji else IconImage (src a))"

subsection \<open>The board\<close>

definition ACTIONS :: "action list" where
  "ACTIONS = [Charge, Block, Attack, EnergyWave, Teleport]"

definition handleSelect :: "bool \<Rightarrow> action option \<Rightarrow> action \<Rightarrow> action option \<times> action option" where
  "handleSelect disabled selected a =
     (if disabled then (selected, None)
      else if selected = Some a then (None, Some a)
      else (Some a, None))"

definition handleConfirm :: "bool \<Rightarrow> action option \<Rightarrow> action option \<times> action option" where
  "handleConfirm disabled selected =
     (case selected of Some a \<Rightarrow> if \<not> disabled then (None, Some a) else (selected, None)
      | None \<Rightarrow> (selected, None))"

definition handleTimeout :: "action option \<times> action option" where
  "handleTimeout = (None, Some Charge)"

fun replace_first :: "char \<Rightarrow> char \<Rightarrow> string \<Rightarrow> string" where
  "replace_first a b [] = []"
| "replace_first a b (c # cs) = (if c = a then b # cs else c # replace_first a b cs)"

definition confirm_label :: "action option \<Rightarrow> string" where
  "confirm_label selected = (case selected of
      Some a \<Rightarrow> ''Confirm '' @ to_upper (replace_first CHR ''_'' CHR '' '' (action_str a))
    | None \<Rightarrow> ''Pick an action'')"

datatype board_event = CardClick action | ConfirmClick | TimerExpired

text \<open>
  One event on the mounted board: the selection after it and the submission, if
  any.  A click reaches \<open>handleSelect\<close> only through an enabled card, the confirm
  button is disabled without a selection, and the timer runs only on an enabled
  board.
\<close>

fun board_step :: "int \<Rightarrow> bool \<Rightarrow> action option \<Rightarrow> board_event \<Rightarrow> action option \<times> action option" where
  "board_step ki disabled sel (CardClick a) =
     (case card_click a ki disabled of None \<Rightarrow> (sel, None) | Some x \<Rightarrow> handleSelect disabled sel x)"
| "board_step ki disabled sel ConfirmClick =
     (if sel = None \<or> disabled then (sel, None) else handleConfirm disabled sel)"
| "board_step ki disabled sel TimerExpired =
     (if disabled then (sel, None) else handleTimeout)"

fun board_submits :: "int \<Rightarrow> bool \<Rightarrow> action option \<Rightarrow> board_event list \<Rightarrow> action list" where
  "board_submits ki disabled sel [] = []"
| "board_submits ki disabled sel (e # es) =
     (case board_step ki disabled sel e of
        (sel', None) \<Rightarrow> board_submits ki disabled sel' es
      | (sel', Some a) \<Rightarrow> a # board_submits ki disabled sel' es)"

subsection \<open>Ki meter and score header\<close>

definition KI_METER_CAP :: int where "KI_METER_CAP = 10"

record meter_view =
  mv_width_percent :: real
  mv_bar :: string
  mv_glow :: "string option"
  mv_text :: string

definition KiMeter :: "int \<Rightarrow> bool \<Rightarrow> meter_view" where
  "KiMeter ki isPlayer =
     \<lparr>mv_width_percent = real_of_int ki / real_of_int KI_METER_CAP * 100,
      mv_bar = (if isPlayer then ''bg-green-500'' else ''bg-red-500''),
      mv_glow = (if ki > 0 then Some (if isPlayer then ''shadow-green-500/50'' else ''shadow-red-500/50'')
                 else None),
      mv_text = show_int ki @ '' / '' @ show_int KI_METER_CAP\<rparr>"

record hud_view =
  hv_playerKi :: int
  hv_aiKi :: int
  hv_turnNumber :: int
  hv_roundNumber :: int
  hv_playerLabel :: string
  hv_aiLabel :: string
  hv_playerDots :: "bool list"
  hv_aiDots :: "bool list"
  hv_score :: "int \<times> int"

definition ScoreDots :: "int \<Rightarrow> bool list" where
  "ScoreDots wins = map (\<lambda>i. i < wins) [0, 1]"

definition MatchHUD :: "game_state \<Rightarrow> string \<Rightarrow> character option \<Rightarrow> character option \<Rightarrow> hud_view" where
  "MatchHUD gs playerName playerCharacter aiCharacter =
     (let rnd = current_round gs
      in \<lparr>hv_playerKi = nullish (map_option rs_p1_ki rnd) 0,
          hv_aiKi = nullish (map_option rs_p2_ki rnd) 0,
          hv_turnNumber = nullish (map_option rs_turn_number rnd) 0,
          hv_roundNumber = nullish (map_option rs_round_number rnd) (int (length (round_results gs))),
          hv_playerLabel = (case playerCharacter of Some c \<Rightarrow> ch_name c | None \<Rightarrow> playerName),
          hv_aiLabel = (case aiCharacter of Some c \<Rightarrow> ch_name c | None \<Rightarrow> ''AI''),
          hv_playerDots = ScoreDots (gs_rounds_won_p1 gs),
          hv_aiDots = ScoreDots (gs_rounds_won_p2 gs),
          hv_score = (gs_rounds_won_p1 gs, gs_rounds_won_p2 gs)\<rparr>)"

subsection \<open>Facts\<close>

lemma card_cost: "ac_cost (ACTION_CONFIG a) = ACTION_KI_COST a"
  by (cases a) simp_all

lemma canAfford_validate: "canAfford a ki = validate_action a ki"
  by (simp add: canAfford_def validate_action_def card_cost)

lemma ACTIONS_all: "set ACTIONS = UNIV"
proof -
  have "a \<in> set ACTIONS" for a by (cases a) (simp_all add: ACTIONS_def)
  then show ?thesis by blast
qed

lemma label_table: "ac_label (ACTION_CONFIG a) = formatActionLabel (action_str a)"
  by (cases a) (simp_all add: formatActionLabel_def ACTION_LABEL_def)

definition selection_ok :: "int \<Rightarrow> action option \<Rightarrow> bool" where
  "selection_ok ki sel \<longleftrightarrow> (case sel of None \<Rightarrow> True | Some a \<Rightarrow> validate_action a ki)"

lemma board_step_ok:
  assumes "0 \<le> ki" "selection_ok ki sel" "board_step ki disabled sel e = (sel', sub)"
  shows "selection_ok ki sel' \<and> selection_ok ki sub \<and> (sub \<noteq> None \<longrightarrow> sel' = None \<and> \<not> disabled)"
  using assms
  by (cases e)
    (auto simp: selection_ok_def card_click_def card_disabled_def canAfford_validate handleSelect_def
      handleConfirm_def handleTimeout_def validate_charge split: if_splits option.splits)

lemma board_submits_affordable:
  "0 \<le> ki \<Longrightarrow> selection_ok ki sel \<Longrightarrow> a \<in> set (board_submits ki disabled sel es) \<Longrightarrow>
   validate_action a ki \<and> \<not> disabled"
proof (induction es arbitrary: sel)
  case Nil
  then show ?case by simp
next
  case (Cons e es)
  obtain sel' sub where st: "board_step ki disabled sel e = (sel', sub)"
    by (cases "board_step ki disabled sel e")
  with Cons.prems board_step_ok [of ki sel disabled e sel' sub]
  have "selection_ok ki sel'" "selection_ok ki sub" "sub \<noteq> None \<longrightarrow> \<not> disabled" by auto
  with Cons st show ?case
    by (cases sub) (auto simp: selection_ok_def)
qed

subsection \<open>Properties\<close>

text \<open>
  Claim C9: the cards and the server's engine agree on what a player can afford:
  for every action and every ki, a card on an enabled board is enabled exactly
  when the engine accepts the action.
\<close>

theorem card_enabled_iff_engine_accepts:
  "cv_disabled (ActionCard a ki isSelected False) = (\<not> validate_action a ki) \<and>
   card_click a ki False = (if validate_action a ki then Some a else None)"
  by (simp add: ActionCard_def card_click_def card_disabled_def canAfford_validate Let_def)

text \<open>
  Whatever the player clicks, in whatever order, and whenever the timer runs out,
  every action a board submits is one the engine accepts at that ki; and an expired
  timer always submits Charge.  Left on the screen, a board submits again and again; that
  it does not is up to the page that mounts it.
\<close>

theorem board_submits_only_affordable:
  assumes "0 \<le> ki"
  shows "list_all (\<lambda>a. validate_action a ki) (board_submits ki disabled None es) \<and>
         board_submits ki False sel [TimerExpired] = [Charge]"
  using board_submits_affordable [of ki None _ disabled es] assms
  by (auto simp: list_all_iff selection_ok_def handleTimeout_def)

theorem board_submits_only_affordable_witness:
  "list_all (\<lambda>a. validate_action a 1)
     (board_submits 1 False None [CardClick EnergyWave, CardClick Attack, ConfirmClick, TimerExpired])"
  using board_submits_only_affordable [of 1 False
      "[CardClick EnergyWave, CardClick Attack, ConfirmClick, TimerExpired]" None]
  by (simp del: board_submits.simps)

text \<open>
  In every state of a match the header is in range: both meters are
  between 0 and 100 percent wide, at most two dots are lit per player and they
  count the rounds won, and the turn shown is below the limit of 20.
\<close>

theorem hud_in_range:
  assumes "match_inv gs" "gs_status gs = InProgress"
  shows "let v = MatchHUD gs nm pc ac in
      0 \<le> mv_width_percent (KiMeter (hv_playerKi v) True) \<and>
      mv_width_percent (KiMeter (hv_playerKi v) True) \<le> 100 \<and>
      0 \<le> mv_width_percent (KiMeter (hv_aiKi v) False) \<and>
      mv_width_percent (KiMeter (hv_aiKi v) False) \<le> 100 \<and>
      int (length (filter id (hv_playerDots v))) = gs_rounds_won_p1 gs \<and>
      int (length (filter id (hv_aiDots v))) = gs_rounds_won_p2 gs \<and>
      0 \<le> hv_turnNumber v \<and> hv_turnNumber v < TURN_LIMIT \<and>
      1 \<le> hv_roundNumber v \<and> hv_roundNumber v \<le> 3"
proof -
  from assms obtain r where r: "current_round gs = Some r" "round_ok (length (round_results gs)) r"
    "length (round_results gs) \<le> 2" "gs_rounds_won_p1 gs \<le> 1" "gs_rounds_won_p2 gs \<le> 1"
    "score_ok gs"
    by (auto simp: match_inv_def)
  then have "0 \<le> gs_rounds_won_p1 gs" "0 \<le> gs_rounds_won_p2 gs"
    by (simp_all add: score_ok_def wins_of_bounds)
  with r show ?thesis
    by (simp add: MatchHUD_def Let_def KiMeter_def KI_METER_CAP_def ScoreDots_def round_ok_def
        KI_CAP_def)
qed

theorem hud_in_range_witness:
  "mv_width_percent (KiMeter (hv_playerKi (MatchHUD (start_match ''g'' ''pvp'') ''You'' None None)) True) \<le> 100"
  using hud_in_range [of "start_match ''g'' ''pvp''" "''You''" None None] match_inv_start
  by (simp add: Let_def start_match_def)

end
