(* ===== verification/Ad_Timing.thy ===== *)
theory Ad_Timing
  imports Prelude
begin

text \<open>
  The ad-timing hook \<open>web/src/hooks/useAdTiming.ts\<close>: a match counter in a ref, the
  ad-free flag read once on mount, and the interstitial flag.
\<close>

record ad_timing =
  showInterstitial :: bool
  adFree :: bool
  matchCount :: nat

definition ad_init :: ad_timing where
  "ad_init = \<lparr>showInterstitial = False, adFree = False, matchCount = 0\<rparr>"

text \<open>The mount check: \<open>ensureAuth\<close> and \<open>getAdFreeStatus\<close>, any failure ignored.\<close>

definition ad_status_checked :: "js_thrown + bool \<Rightarrow> ad_timing \<Rightarrow> ad_timing" where
  "ad_status_checked out s = (case out of Inl _ \<Rightarrow> s | Inr b \<Rightarrow> s\<lparr>adFree := b\<rparr>)"

definition onMatchEnd :: "ad_timing \<Rightarrow> ad_timing" where
  "onMatchEnd s =
     (if adFree s then s
      else (let s' = s\<lparr>matchCount := matchCount s + 1\<rparr>
            in if matchCount s' mod 2 = 0 then s'\<lparr>showInterstitial := True\<rparr> else s'))"

definition dismissInterstitial :: "ad_timing \<Rightarrow> ad_timing" where
  "dismissInterstitial s = s\<lparr>showInterstitial := False\<rparr>"

definition showAds :: "ad_timing \<Rightarrow> bool" where
  "showAds s \<longleftrightarrow> \<not> adFree s"

datatype ad_event = AdChecked "js_thrown + bool" | AdMatchEnd | AdDismiss

fun ad_step :: "ad_timing \<Rightarrow> ad_event \<Rightarrow> ad_timing" where
  "ad_step s (AdChecked out) = ad_status_checked out s"
| "ad_step s AdMatchEnd = onMatchEnd s"
| "ad_step s AdDismiss = dismissInterstitial s"

definition ad_inv :: "ad_timing \<Rightarrow> bool" where
  "ad_inv s \<longleftrightarrow> (showInterstitial s \<longrightarrow> 2 \<le> matchCount s)"

lemma ad_inv_step: "ad_inv s \<Longrightarrow> ad_inv (ad_step s e)"
proof (cases e)
  case (AdChecked out)
  moreover assume "ad_inv s"
  ultimately show ?thesis
    by (cases out) (simp_all add: ad_inv_def ad_status_checked_def)
next
  case AdMatchEnd
  moreover assume "ad_inv s"
  ultimately show ?thesis
    by (auto simp: ad_inv_def onMatchEnd_def Let_def) presburger
next
  case AdDismiss
  then show ?thesis by (simp add: ad_inv_def dismissInterstitial_def)
qed

interpretation adm: machine ad_init ad_step ad_inv
  by unfold_locales (simp_all add: ad_inv_step, simp add: ad_inv_def ad_init_def)

text \<open>Matches played one after the other, each interstitial dismissed before the next.\<close>

fun after_matches :: "nat \<Rightarrow> ad_timing \<Rightarrow> ad_timing" where
  "after_matches 0 s = s"
| "after_matches (Suc n) s = onMatchEnd (dismissInterstitial (after_matches n s))"

lemma after_matches_state:
  "\<not> adFree s \<Longrightarrow> \<not> adFree (after_matches n s) \<and> matchCount (after_matches n s) = matchCount s + n"
  by (induction n) (simp_all add: onMatchEnd_def dismissInterstitial_def Let_def)

text \<open>
  The interstitial is due after every second match.  Without the ad-free
  pass, after \<open>n\<close> completed matches (each earlier interstitial dismissed) it shows
  exactly when \<open>n\<close> is even and positive; in no sequence of events does it show
  before two matches were counted.
\<close>

theorem interstitial_every_second_match:
  "showInterstitial (after_matches (Suc n) ad_init) = odd n \<and>
   (showInterstitial (run ad_step ad_init es) \<longrightarrow> 2 \<le> matchCount (run ad_step ad_init es))"
proof
  have "\<not> adFree (after_matches n ad_init)" "matchCount (after_matches n ad_init) = n"
    using after_matches_state [of ad_init n] by (simp_all add: ad_init_def)
  then show "showInterstitial (after_matches (Suc n) ad_init) = odd n"
    by (simp add: onMatchEnd_def dismissInterstitial_def Let_def) presburger
  show "showInterstitial (run ad_step ad_init es) \<longrightarrow> 2 \<le> matchCount (run ad_step ad_init es)"
    using adm.always [of es] by (simp add: ad_inv_def)
qed

theorem interstitial_every_second_match_witness:
  "2 \<le> matchCount (run ad_step ad_init [AdMatchEnd, AdMatchEnd])"
  using interstitial_every_second_match [of 0 "[AdMatchEnd, AdMatchEnd]"]
  by (simp add: onMatchEnd_def Let_def ad_init_def)

text \<open>
  With the ad-free pass no match end is counted and no interstitial is
  raised, whatever follows except a new check.
\<close>

theorem ad_free_sees_no_interstitial:
  assumes "adFree s" "\<not> showInterstitial s" "\<forall>out. AdChecked out \<notin> set es"
  shows "\<not> showInterstitial (run ad_step s es) \<and> matchCount (run ad_step s es) = matchCount s \<and>
         \<not> showAds (run ad_step s es)"
  using assms
proof (induction es arbitrary: s)
  case Nil
  then show ?case by (simp add: showAds_def)
next
  case (Cons e es)
  have "adFree (ad_step s e) \<and> \<not> showInterstitial (ad_step s e) \<and> matchCount (ad_step s e) = matchCount s"
    using Cons.prems by (cases e) (auto simp: onMatchEnd_def dismissInterstitial_def)
  with Cons show ?case by simp
qed

theorem ad_free_sees_no_interstitial_witness:
  "\<not> showInterstitial (run ad_step (ad_init\<lparr>adFree := True\<rparr>) [AdMatchEnd, AdMatchEnd])"
  using ad_free_sees_no_interstitial [of "ad_init\<lparr>adFree := True\<rparr>" "[AdMatchEnd, AdMatchEnd]"]
  by (simp add: ad_init_def)

end
