(* ===== verification/Timers.thy ===== *)
theory Timers
  imports Prelude
begin

text \<open>
  The browser timers the components use.  \<open>setTimeout\<close> returns a fresh identifier,
  \<open>clearTimeout\<close> forgets a pending one (and ignores any other), and as time passes
  the due callbacks run in the order of their due times, equal ones in the order
  they were set.  Time is in milliseconds.  Callbacks are data; what one does to a
  component's state is the \<open>exec\<close> argument, and the callbacks of these components
  set no further timer.
\<close>

record 'c timers =
  clock :: nat
  next_id :: nat
  pending :: "(nat \<times> nat \<times> 'c) list"

definition no_timers :: "'c timers" where
  "no_timers = \<lparr>clock = 0, next_id = 0, pending = []\<rparr>"

fun enqueue :: "nat \<times> nat \<times> 'c \<Rightarrow> (nat \<times> nat \<times> 'c) list \<Rightarrow> (nat \<times> nat \<times> 'c) list" where
  "enqueue x [] = [x]"
| "enqueue x (y # ys) = (if fst (snd y) \<le> fst (snd x) then y # enqueue x ys else x # y # ys)"

definition set_timeout :: "'c \<Rightarrow> nat \<Rightarrow> 'c timers \<Rightarrow> nat \<times> 'c timers" where
  "set_timeout c delay t =
     (next_id t, t\<lparr>next_id := next_id t + 1,
                   pending := enqueue (next_id t, clock t + delay, c) (pending t)\<rparr>)"

definition clear_timeout :: "nat \<Rightarrow> 'c timers \<Rightarrow> 'c timers" where
  "clear_timeout i t = t\<lparr>pending := filter (\<lambda>x. fst x \<noteq> i) (pending t)\<rparr>"

definition elapse :: "('c \<Rightarrow> 's \<Rightarrow> 's) \<Rightarrow> nat \<Rightarrow> 'c timers \<times> 's \<Rightarrow> 'c timers \<times> 's" where
  "elapse exec ms ts =
     (let t = fst ts; due = (\<lambda>x. fst (snd x) \<le> clock t + ms)
      in (t\<lparr>clock := clock t + ms, pending := dropWhile due (pending t)\<rparr>,
          fold (\<lambda>x. exec (snd (snd x))) (takeWhile due (pending t)) (snd ts)))"

lemma set_enqueue [simp]: "set (enqueue x xs) = insert x (set xs)"
  by (induction xs) auto

lemma takeWhile_dropWhile_append:
  "(\<And>x. P x \<Longrightarrow> Q x) \<Longrightarrow> takeWhile P xs @ takeWhile Q (dropWhile P xs) = takeWhile Q xs"
  by (induction xs) auto

lemma dropWhile_dropWhile_weaker:
  "(\<And>x. P x \<Longrightarrow> Q x) \<Longrightarrow> dropWhile Q (dropWhile P xs) = dropWhile Q xs"
  by (induction xs) auto

text \<open>Time passing in two steps is time passing at once.\<close>

lemma elapse_elapse: "elapse exec m (elapse exec n ts) = elapse exec (n + m) ts"
proof -
  let ?P = "\<lambda>x. fst (snd x) \<le> clock (fst ts) + n"
  let ?Q = "\<lambda>x. fst (snd x) \<le> clock (fst ts) + (n + m)"
  have "takeWhile ?P (pending (fst ts)) @ takeWhile ?Q (dropWhile ?P (pending (fst ts))) =
      takeWhile ?Q (pending (fst ts))"
    by (rule takeWhile_dropWhile_append) simp
  then have "fold (\<lambda>x. exec (snd (snd x))) (takeWhile ?Q (dropWhile ?P (pending (fst ts))))
      (fold (\<lambda>x. exec (snd (snd x))) (takeWhile ?P (pending (fst ts))) (snd ts)) =
      fold (\<lambda>x. exec (snd (snd x))) (takeWhile ?Q (pending (fst ts))) (snd ts)"
    by (metis fold_append comp_apply)
  moreover have "dropWhile ?Q (dropWhile ?P (pending (fst ts))) = dropWhile ?Q (pending (fst ts))"
    by (rule dropWhile_dropWhile_weaker) simp
  ultimately show ?thesis by (simp add: elapse_def Let_def add.assoc)
qed

lemma elapse_pieces:
  "fold (elapse exec) ms (elapse exec n ts) = elapse exec (n + sum_list ms) ts"
  by (induction ms arbitrary: n) (simp_all add: elapse_elapse add.assoc)

text \<open>Clearing every identifier a component holds leaves none of its timers.\<close>

definition clear_all :: "nat list \<Rightarrow> 'c timers \<Rightarrow> 'c timers" where
  "clear_all ids t = fold clear_timeout ids t"

lemma clear_all_pending:
  "pending (clear_all ids t) = filter (\<lambda>x. fst x \<notin> set ids) (pending t)"
  by (induction ids arbitrary: t) (simp_all add: clear_all_def clear_timeout_def conj_commute)

lemma clear_all_clock [simp]:
  "clock (clear_all ids t) = clock t" "next_id (clear_all ids t) = next_id t"
  by (induction ids arbitrary: t) (simp_all add: clear_all_def clear_timeout_def)

lemma clear_all_none:
  "fst ` set (pending t) \<subseteq> set ids \<Longrightarrow> clear_all ids t = t\<lparr>pending := []\<rparr>"
  by (rule timers.equality) (auto simp: clear_all_pending filter_empty_conv)

end
