(* ===== verification/Reveal.thy ===== *)
theory Reveal
  imports Timers Characters Engine
begin

text \<open>
  The timed presentation of a turn: the animation hook
  \<open>web/src/hooks/useActionAnimation.ts\<close> and the staged card reveal
  \<open>web/src/components/TurnReveal.tsx\<close>.
\<close>

subsection \<open>\<open>useActionAnimation\<close>\<close>

record anim_options =
  windupMs :: nat
  impactMs :: nat
  recoverMs :: nat

definition default_options :: anim_options where
  "default_options = \<lparr>windupMs = 600, impactMs = 800, recoverMs = 600\<rparr>"

record anim =
  an_action :: "action_kind option"
  an_phase :: action_phase
  timeoutRefs :: "nat list"

datatype anim_callback = SetImpact | SetRecover | SetIdle

definition anim_init :: anim where
  "anim_init = \<lparr>an_action = None, an_phase = PhIdle, timeoutRefs = []\<rparr>"

definition isAnimating :: "anim \<Rightarrow> bool" where
  "isAnimating s \<longleftrightarrow> an_phase s \<noteq> PhIdle"

fun anim_exec :: "anim_callback \<Rightarrow> anim \<Rightarrow> anim" where
  "anim_exec SetImpact s = s\<lparr>an_phase := PhImpact\<rparr>"
| "anim_exec SetRecover s = s\<lparr>an_phase := PhRecover\<rparr>"
| "anim_exec SetIdle s = s\<lparr>an_phase := PhIdle, an_action := None\<rparr>"

definition triggerAction ::
  "anim_options \<Rightarrow> action_kind \<Rightarrow> anim_callback timers \<times> anim \<Rightarrow> anim_callback timers \<times> anim" where
  "triggerAction opts newAction ts =
     (let t0 = clear_all (timeoutRefs (snd ts)) (fst ts);
          s = (snd ts)\<lparr>timeoutRefs := [], an_action := Some newAction, an_phase := PhWindup\<rparr>;
          (i1, t1) = set_timeout SetImpact (windupMs opts) t0;
          (i2, t2) = set_timeout SetRecover (windupMs opts + impactMs opts) t1;
          (i3, t3) = set_timeout SetIdle (windupMs opts + impactMs opts + recoverMs opts) t2
      in (t3, s\<lparr>timeoutRefs := [i1, i2, i3]\<rparr>))"

datatype anim_event = Trigger action_kind | Wait nat

fun anim_step ::
  "anim_options \<Rightarrow> anim_callback timers \<times> anim \<Rightarrow> anim_event \<Rightarrow> anim_callback timers \<times> anim" where
  "anim_step opts ts (Trigger a) = triggerAction opts a ts"
| "anim_step opts ts (Wait ms) = elapse anim_exec ms ts"

definition anim_inv :: "anim_callback timers \<times> anim \<Rightarrow> bool" where
  "anim_inv ts \<longleftrightarrow> fst ` set (pending (fst ts)) \<subseteq> set (timeoutRefs (snd ts))"

lemma anim_exec_refs [simp]: "timeoutRefs (anim_exec c s) = timeoutRefs s"
  by (cases c) simp_all

lemma fold_anim_exec_refs [simp]:
  "timeoutRefs (fold (\<lambda>x. anim_exec (snd (snd x))) xs s) = timeoutRefs s"
  by (induction xs arbitrary: s) simp_all

lemma triggerAction_closed:
  assumes "anim_inv ts"
  shows "triggerAction opts a ts =
    (let n = next_id (fst ts); c = clock (fst ts) in
     (\<lparr>clock = c, next_id = n + 3,
       pending = [(n, c + windupMs opts, SetImpact), (n + 1, c + windupMs opts + impactMs opts, SetRecover),
                  (n + 2, c + windupMs opts + impactMs opts + recoverMs opts, SetIdle)]\<rparr>,
      \<lparr>an_action = Some a, an_phase = PhWindup, timeoutRefs = [n, n + 1, n + 2]\<rparr>))"
  using assms
  by (simp add: triggerAction_def anim_inv_def clear_all_none set_timeout_def Let_def)

lemma anim_inv_step: "anim_inv ts \<Longrightarrow> anim_inv (anim_step opts ts e)"
  by (cases e)
    (auto simp: triggerAction_closed Let_def, auto simp: anim_inv_def elapse_def Let_def dest: set_dropWhileD)

lemma anim_inv_init: "anim_inv (no_timers, anim_init)"
  by (simp add: anim_inv_def no_timers_def)

interpretation an: machine "(no_timers, anim_init)" "anim_step opts" anim_inv
  for opts by unfold_locales (rule anim_inv_init, rule anim_inv_step)

text \<open>What the fighter shows \<open>e\<close> milliseconds after the latest trigger.\<close>

definition phase_after :: "anim_options \<Rightarrow> nat \<Rightarrow> action_phase" where
  "phase_after opts e =
     (if e < windupMs opts then PhWindup
      else if e < windupMs opts + impactMs opts then PhImpact
      else if e < windupMs opts + impactMs opts + recoverMs opts then PhRecover
      else PhIdle)"

lemma anim_after_trigger:
  assumes "anim_inv ts"
  shows "an_phase (snd (elapse anim_exec e (triggerAction opts a ts))) = phase_after opts e"
    and "an_action (snd (elapse anim_exec e (triggerAction opts a ts))) =
      (if phase_after opts e = PhIdle then None else Some a)"
  by (auto simp: triggerAction_closed [OF assms] Let_def elapse_def phase_after_def)

text \<open>The animation lifecycle is deterministic.  Whatever was triggered before and whenever,
  after a trigger the fighter goes through windup, impact and recover, each for its duration, and is
  idle without an action from then on: earlier triggers' timers never fire into the new one.  Its
  phase depends only on the time since the last trigger, however that time is split.\<close>

theorem animation_lifecycle:
  assumes s: "ts = run (anim_step opts) (no_timers, anim_init) es"
  shows "an_phase (snd (run (anim_step opts) (anim_step opts ts (Trigger a)) (Wait e # map Wait ms))) =
      phase_after opts (e + sum_list ms) \<and>
    an_action (snd (run (anim_step opts) (anim_step opts ts (Trigger a)) (Wait e # map Wait ms))) =
      (if phase_after opts (e + sum_list ms) = PhIdle then None else Some a)"
proof -
  have inv: "anim_inv ts" unfolding s by (rule an.always)
  have waits: "run (anim_step opts) ts' (map Wait ms) = fold (elapse anim_exec) ms ts'" for ts'
    by (induction ms arbitrary: ts') simp_all
  show ?thesis
    by (simp add: waits elapse_pieces anim_after_trigger [OF inv])
qed

theorem animation_lifecycle_witness:
  "an_phase (snd (run (anim_step default_options)
      (anim_step default_options (run (anim_step default_options) (no_timers, anim_init)
         [Trigger KCharge, Wait 500]) (Trigger KAttack)) [Wait 300, Wait 400])) = PhImpact"
  using animation_lifecycle [OF refl, of default_options "[Trigger KCharge, Wait 500]" KAttack 300 "[400]"]
  by (simp add: phase_after_def default_options_def)

subsection \<open>\<open>TurnReveal\<close>\<close>

datatype reveal_stage = FaceDown | Flipping | Paused | OutcomeShown

record outcome_display =
  od_text :: string
  od_color :: string
  od_subtext :: string

fun OUTCOME_DISPLAY :: "turn_outcome \<Rightarrow> outcome_display" where
  "OUTCOME_DISPLAY P1WinsRound =
     \<lparr>od_text = ''HIT!'', od_color = ''text-green-400'', od_subtext = ''You win the round!''\<rparr>"
| "OUTCOME_DISPLAY P2WinsRound =
     \<lparr>od_text = ''HIT!'', od_color = ''text-red-400'', od_subtext = ''AI wins the round!''\<rparr>"
| "OUTCOME_DISPLAY Clash =
     \<lparr>od_text = ''CLASH!'', od_color = ''text-yellow-400'', od_subtext = ''Both lose ki''\<rparr>"
| "OUTCOME_DISPLAY Blocked =
     \<lparr>od_text = ''BLOCKED!'', od_color = ''text-blue-400'', od_subtext = ''Attack was blocked''\<rparr>"
| "OUTCOME_DISPLAY Dodged =
     \<lparr>od_text = ''DODGED!'', od_color = ''text-purple-400'', od_subtext = ''Attack was dodged''\<rparr>"
| "OUTCOME_DISPLAY Neutral =
     \<lparr>od_text = utf8 [226, 128, 148], od_color = ''text-gray-400'', od_subtext = ''No effect''\<rparr>"

definition ACTION_EMOJI :: "string \<Rightarrow> string option" where
  "ACTION_EMOJI = map_of
     [(''charge'', utf8 [226, 154, 161]),
      (''block'', utf8 [240, 159, 155, 161, 239, 184, 143]),
      (''attack'', utf8 [240, 159, 145, 138]),
      (''energy_wave'', utf8 [240, 159, 148, 165]),
      (''teleport'', utf8 [240, 159, 146, 168])]"

fun getShakeClass :: "turn_outcome \<Rightarrow> string" where
  "getShakeClass P1WinsRound = ''animate-shake-strong''"
| "getShakeClass P2WinsRound = ''animate-shake-strong''"
| "getShakeClass Clash = ''animate-shake-medium''"
| "getShakeClass Blocked = ''animate-shake-light''"
| "getShakeClass Dodged = ''animate-shake-light''"
| "getShakeClass Neutral = []"

text \<open>
  The component keeps its stage and its timer identifiers.  \<open>tv_revealed\<close> lists
  the calls of \<open>onOutcomeRevealed\<close>.
\<close>

record reveal =
  tv_stage :: reveal_stage
  tv_refs :: "nat list"
  tv_revealed :: "turn_outcome list"

datatype reveal_callback = SetStage reveal_stage | RevealOutcome turn_outcome

fun reveal_exec :: "reveal_callback \<Rightarrow> reveal \<Rightarrow> reveal" where
  "reveal_exec (SetStage st) s = s\<lparr>tv_stage := st\<rparr>"
| "reveal_exec (RevealOutcome out) s = s\<lparr>tv_stage := OutcomeShown, tv_revealed := tv_revealed s @ [out]\<rparr>"

definition reveal_init :: reveal where
  "reveal_init = \<lparr>tv_stage = FaceDown, tv_refs = [], tv_revealed = []\<rparr>"

text \<open>The effect, run on mount and when \<open>visible\<close>, \<open>turnResult\<close> or the callback changes.\<close>

definition reveal_effect ::
  "bool \<Rightarrow> turn_result option \<Rightarrow> reveal_callback timers \<times> reveal \<Rightarrow> reveal_callback timers \<times> reveal" where
  "reveal_effect visible turnResult ts =
     (let t0 = clear_all (tv_refs (snd ts)) (fst ts); s = (snd ts)\<lparr>tv_refs := []\<rparr>
      in case turnResult of
           None \<Rightarrow> (t0, s)
         | Some tr \<Rightarrow>
             if \<not> visible then (t0, s)
             else (let (i1, t1) = set_timeout (SetStage FaceDown) 0 t0;
                       (i2, t2) = set_timeout (SetStage Flipping) 300 t1;
                       (i3, t3) = set_timeout (SetStage Paused) 1100 t2;
                       (i4, t4) = set_timeout (RevealOutcome (tr_outcome tr)) 2100 t3
                   in (t4, s\<lparr>tv_refs := [i1, i2, i3, i4]\<rparr>)))"

text \<open>The effect's cleanup, run before the next effect and on unmount.\<close>

definition reveal_cleanup :: "reveal_callback timers \<times> reveal \<Rightarrow> reveal_callback timers \<times> reveal" where
  "reveal_cleanup ts = (clear_all (tv_refs (snd ts)) (fst ts), (snd ts)\<lparr>tv_refs := []\<rparr>)"

record flip_card =
  fc_emoji :: "string option"
  fc_label :: string
  fc_who :: string
  fc_flipped :: bool

definition reveal_subtext :: "turn_outcome \<Rightarrow> string \<Rightarrow> string \<Rightarrow> string" where
  "reveal_subtext out playerName aiName =
     (if out = P1WinsRound then playerName @ '' win the round!''
      else if out = P2WinsRound then aiName @ '' wins the round!''
      else od_subtext (OUTCOME_DISPLAY out))"

definition FlipCard :: "action \<Rightarrow> string \<Rightarrow> reveal_stage \<Rightarrow> flip_card" where
  "FlipCard a who stage =
     \<lparr>fc_emoji = ACTION_EMOJI (action_str a), fc_label = formatActionLabel (action_str a),
      fc_who = who, fc_flipped = (stage \<noteq> FaceDown)\<rparr>"

text \<open>What is rendered: the two cards and, in the last stage, the outcome's texts.\<close>

definition TurnReveal ::
  "turn_result option \<Rightarrow> bool \<Rightarrow> string \<Rightarrow> string \<Rightarrow> reveal_stage \<Rightarrow>
     (flip_card \<times> flip_card \<times> (string \<times> string \<times> string) option) option" where
  "TurnReveal turnResult visible playerName aiName stage =
     (case turnResult of None \<Rightarrow> None
      | Some tr \<Rightarrow> if \<not> visible then None
          else Some (FlipCard (tr_p1_action tr) playerName stage,
                     FlipCard (tr_p2_action tr) aiName stage,
                     if stage = OutcomeShown
                     then Some (od_color (OUTCOME_DISPLAY (tr_outcome tr)),
                                od_text (OUTCOME_DISPLAY (tr_outcome tr)),
                                reveal_subtext (tr_outcome tr) playerName aiName)
                     else None))"

datatype reveal_event = RvProps bool "turn_result option" | RvWait nat | RvUnmount

fun reveal_step :: "reveal_callback timers \<times> reveal \<Rightarrow> reveal_event \<Rightarrow> reveal_callback timers \<times> reveal" where
  "reveal_step ts (RvProps v tr) = reveal_effect v tr (reveal_cleanup ts)"
| "reveal_step ts (RvWait ms) = elapse reveal_exec ms ts"
| "reveal_step ts RvUnmount = reveal_cleanup ts"

definition reveal_inv :: "reveal_callback timers \<times> reveal \<Rightarrow> bool" where
  "reveal_inv ts \<longleftrightarrow> fst ` set (pending (fst ts)) \<subseteq> set (tv_refs (snd ts))"

lemma reveal_exec_refs [simp]: "tv_refs (reveal_exec c s) = tv_refs s"
  by (cases c) simp_all

lemma fold_reveal_exec_refs [simp]:
  "tv_refs (fold (\<lambda>x. reveal_exec (snd (snd x))) xs s) = tv_refs s"
  by (induction xs arbitrary: s) simp_all

lemma reveal_cleanup_closed:
  "reveal_inv ts \<Longrightarrow> reveal_cleanup ts = ((fst ts)\<lparr>pending := []\<rparr>, (snd ts)\<lparr>tv_refs := []\<rparr>)"
  by (simp add: reveal_cleanup_def reveal_inv_def clear_all_none)

lemma reveal_effect_closed:
  "pending (fst ts) = [] \<Longrightarrow> reveal_effect True (Some tr) ts =
    (let n = next_id (fst ts); c = clock (fst ts) in
     (\<lparr>clock = c, next_id = n + 4,
       pending = [(n, c, SetStage FaceDown), (n + 1, c + 300, SetStage Flipping),
                  (n + 2, c + 1100, SetStage Paused), (n + 3, c + 2100, RevealOutcome (tr_outcome tr))]\<rparr>,
      (snd ts)\<lparr>tv_refs := [n, n + 1, n + 2, n + 3]\<rparr>))"
  using clear_all_none [of "fst ts" "tv_refs (snd ts)"]
  by (simp add: reveal_effect_def set_timeout_def Let_def)

lemma reveal_effect_idle:
  "\<not> visible \<or> tro = None \<Longrightarrow> reveal_effect visible tro ts =
     (clear_all (tv_refs (snd ts)) (fst ts), (snd ts)\<lparr>tv_refs := []\<rparr>)"
  by (auto simp: reveal_effect_def Let_def split: option.split)

lemma reveal_inv_step:
  assumes inv: "reveal_inv ts"
  shows "reveal_inv (reveal_step ts e)"
proof (cases e)
  case (RvProps v tro)
  show ?thesis
  proof (cases "v \<and> tro \<noteq> None")
    case True
    then show ?thesis
      using RvProps inv by (auto simp: reveal_cleanup_closed reveal_effect_closed Let_def reveal_inv_def)
  next
    case False
    then show ?thesis
      using RvProps inv reveal_effect_idle [of v tro]
      by (auto simp: reveal_cleanup_closed reveal_inv_def clear_all_pending)
  qed
next
  case (RvWait ms)
  with inv show ?thesis
    by (auto simp: reveal_inv_def elapse_def Let_def dest: set_dropWhileD)
next
  case RvUnmount
  with inv show ?thesis by (simp add: reveal_cleanup_closed) (simp add: reveal_inv_def)
qed

lemma reveal_inv_init: "reveal_inv (no_timers, reveal_init)"
  by (simp add: reveal_inv_def no_timers_def)

interpretation rv: machine "(no_timers, reveal_init)" reveal_step reveal_inv
  by unfold_locales (rule reveal_inv_init, rule reveal_inv_step)

definition stage_after :: "nat \<Rightarrow> reveal_stage" where
  "stage_after e = (if e < 300 then FaceDown else if e < 1100 then Flipping
     else if e < 2100 then Paused else OutcomeShown)"

lemma reveal_waits:
  "run reveal_step ts (map RvWait ms) = fold (elapse reveal_exec) ms ts"
  by (induction ms arbitrary: ts) simp_all

lemma elapse_nothing:
  "pending t = [] \<Longrightarrow> fold (elapse exec) ms (t, s) = (t\<lparr>clock := clock t + sum_list ms\<rparr>, s)"
  by (induction ms arbitrary: t) (auto simp: elapse_def Let_def add.assoc)

text \<open>Claim C18: The staged reveal.  Whatever happened before, once the component gets a turn to show,
  its cards are face down for 0.3 s, flip, are shown without the outcome from 1.1 s, and the outcome
  appears at 2.1 s; \<open>onOutcomeRevealed\<close> (the screen shake) is called for that turn exactly once if it
  stays 2.1 s and not at all otherwise, and never after the component has unmounted.\<close>

theorem outcome_revealed_once:
  assumes ts: "ts = run reveal_step (no_timers, reveal_init) es"
    and shown: "shown = run reveal_step ts (RvProps True (Some tr) # RvWait e # map RvWait ms)"
  shows "tv_stage (snd shown) = stage_after (e + sum_list ms) \<and>
    tv_revealed (snd shown) = tv_revealed (snd ts) @
      (if 2100 \<le> e + sum_list ms then [tr_outcome tr] else []) \<and>
    tv_revealed (snd (run reveal_step shown (RvUnmount # map RvWait ns))) = tv_revealed (snd shown)"
proof -
  have inv: "reveal_inv ts" unfolding ts by (rule rv.always)
  have eq: "shown = elapse reveal_exec (e + sum_list ms) (reveal_step ts (RvProps True (Some tr)))"
    unfolding shown by (simp add: reveal_waits elapse_pieces)
  have "tv_stage (snd shown) = stage_after (e + sum_list ms)"
    "tv_revealed (snd shown) = tv_revealed (snd ts) @
      (if 2100 \<le> e + sum_list ms then [tr_outcome tr] else [])"
    using inv by (simp_all add: eq reveal_cleanup_closed reveal_effect_closed Let_def elapse_def stage_after_def)
  moreover have "reveal_inv shown"
    unfolding shown by (rule rv.always_from [OF inv])
  then have clean: "reveal_step shown RvUnmount = ((fst shown)\<lparr>pending := []\<rparr>, (snd shown)\<lparr>tv_refs := []\<rparr>)"
    by (simp add: reveal_cleanup_closed)
  have "tv_revealed (snd (run reveal_step shown (RvUnmount # map RvWait ns))) = tv_revealed (snd shown)"
    using clean by (simp add: reveal_waits elapse_nothing del: reveal_step.simps)
  ultimately show ?thesis by blast
qed

definition sample_turn :: turn_result where
  "sample_turn = resolve_turn 1 Charge Charge 0 0"

theorem outcome_revealed_once_witness:
  "tv_revealed (snd (run reveal_step (run reveal_step (no_timers, reveal_init) [])
     (RvProps True (Some sample_turn) # RvWait 1000 # map RvWait [2000]))) = [Neutral]"
  using outcome_revealed_once [OF refl refl, of "[]" sample_turn 1000 "[2000]" "[]"]
  by (simp add: sample_turn_def reveal_init_def del: reveal_step.simps run.simps(2))

end
