(* ===== verification/Countdown.thy ===== *)
theory Countdown
  imports Complex_Main Prelude
begin

text \<open>
  The selection timer \<open>web/src/components/Countdown.tsx\<close>.  The effect starts it;
  an animation frame then reads how many milliseconds have passed.  \<open>cd_calls\<close>
  lists the calls of \<open>onBeat\<close> and \<open>onTimeout\<close>, and \<open>cd_ticking\<close> says whether
  another frame is requested.
\<close>

datatype cd_call = Beat | Timeout

record countdown =
  remaining :: real
  firedRef :: bool
  lastBeatRef :: int
  cd_ticking :: bool
  cd_calls :: "cd_call list"

definition DEFAULT_SECONDS :: int where "DEFAULT_SECONDS = 3"

definition cd_mount :: "int \<Rightarrow> countdown" where
  "cd_mount seconds = \<lparr>remaining = of_int seconds, firedRef = False, lastBeatRef = seconds,
     cd_ticking = False, cd_calls = []\<rparr>"

definition cd_call :: "cd_call \<Rightarrow> countdown \<Rightarrow> countdown" where
  "cd_call c s = s\<lparr>cd_calls := cd_calls s @ [c]\<rparr>"

definition cd_effect :: "int \<Rightarrow> bool \<Rightarrow> countdown \<Rightarrow> countdown" where
  "cd_effect seconds paused s =
     (if paused then s
      else (cd_call Beat (s\<lparr>firedRef := False, lastBeatRef := seconds\<rparr>))\<lparr>cd_ticking := True\<rparr>)"

definition cd_cleanup :: "countdown \<Rightarrow> countdown" where
  "cd_cleanup s = s\<lparr>cd_ticking := False\<rparr>"

definition cd_tick :: "int \<Rightarrow> nat \<Rightarrow> countdown \<Rightarrow> countdown" where
  "cd_tick seconds elapsedMs s =
     (let elapsed = real elapsedMs / 1000;
          left = max 0 (of_int seconds - elapsed);
          s1 = s\<lparr>remaining := left\<rparr>;
          currentSecond = \<lceil>left\<rceil>;
          s2 = (if currentSecond < lastBeatRef s1 \<and> currentSecond > 0
                then cd_call Beat (s1\<lparr>lastBeatRef := currentSecond\<rparr>) else s1)
      in if left \<le> 0 \<and> \<not> firedRef s2
         then (cd_call Timeout (cd_call Beat (s2\<lparr>firedRef := True\<rparr>)))\<lparr>cd_ticking := False\<rparr>
         else s2\<lparr>cd_ticking := True\<rparr>)"

text \<open>The zero-delay timer of the effect, and a frame (only while one is requested).\<close>

datatype cd_event = CdReset | CdFrame nat

fun cd_step :: "int \<Rightarrow> countdown \<Rightarrow> cd_event \<Rightarrow> countdown" where
  "cd_step seconds s CdReset = s\<lparr>remaining := of_int seconds\<rparr>"
| "cd_step seconds s (CdFrame ms) = (if cd_ticking s then cd_tick seconds ms s else s)"

definition fraction :: "int \<Rightarrow> countdown \<Rightarrow> real" where
  "fraction seconds s = remaining s / of_int seconds"

definition displayNumber :: "countdown \<Rightarrow> int" where
  "displayNumber s = \<lceil>remaining s\<rceil>"

definition barColor :: "real \<Rightarrow> string" where
  "barColor f = (if f > 1 / 2 then ''bg-green-500'' else if f > 1 / 4 then ''bg-yellow-500''
     else ''bg-red-500'')"

definition textColor :: "real \<Rightarrow> string" where
  "textColor f = (if f > 1 / 2 then ''text-green-400'' else if f > 1 / 4 then ''text-yellow-400''
     else ''text-red-400'')"

definition pulse :: "real \<Rightarrow> bool" where
  "pulse f \<longleftrightarrow> f \<le> 4 / 10"

definition bar_width_percent :: "real \<Rightarrow> real" where
  "bar_width_percent f = f * 100"

subsection \<open>Invariant\<close>

abbreviation beats :: "countdown \<Rightarrow> nat" where
  "beats s \<equiv> count_list (cd_calls s) Beat"

abbreviation timeouts :: "countdown \<Rightarrow> nat" where
  "timeouts s \<equiv> count_list (cd_calls s) Timeout"

definition cd_inv :: "int \<Rightarrow> countdown \<Rightarrow> bool" where
  "cd_inv n s \<longleftrightarrow> 0 \<le> remaining s \<and> remaining s \<le> of_int n \<and>
     1 \<le> lastBeatRef s \<and> lastBeatRef s \<le> n \<and>
     int (beats s) \<le> 1 + (n - lastBeatRef s) + of_bool (firedRef s) \<and>
     timeouts s = of_bool (firedRef s) \<and> cd_ticking s = (\<not> firedRef s)"

definition cd_started :: "int \<Rightarrow> countdown" where
  "cd_started n = cd_effect n False (cd_mount n)"

lemma cd_inv_started: "0 < n \<Longrightarrow> cd_inv n (cd_started n)"
  by (simp add: cd_inv_def cd_started_def cd_effect_def cd_mount_def cd_call_def)

abbreviation cd_left :: "int \<Rightarrow> nat \<Rightarrow> real" where
  "cd_left n ms \<equiv> max 0 (of_int n - real ms / 1000)"

text \<open>One frame, by whether it is the last and whether it crosses a whole second.\<close>

lemma cd_tick_cases:
  assumes "\<not> firedRef s" "0 < n"
  shows "cd_tick n ms s =
    (if int ms \<ge> n * 1000
     then s\<lparr>remaining := 0, firedRef := True, cd_ticking := False, cd_calls := cd_calls s @ [Beat, Timeout]\<rparr>
     else if \<lceil>cd_left n ms\<rceil> < lastBeatRef s
     then s\<lparr>remaining := cd_left n ms, lastBeatRef := \<lceil>cd_left n ms\<rceil>, cd_ticking := True, cd_calls := cd_calls s @ [Beat]\<rparr>
     else s\<lparr>remaining := cd_left n ms, cd_ticking := True\<rparr>)"
proof -
  have iff: "cd_left n ms \<le> 0 \<longleftrightarrow> int ms \<ge> n * 1000"
  proof -
    have "cd_left n ms \<le> 0 \<longleftrightarrow> of_int (n * 1000) \<le> (of_int (int ms) :: real)"
      by (simp add: field_simps)
    then show ?thesis by (simp only: of_int_le_iff)
  qed
  show ?thesis
  proof (cases "int ms \<ge> n * 1000")
    case True
    with iff have "cd_left n ms = 0" by simp
    then show ?thesis
      using True assms(1) by (simp add: cd_tick_def Let_def cd_call_def)
  next
    case False
    with iff have "0 < cd_left n ms" by simp
    then show ?thesis
      using False assms(1) by (simp add: cd_tick_def Let_def cd_call_def)
  qed
qed

lemma cd_left_bounds:
  "0 < n \<Longrightarrow> 0 \<le> max 0 (of_int n - real ms / 1000) \<and> max 0 (of_int n - real ms / 1000) \<le> of_int n"
  by simp

lemma cd_inv_tick:
  assumes "0 < n" "cd_inv n s" "\<not> firedRef s"
  shows "cd_inv n (cd_tick n ms s)"
proof (cases "int ms \<ge> n * 1000")
  case True
  with assms show ?thesis
    by (simp add: cd_tick_cases [OF assms(3,1)]) (simp add: cd_inv_def)
next
  case False
  let ?l = "max 0 (of_int n - real ms / 1000) :: real"
  have "of_int (int ms) < (of_int (n * 1000) :: real)"
    using False by (simp only: of_int_less_iff not_le)
  then have "0 < ?l" by (simp add: field_simps)
  then have "1 \<le> \<lceil>?l\<rceil>" by linarith
  with False assms cd_left_bounds [of n ms] show ?thesis
    by (simp add: cd_tick_cases [OF assms(3,1)]) (simp add: cd_inv_def)
qed

lemma cd_inv_ticking: "cd_inv n s \<Longrightarrow> cd_ticking s = (\<not> firedRef s)"
  by (simp add: cd_inv_def)

lemma cd_inv_step:
  assumes "0 < n" "cd_inv n s"
  shows "cd_inv n (cd_step n s e)"
proof (cases e)
  case CdReset
  with assms show ?thesis by (simp add: cd_inv_def)
next
  case (CdFrame ms)
  then show ?thesis
    using assms cd_inv_tick [OF assms] cd_inv_ticking [OF assms(2)] by simp
qed

interpretation cd: machine "cd_started (max 1 n)" "cd_step (max 1 n)" "cd_inv (max 1 n)"
  for n by unfold_locales (auto intro: cd_inv_started cd_inv_step)

lemma cd_run_inv: "0 < n \<Longrightarrow> cd_inv n (run (cd_step n) (cd_started n) es)"
  using cd.always [of n es] by (simp add: max_def)

lemma cd_step_fired:
  "0 < n \<Longrightarrow> cd_inv n s \<Longrightarrow>
   firedRef (cd_step n s e) = (firedRef s \<or> (\<exists>ms. e = CdFrame ms \<and> int ms \<ge> n * 1000))"
  by (cases e) (auto simp: cd_inv_def cd_tick_cases)

lemma cd_run_fired:
  "0 < n \<Longrightarrow> cd_inv n s \<Longrightarrow>
   firedRef (run (cd_step n) s es) = (firedRef s \<or> (\<exists>ms. CdFrame ms \<in> set es \<and> int ms \<ge> n * 1000))"
proof (induction es arbitrary: s)
  case Nil
  then show ?case by simp
next
  case (Cons e es)
  then show ?case
    using cd_inv_step [of n s e] cd_step_fired [of n s e] by auto
qed

text \<open>Claim C19: The selection timer fires exactly once.  Whatever the frame times, \<open>onTimeout\<close> (which
  submits Charge) is called once as soon as a frame sees the full time passed and never otherwise or
  again; at most one beat per second plus the final one is played; and the number shown stays
  between zero and the full time.\<close>

theorem countdown_fires_once:
  assumes "0 < n" and s: "s = run (cd_step n) (cd_started n) es"
  shows "timeouts s = of_bool (\<exists>ms. CdFrame ms \<in> set es \<and> int ms \<ge> n * 1000) \<and>
    1 \<le> beats s \<and> int (beats s) \<le> n + 1 \<and> 0 \<le> displayNumber s \<and> displayNumber s \<le> n"
proof -
  have inv: "cd_inv n s" unfolding s by (rule cd_run_inv [OF assms(1)])
  have f: "firedRef s = (\<exists>ms. CdFrame ms \<in> set es \<and> int ms \<ge> n * 1000)"
    unfolding s cd_run_fired [OF assms(1) cd_inv_started [OF assms(1)]]
    by (simp add: cd_started_def cd_effect_def cd_mount_def cd_call_def)
  have "beats (cd_step n s e) \<ge> beats s" for s e
    by (cases e) (auto simp: cd_tick_def cd_call_def Let_def)
  then have mono: "beats (run (cd_step n) s' es') \<ge> beats s'" for s' es'
    by (induction es' arbitrary: s') (auto intro: order_trans)
  have "1 \<le> beats s"
    using mono [of "cd_started n" es]
    unfolding s by (simp add: cd_started_def cd_effect_def cd_mount_def cd_call_def)
  moreover have "int (beats s) \<le> n + 1"
    using inv by (auto simp: cd_inv_def of_bool_def split: if_splits)
  moreover have "0 \<le> \<lceil>remaining s\<rceil>" "\<lceil>remaining s\<rceil> \<le> n"
    using inv by (auto simp: cd_inv_def ceiling_le_iff intro: order_trans [OF _ ceiling_mono [of 0]])
  ultimately show ?thesis
    using inv f by (simp add: cd_inv_def displayNumber_def)
qed

theorem countdown_fires_once_witness:
  "timeouts (run (cd_step 3) (cd_started 3) [CdReset, CdFrame 16, CdFrame 3004, CdFrame 3020]) = 1"
proof -
  have "\<exists>ms. CdFrame ms \<in> set [CdReset, CdFrame 16, CdFrame 3004, CdFrame 3020] \<and> int ms \<ge> 3 * 1000"
    by (rule exI [of _ 3004]) simp
  with countdown_fires_once [OF _ refl, of 3 "[CdReset, CdFrame 16, CdFrame 3004, CdFrame 3020]"]
  show ?thesis by (simp del: run.simps)
qed

subsection \<open>New callbacks restart the timer\<close>

text \<open>
  \<open>onBeat\<close> and \<open>onTimeout\<close> are dependencies of the effect, so a render that passes other functions
  runs its cleanup and the effect again.  A session is a list of such stretches, each with the
  elapsed times its frames read.
\<close>

definition cd_restart :: "int \<Rightarrow> countdown \<Rightarrow> countdown" where
  "cd_restart seconds s = cd_effect seconds False (cd_cleanup s)"

fun cd_session :: "int \<Rightarrow> nat list list \<Rightarrow> countdown \<Rightarrow> countdown" where
  "cd_session n [] s = s"
| "cd_session n (mss # rest) s = cd_session n rest (cd_restart n (run (cd_step n) s (map CdFrame mss)))"

definition cd_unfired :: "countdown \<Rightarrow> bool" where
  "cd_unfired s \<longleftrightarrow> \<not> firedRef s \<and> timeouts s = 0 \<and> cd_ticking s"

lemma cd_unfired_run:
  "0 < n \<Longrightarrow> cd_unfired s \<Longrightarrow> \<forall>ms \<in> set mss. int ms < n * 1000 \<Longrightarrow> cd_unfired (run (cd_step n) s (map CdFrame mss))"
  by (induction mss arbitrary: s) (auto simp: cd_unfired_def cd_tick_cases)

lemma cd_unfired_restart: "cd_unfired s \<Longrightarrow> cd_unfired (cd_restart n s)"
  by (simp add: cd_unfired_def cd_restart_def cd_cleanup_def cd_effect_def cd_call_def)

text \<open>
  The pages rebuild \<open>onBeat\<close> when the mute flag changes, so each tap on the mute button gives the
  player the full time again: a player who taps it before the time is up is never timed out,
  however long the selection lasts.
\<close>

theorem restarts_suspend_timeout:
  assumes "0 < n" and "\<forall>mss \<in> set session. \<forall>ms \<in> set mss. int ms < n * 1000"
  shows "timeouts (cd_session n session (cd_started n)) = 0"
proof -
  have "cd_unfired (cd_session n session s)" if "cd_unfired s" for s
    using that assms(2)
    by (induction session arbitrary: s) (simp_all add: cd_unfired_restart cd_unfired_run [OF assms(1)])
  moreover have "cd_unfired (cd_started n)"
    by (simp add: cd_unfired_def cd_started_def cd_effect_def cd_mount_def cd_call_def)
  ultimately show ?thesis by (simp add: cd_unfired_def)
qed

lemma restarts_suspend_timeout_witness:
  "timeouts (cd_session 3 (replicate 100 [1000, 2000, 2900]) (cd_started 3)) = 0"
  by (rule restarts_suspend_timeout) auto

end
