(* ===== verification/Play_Page.thy ===== *)
theory Play_Page
  imports Board Ad_Timing Reveal
begin

text \<open>
  The AI-match page \<open>web/src/app/play/page.tsx\<close>: what it derives from the hook's
  state, the effect that turns phase changes into sounds, particle effects and the
  match count of the ad hook, and which sections it renders.
\<close>

subsection \<open>Derived values\<close>

fun OUTCOME_SOUND :: "turn_outcome \<Rightarrow> string" where
  "OUTCOME_SOUND P1WinsRound = ''hit''"
| "OUTCOME_SOUND P2WinsRound = ''hit''"
| "OUTCOME_SOUND Clash = ''clash''"
| "OUTCOME_SOUND Blocked = ''block''"
| "OUTCOME_SOUND Dodged = ''dodge''"
| "OUTCOME_SOUND Neutral = ''charge''"

definition aiArenaAction :: "action_kind option \<Rightarrow> turn_result option \<Rightarrow> action_kind option" where
  "aiArenaAction arenaAction lastTurn =
     (case (arenaAction, lastTurn) of
        (Some _, Some tr) \<Rightarrow> Some (API_TO_ACTION (tr_p2_action tr))
      | _ \<Rightarrow> None)"

definition pageCharacter :: "string option \<Rightarrow> character option" where
  "pageCharacter i = (if truthy i then getCharacter (the i) else None)"

definition playerDisplayName :: "game \<Rightarrow> string" where
  "playerDisplayName g = (case pageCharacter (g_playerCharacterId g) of
     Some c \<Rightarrow> ch_name c | None \<Rightarrow> g_playerName g)"

definition aiDisplayName :: "game \<Rightarrow> string" where
  "aiDisplayName g = (case pageCharacter (g_aiCharacterId g) of
     Some c \<Rightarrow> ch_name c | None \<Rightarrow> ''AI'')"

definition playerColorNum :: "game \<Rightarrow> nat" where
  "playerColorNum g = hexToNum (map_option ch_color (pageCharacter (g_playerCharacterId g)))"

subsection \<open>The phase-change effect\<close>

text \<open>
  What one run of the effect asks for, in order: a sound now or after a delay, the
  arena's animation, a particle effect now or after a delay, the cancelling of the
  opponent's pending effect, and the ad hook's \<open>onMatchEnd\<close>.
\<close>

datatype fx_side = SidePlayer | SideEnemy

datatype page_cmd =
    PlaySound string
  | PlaySoundLater nat string
  | TriggerArena action_kind
  | FireEffect action fx_side
  | ClearEnemyTimer
  | FireEffectLater nat action fx_side
  | CallOnMatchEnd

definition winner_sound :: "round_winner \<Rightarrow> string" where
  "winner_sound w = (if w = WinP1 then ''round_win'' else ''round_lose'')"

definition reveal_cmds :: "turn_result option \<Rightarrow> page_cmd list" where
  "reveal_cmds lastTurn = PlaySound ''reveal'' #
     (case lastTurn of None \<Rightarrow> []
      | Some tr \<Rightarrow>
          [PlaySoundLater 300 (OUTCOME_SOUND (tr_outcome tr)),
           TriggerArena (API_TO_ACTION (tr_p1_action tr)),
           FireEffect (tr_p1_action tr) SidePlayer,
           ClearEnemyTimer,
           FireEffectLater 140 (tr_p2_action tr) SideEnemy])"

definition transition_effect :: "game_phase \<Rightarrow> game \<Rightarrow> page_cmd list" where
  "transition_effect prevPhase g =
     (if prevPhase = GLoading \<and> g_phase g \<noteq> GLoading \<and> g_phase g \<noteq> GPlaying \<and>
         g_phase g \<noteq> GLobby \<and> g_phase g \<noteq> GCharacterSelect
      then reveal_cmds (g_lastTurn g) else []) @
     (if g_phase g = GRoundEnd then
        (case g_lastRound g of None \<Rightarrow> []
         | Some rr \<Rightarrow> [PlaySoundLater 600 (winner_sound (rr_winner rr))])
      else []) @
     (if g_phase g = GMatchEnd then
        (case g_matchResult g of None \<Rightarrow> []
         | Some mr \<Rightarrow> [PlaySoundLater 1500 (winner_sound (mr_winner mr)), CallOnMatchEnd])
      else [])"

record play_page =
  pg_game :: game
  pg_prevPhase :: game_phase
  pg_muted :: bool
  pg_ads :: ad_timing
  pg_cmds :: "page_cmd list"

text \<open>
  The effect's dependencies.  \<open>play\<close> is rebuilt when the mute flag changes and
  \<open>onMatchEnd\<close> when the ad-free flag changes; the other functions never change.
\<close>

definition effect_deps ::
  "play_page \<Rightarrow> game_phase \<times> turn_result option \<times> round_result option \<times> match_result option \<times> bool \<times> bool"
where
  "effect_deps p = (g_phase (pg_game p), g_lastTurn (pg_game p), g_lastRound (pg_game p),
     g_matchResult (pg_game p), pg_muted p, adFree (pg_ads p))"

definition run_effect :: "play_page \<Rightarrow> play_page" where
  "run_effect p =
     (let cmds = transition_effect (pg_prevPhase p) (pg_game p)
      in p\<lparr>pg_prevPhase := g_phase (pg_game p), pg_cmds := pg_cmds p @ cmds,
           pg_ads := (if CallOnMatchEnd \<in> set cmds then onMatchEnd (pg_ads p) else pg_ads p)\<rparr>)"

datatype page_event = PgGame game_event | PgSetMuted bool | PgAd ad_event

fun page_update :: "play_page \<Rightarrow> page_event \<Rightarrow> play_page" where
  "page_update p (PgGame e) = p\<lparr>pg_game := game_step (pg_game p) e\<rparr>"
| "page_update p (PgSetMuted b) = p\<lparr>pg_muted := b\<rparr>"
| "page_update p (PgAd e) = p\<lparr>pg_ads := ad_step (pg_ads p) e\<rparr>"

definition page_step :: "play_page \<Rightarrow> page_event \<Rightarrow> play_page" where
  "page_step p e =
     (let p' = page_update p e
      in if effect_deps p' = effect_deps p then p' else run_effect p')"

text \<open>
  Mounting runs the effect once, in the lobby.  The page calls the ad hook's
  \<open>onMatchEnd\<close> only from this effect.
\<close>

definition page_init :: play_page where
  "page_init = run_effect \<lparr>pg_game = game_init, pg_prevPhase = GLobby, pg_muted = False,
     pg_ads = ad_init, pg_cmds = []\<rparr>"

fun page_enabled :: "play_page \<Rightarrow> page_event \<Rightarrow> bool" where
  "page_enabled p (PgGame e) = game_enabled (pg_game p) e"
| "page_enabled p (PgAd e) = (e \<noteq> AdMatchEnd)"
| "page_enabled p (PgSetMuted b) = True"

subsection \<open>Sections\<close>

datatype bottom_slot = SlotBoard int | SlotReveal | SlotRound string

datatype page_section =
    SecLobby
  | SecCharacterSelect
  | SecLoading
  | SecGameplay bool "bottom_slot list"
  | SecFinale string "int \<times> int" int

definition round_text :: "round_winner \<Rightarrow> string" where
  "round_text w = (if w = WinP1 then ''YOU WIN!'' else if w = WinP2 then ''AI WINS!'' else ''DRAW!'')"

definition finale_result :: "round_winner \<Rightarrow> string" where
  "finale_result w = (if w = WinP1 then ''win'' else if w = WinP2 then ''loss'' else ''draw'')"

definition bottom_slots :: "game \<Rightarrow> game_state \<Rightarrow> bottom_slot list" where
  "bottom_slots g gs =
     (if g_phase g = GPlaying
      then [SlotBoard (nullish (map_option rs_p1_ki (current_round gs)) 0)] else []) @
     (if g_phase g = GRevealing then [SlotReveal] else []) @
     (if g_phase g = GRoundEnd then
        (case g_lastRound g of None \<Rightarrow> [] | Some rr \<Rightarrow> [SlotRound (round_text (rr_winner rr))])
      else [])"

definition arena_shown :: "game \<Rightarrow> bool" where
  "arena_shown g \<longleftrightarrow> truthy (g_playerCharacterId g) \<and> truthy (g_aiCharacterId g)"

definition page_sections :: "game \<Rightarrow> page_section list" where
  "page_sections g =
     (if g_phase g = GLobby then [SecLobby] else []) @
     (if g_phase g = GCharacterSelect then [SecCharacterSelect] else []) @
     (if g_phase g = GLoading then [SecLoading] else []) @
     (if g_phase g = GPlaying \<or> g_phase g = GRevealing \<or> g_phase g = GRoundEnd then
        (case g_gameState g of None \<Rightarrow> []
         | Some gs \<Rightarrow> [SecGameplay (arena_shown g) (bottom_slots g gs)])
      else []) @
     (if g_phase g = GMatchEnd then
        (case g_matchResult g of None \<Rightarrow> []
         | Some mr \<Rightarrow> [SecFinale (finale_result (mr_winner mr))
              (mr_rounds_won_p1 mr, mr_rounds_won_p2 mr) (mr_total_turns mr)])
      else [])"

text \<open>The auto-advance timer armed in a phase: its delay and what it calls.\<close>

definition auto_advance_timer :: "game_phase \<Rightarrow> (nat \<times> game_event) option" where
  "auto_advance_timer ph =
     (if ph = GRevealing then Some (3000, ContinueFromReveal)
      else if ph = GRoundEnd then Some (3000, ContinueFromRound)
      else None)"

definition LOBBY_DIFFICULTIES :: "(difficulty \<times> string \<times> string) list" where
  "LOBBY_DIFFICULTIES =
     [(Novice, ''Novice'', ''Barely reactive '' @ utf8 [226, 128, 148] @ '' great for learning''),
      (Easy, ''Easy'', ''Random moves, charges a lot''),
      (Medium, ''Medium'', ''Reads your patterns, punishes habits''),
      (Hard, ''Hard'', ''Adapts fast, manages ki aggressively''),
      (Expert, ''Expert'', ''Calculates optimal moves '' @ utf8 [226, 128, 148] @ '' brutal''),
      (Grandmaster, ''Grandmaster'', ''Solved the game. Near-unbeatable.'')]"

definition select_ids :: "string list" where
  "select_ids = map ch_id CHARACTERS"

subsection \<open>Invariant of the page\<close>

lemma run_effect_fields [simp]:
  "pg_game (run_effect p) = pg_game p"
  "pg_muted (run_effect p) = pg_muted p"
  by (simp_all add: run_effect_def Let_def)

lemma page_step_game:
  "pg_game (page_step p e) = (case e of PgGame ge \<Rightarrow> game_step (pg_game p) ge | _ \<Rightarrow> pg_game p)"
  by (cases e) (simp_all add: page_step_def Let_def)

definition page_inv :: "play_page \<Rightarrow> bool" where
  "page_inv p \<longleftrightarrow> game_inv (pg_game p) \<and> pg_prevPhase p = g_phase (pg_game p)"

lemma page_inv_init: "page_inv page_init"
  by (simp add: page_inv_def page_init_def game_inv_init run_effect_def Let_def)

lemma effect_deps_phase: "effect_deps p' = effect_deps p \<Longrightarrow> g_phase (pg_game p') = g_phase (pg_game p)"
  by (simp add: effect_deps_def)

lemma page_update_prev [simp]: "pg_prevPhase (page_update p e) = pg_prevPhase p"
  by (cases e) simp_all

lemma page_inv_step:
  assumes "page_inv p" "page_enabled p e"
  shows "page_inv (page_step p e)"
proof -
  have "game_inv (pg_game (page_step p e))"
    using assms game_inv_step by (cases e) (auto simp: page_step_game page_inv_def)
  moreover have "pg_prevPhase (page_step p e) = g_phase (pg_game (page_step p e))"
    using assms(1) effect_deps_phase [of "page_update p e" p]
    by (auto simp: page_step_def Let_def page_inv_def run_effect_def)
  ultimately show ?thesis by (simp add: page_inv_def)
qed

interpretation pgm: guarded_machine page_init page_enabled page_step page_inv
  by unfold_locales (rule page_inv_init, rule page_inv_step)

subsection \<open>What is on the screen\<close>

lemma roster_id_nonempty: "i \<in> set (map ch_id CHARACTERS) \<Longrightarrow> i \<noteq> []"
  unfolding CHARACTERS_ids by (auto simp: roster_ids_def)

lemma in_match_arena: "in_match g \<Longrightarrow> arena_shown g \<and> (\<exists>gs. g_gameState g = Some gs)"
  unfolding in_match_def fighters_ok_def arena_shown_def
  using roster_id_nonempty by (metis not_None_eq truthy_simps(2))

text \<open>Claim C14: The screen is never blank and never shows two phases at once.  In every run of the page
  exactly one main section is rendered; during play it is the arena with both fighters over exactly
  one of the action board, the reveal and the round summary, and the board is given the player's ki
  of the game state's current round.\<close>

theorem exactly_one_section:
  assumes "legal page_enabled page_step page_init es"
    and g: "g = pg_game (run page_step page_init es)"
  shows "length (page_sections g) = 1 \<and>
    (g_phase g \<in> {GPlaying, GRevealing, GRoundEnd} \<longrightarrow>
       (\<exists>slot. page_sections g = [SecGameplay True [slot]])) \<and>
    (g_phase g = GPlaying \<longrightarrow>
       (\<exists>gs. g_gameState g = Some gs \<and>
          page_sections g = [SecGameplay True [SlotBoard (nullish (map_option rs_p1_ki (current_round gs)) 0)]])) \<and>
    (g_phase g = GMatchEnd \<longrightarrow>
       (\<exists>mr. g_matchResult g = Some mr \<and> page_sections g =
          [SecFinale (finale_result (mr_winner mr)) (mr_rounds_won_p1 mr, mr_rounds_won_p2 mr) (mr_total_turns mr)]))"
proof -
  have inv: "game_inv g"
    using pgm.inv_run [OF assms(1)] by (simp add: page_inv_def g)
  show ?thesis
  proof (cases "g_phase g")
    case GPlaying
    with inv show ?thesis
      by (auto simp: game_inv_def page_sections_def bottom_slots_def dest!: in_match_arena)
  next
    case GRevealing
    with inv show ?thesis
      by (auto simp: game_inv_def page_sections_def bottom_slots_def dest!: in_match_arena)
  next
    case GRoundEnd
    with inv show ?thesis
      by (auto simp: game_inv_def page_sections_def bottom_slots_def dest!: in_match_arena)
  qed (use inv in \<open>auto simp: game_inv_def page_sections_def\<close>)
qed

theorem exactly_one_section_witness:
  "legal page_enabled page_step page_init [PgGame (SelectDifficulty Hard), PgSetMuted True] \<and>
   length (page_sections (pg_game (run page_step page_init [PgGame (SelectDifficulty Hard), PgSetMuted True]))) = 1"
proof -
  have l: "legal page_enabled page_step page_init [PgGame (SelectDifficulty Hard), PgSetMuted True]"
    by (simp add: page_init_def game_init_def)
  show ?thesis using exactly_one_section [OF l refl] l by blast
qed

subsection \<open>Counting finished matches\<close>

abbreviation page_phase :: "play_page \<Rightarrow> game_phase" where
  "page_phase p \<equiv> g_phase (pg_game p)"

abbreviation match_ends :: "play_page \<Rightarrow> nat" where
  "match_ends p \<equiv> count_list (pg_cmds p) CallOnMatchEnd"

text \<open>
  A run in which, on the match-end screen, neither the mute flag nor the ad-free
  flag changes.
\<close>

fun settled_flags :: "play_page \<Rightarrow> page_event \<Rightarrow> bool" where
  "settled_flags p (PgSetMuted b) = (page_phase p = GMatchEnd \<longrightarrow> b = pg_muted p)"
| "settled_flags p (PgAd e) =
     (page_enabled p (PgAd e) \<and> (page_phase p = GMatchEnd \<longrightarrow> adFree (ad_step (pg_ads p) e) = adFree (pg_ads p)))"
| "settled_flags p (PgGame e) = page_enabled p (PgGame e)"

fun matches_entered :: "play_page \<Rightarrow> page_event list \<Rightarrow> nat" where
  "matches_entered p [] = 0"
| "matches_entered p (e # es) =
     of_bool (page_phase p \<noteq> GMatchEnd \<and> page_phase (page_step p e) = GMatchEnd) +
     matches_entered (page_step p e) es"

lemma settled_flags_enabled: "settled_flags p e \<Longrightarrow> page_enabled p e"
  by (cases e) simp_all

lemma count_transition:
  "count_list (transition_effect prev g) CallOnMatchEnd =
     of_bool (g_phase g = GMatchEnd \<and> g_matchResult g \<noteq> None)"
  by (cases "g_matchResult g"; cases "g_lastTurn g"; cases "g_lastRound g"; cases "g_phase g";
      simp add: transition_effect_def reveal_cmds_def)

lemma match_ends_step:
  "match_ends (page_step p e) = match_ends p +
     of_bool (effect_deps (page_update p e) \<noteq> effect_deps p \<and> page_phase (page_step p e) = GMatchEnd \<and>
              g_matchResult (pg_game (page_step p e)) \<noteq> None)"
proof -
  have "pg_cmds (page_update p e) = pg_cmds p" by (cases e) simp_all
  then show ?thesis
    by (simp add: page_step_def Let_def) (simp add: run_effect_def Let_def count_transition)
qed

lemma game_step_match_end:
  assumes "game_inv g" "g_phase g = GMatchEnd" "game_enabled g e"
  shows "g_phase (game_step g e) \<noteq> GMatchEnd \<or> game_step g e = g"
  using assms
  by (cases e) (auto simp: game_inv_def backToLobby_def)

lemma match_end_entered:
  assumes "page_inv p" "settled_flags p e"
  shows "match_ends (page_step p e) = match_ends p +
     of_bool (page_phase p \<noteq> GMatchEnd \<and> page_phase (page_step p e) = GMatchEnd)"
proof -
  have inv': "game_inv (pg_game (page_step p e))"
    using page_inv_step [OF assms(1) settled_flags_enabled [OF assms(2)]] by (simp add: page_inv_def)
  show ?thesis
  proof (cases "page_phase (page_step p e) = GMatchEnd")
    case False
    then show ?thesis by (simp add: match_ends_step)
  next
    case True
    with inv' have res: "g_matchResult (pg_game (page_step p e)) \<noteq> None"
      by (simp add: game_inv_def)
    show ?thesis
    proof (cases "page_phase p = GMatchEnd")
      case False
      have "effect_deps (page_update p e) \<noteq> effect_deps p"
      proof
        assume eq: "effect_deps (page_update p e) = effect_deps p"
        then have "page_step p e = page_update p e" by (simp add: page_step_def)
        with effect_deps_phase [OF eq] True False show False by simp
      qed
      with True False res show ?thesis by (simp add: match_ends_step)
    next
      case same: True
      have "effect_deps (page_update p e) = effect_deps p"
      proof (cases e)
        case (PgGame ge)
        with assms same True game_step_match_end [of "pg_game p" ge]
        have "game_step (pg_game p) ge = pg_game p"
          by (auto simp: page_inv_def page_step_game)
        with PgGame show ?thesis by (simp add: effect_deps_def)
      qed (use assms(2) same in \<open>simp_all add: effect_deps_def\<close>)
      with same show ?thesis by (simp add: match_ends_step)
    qed
  qed
qed

lemma match_ends_run:
  "page_inv p \<Longrightarrow> legal settled_flags page_step p es \<Longrightarrow>
   match_ends (run page_step p es) = match_ends p + matches_entered p es"
proof (induction es arbitrary: p)
  case Nil
  then show ?case by simp
next
  case (Cons e es)
  then show ?case
    using page_inv_step [OF _ settled_flags_enabled, of p e] match_end_entered [of p e] by simp
qed

text \<open>Each finished match is counted once.  As long as the mute and the ad-free flag keep still
  on the match-end screen, the page calls the ad hook's \<open>onMatchEnd\<close> exactly as often as the
  match-end phase is entered, however often it renders.\<close>

theorem match_counted_once:
  assumes "legal settled_flags page_step page_init es"
  shows "match_ends (run page_step page_init es) = matches_entered page_init es"
  using match_ends_run [OF page_inv_init assms]
  by (simp add: page_init_def run_effect_def Let_def transition_effect_def game_init_def)

theorem match_counted_once_witness:
  "match_ends (run page_step page_init [PgGame (SelectDifficulty Hard), PgSetMuted True]) = 0"
proof -
  have l: "legal settled_flags page_step page_init [PgGame (SelectDifficulty Hard), PgSetMuted True]"
    by (simp add: page_init_def game_init_def page_step_game selectDifficulty_def track_def)
  show ?thesis
    using match_counted_once [OF l]
    by (simp add: page_step_game page_init_def game_init_def selectDifficulty_def track_def)
qed

text \<open>Toggling the mute flag on the match-end screen counts the same match again.  The effect
  depends on \<open>play\<close>, which is rebuilt when the mute flag changes, so it runs again: without the ad-free
  pass the match count grows by one, and after the first match the interstitial of the second appears.\<close>

theorem mute_toggle_recounts_match:
  assumes "page_phase p = GMatchEnd" "g_matchResult (pg_game p) \<noteq> None" "\<not> adFree (pg_ads p)"
  shows "matchCount (pg_ads (page_step p (PgSetMuted (\<not> pg_muted p)))) = matchCount (pg_ads p) + 1 \<and>
    (odd (matchCount (pg_ads p)) \<longrightarrow>
       showInterstitial (pg_ads (page_step p (PgSetMuted (\<not> pg_muted p)))))"
proof -
  let ?p = "p\<lparr>pg_muted := \<not> pg_muted p\<rparr>"
  have "effect_deps ?p \<noteq> effect_deps p" by (simp add: effect_deps_def)
  then have "page_step p (PgSetMuted (\<not> pg_muted p)) = run_effect ?p"
    by (simp add: page_step_def)
  moreover have "CallOnMatchEnd \<in> set (transition_effect (pg_prevPhase p) (pg_game p))"
    using assms by (auto simp: transition_effect_def)
  ultimately show ?thesis
    using assms(3) by (simp add: run_effect_def Let_def onMatchEnd_def)
qed

definition after_first_match :: play_page where
  "after_first_match = \<lparr>pg_game = game_init\<lparr>g_phase := GMatchEnd, g_matchResult :=
       Some \<lparr>mr_winner = WinP1, mr_rounds_won_p1 = 2, mr_rounds_won_p2 = 0, mr_total_turns = 4\<rparr>\<rparr>,
     pg_prevPhase = GMatchEnd, pg_muted = False, pg_ads = ad_init\<lparr>matchCount := 1\<rparr>, pg_cmds = []\<rparr>"

theorem mute_toggle_recounts_match_witness:
  "showInterstitial (pg_ads (page_step after_first_match (PgSetMuted True)))"
proof -
  have "page_phase after_first_match = GMatchEnd" "g_matchResult (pg_game after_first_match) \<noteq> None"
    "\<not> adFree (pg_ads after_first_match)" "matchCount (pg_ads after_first_match) = 1"
    "pg_muted after_first_match = False"
    by (simp_all add: after_first_match_def ad_init_def)
  with mute_toggle_recounts_match [of after_first_match] show ?thesis by simp
qed

lemma lobby_lists_every_difficulty:
  "sorted (map fst LOBBY_DIFFICULTIES) \<and> distinct (map fst LOBBY_DIFFICULTIES) \<and>
   set (map fst LOBBY_DIFFICULTIES) = UNIV"
proof -
  have "d \<in> set (map fst LOBBY_DIFFICULTIES)" for d
    by (cases d) (simp_all add: LOBBY_DIFFICULTIES_def)
  then show ?thesis
    by (auto simp: LOBBY_DIFFICULTIES_def less_eq_difficulty_def)
qed

end
