(* ===== verification/Sockets.thy ===== *)
theory Sockets
  imports Prelude Json
begin

text \<open>
  Browser web sockets as the PvP hooks see them.  A socket is an entry of a list,
  its index its identity, so a \<open>ref\<close> to a socket is an index and aliasing is
  visible.  \<open>close()\<close> only starts the closing handshake: the close event comes later.
  \<open>send()\<close> throws while the socket is still connecting and is silently dropped once
  it is closing or closed; messages arrive only while it is open.
\<close>

datatype ready_state = CONNECTING | OPEN | CLOSING | CLOSED

datatype socket_target = ToMatchmaking string | ToGame string string

record ws_socket =
  sk_target :: socket_target
  sk_ready :: ready_state
  sk_sent :: "json list"

definition new_socket :: "socket_target \<Rightarrow> ws_socket" where
  "new_socket t = \<lparr>sk_target = t, sk_ready = CONNECTING, sk_sent = []\<rparr>"

definition socket_close :: "nat \<Rightarrow> ws_socket list \<Rightarrow> ws_socket list" where
  "socket_close i ss =
     (if i < length ss \<and> sk_ready (ss ! i) \<in> {CONNECTING, OPEN}
      then ss[i := (ss ! i)\<lparr>sk_ready := CLOSING\<rparr>] else ss)"

definition socket_send :: "nat \<Rightarrow> json \<Rightarrow> ws_socket list \<Rightarrow> js_thrown + ws_socket list" where
  "socket_send i m ss =
     (if i < length ss \<and> sk_ready (ss ! i) = CONNECTING
      then Inl (Js_Error ''InvalidStateError: Still in CONNECTING state'')
      else if i < length ss \<and> sk_ready (ss ! i) = OPEN
      then Inr (ss[i := (ss ! i)\<lparr>sk_sent := sk_sent (ss ! i) @ [m]\<rparr>])
      else Inr ss)"

definition is_open :: "nat \<Rightarrow> ws_socket list \<Rightarrow> bool" where
  "is_open i ss \<longleftrightarrow> i < length ss \<and> sk_ready (ss ! i) = OPEN"

definition live :: "ws_socket \<Rightarrow> bool" where
  "live s \<longleftrightarrow> sk_ready s \<in> {CONNECTING, OPEN}"

definition close_ref :: "nat option \<Rightarrow> ws_socket list \<Rightarrow> ws_socket list" where
  "close_ref r ss = (case r of None \<Rightarrow> ss | Some i \<Rightarrow> socket_close i ss)"

lemma length_socket_close [simp]: "length (socket_close i ss) = length ss"
  by (simp add: socket_close_def)

lemma length_close_ref [simp]: "length (close_ref r ss) = length ss"
  by (simp add: close_ref_def split: option.split)

lemma map_list_update_same: "f (xs ! i) = y \<Longrightarrow> (map f xs)[i := y] = map f xs"
  by (cases "i < length xs") (auto simp: list_eq_iff_nth_eq nth_list_update)

lemma target_socket_close [simp]: "map sk_target (socket_close i ss) = map sk_target ss"
  by (auto simp: socket_close_def map_update map_list_update_same)

lemma target_close_ref [simp]: "map sk_target (close_ref r ss) = map sk_target ss"
  by (simp add: close_ref_def split: option.split)

lemma socket_send_target:
  "socket_send i m ss = Inr ss' \<Longrightarrow> map sk_target ss' = map sk_target ss \<and> map sk_ready ss' = map sk_ready ss"
  by (auto simp: socket_send_def map_update map_list_update_same split: if_splits)

lemma socket_close_nth:
  "j < length ss \<Longrightarrow> sk_ready (socket_close i ss ! j) =
     (if i = j \<and> live (ss ! j) then CLOSING else sk_ready (ss ! j))"
  by (auto simp: socket_close_def live_def nth_list_update)

lemma socket_close_not_live: "i < length ss \<Longrightarrow> \<not> live (socket_close i ss ! i)"
  by (auto simp: live_def socket_close_nth)

lemma live_socket_close:
  "j < length ss \<Longrightarrow> live (socket_close i ss ! j) = (i \<noteq> j \<and> live (ss ! j))"
  by (auto simp: live_def socket_close_nth)

lemma live_close_ref:
  "j < length ss \<Longrightarrow> live (close_ref r ss ! j) = (r \<noteq> Some j \<and> live (ss ! j))"
  by (auto simp: close_ref_def live_socket_close split: option.split)

end
