(* ===== verification/Use_PvP.thy ===== *)
theory Use_PvP
  imports Sockets Api_Types Use_Game
begin

text \<open>
  The PvP hook \<open>web/src/hooks/usePvP.ts\<close>.  Both asynchronous entry points are split
  at their \<open>await ensureAuth()\<close>; a socket callback is an event carrying the socket
  it was registered on.  The result of \<open>ensureAuth\<close> is an error or the token that
  \<open>getToken()\<close> reads afterwards.  A message is what \<open>JSON.parse\<close> gives, by its \<open>type\<close>.
\<close>

subsection \<open>State\<close>

datatype pvp_phase =
  PLobby | PSearching | PMatched | PPlaying | PWaiting | PRevealing | PRoundEnd | PMatchEnd

record turn_data =
  td_turn_number :: int
  td_your_action :: string
  td_opponent_action :: string
  td_outcome :: string
  td_your_ki :: int
  td_opponent_ki :: int

record round_data =
  rd_round_number :: int
  rd_winner :: string
  rd_total_turns :: int

record match_data =
  md_winner :: string
  md_rounds_won_p1 :: int
  md_rounds_won_p2 :: int
  md_total_turns :: int

record pvp_state =
  ps_turn :: int
  ps_round_number :: int
  ps_your_ki :: int
  ps_opponent_ki :: int
  ps_time_limit :: int

datatype pvp_await = AwaitFind | AwaitJoin string "string option"

record pvp =
  pv_phase :: pvp_phase
  pv_opponentName :: "string option"
  pv_gameState :: "pvp_state option"
  pv_turnResult :: "turn_data option"
  pv_roundResult :: "round_data option"
  pv_matchResult :: "match_data option"
  roundsWonYou :: int
  roundsWonOpponent :: int
  pv_error :: "string option"
  matchmakingWs :: "nat option"
  gameWs :: "nat option"
  sockets :: "ws_socket list"
  pv_awaiting :: "pvp_await list"
  pv_tracked :: "tracked list"

definition pvp_init :: pvp where
  "pvp_init = \<lparr>pv_phase = PLobby, pv_opponentName = None, pv_gameState = None,
     pv_turnResult = None, pv_roundResult = None, pv_matchResult = None,
     roundsWonYou = 0, roundsWonOpponent = 0, pv_error = None,
     matchmakingWs = None, gameWs = None, sockets = [], pv_awaiting = [], pv_tracked = []\<rparr>"

definition WS_BASE :: "string option \<Rightarrow> string \<Rightarrow> string" where
  "WS_BASE env_ws api_base =
     (case env_ws of Some u \<Rightarrow> u
      | None \<Rightarrow>
          if take 6 api_base = ''https:'' then ''wss:'' @ drop 6 api_base
          else if take 5 api_base = ''http:'' then ''ws:'' @ drop 5 api_base
          else api_base)"

fun socket_url :: "string \<Rightarrow> socket_target \<Rightarrow> string" where
  "socket_url base (ToMatchmaking token) = base @ ''/api/v1/ws/matchmaking?token='' @ token"
| "socket_url base (ToGame gameId token) = base @ ''/api/v1/ws/game/'' @ gameId @ ''?token='' @ token"

definition ptrack :: "string \<Rightarrow> (string \<times> json) list \<Rightarrow> pvp \<Rightarrow> pvp" where
  "ptrack ev ps s = s\<lparr>pv_tracked := pv_tracked s @ [(ev, ps)]\<rparr>"

definition open_socket :: "socket_target \<Rightarrow> pvp \<Rightarrow> nat \<times> pvp" where
  "open_socket t s = (length (sockets s), s\<lparr>sockets := sockets s @ [new_socket t]\<rparr>)"

definition ws_close :: "nat \<Rightarrow> pvp \<Rightarrow> pvp" where
  "ws_close i s = s\<lparr>sockets := socket_close i (sockets s)\<rparr>"

subsection \<open>Game connection\<close>

definition connectToGame :: "string \<Rightarrow> string \<Rightarrow> pvp \<Rightarrow> pvp" where
  "connectToGame gameId token s =
     (let (ws, s1) = open_socket (ToGame gameId token) s in s1\<lparr>gameWs := Some ws\<rparr>)"

datatype game_msg =
    WaitingForAction int int int int int
  | ActionConfirmed
  | TurnResultMsg turn_data
  | RoundResultMsg round_data
  | MatchResultMsg match_data
  | OpponentDisconnected int
  | OpponentReconnected
  | ErrorMsg string
  | GamePong
  | OtherGameMsg

fun game_onmessage :: "nat \<Rightarrow> game_msg \<Rightarrow> pvp \<Rightarrow> pvp" where
  "game_onmessage ws (WaitingForAction turn rnd p1_ki p2_ki limit) s =
     s\<lparr>pv_gameState := Some \<lparr>ps_turn = turn, ps_round_number = rnd, ps_your_ki = p1_ki,
         ps_opponent_ki = p2_ki, ps_time_limit = limit\<rparr>, pv_phase := PPlaying\<rparr>"
| "game_onmessage ws ActionConfirmed s = s\<lparr>pv_phase := PWaiting\<rparr>"
| "game_onmessage ws (TurnResultMsg d) s = s\<lparr>pv_turnResult := Some d, pv_phase := PRevealing\<rparr>"
| "game_onmessage ws (RoundResultMsg d) s =
     (let s1 = s\<lparr>pv_roundResult := Some d\<rparr>;
          s2 = (if rd_winner d = ''you'' then s1\<lparr>roundsWonYou := roundsWonYou s1 + 1\<rparr>
                else if rd_winner d = ''opponent'' then s1\<lparr>roundsWonOpponent := roundsWonOpponent s1 + 1\<rparr>
                else s1)
      in s2\<lparr>pv_phase := PRoundEnd\<rparr>)"
| "game_onmessage ws (MatchResultMsg d) s =
     (ws_close ws ((ptrack ''match_finish''
        [(''mode'', JStr ''pvp''), (''winner'', JStr (md_winner d)),
         (''rounds_won_p1'', JNum (md_rounds_won_p1 d)), (''rounds_won_p2'', JNum (md_rounds_won_p2 d)),
         (''total_turns'', JNum (md_total_turns d))]
        (s\<lparr>pv_matchResult := Some d\<rparr>))\<lparr>pv_phase := PMatchEnd\<rparr>))\<lparr>gameWs := None\<rparr>"
| "game_onmessage ws (OpponentDisconnected t) s =
     s\<lparr>pv_error := Some (''Opponent disconnected. Waiting '' @ show_int t @ ''s...'')\<rparr>"
| "game_onmessage ws OpponentReconnected s = s\<lparr>pv_error := None\<rparr>"
| "game_onmessage ws (ErrorMsg m) s = s\<lparr>pv_error := Some m\<rparr>"
| "game_onmessage ws GamePong s = s"
| "game_onmessage ws OtherGameMsg s = s"

definition game_onerror :: "pvp \<Rightarrow> pvp" where
  "game_onerror s = s\<lparr>pv_error := Some ''Game connection error'', pv_phase := PLobby\<rparr>"

definition game_onclose :: "pvp \<Rightarrow> pvp" where
  "game_onclose s = s\<lparr>gameWs := None\<rparr>"

subsection \<open>Matchmaking\<close>

datatype mm_msg = QueueJoined | MatchFound string string | MatchmakingTimeout | MmPong | OtherMmMsg

definition findMatch :: "pvp \<Rightarrow> pvp" where
  "findMatch s = s\<lparr>pv_error := None, pv_awaiting := pv_awaiting s @ [AwaitFind]\<rparr>"

definition findMatch_authed :: "js_thrown + string option \<Rightarrow> pvp \<Rightarrow> pvp" where
  "findMatch_authed out s =
     (case out of
        Inl e \<Rightarrow> s\<lparr>pv_error := Some (message_or ''Failed to find match'' e), pv_phase := PLobby\<rparr>
      | Inr token \<Rightarrow>
          if \<not> truthy token then s\<lparr>pv_error := Some ''Not authenticated''\<rparr>
          else (let s1 = ptrack ''pvp_quick_match_started'' [] (s\<lparr>pv_phase := PSearching\<rparr>);
                    (ws, s2) = open_socket (ToMatchmaking (the token)) s1
                in s2\<lparr>matchmakingWs := Some ws\<rparr>))"

text \<open>The token a matchmaking callback closed over is the one of its own socket.\<close>

fun mm_onmessage :: "nat \<Rightarrow> string \<Rightarrow> mm_msg \<Rightarrow> pvp \<Rightarrow> pvp" where
  "mm_onmessage ws token QueueJoined s = s"
| "mm_onmessage ws token (MatchFound gameId oppName) s =
     connectToGame gameId token
       ((ws_close ws (ptrack ''play_start''
          [(''mode'', JStr ''pvp_quick_match''), (''game_id'', JStr gameId),
           (''opponent_name'', JStr oppName)]
          (s\<lparr>pv_opponentName := Some oppName, pv_phase := PMatched\<rparr>)))\<lparr>matchmakingWs := None\<rparr>)"
| "mm_onmessage ws token MatchmakingTimeout s =
     (ws_close ws (s\<lparr>pv_error := Some ''No opponents found. Try AI mode!'', pv_phase := PLobby\<rparr>))
       \<lparr>matchmakingWs := None\<rparr>"
| "mm_onmessage ws token MmPong s = s"
| "mm_onmessage ws token OtherMmMsg s = s"

definition mm_onerror :: "pvp \<Rightarrow> pvp" where
  "mm_onerror s = s\<lparr>pv_error := Some ''Connection error'', pv_phase := PLobby\<rparr>"

definition mm_onclose :: "pvp \<Rightarrow> pvp" where
  "mm_onclose s = s\<lparr>matchmakingWs := None\<rparr>"

subsection \<open>The other operations\<close>

definition joinGame :: "string \<Rightarrow> string option \<Rightarrow> pvp \<Rightarrow> pvp" where
  "joinGame gameId nm s = s\<lparr>pv_error := None, pv_awaiting := pv_awaiting s @ [AwaitJoin gameId nm]\<rparr>"

definition joinGame_authed :: "string \<Rightarrow> string option \<Rightarrow> js_thrown + string option \<Rightarrow> pvp \<Rightarrow> pvp" where
  "joinGame_authed gameId nm out s =
     (case out of
        Inl e \<Rightarrow> s\<lparr>pv_error := Some (message_or ''Failed to join game'' e), pv_phase := PLobby\<rparr>
      | Inr token \<Rightarrow>
          if \<not> truthy token then s\<lparr>pv_error := Some ''Not authenticated''\<rparr>
          else (let s1 = (if truthy nm then s\<lparr>pv_opponentName := nm\<rparr> else s);
                    s2 = ptrack ''pvp_match_started''
                      [(''mode'', JStr ''room''), (''game_id'', JStr gameId),
                       (''opponent_name'', case nm of None \<Rightarrow> JNull | Some n \<Rightarrow> JStr n)]
                      (s1\<lparr>pv_phase := PMatched\<rparr>)
                in connectToGame gameId (the token) s2))"

definition cancelSearch :: "pvp \<Rightarrow> js_thrown + pvp" where
  "cancelSearch s =
     (case matchmakingWs s of
        None \<Rightarrow> Inr (s\<lparr>pv_phase := PLobby\<rparr>)
      | Some ws \<Rightarrow>
          (case socket_send ws (JObj [(''type'', JStr ''leave_queue'')]) (sockets s) of
             Inl e \<Rightarrow> Inl e
           | Inr ss \<Rightarrow> Inr ((ws_close ws (s\<lparr>sockets := ss\<rparr>))\<lparr>matchmakingWs := None, pv_phase := PLobby\<rparr>)))"

definition action_message :: "action \<Rightarrow> json" where
  "action_message a = JObj [(''type'', JStr ''submit_action''), (''action'', JStr (action_str a))]"

definition pvp_submitAction :: "action \<Rightarrow> pvp \<Rightarrow> pvp" where
  "pvp_submitAction a s =
     (case gameWs s of
        None \<Rightarrow> s
      | Some ws \<Rightarrow>
          if is_open ws (sockets s)
          then (case socket_send ws (action_message a) (sockets s) of
                  Inl e \<Rightarrow> s
                | Inr ss \<Rightarrow> ptrack ''action_submitted'' [(''mode'', JStr ''pvp''), (''action'', JStr (action_str a))]
                              (s\<lparr>sockets := ss\<rparr>))
          else s)"

definition pvp_continueFromReveal :: "pvp \<Rightarrow> pvp" where
  "pvp_continueFromReveal s = s\<lparr>pv_turnResult := None\<rparr>"

definition pvp_continueFromRound :: "pvp \<Rightarrow> pvp" where
  "pvp_continueFromRound s = s\<lparr>pv_turnResult := None, pv_roundResult := None\<rparr>"

definition pvp_backToLobby :: "pvp \<Rightarrow> pvp" where
  "pvp_backToLobby s =
     s\<lparr>sockets := close_ref (matchmakingWs s) (close_ref (gameWs s) (sockets s)),
       pv_phase := PLobby, pv_opponentName := None, pv_gameState := None, pv_turnResult := None,
       pv_roundResult := None, pv_matchResult := None, roundsWonYou := 0, roundsWonOpponent := 0,
       pv_error := None\<rparr>"

definition pvp_unmount :: "pvp \<Rightarrow> pvp" where
  "pvp_unmount s = s\<lparr>sockets := close_ref (gameWs s) (close_ref (matchmakingWs s) (sockets s))\<rparr>"

subsection \<open>Events\<close>

datatype pvp_event =
    FindMatch
  | JoinGame string "string option"
  | Authed nat "js_thrown + string option"
  | SocketOpened nat
  | GameMessage nat game_msg
  | MmMessage nat mm_msg
  | SocketClosed nat bool
  | CancelSearch
  | PvpSubmit action
  | PvpBackToLobby

definition set_ready :: "nat \<Rightarrow> ready_state \<Rightarrow> pvp \<Rightarrow> pvp" where
  "set_ready i r s = s\<lparr>sockets := (sockets s)[i := (sockets s ! i)\<lparr>sk_ready := r\<rparr>]\<rparr>"

definition remove_nth :: "nat \<Rightarrow> 'a list \<Rightarrow> 'a list" where
  "remove_nth k xs = take k xs @ drop (Suc k) xs"

definition pvp_authed :: "nat \<Rightarrow> js_thrown + string option \<Rightarrow> pvp \<Rightarrow> pvp" where
  "pvp_authed k out s =
     (if k < length (pv_awaiting s) then
        (let s1 = s\<lparr>pv_awaiting := remove_nth k (pv_awaiting s)\<rparr>
         in case pv_awaiting s ! k of
              AwaitFind \<Rightarrow> findMatch_authed out s1
            | AwaitJoin g nm \<Rightarrow> joinGame_authed g nm out s1)
      else s)"

text \<open>The end of a connection: an error event first when it failed, then the close event.\<close>

definition socket_closed :: "nat \<Rightarrow> bool \<Rightarrow> pvp \<Rightarrow> pvp" where
  "socket_closed i failed s =
     (if i < length (sockets s) \<and> sk_ready (sockets s ! i) \<noteq> CLOSED then
        (let s1 = set_ready i CLOSED s
         in case sk_target (sockets s ! i) of
              ToGame g t \<Rightarrow> game_onclose (if failed then game_onerror s1 else s1)
            | ToMatchmaking t \<Rightarrow> mm_onclose (if failed then mm_onerror s1 else s1))
      else s)"

fun pvp_step :: "pvp \<Rightarrow> pvp_event \<Rightarrow> pvp" where
  "pvp_step s FindMatch = findMatch s"
| "pvp_step s (JoinGame g nm) = joinGame g nm s"
| "pvp_step s (Authed k out) = pvp_authed k out s"
| "pvp_step s (SocketOpened i) =
     (if i < length (sockets s) \<and> sk_ready (sockets s ! i) = CONNECTING then set_ready i OPEN s else s)"
| "pvp_step s (GameMessage i m) =
     (if is_open i (sockets s) then
        (case sk_target (sockets s ! i) of ToGame g t \<Rightarrow> game_onmessage i m s | _ \<Rightarrow> s)
      else s)"
| "pvp_step s (MmMessage i m) =
     (if is_open i (sockets s) then
        (case sk_target (sockets s ! i) of ToMatchmaking t \<Rightarrow> mm_onmessage i t m s | _ \<Rightarrow> s)
      else s)"
| "pvp_step s (SocketClosed i failed) = socket_closed i failed s"
| "pvp_step s CancelSearch = (case cancelSearch s of Inl e \<Rightarrow> s | Inr s' \<Rightarrow> s')"
| "pvp_step s (PvpSubmit a) = pvp_submitAction a s"
| "pvp_step s PvpBackToLobby = pvp_backToLobby s"

end
