(* ===== verification/PvP_Session.thy ===== *)
theory PvP_Session
  imports Use_PvP
begin

text \<open>
  The PvP hook against the server session (\<open>app/modules/ki_clash/game_session.py\<close>).
  The session resolves each turn with the engine and sends every player the turn,
  round and match results in that player's own perspective; the model lists the
  messages one player receives over a whole match, and the theorems show that both
  clients end with the engine's score, ki and result.
\<close>

subsection \<open>The server's messages\<close>

datatype side = SideP1 | SideP2

definition TURN_TIME_LIMIT_SECONDS :: int where "TURN_TIME_LIMIT_SECONDS = 5"

fun own :: "side \<Rightarrow> 'a \<Rightarrow> 'a \<Rightarrow> 'a" where
  "own SideP1 x y = x"
| "own SideP2 x y = y"

fun opp :: "side \<Rightarrow> 'a \<Rightarrow> 'a \<Rightarrow> 'a" where
  "opp SideP1 x y = y"
| "opp SideP2 x y = x"

fun flip_outcome_for :: "turn_outcome \<Rightarrow> side \<Rightarrow> string" where
  "flip_outcome_for P1WinsRound SideP1 = ''you_win''"
| "flip_outcome_for P2WinsRound SideP1 = ''you_lose''"
| "flip_outcome_for P2WinsRound SideP2 = ''you_win''"
| "flip_outcome_for P1WinsRound SideP2 = ''you_lose''"
| "flip_outcome_for x p = outcome_str x"

definition winner_for_player :: "round_winner \<Rightarrow> side \<Rightarrow> string" where
  "winner_for_player w p =
     (if w = WinDraw then ''draw''
      else if (p = SideP1) = (w = WinP1) then ''you'' else ''opponent'')"

definition waiting_message :: "side \<Rightarrow> game_state \<Rightarrow> game_msg list" where
  "waiting_message p gs =
     (case current_round gs of None \<Rightarrow> []
      | Some r \<Rightarrow> [WaitingForAction (rs_turn_number r + 1) (rs_round_number r)
           (own p (rs_p1_ki r) (rs_p2_ki r)) (opp p (rs_p1_ki r) (rs_p2_ki r)) TURN_TIME_LIMIT_SECONDS])"

definition turn_message :: "side \<Rightarrow> turn_result \<Rightarrow> game_msg" where
  "turn_message p tr = TurnResultMsg
     \<lparr>td_turn_number = tr_turn_number tr,
      td_your_action = action_str (own p (tr_p1_action tr) (tr_p2_action tr)),
      td_opponent_action = action_str (opp p (tr_p1_action tr) (tr_p2_action tr)),
      td_outcome = flip_outcome_for (tr_outcome tr) p,
      td_your_ki = own p (tr_p1_ki_after tr) (tr_p2_ki_after tr),
      td_opponent_ki = opp p (tr_p1_ki_after tr) (tr_p2_ki_after tr)\<rparr>"

definition round_message :: "side \<Rightarrow> round_result \<Rightarrow> game_msg" where
  "round_message p rr = RoundResultMsg
     \<lparr>rd_round_number = rr_round_number rr, rd_winner = winner_for_player (rr_winner rr) p,
      rd_total_turns = rr_total_turns rr\<rparr>"

definition match_message :: "side \<Rightarrow> match_result \<Rightarrow> game_msg" where
  "match_message p mr = MatchResultMsg
     \<lparr>md_winner = winner_for_player (mr_winner mr) p, md_rounds_won_p1 = mr_rounds_won_p1 mr,
      md_rounds_won_p2 = mr_rounds_won_p2 mr, md_total_turns = mr_total_turns mr\<rparr>"

definition resolve_messages ::
  "side \<Rightarrow> game_state \<times> turn_result \<times> round_result option \<times> match_result option \<Rightarrow> game_msg list" where
  "resolve_messages p res =
     (case res of (gs, tr, rr, mr) \<Rightarrow>
        turn_message p tr #
        (case rr of None \<Rightarrow> [] | Some x \<Rightarrow> [round_message p x]) @
        (case mr of Some x \<Rightarrow> [match_message p x]
         | None \<Rightarrow> if gs_status gs = InProgress then waiting_message p gs else []))"

text \<open>All messages of a player over a sequence of resolved turns.\<close>

fun session_messages :: "side \<Rightarrow> game_state \<Rightarrow> (action \<times> action) list \<Rightarrow> game_msg list" where
  "session_messages p gs [] = []"
| "session_messages p gs ((a1, a2) # ms) =
     (case submit_turn gs a1 a2 of
        Inl e \<Rightarrow> []
      | Inr res \<Rightarrow> ActionConfirmed # resolve_messages p res @ session_messages p (fst res) ms)"

subsection \<open>Mirroring\<close>

definition receive :: "nat \<Rightarrow> pvp \<Rightarrow> game_msg list \<Rightarrow> pvp" where
  "receive i s ms = run pvp_step s (map (GameMessage i) ms)"

lemma receive_simps [simp]:
  "receive i s [] = s"
  "receive i s (m # ms) = receive i (pvp_step s (GameMessage i m)) ms"
  "receive i s (ms @ ns) = receive i (receive i s ms) ns"
  by (simp_all add: receive_def run_append)

definition connected :: "nat \<Rightarrow> pvp \<Rightarrow> bool" where
  "connected i s \<longleftrightarrow> gameWs s = Some i \<and> is_open i (sockets s) \<and> (\<exists>g t. sk_target (sockets s ! i) = ToGame g t)"

definition scores :: "side \<Rightarrow> game_state \<Rightarrow> pvp \<Rightarrow> bool" where
  "scores p gs s \<longleftrightarrow> roundsWonYou s = own p (gs_rounds_won_p1 gs) (gs_rounds_won_p2 gs) \<and>
     roundsWonOpponent s = opp p (gs_rounds_won_p1 gs) (gs_rounds_won_p2 gs)"

definition shows_turn :: "side \<Rightarrow> game_state \<Rightarrow> pvp \<Rightarrow> bool" where
  "shows_turn p gs s \<longleftrightarrow> pv_phase s = PPlaying \<and>
     (\<exists>r. current_round gs = Some r \<and>
       pv_gameState s = Some \<lparr>ps_turn = rs_turn_number r + 1, ps_round_number = rs_round_number r,
          ps_your_ki = own p (rs_p1_ki r) (rs_p2_ki r), ps_opponent_ki = opp p (rs_p1_ki r) (rs_p2_ki r),
          ps_time_limit = TURN_TIME_LIMIT_SECONDS\<rparr>)"

definition shows_result :: "side \<Rightarrow> game_state \<Rightarrow> pvp \<Rightarrow> bool" where
  "shows_result p gs s \<longleftrightarrow> pv_phase s = PMatchEnd \<and> gameWs s = None \<and>
     (\<exists>mr d. check_match_end gs = Some mr \<and> pv_matchResult s = Some d \<and>
        md_winner d = winner_for_player (mr_winner mr) p \<and> md_total_turns d = mr_total_turns mr)"

lemma connected_message:
  "connected i s \<Longrightarrow> pvp_step s (GameMessage i m) = game_onmessage i m s"
  by (auto simp: connected_def)

lemma score_round:
  "scores p gs s \<Longrightarrow>
   scores p (close_round gs rr)
     (s\<lparr>roundsWonYou := roundsWonYou s + of_bool (winner_for_player (rr_winner rr) p = ''you''),
        roundsWonOpponent := roundsWonOpponent s + of_bool (winner_for_player (rr_winner rr) p = ''opponent'')\<rparr>)"
  by (cases p; cases "rr_winner rr")
    (simp_all add: scores_def winner_for_player_def close_round_def award_round_def)

lemma receive_turn:
  "connected i s \<Longrightarrow> receive i s [ActionConfirmed, turn_message p tr] =
     s\<lparr>pv_phase := PRevealing, pv_turnResult := Some
       \<lparr>td_turn_number = tr_turn_number tr,
        td_your_action = action_str (own p (tr_p1_action tr) (tr_p2_action tr)),
        td_opponent_action = action_str (opp p (tr_p1_action tr) (tr_p2_action tr)),
        td_outcome = flip_outcome_for (tr_outcome tr) p,
        td_your_ki = own p (tr_p1_ki_after tr) (tr_p2_ki_after tr),
        td_opponent_ki = opp p (tr_p1_ki_after tr) (tr_p2_ki_after tr)\<rparr>\<rparr>"
  by (simp add: turn_message_def connected_message) (auto simp: connected_def)

lemma receive_round:
  assumes "connected i s" "scores p gs s"
  shows "connected i (receive i s [round_message p rr])"
    and "scores p (close_round gs rr) (receive i s [round_message p rr])"
    and "pv_phase (receive i s [round_message p rr]) = PRoundEnd"
  using assms score_round [OF assms(2), of rr]
  by (auto simp: round_message_def connected_message Let_def connected_def scores_def)

lemma receive_waiting:
  assumes "connected i s" "current_round gs = Some r"
  shows "connected i (receive i s (waiting_message p gs))"
    and "shows_turn p gs (receive i s (waiting_message p gs))"
    and "scores p g (receive i s (waiting_message p gs)) = scores p g s"
  using assms by (auto simp: waiting_message_def connected_message shows_turn_def connected_def scores_def)

lemma receive_match:
  assumes "connected i s" "check_match_end gs = Some mr"
  shows "shows_result p gs (receive i s [match_message p mr])"
    and "scores p g (receive i s [match_message p mr]) = scores p g s"
  using assms
  by (simp_all add: match_message_def connected_message shows_result_def scores_def ws_close_def
      ptrack_def del: pvp_step.simps)

lemma scores_start_new_round [simp]: "scores p (start_new_round gs) s = scores p gs s"
  "scores p (gs\<lparr>gs_status := x\<rparr>) s = scores p gs s" "scores p (gs\<lparr>current_round := r\<rparr>) s = scores p gs s"
  by (simp_all add: scores_def)

lemma connected_turnD:
  "connected i (s\<lparr>pv_phase := ph, pv_turnResult := t\<rparr>) = connected i s"
  "scores p gs (s\<lparr>pv_phase := ph, pv_turnResult := t\<rparr>) = scores p gs s"
  by (simp_all add: connected_def scores_def)

lemma mirror_turn:
  assumes con: "connected i s" and sc: "scores p gs s"
    and sub: "submit_turn gs a1 a2 = Inr (gs', tr, rr, mr)"
  defines "s' \<equiv> receive i s (ActionConfirmed # resolve_messages p (gs', tr, rr, mr))"
  shows "scores p gs' s' \<and>
    (if gs_status gs' = InProgress then connected i s' \<and> shows_turn p gs' s' else shows_result p gs' s')"
proof -
  define s1 where "s1 = receive i s [ActionConfirmed, turn_message p tr]"
  have c1: "connected i s1" and sc1: "scores p gs s1"
    using con sc by (simp_all only: s1_def receive_turn [OF con] connected_turnD)
  have s': "s' = receive i s1 ((case rr of None \<Rightarrow> [] | Some x \<Rightarrow> [round_message p x]) @
        (case mr of Some x \<Rightarrow> [match_message p x]
         | None \<Rightarrow> if gs_status gs' = InProgress then waiting_message p gs' else []))"
    unfolding s'_def s1_def resolve_messages_def by simp
  show ?thesis
    using sub
  proof (cases rule: submit_turn_cases)
    case (1 r)
    show ?thesis
    proof (cases rr)
      case None
      with 1 have "gs' = gs\<lparr>current_round := Some (advance r tr)\<rparr>" "mr = None" by auto
      with None s' \<open>gs_status gs = InProgress\<close> sc1
      show ?thesis
        using receive_waiting [OF c1, of gs' "advance r tr" p] by simp
    next
      case (Some x)
      note rd = receive_round [OF c1 sc1, of x]
      show ?thesis
      proof (cases mr)
        case None
        with 1 Some have gs': "gs' = start_new_round (close_round gs x)" by simp
        obtain r' where "current_round gs' = Some r'"
          unfolding gs' by (simp add: start_new_round_def)
        with None Some s' gs' \<open>gs_status gs = InProgress\<close> rd
        show ?thesis
          using receive_waiting [OF rd(1), of gs' r' p] by simp
      next
        case (Some m)
        with 1 \<open>rr = Some x\<close> have "gs' = (close_round gs x)\<lparr>gs_status := Completed\<rparr>"
          "check_match_end gs' = Some m" by auto
        with Some \<open>rr = Some x\<close> s' rd show ?thesis
          using receive_match [OF rd(1), of gs' m p] by simp
      qed
    qed
  qed
qed

lemma mirror_match:
  "match_inv gs \<Longrightarrow> play gs ms = Inr gs' \<Longrightarrow> connected i s \<Longrightarrow> scores p gs s \<Longrightarrow> shows_turn p gs s \<Longrightarrow>
   gs_status gs = InProgress \<Longrightarrow> s' = receive i s (session_messages p gs ms) \<Longrightarrow>
   scores p gs' s' \<and>
   (if gs_status gs' = InProgress then connected i s' \<and> shows_turn p gs' s' else shows_result p gs' s')"
proof (induction ms arbitrary: gs s)
  case Nil
  then show ?case by simp
next
  case (Cons m ms)
  obtain a1 a2 where m: "m = (a1, a2)" by (cases m)
  with Cons.prems(2) obtain gs1 tr rr mr where sub: "submit_turn gs a1 a2 = Inr (gs1, tr, rr, mr)"
    and rest: "play gs1 ms = Inr gs'" by (auto split: sum.splits)
  define s1 where "s1 = receive i s (ActionConfirmed # resolve_messages p (gs1, tr, rr, mr))"
  have s': "s' = receive i s1 (session_messages p gs1 ms)"
    using Cons.prems(7) sub by (simp add: m s1_def receive_def run_append del: pvp_step.simps receive_simps)
  note turn = mirror_turn [OF Cons.prems(3,4) sub, folded s1_def]
  show ?case
  proof (cases "gs_status gs1 = InProgress")
    case True
    with turn Cons.IH [OF match_inv_submit [OF Cons.prems(1) sub] rest _ _ _ True s']
    show ?thesis by simp
  next
    case False
    from False rest have "ms = []" by (rule play_completed)
    with rest s' turn False show ?thesis by simp
  qed
qed

text \<open>
  The hook never resets the rounds won when a match starts; it only adds to them.  A client that starts with a
  score left over therefore behaves like one that starts from zero, with the rest added.
\<close>

definition ahead :: "int \<Rightarrow> int \<Rightarrow> pvp \<Rightarrow> pvp" where
  "ahead x y s = s\<lparr>roundsWonYou := roundsWonYou s + x, roundsWonOpponent := roundsWonOpponent s + y\<rparr>"

lemma ahead_fields [simp]:
  "gameWs (ahead x y s) = gameWs s" "sockets (ahead x y s) = sockets s" "pv_phase (ahead x y s) = pv_phase s"
  "pv_gameState (ahead x y s) = pv_gameState s" "pv_matchResult (ahead x y s) = pv_matchResult s"
  "roundsWonYou (ahead x y s) = roundsWonYou s + x" "roundsWonOpponent (ahead x y s) = roundsWonOpponent s + y"
  by (simp_all add: ahead_def)

lemma ahead_message: "game_onmessage i m (ahead x y s) = ahead x y (game_onmessage i m s)"
  by (cases m) (simp_all add: ahead_def Let_def ws_close_def ptrack_def)

lemma ahead_receive: "receive i (ahead x y s) ms = ahead x y (receive i s ms)"
proof (induction ms arbitrary: s)
  case (Cons m ms)
  have "pvp_step (ahead x y s) (GameMessage i m) = ahead x y (pvp_step s (GameMessage i m))"
    by (simp add: ahead_message split: socket_target.split)
  with Cons show ?case by (simp del: pvp_step.simps)
qed simp

lemma ahead_views [simp]:
  "connected i (ahead x y s) = connected i s" "shows_turn p gs (ahead x y s) = shows_turn p gs s"
  "shows_result p gs (ahead x y s) = shows_result p gs s"
  by (simp_all add: connected_def shows_turn_def shows_result_def)

lemma client_from_zero:
  assumes "play (start_match gid mt) ms = Inr gs'"
    and "connected i s" "roundsWonYou s = 0" "roundsWonOpponent s = 0"
    and s': "s' = receive i s (waiting_message p (start_match gid mt) @ session_messages p (start_match gid mt) ms)"
  shows "roundsWonYou s' = own p (gs_rounds_won_p1 gs') (gs_rounds_won_p2 gs') \<and>
    roundsWonOpponent s' = opp p (gs_rounds_won_p1 gs') (gs_rounds_won_p2 gs') \<and>
    (if gs_status gs' = InProgress then connected i s' \<and> shows_turn p gs' s' else shows_result p gs' s')"
proof -
  let ?g = "start_match gid mt"
  obtain r where r: "current_round ?g = Some r" by (simp add: start_match_def start_new_round_def)
  have sc: "scores p ?g s"
    using assms(3,4) by (cases p) (simp_all add: scores_def start_match_def start_new_round_def)
  note w = receive_waiting [OF assms(2) r, of p]
  have ip: "gs_status ?g = InProgress" by (simp add: start_match_def)
  have "s' = receive i (receive i s (waiting_message p ?g)) (session_messages p ?g ms)"
    unfolding s' by simp
  from mirror_match [OF match_inv_start assms(1) w(1) _ w(2) ip this] w(3) sc
  show ?thesis by (simp add: scores_def)
qed

text \<open>Claim C11: A PvP match on both screens.  Let a connected client of either side receive the
  server's messages of any sequence of turns the engine accepts, whatever score it showed before.
  Then its round score has grown by exactly the engine's, seen from its side; while the match goes on
  it is asked for an action with the turn, the round and both ki values of the engine's current round;
  and when the engine completes the match it shows the result with the winner named from its side,
  over a released connection.  (The hook does not reset the score, so it is the engine's score itself
  only for a client that showed none, as after a mount or a return to the lobby.)\<close>

theorem pvp_client_follows_engine:
  assumes "play (start_match gid mt) ms = Inr gs'" and "connected i s"
    and s': "s' = receive i s (waiting_message p (start_match gid mt) @ session_messages p (start_match gid mt) ms)"
  shows "roundsWonYou s' = roundsWonYou s + own p (gs_rounds_won_p1 gs') (gs_rounds_won_p2 gs') \<and>
    roundsWonOpponent s' = roundsWonOpponent s + opp p (gs_rounds_won_p1 gs') (gs_rounds_won_p2 gs') \<and>
    (if gs_status gs' = InProgress then connected i s' \<and> shows_turn p gs' s' else shows_result p gs' s')"
proof -
  let ?x = "roundsWonYou s" and ?y = "roundsWonOpponent s"
  let ?ms = "waiting_message p (start_match gid mt) @ session_messages p (start_match gid mt) ms"
  define s0 where "s0 = s\<lparr>roundsWonYou := 0, roundsWonOpponent := 0\<rparr>"
  have s: "s = ahead ?x ?y s0" by (simp add: s0_def ahead_def)
  define t where "t = receive i s0 ?ms"
  have "connected i s0" using assms(2) by (simp add: s0_def connected_def)
  then have "roundsWonYou t = own p (gs_rounds_won_p1 gs') (gs_rounds_won_p2 gs') \<and>
      roundsWonOpponent t = opp p (gs_rounds_won_p1 gs') (gs_rounds_won_p2 gs') \<and>
      (if gs_status gs' = InProgress then connected i t \<and> shows_turn p gs' t else shows_result p gs' t)"
    by (intro client_from_zero [OF assms(1) _ _ _ t_def]) (simp_all add: s0_def)
  moreover have "s' = ahead ?x ?y t"
    unfolding s' t_def by (subst s) (rule ahead_receive)
  ultimately show ?thesis by simp
qed

definition fresh_client :: pvp where
  "fresh_client = pvp_init\<lparr>sockets := [(new_socket (ToGame ''g'' ''t''))\<lparr>sk_ready := OPEN\<rparr>],
     gameWs := Some 0, pv_phase := PMatched\<rparr>"

lemma fresh_client_ok: "connected 0 fresh_client" "roundsWonYou fresh_client = 0" "roundsWonOpponent fresh_client = 0"
  by (simp_all add: fresh_client_def connected_def is_open_def new_socket_def pvp_init_def)

theorem pvp_client_follows_engine_witness:
  "\<exists>gs'. play (start_match ''g'' ''pvp'') [(Charge, Charge), (Attack, Block)] = Inr gs' \<and>
     roundsWonYou (receive 0 (fresh_client\<lparr>roundsWonYou := 1\<rparr>) (waiting_message SideP2 (start_match ''g'' ''pvp'') @
        session_messages SideP2 (start_match ''g'' ''pvp'') [(Charge, Charge), (Attack, Block)])) =
     1 + gs_rounds_won_p2 gs'"
proof -
  obtain gs' where p: "play (start_match ''g'' ''pvp'') [(Charge, Charge), (Attack, Block)] = Inr gs'"
    using two_turns by blast
  have "connected 0 (fresh_client\<lparr>roundsWonYou := 1\<rparr>)" using fresh_client_ok(1) by (simp add: connected_def)
  from pvp_client_follows_engine [OF p this refl, of SideP2] p
  show ?thesis by (auto simp del: receive_simps)
qed

text \<open>The two sides' labels of one result are opposite.\<close>

lemma sides_see_opposite_results:
  "(winner_for_player w SideP1 = ''you'') = (winner_for_player w SideP2 = ''opponent'') \<and>
   (winner_for_player w SideP1 = ''opponent'') = (winner_for_player w SideP2 = ''you'') \<and>
   (winner_for_player w SideP1 = ''draw'') = (winner_for_player w SideP2 = ''draw'') \<and>
   (flip_outcome_for x SideP1 = ''you_win'') = (flip_outcome_for x SideP2 = ''you_lose'') \<and>
   flip_outcome_for x SideP2 = flip_outcome_for (flip_outcome x) SideP1"
  by (cases w; cases x) (simp_all add: winner_for_player_def)

end
