(* ===== verification/PvP_Page.thy ===== *)
theory PvP_Page
  imports PvP_Session Play_Page
begin

text \<open>
  The PvP page \<open>web/src/app/pvp/page.tsx\<close>: page modes and room codes, what it
  derives from the hook, the effect on phase changes and the sections rendered;
  then what can and cannot happen to a player through the controls it offers.
\<close>

subsection \<open>Room codes\<close>

definition code_char :: "char \<Rightarrow> bool" where
  "code_char c = (let n = (of_char c :: nat) in (65 \<le> n \<and> n \<le> 90) \<or> (48 \<le> n \<and> n \<le> 57))"

definition clean_code :: "string \<Rightarrow> string" where
  "clean_code s = filter code_char (to_upper s)"

text \<open>\<open>query\<close> is \<open>URLSearchParams.get\<close> on the page's URL, \<open>None\<close> outside a browser.\<close>

definition readInitialRoomCode :: "(string \<Rightarrow> string option) option \<Rightarrow> string" where
  "readInitialRoomCode query =
     (case query of None \<Rightarrow> []
      | Some get \<Rightarrow> take 4 (clean_code (or_else (get ''room'') (or_else (get ''code'') []))))"

subsection \<open>State of the page\<close>

datatype page_mode = ModeMenu | ModeRoom | ModePvp
datatype room_mode = RoomCreate | RoomJoin

record pvp_page =
  pp_mode :: page_mode
  pp_roomMode :: room_mode
  pp_joinCode :: string
  pp_player :: string
  pp_opponent :: string
  pp_pvp :: pvp
  pp_prevPhase :: pvp_phase
  pp_ads :: ad_timing
  pp_cmds :: "page_cmd list"

definition DEFAULT_PLAYER_CHAR :: string where "DEFAULT_PLAYER_CHAR = ''haneul''"
definition DEFAULT_OPPONENT_CHAR :: string where "DEFAULT_OPPONENT_CHAR = ''bora''"

definition pvp_page_init :: pvp_page where
  "pvp_page_init = \<lparr>pp_mode = ModeMenu, pp_roomMode = RoomCreate, pp_joinCode = [],
     pp_player = DEFAULT_PLAYER_CHAR, pp_opponent = DEFAULT_OPPONENT_CHAR, pp_pvp = pvp_init,
     pp_prevPhase = PLobby, pp_ads = ad_init, pp_cmds = []\<rparr>"

definition visiblePageMode :: "pvp_page \<Rightarrow> page_mode" where
  "visiblePageMode p =
     (if pv_phase (pp_pvp p) = PLobby \<and> pp_mode p = ModePvp then ModeMenu else pp_mode p)"

subsection \<open>Derived values\<close>

fun action_of_str :: "string \<Rightarrow> action option" where
  "action_of_str s = find (\<lambda>a. action_str a = s) ACTIONS"

definition arenaOutcome :: "turn_data option \<Rightarrow> turn_outcome option" where
  "arenaOutcome t =
     (case t of None \<Rightarrow> None
      | Some d \<Rightarrow>
          (let o1 = td_outcome d
           in if o1 = ''you_win'' then Some P1WinsRound
              else if o1 = ''you_lose'' then Some P2WinsRound
              else find (\<lambda>x. outcome_str x = o1) [Clash, Blocked, Dodged, Neutral]))"

text \<open>
  The turn given to \<open>TurnReveal\<close>; the two actions stay strings in the code and are
  shown through tables indexed by them, so a name outside the five actions is
  modelled as no turn.
\<close>

definition revealTurn :: "turn_data option \<Rightarrow> turn_result option" where
  "revealTurn t =
     (case t of None \<Rightarrow> None
      | Some d \<Rightarrow>
          (case (action_of_str (td_your_action d), action_of_str (td_opponent_action d)) of
             (Some a, Some b) \<Rightarrow>
               Some \<lparr>tr_turn_number = 0, tr_p1_action = a, tr_p2_action = b,
                     tr_outcome = nullish (arenaOutcome t) Neutral, tr_p1_ki_after = 0, tr_p2_ki_after = 0\<rparr>
           | _ \<Rightarrow> None))"

definition opponentArenaAction :: "action_kind option \<Rightarrow> turn_data option \<Rightarrow> action_kind option" where
  "opponentArenaAction arenaAction t =
     (case (arenaAction, t) of
        (Some _, Some d) \<Rightarrow> map_option API_TO_ACTION (action_of_str (td_opponent_action d))
      | _ \<Rightarrow> None)"

subsection \<open>The phase-change effect\<close>

definition pvp_transition :: "pvp_phase \<Rightarrow> pvp \<Rightarrow> page_cmd list" where
  "pvp_transition prev s =
     (if pv_phase s = PRevealing \<and> prev \<noteq> PRevealing then
        (case revealTurn (pv_turnResult s) of None \<Rightarrow> []
         | Some tr \<Rightarrow> [TriggerArena (API_TO_ACTION (tr_p1_action tr)), FireEffect (tr_p1_action tr) SidePlayer,
                        ClearEnemyTimer, FireEffectLater 140 (tr_p2_action tr) SideEnemy])
      else []) @
     (if pv_phase s = PMatchEnd \<and> prev \<noteq> PMatchEnd then [CallOnMatchEnd] else [])"

definition pvp_effect_deps :: "pvp_page \<Rightarrow> pvp_phase \<times> turn_data option \<times> bool" where
  "pvp_effect_deps p = (pv_phase (pp_pvp p), pv_turnResult (pp_pvp p), adFree (pp_ads p))"

definition pvp_run_effect :: "pvp_page \<Rightarrow> pvp_page" where
  "pvp_run_effect p =
     (let cmds = pvp_transition (pp_prevPhase p) (pp_pvp p)
      in p\<lparr>pp_prevPhase := pv_phase (pp_pvp p), pp_cmds := pp_cmds p @ cmds,
           pp_ads := (if CallOnMatchEnd \<in> set cmds then onMatchEnd (pp_ads p) else pp_ads p)\<rparr>)"

subsection \<open>Handlers\<close>

definition startQuickMatch :: "pvp_page \<Rightarrow> pvp_page" where
  "startQuickMatch p = p\<lparr>pp_player := DEFAULT_PLAYER_CHAR, pp_opponent := DEFAULT_OPPONENT_CHAR,
     pp_mode := ModePvp, pp_pvp := findMatch (pp_pvp p)\<rparr>"

definition startCreateRoom :: "pvp_page \<Rightarrow> pvp_page" where
  "startCreateRoom p = p\<lparr>pp_roomMode := RoomCreate, pp_mode := ModeRoom\<rparr>"

definition setJoinCodeInput :: "string \<Rightarrow> pvp_page \<Rightarrow> pvp_page" where
  "setJoinCodeInput s p = p\<lparr>pp_joinCode := clean_code s\<rparr>"

definition startJoinRoom :: "pvp_page \<Rightarrow> pvp_page" where
  "startJoinRoom p =
     (if length (pp_joinCode p) \<noteq> 4 then p else p\<lparr>pp_roomMode := RoomJoin, pp_mode := ModeRoom\<rparr>)"

definition openRoomLink :: "string \<Rightarrow> pvp_page \<Rightarrow> pvp_page" where
  "openRoomLink roomCode p =
     (if length roomCode \<noteq> 4 then p
      else p\<lparr>pp_joinCode := roomCode, pp_roomMode := RoomJoin, pp_mode := ModeRoom\<rparr>)"

definition handleRoomGameStart :: "string \<Rightarrow> string \<Rightarrow> string \<Rightarrow> string \<Rightarrow> pvp_page \<Rightarrow> pvp_page" where
  "handleRoomGameStart gameId oppName ourChar oppChar p =
     p\<lparr>pp_player := ourChar, pp_opponent := oppChar, pp_mode := ModePvp,
       pp_pvp := joinGame gameId (Some oppName) (pp_pvp p)\<rparr>"

definition handleRoomExit :: "pvp_page \<Rightarrow> pvp_page" where
  "handleRoomExit p = p\<lparr>pp_joinCode := [], pp_mode := ModeMenu\<rparr>"

text \<open>The cancel button: when \<open>cancelSearch\<close> throws, the mode is not reset either.\<close>

definition cancelClicked :: "pvp_page \<Rightarrow> pvp_page" where
  "cancelClicked p = (case cancelSearch (pp_pvp p) of Inl e \<Rightarrow> p
     | Inr s \<Rightarrow> p\<lparr>pp_pvp := s, pp_mode := ModeMenu\<rparr>)"

definition playAgain :: "pvp_page \<Rightarrow> pvp_page" where
  "playAgain p = p\<lparr>pp_pvp := pvp_backToLobby (pp_pvp p), pp_mode := ModeMenu\<rparr>"

datatype pvp_page_event =
    QuickMatchClicked
  | CreateRoomClicked
  | CodeTyped string
  | JoinRoomClicked
  | RoomLink string
  | RoomGameStart string string string string
  | RoomExit
  | CancelClicked
  | CardClicked action
  | PlayAgainClicked
  | HookEvent pvp_event
  | AdEvent ad_event

fun pvp_page_update :: "pvp_page \<Rightarrow> pvp_page_event \<Rightarrow> pvp_page" where
  "pvp_page_update p QuickMatchClicked = startQuickMatch p"
| "pvp_page_update p CreateRoomClicked = startCreateRoom p"
| "pvp_page_update p (CodeTyped s) = setJoinCodeInput s p"
| "pvp_page_update p JoinRoomClicked = startJoinRoom p"
| "pvp_page_update p (RoomLink s) = openRoomLink s p"
| "pvp_page_update p (RoomGameStart g n a b) = handleRoomGameStart g n a b p"
| "pvp_page_update p RoomExit = handleRoomExit p"
| "pvp_page_update p CancelClicked = cancelClicked p"
| "pvp_page_update p (CardClicked a) = p\<lparr>pp_pvp := pvp_submitAction a (pp_pvp p)\<rparr>"
| "pvp_page_update p PlayAgainClicked = playAgain p"
| "pvp_page_update p (HookEvent e) = p\<lparr>pp_pvp := pvp_step (pp_pvp p) e\<rparr>"
| "pvp_page_update p (AdEvent e) = p\<lparr>pp_ads := ad_step (pp_ads p) e\<rparr>"

definition pvp_page_step :: "pvp_page \<Rightarrow> pvp_page_event \<Rightarrow> pvp_page" where
  "pvp_page_step p e =
     (let p' = pvp_page_update p e
      in if pvp_effect_deps p' = pvp_effect_deps p then p' else pvp_run_effect p')"

text \<open>
  Which control exists when.  The hook's own events come from the network: the
  resolved \<open>ensureAuth\<close> and the sockets.  The direct link is read once, on mount.
\<close>

fun network_event :: "pvp_event \<Rightarrow> bool" where
  "network_event (Authed k out) = True"
| "network_event (SocketOpened i) = True"
| "network_event (GameMessage i m) = True"
| "network_event (MmMessage i m) = True"
| "network_event (SocketClosed i f) = True"
| "network_event _ = False"

fun pvp_page_enabled :: "pvp_page \<Rightarrow> pvp_page_event \<Rightarrow> bool" where
  "pvp_page_enabled p QuickMatchClicked = (visiblePageMode p = ModeMenu)"
| "pvp_page_enabled p CreateRoomClicked = (visiblePageMode p = ModeMenu)"
| "pvp_page_enabled p (CodeTyped s) = (visiblePageMode p = ModeMenu)"
| "pvp_page_enabled p JoinRoomClicked = (visiblePageMode p = ModeMenu)"
| "pvp_page_enabled p (RoomLink s) =
     (pp_mode p = ModeMenu \<and> pv_phase (pp_pvp p) = PLobby \<and> pp_joinCode p = [])"
| "pvp_page_enabled p (RoomGameStart g n a b) = (visiblePageMode p = ModeRoom)"
| "pvp_page_enabled p RoomExit = (visiblePageMode p = ModeRoom)"
| "pvp_page_enabled p CancelClicked = (visiblePageMode p = ModePvp \<and> pv_phase (pp_pvp p) = PSearching)"
| "pvp_page_enabled p (CardClicked a) =
     (visiblePageMode p = ModePvp \<and> pv_phase (pp_pvp p) = PPlaying \<and>
      (case pv_gameState (pp_pvp p) of None \<Rightarrow> False | Some g \<Rightarrow> \<not> card_disabled a (ps_your_ki g) False))"
| "pvp_page_enabled p PlayAgainClicked =
     (visiblePageMode p = ModePvp \<and> pv_phase (pp_pvp p) = PMatchEnd \<and> pv_matchResult (pp_pvp p) \<noteq> None)"
| "pvp_page_enabled p (HookEvent e) = network_event e"
| "pvp_page_enabled p (AdEvent e) = (e \<noteq> AdMatchEnd)"

subsection \<open>Sections\<close>

datatype pvp_slot = PvpCards int int int | PvpWaiting | PvpReveal | PvpRound string

datatype pvp_section =
    PvpMenu
  | PvpRoom room_mode string
  | PvpSearching
  | PvpMatched "string option"
  | PvpGameplay int int "pvp_slot list"
  | PvpFinale string "int \<times> int" int

definition pvp_round_text :: "string \<Rightarrow> string" where
  "pvp_round_text w = (if w = ''you'' then ''YOU WIN!'' else if w = ''opponent'' then ''OPPONENT WINS!'' else ''DRAW!'')"

definition pvp_finale_result :: "string \<Rightarrow> string" where
  "pvp_finale_result w = (if w = ''you'' then ''win'' else if w = ''opponent'' then ''loss'' else ''draw'')"

definition pvp_slots :: "pvp \<Rightarrow> pvp_slot list" where
  "pvp_slots s =
     (if pv_phase s = PPlaying then
        (case pv_gameState s of None \<Rightarrow> []
         | Some g \<Rightarrow> [PvpCards (ps_your_ki g) (ps_opponent_ki g) (ps_time_limit g)]) else []) @
     (if pv_phase s = PWaiting then [PvpWaiting] else []) @
     (if pv_phase s = PRevealing \<and> pv_turnResult s \<noteq> None then [PvpReveal] else []) @
     (if pv_phase s = PRoundEnd then
        (case pv_roundResult s of None \<Rightarrow> [] | Some d \<Rightarrow> [PvpRound (pvp_round_text (rd_winner d))]) else [])"

definition pvp_sections :: "pvp_page \<Rightarrow> pvp_section list" where
  "pvp_sections p =
     (let s = pp_pvp p; m = visiblePageMode p; ph = pv_phase s
      in (if m = ModeMenu then [PvpMenu] else []) @
         (if m = ModeRoom then [PvpRoom (pp_roomMode p) (pp_joinCode p)] else []) @
         (if m = ModePvp \<and> ph = PSearching then [PvpSearching] else []) @
         (if m = ModePvp \<and> ph = PMatched then [PvpMatched (pv_opponentName s)] else []) @
         (if m = ModePvp \<and> ph \<in> {PPlaying, PWaiting, PRevealing, PRoundEnd}
          then [PvpGameplay (roundsWonYou s) (roundsWonOpponent s) (pvp_slots s)] else []) @
         (if m = ModePvp \<and> ph = PMatchEnd then
            (case pv_matchResult s of None \<Rightarrow> []
             | Some d \<Rightarrow> [PvpFinale (pvp_finale_result (md_winner d)) (roundsWonYou s, roundsWonOpponent s)
                  (md_total_turns d)]) else []))"

definition pvp_error_shown :: "pvp_page \<Rightarrow> string option" where
  "pvp_error_shown p = (if truthy (pv_error (pp_pvp p)) \<and> visiblePageMode p \<noteq> ModeRoom
     then pv_error (pp_pvp p) else None)"

subsection \<open>Every phase has its data\<close>

fun phase_data :: "pvp_phase \<Rightarrow> pvp \<Rightarrow> bool" where
  "phase_data PPlaying s = (pv_gameState s \<noteq> None)"
| "phase_data PRevealing s = (pv_turnResult s \<noteq> None)"
| "phase_data PRoundEnd s = (pv_roundResult s \<noteq> None)"
| "phase_data PMatchEnd s = (pv_matchResult s \<noteq> None)"
| "phase_data _ s = True"

definition pvp_data_ok :: "pvp \<Rightarrow> bool" where
  "pvp_data_ok s \<longleftrightarrow> phase_data (pv_phase s) s"

lemma phase_data_cong:
  "pv_gameState s = pv_gameState t \<Longrightarrow> pv_turnResult s = pv_turnResult t \<Longrightarrow>
   pv_roundResult s = pv_roundResult t \<Longrightarrow> pv_matchResult s = pv_matchResult t \<Longrightarrow>
   phase_data ph s = phase_data ph t"
  by (cases ph) simp_all

lemma phase_data_updates [simp]:
  "phase_data ph (s\<lparr>sockets := x1\<rparr>) = phase_data ph s"
  "phase_data ph (s\<lparr>pv_error := x2\<rparr>) = phase_data ph s"
  "phase_data ph (s\<lparr>pv_tracked := x3\<rparr>) = phase_data ph s"
  "phase_data ph (s\<lparr>gameWs := x4\<rparr>) = phase_data ph s"
  by (rule phase_data_cong; simp)+

lemma data_ok_game_message: "pvp_data_ok s \<Longrightarrow> pvp_data_ok (game_onmessage i m s)"
  by (cases m) (auto simp: pvp_data_ok_def Let_def ws_close_def ptrack_def)

lemma data_ok_fields:
  assumes "pvp_data_ok s" "pv_gameState t = pv_gameState s" "pv_turnResult t = pv_turnResult s"
    "pv_roundResult t = pv_roundResult s" "pv_matchResult t = pv_matchResult s"
    "pv_phase t = pv_phase s \<or> pv_phase t \<in> {PLobby, PSearching, PMatched, PWaiting}"
  shows "pvp_data_ok t"
  using assms phase_data_cong [of t s "pv_phase t"] by (auto simp: pvp_data_ok_def)

lemma data_ok_mm_message: "pvp_data_ok s \<Longrightarrow> pvp_data_ok (mm_onmessage i tk m s)"
  by (cases m)
    (auto intro!: data_ok_fields [of s]
      simp: connectToGame_def open_socket_def ws_close_def ptrack_def Let_def)

lemma data_ok_authed: "pvp_data_ok s \<Longrightarrow> pvp_data_ok (pvp_authed k out s)"
  by (erule data_ok_fields)
    (auto simp: pvp_authed_def findMatch_authed_def joinGame_authed_def connectToGame_def open_socket_def
      ptrack_def Let_def split: sum.split pvp_await.split)

lemma data_ok_closed: "pvp_data_ok s \<Longrightarrow> pvp_data_ok (socket_closed i f s)"
  by (erule data_ok_fields)
    (auto simp: socket_closed_def set_ready_def game_onclose_def game_onerror_def mm_onclose_def
      mm_onerror_def Let_def split: socket_target.split)

lemma data_ok_cancel: "pvp_data_ok s \<Longrightarrow> cancelSearch s = Inr s' \<Longrightarrow> pvp_data_ok s'"
  by (erule data_ok_fields)
    (auto simp: cancelSearch_def ws_close_def split: option.splits sum.splits)

lemma data_ok_submit: "pvp_data_ok s \<Longrightarrow> pvp_data_ok (pvp_submitAction a s)"
  by (erule data_ok_fields)
    (auto simp: pvp_submitAction_def ptrack_def split: option.split sum.split)

lemma data_ok_back [simp]: "pvp_data_ok (pvp_backToLobby s)"
  by (simp add: pvp_backToLobby_def pvp_data_ok_def)

lemma data_ok_await [simp]:
  "pvp_data_ok s \<Longrightarrow> pvp_data_ok (findMatch s)" "pvp_data_ok s \<Longrightarrow> pvp_data_ok (joinGame g n s)"
  by (erule data_ok_fields; simp add: findMatch_def joinGame_def)+

lemma data_ok_ready: "pvp_data_ok s \<Longrightarrow> pvp_data_ok (set_ready i r s)"
  by (erule data_ok_fields) (simp_all add: set_ready_def)

lemma data_ok_step: "pvp_data_ok s \<Longrightarrow> pvp_data_ok (pvp_step s e)"
  by (cases e)
    (auto intro: data_ok_authed data_ok_closed data_ok_submit data_ok_ready data_ok_game_message
      data_ok_mm_message dest: data_ok_cancel split: sum.split socket_target.split)

interpretation pvm: machine pvp_init pvp_step pvp_data_ok
  by unfold_locales (simp add: pvp_data_ok_def pvp_init_def, rule data_ok_step)

lemma run_effect_pvp [simp]:
  "pp_pvp (pvp_run_effect p) = pp_pvp p" "pp_mode (pvp_run_effect p) = pp_mode p"
  by (simp_all add: pvp_run_effect_def Let_def)

lemma page_step_pvp [simp]:
  "pp_pvp (pvp_page_step p e) = pp_pvp (pvp_page_update p e)"
  "pp_mode (pvp_page_step p e) = pp_mode (pvp_page_update p e)"
  by (simp_all add: pvp_page_step_def Let_def)

definition pvp_page_inv :: "pvp_page \<Rightarrow> bool" where
  "pvp_page_inv p \<longleftrightarrow> pvp_data_ok (pp_pvp p) \<and> pp_prevPhase p = pv_phase (pp_pvp p)"

lemma data_ok_page_update: "pvp_data_ok (pp_pvp p) \<Longrightarrow> pvp_data_ok (pp_pvp (pvp_page_update p e))"
  by (cases e)
    (auto simp: startQuickMatch_def startCreateRoom_def setJoinCodeInput_def startJoinRoom_def
      openRoomLink_def handleRoomGameStart_def handleRoomExit_def cancelClicked_def playAgain_def
      intro: data_ok_submit data_ok_step dest: data_ok_cancel split: sum.split)

lemma pvp_page_update_prev [simp]: "pp_prevPhase (pvp_page_update p e) = pp_prevPhase p"
  by (cases e)
    (auto simp: startQuickMatch_def startCreateRoom_def setJoinCodeInput_def startJoinRoom_def
      openRoomLink_def handleRoomGameStart_def handleRoomExit_def cancelClicked_def playAgain_def
      split: sum.split)

lemma pvp_page_inv_step: "pvp_page_inv p \<Longrightarrow> pvp_page_inv (pvp_page_step p e)"
  using data_ok_page_update [of p e]
  by (auto simp: pvp_page_inv_def pvp_page_step_def Let_def pvp_effect_deps_def pvp_run_effect_def)

interpretation ppm: machine pvp_page_init pvp_page_step pvp_page_inv
  by unfold_locales
    (simp add: pvp_page_inv_def pvp_page_init_def pvp_data_ok_def pvp_init_def, rule pvp_page_inv_step)

text \<open>Claim C12: The PvP screen is never blank.  In every sequence of clicks, messages, connection
  failures and resolved requests exactly one main section is rendered, the running match always has
  exactly one bottom slot, and the finale shows the winner the server named and the hook's own score.\<close>

theorem pvp_exactly_one_section:
  assumes "p = run pvp_page_step pvp_page_init es"
  shows "length (pvp_sections p) = 1 \<and>
    (visiblePageMode p = ModePvp \<and> pv_phase (pp_pvp p) \<in> {PPlaying, PWaiting, PRevealing, PRoundEnd} \<longrightarrow>
       (\<exists>slot. pvp_sections p =
          [PvpGameplay (roundsWonYou (pp_pvp p)) (roundsWonOpponent (pp_pvp p)) [slot]])) \<and>
    (visiblePageMode p = ModePvp \<and> pv_phase (pp_pvp p) = PMatchEnd \<longrightarrow>
       (\<exists>d. pv_matchResult (pp_pvp p) = Some d \<and> pvp_sections p =
          [PvpFinale (pvp_finale_result (md_winner d))
             (roundsWonYou (pp_pvp p), roundsWonOpponent (pp_pvp p)) (md_total_turns d)]))"
proof -
  have "pvp_data_ok (pp_pvp p)"
    using ppm.always [of es] assms by (simp add: pvp_page_inv_def)
  then show ?thesis
    by (cases "pv_phase (pp_pvp p)"; cases "visiblePageMode p")
      (auto simp: pvp_sections_def pvp_slots_def pvp_data_ok_def Let_def visiblePageMode_def split: if_splits)
qed

theorem pvp_exactly_one_section_witness:
  "length (pvp_sections (run pvp_page_step pvp_page_init [QuickMatchClicked, HookEvent (Authed 0 (Inr (Some ''t'')))])) = 1"
  using pvp_exactly_one_section [OF refl] by blast

subsection \<open>What the player is shown\<close>

lemma action_of_str_inv [simp]: "action_of_str (action_str a) = Some a"
  by (cases a) (simp_all add: ACTIONS_def)

declare action_of_str.simps [simp del]

definition turn_data_of :: "side \<Rightarrow> turn_result \<Rightarrow> turn_data" where
  "turn_data_of p tr = (case turn_message p tr of TurnResultMsg d \<Rightarrow> d | _ \<Rightarrow> undefined)"

lemma turn_data_of_simps [simp]:
  "td_your_action (turn_data_of p tr) = action_str (own p (tr_p1_action tr) (tr_p2_action tr))"
  "td_opponent_action (turn_data_of p tr) = action_str (opp p (tr_p1_action tr) (tr_p2_action tr))"
  "td_outcome (turn_data_of p tr) = flip_outcome_for (tr_outcome tr) p"
  by (simp_all add: turn_data_of_def turn_message_def)

lemma arenaOutcome_flip:
  "td_outcome d = flip_outcome_for x p \<Longrightarrow>
   arenaOutcome (Some d) = Some (case p of SideP1 \<Rightarrow> x | SideP2 \<Rightarrow> flip_outcome x)"
  by (cases p; cases x) (simp_all add: arenaOutcome_def Let_def)

text \<open>Each player sees the turn from their own side, and sees it rightly.  For the turn message
  the server sends to either player, the reveal shows the player's own action as the first card, the
  opponent's as the second, and exactly the outcome the rules give for those two actions in that order.\<close>

theorem reveal_shows_own_perspective:
  "\<exists>t. revealTurn (Some (turn_data_of p (resolve_turn n a1 a2 k1 k2))) = Some t \<and>
     tr_p1_action t = own p a1 a2 \<and> tr_p2_action t = opp p a1 a2 \<and>
     tr_outcome t = resolve_actions (own p a1 a2) (opp p a1 a2)"
proof -
  let ?d = "turn_data_of p (resolve_turn n a1 a2 k1 k2)"
  have "arenaOutcome (Some ?d) = Some (resolve_actions (own p a1 a2) (opp p a1 a2))"
    using arenaOutcome_flip [of ?d "resolve_actions a1 a2" p] resolve_actions_swap [of a2 a1]
    by (cases p) simp_all
  then show ?thesis by (simp add: revealTurn_def)
qed

text \<open>
  How long a turn result stays on the screen: the AI page holds it for its
  auto-advance timer; in PvP the server sends the next message after its pause,
  and the round result of a decided turn with no pause at all.
\<close>

definition server_pause :: "round_result option \<Rightarrow> nat" where
  "server_pause rr = (if rr = None then 1500 else 2000)"

text \<open>The outcome of a turn is shown in AI matches and never in PvP.  The reveal needs 2.1 s
  to reach its outcome: the AI page's auto-advance leaves it 3 s, while the PvP server asks for the
  next action after at most 2 s, so the outcome text and the screen shake of the PvP page never appear.\<close>

theorem outcome_shown_only_in_ai_matches:
  assumes "auto_advance_timer GRevealing = Some (hold, ev)"
    and "ts = run reveal_step (no_timers, reveal_init) es"
  shows "tv_revealed (snd (run reveal_step ts [RvProps True (Some tr), RvWait hold])) =
      tv_revealed (snd ts) @ [tr_outcome tr] \<and>
    (let shown = run reveal_step ts [RvProps True (Some tr), RvWait (server_pause rr)]
     in tv_stage (snd shown) \<noteq> OutcomeShown \<and> tv_revealed (snd shown) = tv_revealed (snd ts))"
proof -
  have inv: "reveal_inv ts" unfolding assms(2) by (rule rv.always)
  have "hold = 3000" using assms(1) by (simp add: auto_advance_timer_def)
  then show ?thesis
    using inv
    by (simp add: reveal_cleanup_closed reveal_effect_closed Let_def elapse_def server_pause_def)
qed

theorem outcome_shown_only_in_ai_matches_witness:
  "tv_revealed (snd (run reveal_step (no_timers, reveal_init) [RvProps True (Some sample_turn), RvWait 3000])) =
     [Neutral]"
proof -
  have "auto_advance_timer GRevealing = Some (3000, ContinueFromReveal)"
    by (simp add: auto_advance_timer_def)
  from outcome_shown_only_in_ai_matches [OF this refl, of "[]" sample_turn None]
  show ?thesis by (simp add: sample_turn_def reveal_init_def del: reveal_step.simps run.simps(2))
qed

subsection \<open>Counting finished matches\<close>

abbreviation pp_phase :: "pvp_page \<Rightarrow> pvp_phase" where
  "pp_phase p \<equiv> pv_phase (pp_pvp p)"

fun pvp_matches_entered :: "pvp_page \<Rightarrow> pvp_page_event list \<Rightarrow> nat" where
  "pvp_matches_entered p [] = 0"
| "pvp_matches_entered p (e # es) =
     of_bool (pp_phase p \<noteq> PMatchEnd \<and> pp_phase (pvp_page_step p e) = PMatchEnd) +
     pvp_matches_entered (pvp_page_step p e) es"

lemma pvp_count_transition:
  "count_list (pvp_transition prev s) CallOnMatchEnd = of_bool (pv_phase s = PMatchEnd \<and> prev \<noteq> PMatchEnd)"
  by (cases "revealTurn (pv_turnResult s)"; cases "pv_phase s"; cases prev; simp add: pvp_transition_def)

lemma pvp_update_cmds [simp]: "pp_cmds (pvp_page_update p e) = pp_cmds p"
  by (cases e)
    (auto simp: startQuickMatch_def startCreateRoom_def setJoinCodeInput_def startJoinRoom_def
      openRoomLink_def handleRoomGameStart_def handleRoomExit_def cancelClicked_def playAgain_def
      split: sum.split)

lemma pvp_match_entered:
  assumes "pvp_page_inv p"
  shows "count_list (pp_cmds (pvp_page_step p e)) CallOnMatchEnd = count_list (pp_cmds p) CallOnMatchEnd +
     of_bool (pp_phase p \<noteq> PMatchEnd \<and> pp_phase (pvp_page_step p e) = PMatchEnd)"
proof (cases "pvp_effect_deps (pvp_page_update p e) = pvp_effect_deps p")
  case True
  then have "pp_phase (pvp_page_update p e) = pp_phase p" by (simp add: pvp_effect_deps_def)
  with True show ?thesis by (simp add: pvp_page_step_def)
next
  case False
  then have "pvp_page_step p e = pvp_run_effect (pvp_page_update p e)" by (simp add: pvp_page_step_def)
  then show ?thesis
    using assms by (auto simp: pvp_run_effect_def Let_def pvp_count_transition pvp_page_inv_def)
qed

lemma pvp_match_ends_run:
  "pvp_page_inv p \<Longrightarrow>
   count_list (pp_cmds (run pvp_page_step p es)) CallOnMatchEnd =
   count_list (pp_cmds p) CallOnMatchEnd + pvp_matches_entered p es"
proof (induction es arbitrary: p)
  case Nil
  then show ?case by simp
next
  case (Cons e es)
  show ?case
    using Cons.IH [OF pvp_page_inv_step [OF Cons.prems]] pvp_match_entered [OF Cons.prems, of e] by simp
qed

text \<open>Claim C15: The PvP page counts each finished match once, whatever else happens: \<open>onMatchEnd\<close> is
  called exactly when the match-end phase is entered.  (Its effect compares with the previous phase,
  which the AI page's effect does not do for the match end.)\<close>

theorem pvp_match_counted_once:
  "count_list (pp_cmds (run pvp_page_step pvp_page_init es)) CallOnMatchEnd =
   pvp_matches_entered pvp_page_init es"
proof -
  have "pvp_page_inv pvp_page_init" by (rule ppm.start)
  from pvp_match_ends_run [OF this] show ?thesis by (simp add: pvp_page_init_def)
qed

subsection \<open>Lost connections\<close>

definition all_closed :: "pvp \<Rightarrow> bool" where
  "all_closed s \<longleftrightarrow> (\<forall>x \<in> set (sockets s). sk_ready x = CLOSED)"

lemma all_closed_nth: "all_closed s \<Longrightarrow> i < length (sockets s) \<Longrightarrow> sk_ready (sockets s ! i) = CLOSED"
  by (simp add: all_closed_def)

lemma network_dead:
  "all_closed s \<Longrightarrow> pv_awaiting s = [] \<Longrightarrow> network_event e \<Longrightarrow> pvp_step s e = s"
  by (cases e) (auto simp: pvp_authed_def is_open_def socket_closed_def all_closed_nth)

definition in_running_match :: "pvp_page \<Rightarrow> bool" where
  "in_running_match p \<longleftrightarrow> pp_mode p = ModePvp \<and>
     pp_phase p \<in> {PMatched, PPlaying, PWaiting, PRevealing, PRoundEnd}"

lemma running_dead_step:
  assumes "in_running_match p" "all_closed (pp_pvp p)" "pv_awaiting (pp_pvp p) = []"
    "gameWs (pp_pvp p) = None" "pvp_page_enabled p e"
  shows "pp_pvp (pvp_page_step p e) = pp_pvp p \<and> in_running_match (pvp_page_step p e)"
proof -
  have m: "visiblePageMode p = ModePvp" using assms(1) by (auto simp: visiblePageMode_def in_running_match_def)
  have "pp_pvp (pvp_page_update p e) = pp_pvp p \<and> pp_mode (pvp_page_update p e) = pp_mode p"
    using assms m network_dead [OF assms(2,3)]
    by (cases e) (auto simp: in_running_match_def pvp_submitAction_def)
  then show ?thesis using assms(1) by (simp add: in_running_match_def)
qed

lemma running_dead_run:
  "in_running_match p \<Longrightarrow> all_closed (pp_pvp p) \<Longrightarrow> pv_awaiting (pp_pvp p) = [] \<Longrightarrow>
   gameWs (pp_pvp p) = None \<Longrightarrow> legal pvp_page_enabled pvp_page_step p es \<Longrightarrow>
   pp_pvp (run pvp_page_step p es) = pp_pvp p \<and> in_running_match (run pvp_page_step p es)"
proof (induction es arbitrary: p)
  case Nil
  then show ?case by simp
next
  case (Cons e es)
  note st = running_dead_step [OF Cons.prems(1-4), of e]
  with Cons.prems(5) show ?case
    using Cons.IH [of "pvp_page_step p e"] Cons.prems(2-4) by simp
qed

text \<open>A connection that closes without an error strands the player.  If the game socket of a
  running match is closed cleanly (as a server restart does) and no other connection is open, then
  whatever the player clicks and whatever the network still delivers, the hook's state never changes
  again: the page stays in the match, every action is dropped, and no control leaves the screen.\<close>

theorem clean_close_strands_player:
  assumes "in_running_match p" "gameWs (pp_pvp p) = Some i" "connected i (pp_pvp p)"
    and "\<forall>j < length (sockets (pp_pvp p)). j \<noteq> i \<longrightarrow> sk_ready (sockets (pp_pvp p) ! j) = CLOSED"
    and "pv_awaiting (pp_pvp p) = []"
    and p': "p' = pvp_page_step p (HookEvent (SocketClosed i False))"
    and "legal pvp_page_enabled pvp_page_step p' es"
  shows "pp_pvp (run pvp_page_step p' es) = pp_pvp p' \<and> pp_phase (run pvp_page_step p' es) = pp_phase p \<and>
    in_running_match (run pvp_page_step p' es)"
proof -
  let ?s = "pp_pvp p"
  have i: "i < length (sockets ?s)" "sk_ready (sockets ?s ! i) = OPEN"
    using assms(3) by (auto simp: connected_def is_open_def)
  obtain g t where t: "sk_target (sockets ?s ! i) = ToGame g t"
    using assms(3) by (auto simp: connected_def)
  have s': "pp_pvp p' = (set_ready i CLOSED ?s)\<lparr>gameWs := None\<rparr>"
    using i t by (simp add: p' socket_closed_def Let_def game_onclose_def)
  have "all_closed (pp_pvp p')"
    unfolding all_closed_def
  proof
    fix x assume "x \<in> set (sockets (pp_pvp p'))"
    then obtain j where j: "j < length (sockets ?s)" "x = sockets (pp_pvp p') ! j"
      by (auto simp: in_set_conv_nth s' set_ready_def)
    with assms(4) i show "sk_ready x = CLOSED"
      by (cases "j = i") (simp_all add: s' set_ready_def)
  qed
  moreover have "in_running_match p'" "pp_phase p' = pp_phase p"
    using assms(1) s' by (simp_all add: in_running_match_def p' set_ready_def)
  moreover have "gameWs (pp_pvp p') = None" "pv_awaiting (pp_pvp p') = []"
    using assms(5) by (simp_all add: s' set_ready_def)
  ultimately show ?thesis using running_dead_run [of p' es] assms(7) by simp
qed

definition page_in_match :: pvp_page where
  "page_in_match = pvp_page_init\<lparr>pp_mode := ModePvp, pp_pvp := fresh_client\<rparr>"

theorem clean_close_strands_player_witness:
  "in_running_match (run pvp_page_step
     (pvp_page_step page_in_match (HookEvent (SocketClosed 0 False))) [HookEvent (SocketClosed 0 True)])"
proof -
  have a: "in_running_match page_in_match"
    by (simp add: in_running_match_def page_in_match_def fresh_client_def)
  have b: "gameWs (pp_pvp page_in_match) = Some 0"
    by (simp add: page_in_match_def fresh_client_def)
  have c: "connected 0 (pp_pvp page_in_match)"
    using fresh_client_ok by (simp add: page_in_match_def)
  have d: "\<forall>j < length (sockets (pp_pvp page_in_match)). j \<noteq> 0 \<longrightarrow>
      sk_ready (sockets (pp_pvp page_in_match) ! j) = CLOSED"
    by (simp add: page_in_match_def fresh_client_def)
  have e: "pv_awaiting (pp_pvp page_in_match) = []"
    by (simp add: page_in_match_def fresh_client_def pvp_init_def)
  have f: "legal pvp_page_enabled pvp_page_step
      (pvp_page_step page_in_match (HookEvent (SocketClosed 0 False))) [HookEvent (SocketClosed 0 True)]"
    by simp
  from clean_close_strands_player [OF a b c d e refl f] show ?thesis by blast
qed

subsection \<open>Sockets that outlive their match\<close>

text \<open>A late close event of an earlier game cuts off the current one.  The close handler clears
  the game reference whichever socket it belongs to: when the close event of another game socket
  arrives while the current one is open, the reference is lost, every later action is dropped
  silently, and yet the current connection stays open.\<close>

theorem stale_close_drops_actions:
  assumes "gameWs s = Some j" "is_open j (sockets s)" "i < length (sockets s)" "i \<noteq> j"
    and "sk_target (sockets s ! i) = ToGame g t" "sk_ready (sockets s ! i) = CLOSING"
    and s': "s' = pvp_step s (SocketClosed i False)"
  shows "gameWs s' = None \<and> is_open j (sockets s') \<and> pvp_submitAction a s' = s'"
  using assms(1-6)
  by (simp add: s' socket_closed_def Let_def game_onclose_def set_ready_def is_open_def pvp_submitAction_def)

definition two_games :: "pvp_event list" where
  "two_games =
     [JoinGame ''g1'' None, Authed 0 (Inr (Some ''t'')), SocketOpened 0,
      GameMessage 0 (MatchResultMsg \<lparr>md_winner = ''you'', md_rounds_won_p1 = 2, md_rounds_won_p2 = 0,
        md_total_turns = 6\<rparr>),
      PvpBackToLobby, JoinGame ''g2'' None, Authed 0 (Inr (Some ''t'')), SocketOpened 1]"

lemma two_games_state:
  defines "s \<equiv> run pvp_step pvp_init two_games"
  shows "gameWs s = Some 1" "is_open 1 (sockets s)" "0 < length (sockets s)"
    "sk_target (sockets s ! 0) = ToGame ''g1'' ''t''" "sk_ready (sockets s ! 0) = CLOSING"
  by (simp_all add: s_def two_games_def pvp_init_def joinGame_def pvp_authed_def joinGame_authed_def
      remove_nth_def connectToGame_def open_socket_def new_socket_def ptrack_def set_ready_def is_open_def
      ws_close_def socket_close_def pvp_backToLobby_def close_ref_def Let_def)

theorem stale_close_drops_actions_witness:
  "gameWs (pvp_step (run pvp_step pvp_init two_games) (SocketClosed 0 False)) = None"
  using stale_close_drops_actions [OF two_games_state(1,2,3) _ two_games_state(4,5) refl, of Charge]
  by simp

text \<open>A search cannot be cancelled before its socket is open: \<open>send\<close> throws, and the cancel
  button changes nothing at all - the page stays on the searching screen and the socket stays in the
  queue.  Once it is open, the same click leaves the queue, closes the socket and returns to the menu.\<close>

theorem cancel_needs_open_socket:
  assumes "matchmakingWs (pp_pvp p) = Some i" "i < length (sockets (pp_pvp p))"
  shows "(sk_ready (sockets (pp_pvp p) ! i) = CONNECTING \<longrightarrow> pvp_page_update p CancelClicked = p) \<and>
    (sk_ready (sockets (pp_pvp p) ! i) = OPEN \<longrightarrow>
       (let p' = pvp_page_update p CancelClicked
        in visiblePageMode p' = ModeMenu \<and> pp_phase p' = PLobby \<and> matchmakingWs (pp_pvp p') = None \<and>
           sk_ready (sockets (pp_pvp p') ! i) = CLOSING \<and>
           sk_sent (sockets (pp_pvp p') ! i) =
             sk_sent (sockets (pp_pvp p) ! i) @ [JObj [(''type'', JStr ''leave_queue'')]]))"
  using assms
  by (simp add: cancelClicked_def cancelSearch_def socket_send_def ws_close_def socket_close_def Let_def
      visiblePageMode_def)

definition searching_page :: pvp_page where
  "searching_page = run pvp_page_step pvp_page_init
     [QuickMatchClicked, HookEvent (Authed 0 (Inr (Some ''t'')))]"

lemma searching_page_socket:
  "matchmakingWs (pp_pvp searching_page) = Some 0" "0 < length (sockets (pp_pvp searching_page))"
  "sk_ready (sockets (pp_pvp searching_page) ! 0) = CONNECTING"
  by (simp_all add: searching_page_def startQuickMatch_def pvp_page_init_def findMatch_def pvp_init_def
      pvp_authed_def findMatch_authed_def remove_nth_def ptrack_def open_socket_def new_socket_def Let_def)

theorem cancel_needs_open_socket_witness:
  "pvp_page_update searching_page CancelClicked = searching_page"
  using cancel_needs_open_socket [OF searching_page_socket(1,2)] searching_page_socket(3)
  by (simp del: pvp_page_update.simps)

text \<open>A match found after a connection error starts with the old score.  When the game socket
  fails, the hook returns to the lobby without resetting the rounds won, and neither \<open>findMatch\<close> nor the
  new game does: the first screen of the next match shows the previous match's score.\<close>

theorem score_survives_connection_error:
  assumes "i < length (sockets s)" "sk_ready (sockets s ! i) = OPEN"
    and "sk_target (sockets s ! i) = ToGame g t" "pv_awaiting s = []" "tk \<noteq> []"
    and s': "s' = run pvp_step s [SocketClosed i True, FindMatch, Authed 0 (Inr (Some tk)),
       SocketOpened (length (sockets s)), MmMessage (length (sockets s)) (MatchFound g2 nm)]"
  shows "pv_phase (pvp_step s (SocketClosed i True)) = PLobby \<and> pv_phase s' = PMatched \<and>
    gameWs s' = Some (length (sockets s) + 1) \<and>
    roundsWonYou s' = roundsWonYou s \<and> roundsWonOpponent s' = roundsWonOpponent s"
proof -
  have 1: "pvp_step s (SocketClosed i True) = game_onclose (game_onerror (set_ready i CLOSED s))"
    using assms(1-3) by (simp add: socket_closed_def Let_def)
  show ?thesis
    unfolding s' run.simps 1
    using assms(4,5)
    by (simp add: game_onclose_def game_onerror_def set_ready_def findMatch_def pvp_authed_def
        findMatch_authed_def remove_nth_def ptrack_def open_socket_def new_socket_def Let_def nth_append
        is_open_def connectToGame_def ws_close_def socket_close_def)
qed

theorem score_survives_connection_error_witness:
  "roundsWonYou (run pvp_step (fresh_client\<lparr>roundsWonYou := 1\<rparr>)
     [SocketClosed 0 True, FindMatch, Authed 0 (Inr (Some ''t'')), SocketOpened 1,
      MmMessage 1 (MatchFound ''g2'' ''Kim'')]) = 1"
proof -
  let ?s = "fresh_client\<lparr>roundsWonYou := 1\<rparr>"
  have "0 < length (sockets ?s)" "sk_ready (sockets ?s ! 0) = OPEN" "sk_target (sockets ?s ! 0) = ToGame ''g'' ''t''"
    "pv_awaiting ?s = []" "length (sockets ?s) = 1"
    by (simp_all add: fresh_client_def new_socket_def pvp_init_def)
  with score_survives_connection_error [of 0 ?s "''g''" "''t''" "''t''" _ "''g2''" "''Kim''"]
  show ?thesis by (simp del: run.simps pvp_step.simps)
qed

end
