(* ===== verification/Use_Tutorial.thy ===== *)
theory Use_Tutorial
  imports Board
begin

text \<open>
  The scripted tutorial: the hook \<open>web/src/hooks/useTutorial.ts\<close> with its three
  lessons, and the controls of \<open>web/src/app/tutorial/page.tsx\<close>.  The theorems compare
  its simplified rules with the engine.
\<close>

record tutorial_step =
  ts_step :: nat
  ts_title :: string
  ts_instruction :: string
  ts_expectedAction :: action
  ts_aiAction :: action
  ts_explanation :: string
  ts_highlightActions :: "action list"

definition TUTORIAL_STEPS :: "tutorial_step list" where
  "TUTORIAL_STEPS =
     [\<lparr>ts_step = 1, ts_title = ''Step 1: Charge Your Ki'',
       ts_instruction = ''Tap CHARGE to build up ki energy. You need ki to attack!'',
       ts_expectedAction = Charge, ts_aiAction = Charge,
       ts_explanation = ''Both fighters charged! You gained +1 ki. Ki is your fuel '' @ utf8 [226, 128, 148] @
         '' you need it for Attack (1 ki) and Ki Burst (3 ki).'',
       ts_highlightActions = [Charge]\<rparr>,
      \<lparr>ts_step = 2, ts_title = ''Step 2: Attack!'',
       ts_instruction = ''Now you have ki! Tap ATTACK to strike. The AI is charging '' @ utf8 [226, 128, 148] @
         '' they'' @ [char_of (39 :: nat)] @ ''re vulnerable!'',
       ts_expectedAction = Attack, ts_aiAction = Charge,
       ts_explanation = ''Your Attack hit while they were Charging! That wins the round. Attack costs 1 ki and beats anyone who''
         @ [char_of (39 :: nat)] @ ''s Charging.'',
       ts_highlightActions = [Attack]\<rparr>,
      \<lparr>ts_step = 3, ts_title = ''Step 3: Block & Counter'',
       ts_instruction = ''The AI will Attack this time. Tap BLOCK to defend yourself!'',
       ts_expectedAction = Block, ts_aiAction = Attack,
       ts_explanation = ''You blocked the Attack! Block costs 0 ki and stops basic Attacks. But watch out ''
         @ utf8 [226, 128, 148] @ '' Ki Burst pierces through Block!'',
       ts_highlightActions = [Block]\<rparr>]"

datatype tutorial_phase = TIntro | TPlaying | TRevealing | TExplanation | TComplete

record tutorial =
  tu_phase :: tutorial_phase
  tu_stepIndex :: nat
  tu_playerKi :: int
  tu_aiKi :: int
  tu_playerAction :: "action option"
  tu_aiAction :: "action option"

definition tutorial_init :: tutorial where
  "tutorial_init = \<lparr>tu_phase = TIntro, tu_stepIndex = 0, tu_playerKi = 0, tu_aiKi = 0,
     tu_playerAction = None, tu_aiAction = None\<rparr>"

definition currentStep :: "tutorial \<Rightarrow> tutorial_step option" where
  "currentStep s = (if tu_stepIndex s < length TUTORIAL_STEPS
     then Some (TUTORIAL_STEPS ! tu_stepIndex s) else None)"

definition startTutorial :: "tutorial \<Rightarrow> tutorial" where
  "startTutorial s = s\<lparr>tu_stepIndex := 0, tu_playerKi := 0, tu_aiKi := 0, tu_playerAction := None,
     tu_aiAction := None, tu_phase := TPlaying\<rparr>"

text \<open>The hook's own ki arithmetic, one conditional after the other.\<close>

definition tutorial_player_ki :: "action \<Rightarrow> int \<Rightarrow> int" where
  "tutorial_player_ki a ki =
     (let k1 = (if a = Charge then ki + 1 else ki);
          k2 = (if a = Attack then k1 - 1 else k1);
          k3 = (if a = EnergyWave then k2 - 3 else k2);
          k4 = (if a = Teleport then k3 - 1 else k3)
      in max 0 k4)"

definition tutorial_ai_ki :: "action \<Rightarrow> int \<Rightarrow> int" where
  "tutorial_ai_ki a ki =
     (let k1 = (if a = Charge then ki + 1 else ki);
          k2 = (if a = Attack then k1 - 1 else k1)
      in max 0 k2)"

definition tut_submitAction :: "action \<Rightarrow> tutorial \<Rightarrow> tutorial" where
  "tut_submitAction a s =
     (case currentStep s of None \<Rightarrow> s
      | Some st \<Rightarrow> s\<lparr>tu_playerAction := Some a, tu_aiAction := Some (ts_aiAction st),
          tu_playerKi := tutorial_player_ki a (tu_playerKi s),
          tu_aiKi := tutorial_ai_ki (ts_aiAction st) (tu_aiKi s), tu_phase := TRevealing\<rparr>)"

definition tut_continueFromReveal :: "tutorial \<Rightarrow> tutorial" where
  "tut_continueFromReveal s = s\<lparr>tu_phase := TExplanation\<rparr>"

definition continueFromExplanation :: "tutorial \<Rightarrow> tutorial" where
  "continueFromExplanation s =
     (let nextIndex = tu_stepIndex s + 1
      in if nextIndex \<ge> length TUTORIAL_STEPS then s\<lparr>tu_phase := TComplete\<rparr>
         else s\<lparr>tu_stepIndex := nextIndex, tu_playerAction := None, tu_aiAction := None,
                tu_phase := TPlaying\<rparr>)"

definition tut_restart :: "tutorial \<Rightarrow> tutorial" where
  "tut_restart s = s\<lparr>tu_phase := TIntro, tu_stepIndex := 0, tu_playerKi := 0, tu_aiKi := 0,
     tu_playerAction := None, tu_aiAction := None\<rparr>"

datatype tutorial_event = TuStart | TuSubmit action | TuReveal | TuExplained | TuRestart

fun tutorial_do :: "tutorial \<Rightarrow> tutorial_event \<Rightarrow> tutorial" where
  "tutorial_do s TuStart = startTutorial s"
| "tutorial_do s (TuSubmit a) = tut_submitAction a s"
| "tutorial_do s TuReveal = tut_continueFromReveal s"
| "tutorial_do s TuExplained = continueFromExplanation s"
| "tutorial_do s TuRestart = tut_restart s"

text \<open>
  The page: a lesson's card is disabled unless the lesson highlights it, and as
  everywhere when it costs too much.
\<close>

definition tutorial_card_disabled :: "tutorial_step \<Rightarrow> action \<Rightarrow> int \<Rightarrow> bool" where
  "tutorial_card_disabled st a ki = card_disabled a ki (a \<notin> set (ts_highlightActions st))"

fun tutorial_enabled :: "tutorial \<Rightarrow> tutorial_event \<Rightarrow> bool" where
  "tutorial_enabled s TuStart = (tu_phase s = TIntro)"
| "tutorial_enabled s (TuSubmit a) = (tu_phase s = TPlaying \<and>
     (case currentStep s of None \<Rightarrow> False | Some st \<Rightarrow> \<not> tutorial_card_disabled st a (tu_playerKi s)))"
| "tutorial_enabled s TuReveal = (tu_phase s = TRevealing \<and> currentStep s \<noteq> None \<and>
     tu_playerAction s \<noteq> None \<and> tu_aiAction s \<noteq> None)"
| "tutorial_enabled s TuExplained = (tu_phase s = TExplanation \<and> currentStep s \<noteq> None)"
| "tutorial_enabled s TuRestart = (tu_phase s = TComplete)"

definition progress_dots :: "nat \<Rightarrow> string list" where
  "progress_dots stepIndex = map (\<lambda>i. if i < stepIndex then ''bg-green-500''
     else if i = stepIndex then ''bg-blue-500'' else ''bg-gray-700'') [0, 1, 2]"

definition explained_label :: "nat \<Rightarrow> string" where
  "explained_label stepIndex = (if stepIndex < 2 then ''Next Lesson '' @ utf8 [226, 134, 146]
     else ''Finish Tutorial '' @ utf8 [226, 134, 146])"

subsection \<open>Invariant\<close>

definition lesson_ki :: "nat \<Rightarrow> int \<times> int" where
  "lesson_ki i = [(0, 0), (1, 1), (0, 2), (0, 1)] ! i"

definition tutorial_inv :: "tutorial \<Rightarrow> bool" where
  "tutorial_inv s \<longleftrightarrow> tu_stepIndex s < 3 \<and>
     (case tu_phase s of
        TIntro \<Rightarrow> tu_stepIndex s = 0
      | TPlaying \<Rightarrow> (tu_playerKi s, tu_aiKi s) = lesson_ki (tu_stepIndex s)
      | TComplete \<Rightarrow> tu_stepIndex s = 2
      | _ \<Rightarrow> (tu_playerKi s, tu_aiKi s) = lesson_ki (tu_stepIndex s + 1) \<and>
             tu_playerAction s \<noteq> None \<and> tu_aiAction s \<noteq> None)"

lemma step_index_cases: "(i :: nat) < 3 \<Longrightarrow> i = 0 \<or> i = 1 \<or> i = 2"
  by auto

lemma length_STEPS [simp]: "length TUTORIAL_STEPS = 3"
  by (simp add: TUTORIAL_STEPS_def)

lemma STEPS_nth:
  "ts_expectedAction (TUTORIAL_STEPS ! 0) = Charge" "ts_aiAction (TUTORIAL_STEPS ! 0) = Charge"
  "ts_highlightActions (TUTORIAL_STEPS ! 0) = [Charge]"
  "ts_expectedAction (TUTORIAL_STEPS ! 1) = Attack" "ts_aiAction (TUTORIAL_STEPS ! 1) = Charge"
  "ts_highlightActions (TUTORIAL_STEPS ! 1) = [Attack]"
  "ts_expectedAction (TUTORIAL_STEPS ! 2) = Block" "ts_aiAction (TUTORIAL_STEPS ! 2) = Attack"
  "ts_highlightActions (TUTORIAL_STEPS ! 2) = [Block]"
  by (simp_all add: TUTORIAL_STEPS_def)

lemma lesson_ki_simps [simp]:
  "lesson_ki 0 = (0, 0)" "lesson_ki (Suc 0) = (1, 1)" "lesson_ki 2 = (0, 2)"
  "lesson_ki (Suc (Suc 0)) = (0, 2)" "lesson_ki 3 = (0, 1)"
  by (simp_all add: lesson_ki_def)

lemma tutorial_inv_submit:
  assumes "tutorial_inv s" "tutorial_enabled s (TuSubmit a)"
  shows "tutorial_inv (tut_submitAction a s)"
proof -
  from assms have i: "tu_stepIndex s < 3" and ph: "tu_phase s = TPlaying"
    and ki: "(tu_playerKi s, tu_aiKi s) = lesson_ki (tu_stepIndex s)"
    by (auto simp: tutorial_inv_def)
  from assms(2) i have hl: "a \<in> set (ts_highlightActions (TUTORIAL_STEPS ! tu_stepIndex s))"
    by (simp add: currentStep_def tutorial_card_disabled_def card_disabled_def)
  from step_index_cases [OF i] hl ki show ?thesis
    by (elim disjE)
      (simp_all add: tutorial_inv_def tut_submitAction_def currentStep_def STEPS_nth [simplified]
        tutorial_player_ki_def tutorial_ai_ki_def Let_def)
qed

lemma tutorial_inv_step:
  assumes "tutorial_inv s" "tutorial_enabled s e"
  shows "tutorial_inv (tutorial_do s e)"
proof (cases e)
  case (TuSubmit a)
  with assms show ?thesis by (simp add: tutorial_inv_submit del: tutorial_enabled.simps)
next
  case TuExplained
  with assms have "tu_stepIndex s < 3" "tu_phase s = TExplanation" by (auto simp: tutorial_inv_def)
  with assms TuExplained step_index_cases [of "tu_stepIndex s"] show ?thesis
    by (auto simp: tutorial_inv_def continueFromExplanation_def Let_def numeral_2_eq_2)
qed (use assms in \<open>auto simp: tutorial_inv_def startTutorial_def tut_continueFromReveal_def tut_restart_def\<close>)

lemma tutorial_inv_init: "tutorial_inv tutorial_init"
  by (simp add: tutorial_inv_def tutorial_init_def)

interpretation tm: guarded_machine tutorial_init tutorial_enabled tutorial_do tutorial_inv
  by unfold_locales (rule tutorial_inv_init, rule tutorial_inv_step)

subsection \<open>Properties\<close>

definition lesson_outcome :: "nat \<Rightarrow> turn_outcome" where
  "lesson_outcome i = [Neutral, P1WinsRound, Blocked] ! i"

lemma tutorial_ki_engine:
  "validate_action a ki \<Longrightarrow> ki < KI_CAP \<Longrightarrow> tutorial_player_ki a ki = calculate_ki_after a b ki outc"
  by (cases a) (simp_all add: tutorial_player_ki_def calculate_ki_after_def Let_def KI_CAP_def)

text \<open>Claim C16: The tutorial teaches the real rules.  Whenever a reachable tutorial asks for an action,
  the lesson's card is the only one that can be tapped, the engine accepts both it and the scripted
  action of the AI at the shown ki, the outcome the lesson explains (nothing, a won round, a block) is
  the engine's, and after the tap the two ki values shown are the ones the engine computes.\<close>

theorem tutorial_agrees_with_engine:
  assumes "legal tutorial_enabled tutorial_do tutorial_init es"
    and s: "s = run tutorial_do tutorial_init es" and "tu_phase s = TPlaying"
  shows "\<exists>st. currentStep s = Some st \<and>
    (\<forall>a. tutorial_enabled s (TuSubmit a) = (a = ts_expectedAction st)) \<and>
    validate_action (ts_expectedAction st) (tu_playerKi s) \<and> validate_action (ts_aiAction st) (tu_aiKi s) \<and>
    resolve_actions (ts_expectedAction st) (ts_aiAction st) = lesson_outcome (tu_stepIndex s) \<and>
    tu_playerKi (tutorial_do s (TuSubmit (ts_expectedAction st))) =
      calculate_ki_after (ts_expectedAction st) (ts_aiAction st) (tu_playerKi s) (lesson_outcome (tu_stepIndex s)) \<and>
    tu_aiKi (tutorial_do s (TuSubmit (ts_expectedAction st))) =
      calculate_ki_after (ts_aiAction st) (ts_expectedAction st) (tu_aiKi s) (lesson_outcome (tu_stepIndex s))"
proof -
  have inv: "tutorial_inv s" unfolding s by (rule tm.inv_run) (fact assms(1))
  then have i: "tu_stepIndex s < 3" and ki: "(tu_playerKi s, tu_aiKi s) = lesson_ki (tu_stepIndex s)"
    using assms(3) by (auto simp: tutorial_inv_def)
  show ?thesis
    using step_index_cases [OF i] ki assms(3)
    by (elim disjE)
      (auto simp: currentStep_def STEPS_nth [simplified] tutorial_card_disabled_def card_disabled_def
        canAfford_validate validate_action_def lesson_outcome_def tut_submitAction_def tutorial_player_ki_def
        tutorial_ai_ki_def calculate_ki_after_def KI_CAP_def Let_def)
qed

theorem tutorial_agrees_with_engine_witness:
  "\<exists>st. currentStep (run tutorial_do tutorial_init [TuStart]) = Some st \<and>
     resolve_actions (ts_expectedAction st) (ts_aiAction st) = Neutral"
proof -
  have l: "legal tutorial_enabled tutorial_do tutorial_init [TuStart]"
    by (simp add: tutorial_init_def)
  have p: "tu_phase (run tutorial_do tutorial_init [TuStart]) = TPlaying"
    "tu_stepIndex (run tutorial_do tutorial_init [TuStart]) = 0"
    by (simp_all add: startTutorial_def)
  show ?thesis using tutorial_agrees_with_engine [OF l refl p(1)] p(2) by (auto simp: lesson_outcome_def)
qed

text \<open>The taps left until the tutorial is complete.\<close>

fun taps_left :: "tutorial \<Rightarrow> nat" where
  "taps_left s = (case tu_phase s of TIntro \<Rightarrow> 10 | TPlaying \<Rightarrow> 9 - 3 * tu_stepIndex s
     | TRevealing \<Rightarrow> 8 - 3 * tu_stepIndex s | TExplanation \<Rightarrow> 7 - 3 * tu_stepIndex s | TComplete \<Rightarrow> 0)"

declare taps_left.simps [simp del]

lemma taps_left_step:
  assumes "tutorial_inv s" "tutorial_enabled s e" "e \<noteq> TuRestart"
  shows "taps_left s = Suc (taps_left (tutorial_do s e))"
proof -
  have "tu_stepIndex s < 3" using assms(1) by (simp add: tutorial_inv_def)
  from step_index_cases [OF this] show ?thesis
    using assms
    by (cases e) (auto simp: taps_left.simps tutorial_inv_def startTutorial_def tut_submitAction_def
      currentStep_def tut_continueFromReveal_def continueFromExplanation_def Let_def)
qed

lemma taps_left_run:
  "tutorial_inv s \<Longrightarrow> legal tutorial_enabled tutorial_do s es \<Longrightarrow> TuRestart \<notin> set es \<Longrightarrow>
   taps_left s = length es + taps_left (run tutorial_do s es)"
proof (induction es arbitrary: s)
  case Nil
  then show ?case by simp
next
  case (Cons e es)
  then show ?case
    using taps_left_step [of s e] Cons.IH [OF tutorial_inv_step [of s e]] by auto
qed

lemma tutorial_can_continue:
  assumes "tutorial_inv s"
  shows "\<exists>e. tutorial_enabled s e"
proof (cases "tu_phase s")
  case TPlaying
  with assms have i: "tu_stepIndex s < 3" "(tu_playerKi s, tu_aiKi s) = lesson_ki (tu_stepIndex s)"
    by (auto simp: tutorial_inv_def)
  from step_index_cases [OF i(1)] TPlaying i(2)
  have "tutorial_enabled s (TuSubmit (ts_expectedAction (TUTORIAL_STEPS ! tu_stepIndex s)))"
    by (elim disjE)
      (auto simp: currentStep_def STEPS_nth [simplified] tutorial_card_disabled_def card_disabled_def
        canAfford_validate validate_action_def)
  then show ?thesis by blast
next
  case TRevealing
  with assms show ?thesis by (intro exI [of _ TuReveal]) (simp add: tutorial_inv_def currentStep_def)
next
  case TExplanation
  with assms show ?thesis by (intro exI [of _ TuExplained]) (simp add: tutorial_inv_def currentStep_def)
next
  case TIntro
  then show ?thesis by (intro exI [of _ TuStart]) simp
next
  case TComplete
  then show ?thesis by (intro exI [of _ TuRestart]) simp
qed

text \<open>Claim C17: The tutorial always finishes and never gets stuck: some control works in every reachable
  state, and without a restart every way through it takes exactly ten taps to the completion screen.\<close>

theorem tutorial_completes_in_ten_taps:
  assumes "legal tutorial_enabled tutorial_do tutorial_init es" and "TuRestart \<notin> set es"
    and s: "s = run tutorial_do tutorial_init es"
  shows "length es \<le> 10 \<and> (tu_phase s = TComplete \<longleftrightarrow> length es = 10) \<and> (\<exists>e. tutorial_enabled s e)"
proof -
  have inv: "tutorial_inv s" unfolding s by (rule tm.inv_run) (fact assms(1))
  have "10 = length es + taps_left s"
    using taps_left_run [OF tutorial_inv_init assms(1,2)] s
    by (simp add: taps_left.simps tutorial_init_def)
  moreover have "taps_left s = 0 \<longleftrightarrow> tu_phase s = TComplete"
    using inv by (cases "tu_phase s") (auto simp: taps_left.simps tutorial_inv_def)
  ultimately have "length es \<le> 10 \<and> (tu_phase s = TComplete \<longleftrightarrow> length es = 10)" by auto
  then show ?thesis using tutorial_can_continue [OF inv] by simp
qed

theorem tutorial_completes_in_ten_taps_witness:
  "length [TuStart, TuSubmit Charge, TuReveal] \<le> 10 \<and>
   (\<exists>e. tutorial_enabled (run tutorial_do tutorial_init [TuStart, TuSubmit Charge, TuReveal]) e)"
proof -
  have l: "legal tutorial_enabled tutorial_do tutorial_init [TuStart, TuSubmit Charge, TuReveal]"
    by (simp add: tutorial_init_def startTutorial_def currentStep_def STEPS_nth tutorial_card_disabled_def
        card_disabled_def canAfford_def tut_submitAction_def)
  show ?thesis using tutorial_completes_in_ten_taps [OF l _ refl] by simp
qed

end
