(* ===== verification/Room_Screen.thy ===== *)
theory Room_Screen
  imports Api_Session Characters Use_Game
begin

text \<open>
  The online lobby \<open>web/src/components/room/RoomScreen.tsx\<close>.  Each asynchronous call
  is split at its \<open>await\<close>s; a settled call is an event that carries what the call
  was and what it gave.  Calls of \<open>onGameStart\<close> and \<open>onExit\<close> are recorded.
\<close>

subsection \<open>State\<close>

datatype room_entry = EnterCreate | EnterJoin "string option"

datatype room_call =
    CallAuth
  | CallCreate
  | CallJoin string
  | CallPoll string
  | CallStart string
  | CallCharacter string string
  | CallReady string bool
  | CallLeave string

record room_screen =
  rm_mode :: room_entry
  rm_room :: "room_data option"
  rm_error :: "string option"
  rm_copied :: bool
  rm_busy :: bool
  startCalledRef :: bool
  gameHandedOffRef :: bool
  myIdRef :: "string option"
  rm_polling :: "string option"
  rm_calls :: "room_call list"
  rm_handoffs :: "(string \<times> string \<times> string \<times> string) list"
  rm_exits :: "nat list"
  rm_tracked :: "tracked list"

text \<open>Mounting starts the one-time initialisation.\<close>

definition room_init :: "room_entry \<Rightarrow> room_screen" where
  "room_init m = \<lparr>rm_mode = m, rm_room = None, rm_error = None, rm_copied = False, rm_busy = False,
     startCalledRef = False, gameHandedOffRef = False, myIdRef = None, rm_polling = None,
     rm_calls = [CallAuth], rm_handoffs = [], rm_exits = [], rm_tracked = []\<rparr>"

definition room_call :: "room_call \<Rightarrow> room_screen \<Rightarrow> room_screen" where
  "room_call c s = s\<lparr>rm_calls := rm_calls s @ [c]\<rparr>"

definition rtrack :: "string \<Rightarrow> (string \<times> json) list \<Rightarrow> room_screen \<Rightarrow> room_screen" where
  "rtrack ev ps s = s\<lparr>rm_tracked := rm_tracked s @ [(ev, ps)]\<rparr>"

subsection \<open>Derived values\<close>

definition isHost :: "room_screen \<Rightarrow> room_data \<Rightarrow> bool" where
  "isHost s r \<longleftrightarrow> myIdRef s = Some (rp_id (room_host r))"

definition my_slot :: "room_screen \<Rightarrow> room_data \<Rightarrow> room_player_data option" where
  "my_slot s r = (if isHost s r then Some (room_host r) else room_guest r)"

definition opp_slot :: "room_screen \<Rightarrow> room_data \<Rightarrow> room_player_data option" where
  "opp_slot s r = (if isHost s r then room_guest r else Some (room_host r))"

definition slot_character :: "room_player_data option \<Rightarrow> string \<Rightarrow> string" where
  "slot_character p d = nullish (case p of None \<Rightarrow> None | Some x \<Rightarrow> rp_character_id x) d"

definition both_ready :: "room_data \<Rightarrow> bool" where
  "both_ready r \<longleftrightarrow> room_status r = RoomBothPresent \<and> rp_ready (room_host r) \<and>
     (case room_guest r of None \<Rightarrow> False
      | Some g \<Rightarrow> rp_ready g \<and> truthy (rp_character_id (room_host r)) \<and> truthy (rp_character_id g))"

subsection \<open>The effect on the room\<close>

definition room_effect :: "room_screen \<Rightarrow> room_screen" where
  "room_effect s =
     (case rm_room s of
        None \<Rightarrow> s
      | Some r \<Rightarrow>
          if room_status r = RoomInGame \<and> truthy (room_game_id r) then
            (if gameHandedOffRef s then s
             else s\<lparr>gameHandedOffRef := True,
                    rm_handoffs := rm_handoffs s @
                      [(the (room_game_id r), nullish (map_option rp_name (opp_slot s r)) ''Opponent'',
                        slot_character (my_slot s r) ''haneul'', slot_character (opp_slot s r) ''bora'')]\<rparr>)
          else if \<not> startCalledRef s \<and> both_ready r
          then room_call (CallStart (room_code r)) (s\<lparr>startCalledRef := True\<rparr>)
          else s)"

text \<open>A new room: the effect runs, and polling restarts when the code changed.\<close>

definition setRoom :: "room_data \<Rightarrow> room_screen \<Rightarrow> room_screen" where
  "setRoom r s = room_effect (s\<lparr>rm_room := Some r, rm_polling := Some (room_code r)\<rparr>)"

definition setError :: "string \<Rightarrow> js_thrown \<Rightarrow> room_screen \<Rightarrow> room_screen" where
  "setError fallback e s = s\<lparr>rm_error := Some (message_or fallback e)\<rparr>"

subsection \<open>Initialisation\<close>

text \<open>After \<open>await ensureAuth()\<close>; \<open>pid\<close> is what \<open>getPlayerId()\<close> reads then.\<close>

definition init_authed :: "js_thrown + string option \<Rightarrow> room_screen \<Rightarrow> room_screen" where
  "init_authed out s =
     (case out of
        Inl e \<Rightarrow> setError ''failed to enter room'' e s
      | Inr pid \<Rightarrow>
          (let s1 = s\<lparr>myIdRef := pid\<rparr>
           in case rm_mode s of
                EnterCreate \<Rightarrow> room_call CallCreate s1
              | EnterJoin code \<Rightarrow>
                  if \<not> truthy code then s1\<lparr>rm_error := Some ''missing room code''\<rparr>
                  else room_call (CallJoin (the code)) s1))"

definition init_entered :: "string \<Rightarrow> js_thrown + room_data \<Rightarrow> room_screen \<Rightarrow> room_screen" where
  "init_entered ev out s =
     (case out of
        Inl e \<Rightarrow> setError ''failed to enter room'' e s
      | Inr r \<Rightarrow> rtrack ev [(''code'', JStr (room_code r))] (setRoom r s))"

subsection \<open>Polling\<close>

definition contains :: "string \<Rightarrow> string \<Rightarrow> bool" where
  "contains needle s \<longleftrightarrow> (\<exists>i \<in> set [0..<Suc (length s)]. take (length needle) (drop i s) = needle)"

definition host_left :: "js_thrown \<Rightarrow> bool" where
  "host_left e = (case e of Js_Error m \<Rightarrow> contains ''not found'' m | Js_Value v \<Rightarrow> False)"

definition poll_tick :: "room_screen \<Rightarrow> room_screen" where
  "poll_tick s = (case rm_polling s of None \<Rightarrow> s | Some code \<Rightarrow> room_call (CallPoll code) s)"

definition poll_settled :: "string \<Rightarrow> js_thrown + room_data \<Rightarrow> room_screen \<Rightarrow> room_screen" where
  "poll_settled code out s =
     (case out of
        Inr r \<Rightarrow> if rm_polling s \<noteq> Some code then s else setRoom r s
      | Inl e \<Rightarrow>
          if host_left e
          then s\<lparr>rm_error := Some ''the host left the room'', rm_exits := rm_exits s @ [1500]\<rparr>
          else s)"

definition start_settled :: "js_thrown + unit \<Rightarrow> room_screen \<Rightarrow> room_screen" where
  "start_settled out s = (case out of Inr _ \<Rightarrow> s
     | Inl e \<Rightarrow> setError ''failed to start game'' e (s\<lparr>startCalledRef := False\<rparr>))"

subsection \<open>Handlers\<close>

definition handlePickCharacter :: "string \<Rightarrow> room_screen \<Rightarrow> room_screen" where
  "handlePickCharacter characterId s =
     (case rm_room s of None \<Rightarrow> s
      | Some r \<Rightarrow> if rm_busy s then s
          else room_call (CallCharacter (room_code r) characterId) (s\<lparr>rm_busy := True\<rparr>))"

definition handleToggleReady :: "bool \<Rightarrow> room_screen \<Rightarrow> room_screen" where
  "handleToggleReady nxt s =
     (case rm_room s of None \<Rightarrow> s
      | Some r \<Rightarrow> if rm_busy s then s
          else room_call (CallReady (room_code r) nxt) (s\<lparr>rm_busy := True\<rparr>))"

definition update_settled :: "string \<Rightarrow> js_thrown + room_data \<Rightarrow> room_screen \<Rightarrow> room_screen" where
  "update_settled fallback out s =
     (case out of Inr r \<Rightarrow> (setRoom r s)\<lparr>rm_busy := False\<rparr>
      | Inl e \<Rightarrow> (setError fallback e s)\<lparr>rm_busy := False\<rparr>)"

definition handleLeave :: "room_screen \<Rightarrow> room_screen" where
  "handleLeave s = (case rm_room s of None \<Rightarrow> s\<lparr>rm_exits := rm_exits s @ [0]\<rparr>
     | Some r \<Rightarrow> room_call (CallLeave (room_code r)) s)"

definition leave_settled :: "room_screen \<Rightarrow> room_screen" where
  "leave_settled s = s\<lparr>rm_exits := rm_exits s @ [0]\<rparr>"

definition backClicked :: "room_screen \<Rightarrow> room_screen" where
  "backClicked s = s\<lparr>rm_exits := rm_exits s @ [0]\<rparr>"

definition room_link :: "string \<Rightarrow> room_data \<Rightarrow> string" where
  "room_link origin r = origin @ ''/pvp?room='' @ room_code r"

definition handleCopy_done :: "room_screen \<Rightarrow> room_screen" where
  "handleCopy_done s = (case rm_room s of None \<Rightarrow> s
     | Some r \<Rightarrow> rtrack ''invite_copied'' [(''surface'', JStr ''room''), (''room_code'', JStr (room_code r)),
         (''method'', JStr ''clipboard'')] (s\<lparr>rm_copied := True\<rparr>))"

definition copied_reset :: "room_screen \<Rightarrow> room_screen" where
  "copied_reset s = s\<lparr>rm_copied := False\<rparr>"

subsection \<open>Events\<close>

datatype room_outcome = OutAuth "js_thrown + string option" | OutRoom "js_thrown + room_data" | OutUnit "js_thrown + unit"

datatype room_event =
    CallSettled nat room_outcome
  | PollTick
  | Rerendered
  | PickCharacter string
  | ToggleReady bool
  | LeaveClicked
  | BackClicked
  | LinkCopied
  | CopyTimeout

fun call_settled :: "room_call \<Rightarrow> room_outcome \<Rightarrow> room_screen \<Rightarrow> room_screen" where
  "call_settled CallAuth (OutAuth out) s = init_authed out s"
| "call_settled CallCreate (OutRoom out) s = init_entered ''pvp_room_created'' out s"
| "call_settled (CallJoin c) (OutRoom out) s = init_entered ''pvp_room_joined'' out s"
| "call_settled (CallPoll c) (OutRoom out) s = poll_settled c out s"
| "call_settled (CallStart c) (OutUnit out) s = start_settled out s"
| "call_settled (CallCharacter c x) (OutRoom out) s = update_settled ''failed to set character'' out s"
| "call_settled (CallReady c b) (OutRoom out) s = update_settled ''failed to set ready'' out s"
| "call_settled (CallLeave c) (OutUnit out) s = leave_settled s"
| "call_settled c out s = s"

definition drop_nth :: "nat \<Rightarrow> 'a list \<Rightarrow> 'a list" where
  "drop_nth k xs = take k xs @ drop (Suc k) xs"

fun room_step :: "room_screen \<Rightarrow> room_event \<Rightarrow> room_screen" where
  "room_step s (CallSettled k out) =
     (if k < length (rm_calls s)
      then call_settled (rm_calls s ! k) out (s\<lparr>rm_calls := drop_nth k (rm_calls s)\<rparr>) else s)"
| "room_step s PollTick = poll_tick s"
| "room_step s Rerendered = room_effect s"
| "room_step s (PickCharacter c) = handlePickCharacter c s"
| "room_step s (ToggleReady b) = handleToggleReady b s"
| "room_step s LeaveClicked = handleLeave s"
| "room_step s BackClicked = backClicked s"
| "room_step s LinkCopied = handleCopy_done s"
| "room_step s CopyTimeout = copied_reset s"

subsection \<open>View\<close>

datatype room_view =
    RoomError string
  | RoomEntering string
  | RoomLobby string "(string \<times> bool) \<times> (string \<times> bool)" "string list" "string list option" "(bool \<times> bool) option"

definition guest_label :: "room_screen \<Rightarrow> room_data \<Rightarrow> string" where
  "guest_label s r = (if room_guest r \<noteq> None then if \<not> isHost s r then ''You'' else ''Opponent''
     else ''Waiting for opponent...'')"

definition status_lines :: "room_data \<Rightarrow> string list" where
  "status_lines r =
     (if room_guest r = None then [''Send the room link or share code '' @ room_code r @ '' with a friend.''] else []) @
     (if room_guest r \<noteq> None \<and> room_status r = RoomBothPresent
      then [if rp_ready (room_host r) \<and> (case room_guest r of None \<Rightarrow> False | Some g \<Rightarrow> rp_ready g)
            then ''Both ready '' @ utf8 [226, 128, 148] @ '' starting match...''
            else ''Pick a fighter and ready up when you'' @ [char_of (39 :: nat)] @ ''re set.''] else []) @
     (if room_status r = RoomInGame then [''Match starting...''] else [])"

definition RoomScreen :: "room_screen \<Rightarrow> room_view" where
  "RoomScreen s =
     (if truthy (rm_error s) then RoomError (the (rm_error s))
      else case rm_room s of
        None \<Rightarrow> RoomEntering (if rm_mode s = EnterCreate then ''Creating room...'' else ''Joining room...'')
      | Some r \<Rightarrow>
          (let me = my_slot s r; myCharId = (case me of None \<Rightarrow> None | Some p \<Rightarrow> rp_character_id p);
               myReady = (case me of None \<Rightarrow> False | Some p \<Rightarrow> rp_ready p)
           in RoomLobby (room_code r)
                ((if isHost s r then ''You (Host)'' else ''Host'', isHost s r),
                 (guest_label s r, \<not> isHost s r \<and> room_guest r \<noteq> None))
                (status_lines r)
                (if \<not> truthy myCharId then Some (map ch_id CHARACTERS) else None)
                (if truthy myCharId then Some (myReady, rm_busy s) else None)))"

subsection \<open>Invariant\<close>

fun is_start :: "room_call \<Rightarrow> bool" where
  "is_start (CallStart c) = True"
| "is_start _ = False"

definition starts :: "room_screen \<Rightarrow> nat" where
  "starts s = length (filter is_start (rm_calls s))"

definition live_game :: "room_screen \<Rightarrow> bool" where
  "live_game s \<longleftrightarrow> (\<exists>r. rm_room s = Some r \<and> room_status r = RoomInGame \<and> truthy (room_game_id r))"

definition room_inv :: "room_screen \<Rightarrow> bool" where
  "room_inv s \<longleftrightarrow> length (rm_handoffs s) = of_bool (gameHandedOffRef s) \<and>
     starts s \<le> of_bool (startCalledRef s) \<and> (live_game s \<longrightarrow> gameHandedOffRef s)"

text \<open>What the invariant reads; a step that keeps these fields keeps it.\<close>

definition room_core :: "room_screen \<Rightarrow> nat \<times> bool \<times> nat \<times> bool \<times> bool" where
  "room_core s = (length (rm_handoffs s), gameHandedOffRef s, starts s, startCalledRef s, live_game s)"

lemma room_inv_core: "room_inv t \<Longrightarrow> room_core s = room_core t \<Longrightarrow> room_inv s"
  by (simp add: room_inv_def room_core_def)

lemma starts_call [simp]: "starts (room_call c s) = starts s + of_bool (is_start c)"
  by (simp add: starts_def room_call_def)

lemma live_call [simp]: "live_game (room_call c s) = live_game s"
  by (simp add: live_game_def room_call_def)

lemma room_call_fields [simp]:
  "rm_handoffs (room_call c s) = rm_handoffs s" "gameHandedOffRef (room_call c s) = gameHandedOffRef s"
  "startCalledRef (room_call c s) = startCalledRef s" "rm_room (room_call c s) = rm_room s"
  by (simp_all add: room_call_def)

lemma starts_upd [simp]:
  "starts (s\<lparr>rm_room := a\<rparr>) = starts s" "starts (s\<lparr>rm_polling := b\<rparr>) = starts s"
  "starts (s\<lparr>startCalledRef := c\<rparr>) = starts s" "starts (s\<lparr>gameHandedOffRef := d\<rparr>) = starts s"
  "starts (s\<lparr>rm_handoffs := e\<rparr>) = starts s" "starts (s\<lparr>rm_busy := f\<rparr>) = starts s"
  "starts (s\<lparr>rm_error := g\<rparr>) = starts s" "starts (s\<lparr>rm_exits := h\<rparr>) = starts s"
  "starts (s\<lparr>rm_tracked := k\<rparr>) = starts s" "starts (s\<lparr>rm_copied := f\<rparr>) = starts s"
  "starts (s\<lparr>myIdRef := l\<rparr>) = starts s"
  by (simp_all add: starts_def)

lemma live_upd [simp]:
  "live_game (s\<lparr>rm_polling := b\<rparr>) = live_game s"
  "live_game (s\<lparr>startCalledRef := c\<rparr>) = live_game s" "live_game (s\<lparr>gameHandedOffRef := d\<rparr>) = live_game s"
  "live_game (s\<lparr>rm_handoffs := e\<rparr>) = live_game s" "live_game (s\<lparr>rm_busy := f\<rparr>) = live_game s"
  "live_game (s\<lparr>rm_error := g\<rparr>) = live_game s" "live_game (s\<lparr>rm_exits := h\<rparr>) = live_game s"
  "live_game (s\<lparr>rm_tracked := k\<rparr>) = live_game s" "live_game (s\<lparr>rm_copied := f\<rparr>) = live_game s"
  "live_game (s\<lparr>myIdRef := l\<rparr>) = live_game s" "live_game (s\<lparr>rm_calls := m\<rparr>) = live_game s"
  by (simp_all add: live_game_def)

text \<open>The effect establishes the invariant from its first two parts.\<close>

definition room_inv_weak :: "room_screen \<Rightarrow> bool" where
  "room_inv_weak s \<longleftrightarrow> length (rm_handoffs s) = of_bool (gameHandedOffRef s) \<and>
     starts s \<le> of_bool (startCalledRef s)"

lemma room_effect_inv: "room_inv_weak s \<Longrightarrow> room_inv (room_effect s)"
  by (cases "rm_room s")
    (auto simp: room_effect_def room_inv_weak_def room_inv_def live_game_def)

lemma room_inv_weakD: "room_inv s \<Longrightarrow> room_inv_weak s"
  by (simp add: room_inv_def room_inv_weak_def)

lemma setRoom_inv: "room_inv_weak s \<Longrightarrow> room_inv (setRoom r s)"
  unfolding setRoom_def by (rule room_effect_inv) (simp add: room_inv_weak_def)

lemma room_inv_sub:
  "room_inv s \<Longrightarrow> rm_handoffs t = rm_handoffs s \<Longrightarrow> gameHandedOffRef t = gameHandedOffRef s \<Longrightarrow>
   starts t = starts s \<Longrightarrow> startCalledRef t = startCalledRef s \<Longrightarrow> live_game t = live_game s \<Longrightarrow> room_inv t"
  by (simp add: room_inv_def)

lemma room_inv_fields [simp]:
  "room_inv (s\<lparr>rm_busy := f\<rparr>) = room_inv s" "room_inv (s\<lparr>rm_error := g\<rparr>) = room_inv s"
  "room_inv (s\<lparr>rm_exits := h\<rparr>) = room_inv s" "room_inv (s\<lparr>rm_tracked := k\<rparr>) = room_inv s"
  "room_inv (s\<lparr>rm_copied := f\<rparr>) = room_inv s" "room_inv (s\<lparr>myIdRef := l\<rparr>) = room_inv s"
  by (simp_all add: room_inv_def)

lemma room_inv_call: "\<not> is_start c \<Longrightarrow> room_inv (room_call c s) = room_inv s"
  by (simp add: room_inv_def)

lemmas room_handler_defs = init_authed_def init_entered_def poll_settled_def update_settled_def
  leave_settled_def setError_def rtrack_def Let_def

lemma call_settled_inv:
  assumes "room_inv s" "\<not> is_start c"
  shows "room_inv (call_settled c out s)"
  using assms room_inv_weakD [OF assms(1)]
  by (cases c; cases out)
    (auto simp: room_handler_defs room_inv_call setRoom_inv split: sum.split room_entry.split)

lemma start_settled_inv:
  "room_inv s \<Longrightarrow> starts s = 0 \<Longrightarrow> room_inv (call_settled (CallStart c) out s)"
  by (cases out) (auto simp: start_settled_def setError_def room_inv_def split: sum.split)

lemma filter_drop_nth:
  "k < length xs \<Longrightarrow> length (filter P (drop_nth k xs)) + of_bool (P (xs ! k)) = length (filter P xs)"
proof -
  assume k: "k < length xs"
  have "length (filter P xs) = length (filter P (take k xs @ xs ! k # drop (Suc k) xs))"
    using k by (simp add: id_take_nth_drop [symmetric])
  then show ?thesis by (simp add: drop_nth_def)
qed

lemma room_inv_step: 
  assumes inv: "room_inv s"
  shows "room_inv (room_step s e)"
proof (cases e)
  case (CallSettled k out)
  show ?thesis
  proof (cases "k < length (rm_calls s)")
    case True
    let ?s = "s\<lparr>rm_calls := drop_nth k (rm_calls s)\<rparr>"
    have cnt: "starts ?s + of_bool (is_start (rm_calls s ! k)) = starts s"
      using filter_drop_nth [OF True, of is_start] by (simp add: starts_def)
    have inv': "room_inv ?s" using inv cnt by (simp add: room_inv_def)
    show ?thesis
    proof (cases "is_start (rm_calls s ! k)")
      case False
      with True CallSettled call_settled_inv [OF inv'] show ?thesis by simp
    next
      case start: True
      then obtain c where c: "rm_calls s ! k = CallStart c" by (cases "rm_calls s ! k") auto
      have "starts s \<le> 1" using inv by (simp add: room_inv_def of_bool_def split: if_splits)
      with cnt start have "starts ?s = 0" by simp
      with True CallSettled c start_settled_inv [OF inv'] show ?thesis by simp
    qed
  next
    case False
    with CallSettled inv show ?thesis by simp
  qed
next
  case Rerendered
  with inv show ?thesis by (simp add: room_effect_inv room_inv_weakD)
qed (use inv in \<open>auto simp: poll_tick_def handlePickCharacter_def handleToggleReady_def handleLeave_def
      backClicked_def handleCopy_done_def copied_reset_def rtrack_def room_inv_call split: option.split\<close>)

lemma room_inv_init: "room_inv (room_init m)"
  by (simp add: room_inv_def room_init_def starts_def live_game_def)

interpretation rs: machine "room_init m" room_step room_inv
  for m by unfold_locales (rule room_inv_init, rule room_inv_step)

text \<open>Claim C13: The hand-off to the game happens exactly once.  However polls, answers, re-renders and
  clicks interleave, the screen hands the game over at most once, it has handed it over whenever the
  room it holds is in game (whether or not it called start itself), and at most one start request is
  in flight.\<close>

theorem handoff_exactly_once:
  "let s = run room_step (room_init m) es in
     length (rm_handoffs s) \<le> 1 \<and>
     (live_game s \<longrightarrow> length (rm_handoffs s) = 1) \<and>
     starts s \<le> 1 \<and> (\<not> startCalledRef s \<longrightarrow> starts s = 0)"
  using rs.always [of m es] by (auto simp: room_inv_def Let_def of_bool_def split: if_splits)

theorem handoff_exactly_once_witness:
  "starts (run room_step (room_init EnterCreate) [CallSettled 0 (OutAuth (Inr None))]) \<le> 1"
  using handoff_exactly_once [of EnterCreate "[CallSettled 0 (OutAuth (Inr None))]"]
  by (simp only: Let_def)

text \<open>The hand-off names the right players.  When the room goes in game, the opponent's name
  and both fighters passed to the game are those of the other and of the player's own slot, for the
  host as for the guest; and when both players are ready and no start was requested, the screen
  requests it.\<close>

theorem handoff_names_players:
  assumes "room_status r = RoomInGame" "room_game_id r = Some g" "g \<noteq> []"
    and "room_guest r = Some x" "rp_character_id (room_host r) = Some ch" "rp_character_id x = Some cg"
    and "\<not> gameHandedOffRef s" "rp_id x \<noteq> rp_id (room_host r)"
  shows "(myIdRef s = Some (rp_id (room_host r)) \<longrightarrow>
       rm_handoffs (setRoom r s) = rm_handoffs s @ [(g, rp_name x, ch, cg)]) \<and>
    (myIdRef s = Some (rp_id x) \<longrightarrow>
       rm_handoffs (setRoom r s) = rm_handoffs s @ [(g, rp_name (room_host r), cg, ch)]) \<and>
    (both_ready r' \<and> \<not> startCalledRef s \<and> \<not> live_game (s\<lparr>rm_room := Some r'\<rparr>) \<longrightarrow>
       CallStart (room_code r') \<in> set (rm_calls (setRoom r' s)))"
  using assms
  by (auto simp: setRoom_def room_effect_def isHost_def my_slot_def opp_slot_def slot_character_def
      live_game_def room_call_def)

definition sample_room :: room_data where
  "sample_room = \<lparr>room_code = ''ABCD'',
     room_host = \<lparr>rp_id = ''h'', rp_name = ''Hana'', rp_character_id = Some ''bora'', rp_ready = True\<rparr>,
     room_guest = Some \<lparr>rp_id = ''g'', rp_name = ''Gil'', rp_character_id = Some ''yuri'', rp_ready = True\<rparr>,
     room_status = RoomInGame, room_game_id = Some ''42'', room_created_at = 0, room_updated_at = 0\<rparr>"

theorem handoff_names_players_witness:
  "rm_handoffs (setRoom sample_room ((room_init (EnterJoin (Some ''ABCD'')))\<lparr>myIdRef := Some ''g''\<rparr>)) =
     [(''42'', ''Hana'', ''yuri'', ''bora'')]"
proof -
  let ?g = "\<lparr>rp_id = ''g'', rp_name = ''Gil'', rp_character_id = Some ''yuri'', rp_ready = True\<rparr>"
  let ?s = "(room_init (EnterJoin (Some ''ABCD'')))\<lparr>myIdRef := Some ''g''\<rparr>"
  have "room_status sample_room = RoomInGame" "room_game_id sample_room = Some ''42''"
    "room_guest sample_room = Some ?g" "rp_character_id (room_host sample_room) = Some ''bora''"
    "rp_name (room_host sample_room) = ''Hana''" "rp_id (room_host sample_room) = ''h''"
    by (simp_all add: sample_room_def)
  with handoff_names_players [of sample_room "''42''" ?g "''bora''" "''yuri''" ?s]
  show ?thesis by (simp add: room_init_def)
qed

subsection \<open>Server refusals the screen misreads\<close>

text \<open>
  The room endpoints refuse with FastAPI's own error body, whose text is under
  \<open>detail\<close> (\<open>app/api/v1/endpoints/rooms.py\<close>), and the client reads \<open>error.message\<close>.
\<close>

definition fastapi_error :: "json \<Rightarrow> json" where
  "fastapi_error d = JObj [(''detail'', d)]"

lemma fastapi_error_message: "api_error st (Inr (fastapi_error d)) = Js_Error (''API error: '' @ show_int st)"
  by (simp add: api_error_def fastapi_error_def jopt_def Let_def)

lemma shown_statuses: "show_int 404 = ''404''" "show_int 422 = ''422''"
  by code_simp+

lemma not_found_texts: "\<not> contains ''not found'' ''API error: 404''" "contains ''not found'' ''room not found''"
  by code_simp+

text \<open>A guest whose host has left is never told.  The server answers a poll of a destroyed
  room with 404 and \<open>{"detail": "room not found"}\<close>; the client turns that into "API error: 404", which
  does not contain "not found", so the poll's answer changes nothing: no message, no exit, and
  polling goes on.\<close>

theorem host_departure_unnoticed:
  "poll_settled code (Inl (api_error 404 (Inr (fastapi_error (JStr ''room not found''))))) s = s \<and>
   (\<exists>s'. poll_settled code (Inl (Js_Error ''room not found'')) s = s' \<and>
      rm_error s' = Some ''the host left the room'' \<and> rm_exits s' = rm_exits s @ [1500])"
  by (simp add: poll_settled_def fastapi_error_message host_left_def shown_statuses not_found_texts)

text \<open>"Change fighter" ends the lobby.  The button asks the server to set the empty fighter,
  which the server's schema refuses with 422; the answer replaces the whole screen by the error
  "API error: 422", the fighter stays as it was, and the only control left exits without leaving the
  room on the server.\<close>

theorem change_fighter_fails:
  assumes "rm_room s = Some r" "\<not> rm_busy s"
    and s': "s' = call_settled (CallCharacter (room_code r) [])
       (OutRoom (Inl (api_error 422 (Inr (fastapi_error d))))) (handlePickCharacter [] s)"
  shows "CallCharacter (room_code r) [] \<in> set (rm_calls (handlePickCharacter [] s)) \<and>
    RoomScreen s' = RoomError ''API error: 422'' \<and> rm_room s' = Some r \<and>
    rm_calls (backClicked s') = rm_calls s'"
  using assms(1,2)
  by (simp add: s' handlePickCharacter_def room_call_def update_settled_def setError_def
      fastapi_error_message RoomScreen_def backClicked_def shown_statuses)

theorem change_fighter_fails_witness:
  "RoomScreen (call_settled (CallCharacter ''ABCD'' [])
       (OutRoom (Inl (api_error 422 (Inr (fastapi_error (JStr ''short''))))))
       (handlePickCharacter [] ((room_init EnterCreate)\<lparr>rm_room := Some sample_room\<rparr>))) = RoomError ''API error: 422''"
proof -
  let ?s = "(room_init EnterCreate)\<lparr>rm_room := Some sample_room\<rparr>"
  have "rm_room ?s = Some sample_room" "\<not> rm_busy ?s" "room_code sample_room = ''ABCD''"
    by (simp_all add: room_init_def sample_room_def)
  with change_fighter_fails [of ?s sample_room _ "JStr ''short''"] show ?thesis by simp
qed

end
