(* ===== verification/Url_Params.thy ===== *)
theory Url_Params
  imports Prelude
begin

text \<open>
  \<open>URLSearchParams\<close>: an ordered list of name-value pairs, written and read in the
  \<open>application/x-www-form-urlencoded\<close> format.  A character stands for one byte of
  the UTF-8 text, so percent-encoding is per character.
\<close>

type_synonym params = "(string \<times> string) list"

definition params_get :: "params \<Rightarrow> string \<Rightarrow> string option" where
  "params_get ps k = map_of ps k"

definition params_has :: "params \<Rightarrow> string \<Rightarrow> bool" where
  "params_has ps k \<longleftrightarrow> k \<in> set (map fst ps)"

fun params_set :: "string \<Rightarrow> string \<Rightarrow> params \<Rightarrow> params" where
  "params_set k v [] = [(k, v)]"
| "params_set k v ((k', v') # ps) =
     (if k' = k then (k, v) # filter (\<lambda>p. fst p \<noteq> k) ps else (k', v') # params_set k v ps)"

subsection \<open>Percent-encoding\<close>

definition hex_digit :: "nat \<Rightarrow> char" where
  "hex_digit d = (if d < 10 then char_of (48 + d) else char_of (55 + d))"

definition digit_val :: "char \<Rightarrow> nat option" where
  "digit_val c = (let n = (of_char c :: nat) in
     if 48 \<le> n \<and> n \<le> 57 then Some (n - 48)
     else if 65 \<le> n \<and> n \<le> 70 then Some (n - 55)
     else if 97 \<le> n \<and> n \<le> 102 then Some (n - 87)
     else None)"

definition form_safe :: "char \<Rightarrow> bool" where
  "form_safe c = (let n = (of_char c :: nat) in
     (48 \<le> n \<and> n \<le> 57) \<or> (65 \<le> n \<and> n \<le> 90) \<or> (97 \<le> n \<and> n \<le> 122) \<or>
     n = 42 \<or> n = 45 \<or> n = 46 \<or> n = 95)"

definition encode_char :: "char \<Rightarrow> string" where
  "encode_char c =
     (if form_safe c then [c]
      else if c = CHR '' '' then ''+''
      else [CHR ''%'', hex_digit (of_char c div 16), hex_digit (of_char c mod 16)])"

definition form_encode :: "string \<Rightarrow> string" where
  "form_encode s = concat (map encode_char s)"

fun form_decode :: "string \<Rightarrow> string" where
  "form_decode [] = []"
| "form_decode (c # cs) =
     (if c = CHR ''+'' then CHR '' '' # form_decode cs
      else if c = CHR ''%'' then
        (case cs of
           a # b # rest \<Rightarrow>
             (case (digit_val a, digit_val b) of
                (Some x, Some y) \<Rightarrow> char_of (16 * x + y) # form_decode rest
              | _ \<Rightarrow> c # form_decode cs)
         | _ \<Rightarrow> c # form_decode cs)
      else c # form_decode cs)"

lemma digit_val_hex: "d < 16 \<Longrightarrow> digit_val (hex_digit d) = Some d"
  by (simp add: digit_val_def hex_digit_def Let_def)

lemma form_safe_not_special: "form_safe c \<Longrightarrow> c \<notin> {CHR ''+'', CHR ''%'', CHR ''&'', CHR ''='', CHR '' ''}"
  by (auto simp: form_safe_def)

lemma hex_digit_safe: "d < 16 \<Longrightarrow> hex_digit d \<notin> {CHR ''&'', CHR ''='', CHR ''+'', CHR ''%''}"
proof -
  assume "d < 16"
  then have "digit_val (hex_digit d) \<noteq> None" using digit_val_hex by simp
  then show ?thesis by (auto simp: digit_val_def Let_def)
qed

lemma of_char_bound: "(of_char (c :: char) :: nat) < 256"
  by simp

lemma nibbles: "(of_char (c :: char) :: nat) div 16 < 16" "(of_char (c :: char) :: nat) mod 16 < 16"
  by (rule less_mult_imp_div_less) simp_all

lemma char_of_split: "char_of (16 * ((of_char c :: nat) div 16) + (of_char c :: nat) mod 16) = c"
  by (simp add: mult_div_mod_eq)

lemma decode_encode_char: "form_decode (encode_char c @ rest) = c # form_decode rest"
proof (cases "form_safe c")
  case True
  then show ?thesis using form_safe_not_special [of c] by (simp add: encode_char_def)
next
  case False
  with nibbles [of c] show ?thesis
    by (auto simp: encode_char_def digit_val_hex char_of_split simp del: char_of_nat)
qed

lemma decode_encode [simp]: "form_decode (form_encode s) = s"
proof (induction s)
  case Nil
  then show ?case by (simp add: form_encode_def)
next
  case (Cons c cs)
  then show ?case using decode_encode_char [of c "form_encode cs"] by (simp add: form_encode_def)
qed

lemma encode_char_clean: "x \<in> set (encode_char c) \<Longrightarrow> x \<noteq> CHR ''&'' \<and> x \<noteq> CHR ''=''"
proof -
  assume x: "x \<in> set (encode_char c)"
  note h = nibbles [of c]
  show ?thesis
    using x form_safe_not_special [of c] hex_digit_safe [OF h(1)] hex_digit_safe [OF h(2)]
    by (auto simp: encode_char_def split: if_splits)
qed

lemma encode_clean: "CHR ''&'' \<notin> set (form_encode s)" "CHR ''='' \<notin> set (form_encode s)"
  using encode_char_clean by (auto simp: form_encode_def)

subsection \<open>Writing and reading a query\<close>

fun join_amp :: "string list \<Rightarrow> string" where
  "join_amp [] = []"
| "join_amp [x] = x"
| "join_amp (x # y # zs) = x @ CHR ''&'' # join_amp (y # zs)"

fun split_amp :: "string \<Rightarrow> string list" where
  "split_amp [] = [[]]"
| "split_amp (c # cs) =
     (if c = CHR ''&'' then [] # split_amp cs
      else (case split_amp cs of [] \<Rightarrow> [[c]] | x # xs \<Rightarrow> (c # x) # xs))"

definition params_to_string :: "params \<Rightarrow> string" where
  "params_to_string ps = join_amp (map (\<lambda>(k, v). form_encode k @ CHR ''='' # form_encode v) ps)"

definition parse_pair :: "string \<Rightarrow> string \<times> string" where
  "parse_pair s =
     (form_decode (takeWhile (\<lambda>c. c \<noteq> CHR ''='') s), form_decode (drop 1 (dropWhile (\<lambda>c. c \<noteq> CHR ''='') s)))"

definition parse_params :: "string \<Rightarrow> params" where
  "parse_params s = map parse_pair (filter (\<lambda>x. x \<noteq> []) (split_amp s))"

lemma split_amp_nonempty: "split_amp s \<noteq> []"
  by (induction s) (auto split: list.split)

lemma split_amp_append:
  "CHR ''&'' \<notin> set x \<Longrightarrow> split_amp (x @ CHR ''&'' # rest) = x # split_amp rest"
  by (induction x) auto

lemma split_amp_single: "CHR ''&'' \<notin> set x \<Longrightarrow> split_amp x = [x]"
  by (induction x) auto

lemma split_join:
  "xs \<noteq> [] \<Longrightarrow> \<forall>x \<in> set xs. CHR ''&'' \<notin> set x \<Longrightarrow> split_amp (join_amp xs) = xs"
  by (induction xs rule: join_amp.induct) (auto simp: split_amp_append split_amp_single)

lemma takeWhile_neq: "c \<notin> set a \<Longrightarrow> takeWhile (\<lambda>x. x \<noteq> c) (a @ c # b) = a"
  by (induction a) auto

lemma dropWhile_neq: "c \<notin> set a \<Longrightarrow> dropWhile (\<lambda>x. x \<noteq> c) (a @ c # b) = c # b"
  by (induction a) auto

lemma parse_pair_encoded: "parse_pair (form_encode k @ CHR ''='' # form_encode v) = (k, v)"
  using encode_clean(2) [of k] by (simp add: parse_pair_def takeWhile_neq dropWhile_neq)

lemma parse_params_to_string [simp]: "parse_params (params_to_string ps) = ps"
proof (cases "ps = []")
  case True
  then show ?thesis by (simp add: parse_params_def params_to_string_def)
next
  case False
  let ?enc = "\<lambda>(k, v). form_encode k @ CHR ''='' # form_encode v"
  have "split_amp (params_to_string ps) = map ?enc ps"
    unfolding params_to_string_def
    using False encode_clean by (intro split_join) auto
  moreover have "filter (\<lambda>x. x \<noteq> []) (map ?enc ps) = map ?enc ps"
    by (auto simp: filter_id_conv)
  ultimately show ?thesis
    by (auto simp: parse_params_def parse_pair_encoded intro: map_idI)
qed

lemma params_set_new: "\<not> params_has ps k \<Longrightarrow> params_set k v ps = ps @ [(k, v)]"
  by (induction ps) (auto simp: params_has_def)

text \<open>\<open>incoming.forEach((v, k) => if (!ps.has(k)) ps.set(k, v))\<close>.\<close>

fun add_missing :: "params \<Rightarrow> params \<Rightarrow> params" where
  "add_missing ps [] = ps"
| "add_missing ps ((k, v) # incoming) =
     add_missing (if \<not> params_has ps k then params_set k v ps else ps) incoming"

lemma get_append: "params_get (ps @ [(k, v)]) k' =
   (case params_get ps k' of Some x \<Rightarrow> Some x | None \<Rightarrow> if k' = k then Some v else None)"
  by (simp add: params_get_def map_add_def split: option.split)

lemma has_get: "params_has ps k \<longleftrightarrow> params_get ps k \<noteq> None"
  by (simp add: params_has_def params_get_def map_of_eq_None_iff)

lemma get_add_missing:
  "params_get (add_missing ps incoming) k =
     (case params_get ps k of Some x \<Rightarrow> Some x | None \<Rightarrow> params_get incoming k)"
proof (induction ps incoming rule: add_missing.induct)
  case (1 ps)
  then show ?case by (simp add: params_get_def split: option.split)
next
  case (2 ps k0 v0 incoming)
  show ?case
  proof (cases "params_has ps k0")
    case True
    with 2 show ?thesis by (auto simp: has_get params_get_def split: option.split)
  next
    case False
    with 2 show ?thesis
      by (auto simp: params_set_new get_append has_get split: option.split)
        (auto simp: params_get_def)
  qed
qed

end
