(* ===== verification/Promo.thy ===== *)
theory Promo
  imports Url_Params Json
begin

text \<open>
  Promotion links: the campaign table (\<open>lib/promo-campaigns.ts\<close>) and the
  redirect page \<open>/go/[slug]\<close> that carries a campaign's attribution to the
  page it promotes.
\<close>

record promo_campaign =
  pc_slug :: string
  pc_label :: string
  pc_targetPath :: string
  pc_source :: string
  pc_medium :: string
  pc_campaign :: string
  pc_content :: string
  pc_angle :: string

definition PROMO_CAMPAIGNS :: "promo_campaign list" where
  "PROMO_CAMPAIGNS = [
     \<lparr>pc_slug = ''tiktok-pvp-01'', pc_label = ''TikTok PvP clip 01'',
      pc_targetPath = ''/pvp'', pc_source = ''tiktok'', pc_medium = ''organic'', pc_campaign = ''launch_week1'',
      pc_content = ''pvp_clip_01'', pc_angle = ''10-second friend duel''\<rparr>,
     \<lparr>pc_slug = ''reels-pvp-01'', pc_label = ''Instagram Reels PvP clip 01'',
      pc_targetPath = ''/pvp'', pc_source = ''instagram'', pc_medium = ''organic'', pc_campaign = ''launch_week1'',
      pc_content = ''pvp_clip_01'', pc_angle = ''send a room link''\<rparr>,
     \<lparr>pc_slug = ''shorts-pvp-01'', pc_label = ''YouTube Shorts PvP clip 01'',
      pc_targetPath = ''/pvp'', pc_source = ''youtube'', pc_medium = ''organic'', pc_campaign = ''launch_week1'',
      pc_content = ''pvp_clip_01'', pc_angle = ''instant browser PvP''\<rparr>,
     \<lparr>pc_slug = ''x-founder-01'', pc_label = ''X founder post'',
      pc_targetPath = ''/'', pc_source = ''x'', pc_medium = ''organic'', pc_campaign = ''launch_week1'',
      pc_content = ''founder_post_01'', pc_angle = ''public build launch''\<rparr>,
     \<lparr>pc_slug = ''threads-founder-01'', pc_label = ''Threads founder post'',
      pc_targetPath = ''/'', pc_source = ''threads'', pc_medium = ''organic'', pc_campaign = ''launch_week1'',
      pc_content = ''founder_post_01'', pc_angle = ''public build launch''\<rparr>,
     \<lparr>pc_slug = ''reddit-playmygame-01'', pc_label = ''Reddit playmygame post'',
      pc_targetPath = ''/pvp'', pc_source = ''reddit'', pc_medium = ''community'', pc_campaign = ''launch_week1'',
      pc_content = ''playmygame_post_01'', pc_angle = ''feedback request''\<rparr>,
     \<lparr>pc_slug = ''discord-indie-01'', pc_label = ''Discord indie channel'',
      pc_targetPath = ''/pvp'', pc_source = ''discord'', pc_medium = ''community'', pc_campaign = ''launch_week1'',
      pc_content = ''indie_channel_01'', pc_angle = ''find a PvP tester''\<rparr>,
     \<lparr>pc_slug = ''korea-community-01'', pc_label = ''Korean community post'',
      pc_targetPath = ''/pvp'', pc_source = ''korea_community'', pc_medium = ''community'', pc_campaign = ''launch_week1'',
      pc_content = ''community_post_01'', pc_angle = ''Korean ki-battle browser game''\<rparr>,
     \<lparr>pc_slug = ''friend-share'', pc_label = ''General friend share'',
      pc_targetPath = ''/pvp'', pc_source = ''friend'', pc_medium = ''direct'', pc_campaign = ''launch_week1'',
      pc_content = ''friend_share'', pc_angle = ''challenge a friend''\<rparr>,
     \<lparr>pc_slug = ''creator-demo'', pc_label = ''Creator demo link'',
      pc_targetPath = ''/pvp'', pc_source = ''creator'', pc_medium = ''creator'', pc_campaign = ''launch_week1'',
      pc_content = ''creator_demo'', pc_angle = ''record a live duel''\<rparr>]"

text \<open>
  \<open>PROMO_CAMPAIGN_BY_SLUG\<close> is an ordinary object, so reading it at a name
  that is no campaign finds the members every object inherits from
  \<open>Object.prototype\<close>: functions (and, for \<open>__proto__\<close>, the prototype
  itself), none of which has a campaign's fields.
\<close>

definition OBJECT_PROTOTYPE :: "string list" where
  "OBJECT_PROTOTYPE =
     [''constructor'', ''__defineGetter__'', ''__defineSetter__'', ''hasOwnProperty'',
      ''__lookupGetter__'', ''__lookupSetter__'', ''isPrototypeOf'', ''propertyIsEnumerable'',
      ''toString'', ''valueOf'', ''__proto__'', ''toLocaleString'']"

datatype slug_entry = Campaign promo_campaign | Inherited string

definition PROMO_CAMPAIGN_BY_SLUG :: "string \<Rightarrow> slug_entry option" where
  "PROMO_CAMPAIGN_BY_SLUG slug =
     (case map_of (rev (map (\<lambda>c. (pc_slug c, c)) PROMO_CAMPAIGNS)) slug of
        Some c \<Rightarrow> Some (Campaign c)
      | None \<Rightarrow> if slug \<in> set OBJECT_PROTOTYPE then Some (Inherited slug) else None)"

text \<open>A field of an entry, and the text a URL makes of it (\<open>undefined\<close> is printed).\<close>

definition field :: "(promo_campaign \<Rightarrow> string) \<Rightarrow> slug_entry \<Rightarrow> string option" where
  "field f e = (case e of Campaign c \<Rightarrow> Some (f c) | Inherited _ \<Rightarrow> None)"

definition field_text :: "(promo_campaign \<Rightarrow> string) \<Rightarrow> slug_entry \<Rightarrow> string" where
  "field_text f e = nullish (field f e) ''undefined''"

lemma field_simps [simp]:
  "field f (Campaign c) = Some (f c)" "field f (Inherited n) = None"
  "field_text f (Campaign c) = f c" "field_text f (Inherited n) = ''undefined''"
  by (simp_all add: field_def field_text_def)

definition campaignSearchParams :: "slug_entry \<Rightarrow> params" where
  "campaignSearchParams campaign =
     [(''promo'', field_text pc_slug campaign),
      (''ref'', field_text pc_source campaign),
      (''utm_source'', field_text pc_source campaign),
      (''utm_medium'', field_text pc_medium campaign),
      (''utm_campaign'', field_text pc_campaign campaign),
      (''utm_content'', field_text pc_content campaign)]"

subsection \<open>URLs\<close>

text \<open>
  \<open>URL\<close> objects of the origins used here: an origin \<open>scheme://host\<close>, a path
  and a query, without fragment.
\<close>

record url =
  u_origin :: string
  u_path :: string
  u_query :: string

definition new_url_at :: "string \<Rightarrow> string \<Rightarrow> url" where
  "new_url_at path origin =
     \<lparr>u_origin = origin, u_path = (if take 1 path = ''/'' then path else CHR ''/'' # path), u_query = []\<rparr>"

definition url_search :: "url \<Rightarrow> string" where
  "url_search u = (if u_query u = [] then [] else CHR ''?'' # u_query u)"

definition href :: "url \<Rightarrow> string" where
  "href u = u_origin u @ u_path u @ url_search u"

fun after_slashes :: "nat \<Rightarrow> string \<Rightarrow> string" where
  "after_slashes n [] = []"
| "after_slashes n (c # cs) =
     (if c = CHR ''/'' then (case n of 0 \<Rightarrow> c # cs | Suc m \<Rightarrow> after_slashes m cs)
      else after_slashes n cs)"

definition parse_url :: "string \<Rightarrow> url" where
  "parse_url s =
     (let base = takeWhile (\<lambda>c. c \<noteq> CHR ''?'') s;
          path = after_slashes 2 base
      in \<lparr>u_origin = take (length base - length path) base, u_path = path,
          u_query = drop 1 (dropWhile (\<lambda>c. c \<noteq> CHR ''?'') s)\<rparr>)"

definition search_set :: "string \<Rightarrow> string \<Rightarrow> url \<Rightarrow> url" where
  "search_set k v u = u\<lparr>u_query := params_to_string (params_set k v (parse_params (u_query u)))\<rparr>"

definition buildPromoUrl :: "slug_entry \<Rightarrow> string \<Rightarrow> string" where
  "buildPromoUrl campaign origin = href (new_url_at (''/go/'' @ field_text pc_slug campaign) origin)"

definition buildCampaignTarget :: "slug_entry \<Rightarrow> string \<Rightarrow> string" where
  "buildCampaignTarget campaign origin =
     (let u = new_url_at (field_text pc_targetPath campaign) origin
      in href (u\<lparr>u_query := params_to_string (campaignSearchParams campaign)\<rparr>))"

definition readCampaignProperties :: "params \<Rightarrow> (string \<times> string option) list" where
  "readCampaignProperties ps =
     map (\<lambda>k. (k, params_get ps k))
       [''promo'', ''ref'', ''utm_source'', ''utm_medium'', ''utm_campaign'', ''utm_content'']"

subsection \<open>The redirect page\<close>

fun merge_incoming :: "url \<Rightarrow> params \<Rightarrow> url" where
  "merge_incoming u [] = u"
| "merge_incoming u ((k, v) # incoming) =
     merge_incoming (if \<not> params_has (parse_params (u_query u)) k then search_set k v u else u) incoming"

definition promo_target :: "string \<Rightarrow> string option \<Rightarrow> params \<Rightarrow> string" where
  "promo_target origin slug incoming =
     (case (if truthy slug then PROMO_CAMPAIGN_BY_SLUG (the slug) else None) of
        None \<Rightarrow> ''/''
      | Some campaign \<Rightarrow>
          (let u = merge_incoming (parse_url (buildCampaignTarget campaign origin)) incoming
           in u_path u @ url_search u))"

text \<open>The event \<open>promo_link_opened\<close> the page reports, with its properties in order.\<close>

definition promo_opened :: "string option \<Rightarrow> params \<Rightarrow> (string \<times> json option) list option" where
  "promo_opened slug incoming =
     (case (if truthy slug then PROMO_CAMPAIGN_BY_SLUG (the slug) else None) of
        None \<Rightarrow> None
      | Some campaign \<Rightarrow>
          (let search = add_missing (campaignSearchParams campaign) incoming;
               got = (\<lambda>k. Some (case params_get search k of None \<Rightarrow> JNull | Some v \<Rightarrow> JStr v))
           in Some
             [(''promo'', map_option JStr (field pc_slug campaign)),
              (''target_path'', map_option JStr (field pc_targetPath campaign)),
              (''angle'', map_option JStr (field pc_angle campaign)),
              (''utm_source'', got ''utm_source''),
              (''utm_medium'', got ''utm_medium''),
              (''utm_campaign'', got ''utm_campaign''),
              (''utm_content'', got ''utm_content'')]))"

text \<open>An origin as \<open>window.location.origin\<close> spells it: two slashes and no query mark.\<close>

definition origin_ok :: "string \<Rightarrow> bool" where
  "origin_ok s \<longleftrightarrow> (\<exists>scheme host. s = scheme @ ''://'' @ host \<and>
      CHR ''/'' \<notin> set scheme \<and> CHR ''/'' \<notin> set host \<and> CHR ''?'' \<notin> set s)"

lemma origin_okI:
  "CHR ''/'' \<notin> set scheme \<Longrightarrow> CHR ''/'' \<notin> set host \<Longrightarrow> CHR ''?'' \<notin> set (scheme @ host) \<Longrightarrow>
   origin_ok (scheme @ ''://'' @ host)"
  unfolding origin_ok_def by (intro exI [of _ scheme] exI [of _ host]) auto

lemma after_slashes_skip:
  "CHR ''/'' \<notin> set xs \<Longrightarrow> after_slashes n (xs @ ys) = after_slashes n ys"
  by (induction xs) auto

lemma after_slashes_origin:
  "origin_ok s \<Longrightarrow> after_slashes 2 (s @ CHR ''/'' # p) = CHR ''/'' # p"
  by (auto simp: origin_ok_def after_slashes_skip numeral_2_eq_2)

lemma takeWhile_none: "c \<notin> set a \<Longrightarrow> takeWhile (\<lambda>x. x \<noteq> c) a = a"
  by (induction a) auto

lemma dropWhile_none: "c \<notin> set a \<Longrightarrow> dropWhile (\<lambda>x. x \<noteq> c) a = []"
  by (induction a) auto

lemma parse_href:
  assumes o: "origin_ok (u_origin u)" and p: "take 1 (u_path u) = ''/''" "CHR ''?'' \<notin> set (u_path u)"
  shows "parse_url (href u) = u"
proof -
  obtain r where r: "u_path u = CHR ''/'' # r"
    using p by (cases "u_path u") auto
  have q: "CHR ''?'' \<notin> set (u_origin u @ u_path u)"
    using o p by (auto simp: origin_ok_def)
  show ?thesis
  proof (cases "u_query u = []")
    case True
    then show ?thesis
      using q after_slashes_origin [OF o, of r]
      by (simp add: parse_url_def href_def url_search_def takeWhile_none dropWhile_none r Let_def del: after_slashes.simps)
  next
    case False
    have e: "href u = (u_origin u @ u_path u) @ CHR ''?'' # u_query u"
      using False by (simp add: href_def url_search_def)
    show ?thesis
      unfolding parse_url_def e takeWhile_neq [OF q] dropWhile_neq [OF q]
      using after_slashes_origin [OF o, of r] by (simp add: r Let_def del: after_slashes.simps)
  qed
qed

lemma merge_incoming_path [simp]: "u_path (merge_incoming u incoming) = u_path u"
  by (induction u incoming rule: merge_incoming.induct) (auto simp: search_set_def)

lemma merge_incoming_query:
  "parse_params (u_query (merge_incoming u incoming)) = add_missing (parse_params (u_query u)) incoming"
  by (induction u incoming rule: merge_incoming.induct) (auto simp: search_set_def)

subsection \<open>What the links promise\<close>

lemma campaign_lookup:
  "PROMO_CAMPAIGN_BY_SLUG slug = Some (Campaign c) \<Longrightarrow> c \<in> set PROMO_CAMPAIGNS \<and> pc_slug c = slug"
  unfolding PROMO_CAMPAIGN_BY_SLUG_def
  by (auto dest!: map_of_SomeD split: option.splits if_splits)

lemma campaign_found:
  "c \<in> set PROMO_CAMPAIGNS \<Longrightarrow> PROMO_CAMPAIGN_BY_SLUG (pc_slug c) = Some (Campaign c)"
  by (simp add: PROMO_CAMPAIGNS_def PROMO_CAMPAIGN_BY_SLUG_def) (elim disjE; simp)

lemma slugs_distinct: "distinct (map pc_slug PROMO_CAMPAIGNS)"
  by (simp add: PROMO_CAMPAIGNS_def)

lemma campaign_paths:
  "c \<in> set PROMO_CAMPAIGNS \<Longrightarrow>
   pc_slug c \<noteq> [] \<and> take 1 (pc_targetPath c) = ''/'' \<and> CHR ''?'' \<notin> set (pc_targetPath c)"
  by (simp add: PROMO_CAMPAIGNS_def) (elim disjE; simp)

lemma inherited_no_campaign:
  "list_all (\<lambda>s. s \<noteq> [] \<and> map_of (rev (map (\<lambda>c. (pc_slug c, c)) PROMO_CAMPAIGNS)) s = None) OBJECT_PROTOTYPE"
  by code_simp

lemma inherited_lookup:
  "slug \<in> set OBJECT_PROTOTYPE \<Longrightarrow>
   PROMO_CAMPAIGN_BY_SLUG slug = Some (Inherited slug) \<and> slug \<noteq> []"
  using inherited_no_campaign by (auto simp: list_all_iff PROMO_CAMPAIGN_BY_SLUG_def)

lemma target_url:
  assumes "origin_ok origin" and "take 1 p = ''/''" "CHR ''?'' \<notin> set p"
  shows "parse_url (href (new_url_at p origin\<lparr>u_query := q\<rparr>)) = \<lparr>u_origin = origin, u_path = p, u_query = q\<rparr>"
  using parse_href [of "\<lparr>u_origin = origin, u_path = p, u_query = q\<rparr>"] assms
  by (simp add: new_url_at_def)

lemma query_of_merge:
  fixes u :: url
  assumes "params_get (parse_params (u_query u)) k \<noteq> None"
  shows "url_search (merge_incoming u incoming) = CHR ''?'' # u_query (merge_incoming u incoming)"
proof -
  have "params_get (parse_params (u_query (merge_incoming u incoming))) k \<noteq> None"
    using assms by (auto simp: merge_incoming_query get_add_missing)
  then have "u_query (merge_incoming u incoming) \<noteq> []"
    by (auto simp: parse_params_def params_get_def)
  then show ?thesis by (simp add: url_search_def)
qed

text \<open>
  Opening the link of a campaign of the table leads to the campaign's page with a
  query in which the six attribution keys have the campaign's values, whatever the visitor's
  link carried, and every other key has the value the visitor's link gave it.
\<close>

lemma promo_attribution:
  assumes "PROMO_CAMPAIGN_BY_SLUG slug = Some (Campaign c)" and "origin_ok origin"
  shows "\<exists>q. promo_target origin (Some slug) incoming = pc_targetPath c @ CHR ''?'' # q \<and>
     (\<forall>k. params_get (parse_params q) k =
        (case map_of (campaignSearchParams (Campaign c)) k of
           Some v \<Rightarrow> Some v | None \<Rightarrow> params_get incoming k))"
proof -
  have c: "pc_slug c = slug" "slug \<noteq> []" "take 1 (pc_targetPath c) = ''/''" "CHR ''?'' \<notin> set (pc_targetPath c)"
    using campaign_lookup [OF assms(1)] campaign_paths by auto
  let ?u = "\<lparr>u_origin = origin, u_path = pc_targetPath c, u_query = params_to_string (campaignSearchParams (Campaign c))\<rparr>"
  have u: "parse_url (buildCampaignTarget (Campaign c) origin) = ?u"
    using target_url [OF assms(2) c(3,4)] by (simp add: buildCampaignTarget_def)
  have s: "url_search (merge_incoming ?u incoming) = CHR ''?'' # u_query (merge_incoming ?u incoming)"
    by (rule query_of_merge [where k = "''promo''"]) (simp add: campaignSearchParams_def params_get_def)
  show ?thesis
    by (rule exI [of _ "u_query (merge_incoming ?u incoming)"])
      (simp add: promo_target_def assms(1) c(2) u s merge_incoming_query get_add_missing, simp add: params_get_def)
qed

text \<open>
  A slug that is no campaign but names a member every object inherits is taken for
  an active campaign: the page redirects to \<open>/undefined\<close> with \<open>undefined\<close> for every
  attribution value, where the other unknown slugs show the page's own not-found text.
\<close>

theorem inherited_slug_redirects_nowhere:
  assumes "slug \<in> set OBJECT_PROTOTYPE" and "origin_ok origin"
  shows "promo_target origin (Some slug) [] =
     ''/undefined?promo=undefined&ref=undefined&utm_source=undefined&utm_medium=undefined&utm_campaign=undefined&utm_content=undefined''"
proof -
  have l: "PROMO_CAMPAIGN_BY_SLUG slug = Some (Inherited slug)" "slug \<noteq> []"
    using assms(1) inherited_lookup by simp_all
  have q: "params_to_string (campaignSearchParams (Inherited slug)) =
     ''promo=undefined&ref=undefined&utm_source=undefined&utm_medium=undefined&utm_campaign=undefined&utm_content=undefined''"
    by (simp add: params_to_string_def campaignSearchParams_def form_encode_def encode_char_def form_safe_def)
  have u: "parse_url (buildCampaignTarget (Inherited slug) origin) =
      \<lparr>u_origin = origin, u_path = ''/undefined'', u_query = params_to_string (campaignSearchParams (Inherited slug))\<rparr>"
    using target_url [OF assms(2), of "''/undefined''"] by (simp add: buildCampaignTarget_def new_url_at_def)
  show ?thesis by (simp add: promo_target_def l u q url_search_def)
qed

lemma inherited_slug_redirects_nowhere_witness:
  "promo_target ''https://jjan.daeseon.ai'' (Some ''constructor'') [] =
     ''/undefined?promo=undefined&ref=undefined&utm_source=undefined&utm_medium=undefined&utm_campaign=undefined&utm_content=undefined''"
  by (rule inherited_slug_redirects_nowhere)
    (use origin_okI [of "''https''" "''jjan.daeseon.ai''"] in \<open>simp_all add: OBJECT_PROTOTYPE_def\<close>)

end
