(* ===== verification/Analytics.thy ===== *)
theory Analytics
  imports Promo Storage
begin

text \<open>
  Launch analytics: the client's \<open>trackEvent\<close> and \<open>trackDailyReturn\<close>
  (\<open>lib/analytics.ts\<close>) and the route that receives the events
  (\<open>app/api/analytics/events/route.ts\<close>).
\<close>

subsection \<open>The client\<close>

definition AnalyticsEventName :: "string list" where
  "AnalyticsEventName =
     [''page_view'', ''landing_view'', ''promo_link_opened'', ''promo_cta_clicked'',
      ''promo_link_copied'', ''return_next_day'', ''difficulty_selected'', ''play_start'',
      ''action_submitted'', ''match_finish'', ''pvp_quick_match_started'', ''pvp_room_created'',
      ''pvp_room_joined'', ''pvp_match_started'', ''invite_copied'', ''shop_view'',
      ''founder_pass_checkout_started'', ''founder_pass_checkout_failed'',
      ''founder_pass_checkout_success'']"

text \<open>
  An object literal under construction: properties in order, \<open>None\<close> for a
  property that is present with the value \<open>undefined\<close>.
\<close>

type_synonym js_obj = "(string \<times> json option) list"

fun obj_set :: "string \<Rightarrow> json option \<Rightarrow> js_obj \<Rightarrow> js_obj" where
  "obj_set k v [] = [(k, v)]"
| "obj_set k v ((k', v') # ps) = (if k' = k then (k, v) # ps else (k', v') # obj_set k v ps)"

definition obj_spread :: "js_obj \<Rightarrow> js_obj \<Rightarrow> js_obj" where
  "obj_spread a b = fold (\<lambda>(k, v). obj_set k v) b a"

text \<open>\<open>JSON.stringify\<close> leaves out undefined properties; the value it writes is\<close>

definition obj_json :: "js_obj \<Rightarrow> json" where
  "obj_json ps = JObj (concat (map (\<lambda>(k, v). case v of None \<Rightarrow> [] | Some j \<Rightarrow> [(k, j)]) ps))"

definition SESSION_KEY :: string where "SESSION_KEY = ''jjan_analytics_session_id''"
definition LAST_VISIT_KEY :: string where "LAST_VISIT_KEY = ''jjan_last_visit_date''"

definition CAMPAIGN_KEYS :: "string list" where
  "CAMPAIGN_KEYS =
     [''promo'', ''ref'', ''utm_source'', ''utm_medium'', ''utm_campaign'', ''utm_content'']"

text \<open>
  What the browser provides at a call: location, referrer, the time in ISO
  format, a fresh identifier, and whether \<open>sendBeacon\<close> exists and took the
  request.
\<close>

record browser =
  br_pathname :: string
  br_search :: string
  br_referrer :: string
  br_now :: string
  br_fresh_id :: string
  br_beacon :: "bool option"

definition todayKey :: "browser \<Rightarrow> string" where
  "todayKey b = take 10 (br_now b)"

definition getSessionId :: "browser \<Rightarrow> local_storage \<Rightarrow> string \<times> local_storage" where
  "getSessionId b st =
     (let existing = st_get st SESSION_KEY
      in if truthy existing then (the existing, st)
         else (br_fresh_id b, st_put SESSION_KEY (br_fresh_id b) st))"

definition analytics_player_id :: "local_storage \<Rightarrow> string option" where
  "analytics_player_id st = st_get st K_PLAYER"

definition currentPath :: "browser \<Rightarrow> string" where
  "currentPath b = br_pathname b @ br_search b"

text \<open>The constructor of \<open>URLSearchParams\<close> drops one leading question mark.\<close>

definition params_of_search :: "string \<Rightarrow> params" where
  "params_of_search s = parse_params (if take 1 s = ''?'' then drop 1 s else s)"

definition currentCampaignProperties :: "browser \<Rightarrow> js_obj" where
  "currentCampaignProperties b =
     (let ps = params_of_search (br_search b)
      in fold (\<lambda>key values.
           (case params_get ps key of
              Some value \<Rightarrow> if value \<noteq> [] then obj_set key (Some (JStr value)) values else values
            | None \<Rightarrow> values)) CAMPAIGN_KEYS [])"

definition jnullable :: "string option \<Rightarrow> json" where
  "jnullable s = (case s of None \<Rightarrow> JNull | Some x \<Rightarrow> JStr x)"

datatype analytics_request = Beacon string json | Keepalive_fetch string json

definition event_payload :: "browser \<Rightarrow> string \<Rightarrow> local_storage \<Rightarrow> string \<Rightarrow> js_obj \<Rightarrow> json" where
  "event_payload b sid st event properties =
     JObj [(''event'', JStr event),
           (''properties'', obj_json (obj_spread (currentCampaignProperties b) properties)),
           (''session_id'', JStr sid),
           (''player_id'', jnullable (analytics_player_id st)),
           (''path'', JStr (currentPath b)),
           (''referrer'', if br_referrer b = [] then JNull else JStr (br_referrer b)),
           (''timestamp'', JStr (br_now b))]"

definition trackEvent ::
  "browser \<Rightarrow> string \<Rightarrow> js_obj \<Rightarrow> local_storage \<Rightarrow> local_storage \<times> analytics_request list" where
  "trackEvent b event properties st =
     (let (sid, st') = getSessionId b st;
          body = event_payload b sid st' event properties;
          url = ''/api/analytics/events''
      in (st', case br_beacon b of
                 Some True \<Rightarrow> [Beacon url body]
               | Some False \<Rightarrow> [Beacon url body, Keepalive_fetch url body]
               | None \<Rightarrow> [Keepalive_fetch url body]))"

definition trackDailyReturn ::
  "browser \<Rightarrow> local_storage \<Rightarrow> local_storage \<times> analytics_request list" where
  "trackDailyReturn b st =
     (let today = todayKey b;
          previous = st_get st LAST_VISIT_KEY;
          (st', reqs) =
            (if truthy previous \<and> previous \<noteq> Some today
             then trackEvent b ''return_next_day'' [(''previous_visit_date'', Some (JStr (the previous)))] st
             else (st, []))
      in (st_put LAST_VISIT_KEY today st', reqs))"

subsection \<open>The route\<close>

definition MAX_BODY_BYTES :: nat where
  "MAX_BODY_BYTES = 16384"

definition asRecord :: "json option \<Rightarrow> (string \<times> json) list" where
  "asRecord v = (case v of Some (JObj ps) \<Rightarrow> ps | _ \<Rightarrow> [])"

definition asString :: "json option \<Rightarrow> string" where
  "asString v = (case v of Some (JStr s) \<Rightarrow> slice_to 300 s | _ \<Rightarrow> [])"

text \<open>The pattern \<open>^[a-z0-9_:-]{2,80}$\<close>.\<close>

definition event_char :: "char \<Rightarrow> bool" where
  "event_char c = (let n = (of_char c :: nat) in
     (97 \<le> n \<and> n \<le> 122) \<or> (48 \<le> n \<and> n \<le> 57) \<or> n = 95 \<or> n = 58 \<or> n = 45)"

definition event_name_ok :: "string \<Rightarrow> bool" where
  "event_name_ok s \<longleftrightarrow> 2 \<le> length s \<and> length s \<le> 80 \<and> list_all event_char s"

definition js_space :: "char \<Rightarrow> bool" where
  "js_space c = (let n = (of_char c :: nat) in (9 \<le> n \<and> n \<le> 13) \<or> n = 32 \<or> n = 160)"

definition js_trim :: "string \<Rightarrow> string" where
  "js_trim s = rev (dropWhile js_space (rev (dropWhile js_space s)))"

datatype route_response = Response (rr_status: nat) (rr_body: json)

definition failure :: "string \<Rightarrow> json" where
  "failure code = JObj [(''ok'', JBool False), (''error'', JStr code)]"

definition client_ip :: "(string \<Rightarrow> string option) \<Rightarrow> string" where
  "client_ip headers =
     (let forwardedFor = nullish (headers ''x-forwarded-for'') [];
          first = js_trim (takeWhile (\<lambda>c. c \<noteq> CHR '','') forwardedFor)
      in if first \<noteq> [] then first else or_else (headers ''x-real-ip'') [])"

definition logged_payload :: "json \<Rightarrow> string \<Rightarrow> (string \<Rightarrow> string option) \<Rightarrow> json" where
  "logged_payload body event headers =
     (let prop = (\<lambda>k. jopt (Some body) k)
      in JObj [(''event'', JStr event),
               (''properties'', JObj (asRecord (prop ''properties''))),
               (''session_id'', JStr (asString (prop ''session_id''))),
               (''player_id'', JStr (asString (prop ''player_id''))),
               (''path'', JStr (asString (prop ''path''))),
               (''referrer'', JStr (asString (prop ''referrer''))),
               (''timestamp'', JStr (asString (prop ''timestamp''))),
               (''ip_hash_source'', JStr (if client_ip headers \<noteq> [] then ''present'' else ''missing'')),
               (''user_agent'', JStr (slice_to 180 (nullish (headers ''user-agent'') [])))])"

text \<open>
  The handler: \<open>raw\<close> is the request's text, \<open>parsed\<close> what \<open>JSON.parse(raw)\<close>
  returns (\<open>None\<close> where it throws).  It throws, or answers and logs at most one
  line.
\<close>

definition POST_events ::
  "string \<Rightarrow> json option \<Rightarrow> (string \<Rightarrow> string option) \<Rightarrow> js_thrown + route_response \<times> json option" where
  "POST_events raw parsed headers =
     (if length raw > MAX_BODY_BYTES then Inr (Response 413 (failure ''payload_too_large''), None)
      else (case parsed of
              None \<Rightarrow> Inr (Response 400 (failure ''invalid_json''), None)
            | Some body \<Rightarrow>
                (case jprop body ''event'' of
                   Inl e \<Rightarrow> Inl e
                 | Inr ev \<Rightarrow>
                     (let event = asString ev
                      in if event = [] \<or> \<not> event_name_ok event
                         then Inr (Response 400 (failure ''invalid_event''), None)
                         else Inr (Response 200 (JObj [(''ok'', JBool True)]),
                                   Some (logged_payload body event headers))))))"

subsection \<open>Object literals\<close>

lemma map_of_obj_set: "map_of (obj_set k v ps) k' = (if k' = k then Some v else map_of ps k')"
  by (induction ps) auto

lemma keys_obj_set: "fst ` set (obj_set k v ps) = insert k (fst ` set ps)"
  by (induction k v ps rule: obj_set.induct) (simp_all add: insert_commute)

lemma distinct_obj_set: "distinct (map fst ps) \<Longrightarrow> distinct (map fst (obj_set k v ps))"
  by (induction ps) (use keys_obj_set [of k v] in auto)

lemma map_of_obj_spread:
  "map_of (obj_spread a b) k = (case map_of (rev b) k of Some v \<Rightarrow> Some v | None \<Rightarrow> map_of a k)"
  unfolding obj_spread_def
  by (induction b arbitrary: a)
    (auto simp: map_of_obj_set case_prod_beta map_add_def split: option.splits)

lemma distinct_obj_spread: "distinct (map fst a) \<Longrightarrow> distinct (map fst (obj_spread a b))"
  unfolding obj_spread_def
  by (induction b arbitrary: a) (auto simp: distinct_obj_set case_prod_beta)

definition defined_props :: "js_obj \<Rightarrow> (string \<times> json) list" where
  "defined_props ps = concat (map (\<lambda>(k, v). case v of None \<Rightarrow> [] | Some j \<Rightarrow> [(k, j)]) ps)"

lemma obj_json_defined: "obj_json ps = JObj (defined_props ps)"
  by (simp add: obj_json_def defined_props_def)

lemma defined_props_simps [simp]:
  "defined_props [] = []"
  "defined_props ((k, None) # ps) = defined_props ps"
  "defined_props ((k, Some j) # ps) = (k, j) # defined_props ps"
  by (simp_all add: defined_props_def)

lemma map_of_defined_none: "k \<notin> set (map fst ps) \<Longrightarrow> map_of (defined_props ps) k = None"
  by (induction ps) (auto simp: defined_props_def split: option.splits)

lemma map_of_defined:
  "distinct (map fst ps) \<Longrightarrow>
   map_of (defined_props ps) k = (case map_of ps k of Some v \<Rightarrow> v | None \<Rightarrow> None)"
proof (induction ps)
  case Nil
  then show ?case by (simp add: defined_props_def)
next
  case (Cons p ps)
  obtain k0 v0 where p: "p = (k0, v0)" by (cases p)
  show ?case
    using Cons map_of_defined_none [of k0 ps]
    by (cases v0) (auto simp: p simp del: set_map)
qed

lemma campaign_properties_get:
  "map_of (currentCampaignProperties b) k =
     (if k \<in> set CAMPAIGN_KEYS
      then (case params_get (params_of_search (br_search b)) k of
              Some v \<Rightarrow> if v \<noteq> [] then Some (Some (JStr v)) else None
            | None \<Rightarrow> None)
      else None)"
  (is "_ = (if _ then ?v k else _)")
proof -
  let ?f = "\<lambda>key values. case params_get (params_of_search (br_search b)) key of
      Some value \<Rightarrow> if value \<noteq> [] then obj_set key (Some (JStr value)) values else values
    | None \<Rightarrow> values"
  have "map_of (fold ?f ks acc) k = (if k \<in> set ks \<and> ?v k \<noteq> None then ?v k else map_of acc k)" for ks acc
    by (induction ks arbitrary: acc) (auto simp: map_of_obj_set split: option.splits)
  from this [of CAMPAIGN_KEYS "[]"] show ?thesis
    by (auto simp: currentCampaignProperties_def Let_def)
qed

lemma campaign_properties_distinct: "distinct (map fst (currentCampaignProperties b))"
proof -
  let ?f = "\<lambda>key values. case params_get (params_of_search (br_search b)) key of
      Some value \<Rightarrow> if value \<noteq> [] then obj_set key (Some (JStr value)) values else values
    | None \<Rightarrow> values"
  have "distinct (map fst acc) \<Longrightarrow> distinct (map fst (fold ?f ks acc))" for ks acc
    by (induction ks arbitrary: acc) (auto simp: distinct_obj_set split: option.splits)
  from this [of "[]" CAMPAIGN_KEYS] show ?thesis
    by (simp add: currentCampaignProperties_def Let_def)
qed

subsection \<open>What an event carries\<close>

fun request_body :: "analytics_request \<Rightarrow> json" where
  "request_body (Beacon _ j) = j"
| "request_body (Keepalive_fetch _ j) = j"

lemma trackEvent_bodies:
  "r \<in> set (snd (trackEvent b event props st)) \<Longrightarrow>
   request_body r =
     event_payload b (fst (getSessionId b st)) (snd (getSessionId b st)) event props"
  by (auto simp: trackEvent_def Let_def case_prod_beta split: option.splits if_splits bool.splits)

lemma payload_parts [simp]:
  "jopt (Some (event_payload b sid st event props)) ''event'' = Some (JStr event)"
  "jopt (Some (event_payload b sid st event props)) ''properties'' =
     Some (JObj (defined_props (obj_spread (currentCampaignProperties b) props)))"
  "jopt (Some (event_payload b sid st event props)) ''session_id'' = Some (JStr sid)"
  "jopt (Some (event_payload b sid st event props)) ''timestamp'' = Some (JStr (br_now b))"
  by (simp_all add: event_payload_def obj_json_defined)

lemma payload_event: "jprop (event_payload b sid st event props) ''event'' = Inr (Some (JStr event))"
  by (simp add: event_payload_def)

subsection \<open>What the analytics promise\<close>

lemma event_names_ok: "list_all event_name_ok AnalyticsEventName"
  by code_simp

lemma event_name_clean:
  "ev \<in> set AnalyticsEventName \<Longrightarrow> event_name_ok ev \<and> slice_to 300 ev = ev \<and> ev \<noteq> []"
  using event_names_ok by (auto simp: list_all_iff event_name_ok_def slice_to_def)

text \<open>
  Claim C21: every event the client can send is accepted by the route when its text keeps
  within the limit, and the logged line has the event's name, its properties unchanged, and
  its session and time up to 300 characters.
\<close>

theorem client_events_accepted:
  assumes "event \<in> set AnalyticsEventName"
    and "r \<in> set (snd (trackEvent b event props st))"
    and "length raw \<le> MAX_BODY_BYTES"
  shows "\<exists>logged. POST_events raw (Some (request_body r)) headers =
       Inr (Response 200 (JObj [(''ok'', JBool True)]), Some logged) \<and>
     jopt (Some logged) ''event'' = Some (JStr event) \<and>
     jopt (Some logged) ''properties'' =
       Some (obj_json (obj_spread (currentCampaignProperties b) props)) \<and>
     jopt (Some logged) ''session_id'' = Some (JStr (take 300 (fst (getSessionId b st)))) \<and>
     jopt (Some logged) ''timestamp'' = Some (JStr (take 300 (br_now b)))"
  using assms(3) event_name_clean [OF assms(1)] trackEvent_bodies [OF assms(2)]
  by (simp add: POST_events_def payload_event asString_def logged_payload_def asRecord_def
      obj_json_defined slice_to_def Let_def)

lemma client_events_accepted_witness:
  "\<exists>logged. POST_events ''text'' (Some (request_body (Beacon ''/api/analytics/events''
         (event_payload \<lparr>br_pathname = ''/play'', br_search = ''?ref=x'', br_referrer = [], br_now = ''2026-01-01'',
            br_fresh_id = ''id'', br_beacon = Some True\<rparr> ''id'' (Map.empty(SESSION_KEY \<mapsto> ''id'')) ''play_start'' []))))
       (\<lambda>_. None) =
       Inr (Response 200 (JObj [(''ok'', JBool True)]), Some logged) \<and>
     jopt (Some logged) ''event'' = Some (JStr ''play_start'')"
proof -
  let ?b = "\<lparr>br_pathname = ''/play'', br_search = ''?ref=x'', br_referrer = [], br_now = ''2026-01-01'',
            br_fresh_id = ''id'', br_beacon = Some True\<rparr>"
  let ?r = "Beacon ''/api/analytics/events'' (event_payload ?b ''id'' (Map.empty(SESSION_KEY \<mapsto> ''id'')) ''play_start'' [])"
  have e: "''play_start'' \<in> set AnalyticsEventName" by (simp add: AnalyticsEventName_def)
  have r: "?r \<in> set (snd (trackEvent ?b ''play_start'' [] Map.empty))"
    by (simp add: trackEvent_def getSessionId_def st_get_def st_put_def)
  have l: "length ''text'' \<le> MAX_BODY_BYTES" by (simp add: MAX_BODY_BYTES_def)
  show ?thesis using client_events_accepted [OF e r l, of "\<lambda>_. None"] by blast
qed

text \<open>
  The text \<open>null\<close> is a well-formed body that the handler does not survive: reading
  a property of \<open>null\<close> throws outside the guarded block, where every other well-formed body
  without a valid event name is answered with status 400.
\<close>

theorem null_body_throws:
  "POST_events ''null'' (Some JNull) headers = Inl type_error \<and>
   (length raw \<le> MAX_BODY_BYTES \<longrightarrow> body \<noteq> JNull \<longrightarrow>
     \<not> event_name_ok (asString (jopt (Some body) ''event'')) \<longrightarrow>
     POST_events raw (Some body) headers = Inr (Response 400 (failure ''invalid_event''), None))"
  by (cases body) (auto simp: POST_events_def MAX_BODY_BYTES_def jopt_def)

lemma null_body_throws_witness:
  "POST_events ''null'' (Some JNull) (\<lambda>_. None) = Inl type_error \<and>
   POST_events ''[]'' (Some (JArr [])) (\<lambda>_. None) = Inr (Response 400 (failure ''invalid_event''), None)"
  using null_body_throws [of "\<lambda>_. None" "''[]''" "JArr []"]
  by (simp add: MAX_BODY_BYTES_def event_name_ok_def asString_def jopt_def)

lemma campaign_values_nonempty:
  "c \<in> set PROMO_CAMPAIGNS \<Longrightarrow> list_all (\<lambda>(k, v). v \<noteq> []) (campaignSearchParams (Campaign c))"
  by (simp add: PROMO_CAMPAIGNS_def campaignSearchParams_def) (elim disjE; simp)

lemma campaign_params_keys:
  "map fst (campaignSearchParams e) = CAMPAIGN_KEYS"
  by (simp add: campaignSearchParams_def CAMPAIGN_KEYS_def)

lemma campaign_keys_distinct: "distinct CAMPAIGN_KEYS"
  by (simp add: CAMPAIGN_KEYS_def)

text \<open>The last value an event sets for a property itself, which wins over the address.\<close>

definition own_property :: "js_obj \<Rightarrow> string \<Rightarrow> json option option" where
  "own_property props k = map_of (rev props) k"

lemma payload_campaign:
  assumes "params_get (params_of_search (br_search b)) k = Some v" and "v \<noteq> []" and "k \<in> set CAMPAIGN_KEYS"
  shows "map_of (defined_props (obj_spread (currentCampaignProperties b) props)) k =
    (case own_property props k of None \<Rightarrow> Some (JStr v) | Some own \<Rightarrow> own)"
  using assms
  by (simp add: own_property_def map_of_defined distinct_obj_spread campaign_properties_distinct
      map_of_obj_spread campaign_properties_get split: option.split)

text \<open>
  Claim C20: on the page a campaign's link leads to, whatever parameters the visitor's link carried, every
  event the client sends carries each of the campaign's six attribution values, unless the event sets
  a property of that name itself: then it carries the event's own (as \<open>invite_copied\<close> does with
  \<open>promo\<close>), and none if that is undefined.
\<close>

theorem promo_attribution_reaches_events:
  assumes "PROMO_CAMPAIGN_BY_SLUG slug = Some (Campaign c)" and "origin_ok origin"
    and "promo_target origin (Some slug) incoming = currentPath b" and "br_pathname b = pc_targetPath c"
    and "r \<in> set (snd (trackEvent b event props st))"
    and "(k, v) \<in> set (campaignSearchParams (Campaign c))"
  shows "\<exists>ps. jopt (Some (request_body r)) ''properties'' = Some (JObj ps) \<and>
    map_of ps k = (case own_property props k of None \<Rightarrow> Some (JStr v) | Some own \<Rightarrow> own)"
proof -
  obtain q where q: "promo_target origin (Some slug) incoming = pc_targetPath c @ CHR ''?'' # q"
    and g: "\<forall>k. params_get (parse_params q) k =
        (case map_of (campaignSearchParams (Campaign c)) k of
           Some v \<Rightarrow> Some v | None \<Rightarrow> params_get incoming k)"
    using promo_attribution [OF assms(1,2)] by blast
  have s: "br_search b = CHR ''?'' # q"
    using assms(3,4) q by (simp add: currentPath_def)
  have k: "k \<in> set CAMPAIGN_KEYS"
    using assms(6) campaign_params_keys [of "Campaign c"] by (metis fst_conv image_eqI set_map)
  have v: "map_of (campaignSearchParams (Campaign c)) k = Some v" "v \<noteq> []"
    using assms(6) campaign_params_keys [of "Campaign c"] campaign_keys_distinct
      campaign_values_nonempty [of c] campaign_lookup [OF assms(1)]
    by (auto simp: list_all_iff intro!: map_of_is_SomeI)
  have "params_get (params_of_search (br_search b)) k = Some v"
    using g v(1) by (simp add: s params_of_search_def)
  from payload_campaign [OF this v(2) k] show ?thesis
    by (auto simp: trackEvent_bodies [OF assms(5)])
qed

lemma promo_attribution_reaches_events_witness:
  "\<exists>ps. jopt (Some (event_payload
       \<lparr>br_pathname = ''/pvp'', br_search = ''?promo=friend-share&ref=friend&utm_source=friend&utm_medium=direct&utm_campaign=launch_week1&utm_content=friend_share&room=AB12'',
         br_referrer = [], br_now = ''2026-01-01'', br_fresh_id = ''id'', br_beacon = None\<rparr>
       ''id'' (Map.empty(SESSION_KEY \<mapsto> ''id'')) ''page_view'' [])) ''properties'' = Some (JObj ps) \<and>
     map_of ps ''utm_medium'' = Some (JStr ''direct'')"
proof -
  let ?b = "\<lparr>br_pathname = ''/pvp'', br_search = ''?promo=friend-share&ref=friend&utm_source=friend&utm_medium=direct&utm_campaign=launch_week1&utm_content=friend_share&room=AB12'',
         br_referrer = [], br_now = ''2026-01-01'', br_fresh_id = ''id'', br_beacon = None\<rparr>"
  let ?c = "PROMO_CAMPAIGNS ! 8"
  let ?p = "event_payload ?b ''id'' (Map.empty(SESSION_KEY \<mapsto> ''id'')) ''page_view'' []"
  have c: "PROMO_CAMPAIGN_BY_SLUG ''friend-share'' = Some (Campaign ?c)" by code_simp
  have o: "origin_ok ''https://jjan.daeseon.ai''"
    using origin_okI [of "''https''" "''jjan.daeseon.ai''"] by simp
  have t: "promo_target ''https://jjan.daeseon.ai'' (Some ''friend-share'') [(''ref'', ''someone''), (''room'', ''AB12'')] = currentPath ?b"
    by code_simp
  have p: "br_pathname ?b = pc_targetPath ?c" by code_simp
  have r: "Keepalive_fetch ''/api/analytics/events'' ?p \<in> set (snd (trackEvent ?b ''page_view'' [] Map.empty))"
    by (simp add: trackEvent_def getSessionId_def st_get_def st_put_def)
  have k: "(''utm_medium'', ''direct'') \<in> set (campaignSearchParams (Campaign ?c))" by code_simp
  show ?thesis
    using promo_attribution_reaches_events [OF c o t p r k] by (simp add: own_property_def)
qed

end
