(* ===== verification/Mobile_Api.thy ===== *)
theory Mobile_Api
  imports Api_Client
begin

text \<open>
  The mobile API client, \<open>mobile/src/lib/api.ts\<close>.  Its sessions live in
  \<open>expo-secure-store\<close>, a third-party module, which is a parameter: three
  asynchronous functions on the device's state.  The backend behind \<open>fetch\<close> is a
  parameter as for the web client.  One call runs to its end before the next
  begins.
\<close>

record 'd secure_store =
  sec_get :: "string \<Rightarrow> ('d, string option) eff"
  sec_set :: "string \<Rightarrow> json option \<Rightarrow> ('d, unit) eff"
  sec_delete :: "string \<Rightarrow> ('d, unit) eff"

record ('srv, 'd) app =
  app_net :: "'srv net"
  app_secure :: "'d secure_store"

record ('srv, 'd) mobile_world =
  mw_device :: 'd
  mw_server :: 'srv
  mw_log :: "http_request list"

definition on_device :: "('d, 'a) eff \<Rightarrow> (('srv, 'd) mobile_world, 'a) eff" where
  "on_device f = (\<lambda>w. let (r, d) = f (mw_device w) in (r, w\<lparr>mw_device := d\<rparr>))"

subsection \<open>Secure token management\<close>

definition M_getToken :: "('srv, 'd) app \<Rightarrow> (('srv, 'd) mobile_world, string option) eff" where
  "M_getToken app = on_device (sec_get (app_secure app) ''ki_clash_token'')"

definition M_setTokens ::
  "('srv, 'd) app \<Rightarrow> json option \<Rightarrow> json option \<Rightarrow> (('srv, 'd) mobile_world, unit) eff" where
  "M_setTokens app access refresh =
     bindE (on_device (sec_set (app_secure app) ''ki_clash_token'' access)) (\<lambda>_.
       on_device (sec_set (app_secure app) ''ki_clash_refresh'' refresh))"

definition M_getPlayerId :: "('srv, 'd) app \<Rightarrow> (('srv, 'd) mobile_world, string option) eff" where
  "M_getPlayerId app = on_device (sec_get (app_secure app) ''ki_clash_player_id'')"

definition M_getDisplayName :: "('srv, 'd) app \<Rightarrow> (('srv, 'd) mobile_world, string option) eff" where
  "M_getDisplayName app = on_device (sec_get (app_secure app) ''ki_clash_display_name'')"

definition M_isLoggedIn :: "('srv, 'd) app \<Rightarrow> (('srv, 'd) mobile_world, bool) eff" where
  "M_isLoggedIn app = bindE (M_getToken app) (\<lambda>token. returnE (token \<noteq> None))"

definition M_logout :: "('srv, 'd) app \<Rightarrow> (('srv, 'd) mobile_world, unit) eff" where
  "M_logout app =
     bindE (on_device (sec_delete (app_secure app) ''ki_clash_token'')) (\<lambda>_.
     bindE (on_device (sec_delete (app_secure app) ''ki_clash_refresh'')) (\<lambda>_.
     bindE (on_device (sec_delete (app_secure app) ''ki_clash_player_id'')) (\<lambda>_.
       on_device (sec_delete (app_secure app) ''ki_clash_display_name''))))"

subsection \<open>HTTP helpers\<close>

definition M_fetch ::
  "('srv, 'd) app \<Rightarrow> http_request \<Rightarrow> (('srv, 'd) mobile_world, int \<times> (js_thrown + json)) eff" where
  "M_fetch app rq = (\<lambda>w.
     let (out, srv) = net_fetch (app_net app) rq (mw_server w);
         w' = w\<lparr>mw_server := srv, mw_log := mw_log w @ [rq]\<rparr>
     in case out of Rejected e \<Rightarrow> (Inl e, w') | Response status body \<Rightarrow> (Inr (status, body), w'))"

definition M_api_error :: "int \<Rightarrow> js_thrown + json \<Rightarrow> js_thrown" where
  "M_api_error status body =
     (let b = (case body of Inl _ \<Rightarrow> JObj [] | Inr j \<Rightarrow> j);
          m = jopt (jopt (Some b) ''error'') ''message'';
          d = jopt (Some b) ''detail''
      in Js_Error (if jtruthy m then js_str_opt m
                   else if jtruthy d then js_str_opt d
                   else ''API error: '' @ show_int status))"

definition M_apiFetch ::
  "('srv, 'd) app \<Rightarrow> string \<Rightarrow> request_init \<Rightarrow> (('srv, 'd) mobile_world, json) eff" where
  "M_apiFetch app path options =
     bindE (M_getToken app) (\<lambda>token.
     bindE (M_fetch app (mk_request (app_net app) path options token)) (\<lambda>res.
       case res of (status, body) \<Rightarrow>
         if \<not> res_ok status then throwE (M_api_error status body)
         else (\<lambda>w. (body, w))))"

subsection \<open>API methods\<close>

text \<open>A property of the answer; reading one of \<open>null\<close> throws.\<close>

definition answer :: "json \<Rightarrow> string \<Rightarrow> ('w, json option) eff" where
  "answer d k = (\<lambda>w. (jprop d k, w))"

definition M_createGuestSession :: "('srv, 'd) app \<Rightarrow> (('srv, 'd) mobile_world, json) eff" where
  "M_createGuestSession app =
     bindE (M_apiFetch app ''/api/v1/auth/guest'' post_options) (\<lambda>d.
     bindE (answer d ''access_token'') (\<lambda>access.
     bindE (answer d ''refresh_token'') (\<lambda>refresh.
     bindE (M_setTokens app access refresh) (\<lambda>_.
     bindE (answer d ''player_id'') (\<lambda>pid.
     bindE (on_device (sec_set (app_secure app) ''ki_clash_player_id'' pid)) (\<lambda>_.
     bindE (answer d ''display_name'') (\<lambda>nm.
     bindE (on_device (sec_set (app_secure app) ''ki_clash_display_name'' nm)) (\<lambda>_.
       returnE d))))))))"

definition M_ensureAuth :: "('srv, 'd) app \<Rightarrow> (('srv, 'd) mobile_world, unit) eff" where
  "M_ensureAuth app =
     bindE (M_isLoggedIn app) (\<lambda>yes.
       if \<not> yes then bindE (M_createGuestSession app) (\<lambda>_. returnE ()) else returnE ())"

definition M_createAIGame :: "('srv, 'd) app \<Rightarrow> difficulty \<Rightarrow> (('srv, 'd) mobile_world, json) eff" where
  "M_createAIGame app d = M_apiFetch app ''/api/v1/games/ai''
     (with_body ''POST'' [(''difficulty'', JStr (difficulty_str d))])"

definition M_getGameState :: "('srv, 'd) app \<Rightarrow> string \<Rightarrow> (('srv, 'd) mobile_world, json) eff" where
  "M_getGameState app gid = M_apiFetch app (''/api/v1/games/'' @ gid) no_options"

definition M_submitAction ::
  "('srv, 'd) app \<Rightarrow> string \<Rightarrow> action \<Rightarrow> (('srv, 'd) mobile_world, json) eff" where
  "M_submitAction app gid a = M_apiFetch app (''/api/v1/games/'' @ gid @ ''/action'')
     (with_body ''POST'' [(''action'', JStr (action_str a))])"

definition M_getMyProfile :: "('srv, 'd) app \<Rightarrow> (('srv, 'd) mobile_world, json) eff" where
  "M_getMyProfile app = M_apiFetch app ''/api/v1/players/me'' no_options"

definition M_createRoom :: "('srv, 'd) app \<Rightarrow> (('srv, 'd) mobile_world, json) eff" where
  "M_createRoom app = M_apiFetch app ''/api/v1/rooms'' post_options"

definition M_getRoom :: "('srv, 'd) app \<Rightarrow> string \<Rightarrow> (('srv, 'd) mobile_world, json) eff" where
  "M_getRoom app code = M_apiFetch app (''/api/v1/rooms/'' @ to_upper code) no_options"

definition M_joinRoom :: "('srv, 'd) app \<Rightarrow> string \<Rightarrow> (('srv, 'd) mobile_world, json) eff" where
  "M_joinRoom app code = M_apiFetch app (''/api/v1/rooms/'' @ to_upper code @ ''/join'') post_options"

definition M_setRoomCharacter ::
  "('srv, 'd) app \<Rightarrow> string \<Rightarrow> string \<Rightarrow> (('srv, 'd) mobile_world, json) eff" where
  "M_setRoomCharacter app code characterId =
     M_apiFetch app (''/api/v1/rooms/'' @ to_upper code @ ''/character'')
       (with_body ''PUT'' [(''character_id'', JStr characterId)])"

definition M_setRoomReady ::
  "('srv, 'd) app \<Rightarrow> string \<Rightarrow> bool \<Rightarrow> (('srv, 'd) mobile_world, json) eff" where
  "M_setRoomReady app code ready =
     M_apiFetch app (''/api/v1/rooms/'' @ to_upper code @ ''/ready'')
       (with_body ''PUT'' [(''ready'', JBool ready)])"

definition M_startRoomGame :: "('srv, 'd) app \<Rightarrow> string \<Rightarrow> (('srv, 'd) mobile_world, json) eff" where
  "M_startRoomGame app code =
     M_apiFetch app (''/api/v1/rooms/'' @ to_upper code @ ''/start'') post_options"

definition M_leaveRoom :: "('srv, 'd) app \<Rightarrow> string \<Rightarrow> (('srv, 'd) mobile_world, unit) eff" where
  "M_leaveRoom app code =
     bindE (M_apiFetch app (''/api/v1/rooms/'' @ to_upper code @ ''/leave'') post_options) (\<lambda>_. returnE ())"

definition M_getMatchHistory :: "('srv, 'd) app \<Rightarrow> (('srv, 'd) mobile_world, json) eff" where
  "M_getMatchHistory app = M_apiFetch app ''/api/v1/players/me/matches'' no_options"

definition M_getLeaderboard :: "('srv, 'd) app \<Rightarrow> int option \<Rightarrow> (('srv, 'd) mobile_world, json) eff" where
  "M_getLeaderboard app limit =
     M_apiFetch app (''/api/v1/ranked/leaderboard?limit='' @ show_int (nullish limit 50)) no_options"

definition M_getMyRank :: "('srv, 'd) app \<Rightarrow> (('srv, 'd) mobile_world, json) eff" where
  "M_getMyRank app = M_apiFetch app ''/api/v1/ranked/me'' no_options"

definition M_getAdFreeStatus :: "('srv, 'd) app \<Rightarrow> (('srv, 'd) mobile_world, json) eff" where
  "M_getAdFreeStatus app = M_apiFetch app ''/api/v1/purchases/ad-free-status'' no_options"

subsection \<open>An expired session\<close>

text \<open>The calls a mobile screen makes, and the outcomes of a sequence of them.\<close>

datatype mobile_call = CallEnsureAuth | CallApi string request_init

definition mobile_call ::
  "('srv, 'd) app \<Rightarrow> mobile_call \<Rightarrow> ('srv, 'd) mobile_world \<Rightarrow> (js_thrown + json) \<times> ('srv, 'd) mobile_world" where
  "mobile_call app c = (case c of
       CallEnsureAuth \<Rightarrow> bindE (M_ensureAuth app) (\<lambda>_. returnE JNull)
     | CallApi path options \<Rightarrow> M_apiFetch app path options)"

fun mobile_calls ::
  "('srv, 'd) app \<Rightarrow> mobile_call list \<Rightarrow> ('srv, 'd) mobile_world \<Rightarrow>
     (js_thrown + json) list \<times> ('srv, 'd) mobile_world" where
  "mobile_calls app [] w = ([], w)"
| "mobile_calls app (c # cs) w =
     (let (r, w1) = mobile_call app c w; (rs, w2) = mobile_calls app cs w1 in (r # rs, w2))"

text \<open>What the store documents for reads: a value or null, and no change.\<close>

definition reads_as :: "'d secure_store \<Rightarrow> ('d \<Rightarrow> string \<Rightarrow> string option) \<Rightarrow> bool" where
  "reads_as store content \<longleftrightarrow> (\<forall>k d. sec_get store k d = (Inr (content d k), d))"

lemma M_getToken_reads:
  "reads_as (app_secure app) content \<Longrightarrow>
   M_getToken app w = (Inr (content (mw_device w) ''ki_clash_token''), w)"
  by (simp add: M_getToken_def on_device_def reads_as_def)

definition refuses :: "'srv backend \<Rightarrow> string \<Rightarrow> bool" where
  "refuses backend t \<longleftrightarrow> (\<forall>rq srv. rq_headers rq ''Authorization'' = Some (''Bearer '' @ t) \<longrightarrow>
     (\<exists>body srv'. backend rq srv = (Response 401 body, srv')))"

lemma bearer_header:
  "t \<noteq> [] \<Longrightarrow> rq_headers (mk_request net path options (Some t)) ''Authorization'' = Some (''Bearer '' @ t)"
  by (simp add: mk_request_def request_headers_def)

lemma M_apiFetch_refused:
  assumes "reads_as (app_secure app) content" "refuses (net_fetch (app_net app)) t" "t \<noteq> []"
    and "content (mw_device w) ''ki_clash_token'' = Some t"
  shows "\<exists>body. fst (M_apiFetch app path options w) = Inl (M_api_error 401 body) \<and>
    mw_device (snd (M_apiFetch app path options w)) = mw_device w \<and>
    mw_log (snd (M_apiFetch app path options w)) =
      mw_log w @ [mk_request (app_net app) path options (Some t)]"
proof -
  let ?rq = "mk_request (app_net app) path options (Some t)"
  obtain body srv' where "net_fetch (app_net app) ?rq (mw_server w) = (Response 401 body, srv')"
    using assms(2) bearer_header [OF assms(3), of "app_net app" path options]
    unfolding refuses_def by blast
  then have "M_fetch app ?rq w = (Inr (401, body), w\<lparr>mw_server := srv', mw_log := mw_log w @ [?rq]\<rparr>)"
    by (simp add: M_fetch_def)
  then show ?thesis
    using M_getToken_reads [OF assms(1), of w] assms(4)
    by (intro exI [of _ body]) (simp add: M_apiFetch_def bindE_def res_ok_def throwE_def)
qed

lemma M_ensureAuth_kept:
  assumes "reads_as (app_secure app) content" "content (mw_device w) ''ki_clash_token'' = Some t"
  shows "M_ensureAuth app w = (Inr (), w)"
  using M_getToken_reads [OF assms(1), of w] assms(2)
  by (simp add: M_ensureAuth_def M_isLoggedIn_def bindE_def)

text \<open>The requests of a sequence of calls made with one token.\<close>

definition requests_with :: "'srv net \<Rightarrow> string \<Rightarrow> mobile_call list \<Rightarrow> http_request list" where
  "requests_with net t cs = concat (map (\<lambda>c. case c of
       CallEnsureAuth \<Rightarrow> [] | CallApi path options \<Rightarrow> [mk_request net path options (Some t)]) cs)"

lemma mobile_call_refused:
  assumes "reads_as (app_secure app) content" "refuses (net_fetch (app_net app)) t" "t \<noteq> []"
    and "content (mw_device w) ''ki_clash_token'' = Some t"
  shows "mw_device (snd (mobile_call app c w)) = mw_device w \<and>
    mw_log (snd (mobile_call app c w)) = mw_log w @ requests_with (app_net app) t [c] \<and>
    (case c of CallEnsureAuth \<Rightarrow> fst (mobile_call app c w) = Inr JNull
     | CallApi path options \<Rightarrow> \<exists>body. fst (mobile_call app c w) = Inl (M_api_error 401 body))"
proof (cases c)
  case CallEnsureAuth
  then show ?thesis
    using M_ensureAuth_kept [OF assms(1,4)] by (simp add: mobile_call_def bindE_def requests_with_def)
next
  case (CallApi path options)
  then show ?thesis
    using M_apiFetch_refused [OF assms, of path options] by (simp add: mobile_call_def requests_with_def)
qed

text \<open>
  Claim C23: an expired token is never healed on the phone.  While the backend answers 401 to
  the stored token, \<open>ensureAuth\<close> succeeds without a request and every other call fails, in
  any order and however often they are repeated; nothing on the device changes and the guest
  sign-in that would repair it is never tried.
\<close>

theorem mobile_expired_session_is_permanent:
  assumes "reads_as (app_secure app) content" "refuses (net_fetch (app_net app)) t" "t \<noteq> []"
    and "content (mw_device w) ''ki_clash_token'' = Some t"
  shows "mw_device (snd (mobile_calls app cs w)) = mw_device w \<and>
    mw_log (snd (mobile_calls app cs w)) = mw_log w @ requests_with (app_net app) t cs \<and>
    list_all2 (\<lambda>c r. case c of CallEnsureAuth \<Rightarrow> r = Inr JNull
                     | CallApi path options \<Rightarrow> \<exists>body. r = Inl (M_api_error 401 body))
      cs (fst (mobile_calls app cs w))"
  using assms(4)
proof (induction cs arbitrary: w)
  case Nil
  then show ?case by (simp add: requests_with_def)
next
  case (Cons c cs)
  note c = mobile_call_refused [OF assms(1-3) Cons.prems, of c]
  have "requests_with (app_net app) t (c # cs) = requests_with (app_net app) t [c] @ requests_with (app_net app) t cs"
    by (simp add: requests_with_def)
  with Cons.IH [of "snd (mobile_call app c w)"] Cons.prems c show ?case by (simp add: case_prod_beta)
qed

definition map_store :: "local_storage secure_store" where
  "map_store = \<lparr>sec_get = (\<lambda>k d. (Inr (st_get d k), d)),
     sec_set = (\<lambda>k v d. (case v of
        Some (JStr s) \<Rightarrow> (Inr (), st_put k s d)
      | _ \<Rightarrow> (Inl (Js_Error ''Invalid value provided to SecureStore''), d))),
     sec_delete = (\<lambda>k d. (Inr (), st_remove k d))\<rparr>"

definition expired_app :: "(unit, local_storage) app" where
  "expired_app = \<lparr>app_net = \<lparr>net_env = None, net_fetch = (\<lambda>rq s.
       (if rq_headers rq ''Authorization'' = Some ''Bearer old''
        then Response 401 (Inr (JObj [(''detail'', JStr ''Invalid or expired token'')]))
        else Response 200 (Inr (JObj [(''access_token'', JStr ''new'')])), s))\<rparr>,
     app_secure = map_store\<rparr>"

lemma mobile_expired_session_is_permanent_witness:
  "\<exists>body. fst (mobile_calls expired_app [CallEnsureAuth, CallApi ''/api/v1/players/me'' no_options]
      \<lparr>mw_device = [''ki_clash_token'' \<mapsto> ''old''], mw_server = (), mw_log = []\<rparr>) =
     [Inr JNull, Inl (M_api_error 401 body)]"
proof -
  let ?w = "\<lparr>mw_device = [''ki_clash_token'' \<mapsto> ''old''], mw_server = (), mw_log = []\<rparr> :: (unit, local_storage) mobile_world"
  have a: "reads_as (app_secure expired_app) st_get"
    by (simp add: reads_as_def expired_app_def map_store_def)
  have b: "refuses (net_fetch (app_net expired_app)) ''old''"
    by (simp add: refuses_def expired_app_def)
  have c: "st_get (mw_device ?w) ''ki_clash_token'' = Some ''old''" by (simp add: st_get_def)
  have d: "''old'' \<noteq> ([] :: string)" by simp
  note h = mobile_expired_session_is_permanent [where app = expired_app and content = st_get and t = "''old''"
      and w = ?w and cs = "[CallEnsureAuth, CallApi ''/api/v1/players/me'' no_options]", OF a b d c]
  then show ?thesis by (auto simp: list_all2_Cons1)
qed

text \<open>
  The two clients read the server's errors differently.  On the \<open>detail\<close> text the
  server's exceptions answer with, the phone throws that text and the web client only the
  status; on the \<open>error.message\<close> form both throw the message.
\<close>

theorem clients_read_errors_differently:
  "M_api_error status (Inr (JObj [(''detail'', JStr (c # cs))])) = Js_Error (c # cs) \<and>
   api_error status (Inr (JObj [(''detail'', JStr (c # cs))])) = Js_Error (''API error: '' @ show_int status) \<and>
   M_api_error status (Inr (JObj [(''error'', JObj [(''message'', JStr (c # cs))])])) = Js_Error (c # cs) \<and>
   api_error status (Inr (JObj [(''error'', JObj [(''message'', JStr (c # cs))])])) = Js_Error (c # cs)"
  by (simp add: M_api_error_def api_error_def)

end
