(* ===== verification/Mobile_Use_Game.thy ===== *)
theory Mobile_Use_Game
  imports Use_Game
begin

text \<open>
  The AI-match hook of the phone, \<open>mobile/src/hooks/useGame.ts\<close>, as its screen
  \<open>mobile/app/game.tsx\<close> drives it, and its comparison with the web hook.  A handler
  is split at its awaits as in \<open>Use_Game\<close>; nothing happens between
  \<open>await ensureAuth()\<close> and \<open>await getDisplayName()\<close>, which settle as one event.
\<close>

datatype m_phase =
  MCharacterSelect | MLoading | MPlaying | MRevealing | MRoundEnd | MMatchEnd

datatype m_await = MAwaitName | MAwaitCreate difficulty | MAwaitSubmit string action

record m_game =
  mg_phase :: m_phase
  mg_gameState :: "game_state option"
  mg_lastTurn :: "turn_result option"
  mg_lastRound :: "round_result option"
  mg_matchResult :: "match_result option"
  mg_playerName :: string
  mg_playerCharacterId :: "string option"
  mg_aiCharacterId :: "string option"
  mg_error :: "string option"
  mg_difficulty :: difficulty
  mg_awaiting :: "m_await list"

definition m_game_init :: m_game where
  "m_game_init = \<lparr>mg_phase = MCharacterSelect, mg_gameState = None, mg_lastTurn = None,
     mg_lastRound = None, mg_matchResult = None, mg_playerName = ''You'',
     mg_playerCharacterId = None, mg_aiCharacterId = None, mg_error = None,
     mg_difficulty = Easy, mg_awaiting = []\<rparr>"

definition M_initGame :: "difficulty \<Rightarrow> m_game \<Rightarrow> m_game" where
  "M_initGame d s = s\<lparr>mg_difficulty := d, mg_phase := MCharacterSelect\<rparr>"

definition M_start_failed :: "js_thrown \<Rightarrow> m_game \<Rightarrow> m_game" where
  "M_start_failed e s = s\<lparr>mg_error := Some (message_or ''Failed to start game'' e)\<rparr>"

definition M_startGame :: "string \<Rightarrow> real \<Rightarrow> m_game \<Rightarrow> m_game" where
  "M_startGame characterId rnd s =
     (let s1 = s\<lparr>mg_error := None, mg_phase := MLoading, mg_playerCharacterId := Some characterId\<rparr>
      in case M_getRandomCharacterExcluding characterId rnd of
           None \<Rightarrow> M_start_failed (Js_Error ''Cannot read properties of undefined (reading 'id')'') s1
         | Some aiChar \<Rightarrow>
             s1\<lparr>mg_aiCharacterId := Some (ch_id aiChar), mg_awaiting := mg_awaiting s @ [MAwaitName]\<rparr>)"

definition M_startGame_named :: "js_thrown + string option \<Rightarrow> m_game \<Rightarrow> m_game" where
  "M_startGame_named out s =
     (case out of
        Inl e \<Rightarrow> M_start_failed e s
      | Inr name \<Rightarrow>
          (let s1 = (if truthy name then s\<lparr>mg_playerName := the name\<rparr> else s)
           in s1\<lparr>mg_awaiting := mg_awaiting s @ [MAwaitCreate (mg_difficulty s)]\<rparr>))"

definition M_startGame_created :: "js_thrown + game_state \<Rightarrow> m_game \<Rightarrow> m_game" where
  "M_startGame_created out s =
     (case out of
        Inl e \<Rightarrow> M_start_failed e s
      | Inr st \<Rightarrow> s\<lparr>mg_gameState := Some st, mg_lastTurn := None, mg_lastRound := None,
          mg_matchResult := None, mg_phase := MPlaying\<rparr>)"

definition M_playAction :: "action \<Rightarrow> m_game \<Rightarrow> m_game" where
  "M_playAction a s =
     (case mg_gameState s of
        None \<Rightarrow> s
      | Some gs \<Rightarrow> s\<lparr>mg_error := None, mg_phase := MLoading,
                      mg_awaiting := mg_awaiting s @ [MAwaitSubmit (game_id gs) a]\<rparr>)"

definition M_playAction_settled :: "js_thrown + submit_action_response \<Rightarrow> m_game \<Rightarrow> m_game" where
  "M_playAction_settled out s =
     (case out of
        Inl e \<Rightarrow> s\<lparr>mg_error := Some (message_or ''Failed to submit action'' e), mg_phase := MPlaying\<rparr>
      | Inr res \<Rightarrow>
          (let s1 = s\<lparr>mg_gameState := Some (sa_game_state res), mg_lastTurn := Some (sa_turn_result res)\<rparr>
           in case sa_match_result res of
                Some mr \<Rightarrow> s1\<lparr>mg_matchResult := Some mr, mg_lastRound := sa_round_result res,
                              mg_phase := MMatchEnd\<rparr>
              | None \<Rightarrow>
                  (case sa_round_result res of
                     Some rr \<Rightarrow> s1\<lparr>mg_lastRound := Some rr, mg_phase := MRoundEnd\<rparr>
                   | None \<Rightarrow> s1\<lparr>mg_phase := MRevealing\<rparr>)))"

definition M_continueFromReveal :: "m_game \<Rightarrow> m_game" where
  "M_continueFromReveal s = s\<lparr>mg_lastTurn := None, mg_phase := MPlaying\<rparr>"

definition M_continueFromRound :: "m_game \<Rightarrow> m_game" where
  "M_continueFromRound s = s\<lparr>mg_lastTurn := None, mg_lastRound := None, mg_phase := MPlaying\<rparr>"

subsection \<open>Events\<close>

datatype m_event =
    MInit difficulty
  | MStart string real
  | MNamed "js_thrown + string option"
  | MCreated "js_thrown + game_state"
  | MPlay action
  | MSubmitted "js_thrown + submit_action_response"
  | MContinueReveal
  | MContinueRound

fun m_game_step :: "m_game \<Rightarrow> m_event \<Rightarrow> m_game" where
  "m_game_step s (MInit d) = M_initGame d s"
| "m_game_step s (MStart c r) = M_startGame c r s"
| "m_game_step s (MNamed out) =
     (case mg_awaiting s of MAwaitName # ws \<Rightarrow> M_startGame_named out (s\<lparr>mg_awaiting := ws\<rparr>) | _ \<Rightarrow> s)"
| "m_game_step s (MCreated out) =
     (case mg_awaiting s of MAwaitCreate d # ws \<Rightarrow> M_startGame_created out (s\<lparr>mg_awaiting := ws\<rparr>) | _ \<Rightarrow> s)"
| "m_game_step s (MPlay a) = M_playAction a s"
| "m_game_step s (MSubmitted out) =
     (case mg_awaiting s of MAwaitSubmit g a # ws \<Rightarrow> M_playAction_settled out (s\<lparr>mg_awaiting := ws\<rparr>) | _ \<Rightarrow> s)"
| "m_game_step s MContinueReveal = M_continueFromReveal s"
| "m_game_step s MContinueRound = M_continueFromRound s"

text \<open>
  What the screen offers: each control is rendered in one phase only; \<open>initGame\<close> runs
  when the route's difficulty changes.
\<close>

fun m_game_enabled :: "m_game \<Rightarrow> m_event \<Rightarrow> bool" where
  "m_game_enabled s (MStart c r) =
     (mg_phase s = MCharacterSelect \<and> c \<in> set (map ch_id M_CHARACTERS) \<and> 0 \<le> r \<and> r < 1)"
| "m_game_enabled s (MPlay a) = (mg_phase s = MPlaying \<and> mg_gameState s \<noteq> None)"
| "m_game_enabled s MContinueReveal = (mg_phase s = MRevealing)"
| "m_game_enabled s MContinueRound = (mg_phase s = MRoundEnd \<and> mg_lastRound s \<noteq> None)"
| "m_game_enabled s _ = True"

subsection \<open>The web hook's view of a phone's match\<close>

fun web_phase :: "m_phase \<Rightarrow> game_phase" where
  "web_phase MCharacterSelect = GCharacterSelect"
| "web_phase MLoading = GLoading"
| "web_phase MPlaying = GPlaying"
| "web_phase MRevealing = GRevealing"
| "web_phase MRoundEnd = GRoundEnd"
| "web_phase MMatchEnd = GMatchEnd"

fun web_event :: "m_event \<Rightarrow> game_event" where
  "web_event (MInit d) = SelectDifficulty d"
| "web_event (MStart c r) = StartGame c r"
| "web_event (MNamed out) = AuthSettled out"
| "web_event (MCreated out) = CreateSettled out"
| "web_event (MPlay a) = PlayAction a"
| "web_event (MSubmitted out) = SubmitSettled out"
| "web_event MContinueReveal = ContinueFromReveal"
| "web_event MContinueRound = ContinueFromRound"

fun same_wait :: "game_await \<Rightarrow> m_await \<Rightarrow> bool" where
  "same_wait (AwaitAuth c a) w = (w = MAwaitName)"
| "same_wait (AwaitCreate c a d) w = (w = MAwaitCreate d)"
| "same_wait (AwaitSubmit gs a) w = (w = MAwaitSubmit (game_id gs) a)"

text \<open>
  The same match on both clients: everything but the player's name and, outside the
  screens that show it, the last turn (which the phone forgets on continuing).
\<close>

definition same_match :: "game \<Rightarrow> m_game \<Rightarrow> bool" where
  "same_match g m \<longleftrightarrow>
     g_phase g = web_phase (mg_phase m) \<and> g_gameState g = mg_gameState m \<and>
     g_lastRound g = mg_lastRound m \<and> g_matchResult g = mg_matchResult m \<and>
     g_playerCharacterId g = mg_playerCharacterId m \<and> g_aiCharacterId g = mg_aiCharacterId m \<and>
     g_error g = mg_error m \<and> g_difficulty g = mg_difficulty m \<and>
     list_all2 same_wait (g_awaiting g) (mg_awaiting m) \<and>
     (mg_phase m \<in> {MRevealing, MRoundEnd, MMatchEnd} \<longrightarrow> g_lastTurn g = mg_lastTurn m)"

lemma web_phase_inj [simp]: "(web_phase p = web_phase q) = (p = q)"
  by (cases p; cases q) simp_all

lemma pick_random_map: "map_option f (pick_random r xs) = pick_random r (map f xs)"
  by (auto simp: pick_random_def Let_def)

lemma filter_ids: "map f (filter (\<lambda>c. f c \<noteq> i) xs) = filter (\<lambda>k. k \<noteq> i) (map f xs)"
  by (induction xs) auto

lemma same_opponent:
  "map_option ch_id (M_getRandomCharacterExcluding i r) = map_option ch_id (getRandomCharacterExcluding i r)"
  by (simp add: M_getRandomCharacterExcluding_def getRandomCharacterExcluding_def
      pick_random_map filter_ids CHARACTERS_ids M_CHARACTERS_ids)

fun match_event :: "m_event \<Rightarrow> bool" where
  "match_event (MInit d) = False"
| "match_event (MNamed out) = (\<exists>nm. out = Inr nm)"
| "match_event (MCreated out) = (\<exists>st. out = Inr st)"
| "match_event _ = True"

subsection \<open>The phone's match is the web's match\<close>

text \<open>An event of a match that starts: offered by the screen, and not a failed start.\<close>

definition m_match_ok :: "m_game \<Rightarrow> m_event \<Rightarrow> bool" where
  "m_match_ok m e \<longleftrightarrow> m_game_enabled m e \<and> match_event e"

lemma same_match_start:
  assumes "same_match g m" "0 \<le> r" "r < 1"
  shows "same_match (startGame c r g) (M_startGame c r m)"
proof -
  obtain x where x: "getRandomCharacterExcluding c r = Some x"
    using ai_character [OF assms(2,3)] by metis
  moreover from x same_opponent [of c r] obtain y
    where "M_getRandomCharacterExcluding c r = Some y" "ch_id y = ch_id x"
    by (cases "M_getRandomCharacterExcluding c r") auto
  ultimately show ?thesis
    using assms(1) by (auto simp: startGame_def M_startGame_def same_match_def list_all2_appendI)
qed

lemma same_match_named:
  "same_match g m \<Longrightarrow> same_match (startGame_authed c a (Inr nm) g) (M_startGame_named (Inr nm) m)"
  by (simp add: same_match_def startGame_authed_def M_startGame_named_def Let_def list_all2_appendI)

lemma same_match_created:
  "same_match g m \<Longrightarrow> same_match (startGame_created c a (Inr st) g) (M_startGame_created (Inr st) m)"
  by (simp add: same_match_def startGame_created_def M_startGame_created_def track_def)

lemma same_match_submitted:
  assumes "same_match g m"
  shows "same_match (playAction_settled gs a out g) (M_playAction_settled out m)"
proof (cases out)
  case (Inl e)
  with assms show ?thesis by (simp add: same_match_def playAction_settled_def M_playAction_settled_def)
next
  case (Inr res)
  show ?thesis
  proof (cases "sa_match_result res")
    case None
    with assms Inr show ?thesis
      by (cases "sa_round_result res")
        (simp_all add: same_match_def playAction_settled_def M_playAction_settled_def track_def Let_def)
  next
    case (Some mr)
    with assms Inr show ?thesis
      by (simp add: same_match_def playAction_settled_def M_playAction_settled_def track_def Let_def)
  qed
qed

text \<open>A settling event finds the same wait at the head of both queues, or none.\<close>

lemma same_match_tail:
  assumes "same_match g m"
  obtains "g_awaiting g = []" "mg_awaiting m = []"
  | v vs w ws where "g_awaiting g = v # vs" "mg_awaiting m = w # ws" "same_wait v w"
      "same_match (g\<lparr>g_awaiting := vs\<rparr>) (m\<lparr>mg_awaiting := ws\<rparr>)"
  using assms by (cases "g_awaiting g"; cases "mg_awaiting m") (auto simp: same_match_def)

lemma same_match_step:
  "same_match g m \<Longrightarrow> m_match_ok m e \<Longrightarrow> same_match (game_step g (web_event e)) (m_game_step m e)"
proof (cases e)
  case (MStart c r)
  assume "same_match g m" "m_match_ok m e"
  with MStart show ?thesis by (simp add: m_match_ok_def same_match_start)
next
  case (MPlay a)
  assume "same_match g m"
  with MPlay show ?thesis
    by (auto simp: playAction_def M_playAction_def same_match_def list_all2_appendI split: option.split)
next
  case (MNamed out)
  assume s: "same_match g m" and "m_match_ok m e"
  with MNamed obtain nm where o: "out = Inr nm" by (auto simp: m_match_ok_def)
  show ?thesis
  proof (rule same_match_tail [OF s])
    fix v vs w ws assume "g_awaiting g = v # vs" "mg_awaiting m = w # ws" "same_wait v w"
      "same_match (g\<lparr>g_awaiting := vs\<rparr>) (m\<lparr>mg_awaiting := ws\<rparr>)"
    with s MNamed o show ?thesis by (cases v) (simp_all add: same_match_named)
  qed (simp add: MNamed s)
next
  case (MCreated out)
  assume s: "same_match g m" and "m_match_ok m e"
  with MCreated obtain st where o: "out = Inr st" by (auto simp: m_match_ok_def)
  show ?thesis
  proof (rule same_match_tail [OF s])
    fix v vs w ws assume "g_awaiting g = v # vs" "mg_awaiting m = w # ws" "same_wait v w"
      "same_match (g\<lparr>g_awaiting := vs\<rparr>) (m\<lparr>mg_awaiting := ws\<rparr>)"
    with s MCreated o show ?thesis by (cases v) (simp_all add: same_match_created)
  qed (simp add: MCreated s)
next
  case (MSubmitted out)
  assume s: "same_match g m"
  show ?thesis
  proof (rule same_match_tail [OF s])
    fix v vs w ws assume "g_awaiting g = v # vs" "mg_awaiting m = w # ws" "same_wait v w"
      "same_match (g\<lparr>g_awaiting := vs\<rparr>) (m\<lparr>mg_awaiting := ws\<rparr>)"
    with s MSubmitted show ?thesis by (cases v) (simp_all add: same_match_submitted)
  qed (simp add: MSubmitted s)
qed (auto simp: m_match_ok_def same_match_def continueFromReveal_def M_continueFromReveal_def
    continueFromRound_def M_continueFromRound_def)

lemma same_match_enabled:
  "same_match g m \<Longrightarrow> m_match_ok m e \<Longrightarrow> game_enabled g (web_event e)"
  by (cases e) (auto simp: m_match_ok_def same_match_def M_CHARACTERS_ids CHARACTERS_ids simp del: set_map)

interpretation mg: simulation m_game_step game_step web_event m_match_ok game_enabled same_match
  by unfold_locales (rule same_match_step same_match_enabled; assumption)+

lemma same_match_chosen:
  "same_match (game_step game_init (SelectDifficulty d)) (m_game_step m_game_init (MInit d))"
  by (simp add: same_match_def selectDifficulty_def M_initGame_def game_init_def m_game_init_def track_def)

text \<open>The main sections of \<open>mobile/app/game.tsx\<close>, in its order.\<close>

datatype m_section = SecSelect | SecLoading | SecPlaying | SecReveal | SecRound | SecMatchEnd

definition m_game_sections :: "m_game \<Rightarrow> m_section list" where
  "m_game_sections s =
     (if mg_phase s = MCharacterSelect then [SecSelect] else []) @
     (if mg_phase s = MLoading then [SecLoading] else []) @
     (if mg_phase s = MPlaying \<and> mg_gameState s \<noteq> None then [SecPlaying] else []) @
     (if mg_phase s = MRevealing then [SecReveal] else []) @
     (if mg_phase s = MRoundEnd \<and> mg_lastRound s \<noteq> None then [SecRound] else []) @
     (if mg_phase s = MMatchEnd \<and> mg_matchResult s \<noteq> None then [SecMatchEnd] else [])"

lemma same_match_section:
  "same_match g m \<Longrightarrow> game_inv g \<Longrightarrow> length (m_game_sections m) = 1"
  by (cases "mg_phase m") (auto simp: same_match_def game_inv_def m_game_sections_def in_match_def)

text \<open>
  Claim C22: a match that starts on the phone is the web client's match.  Any sequence of taps and answers
  the phone's screen allows in which signing in and creating the match succeed (later requests may fail)
  is a sequence the web page allows, and leaves the two hooks with the same phase, engine state, round and
  match results, fighters, difficulty, error and pending request, and with the same last turn in the
  phases that show it; the phone's screen shows exactly one section.  Not compared are the player's name,
  which the hooks take from different sources, the analytics, and runs in which the start fails: there
  the hooks differ (\<open>phone_start_failure_strands\<close>).
\<close>

theorem phone_match_is_web_match:
  assumes "legal m_match_ok m_game_step (m_game_step m_game_init (MInit d)) es"
  shows "same_match (run game_step game_init (SelectDifficulty d # map web_event es))
           (run m_game_step m_game_init (MInit d # es)) \<and>
     legal game_enabled game_step game_init (SelectDifficulty d # map web_event es) \<and>
     length (m_game_sections (run m_game_step m_game_init (MInit d # es))) = 1"
proof -
  have r: "same_match (run game_step game_init (SelectDifficulty d # map web_event es))
      (run m_game_step m_game_init (MInit d # es))"
    and l: "legal game_enabled game_step game_init (SelectDifficulty d # map web_event es)"
    using mg.sim_run [OF same_match_chosen assms] by (auto simp: game_init_def)
  from gm.inv_run [OF l] r l show ?thesis by (blast intro: same_match_section)
qed

lemma M_first_ai_of_taeyang:
  "map_option ch_id (M_getRandomCharacterExcluding ''taeyang'' 0) = Some ''haneul''"
  by (simp only: same_opponent first_ai_of_taeyang)

lemma M_startGame_taeyang:
  "M_startGame ''taeyang'' 0 s = s\<lparr>mg_error := None, mg_phase := MLoading,
     mg_playerCharacterId := Some ''taeyang'', mg_aiCharacterId := Some ''haneul'',
     mg_awaiting := mg_awaiting s @ [MAwaitName]\<rparr>"
  using M_first_ai_of_taeyang by (auto simp: M_startGame_def Let_def split: option.splits)

lemma phone_match_is_web_match_witness:
  "g_phase (run game_step game_init (SelectDifficulty Hard # map web_event
      [MStart ''taeyang'' 0, MNamed (Inr None), MCreated (Inr (start_match ''g'' ''ai_hard'')), MPlay Charge])) = GLoading"
proof -
  let ?es = "[MStart ''taeyang'' 0, MNamed (Inr None), MCreated (Inr (start_match ''g'' ''ai_hard'')), MPlay Charge]"
  have l: "legal m_match_ok m_game_step (m_game_step m_game_init (MInit Hard)) ?es"
    by (simp add: m_match_ok_def M_startGame_taeyang M_startGame_named_def M_startGame_created_def
        M_initGame_def m_game_init_def M_CHARACTERS_ids roster_ids_def del: set_map)
  have "mg_phase (run m_game_step m_game_init (MInit Hard # ?es)) = MLoading"
    by (simp add: M_startGame_taeyang M_startGame_named_def M_startGame_created_def
        M_initGame_def m_game_init_def M_playAction_def)
  then show ?thesis using phone_match_is_web_match [OF l] by (simp add: same_match_def)
qed

text \<open>
  When the phone's match cannot be created (no session, no connection, a refusal), the
  screen stays on the spinner: nothing the screen offers and no answer changes the state again,
  where the web client returns to its lobby.
\<close>

theorem phone_start_failure_strands:
  assumes "mg_phase m = MLoading" "mg_awaiting m = [w]"
    and "e = MNamed (Inl x) \<and> w = MAwaitName \<or> e = MCreated (Inl x) \<and> w = MAwaitCreate d"
    and "legal (\<lambda>s e. m_game_enabled s e \<and> (\<forall>d. e \<noteq> MInit d)) m_game_step (m_game_step m e) es"
  shows "run m_game_step (m_game_step m e) es = m_game_step m e \<and>
     m_game_sections (m_game_step m e) = [SecLoading] \<and> mg_error (m_game_step m e) \<noteq> None \<and>
     g_phase (startGame_authed c a (Inl x) g) = GLobby \<and> g_phase (startGame_created c a (Inl x) g) = GLobby"
proof -
  let ?s = "m_game_step m e"
  have s: "mg_phase ?s = MLoading" "mg_awaiting ?s = []" "mg_error ?s \<noteq> None"
    using assms(1-3) by (auto simp: M_startGame_named_def M_startGame_created_def M_start_failed_def)
  have "legal (\<lambda>s e. m_game_enabled s e \<and> (\<forall>d. e \<noteq> MInit d)) m_game_step s es \<Longrightarrow>
      mg_phase s = MLoading \<Longrightarrow> mg_awaiting s = [] \<Longrightarrow> run m_game_step s es = s" for s
  proof (induction es arbitrary: s)
    case (Cons e es)
    then have "m_game_step s e = s" by (cases e) auto
    with Cons show ?case by simp
  qed simp
  with s assms(4) show ?thesis
    by (simp add: m_game_sections_def startGame_authed_def startGame_created_def start_failed_def)
qed

lemma phone_start_failure_strands_witness:
  "m_game_sections (m_game_step (m_game_init\<lparr>mg_phase := MLoading, mg_awaiting := [MAwaitName]\<rparr>)
      (MNamed (Inl (Js_Error ''Network request failed'')))) = [SecLoading]"
  by (rule phone_start_failure_strands [THEN conjunct2, THEN conjunct1,
        of _ MAwaitName _ "Js_Error ''Network request failed''" Easy "[MNamed (Inr None)]"])
    (simp_all add: M_startGame_named_def M_start_failed_def m_game_init_def)

end
