(* ===== verification/Mobile_PvP.thy ===== *)
theory Mobile_PvP
  imports Use_PvP
begin

text \<open>
  The PvP hook of the phone, \<open>mobile/src/hooks/usePvP.ts\<close>, and its comparison with
  the web hook.  It declares the web hook's state, so the record \<open>pvp\<close> and the
  message types are shared; its handlers are its own.
\<close>

subsection \<open>Game connection\<close>

text \<open>\<open>errorMessage\<close> of \<open>mobile/src/lib/analytics.ts\<close>.\<close>

definition errorMessage :: "js_thrown \<Rightarrow> string" where
  "errorMessage e = (case e of Js_Error m \<Rightarrow> m | Js_Value v \<Rightarrow> v)"

definition M_connectToGame :: "string \<Rightarrow> string \<Rightarrow> pvp \<Rightarrow> pvp" where
  "M_connectToGame gameId token s =
     (let (ws, s1) = open_socket (ToGame gameId token) s in s1\<lparr>gameWs := Some ws\<rparr>)"

definition M_game_onopen :: "string \<Rightarrow> pvp \<Rightarrow> pvp" where
  "M_game_onopen gameId s = ptrack ''mobile_ws_game_open'' [(''game_id'', JStr gameId)] s"

fun M_game_onmessage :: "nat \<Rightarrow> string \<Rightarrow> game_msg \<Rightarrow> pvp \<Rightarrow> pvp" where
  "M_game_onmessage ws gameId (WaitingForAction turn rnd p1_ki p2_ki limit) s =
     s\<lparr>pv_gameState := Some \<lparr>ps_turn = turn, ps_round_number = rnd, ps_your_ki = p1_ki,
         ps_opponent_ki = p2_ki, ps_time_limit = limit\<rparr>, pv_phase := PPlaying\<rparr>"
| "M_game_onmessage ws gameId ActionConfirmed s = s\<lparr>pv_phase := PWaiting\<rparr>"
| "M_game_onmessage ws gameId (TurnResultMsg d) s = s\<lparr>pv_turnResult := Some d, pv_phase := PRevealing\<rparr>"
| "M_game_onmessage ws gameId (RoundResultMsg d) s =
     (let s1 = s\<lparr>pv_roundResult := Some d\<rparr>;
          s2 = (if rd_winner d = ''you'' then s1\<lparr>roundsWonYou := roundsWonYou s1 + 1\<rparr>
                else if rd_winner d = ''opponent'' then s1\<lparr>roundsWonOpponent := roundsWonOpponent s1 + 1\<rparr>
                else s1)
      in s2\<lparr>pv_phase := PRoundEnd\<rparr>)"
| "M_game_onmessage ws gameId (MatchResultMsg d) s =
     (ws_close ws ((ptrack ''match_finish''
        [(''mode'', JStr ''pvp''), (''game_id'', JStr gameId), (''winner'', JStr (md_winner d)),
         (''rounds_won_p1'', JNum (md_rounds_won_p1 d)), (''rounds_won_p2'', JNum (md_rounds_won_p2 d)),
         (''total_turns'', JNum (md_total_turns d))]
        (s\<lparr>pv_matchResult := Some d\<rparr>))\<lparr>pv_phase := PMatchEnd\<rparr>))\<lparr>gameWs := None\<rparr>"
| "M_game_onmessage ws gameId (OpponentDisconnected t) s =
     s\<lparr>pv_error := Some (''Opponent disconnected. Waiting '' @ show_int t @ ''s...'')\<rparr>"
| "M_game_onmessage ws gameId OpponentReconnected s = s\<lparr>pv_error := None\<rparr>"
| "M_game_onmessage ws gameId (ErrorMsg m) s =
     ptrack ''mobile_ws_game_error'' [(''game_id'', JStr gameId), (''message'', JStr m)] (s\<lparr>pv_error := Some m\<rparr>)"
| "M_game_onmessage ws gameId GamePong s = s"
| "M_game_onmessage ws gameId OtherGameMsg s = s"

definition M_game_onerror :: "string \<Rightarrow> pvp \<Rightarrow> pvp" where
  "M_game_onerror gameId s =
     (ptrack ''mobile_ws_game_error'' [(''game_id'', JStr gameId)]
        (s\<lparr>pv_error := Some ''Game connection error''\<rparr>))\<lparr>pv_phase := PLobby\<rparr>"

definition close_props :: "int \<Rightarrow> string \<Rightarrow> (string \<times> json) list" where
  "close_props code reason = [(''code'', JNum code), (''reason'', if reason = [] then JNull else JStr reason)]"

definition M_game_onclose :: "string \<Rightarrow> int \<Rightarrow> string \<Rightarrow> pvp \<Rightarrow> pvp" where
  "M_game_onclose gameId code reason s =
     (ptrack ''mobile_ws_game_close'' ((''game_id'', JStr gameId) # close_props code reason) s)\<lparr>gameWs := None\<rparr>"

subsection \<open>Matchmaking\<close>

definition M_findMatch :: "pvp \<Rightarrow> pvp" where
  "M_findMatch s = s\<lparr>pv_error := None, pv_awaiting := pv_awaiting s @ [AwaitFind]\<rparr>"

definition pvp_failed :: "string \<Rightarrow> (string \<times> json) list \<Rightarrow> js_thrown \<Rightarrow> pvp \<Rightarrow> pvp" where
  "pvp_failed fallback props e s =
     (let message = errorMessage e
      in (ptrack ''mobile_pvp_error'' (props @ [(''message'', JStr message)])
           (s\<lparr>pv_error := Some (or_else (Some message) fallback)\<rparr>))\<lparr>pv_phase := PLobby\<rparr>)"

definition M_findMatch_authed :: "js_thrown + string option \<Rightarrow> pvp \<Rightarrow> pvp" where
  "M_findMatch_authed out s =
     (case out of
        Inl e \<Rightarrow> pvp_failed ''Failed to find match'' [(''surface'', JStr ''quick_match'')] e s
      | Inr token \<Rightarrow>
          if \<not> truthy token then s\<lparr>pv_error := Some ''Not authenticated''\<rparr>
          else (let s1 = ptrack ''pvp_quick_match_started'' [(''client'', JStr ''mobile'')] (s\<lparr>pv_phase := PSearching\<rparr>);
                    (ws, s2) = open_socket (ToMatchmaking (the token)) s1
                in s2\<lparr>matchmakingWs := Some ws\<rparr>))"

definition M_mm_onopen :: "pvp \<Rightarrow> pvp" where
  "M_mm_onopen s = ptrack ''mobile_ws_matchmaking_open'' [] s"

fun M_mm_onmessage :: "nat \<Rightarrow> string \<Rightarrow> mm_msg \<Rightarrow> pvp \<Rightarrow> pvp" where
  "M_mm_onmessage ws token QueueJoined s = s"
| "M_mm_onmessage ws token (MatchFound gameId oppName) s =
     (let s1 = (ws_close ws (ptrack ''play_start''
          [(''mode'', JStr ''pvp_quick_match''), (''game_id'', JStr gameId),
           (''opponent_name'', JStr oppName)]
          (s\<lparr>pv_opponentName := Some oppName, pv_phase := PMatched\<rparr>)))\<lparr>matchmakingWs := None\<rparr>
      in if token \<noteq> [] then M_connectToGame gameId token s1 else s1)"
| "M_mm_onmessage ws token MatchmakingTimeout s =
     (ws_close ws ((ptrack ''mobile_matchmaking_timeout'' []
        (s\<lparr>pv_error := Some ''No opponents found. Try AI mode!''\<rparr>))\<lparr>pv_phase := PLobby\<rparr>))
       \<lparr>matchmakingWs := None\<rparr>"
| "M_mm_onmessage ws token MmPong s = s"
| "M_mm_onmessage ws token OtherMmMsg s = s"

definition M_mm_onerror :: "pvp \<Rightarrow> pvp" where
  "M_mm_onerror s =
     (ptrack ''mobile_ws_matchmaking_error'' [] (s\<lparr>pv_error := Some ''Connection error''\<rparr>))\<lparr>pv_phase := PLobby\<rparr>"

definition M_mm_onclose :: "int \<Rightarrow> string \<Rightarrow> pvp \<Rightarrow> pvp" where
  "M_mm_onclose code reason s =
     (ptrack ''mobile_ws_matchmaking_close'' (close_props code reason) s)\<lparr>matchmakingWs := None\<rparr>"

subsection \<open>The other operations\<close>

definition M_joinGame :: "string \<Rightarrow> string option \<Rightarrow> pvp \<Rightarrow> pvp" where
  "M_joinGame gameId nm s = s\<lparr>pv_error := None, pv_awaiting := pv_awaiting s @ [AwaitJoin gameId nm]\<rparr>"

definition M_joinGame_authed :: "string \<Rightarrow> string option \<Rightarrow> js_thrown + string option \<Rightarrow> pvp \<Rightarrow> pvp" where
  "M_joinGame_authed gameId nm out s =
     (case out of
        Inl e \<Rightarrow> pvp_failed ''Failed to join game''
          [(''surface'', JStr ''join_game''), (''game_id'', JStr gameId)] e s
      | Inr token \<Rightarrow>
          if \<not> truthy token then s\<lparr>pv_error := Some ''Not authenticated''\<rparr>
          else (let s1 = s\<lparr>sockets := close_ref (gameWs s) (close_ref (matchmakingWs s) (sockets s)),
                        pv_opponentName := Some (or_else nm ''Opponent''), pv_gameState := None,
                        pv_turnResult := None, pv_roundResult := None, pv_matchResult := None,
                        roundsWonYou := 0, roundsWonOpponent := 0, pv_phase := PMatched\<rparr>;
                    s2 = ptrack ''pvp_match_started''
                      [(''mode'', JStr ''room''), (''game_id'', JStr gameId),
                       (''opponent_name'', JStr (or_else nm ''Opponent''))] s1
                in M_connectToGame gameId (the token) s2))"

definition M_cancelSearch :: "pvp \<Rightarrow> js_thrown + pvp" where
  "M_cancelSearch s =
     (case matchmakingWs s of
        None \<Rightarrow> Inr (s\<lparr>pv_phase := PLobby\<rparr>)
      | Some ws \<Rightarrow>
          (case socket_send ws (JObj [(''type'', JStr ''leave_queue'')]) (sockets s) of
             Inl e \<Rightarrow> Inl e
           | Inr ss \<Rightarrow> Inr ((ws_close ws (s\<lparr>sockets := ss\<rparr>))\<lparr>matchmakingWs := None, pv_phase := PLobby\<rparr>)))"

definition M_pvp_submitAction :: "action \<Rightarrow> pvp \<Rightarrow> pvp" where
  "M_pvp_submitAction a s =
     (case gameWs s of
        None \<Rightarrow> s
      | Some ws \<Rightarrow>
          if is_open ws (sockets s)
          then (case socket_send ws (action_message a) (sockets s) of
                  Inl e \<Rightarrow> s
                | Inr ss \<Rightarrow> ptrack ''action_submitted'' [(''mode'', JStr ''pvp''), (''action'', JStr (action_str a))]
                              (s\<lparr>sockets := ss\<rparr>))
          else s)"

definition M_pvp_continueFromReveal :: "pvp \<Rightarrow> pvp" where
  "M_pvp_continueFromReveal s = s\<lparr>pv_turnResult := None\<rparr>"

definition M_pvp_continueFromRound :: "pvp \<Rightarrow> pvp" where
  "M_pvp_continueFromRound s = s\<lparr>pv_turnResult := None, pv_roundResult := None\<rparr>"

definition M_pvp_backToLobby :: "pvp \<Rightarrow> pvp" where
  "M_pvp_backToLobby s =
     s\<lparr>sockets := close_ref (matchmakingWs s) (close_ref (gameWs s) (sockets s)),
       pv_phase := PLobby, pv_opponentName := None, pv_gameState := None, pv_turnResult := None,
       pv_roundResult := None, pv_matchResult := None, roundsWonYou := 0, roundsWonOpponent := 0,
       pv_error := None\<rparr>"

definition M_pvp_unmount :: "pvp \<Rightarrow> pvp" where
  "M_pvp_unmount s = s\<lparr>sockets := close_ref (gameWs s) (close_ref (matchmakingWs s) (sockets s))\<rparr>"

subsection \<open>Events\<close>

text \<open>As for the web hook; a close event carries its code and reason.\<close>

datatype m_pvp_event =
    MFind
  | MJoin string "string option"
  | MAuthed nat "js_thrown + string option"
  | MOpened nat
  | MGameMsg nat game_msg
  | MMmMsg nat mm_msg
  | MClosed nat bool int string
  | MCancel
  | MCard action
  | MNextTurn
  | MNextRound
  | MBack

definition M_pvp_authed :: "nat \<Rightarrow> js_thrown + string option \<Rightarrow> pvp \<Rightarrow> pvp" where
  "M_pvp_authed k out s =
     (if k < length (pv_awaiting s) then
        (let s1 = s\<lparr>pv_awaiting := remove_nth k (pv_awaiting s)\<rparr>
         in case pv_awaiting s ! k of
              AwaitFind \<Rightarrow> M_findMatch_authed out s1
            | AwaitJoin g nm \<Rightarrow> M_joinGame_authed g nm out s1)
      else s)"

definition M_socket_opened :: "nat \<Rightarrow> pvp \<Rightarrow> pvp" where
  "M_socket_opened i s =
     (if i < length (sockets s) \<and> sk_ready (sockets s ! i) = CONNECTING then
        (let s1 = set_ready i OPEN s
         in case sk_target (sockets s ! i) of
              ToGame g t \<Rightarrow> M_game_onopen g s1 | ToMatchmaking t \<Rightarrow> M_mm_onopen s1)
      else s)"

definition M_socket_closed :: "nat \<Rightarrow> bool \<Rightarrow> int \<Rightarrow> string \<Rightarrow> pvp \<Rightarrow> pvp" where
  "M_socket_closed i failed code reason s =
     (if i < length (sockets s) \<and> sk_ready (sockets s ! i) \<noteq> CLOSED then
        (let s1 = set_ready i CLOSED s
         in case sk_target (sockets s ! i) of
              ToGame g t \<Rightarrow> M_game_onclose g code reason (if failed then M_game_onerror g s1 else s1)
            | ToMatchmaking t \<Rightarrow> M_mm_onclose code reason (if failed then M_mm_onerror s1 else s1))
      else s)"

fun M_pvp_step :: "pvp \<Rightarrow> m_pvp_event \<Rightarrow> pvp" where
  "M_pvp_step s MFind = M_findMatch s"
| "M_pvp_step s (MJoin g nm) = M_joinGame g nm s"
| "M_pvp_step s (MAuthed k out) = M_pvp_authed k out s"
| "M_pvp_step s (MOpened i) = M_socket_opened i s"
| "M_pvp_step s (MGameMsg i m) =
     (if is_open i (sockets s) then
        (case sk_target (sockets s ! i) of ToGame g t \<Rightarrow> M_game_onmessage i g m s | _ \<Rightarrow> s)
      else s)"
| "M_pvp_step s (MMmMsg i m) =
     (if is_open i (sockets s) then
        (case sk_target (sockets s ! i) of ToMatchmaking t \<Rightarrow> M_mm_onmessage i t m s | _ \<Rightarrow> s)
      else s)"
| "M_pvp_step s (MClosed i failed code reason) = M_socket_closed i failed code reason s"
| "M_pvp_step s MCancel = (case M_cancelSearch s of Inl e \<Rightarrow> s | Inr s' \<Rightarrow> s')"
| "M_pvp_step s (MCard a) = M_pvp_submitAction a s"
| "M_pvp_step s MNextTurn = M_pvp_continueFromReveal s"
| "M_pvp_step s MNextRound = M_pvp_continueFromRound s"
| "M_pvp_step s MBack = M_pvp_backToLobby s"

subsection \<open>The two hooks\<close>

text \<open>The state of the hook but for the analytics it has reported.\<close>

definition same_pvp :: "pvp \<Rightarrow> pvp \<Rightarrow> bool" where
  "same_pvp p q \<longleftrightarrow>
     pv_phase p = pv_phase q \<and> pv_opponentName p = pv_opponentName q \<and>
     pv_gameState p = pv_gameState q \<and> pv_turnResult p = pv_turnResult q \<and>
     pv_roundResult p = pv_roundResult q \<and> pv_matchResult p = pv_matchResult q \<and>
     roundsWonYou p = roundsWonYou q \<and> roundsWonOpponent p = roundsWonOpponent q \<and>
     pv_error p = pv_error q \<and> matchmakingWs p = matchmakingWs q \<and> gameWs p = gameWs q \<and>
     sockets p = sockets q \<and> pv_awaiting p = pv_awaiting q"

text \<open>The events of the phone's page that have a counterpart on the web page.\<close>

fun web_pvp_event :: "m_pvp_event \<Rightarrow> pvp_event" where
  "web_pvp_event MFind = FindMatch"
| "web_pvp_event (MJoin g nm) = JoinGame g nm"
| "web_pvp_event (MAuthed k out) = Authed k out"
| "web_pvp_event (MOpened i) = SocketOpened i"
| "web_pvp_event (MGameMsg i m) = GameMessage i m"
| "web_pvp_event (MMmMsg i m) = MmMessage i m"
| "web_pvp_event (MClosed i failed code reason) = SocketClosed i failed"
| "web_pvp_event MCancel = CancelSearch"
| "web_pvp_event (MCard a) = PvpSubmit a"
| "web_pvp_event _ = PvpBackToLobby"

text \<open>
  Where the hooks agree: not on a room game that connects (the phone closes the
  earlier sockets and resets the score), on an error that is no \<open>Error\<close> or has no
  text, nor on the two buttons only the phone has.
\<close>

definition sockets_have_tokens :: "pvp \<Rightarrow> bool" where
  "sockets_have_tokens s \<longleftrightarrow> list_all (\<lambda>k. sk_target k \<noteq> ToMatchmaking []) (sockets s)"

fun agreed :: "pvp \<Rightarrow> m_pvp_event \<Rightarrow> bool" where
  "agreed s (MAuthed k out) =
     (k < length (pv_awaiting s) \<longrightarrow>
       (case out of
          Inl e \<Rightarrow> (case e of Js_Error m \<Rightarrow> m \<noteq> [] | Js_Value v \<Rightarrow> False)
        | Inr token \<Rightarrow> pv_awaiting s ! k = AwaitFind \<or> \<not> truthy token))"
| "agreed s MNextTurn = False"
| "agreed s MNextRound = False"
| "agreed s _ = True"

definition pvp_agreed :: "pvp \<Rightarrow> m_pvp_event \<Rightarrow> bool" where
  "pvp_agreed s e \<longleftrightarrow> agreed s e \<and> sockets_have_tokens s"

lemma ptrack_fields [simp]:
  "pv_phase (ptrack ev ps s) = pv_phase s" "pv_opponentName (ptrack ev ps s) = pv_opponentName s"
  "pv_gameState (ptrack ev ps s) = pv_gameState s" "pv_turnResult (ptrack ev ps s) = pv_turnResult s"
  "pv_roundResult (ptrack ev ps s) = pv_roundResult s" "pv_matchResult (ptrack ev ps s) = pv_matchResult s"
  "roundsWonYou (ptrack ev ps s) = roundsWonYou s" "roundsWonOpponent (ptrack ev ps s) = roundsWonOpponent s"
  "pv_error (ptrack ev ps s) = pv_error s" "matchmakingWs (ptrack ev ps s) = matchmakingWs s"
  "gameWs (ptrack ev ps s) = gameWs s" "sockets (ptrack ev ps s) = sockets s"
  "pv_awaiting (ptrack ev ps s) = pv_awaiting s"
  by (simp_all add: ptrack_def)

lemma same_connect:
  "same_pvp p q \<Longrightarrow> same_pvp (connectToGame g t p) (M_connectToGame g t q)"
  by (simp add: same_pvp_def connectToGame_def M_connectToGame_def open_socket_def)

lemma same_game_message:
  "same_pvp p q \<Longrightarrow> same_pvp (game_onmessage i m p) (M_game_onmessage i g m q)"
  by (cases m) (simp_all add: same_pvp_def ws_close_def Let_def)

lemma same_mm_message:
  "same_pvp p q \<Longrightarrow> t \<noteq> [] \<Longrightarrow> same_pvp (mm_onmessage i t m p) (M_mm_onmessage i t m q)"
  by (cases m) (simp_all add: same_connect same_pvp_def ws_close_def Let_def connectToGame_def
      M_connectToGame_def open_socket_def)

lemma same_closed:
  assumes "same_pvp p q"
  shows "same_pvp (socket_closed i failed p) (M_socket_closed i failed code reason q)"
  using assms
  by (cases "sk_target (sockets q ! i)")
    (simp_all add: same_pvp_def socket_closed_def M_socket_closed_def set_ready_def Let_def game_onclose_def
      game_onerror_def mm_onclose_def mm_onerror_def M_game_onclose_def M_game_onerror_def M_mm_onclose_def
      M_mm_onerror_def)

lemma same_opened:
  assumes "same_pvp p q"
  shows "same_pvp (pvp_step p (SocketOpened i)) (M_socket_opened i q)"
  using assms
  by (cases "sk_target (sockets q ! i)")
    (simp_all add: same_pvp_def M_socket_opened_def set_ready_def Let_def M_game_onopen_def M_mm_onopen_def)

lemma same_find_authed:
  assumes "same_pvp p q" "case out of Inl e \<Rightarrow> (\<exists>c cs. e = Js_Error (c # cs)) | Inr t \<Rightarrow> True"
  shows "same_pvp (findMatch_authed out p) (M_findMatch_authed out q)"
  using assms
  by (cases out)
    (auto simp: same_pvp_def findMatch_authed_def M_findMatch_authed_def open_socket_def Let_def
      pvp_failed_def errorMessage_def)

lemma same_join_authed:
  assumes "same_pvp p q" "case out of Inl e \<Rightarrow> (\<exists>c cs. e = Js_Error (c # cs)) | Inr t \<Rightarrow> \<not> truthy t"
  shows "same_pvp (joinGame_authed g nm out p) (M_joinGame_authed g nm out q)"
  using assms
  by (cases out)
    (auto simp: same_pvp_def joinGame_authed_def M_joinGame_authed_def Let_def pvp_failed_def errorMessage_def)

lemma same_awaiting:
  "same_pvp p q \<Longrightarrow> same_pvp (p\<lparr>pv_awaiting := ws\<rparr>) (q\<lparr>pv_awaiting := ws\<rparr>)"
  by (simp add: same_pvp_def)

lemma same_authed:
  assumes s: "same_pvp p q" and a: "agreed q (MAuthed k out)"
  shows "same_pvp (pvp_authed k out p) (M_pvp_authed k out q)"
proof (cases "k < length (pv_awaiting q)")
  case False
  with s show ?thesis by (simp add: same_pvp_def pvp_authed_def M_pvp_authed_def)
next
  case True
  let ?ws = "remove_nth k (pv_awaiting q)"
  have e: "pv_awaiting p = pv_awaiting q" using s by (simp add: same_pvp_def)
  have thrown: "(case out of Inl e \<Rightarrow> \<exists>c cs. e = Js_Error (c # cs) | Inr t \<Rightarrow> True)"
    using a True by (auto simp: neq_Nil_conv split: sum.splits js_thrown.splits)
  show ?thesis
  proof (cases "pv_awaiting q ! k")
    case AwaitFind
    with True e thrown same_awaiting [OF s, of ?ws] show ?thesis
      by (simp add: pvp_authed_def M_pvp_authed_def same_find_authed)
  next
    case (AwaitJoin g nm)
    with a True thrown have "case out of Inl e \<Rightarrow> \<exists>c cs. e = Js_Error (c # cs) | Inr t \<Rightarrow> \<not> truthy t"
      by (auto split: sum.splits)
    with AwaitJoin True e same_awaiting [OF s, of ?ws] show ?thesis
      by (simp add: pvp_authed_def M_pvp_authed_def same_join_authed)
  qed
qed

lemma same_cancel:
  assumes "same_pvp p q"
  shows "same_pvp (pvp_step p CancelSearch) (M_pvp_step q MCancel)"
  using assms
  by (cases "matchmakingWs q")
    (simp_all add: same_pvp_def cancelSearch_def M_cancelSearch_def ws_close_def split: sum.split)

lemma same_submit:
  assumes "same_pvp p q"
  shows "same_pvp (pvp_submitAction a p) (M_pvp_submitAction a q)"
  using assms
  by (cases "gameWs q")
    (simp_all add: same_pvp_def pvp_submitAction_def M_pvp_submitAction_def split: sum.split)

lemma same_pvp_sockets: "same_pvp p q \<Longrightarrow> sockets p = sockets q"
  by (simp add: same_pvp_def)

lemma token_of_socket:
  "sockets_have_tokens s \<Longrightarrow> i < length (sockets s) \<Longrightarrow> sk_target (sockets s ! i) = ToMatchmaking t \<Longrightarrow> t \<noteq> []"
  by (auto simp: sockets_have_tokens_def list_all_length)

lemma same_pvp_step:
  assumes s: "same_pvp p q" and a: "pvp_agreed q e"
  shows "same_pvp (pvp_step p (web_pvp_event e)) (M_pvp_step q e)"
proof (cases e)
  case (MAuthed k out)
  with s a show ?thesis by (simp add: pvp_agreed_def same_authed del: agreed.simps)
next
  case (MGameMsg i m)
  with s show ?thesis
    by (cases "sk_target (sockets q ! i)") (simp_all add: same_pvp_sockets same_game_message)
next
  case (MMmMsg i m)
  with s a show ?thesis
    by (cases "sk_target (sockets q ! i)")
      (auto simp: same_pvp_sockets same_mm_message pvp_agreed_def is_open_def dest: token_of_socket)
next
  case MCancel
  with same_cancel [OF s] show ?thesis by simp
next
  case (MOpened i)
  with same_opened [OF s] show ?thesis by simp
next
  case MBack
  with s show ?thesis by (simp add: same_pvp_def pvp_backToLobby_def M_pvp_backToLobby_def)
next
  case MFind
  with s show ?thesis by (simp add: same_pvp_def findMatch_def M_findMatch_def)
next
  case (MJoin g nm)
  with s show ?thesis by (simp add: same_pvp_def joinGame_def M_joinGame_def)
qed (use s a in \<open>simp_all add: same_closed same_submit pvp_agreed_def\<close>)

lemma tokens_targets:
  "map sk_target (sockets s') = map sk_target (sockets s) \<Longrightarrow> sockets_have_tokens s \<Longrightarrow> sockets_have_tokens s'"
  by (metis (mono_tags, lifting) length_map list_all_length nth_map sockets_have_tokens_def)

lemma target_ws_close [simp]: "map sk_target (sockets (ws_close i s)) = map sk_target (sockets s)"
  by (simp add: ws_close_def)

lemma target_set_ready [simp]: "map sk_target (sockets (set_ready i r s)) = map sk_target (sockets s)"
  by (simp add: set_ready_def map_update map_list_update_same)

lemma target_game_message: "map sk_target (sockets (M_game_onmessage i g m s)) = map sk_target (sockets s)"
  by (cases m) (simp_all add: Let_def)

lemma tokens_connect: "sockets_have_tokens s \<Longrightarrow> sockets_have_tokens (M_connectToGame g t s)"
  by (simp add: sockets_have_tokens_def M_connectToGame_def open_socket_def new_socket_def)

lemma tokens_mm_message:
  assumes "sockets_have_tokens s"
  shows "sockets_have_tokens (M_mm_onmessage i t m s)"
proof (cases m)
  case (MatchFound g nm)
  let ?u = "(ws_close i (ptrack ''play_start''
          [(''mode'', JStr ''pvp_quick_match''), (''game_id'', JStr g), (''opponent_name'', JStr nm)]
          (s\<lparr>pv_opponentName := Some nm, pv_phase := PMatched\<rparr>)))\<lparr>matchmakingWs := None\<rparr>"
  have "sockets_have_tokens ?u" by (rule tokens_targets [OF _ assms]) simp
  with MatchFound show ?thesis by (simp only: M_mm_onmessage.simps Let_def) (simp add: tokens_connect)
qed (use assms in \<open>auto intro!: tokens_targets [OF _ assms]\<close>)

lemma tokens_authed:
  assumes "sockets_have_tokens s"
  shows "sockets_have_tokens (M_pvp_authed k out s)"
proof -
  have f: "sockets_have_tokens (M_findMatch_authed out u)" if "sockets_have_tokens u" for u
    using that by (cases out)
      (auto simp: M_findMatch_authed_def pvp_failed_def Let_def open_socket_def new_socket_def
        sockets_have_tokens_def truthy_def split: option.splits)
  have j: "sockets_have_tokens (M_joinGame_authed g nm out u)" if u: "sockets_have_tokens u" for u g nm
  proof (cases out)
    case (Inl e)
    with u show ?thesis by (simp add: M_joinGame_authed_def pvp_failed_def Let_def sockets_have_tokens_def)
  next
    case (Inr t)
    have "sockets_have_tokens (M_connectToGame g tk v)"
      if "map sk_target (sockets v) = map sk_target (sockets u)" for v tk
      by (rule tokens_connect [OF tokens_targets [OF that u]])
    with Inr u show ?thesis
      by (simp add: M_joinGame_authed_def Let_def sockets_have_tokens_def)
  qed
  have w: "sockets_have_tokens (s\<lparr>pv_awaiting := ws\<rparr>)" for ws
    using assms by (simp add: sockets_have_tokens_def)
  show ?thesis
    using f [OF w] j [OF w] assms by (auto simp: M_pvp_authed_def Let_def split: pvp_await.split)
qed

lemma tokens_step:
  assumes s: "sockets_have_tokens s"
  shows "sockets_have_tokens (M_pvp_step s e)"
proof (cases e)
  case (MGameMsg i m)
  with s show ?thesis
    by (auto split: socket_target.split intro!: tokens_targets [OF target_game_message])
next
  case (MMmMsg i m)
  with s show ?thesis by (auto split: socket_target.split intro!: tokens_mm_message)
next
  case (MAuthed k out)
  with s show ?thesis by (simp add: tokens_authed)
next
  case (MClosed i failed code reason)
  then show ?thesis
    by (intro tokens_targets [OF _ s])
      (simp add: M_socket_closed_def Let_def M_game_onclose_def M_game_onerror_def M_mm_onclose_def
        M_mm_onerror_def split: socket_target.split)
next
  case (MOpened i)
  then show ?thesis
    by (intro tokens_targets [OF _ s])
      (simp add: M_socket_opened_def Let_def M_game_onopen_def M_mm_onopen_def split: socket_target.split)
next
  case MCancel
  then show ?thesis
    by (intro tokens_targets [OF _ s])
      (auto simp: M_cancelSearch_def dest: socket_send_target split: option.split sum.split)
next
  case (MCard a)
  then show ?thesis
    by (intro tokens_targets [OF _ s])
      (auto simp: M_pvp_submitAction_def dest: socket_send_target split: option.split sum.split)
qed (auto intro!: tokens_targets [OF _ s] simp: M_findMatch_def M_joinGame_def M_pvp_continueFromReveal_def
    M_pvp_continueFromRound_def M_pvp_backToLobby_def)

definition same_client :: "pvp \<Rightarrow> pvp \<Rightarrow> bool" where
  "same_client p q \<longleftrightarrow> same_pvp p q \<and> sockets_have_tokens q"

interpretation mp: simulation M_pvp_step pvp_step web_pvp_event agreed "\<lambda>_ _. True" same_client
  by unfold_locales (simp_all add: same_client_def tokens_step same_pvp_step pvp_agreed_def)

lemma same_client_init: "same_client pvp_init pvp_init"
  by (simp add: same_client_def same_pvp_def sockets_have_tokens_def pvp_init_def)

text \<open>
  Claim C24: the phone's PvP hook is the web's on what both clients offer.  After any sequence of search and
  join clicks, cards, cancellations, returns to the lobby, resolved sign-ins, messages and connection
  events, the two hooks are in the same state, their sockets and what was sent on them included.  Left
  out, because the hooks differ there, are: a sign-in that succeeds for a room game (\<open>phone_rejoin_drops_actions\<close>);
  the phone's Continue and Next Round, which the web page does not have (\<open>phone_pvp_screen_blank\<close> of
  \<open>Mobile_PvP_Page\<close>); and a sign-in that fails with something that is no \<open>Error\<close> or has no text, which the
  hooks word differently.  The reported analytics are not compared.
\<close>

theorem phone_pvp_is_web_pvp:
  assumes "legal agreed M_pvp_step pvp_init es"
  shows "same_pvp (run pvp_step pvp_init (map web_pvp_event es)) (run M_pvp_step pvp_init es)"
  using mp.sim_run [OF same_client_init assms] by (simp add: same_client_def)

definition phone_quick_match :: "m_pvp_event list" where
  "phone_quick_match =
     [MFind, MAuthed 0 (Inr (Some ''t'')), MOpened 0, MMmMsg 0 (MatchFound ''g'' ''Kim''), MOpened 1,
      MGameMsg 1 (WaitingForAction 1 1 0 0 5), MCard Charge, MGameMsg 1 ActionConfirmed]"

lemma phone_quick_match_legal:
  "legal agreed M_pvp_step pvp_init phone_quick_match \<and>
   pv_phase (run M_pvp_step pvp_init phone_quick_match) = PWaiting"
  by (simp add: phone_quick_match_def pvp_init_def M_findMatch_def M_pvp_authed_def M_findMatch_authed_def
      remove_nth_def open_socket_def new_socket_def ptrack_def set_ready_def is_open_def ws_close_def
      socket_close_def M_connectToGame_def M_socket_opened_def M_mm_onopen_def M_game_onopen_def
      M_pvp_submitAction_def socket_send_def Let_def)

lemma phone_pvp_is_web_pvp_witness:
  "pv_phase (run pvp_step pvp_init (map web_pvp_event phone_quick_match)) = PWaiting"
  using phone_pvp_is_web_pvp [of phone_quick_match] phone_quick_match_legal
  by (simp add: same_pvp_def del: run.simps)

text \<open>
  Entering a room game on the phone closes the earlier sockets and starts from a clean
  score, and that clean-up cuts the new game off: when the close event of the earlier game's
  socket arrives after the new socket is open, the reference to the new one is cleared and
  every action is dropped.
\<close>

theorem phone_rejoin_drops_actions:
  assumes "gameWs s = Some i" "i < length (sockets s)" "live (sockets s ! i)"
    and "sk_target (sockets s ! i) = ToGame g0 t0" "tk \<noteq> []"
    and s1: "s1 = M_joinGame_authed g nm (Inr (Some tk)) s"
    and s2: "s2 = run M_pvp_step s1 [MOpened (length (sockets s)), MClosed i False code reason]"
  shows "gameWs s1 = Some (length (sockets s)) \<and> pv_phase s1 = PMatched \<and> roundsWonYou s1 = 0 \<and>
    roundsWonOpponent s1 = 0 \<and> pv_turnResult s1 = None \<and> \<not> live (sockets s1 ! i) \<and>
    is_open (length (sockets s)) (sockets s2) \<and> gameWs s2 = None \<and> M_pvp_submitAction a s2 = s2"
proof -
  let ?n = "length (sockets s)"
  let ?cs = "close_ref (gameWs s) (close_ref (matchmakingWs s) (sockets s))"
  have j: "sockets s1 = ?cs @ [new_socket (ToGame g tk)]" "gameWs s1 = Some ?n" "pv_phase s1 = PMatched"
    "roundsWonYou s1 = 0" "roundsWonOpponent s1 = 0" "pv_turnResult s1 = None"
    using assms(5) by (simp_all add: s1 M_joinGame_authed_def M_connectToGame_def open_socket_def Let_def)
  have closing: "sk_ready (sockets s1 ! i) \<noteq> CLOSED" "\<not> live (sockets s1 ! i)"
    "sk_target (sockets s1 ! i) = ToGame g0 t0"
  proof -
    have "sockets s1 ! i = ?cs ! i" using assms(2) by (simp add: j nth_append)
    moreover have "sk_target (?cs ! i) = ToGame g0 t0"
      using assms(2,4) nth_map [of i ?cs sk_target] by simp
    moreover have "sk_ready (?cs ! i) \<noteq> CLOSED \<and> \<not> live (?cs ! i)"
      using assms(1-3) by (cases "matchmakingWs s")
        (auto simp: close_ref_def socket_close_nth live_def live_socket_close split: if_splits)
    ultimately show "sk_ready (sockets s1 ! i) \<noteq> CLOSED" "\<not> live (sockets s1 ! i)"
      "sk_target (sockets s1 ! i) = ToGame g0 t0" by auto
  qed
  define s3 where "s3 = M_pvp_step s1 (MOpened ?n)"
  have n: "sockets s1 ! ?n = new_socket (ToGame g tk)" "length (sockets s1) = Suc ?n"
    by (simp_all add: j nth_append)
  have s3: "sockets s3 = (sockets s1)[?n := (new_socket (ToGame g tk))\<lparr>sk_ready := OPEN\<rparr>]"
    using n by (simp add: s3_def M_socket_opened_def new_socket_def Let_def M_game_onopen_def set_ready_def ptrack_def)
  have "s2 = M_socket_closed i False code reason s3"
    by (simp add: s2 s3_def)
  then have "sockets s2 = (sockets s3)[i := (sockets s3 ! i)\<lparr>sk_ready := CLOSED\<rparr>]" "gameWs s2 = None"
    using closing assms(2) n
    by (simp_all add: s3 M_socket_closed_def Let_def M_game_onclose_def set_ready_def ptrack_def)
  with j closing n assms(2) s3 show ?thesis
    by (simp add: is_open_def M_pvp_submitAction_def)
qed

definition in_a_game :: pvp where
  "in_a_game = run M_pvp_step pvp_init
     [MJoin ''g1'' None, MAuthed 0 (Inr (Some ''t'')), MOpened 0]"

lemma in_a_game_state:
  "gameWs in_a_game = Some 0" "length (sockets in_a_game) = 1" "live (sockets in_a_game ! 0)"
  "sk_target (sockets in_a_game ! 0) = ToGame ''g1'' ''t''"
  by (simp_all add: in_a_game_def pvp_init_def M_joinGame_def M_pvp_authed_def M_joinGame_authed_def
      remove_nth_def M_connectToGame_def open_socket_def new_socket_def ptrack_def set_ready_def live_def
      M_socket_opened_def M_game_onopen_def close_ref_def Let_def)

lemma phone_rejoin_drops_actions_witness:
  "gameWs (run M_pvp_step (M_joinGame_authed ''g2'' None (Inr (Some ''t'')) in_a_game)
     [MOpened 1, MClosed 0 False 1000 []]) = None"
  using phone_rejoin_drops_actions [OF in_a_game_state(1) _ in_a_game_state(3,4) _ refl refl, of "''t''" "''g2''" None 1000 "[]"]
    in_a_game_state(2) by (simp del: run.simps M_pvp_step.simps)

end
