(* ===== verification/Mobile_PvP_Page.thy ===== *)
theory Mobile_PvP_Page
  imports PvP_Page Mobile_PvP
begin

text \<open>
  The PvP screen of the phone, \<open>mobile/app/pvp.tsx\<close>: page modes and room codes, its
  handlers and the sections it renders.
\<close>

definition PVP_PLAYER_CHAR :: string where "PVP_PLAYER_CHAR = ''haneul''"
definition PVP_OPPONENT_CHAR :: string where "PVP_OPPONENT_CHAR = ''bora''"

record m_pvp_page =
  mp_mode :: page_mode
  mp_roomMode :: room_mode
  mp_joinCode :: string
  mp_player :: string
  mp_opponent :: string
  mp_pvp :: pvp

definition m_pvp_page_init :: m_pvp_page where
  "m_pvp_page_init = \<lparr>mp_mode = ModeMenu, mp_roomMode = RoomCreate, mp_joinCode = [],
     mp_player = PVP_PLAYER_CHAR, mp_opponent = PVP_OPPONENT_CHAR, mp_pvp = pvp_init\<rparr>"

definition visibleMode :: "m_pvp_page \<Rightarrow> page_mode" where
  "visibleMode p =
     (if pv_phase (mp_pvp p) = PLobby \<and> mp_mode p = ModePvp then ModeMenu else mp_mode p)"

text \<open>The texts of a revealed turn; an outcome outside the table shows as neutral.\<close>

definition M_OUTCOME_DISPLAY :: "string \<Rightarrow> string option" where
  "M_OUTCOME_DISPLAY outcome = map_of
     [(''you_win'', ''HIT!''), (''you_lose'', ''HIT!''), (''clash'', ''CLASH!''), (''blocked'', ''BLOCKED!''),
      (''dodged'', ''DODGED!''), (''neutral'', ''-'')] outcome"

definition m_outcome_text :: "turn_data \<Rightarrow> string" where
  "m_outcome_text d = nullish (M_OUTCOME_DISPLAY (td_outcome d)) (the (M_OUTCOME_DISPLAY ''neutral''))"

text \<open>\<open>replace("_", " ")\<close> replaces the first underscore only.\<close>

fun m_action_text :: "string \<Rightarrow> string" where
  "m_action_text [] = []"
| "m_action_text (c # cs) = (if c = CHR ''_'' then CHR '' '' # cs else c # m_action_text cs)"

subsection \<open>Handlers\<close>

definition M_startQuickMatch :: "m_pvp_page \<Rightarrow> m_pvp_page" where
  "M_startQuickMatch p = p\<lparr>mp_player := PVP_PLAYER_CHAR, mp_opponent := PVP_OPPONENT_CHAR,
     mp_mode := ModePvp, mp_pvp := M_findMatch (mp_pvp p)\<rparr>"

definition M_startCreateRoom :: "m_pvp_page \<Rightarrow> m_pvp_page" where
  "M_startCreateRoom p = p\<lparr>mp_roomMode := RoomCreate, mp_mode := ModeRoom\<rparr>"

text \<open>The input keeps four capitals or digits, so trimming it changes nothing.\<close>

definition M_codeTyped :: "string \<Rightarrow> m_pvp_page \<Rightarrow> m_pvp_page" where
  "M_codeTyped value p = p\<lparr>mp_joinCode := take 4 (clean_code value)\<rparr>"

definition M_startJoinRoom :: "m_pvp_page \<Rightarrow> m_pvp_page" where
  "M_startJoinRoom p =
     (let code = to_upper (mp_joinCode p)
      in if length code \<noteq> 4 then p
         else p\<lparr>mp_joinCode := code, mp_roomMode := RoomJoin, mp_mode := ModeRoom\<rparr>)"

definition M_handleRoomGameStart :: "string \<Rightarrow> string \<Rightarrow> string \<Rightarrow> string \<Rightarrow> m_pvp_page \<Rightarrow> m_pvp_page" where
  "M_handleRoomGameStart gameId oppName ourChar oppChar p =
     p\<lparr>mp_player := ourChar, mp_opponent := oppChar, mp_mode := ModePvp,
       mp_pvp := M_joinGame gameId (Some oppName) (mp_pvp p)\<rparr>"

definition M_roomExit :: "m_pvp_page \<Rightarrow> m_pvp_page" where
  "M_roomExit p = p\<lparr>mp_joinCode := [], mp_mode := ModeMenu\<rparr>"

definition M_backToMenu :: "m_pvp_page \<Rightarrow> m_pvp_page" where
  "M_backToMenu p = p\<lparr>mp_pvp := M_pvp_backToLobby (mp_pvp p), mp_mode := ModeMenu\<rparr>"

definition M_cancelTapped :: "m_pvp_page \<Rightarrow> m_pvp_page" where
  "M_cancelTapped p = (case M_cancelSearch (mp_pvp p) of Inl e \<Rightarrow> p
     | Inr s \<Rightarrow> p\<lparr>mp_pvp := s, mp_mode := ModeMenu\<rparr>)"

datatype m_page_event =
    QuickMatchTapped
  | CreateRoomTapped
  | M_CodeTyped string
  | JoinTapped
  | M_RoomGameStart string string string string
  | M_RoomExit
  | M_CancelTapped
  | CardTapped action
  | ContinueTapped
  | NextRoundTapped
  | BackToPvpTapped
  | Network m_pvp_event

fun network_only :: "m_pvp_event \<Rightarrow> bool" where
  "network_only (MAuthed k out) = True"
| "network_only (MOpened i) = True"
| "network_only (MGameMsg i m) = True"
| "network_only (MMmMsg i m) = True"
| "network_only (MClosed i f c r) = True"
| "network_only _ = False"

fun m_page_step :: "m_pvp_page \<Rightarrow> m_page_event \<Rightarrow> m_pvp_page" where
  "m_page_step p QuickMatchTapped = M_startQuickMatch p"
| "m_page_step p CreateRoomTapped = M_startCreateRoom p"
| "m_page_step p (M_CodeTyped v) = M_codeTyped v p"
| "m_page_step p JoinTapped = M_startJoinRoom p"
| "m_page_step p (M_RoomGameStart g n a b) = M_handleRoomGameStart g n a b p"
| "m_page_step p M_RoomExit = M_roomExit p"
| "m_page_step p M_CancelTapped = M_cancelTapped p"
| "m_page_step p (CardTapped a) = p\<lparr>mp_pvp := M_pvp_submitAction a (mp_pvp p)\<rparr>"
| "m_page_step p ContinueTapped = p\<lparr>mp_pvp := M_pvp_continueFromReveal (mp_pvp p)\<rparr>"
| "m_page_step p NextRoundTapped = p\<lparr>mp_pvp := M_pvp_continueFromRound (mp_pvp p)\<rparr>"
| "m_page_step p BackToPvpTapped = M_backToMenu p"
| "m_page_step p (Network e) = p\<lparr>mp_pvp := M_pvp_step (mp_pvp p) e\<rparr>"

subsection \<open>Sections\<close>

datatype m_pvp_section =
    MSecMenu
  | MSecRoom room_mode string
  | MSecSearching
  | MSecMatched "string option"
  | MSecCards int
  | MSecWaiting
  | MSecReveal string string string
  | MSecRound string
  | MSecEnd string

definition m_end_text :: "string \<Rightarrow> string" where
  "m_end_text w = (if w = ''you'' then ''VICTORY!'' else if w = ''opponent'' then ''DEFEAT!'' else ''DRAW!'')"

definition m_match_sections :: "pvp \<Rightarrow> m_pvp_section list" where
  "m_match_sections s =
     (if pv_phase s = PSearching then [MSecSearching] else []) @
     (if pv_phase s = PMatched then [MSecMatched (pv_opponentName s)] else []) @
     (if pv_phase s = PPlaying then
        (case pv_gameState s of None \<Rightarrow> [] | Some g \<Rightarrow> [MSecCards (ps_your_ki g)]) else []) @
     (if pv_phase s = PWaiting then [MSecWaiting] else []) @
     (if pv_phase s = PRevealing then
        (case pv_turnResult s of None \<Rightarrow> []
         | Some d \<Rightarrow> [MSecReveal (m_action_text (td_your_action d)) (m_action_text (td_opponent_action d))
             (m_outcome_text d)]) else []) @
     (if pv_phase s = PRoundEnd then
        (case pv_roundResult s of None \<Rightarrow> [] | Some d \<Rightarrow> [MSecRound (pvp_round_text (rd_winner d))]) else []) @
     (if pv_phase s = PMatchEnd then
        (case pv_matchResult s of None \<Rightarrow> [] | Some d \<Rightarrow> [MSecEnd (m_end_text (md_winner d))]) else [])"

definition m_pvp_sections :: "m_pvp_page \<Rightarrow> m_pvp_section list" where
  "m_pvp_sections p =
     (if visibleMode p = ModeMenu then [MSecMenu] else []) @
     (if visibleMode p = ModeRoom then [MSecRoom (mp_roomMode p) (mp_joinCode p)] else []) @
     (if visibleMode p = ModePvp then m_match_sections (mp_pvp p) else [])"

text \<open>Where each button of the match is rendered.\<close>

definition m_page_enabled :: "m_pvp_page \<Rightarrow> m_page_event \<Rightarrow> bool" where
  "m_page_enabled p e = (case e of
       QuickMatchTapped \<Rightarrow> visibleMode p = ModeMenu
     | CreateRoomTapped \<Rightarrow> visibleMode p = ModeMenu
     | M_CodeTyped v \<Rightarrow> visibleMode p = ModeMenu
     | JoinTapped \<Rightarrow> visibleMode p = ModeMenu \<and> length (mp_joinCode p) = 4
     | M_RoomGameStart g n a b \<Rightarrow> visibleMode p = ModeRoom
     | M_RoomExit \<Rightarrow> visibleMode p = ModeRoom
     | M_CancelTapped \<Rightarrow> visibleMode p = ModePvp \<and> pv_phase (mp_pvp p) = PSearching
     | CardTapped a \<Rightarrow> visibleMode p = ModePvp \<and> pv_phase (mp_pvp p) = PPlaying \<and>
         (case pv_gameState (mp_pvp p) of None \<Rightarrow> False | Some g \<Rightarrow> canAfford a (ps_your_ki g))
     | ContinueTapped \<Rightarrow> visibleMode p = ModePvp \<and> pv_phase (mp_pvp p) = PRevealing \<and>
         pv_turnResult (mp_pvp p) \<noteq> None
     | NextRoundTapped \<Rightarrow> visibleMode p = ModePvp \<and> pv_phase (mp_pvp p) = PRoundEnd \<and>
         pv_roundResult (mp_pvp p) \<noteq> None
     | BackToPvpTapped \<Rightarrow> visibleMode p = ModePvp \<and> pv_phase (mp_pvp p) = PMatchEnd \<and>
         pv_matchResult (mp_pvp p) \<noteq> None
     | Network ev \<Rightarrow> network_only ev)"

subsection \<open>When the screen is blank\<close>

text \<open>The phases that keep their data; the other two lose it to a button.\<close>

definition m_data_ok :: "pvp \<Rightarrow> bool" where
  "m_data_ok s \<longleftrightarrow> (pv_phase s = PPlaying \<longrightarrow> pv_gameState s \<noteq> None) \<and>
     (pv_phase s = PMatchEnd \<longrightarrow> pv_matchResult s \<noteq> None)"

lemma m_data_ok_fields:
  assumes "m_data_ok s" "pv_gameState t = pv_gameState s" "pv_matchResult t = pv_matchResult s"
    "pv_phase t = pv_phase s \<or> pv_phase t \<notin> {PPlaying, PMatchEnd}"
  shows "m_data_ok t"
  using assms by (auto simp: m_data_ok_def)

lemma m_data_ok_game_message: "m_data_ok s \<Longrightarrow> m_data_ok (M_game_onmessage i g m s)"
  by (cases m) (auto simp: m_data_ok_def Let_def ws_close_def ptrack_def)

lemma m_data_ok_mm_message: "m_data_ok s \<Longrightarrow> m_data_ok (M_mm_onmessage i tk m s)"
  by (cases m)
    (auto intro!: m_data_ok_fields [of s]
      simp: M_connectToGame_def open_socket_def ws_close_def Let_def)

lemma m_data_ok_authed:
  assumes "m_data_ok s"
  shows "m_data_ok (M_pvp_authed k out s)"
proof -
  have f: "m_data_ok (M_findMatch_authed out u)" if "m_data_ok u" for u
    using that by (cases out)
      (auto simp: M_findMatch_authed_def pvp_failed_def Let_def open_socket_def m_data_ok_def)
  have j: "m_data_ok (M_joinGame_authed g nm out u)" if "m_data_ok u" for u g nm
    using that by (cases out)
      (auto simp: M_joinGame_authed_def pvp_failed_def Let_def M_connectToGame_def open_socket_def m_data_ok_def)
  have w: "m_data_ok (s\<lparr>pv_awaiting := ws\<rparr>)" for ws
    using assms by (simp add: m_data_ok_def)
  show ?thesis
    using f [OF w] j [OF w] assms by (auto simp: M_pvp_authed_def Let_def split: pvp_await.split)
qed

lemma m_data_ok_closed: "m_data_ok s \<Longrightarrow> m_data_ok (M_socket_closed i f c r s)"
  by (erule m_data_ok_fields)
    (auto simp: M_socket_closed_def set_ready_def M_game_onclose_def M_game_onerror_def M_mm_onclose_def
      M_mm_onerror_def Let_def split: socket_target.split)

lemma m_data_ok_opened: "m_data_ok s \<Longrightarrow> m_data_ok (M_socket_opened i s)"
  by (erule m_data_ok_fields)
    (auto simp: M_socket_opened_def set_ready_def M_game_onopen_def M_mm_onopen_def Let_def
      split: socket_target.split)

lemma m_data_ok_cancel: "m_data_ok s \<Longrightarrow> M_cancelSearch s = Inr s' \<Longrightarrow> m_data_ok s'"
  by (erule m_data_ok_fields) (auto simp: M_cancelSearch_def ws_close_def split: option.splits sum.splits)

lemma m_data_ok_submit: "m_data_ok s \<Longrightarrow> m_data_ok (M_pvp_submitAction a s)"
  by (erule m_data_ok_fields) (auto simp: M_pvp_submitAction_def split: option.split sum.split)

lemma m_data_ok_rest:
  "m_data_ok s \<Longrightarrow> m_data_ok (M_findMatch s)" "m_data_ok s \<Longrightarrow> m_data_ok (M_joinGame g n s)"
  "m_data_ok s \<Longrightarrow> m_data_ok (M_pvp_continueFromReveal s)" "m_data_ok s \<Longrightarrow> m_data_ok (M_pvp_continueFromRound s)"
  "m_data_ok (M_pvp_backToLobby s)"
  by (simp_all add: m_data_ok_def M_findMatch_def M_joinGame_def M_pvp_continueFromReveal_def
      M_pvp_continueFromRound_def M_pvp_backToLobby_def)

lemma m_data_ok_step: "m_data_ok s \<Longrightarrow> m_data_ok (M_pvp_step s e)"
  by (cases e)
    (auto intro: m_data_ok_authed m_data_ok_closed m_data_ok_submit m_data_ok_opened m_data_ok_game_message
      m_data_ok_mm_message m_data_ok_rest dest: m_data_ok_cancel split: sum.split socket_target.split)

lemma m_data_ok_page_step: "m_data_ok (mp_pvp p) \<Longrightarrow> m_data_ok (mp_pvp (m_page_step p e))"
  by (cases e)
    (auto simp: M_startQuickMatch_def M_startCreateRoom_def M_codeTyped_def M_startJoinRoom_def Let_def
      M_handleRoomGameStart_def M_roomExit_def M_cancelTapped_def M_backToMenu_def
      intro: m_data_ok_submit m_data_ok_step m_data_ok_rest dest: m_data_ok_cancel split: sum.split)

interpretation mpp: machine m_pvp_page_init m_page_step "\<lambda>p. m_data_ok (mp_pvp p)"
  by unfold_locales (simp add: m_pvp_page_init_def m_data_ok_def pvp_init_def, rule m_data_ok_page_step)

text \<open>
  The phone's PvP screen shows exactly one section, except after one of its own buttons:
  it is blank exactly in the reveal phase without a turn and in the round-end phase without a
  round, and tapping Continue, or Next Round, on the screen that offers it makes it so.
\<close>

theorem phone_pvp_screen_blank:
  assumes "p = run m_page_step m_pvp_page_init es"
  shows "length (m_pvp_sections p) =
      (if visibleMode p = ModePvp \<and>
          (pv_phase (mp_pvp p) = PRevealing \<and> pv_turnResult (mp_pvp p) = None \<or>
           pv_phase (mp_pvp p) = PRoundEnd \<and> pv_roundResult (mp_pvp p) = None) then 0 else 1) \<and>
    (e \<in> {ContinueTapped, NextRoundTapped} \<and> m_page_enabled p e \<longrightarrow> m_pvp_sections (m_page_step p e) = [])"
proof
  have "m_data_ok (mp_pvp p)"
    using mpp.always [of es] assms by simp
  then show "length (m_pvp_sections p) =
      (if visibleMode p = ModePvp \<and>
          (pv_phase (mp_pvp p) = PRevealing \<and> pv_turnResult (mp_pvp p) = None \<or>
           pv_phase (mp_pvp p) = PRoundEnd \<and> pv_roundResult (mp_pvp p) = None) then 0 else 1)"
    by (cases "pv_phase (mp_pvp p)"; cases "visibleMode p")
      (auto simp: m_pvp_sections_def m_match_sections_def m_data_ok_def visibleMode_def split: if_splits)
  show "e \<in> {ContinueTapped, NextRoundTapped} \<and> m_page_enabled p e \<longrightarrow> m_pvp_sections (m_page_step p e) = []"
    by (auto simp: m_page_enabled_def m_pvp_sections_def m_match_sections_def visibleMode_def
        M_pvp_continueFromReveal_def M_pvp_continueFromRound_def split: if_splits)
qed

definition phone_reveal_run :: "m_page_event list" where
  "phone_reveal_run = QuickMatchTapped # map Network
     [MAuthed 0 (Inr (Some ''t'')), MOpened 0, MMmMsg 0 (MatchFound ''g'' ''Kim''), MOpened 1,
      MGameMsg 1 (TurnResultMsg \<lparr>td_turn_number = 1, td_your_action = ''energy_wave'',
        td_opponent_action = ''charge'', td_outcome = ''you_win'', td_your_ki = 0, td_opponent_ki = 1\<rparr>)]"

lemma phone_reveal_enabled:
  "m_page_enabled (run m_page_step m_pvp_page_init phone_reveal_run) ContinueTapped"
  by (simp add: phone_reveal_run_def m_page_enabled_def m_pvp_page_init_def M_startQuickMatch_def visibleMode_def
      pvp_init_def M_findMatch_def M_pvp_authed_def M_findMatch_authed_def
      remove_nth_def open_socket_def new_socket_def ptrack_def set_ready_def is_open_def ws_close_def
      socket_close_def M_connectToGame_def M_socket_opened_def M_mm_onopen_def M_game_onopen_def Let_def)

lemma phone_pvp_screen_blank_witness:
  "m_pvp_sections (m_page_step (run m_page_step m_pvp_page_init phone_reveal_run) ContinueTapped) = []"
  using phone_pvp_screen_blank [OF refl, of phone_reveal_run ContinueTapped] phone_reveal_enabled by simp

end
