(* ===== verification/Mobile_Room.thy ===== *)
theory Mobile_Room
  imports Room_Screen Mobile_Api Mobile_PvP_Page
begin

text \<open>
  The phone's online lobby, \<open>mobile/src/components/RoomLobby.tsx\<close>, split at its \<open>await\<close>s like
  the web's \<open>Room_Screen\<close>.  The page passes a fresh \<open>onExit\<close> and \<open>onGameStart\<close> in each render, so
  each re-render of the page restarts the polling: \<open>mr_poll\<close> numbers the runs of that effect.
  An answer that arrives after unmounting changes no state, but the exit timers run on.
\<close>

datatype m_room_call =
    MCallAuth
  | MCallCreate
  | MCallJoin string
  | MCallPoll nat string
  | MCallStart string
  | MCallCharacter string string
  | MCallReady string bool
  | MCallLeave string

record m_room =
  mr_create :: bool
  mr_code :: "string option"
  mr_mounted :: bool
  mr_room :: "room_data option"
  mr_myId :: "string option"
  mr_error :: "string option"
  mr_busy :: bool
  mr_startCalled :: bool
  mr_handedOff :: bool
  mr_myIdRef :: "string option"
  mr_poll :: nat
  mr_calls :: "m_room_call list"
  mr_handoffs :: "(string \<times> string \<times> string \<times> string) list"
  mr_exits :: nat
  mr_exit_timers :: nat
  mr_tracked :: "tracked list"

definition m_room_init :: "bool \<Rightarrow> string option \<Rightarrow> m_room" where
  "m_room_init create code = \<lparr>mr_create = create, mr_code = code, mr_mounted = True, mr_room = None,
     mr_myId = None, mr_error = None, mr_busy = False, mr_startCalled = False, mr_handedOff = False,
     mr_myIdRef = None, mr_poll = 0, mr_calls = [MCallAuth], mr_handoffs = [], mr_exits = 0,
     mr_exit_timers = 0, mr_tracked = []\<rparr>"

definition mr_call :: "m_room_call \<Rightarrow> m_room \<Rightarrow> m_room" where
  "mr_call c s = s\<lparr>mr_calls := mr_calls s @ [c]\<rparr>"

definition mr_track :: "string \<Rightarrow> (string \<times> json) list \<Rightarrow> m_room \<Rightarrow> m_room" where
  "mr_track ev ps s = s\<lparr>mr_tracked := mr_tracked s @ [(ev, ps)]\<rparr>"

text \<open>\<open>useState\<close> setters do nothing once the component is unmounted.\<close>

definition mr_setError :: "string \<Rightarrow> m_room \<Rightarrow> m_room" where
  "mr_setError m s = (if mr_mounted s then s\<lparr>mr_error := Some m\<rparr> else s)"

definition mr_setBusy :: "bool \<Rightarrow> m_room \<Rightarrow> m_room" where
  "mr_setBusy b s = (if mr_mounted s then s\<lparr>mr_busy := b\<rparr> else s)"

definition mode_json :: "m_room \<Rightarrow> json" where
  "mode_json s = JStr (if mr_create s then ''create'' else ''join'')"

definition json_or_null :: "string option \<Rightarrow> json" where
  "json_or_null c = (if truthy c then JStr (the c) else JNull)"

text \<open>The shared shape of the \<open>catch\<close> branches: show the message, or the fallback when it is empty.\<close>

definition M_room_failed :: "string \<Rightarrow> js_thrown \<Rightarrow> (string \<times> json) list \<Rightarrow> m_room \<Rightarrow> m_room" where
  "M_room_failed fallback e extra s =
     (let message = errorMessage e
      in mr_track ''mobile_room_error'' ((''mode'', mode_json s) # extra @ [(''message'', JStr message)])
           (mr_setError (if message = [] then fallback else message) s))"

subsection \<open>The effect on the room\<close>

definition M_isHost :: "m_room \<Rightarrow> room_data \<Rightarrow> bool" where
  "M_isHost s r \<longleftrightarrow> mr_myIdRef s = Some (rp_id (room_host r))"

definition M_slot_character :: "room_player_data option \<Rightarrow> string \<Rightarrow> string" where
  "M_slot_character p d = (case p of None \<Rightarrow> d | Some x \<Rightarrow>
     if truthy (rp_character_id x) then the (rp_character_id x) else d)"

definition M_slot_name :: "room_player_data option \<Rightarrow> string \<Rightarrow> string" where
  "M_slot_name p d = (case p of None \<Rightarrow> d | Some x \<Rightarrow> if rp_name x = [] then d else rp_name x)"

definition M_room_effect :: "m_room \<Rightarrow> m_room" where
  "M_room_effect s =
     (case mr_room s of
        None \<Rightarrow> s
      | Some r \<Rightarrow>
          if room_status r = RoomInGame \<and> truthy (room_game_id r) then
            (if mr_handedOff s then s
             else let me = (if M_isHost s r then Some (room_host r) else room_guest r);
                      opponent = (if M_isHost s r then room_guest r else Some (room_host r))
                  in s\<lparr>mr_handedOff := True,
                       mr_handoffs := mr_handoffs s @
                         [(the (room_game_id r), M_slot_name opponent ''Opponent'',
                           M_slot_character me ''haneul'', M_slot_character opponent ''bora'')]\<rparr>)
          else if \<not> mr_startCalled s \<and> both_ready r
          then mr_call (MCallStart (room_code r)) (s\<lparr>mr_startCalled := True\<rparr>)
          else s)"

definition mr_setRoom :: "room_data \<Rightarrow> m_room \<Rightarrow> m_room" where
  "mr_setRoom r s =
     (if \<not> mr_mounted s then s
      else M_room_effect (s\<lparr>mr_room := Some r,
             mr_poll := (if map_option room_code (mr_room s) \<noteq> Some (room_code r) then mr_poll s + 1 else mr_poll s)\<rparr>))"

text \<open>A re-render by the page: both effects have new dependencies.\<close>

definition mr_rerendered :: "m_room \<Rightarrow> m_room" where
  "mr_rerendered s = (if mr_mounted s then M_room_effect (s\<lparr>mr_poll := mr_poll s + 1\<rparr>) else s)"

subsection \<open>Initialisation\<close>

text \<open>After \<open>await ensureAuth()\<close> and \<open>await getPlayerId()\<close>.\<close>

definition M_init_authed :: "js_thrown + string option \<Rightarrow> m_room \<Rightarrow> m_room" where
  "M_init_authed out s =
     (case out of
        Inl e \<Rightarrow> M_room_failed ''Failed to enter room'' e [(''code'', json_or_null (mr_code s))] s
      | Inr pid \<Rightarrow>
          (let s1 = (if mr_mounted s then s\<lparr>mr_myIdRef := pid, mr_myId := pid\<rparr> else s\<lparr>mr_myIdRef := pid\<rparr>);
               code = to_upper (nullish (mr_code s) [])
           in if mr_create s then mr_call MCallCreate s1
              else if length code \<noteq> 4 then mr_setError ''Enter a 4-character room code.'' s1
              else mr_call (MCallJoin code) s1))"

definition M_init_entered :: "string \<Rightarrow> js_thrown + room_data \<Rightarrow> m_room \<Rightarrow> m_room" where
  "M_init_entered ev out s =
     (case out of
        Inl e \<Rightarrow> M_room_failed ''Failed to enter room'' e [(''code'', json_or_null (mr_code s))] s
      | Inr r \<Rightarrow> mr_track ev [(''code'', JStr (room_code r))] (mr_setRoom r s))"

subsection \<open>Polling\<close>

definition M_poll_tick :: "m_room \<Rightarrow> m_room" where
  "M_poll_tick s = (case mr_room s of None \<Rightarrow> s
     | Some r \<Rightarrow> if mr_mounted s then mr_call (MCallPoll (mr_poll s) (room_code r)) s else s)"

definition M_poll_settled :: "nat \<Rightarrow> string \<Rightarrow> js_thrown + room_data \<Rightarrow> m_room \<Rightarrow> m_room" where
  "M_poll_settled g code out s =
     (case out of
        Inr r \<Rightarrow> if g = mr_poll s \<and> mr_mounted s then mr_setRoom r s else s
      | Inl e \<Rightarrow>
          if host_left e
          then (mr_track ''mobile_room_error'' [(''mode'', mode_json s), (''code'', JStr code),
                  (''message'', JStr ''room not found while polling'')] (mr_setError ''The room is gone.'' s))
                 \<lparr>mr_exit_timers := mr_exit_timers s + 1\<rparr>
          else s)"

text \<open>\<open>setTimeout(onExit, 1500)\<close> fires, mounted or not.\<close>

definition M_exit_timer :: "m_room \<Rightarrow> m_room" where
  "M_exit_timer s = (if 0 < mr_exit_timers s
     then s\<lparr>mr_exit_timers := mr_exit_timers s - 1, mr_exits := mr_exits s + 1\<rparr> else s)"

definition M_start_settled :: "string \<Rightarrow> js_thrown + string \<times> room_data \<Rightarrow> m_room \<Rightarrow> m_room" where
  "M_start_settled code out s =
     (case out of
        Inr (gid, r) \<Rightarrow> mr_setRoom r (mr_track ''pvp_match_started''
          [(''mode'', JStr ''room''), (''code'', JStr code), (''game_id'', JStr gid)] s)
      | Inl e \<Rightarrow> M_room_failed ''Failed to start game'' e [(''code'', JStr code)] (s\<lparr>mr_startCalled := False\<rparr>))"

subsection \<open>Handlers\<close>

definition M_handlePickCharacter :: "string \<Rightarrow> m_room \<Rightarrow> m_room" where
  "M_handlePickCharacter characterId s =
     (case mr_room s of None \<Rightarrow> s
      | Some r \<Rightarrow> if mr_busy s then s
          else mr_call (MCallCharacter (room_code r) characterId) (mr_setBusy True s))"

definition M_handleReady :: "bool \<Rightarrow> m_room \<Rightarrow> m_room" where
  "M_handleReady ready s =
     (case mr_room s of None \<Rightarrow> s
      | Some r \<Rightarrow> if mr_busy s then s
          else mr_call (MCallReady (room_code r) ready) (mr_setBusy True s))"

definition M_update_settled :: "string \<Rightarrow> string \<Rightarrow> string \<Rightarrow> js_thrown + room_data \<Rightarrow> m_room \<Rightarrow> m_room" where
  "M_update_settled code action fallback out s =
     mr_setBusy False (case out of Inr r \<Rightarrow> mr_setRoom r s
       | Inl e \<Rightarrow> M_room_failed fallback e [(''code'', JStr code), (''action'', JStr action)] s)"

definition M_handleLeave :: "m_room \<Rightarrow> m_room" where
  "M_handleLeave s = (case mr_room s of None \<Rightarrow> s\<lparr>mr_exits := mr_exits s + 1\<rparr>
     | Some r \<Rightarrow> mr_call (MCallLeave (room_code r)) s)"

definition M_leave_settled :: "m_room \<Rightarrow> m_room" where
  "M_leave_settled s = s\<lparr>mr_exits := mr_exits s + 1\<rparr>"

definition M_backTapped :: "m_room \<Rightarrow> m_room" where
  "M_backTapped s = s\<lparr>mr_exits := mr_exits s + 1\<rparr>"

definition M_room_link :: "string \<Rightarrow> room_data \<Rightarrow> string" where
  "M_room_link web_base r = web_base @ ''/pvp?room='' @ room_code r"

definition M_handleShare_done :: "m_room \<Rightarrow> m_room" where
  "M_handleShare_done s = (case mr_room s of None \<Rightarrow> s
     | Some r \<Rightarrow> mr_track ''invite_copied'' [(''surface'', JStr ''mobile_room''),
         (''room_code'', JStr (room_code r)), (''method'', JStr ''native_share'')] s)"

definition M_unmounted :: "m_room \<Rightarrow> m_room" where
  "M_unmounted s = s\<lparr>mr_mounted := False\<rparr>"

subsection \<open>Events\<close>

datatype m_room_outcome = MOutAuth "js_thrown + string option" | MOutRoom "js_thrown + room_data"
  | MOutStart "js_thrown + string \<times> room_data" | MOutUnit "js_thrown + unit"

fun m_call_settled :: "m_room_call \<Rightarrow> m_room_outcome \<Rightarrow> m_room \<Rightarrow> m_room" where
  "m_call_settled MCallAuth (MOutAuth out) s = M_init_authed out s"
| "m_call_settled MCallCreate (MOutRoom out) s = M_init_entered ''pvp_room_created'' out s"
| "m_call_settled (MCallJoin c) (MOutRoom out) s = M_init_entered ''pvp_room_joined'' out s"
| "m_call_settled (MCallPoll g c) (MOutRoom out) s = M_poll_settled g c out s"
| "m_call_settled (MCallStart c) (MOutStart out) s = M_start_settled c out s"
| "m_call_settled (MCallCharacter c x) (MOutRoom out) s =
     M_update_settled c ''set_character'' ''Failed to pick fighter'' out s"
| "m_call_settled (MCallReady c b) (MOutRoom out) s =
     M_update_settled c ''set_ready'' ''Failed to ready up'' out s"
| "m_call_settled (MCallLeave c) (MOutUnit out) s = M_leave_settled s"
| "m_call_settled c out s = s"

datatype m_room_event = MRSettled nat m_room_outcome | MRPollTick | MRRerendered | MRPick string
  | MRReady bool | MRLeave | MRBack | MRShared | MRExitTimer | MRUnmount

fun m_room_step :: "m_room \<Rightarrow> m_room_event \<Rightarrow> m_room" where
  "m_room_step s (MRSettled k out) =
     (if k < length (mr_calls s)
      then m_call_settled (mr_calls s ! k) out (s\<lparr>mr_calls := drop_nth k (mr_calls s)\<rparr>) else s)"
| "m_room_step s MRPollTick = M_poll_tick s"
| "m_room_step s MRRerendered = mr_rerendered s"
| "m_room_step s (MRPick c) = M_handlePickCharacter c s"
| "m_room_step s (MRReady b) = M_handleReady b s"
| "m_room_step s MRLeave = M_handleLeave s"
| "m_room_step s MRBack = M_backTapped s"
| "m_room_step s MRShared = M_handleShare_done s"
| "m_room_step s MRExitTimer = M_exit_timer s"
| "m_room_step s MRUnmount = M_unmounted s"

subsection \<open>View\<close>

type_synonym player_card = "string \<times> bool \<times> (string \<times> string \<times> bool) option"

datatype m_room_view =
    MRoomError string
  | MRoomEntering string
  | MRoomLobby string "player_card \<times> player_card" string "(string \<times> bool \<times> bool) list" "string \<times> bool" "string option"

definition PlayerCard :: "room_player_data option \<Rightarrow> string \<Rightarrow> bool \<Rightarrow> player_card" where
  "PlayerCard p label highlight =
     (label, highlight, map_option (\<lambda>x. (M_slot_character (Some x) ''haneul'', rp_name x, rp_ready x)) p)"

definition RoomLobby_view :: "m_room \<Rightarrow> m_room_view" where
  "RoomLobby_view s =
     (if truthy (mr_error s) then MRoomError (the (mr_error s))
      else case mr_room s of
        None \<Rightarrow> MRoomEntering (if mr_create s then ''Creating room...'' else ''Joining room...'')
      | Some r \<Rightarrow>
          (let is_host = (mr_myId s = Some (rp_id (room_host r)));
               me = (if is_host then Some (room_host r) else room_guest r);
               opponent = (if is_host then room_guest r else Some (room_host r));
               myCharId = (case me of None \<Rightarrow> None | Some p \<Rightarrow> if truthy (rp_character_id p) then rp_character_id p else None);
               myReady = (case me of None \<Rightarrow> False | Some p \<Rightarrow> rp_ready p);
               opponentJoined = (room_guest r \<noteq> None);
               bothReady = (rp_ready (room_host r) \<and> (case room_guest r of None \<Rightarrow> False | Some g \<Rightarrow> rp_ready g))
           in MRoomLobby (room_code r)
                (PlayerCard (Some (room_host r)) (if is_host then ''You (Host)'' else ''Host'') is_host,
                 PlayerCard (room_guest r) (if is_host then ''Opponent'' else ''You'') (\<not> is_host \<and> opponentJoined))
                (if \<not> opponentJoined then ''Share the room code with a friend.''
                 else if bothReady then ''Both ready. Starting match...'' else ''Pick a fighter, then ready up.'')
                (map (\<lambda>c. (ch_id c, myCharId = Some (ch_id c), mr_busy s \<or> myReady)) M_CHARACTERS)
                (if myReady then ''Ready'' else ''Ready Up'', myCharId = None \<or> \<not> opponentJoined \<or> mr_busy s)
                (map_option rp_name opponent)))"

subsection \<open>The hand-off\<close>

fun m_is_start :: "m_room_call \<Rightarrow> bool" where
  "m_is_start (MCallStart c) = True"
| "m_is_start _ = False"

definition m_starts :: "m_room \<Rightarrow> nat" where
  "m_starts s = length (filter m_is_start (mr_calls s))"

definition m_live_game :: "m_room \<Rightarrow> bool" where
  "m_live_game s \<longleftrightarrow> (\<exists>r. mr_room s = Some r \<and> room_status r = RoomInGame \<and> truthy (room_game_id r))"

definition m_room_weak :: "m_room \<Rightarrow> bool" where
  "m_room_weak s \<longleftrightarrow> length (mr_handoffs s) = of_bool (mr_handedOff s) \<and> m_starts s \<le> of_bool (mr_startCalled s)"

definition m_room_inv :: "m_room \<Rightarrow> bool" where
  "m_room_inv s \<longleftrightarrow> m_room_weak s \<and> (m_live_game s \<longrightarrow> mr_handedOff s)"

text \<open>The fields the invariant reads, and the writes that leave them alone.\<close>

definition mr_core :: "m_room \<Rightarrow> nat \<times> bool \<times> nat \<times> bool \<times> room_data option" where
  "mr_core s = (length (mr_handoffs s), mr_handedOff s, m_starts s, mr_startCalled s, mr_room s)"

lemma m_room_inv_core: "mr_core t = mr_core s \<Longrightarrow> m_room_inv t = m_room_inv s"
  by (simp add: m_room_inv_def m_room_weak_def m_live_game_def mr_core_def)

lemma mr_core_writes [simp]:
  "mr_core (s\<lparr>mr_poll := p\<rparr>) = mr_core s" "mr_core (s\<lparr>mr_exits := n\<rparr>) = mr_core s"
  "mr_core (s\<lparr>mr_exit_timers := n\<rparr>) = mr_core s" "mr_core (s\<lparr>mr_mounted := b\<rparr>) = mr_core s"
  "mr_core (s\<lparr>mr_myIdRef := i\<rparr>) = mr_core s" "mr_core (s\<lparr>mr_myId := i\<rparr>) = mr_core s"
  "mr_core (mr_setError m s) = mr_core s" "mr_core (mr_setBusy b s) = mr_core s"
  "mr_core (mr_track ev ps s) = mr_core s" "\<not> m_is_start c \<Longrightarrow> mr_core (mr_call c s) = mr_core s"
  by (simp_all add: mr_core_def m_starts_def mr_setError_def mr_setBusy_def mr_track_def mr_call_def)

lemma mr_core_failed [simp]: "mr_core (M_room_failed f e ps s) = mr_core s"
  by (simp add: M_room_failed_def Let_def)

lemma M_room_effect_inv: "m_room_weak s \<Longrightarrow> m_room_inv (M_room_effect s)"
  by (cases "mr_room s")
    (auto simp: M_room_effect_def m_room_inv_def m_room_weak_def m_live_game_def m_starts_def mr_call_def Let_def)

lemma mr_setRoom_inv: "m_room_inv s \<Longrightarrow> m_room_inv (mr_setRoom r s)"
proof -
  assume inv: "m_room_inv s"
  then have "m_room_weak (s\<lparr>mr_room := Some r, mr_poll := p\<rparr>)" for p
    by (simp add: m_room_inv_def m_room_weak_def m_starts_def)
  from M_room_effect_inv [OF this] inv show ?thesis by (simp add: mr_setRoom_def)
qed

lemma mr_rerendered_inv: "m_room_inv s \<Longrightarrow> m_room_inv (mr_rerendered s)"
proof -
  assume "m_room_inv s"
  then have "m_room_weak (s\<lparr>mr_poll := mr_poll s + 1\<rparr>)" by (simp add: m_room_inv_def m_room_weak_def m_starts_def)
  from M_room_effect_inv [OF this] \<open>m_room_inv s\<close> show ?thesis by (simp add: mr_rerendered_def)
qed

lemma m_room_inv_writes [simp]:
  "m_room_inv (s\<lparr>mr_exits := n\<rparr>) = m_room_inv s" "m_room_inv (s\<lparr>mr_exit_timers := n\<rparr>) = m_room_inv s"
  "m_room_inv (s\<lparr>mr_mounted := b\<rparr>) = m_room_inv s" "m_room_inv (s\<lparr>mr_myIdRef := i\<rparr>) = m_room_inv s"
  "m_room_inv (s\<lparr>mr_myId := i\<rparr>) = m_room_inv s" "m_room_inv (mr_setError m s) = m_room_inv s"
  "m_room_inv (mr_setBusy b s) = m_room_inv s" "m_room_inv (mr_track ev ps s) = m_room_inv s"
  "m_room_inv (M_room_failed f e ps s) = m_room_inv s" "\<not> m_is_start c \<Longrightarrow> m_room_inv (mr_call c s) = m_room_inv s"
  by (rule m_room_inv_core; simp)+

lemmas m_room_handler_defs = M_init_authed_def M_init_entered_def M_poll_settled_def M_update_settled_def
  M_leave_settled_def M_poll_tick_def M_exit_timer_def M_handlePickCharacter_def M_handleReady_def
  M_handleLeave_def M_backTapped_def M_handleShare_done_def M_unmounted_def

lemma m_call_settled_inv:
  "m_room_inv s \<Longrightarrow> \<not> m_is_start c \<Longrightarrow> m_room_inv (m_call_settled c out s)"
  by (cases c; cases out) (auto simp: m_room_handler_defs Let_def mr_setRoom_inv split: sum.split)

lemma m_start_settled_inv:
  assumes "m_room_inv s" "m_starts s = 0" shows "m_room_inv (m_call_settled (MCallStart c) out s)"
proof -
  have "m_room_inv (s\<lparr>mr_startCalled := False\<rparr>)"
    using assms by (simp add: m_room_inv_def m_room_weak_def m_live_game_def m_starts_def)
  with assms(1) show ?thesis
    by (cases out) (auto simp: M_start_settled_def mr_setRoom_inv split: sum.split)
qed

lemma m_room_inv_step:
  assumes inv: "m_room_inv s" shows "m_room_inv (m_room_step s e)"
proof (cases e)
  case (MRSettled k out)
  show ?thesis
  proof (cases "k < length (mr_calls s)")
    case True
    let ?s = "s\<lparr>mr_calls := drop_nth k (mr_calls s)\<rparr>" and ?c = "mr_calls s ! k"
    have cnt: "m_starts ?s + of_bool (m_is_start ?c) = m_starts s"
      using filter_drop_nth [OF True, of m_is_start] by (simp add: m_starts_def)
    have inv': "m_room_inv ?s" using inv cnt by (simp add: m_room_inv_def m_room_weak_def m_live_game_def)
    show ?thesis
    proof (cases "m_is_start ?c")
      case False
      with True MRSettled m_call_settled_inv [OF inv'] show ?thesis by simp
    next
      case start: True
      then obtain c where c: "?c = MCallStart c" by (cases ?c) auto
      have "m_starts s \<le> 1" using inv by (simp add: m_room_inv_def m_room_weak_def of_bool_def split: if_splits)
      with cnt start have "m_starts ?s = 0" by simp
      with True MRSettled c m_start_settled_inv [OF inv'] show ?thesis by simp
    qed
  qed (use MRSettled inv in simp)
qed (use inv in \<open>auto simp: m_room_handler_defs mr_rerendered_inv split: option.split\<close>)

lemma m_room_inv_init: "m_room_inv (m_room_init b c)"
  by (simp add: m_room_inv_def m_room_weak_def m_room_init_def m_starts_def m_live_game_def)

interpretation mrs: machine "m_room_init b c" m_room_step m_room_inv
  for b c by unfold_locales (rule m_room_inv_init, rule m_room_inv_step)

text \<open>Claim C29: the phone's lobby, too, hands the game over at most once and has done so whenever its
  room is in game, whoever called start; at most one start request is in flight.\<close>

theorem phone_handoff_exactly_once:
  "let s = run m_room_step (m_room_init b c) es in
     length (mr_handoffs s) \<le> 1 \<and> (m_live_game s \<longrightarrow> length (mr_handoffs s) = 1) \<and>
     m_starts s \<le> 1 \<and> (\<not> mr_startCalled s \<longrightarrow> m_starts s = 0)"
  using mrs.always [of b c es]
  by (auto simp: m_room_inv_def m_room_weak_def Let_def of_bool_def split: if_splits)

lemma phone_handoff_exactly_once_witness:
  "m_starts (run m_room_step (m_room_init True None) [MRSettled 0 (MOutAuth (Inr None))]) \<le> 1"
  using phone_handoff_exactly_once [of True None "[MRSettled 0 (MOutAuth (Inr None))]"] by (simp only: Let_def)

subsection \<open>The same match from either client\<close>

text \<open>What the two lobbies know in common, for a room whose names and fighters are not empty strings.\<close>

definition same_lobby :: "room_screen \<Rightarrow> m_room \<Rightarrow> bool" where
  "same_lobby s m \<longleftrightarrow> rm_room s = mr_room m \<and> myIdRef s = mr_myIdRef m \<and> startCalledRef s = mr_startCalled m \<and>
     gameHandedOffRef s = mr_handedOff m \<and> rm_handoffs s = mr_handoffs m \<and> mr_mounted m"

definition plain_player :: "room_player_data \<Rightarrow> bool" where
  "plain_player p \<longleftrightarrow> rp_name p \<noteq> [] \<and> rp_character_id p \<noteq> Some []"

definition plain_room :: "room_data \<Rightarrow> bool" where
  "plain_room r \<longleftrightarrow> plain_player (room_host r) \<and> (\<forall>g. room_guest r = Some g \<longrightarrow> plain_player g)"

lemma slot_character_same:
  "(\<forall>x. p = Some x \<longrightarrow> plain_player x) \<Longrightarrow> M_slot_character p d = slot_character p d"
  by (auto simp: M_slot_character_def slot_character_def plain_player_def truthy_def split: option.split)

lemma slot_name_same:
  "(\<forall>x. p = Some x \<longrightarrow> plain_player x) \<Longrightarrow> M_slot_name p d = nullish (map_option rp_name p) d"
  by (auto simp: M_slot_name_def plain_player_def split: option.split)

lemma effects_agree:
  assumes "same_lobby s m" "rm_room s = Some r" "plain_room r"
  shows "same_lobby (room_effect s) (M_room_effect m) \<and>
    (CallStart (room_code r) \<in> set (rm_calls (room_effect s)) - set (rm_calls s) \<longrightarrow>
       MCallStart (room_code r) \<in> set (mr_calls (M_room_effect m)))"
proof -
  let ?opp = "if isHost s r then room_guest r else Some (room_host r)"
  let ?me = "if isHost s r then Some (room_host r) else room_guest r"
  have p: "\<forall>x. ?opp = Some x \<longrightarrow> plain_player x" "\<forall>x. ?me = Some x \<longrightarrow> plain_player x"
    using assms(3) by (auto simp: plain_room_def)
  have host: "M_isHost m r = isHost s r" using assms(1) by (simp add: same_lobby_def isHost_def M_isHost_def)
  have m: "mr_room m = Some r" using assms(1,2) by (simp add: same_lobby_def)
  consider "room_status r = RoomInGame \<and> truthy (room_game_id r)"
    | "\<not> (room_status r = RoomInGame \<and> truthy (room_game_id r))" by blast
  then show ?thesis
  proof cases
    case 1
    then show ?thesis
      using assms(1,2) m host slot_character_same [OF p(1), of "''bora''"] slot_character_same [OF p(2), of "''haneul''"]
        slot_name_same [OF p(1), of "''Opponent''"]
      by (simp add: room_effect_def M_room_effect_def same_lobby_def my_slot_def opp_slot_def Let_def)
  next
    case 2
    then have "room_effect s = (if \<not> startCalledRef s \<and> both_ready r
          then room_call (CallStart (room_code r)) (s\<lparr>startCalledRef := True\<rparr>) else s)"
        "M_room_effect m = (if \<not> mr_startCalled m \<and> both_ready r
          then mr_call (MCallStart (room_code r)) (m\<lparr>mr_startCalled := True\<rparr>) else m)"
      using assms(2) m by (simp_all only: room_effect_def M_room_effect_def option.case if_False simp_thms)
    then show ?thesis using assms(1) by (simp add: same_lobby_def room_call_def mr_call_def)
  qed
qed

text \<open>Claim C30: on the same room data the phone's lobby and the web's hand over the same game, opponent and
  fighters, or call start in the same situation.\<close>

theorem phone_lobby_is_web_lobby:
  assumes "same_lobby s m" and "plain_room r"
  shows "same_lobby (setRoom r s) (mr_setRoom r m) \<and>
    (CallStart (room_code r) \<in> set (rm_calls (setRoom r s)) - set (rm_calls s) \<longrightarrow>
       MCallStart (room_code r) \<in> set (mr_calls (mr_setRoom r m)))"
proof -
  let ?m = "m\<lparr>mr_room := Some r,
      mr_poll := (if map_option room_code (mr_room m) \<noteq> Some (room_code r) then mr_poll m + 1 else mr_poll m)\<rparr>"
  let ?s = "s\<lparr>rm_room := Some r, rm_polling := Some (room_code r)\<rparr>"
  have "same_lobby ?s ?m" using assms(1) by (simp add: same_lobby_def)
  moreover have "setRoom r s = room_effect ?s" by (simp add: setRoom_def)
  moreover have "mr_setRoom r m = M_room_effect ?m" using assms(1) by (simp add: mr_setRoom_def same_lobby_def)
  moreover have "rm_calls ?s = rm_calls s" "rm_room ?s = Some r" by simp_all
  ultimately show ?thesis using effects_agree [of ?s ?m r] assms(2) by metis
qed

lemma phone_lobby_is_web_lobby_witness:
  "rm_handoffs (setRoom sample_room (room_init EnterCreate)) = mr_handoffs (mr_setRoom sample_room (m_room_init True None))"
proof -
  have "same_lobby (room_init EnterCreate) (m_room_init True None)"
    by (simp add: same_lobby_def room_init_def m_room_init_def)
  moreover have "plain_room sample_room" by (simp add: plain_room_def plain_player_def sample_room_def)
  ultimately show ?thesis using phone_lobby_is_web_lobby by (simp add: same_lobby_def)
qed

subsection \<open>A room that is gone\<close>

text \<open>The phone hears that the host left where the web does not: the server's 404 for a destroyed
  room makes the phone show "The room is gone." and schedule the exit, and leaves the web's lobby unchanged.\<close>

theorem phone_hears_departure:
  assumes "mr_mounted m" and "body = Inr (fastapi_error (JStr ''room not found''))"
  shows "RoomLobby_view (M_poll_settled g code (Inl (M_api_error 404 body)) m) = MRoomError ''The room is gone.'' \<and>
    mr_exit_timers (M_poll_settled g code (Inl (M_api_error 404 body)) m) = mr_exit_timers m + 1 \<and>
    poll_settled code (Inl (api_error 404 body)) s = s"
proof -
  have "M_api_error 404 body = Js_Error ''room not found''"
    using assms(2) by (simp add: M_api_error_def fastapi_error_def jopt_def Let_def)
  then show ?thesis using assms
    by (simp add: M_poll_settled_def host_left_def not_found_texts mr_track_def mr_setError_def RoomLobby_view_def
        poll_settled_def fastapi_error_message shown_statuses)
qed

lemma phone_hears_departure_witness:
  "RoomLobby_view (M_poll_settled 1 ''ABCD'' (Inl (M_api_error 404 (Inr (fastapi_error (JStr ''room not found'')))))
     (m_room_init True None)) = MRoomError ''The room is gone.''"
  using phone_hears_departure [OF _ refl, of "m_room_init True None"] by (simp add: m_room_init_def)

text \<open>The polling goes on during the 1.5 s before the exit, so the next poll, one second later,
  schedules a second exit, which fires after the lobby has gone.\<close>

lemma late_exit:
  assumes "mr_mounted m" "mr_room m = Some r" "mr_calls m = []" "mr_exit_timers m = 0"
  defines "gone \<equiv> MOutRoom (Inl (Js_Error ''room not found''))"
  shows "let m1 = run m_room_step m [MRPollTick, MRSettled 0 gone, MRPollTick, MRSettled 0 gone, MRExitTimer, MRUnmount];
             m2 = m_room_step m1 MRExitTimer
         in mr_exits m1 = mr_exits m + 1 \<and> \<not> mr_mounted m1 \<and> mr_exits m2 = mr_exits m + 2"
  using assms
  by (simp add: M_poll_tick_def mr_call_def M_poll_settled_def host_left_def not_found_texts mr_track_def
      mr_setError_def M_exit_timer_def M_unmounted_def drop_nth_def Let_def)

text \<open>On the page that second exit closes whatever room the player has opened meanwhile.\<close>

lemma late_exit_closes_next_room:
  "mp_mode (m_page_step p CreateRoomTapped) = ModeRoom \<Longrightarrow>
   mp_mode (run m_page_step p [M_RoomExit, CreateRoomTapped, M_RoomExit]) = ModeMenu"
  by (simp add: M_roomExit_def)

end
