(* ===== verification/Wav_Sound.thy ===== *)
theory Wav_Sound
  imports Prelude "HOL-Library.Word" Complex_Main
begin

unbundle bit_operations_syntax

text \<open>
  The procedural sounds of the phone, \<open>mobile/src/hooks/useSoundEffects.ts\<close>: PCM
  samples as 16-bit words, their WAV file as bytes, its data URI in base64, and
  the mute preference.  JavaScript numbers are real numbers here; a store to an
  \<open>Int16Array\<close> keeps the low 16 bits.  \<open>Math.random\<close> is a sequence of numbers.
\<close>

type_synonym byte = "8 word"
type_synonym sample = "16 word"

definition SAMPLE_RATE :: nat where "SAMPLE_RATE = 22050"

subsection \<open>Bytes and base64\<close>

definition le16 :: "16 word \<Rightarrow> byte list" where
  "le16 w = [ucast w, ucast (drop_bit 8 w)]"

definition le32 :: "32 word \<Rightarrow> byte list" where
  "le32 w = [ucast w, ucast (drop_bit 8 w), ucast (drop_bit 16 w), ucast (drop_bit 24 w)]"

definition char_byte :: "char \<Rightarrow> byte" where
  "char_byte c = word_of_nat (of_char c)"

text \<open>Writing into a \<open>DataView\<close> at an offset; all writes lie inside the buffer.\<close>

definition put :: "nat \<Rightarrow> byte list \<Rightarrow> byte list \<Rightarrow> byte list" where
  "put offset bs buf = take offset buf @ bs @ drop (offset + length bs) buf"

fun writeString :: "nat \<Rightarrow> string \<Rightarrow> byte list \<Rightarrow> byte list" where
  "writeString offset [] buf = buf"
| "writeString offset (c # cs) buf = writeString (offset + 1) cs (put offset [char_byte c] buf)"

fun put_samples :: "nat \<Rightarrow> sample list \<Rightarrow> byte list \<Rightarrow> byte list" where
  "put_samples offset [] buf = buf"
| "put_samples offset (s # ss) buf = put_samples (offset + 2) ss (put offset (le16 s) buf)"

definition b64_char :: "nat \<Rightarrow> char" where
  "b64_char n =
     (if n < 26 then char_of (65 + n) else if n < 52 then char_of (71 + n)
      else if n < 62 then char_of (n - 4) else if n = 62 then CHR ''+'' else CHR ''/'')"

text \<open>\<open>btoa\<close>: three bytes as four characters, the last group padded.\<close>

fun btoa :: "byte list \<Rightarrow> string" where
  "btoa [] = []"
| "btoa [a] =
     (let n = unat a * 16 in [b64_char (n div 64), b64_char (n mod 64), CHR ''='', CHR ''=''])"
| "btoa [a, b] =
     (let n = (unat a * 256 + unat b) * 4
      in [b64_char (n div 4096), b64_char (n div 64 mod 64), b64_char (n mod 64), CHR ''=''])"
| "btoa (a # b # c # rest) =
     (let n = unat a * 65536 + unat b * 256 + unat c
      in [b64_char (n div 262144), b64_char (n div 4096 mod 64), b64_char (n div 64 mod 64),
          b64_char (n mod 64)] @ btoa rest)"

definition wav_header :: "nat \<Rightarrow> byte list \<Rightarrow> byte list" where
  "wav_header dataSize buf =
     (let b1 = writeString 0 ''RIFF'' buf;
          b2 = put 4 (le32 (word_of_nat (36 + dataSize))) b1;
          b3 = writeString 8 ''WAVE'' b2;
          b4 = writeString 12 ''fmt '' b3;
          b5 = put 16 (le32 16) b4;
          b6 = put 20 (le16 1) b5;
          b7 = put 22 (le16 1) b6;
          b8 = put 24 (le32 (word_of_nat SAMPLE_RATE)) b7;
          b9 = put 28 (le32 (word_of_nat (SAMPLE_RATE * 2))) b8;
          b10 = put 32 (le16 2) b9;
          b11 = put 34 (le16 16) b10;
          b12 = writeString 36 ''data'' b11
      in put 40 (le32 (word_of_nat dataSize)) b12)"

definition wav_bytes :: "sample list \<Rightarrow> byte list" where
  "wav_bytes samples =
     (let dataSize = length samples * 2
      in put_samples 44 samples (wav_header dataSize (replicate (44 + dataSize) 0)))"

definition pcmToWavDataUri :: "sample list \<Rightarrow> string" where
  "pcmToWavDataUri samples = ''data:audio/wav;base64,'' @ btoa (wav_bytes samples)"

subsection \<open>Synthesis\<close>

definition to_int16 :: "real \<Rightarrow> sample" where
  "to_int16 r = word_of_int \<lfloor>r\<rfloor>"

definition num_samples :: "real \<Rightarrow> nat" where
  "num_samples duration = nat \<lfloor>real SAMPLE_RATE * duration\<rfloor>"

definition generateTone :: "real \<Rightarrow> real \<Rightarrow> real \<Rightarrow> bool \<Rightarrow> sample list" where
  "generateTone freq duration volume decay =
     map (\<lambda>i. let t = real i / real SAMPLE_RATE;
                  envelope = (if decay then max 0 (1 - t / duration) else 1)
              in to_int16 (sin (2 * pi * freq * t) * volume * envelope * 32767))
       [0..<num_samples duration]"

definition generateNoise :: "(nat \<Rightarrow> real) \<Rightarrow> real \<Rightarrow> real \<Rightarrow> sample list" where
  "generateNoise rnd duration volume =
     (let n = num_samples duration
      in map (\<lambda>i. let envelope = max 0 (1 - real i / real n)
                  in to_int16 ((rnd i * 2 - 1) * volume * envelope * 32767)) [0..<n])"

definition sample_at :: "sample list \<Rightarrow> nat \<Rightarrow> int" where
  "sample_at xs i = (if i < length xs then sint (xs ! i) else 0)"

definition mixSamples :: "sample list \<Rightarrow> sample list \<Rightarrow> sample list" where
  "mixSamples a b =
     map (\<lambda>i. word_of_int (max (-32767) (min 32767 (sample_at a i + sample_at b i))))
       [0..<max (length a) (length b)]"

text \<open>One note of an arpeggio, written sample by sample from its offset on.\<close>

fun write_note :: "real \<Rightarrow> real \<Rightarrow> real \<Rightarrow> nat \<Rightarrow> nat \<Rightarrow> nat \<Rightarrow> sample list \<Rightarrow> sample list" where
  "write_note freq noteLen volume offset j 0 samples = samples"
| "write_note freq noteLen volume offset j (Suc n) samples =
     (if offset + j < length samples then
        (let t = real j / real SAMPLE_RATE;
             envelope = max 0 (1 - t / noteLen)
         in write_note freq noteLen volume offset (j + 1) n
              (samples[offset + j := to_int16 (sin (2 * pi * freq * t) * volume * envelope * 32767)]))
      else samples)"

fun write_notes :: "real list \<Rightarrow> nat \<Rightarrow> real \<Rightarrow> real \<Rightarrow> sample list \<Rightarrow> sample list" where
  "write_notes [] i noteLen volume samples = samples"
| "write_notes (freq # freqs) i noteLen volume samples =
     write_notes freqs (i + 1) noteLen volume
       (write_note freq noteLen volume (nat \<lfloor>real SAMPLE_RATE * real i * noteLen\<rfloor>) 0
          (num_samples noteLen) samples)"

definition generateArpeggio :: "real list \<Rightarrow> real \<Rightarrow> real \<Rightarrow> sample list" where
  "generateArpeggio freqs noteLen volume =
     write_notes freqs 0 noteLen volume (replicate (num_samples (real (length freqs) * noteLen)) 0)"

subsection \<open>The sounds\<close>

datatype sound_name =
  SCountdownBeat | SReveal | SHit | SClash | SBlock | SDodge | SCharge | SRoundWin | SRoundLose

definition sound_samples :: "(nat \<Rightarrow> nat \<Rightarrow> real) \<Rightarrow> sound_name \<Rightarrow> sample list" where
  "sound_samples rnd name = (case name of
       SCountdownBeat \<Rightarrow> generateNoise (rnd 0) (5 / 100) (3 / 10)
     | SReveal \<Rightarrow> generateTone 400 (3 / 10) (2 / 10) True
     | SHit \<Rightarrow> mixSamples (generateTone 80 (2 / 10) (4 / 10) True) (generateNoise (rnd 1) (1 / 10) (3 / 10))
     | SClash \<Rightarrow> generateTone 400 (3 / 10) (15 / 100) True
     | SBlock \<Rightarrow> generateTone 120 (1 / 10) (3 / 10) True
     | SDodge \<Rightarrow> generateNoise (rnd 2) (2 / 10) (2 / 10)
     | SCharge \<Rightarrow> generateTone 200 (3 / 10) (15 / 100) True
     | SRoundWin \<Rightarrow> generateArpeggio [52325 / 100, 65925 / 100, 78399 / 100] (15 / 100) (2 / 10)
     | SRoundLose \<Rightarrow> generateArpeggio [392, 31113 / 100, 26163 / 100] (15 / 100) (2 / 10))"

definition generateSoundMap :: "(nat \<Rightarrow> nat \<Rightarrow> real) \<Rightarrow> sound_name \<Rightarrow> string" where
  "generateSoundMap rnd name = pcmToWavDataUri (sound_samples rnd name)"

subsection \<open>Reading a WAV file back\<close>

text \<open>A reader of the format, as the specification of what the phone hands to its audio module.\<close>

definition un16 :: "byte \<Rightarrow> byte \<Rightarrow> 16 word" where
  "un16 a b = ucast a OR push_bit 8 (ucast b)"

definition un32 :: "byte \<Rightarrow> byte \<Rightarrow> byte \<Rightarrow> byte \<Rightarrow> 32 word" where
  "un32 a b c d = ucast a OR push_bit 8 (ucast b) OR push_bit 16 (ucast c) OR push_bit 24 (ucast d)"

definition u16_at :: "byte list \<Rightarrow> nat \<Rightarrow> 16 word" where
  "u16_at bs i = un16 (bs ! i) (bs ! (i + 1))"

definition u32_at :: "byte list \<Rightarrow> nat \<Rightarrow> 32 word" where
  "u32_at bs i = un32 (bs ! i) (bs ! (i + 1)) (bs ! (i + 2)) (bs ! (i + 3))"

definition tag_at :: "byte list \<Rightarrow> nat \<Rightarrow> string \<Rightarrow> bool" where
  "tag_at bs i tag \<longleftrightarrow> take (length tag) (drop i bs) = map char_byte tag"

fun read_samples :: "byte list \<Rightarrow> sample list option" where
  "read_samples [] = Some []"
| "read_samples [a] = None"
| "read_samples (a # b # bs) = map_option (\<lambda>ss. un16 a b # ss) (read_samples bs)"

definition read_wav :: "byte list \<Rightarrow> (nat \<times> sample list) option" where
  "read_wav bs =
     (if 44 \<le> length bs \<and> tag_at bs 0 ''RIFF'' \<and> unat (u32_at bs 4) + 8 = length bs \<and>
         tag_at bs 8 ''WAVE'' \<and> tag_at bs 12 ''fmt '' \<and> u32_at bs 16 = 16 \<and> u16_at bs 20 = 1 \<and>
         u16_at bs 22 = 1 \<and> unat (u32_at bs 28) = unat (u32_at bs 24) * 2 \<and> u16_at bs 32 = 2 \<and>
         u16_at bs 34 = 16 \<and> tag_at bs 36 ''data'' \<and> unat (u32_at bs 40) + 44 = length bs
      then map_option (Pair (unat (u32_at bs 24))) (read_samples (drop 44 bs)) else None)"

definition b64_val :: "char \<Rightarrow> nat option" where
  "b64_val c = (let n = (of_char c :: nat) in
     if 65 \<le> n \<and> n \<le> 90 then Some (n - 65) else if 97 \<le> n \<and> n \<le> 122 then Some (n - 71)
     else if 48 \<le> n \<and> n \<le> 57 then Some (n + 4) else if n = 43 then Some 62
     else if n = 47 then Some 63 else None)"

fun atob :: "string \<Rightarrow> byte list option" where
  "atob [] = Some []"
| "atob (p # q # r # s # rest) =
     (case (b64_val p, b64_val q) of
        (Some w, Some x) \<Rightarrow>
          (if s = CHR ''='' then
             (if rest \<noteq> [] then None
              else if r = CHR ''='' then Some [word_of_nat ((w * 64 + x) div 16)]
              else (case b64_val r of
                      None \<Rightarrow> None
                    | Some y \<Rightarrow> (let n = (w * 4096 + x * 64 + y) div 4
                                in Some [word_of_nat (n div 256), word_of_nat (n mod 256)])))
           else (case (b64_val r, b64_val s) of
                   (Some y, Some z) \<Rightarrow>
                     (let n = w * 262144 + x * 4096 + y * 64 + z
                      in map_option (\<lambda>bs. word_of_nat (n div 65536) # word_of_nat (n div 256 mod 256) #
                           word_of_nat (n mod 256) # bs) (atob rest))
                 | _ \<Rightarrow> None))
      | _ \<Rightarrow> None)"
| "atob _ = None"

definition read_wav_uri :: "string \<Rightarrow> (nat \<times> sample list) option" where
  "read_wav_uri s =
     (if take 22 s = ''data:audio/wav;base64,'' then Option.bind (atob (drop 22 s)) read_wav else None)"

lemma un16_le16: "le16 w = [a, b] \<Longrightarrow> un16 a b = w"
  by (auto simp: le16_def un16_def intro!: bit_word_eqI) (auto simp: bit_simps)

lemma un32_le32: "un32 (ucast w) (ucast (drop_bit 8 w)) (ucast (drop_bit 16 w)) (ucast (drop_bit 24 w)) = w"
proof (rule bit_word_eqI)
  fix n assume "n < LENGTH(32)"
  then show "bit (un32 (ucast w) (ucast (drop_bit 8 w)) (ucast (drop_bit 16 w)) (ucast (drop_bit 24 w))) n = bit w n"
    by (cases "n < 8"; cases "n < 16"; cases "n < 24") (auto simp: un32_def bit_simps)
qed

lemma b64_val_char: "n < 64 \<Longrightarrow> b64_val (b64_char n) = Some n"
  by (auto simp: b64_char_def b64_val_def Let_def)

lemma b64_char_pad: "n < 64 \<Longrightarrow> b64_char n \<noteq> CHR ''=''"
  using b64_val_char [of n] by (auto simp: b64_val_def)

lemma byte_lt: "unat (a :: byte) < 256"
proof -
  have "unat a < 2 ^ LENGTH(8)" by (rule unsigned_less)
  then show ?thesis by simp
qed

text \<open>Digits to base 64, and the three bytes they make up.\<close>

lemma two_digits: "(m :: nat) div 64 * 64 + m mod 64 = m"
  by simp

lemma three_digits: "(m :: nat) div 4096 * 4096 + m div 64 mod 64 * 64 + m mod 64 = m"
proof -
  have "m div 4096 * 64 + m div 64 mod 64 = m div 64"
    using two_digits [of "m div 64"] by (simp add: div_mult2_eq [symmetric])
  then show ?thesis using two_digits [of m] by linarith
qed

lemma four_digits:
  "(m :: nat) div 262144 * 262144 + m div 4096 mod 64 * 4096 + m div 64 mod 64 * 64 + m mod 64 = m"
proof -
  have "m div 262144 * 64 + m div 4096 mod 64 = m div 4096"
    using two_digits [of "m div 4096"] by (simp add: div_mult2_eq [symmetric])
  then show ?thesis using three_digits [of m] by linarith
qed

lemma split_three:
  assumes "b < 256" "c < (256 :: nat)"
  shows "(a * 65536 + b * 256 + c) div 65536 = a" "(a * 65536 + b * 256 + c) div 256 mod 256 = b"
    "(a * 65536 + b * 256 + c) mod 256 = c"
proof -
  have e: "a * 65536 + b * 256 + c = (a * 256 + b) * 256 + c" by simp
  have d: "(a * 65536 + b * 256 + c) div 256 = a * 256 + b" unfolding e using assms(2) by simp
  show "(a * 65536 + b * 256 + c) mod 256 = c"
    using assms(2) mod_mult_self3 [of "a * 256 + b" 256 c] by (simp only: e mod_less)
  show "(a * 65536 + b * 256 + c) div 256 mod 256 = b" unfolding d using assms(1) by simp
  have "(a * 65536 + b * 256 + c) div 65536 = (a * 65536 + b * 256 + c) div 256 div 256"
    by (simp add: div_mult2_eq [symmetric])
  then show "(a * 65536 + b * 256 + c) div 65536 = a" unfolding d using assms(1) by simp
qed

lemma atob_btoa [simp]: "atob (btoa bs) = Some bs"
proof (induction bs rule: btoa.induct)
  case (2 a)
  have "unat a * 16 div 64 < 64" "unat a * 16 mod 64 < 64" using byte_lt [of a] by auto
  moreover have "(unat a * 16 div 64 * 64 + unat a * 16 mod 64) div 16 = unat a"
    unfolding two_digits by simp
  ultimately show ?case by (simp only: btoa.simps Let_def atob.simps) (simp add: b64_val_char)
next
  case (3 a b)
  define k where "k = (unat a * 256 + unat b) * 4"
  have m: "k div 4096 < 64" using byte_lt [of a] byte_lt [of b] by (simp add: k_def)
  have e: "k div 4 div 256 = unat a" "k div 4 mod 256 = unat b"
    using byte_lt [of b] by (simp_all add: k_def)
  show ?case
    using m by (simp only: btoa.simps Let_def atob.simps k_def [symmetric])
      (simp add: b64_val_char b64_char_pad three_digits e Let_def)
next
  case (4 a b c rest)
  define n where "n = unat a * 65536 + unat b * 256 + unat c"
  have n: "n div 262144 < 64" using byte_lt [of a] byte_lt [of b] byte_lt [of c] by (simp add: n_def)
  have e: "n div 65536 = unat a" "n div 256 mod 256 = unat b" "n mod 256 = unat c"
    unfolding n_def using split_three [OF byte_lt byte_lt] by simp_all
  show ?case
    using n 4 by (simp only: btoa.simps Let_def append.simps atob.simps n_def [symmetric])
      (simp add: b64_val_char b64_char_pad four_digits e Let_def)
qed simp

subsection \<open>The bytes of a file\<close>

lemma put_at:
  "length xs = offset \<Longrightarrow> length ys = length bs \<Longrightarrow> put offset bs (xs @ ys @ zs) = xs @ bs @ zs"
  by (simp add: put_def)

lemma put_samples_at:
  "length xs = offset \<Longrightarrow> length ys = 2 * length ss \<Longrightarrow>
   put_samples offset ss (xs @ ys) = xs @ concat (map le16 ss)"
proof (induction ss arbitrary: offset xs ys)
  case (Cons s ss)
  then obtain a b ys' where ys: "ys = [a, b] @ ys'" "length ys' = 2 * length ss"
    by (cases ys; cases "tl ys") auto
  have "put offset (le16 s) (xs @ [a, b] @ ys') = xs @ le16 s @ ys'"
    by (rule put_at) (use Cons.prems in \<open>simp_all add: le16_def\<close>)
  with Cons.IH [of "xs @ le16 s" "offset + 2" ys'] Cons.prems(1) ys show ?case
    by (simp add: le16_def)
qed simp

definition header_bytes :: "nat \<Rightarrow> byte list" where
  "header_bytes dataSize =
     map char_byte ''RIFF'' @ le32 (word_of_nat (36 + dataSize)) @ map char_byte ''WAVE'' @
     map char_byte ''fmt '' @ le32 16 @ le16 1 @ le16 1 @ le32 (word_of_nat SAMPLE_RATE) @
     le32 (word_of_nat (SAMPLE_RATE * 2)) @ le16 2 @ le16 16 @ map char_byte ''data'' @
     le32 (word_of_nat dataSize)"

lemma length_header: "length (header_bytes n) = 44"
  by (simp add: header_bytes_def le32_def le16_def)

lemma writeString_at:
  "length xs = offset \<Longrightarrow> length ys = length s \<Longrightarrow>
   writeString offset s (xs @ ys @ zs) = xs @ map char_byte s @ zs"
proof (induction s arbitrary: offset xs ys)
  case (Cons c cs)
  then obtain y ys' where ys: "ys = [y] @ ys'" "length ys' = length cs" by (cases ys) auto
  have "put offset [char_byte c] (xs @ [y] @ ys' @ zs) = xs @ [char_byte c] @ ys' @ zs"
    by (rule put_at) (use Cons.prems in simp_all)
  with Cons.IH [of "xs @ [char_byte c]" "offset + 1" ys'] Cons.prems(1) ys show ?case by simp
qed simp

text \<open>The fields of the header, in the order of the file and with their widths.\<close>

lemma length_le: "length (le16 w) = 2" "length (le32 v) = 4"
  by (simp_all add: le16_def le32_def)

lemma zeros_split: "replicate (44 + n) (0 :: byte) =
    [] @ replicate 4 0 @ replicate 4 0 @ replicate 4 0 @ replicate 4 0 @ replicate 4 0 @ replicate 2 0 @
    replicate 2 0 @ replicate 4 0 @ replicate 4 0 @ replicate 2 0 @ replicate 2 0 @ replicate 4 0 @
    replicate 4 0 @ replicate n 0"
  by (simp only: append_Nil replicate_add [symmetric] append_assoc) simp

lemma wav_header_layout: "wav_header n (replicate (44 + n) 0) = header_bytes n @ replicate n 0"
proof -
  have step: "put off bs (xs @ replicate k 0 @ zs) = (xs @ bs) @ zs"
    if "length xs = off" "length bs = k" for off bs xs k zs
    using that by (simp add: put_at)
  have tag: "writeString off s (xs @ replicate 4 0 @ zs) = (xs @ map char_byte s) @ zs"
    if "length xs = off" "length s = 4" for off s xs zs
    using that by (simp add: writeString_at)
  show ?thesis
    unfolding wav_header_def Let_def zeros_split header_bytes_def
    by (((subst tag | subst step), simp add: length_le, simp add: length_le)+)
      (simp only: append_assoc append_Nil)
qed

lemma wav_bytes_layout: "wav_bytes samples = header_bytes (length samples * 2) @ concat (map le16 samples)"
  unfolding wav_bytes_def Let_def wav_header_layout
  by (rule put_samples_at) (simp_all add: length_header)

lemma read_samples_le16 [simp]: "read_samples (concat (map le16 ss)) = Some ss"
  by (induction ss) (simp_all add: le16_def un16_le16)

lemma length_le16s: "length (concat (map le16 ss)) = 2 * length ss"
  by (induction ss) (simp_all add: le16_def)

lemma read_header:
  assumes "bs = map char_byte ''RIFF'' @ le32 A @ map char_byte ''WAVE'' @ map char_byte ''fmt '' @
      le32 16 @ le16 1 @ le16 1 @ le32 B @ le32 C @ le16 2 @ le16 16 @ map char_byte ''data'' @ le32 D @ body"
    and "unat A + 8 = 44 + length body" "unat C = unat B * 2" "unat D = length body"
  shows "read_wav bs = map_option (Pair (unat B)) (read_samples body)"
proof -
  have s: "un32 16 0 0 0 = 16" using un32_le32 [of 16] by simp
  have "tag_at bs 0 ''RIFF''" "tag_at bs 8 ''WAVE''" "tag_at bs 12 ''fmt ''" "tag_at bs 36 ''data''"
    "u32_at bs 4 = A" "u32_at bs 16 = 16" "u16_at bs 20 = 1" "u16_at bs 22 = 1" "u32_at bs 24 = B"
    "u32_at bs 28 = C" "u16_at bs 32 = 2" "u16_at bs 34 = 16" "u32_at bs 40 = D"
    "drop 44 bs = body" "length bs = 44 + length body"
    by (simp_all add: assms(1) tag_at_def u32_at_def u16_at_def le32_def le16_def un32_le32 s un16_def)
  with assms(2-4) show ?thesis by (simp add: read_wav_def)
qed

lemma read_wav_bytes:
  assumes "36 + length samples * 2 < 2 ^ 32"
  shows "read_wav (wav_bytes samples) = Some (SAMPLE_RATE, samples)"
proof -
  let ?n = "length samples * 2"
  have w: "unat (word_of_nat m :: 32 word) = m" if "m \<le> 36 + ?n" for m
    using assms that by (simp add: unsigned_of_nat take_bit_nat_eq_self_iff)
  have r: "unat (word_of_nat SAMPLE_RATE :: 32 word) = SAMPLE_RATE"
    "unat (word_of_nat (SAMPLE_RATE * 2) :: 32 word) = SAMPLE_RATE * 2"
    by (simp_all add: SAMPLE_RATE_def)
  have "wav_bytes samples = map char_byte ''RIFF'' @ le32 (word_of_nat (36 + ?n)) @ map char_byte ''WAVE'' @
      map char_byte ''fmt '' @ le32 16 @ le16 1 @ le16 1 @ le32 (word_of_nat SAMPLE_RATE) @
      le32 (word_of_nat (SAMPLE_RATE * 2)) @ le16 2 @ le16 16 @ map char_byte ''data'' @
      le32 (word_of_nat ?n) @ concat (map le16 samples)"
    by (simp only: wav_bytes_layout header_bytes_def append_assoc)
  moreover have "unat (word_of_nat (36 + ?n) :: 32 word) + 8 = 44 + length (concat (map le16 samples))"
    "unat (word_of_nat ?n :: 32 word) = length (concat (map le16 samples))"
    by (simp_all only: length_le16s w)
  moreover have "unat (word_of_nat (SAMPLE_RATE * 2) :: 32 word) = unat (word_of_nat SAMPLE_RATE :: 32 word) * 2"
    by (simp only: r)
  ultimately have "read_wav (wav_bytes samples) =
      map_option (Pair (unat (word_of_nat SAMPLE_RATE :: 32 word))) (read_samples (concat (map le16 samples)))"
    by (intro read_header) assumption+
  then show ?thesis by (simp add: r)
qed

lemma read_uri:
  "36 + length samples * 2 < 2 ^ 32 \<Longrightarrow>
   read_wav_uri (pcmToWavDataUri samples) = Some (SAMPLE_RATE, samples)"
  by (simp add: read_wav_uri_def pcmToWavDataUri_def read_wav_bytes)

subsection \<open>Samples stay in range\<close>

text \<open>
  The waveforms without the 16-bit conversion: every value is the integer part of the real number the code
  computes, mixing adds without limits, and nothing wraps.
\<close>

definition exact_tone :: "real \<Rightarrow> real \<Rightarrow> real \<Rightarrow> bool \<Rightarrow> int list" where
  "exact_tone freq duration volume decay =
     map (\<lambda>i. \<lfloor>sin (2 * pi * freq * (real i / real SAMPLE_RATE)) * volume *
             (if decay then max 0 (1 - real i / real SAMPLE_RATE / duration) else 1) * 32767\<rfloor>)
       [0..<num_samples duration]"

definition exact_noise :: "(nat \<Rightarrow> real) \<Rightarrow> real \<Rightarrow> real \<Rightarrow> int list" where
  "exact_noise rnd duration volume =
     map (\<lambda>i. \<lfloor>(rnd i * 2 - 1) * volume * max 0 (1 - real i / real (num_samples duration)) * 32767\<rfloor>)
       [0..<num_samples duration]"

definition exact_mix :: "int list \<Rightarrow> int list \<Rightarrow> int list" where
  "exact_mix a b =
     map (\<lambda>i. (if i < length a then a ! i else 0) + (if i < length b then b ! i else 0)) [0..<max (length a) (length b)]"

fun exact_note :: "real \<Rightarrow> real \<Rightarrow> real \<Rightarrow> nat \<Rightarrow> nat \<Rightarrow> nat \<Rightarrow> int list \<Rightarrow> int list" where
  "exact_note freq noteLen volume offset j 0 xs = xs"
| "exact_note freq noteLen volume offset j (Suc n) xs =
     (if offset + j < length xs then
        exact_note freq noteLen volume offset (j + 1) n
          (xs[offset + j := \<lfloor>sin (2 * pi * freq * (real j / real SAMPLE_RATE)) * volume *
              max 0 (1 - real j / real SAMPLE_RATE / noteLen) * 32767\<rfloor>])
      else xs)"

fun exact_notes :: "real list \<Rightarrow> nat \<Rightarrow> real \<Rightarrow> real \<Rightarrow> int list \<Rightarrow> int list" where
  "exact_notes [] i noteLen volume xs = xs"
| "exact_notes (freq # freqs) i noteLen volume xs =
     exact_notes freqs (i + 1) noteLen volume
       (exact_note freq noteLen volume (nat \<lfloor>real SAMPLE_RATE * real i * noteLen\<rfloor>) 0 (num_samples noteLen) xs)"

definition exact_arpeggio :: "real list \<Rightarrow> real \<Rightarrow> real \<Rightarrow> int list" where
  "exact_arpeggio freqs noteLen volume =
     exact_notes freqs 0 noteLen volume (replicate (num_samples (real (length freqs) * noteLen)) 0)"

definition exact_samples :: "(nat \<Rightarrow> nat \<Rightarrow> real) \<Rightarrow> sound_name \<Rightarrow> int list" where
  "exact_samples rnd name = (case name of
       SCountdownBeat \<Rightarrow> exact_noise (rnd 0) (5 / 100) (3 / 10)
     | SReveal \<Rightarrow> exact_tone 400 (3 / 10) (2 / 10) True
     | SHit \<Rightarrow> exact_mix (exact_tone 80 (2 / 10) (4 / 10) True) (exact_noise (rnd 1) (1 / 10) (3 / 10))
     | SClash \<Rightarrow> exact_tone 400 (3 / 10) (15 / 100) True
     | SBlock \<Rightarrow> exact_tone 120 (1 / 10) (3 / 10) True
     | SDodge \<Rightarrow> exact_noise (rnd 2) (2 / 10) (2 / 10)
     | SCharge \<Rightarrow> exact_tone 200 (3 / 10) (15 / 100) True
     | SRoundWin \<Rightarrow> exact_arpeggio [52325 / 100, 65925 / 100, 78399 / 100] (15 / 100) (2 / 10)
     | SRoundLose \<Rightarrow> exact_arpeggio [392, 31113 / 100, 26163 / 100] (15 / 100) (2 / 10))"

lemma sint_of_int: "-32768 \<le> k \<Longrightarrow> k \<le> 32767 \<Longrightarrow> sint (word_of_int k :: 16 word) = k"
  by (simp add: signed_of_int signed_take_bit_int_eq_self)

text \<open>A number of absolute value at most one, scaled, is stored exactly.\<close>

lemma to_int16_exact:
  assumes "\<bar>x\<bar> \<le> 1"
  shows "sint (to_int16 (x * 32767)) = \<lfloor>x * 32767\<rfloor>"
proof -
  have "-32767 \<le> \<lfloor>x * 32767\<rfloor>" "\<lfloor>x * 32767\<rfloor> \<le> 32767"
    using assms by (simp_all add: le_floor_iff floor_le_iff abs_le_iff)
  then show ?thesis by (simp add: to_int16_def sint_of_int)
qed

text \<open>The amplitude of a sound: a factor within one, its volume and its envelope.\<close>

lemma amplitude:
  assumes "\<bar>a\<bar> \<le> 1" "0 \<le> v" "\<bar>c\<bar> \<le> 1"
  shows "\<bar>a * v * c :: real\<bar> \<le> v"
proof -
  have "\<bar>a * v * c\<bar> = v * (\<bar>a\<bar> * \<bar>c\<bar>)" using assms(2) by (simp add: abs_mult)
  also have "\<dots> \<le> v * 1" using assms by (intro mult_left_mono) (simp_all add: mult_le_one)
  finally show ?thesis by simp
qed

lemma decay_bounds: "0 \<le> (t :: real) \<Longrightarrow> \<bar>max 0 (1 - t)\<bar> \<le> 1"
  by auto

lemma tone_amplitude:
  "0 \<le> v \<Longrightarrow> 0 < d \<Longrightarrow>
   \<bar>sin x * v * (if dec then max 0 (1 - real i / real SAMPLE_RATE / d) else 1)\<bar> \<le> v"
  by (rule amplitude) (auto simp: abs_sin_le_one)

lemma noise_amplitude:
  "0 \<le> v \<Longrightarrow> 0 \<le> r \<and> r < 1 \<Longrightarrow> \<bar>(r * 2 - 1) * v * max 0 (1 - real i / real n)\<bar> \<le> v"
  by (rule amplitude) auto

lemma exact_generated_tone:
  "0 \<le> v \<Longrightarrow> v \<le> 1 \<Longrightarrow> 0 < d \<Longrightarrow> map sint (generateTone f d v dec) = exact_tone f d v dec"
  unfolding generateTone_def exact_tone_def Let_def map_map comp_def
  by (intro map_cong refl to_int16_exact order.trans [OF tone_amplitude])

lemma exact_generated_noise:
  "0 \<le> v \<Longrightarrow> v \<le> 1 \<Longrightarrow> (\<And>i. 0 \<le> rnd i \<and> rnd i < 1) \<Longrightarrow> map sint (generateNoise rnd d v) = exact_noise rnd d v"
  unfolding generateNoise_def exact_noise_def Let_def map_map comp_def
  by (intro map_cong refl to_int16_exact order.trans [OF noise_amplitude])

text \<open>Two sounds whose volumes add up to at most one mix without being cut off.\<close>

lemma scaled_floor:
  assumes "\<bar>x\<bar> \<le> v" shows "\<lfloor>- (v * 32767)\<rfloor> \<le> \<lfloor>x * 32767\<rfloor> \<and> \<lfloor>x * 32767\<rfloor> \<le> \<lfloor>v * 32767\<rfloor>"
  using assms by (intro conjI floor_mono) (simp_all add: abs_le_iff)

definition in_volume :: "real \<Rightarrow> int list \<Rightarrow> bool" where
  "in_volume v xs \<longleftrightarrow> list_all (\<lambda>k. \<lfloor>- (v * 32767)\<rfloor> \<le> k \<and> k \<le> \<lfloor>v * 32767\<rfloor>) xs"

lemma in_volume_tone: "0 \<le> v \<Longrightarrow> 0 < d \<Longrightarrow> in_volume v (exact_tone f d v dec)"
  unfolding in_volume_def exact_tone_def list_all_iff set_map ball_simps by (intro ballI scaled_floor tone_amplitude)

lemma in_volume_noise:
  "0 \<le> v \<Longrightarrow> (\<And>i. 0 \<le> rnd i \<and> rnd i < 1) \<Longrightarrow> in_volume v (exact_noise rnd d v)"
  unfolding in_volume_def exact_noise_def list_all_iff set_map ball_simps by (intro ballI scaled_floor noise_amplitude)

lemma exact_mixed:
  assumes "in_volume v (map sint a)" "in_volume w (map sint b)"
    and "\<lfloor>v * 32767\<rfloor> + \<lfloor>w * 32767\<rfloor> \<le> 32767" "- 32767 \<le> \<lfloor>- (v * 32767)\<rfloor> + \<lfloor>- (w * 32767)\<rfloor>"
    and "0 \<le> v" "0 \<le> w"
  shows "map sint (mixSamples a b) = exact_mix (map sint a) (map sint b)"
proof -
  have zero: "\<lfloor>- (v * 32767)\<rfloor> \<le> 0" "0 \<le> \<lfloor>v * 32767\<rfloor>" "\<lfloor>- (w * 32767)\<rfloor> \<le> 0" "0 \<le> \<lfloor>w * 32767\<rfloor>"
    using assms(5,6) by (simp_all add: floor_le_iff)
  have a: "\<lfloor>- (v * 32767)\<rfloor> \<le> sample_at a i \<and> sample_at a i \<le> \<lfloor>v * 32767\<rfloor>" for i
    using assms(1) zero by (auto simp: sample_at_def in_volume_def list_all_length)
  have b: "\<lfloor>- (w * 32767)\<rfloor> \<le> sample_at b i \<and> sample_at b i \<le> \<lfloor>w * 32767\<rfloor>" for i
    using assms(2) zero by (auto simp: sample_at_def in_volume_def list_all_length)
  have "sint (word_of_int (max (- 32767) (min 32767 (sample_at a i + sample_at b i))) :: 16 word) =
      sample_at a i + sample_at b i" for i
    using a [of i] b [of i] assms(3,4) by (subst sint_of_int) auto
  then show ?thesis by (simp add: mixSamples_def exact_mix_def sample_at_def)
qed

lemma exact_written_note:
  "0 \<le> v \<Longrightarrow> v \<le> 1 \<Longrightarrow> 0 < nl \<Longrightarrow>
   map sint (write_note f nl v off j n xs) = exact_note f nl v off j n (map sint xs)"
proof (induction n arbitrary: j xs)
  case (Suc n)
  have "\<bar>sin (2 * pi * f * (real j / real SAMPLE_RATE)) * v * max 0 (1 - real j / real SAMPLE_RATE / nl)\<bar> \<le> 1"
    using tone_amplitude [of v nl "2 * pi * f * (real j / real SAMPLE_RATE)" True j] Suc.prems by simp
  from to_int16_exact [OF this] Suc show ?case by (simp add: Let_def map_update)
qed simp

lemma exact_written_notes:
  "0 \<le> v \<Longrightarrow> v \<le> 1 \<Longrightarrow> 0 < nl \<Longrightarrow>
   map sint (write_notes fs i nl v xs) = exact_notes fs i nl v (map sint xs)"
  by (induction fs arbitrary: i xs) (simp_all add: exact_written_note)

lemma exact_generated_arpeggio:
  "0 \<le> v \<Longrightarrow> v \<le> 1 \<Longrightarrow> 0 < nl \<Longrightarrow> map sint (generateArpeggio fs nl v) = exact_arpeggio fs nl v"
  by (simp add: generateArpeggio_def exact_arpeggio_def exact_written_notes)

lemma exact_hit:
  assumes "\<And>i. 0 \<le> rnd i \<and> rnd i < 1"
  shows "map sint (mixSamples (generateTone 80 (2 / 10) (4 / 10) True) (generateNoise rnd (1 / 10) (3 / 10))) =
    exact_mix (exact_tone 80 (2 / 10) (4 / 10) True) (exact_noise rnd (1 / 10) (3 / 10))"
proof -
  have t: "map sint (generateTone 80 (2 / 10) (4 / 10) True) = exact_tone 80 (2 / 10) (4 / 10) True"
    by (rule exact_generated_tone) simp_all
  have n: "map sint (generateNoise rnd (1 / 10) (3 / 10)) = exact_noise rnd (1 / 10) (3 / 10)"
    using assms by (intro exact_generated_noise) simp_all
  have "\<lfloor>4 / 10 * 32767 :: real\<rfloor> = 13106" "\<lfloor>3 / 10 * 32767 :: real\<rfloor> = 9830"
    "\<lfloor>- (4 / 10 * 32767) :: real\<rfloor> = - 13107" "\<lfloor>- (3 / 10 * 32767) :: real\<rfloor> = - 9831"
    by (simp_all add: floor_eq_iff)
  then have "\<lfloor>4 / 10 * 32767 :: real\<rfloor> + \<lfloor>3 / 10 * 32767 :: real\<rfloor> \<le> 32767"
    "- 32767 \<le> \<lfloor>- (4 / 10 * 32767) :: real\<rfloor> + \<lfloor>- (3 / 10 * 32767) :: real\<rfloor>"
    by linarith+
  note f = this
  have a: "in_volume (4 / 10) (map sint (generateTone 80 (2 / 10) (4 / 10) True))" unfolding t by (rule in_volume_tone) simp_all
  have b: "in_volume (3 / 10) (map sint (generateNoise rnd (1 / 10) (3 / 10)))"
    unfolding n using assms by (intro in_volume_noise) simp_all
  show ?thesis unfolding t [symmetric] n [symmetric] using exact_mixed [OF a b f] by simp
qed

lemma length_write_note [simp]: "length (write_note f nl v off j n xs) = length xs"
  by (induction n arbitrary: j xs) (simp_all add: Let_def)

lemma length_write_notes [simp]: "length (write_notes fs i nl v xs) = length xs"
  by (induction fs arbitrary: i xs) simp_all

lemma num_samples_values:
  "num_samples (5 / 100) = 1102" "num_samples (1 / 10) = 2205" "num_samples (2 / 10) = 4410"
  "num_samples (3 / 10) = 6615" "num_samples (3 * (15 / 100)) = 9922"
  by (simp_all add: num_samples_def SAMPLE_RATE_def floor_eq_iff)

lemma sound_lengths: "0 < length (sound_samples rnd name) \<and> length (sound_samples rnd name) \<le> 9922"
  using num_samples_values
  by (cases name) (simp_all add: sound_samples_def generateTone_def generateNoise_def mixSamples_def
      generateArpeggio_def Let_def)

text \<open>
  Claim C25: every sound of the phone is a well-formed WAV file at 22050 samples a second that
  decodes from its data URI to exactly the samples generated, lasts between 1 and 9922 samples,
  and each sample, read as a signed number, is exactly the integer part of the sound's waveform: no
  store into the 16-bit array wraps around, and the limits of the mixing cut nothing off.
\<close>

theorem sounds_are_wav_files:
  assumes "\<And>k i. 0 \<le> rnd k i \<and> rnd k i < 1"
  shows "read_wav_uri (generateSoundMap rnd name) = Some (22050, sound_samples rnd name) \<and>
    1 \<le> length (sound_samples rnd name) \<and> length (sound_samples rnd name) \<le> 9922 \<and>
    map sint (sound_samples rnd name) = exact_samples rnd name"
proof (intro conjI)
  show "1 \<le> length (sound_samples rnd name)" "length (sound_samples rnd name) \<le> 9922"
    using sound_lengths [of rnd name] by (simp_all add: Suc_le_eq)
  then show "read_wav_uri (generateSoundMap rnd name) = Some (22050, sound_samples rnd name)"
    using read_uri [of "sound_samples rnd name"] by (simp add: generateSoundMap_def SAMPLE_RATE_def)
  show "map sint (sound_samples rnd name) = exact_samples rnd name"
    using assms exact_hit [of "rnd 1"]
    by (cases name)
      (simp_all add: sound_samples_def exact_samples_def exact_generated_tone exact_generated_noise exact_generated_arpeggio)
qed

lemma sounds_are_wav_files_witness:
  "map sint (sound_samples (\<lambda>k i. 0) SRoundLose) = exact_samples (\<lambda>k i. 0) SRoundLose \<and>
   map sint (sound_samples (\<lambda>k i. 0) SHit) = exact_samples (\<lambda>k i. 0) SHit"
  using sounds_are_wav_files [of "\<lambda>k i. 0" SRoundLose] sounds_are_wav_files [of "\<lambda>k i. 0" SHit] by simp

end
