(* ===== verification/Web_Sound.thy ===== *)
theory Web_Sound
  imports Wav_Sound Storage
begin

text \<open>
  The procedural sounds of the web client, \<open>web/src/hooks/useSoundEffects.ts\<close>: each
  sound as the voices it schedules on the audio context (a source, the automation
  of its frequency, filter and gain, and its start and stop times), and the mute
  preference on both clients.
\<close>

datatype ramp = SetAt real real | LinearTo real real | ExpTo real real

fun ramp_value :: "ramp \<Rightarrow> real" where
  "ramp_value (SetAt v t) = v"
| "ramp_value (LinearTo v t) = v"
| "ramp_value (ExpTo v t) = v"

fun ramp_time :: "ramp \<Rightarrow> real" where
  "ramp_time (SetAt v t) = t"
| "ramp_time (LinearTo v t) = t"
| "ramp_time (ExpTo v t) = t"

datatype audio_source = Oscillator string "ramp list" | Noise real

record voice =
  vc_source :: audio_source
  vc_vibrato :: "(real \<times> real) option"
  vc_filter :: "(string \<times> ramp list \<times> real) option"
  vc_gain :: "ramp list"
  vc_start :: real
  vc_stop :: real

definition tone :: "string \<Rightarrow> ramp list \<Rightarrow> ramp list \<Rightarrow> real \<Rightarrow> real \<Rightarrow> voice" where
  "tone wave freq gain start stop = \<lparr>vc_source = Oscillator wave freq, vc_vibrato = None, vc_filter = None,
     vc_gain = gain, vc_start = start, vc_stop = stop\<rparr>"

definition noise :: "real \<Rightarrow> ramp list \<Rightarrow> real \<Rightarrow> real \<Rightarrow> voice" where
  "noise duration gain start stop = \<lparr>vc_source = Noise duration, vc_vibrato = None, vc_filter = None,
     vc_gain = gain, vc_start = start, vc_stop = stop\<rparr>"

text \<open>\<open>createNoise\<close>: the samples of a noise buffer, each between -1 and 1.\<close>

definition createNoise :: "(nat \<Rightarrow> real) \<Rightarrow> real \<Rightarrow> real \<Rightarrow> real list" where
  "createNoise rnd sampleRate duration = map (\<lambda>i. rnd i * 2 - 1) [0..<nat \<lfloor>sampleRate * duration\<rfloor>]"

definition arpeggio_note :: "real \<Rightarrow> real \<Rightarrow> nat \<times> real \<Rightarrow> voice" where
  "arpeggio_note now len = (\<lambda>(i, freq).
     let t = now + real i * (15 / 100)
     in tone ''triangle'' [SetAt freq t]
          [SetAt 0 t, LinearTo (2 / 10) (t + 2 / 100), ExpTo (1 / 1000) (t + len)] t (t + len))"

definition sound_voices :: "sound_name \<Rightarrow> real \<Rightarrow> voice list" where
  "sound_voices name now = (case name of
       SCountdownBeat \<Rightarrow>
         [noise (5 / 100) [SetAt (3 / 10) now, ExpTo (1 / 1000) (now + 5 / 100)] now (now + 5 / 100)]
     | SReveal \<Rightarrow>
         [tone ''sawtooth'' [SetAt 200 now, ExpTo 800 (now + 3 / 10)]
            [SetAt (2 / 10) now, ExpTo (1 / 1000) (now + 3 / 10)] now (now + 3 / 10)]
     | SHit \<Rightarrow>
         [tone ''sine'' [SetAt 80 now]
            [SetAt (4 / 10) now, ExpTo (1 / 1000) (now + 2 / 10)] now (now + 2 / 10),
          noise (1 / 10) [SetAt (3 / 10) now, ExpTo (1 / 1000) (now + 1 / 10)] now (now + 1 / 10)]
     | SClash \<Rightarrow>
         [tone ''square'' [SetAt 400 now, ExpTo 200 (now + 3 / 10)]
            [SetAt (15 / 100) now, ExpTo (1 / 1000) (now + 3 / 10)] now (now + 3 / 10)]
     | SBlock \<Rightarrow>
         [tone ''sine'' [SetAt 120 now]
            [SetAt (3 / 10) now, ExpTo (1 / 1000) (now + 1 / 10)] now (now + 1 / 10)]
     | SDodge \<Rightarrow>
         [(noise (2 / 10) [SetAt (2 / 10) now, ExpTo (1 / 1000) (now + 2 / 10)] now (now + 2 / 10))
            \<lparr>vc_filter := Some (''bandpass'', [SetAt 500 now, ExpTo 4000 (now + 2 / 10)], 2)\<rparr>]
     | SCharge \<Rightarrow>
         [(tone ''sine'' [SetAt 200 now]
            [SetAt (15 / 100) now, SetAt (15 / 100) (now + 2 / 10), ExpTo (1 / 1000) (now + 3 / 10)]
            now (now + 3 / 10))\<lparr>vc_vibrato := Some (8, 15)\<rparr>]
     | SRoundWin \<Rightarrow>
         map (arpeggio_note now (15 / 100)) (List.enumerate 0 [52325 / 100, 65925 / 100, 78399 / 100])
     | SRoundLose \<Rightarrow>
         map (arpeggio_note now (2 / 10)) (List.enumerate 0 [392, 31113 / 100, 26163 / 100]))"

definition web_play :: "bool \<Rightarrow> sound_name \<Rightarrow> real \<Rightarrow> voice list" where
  "web_play muted name now = (if muted then [] else sound_voices name now)"

subsection \<open>What a sound schedules\<close>

text \<open>
  What the audio context accepts and the player hears: automation in order of time and
  inside the voice's life, no exponential ramp to zero or below, and a gain of at most 0.4.
\<close>

fun in_order :: "ramp list \<Rightarrow> bool" where
  "in_order [] = True"
| "in_order [r] = True"
| "in_order (r # s # rs) = (ramp_time r \<le> ramp_time s \<and> in_order (s # rs))"

fun ramp_ok :: "ramp \<Rightarrow> bool" where
  "ramp_ok (ExpTo v t) = (0 < v)"
| "ramp_ok _ = True"

definition automation_ok :: "real \<Rightarrow> real \<Rightarrow> ramp list \<Rightarrow> bool" where
  "automation_ok start stop rs \<longleftrightarrow> in_order rs \<and> list_all ramp_ok rs \<and>
     list_all (\<lambda>r. start \<le> ramp_time r \<and> ramp_time r \<le> stop) rs"

definition voice_ok :: "real \<Rightarrow> voice \<Rightarrow> bool" where
  "voice_ok now v \<longleftrightarrow> now \<le> vc_start v \<and> vc_start v < vc_stop v \<and> vc_stop v \<le> now + 1 / 2 \<and>
     automation_ok (vc_start v) (vc_stop v) (vc_gain v) \<and>
     list_all (\<lambda>r. 0 \<le> ramp_value r \<and> ramp_value r \<le> 4 / 10) (vc_gain v) \<and>
     (case vc_source v of Oscillator w f \<Rightarrow> automation_ok (vc_start v) (vc_stop v) f
      | Noise d \<Rightarrow> vc_stop v = vc_start v + d) \<and>
     (case vc_filter v of None \<Rightarrow> True | Some (k, f, q) \<Rightarrow> automation_ok (vc_start v) (vc_stop v) f)"

text \<open>
  A muted client schedules nothing, and any other sound schedules at least one voice,
  each of which starts at once or later, ends within half a second, is automated in order of time
  inside its own life without an exponential ramp to zero, and never gets louder than 0.4; a noise
  buffer lasts exactly as long as its voice.
\<close>

theorem sounds_are_short_and_quiet:
  "web_play True name now = [] \<and> web_play False name now \<noteq> [] \<and>
   list_all (voice_ok now) (web_play False name now)"
  by (cases name)
    (simp_all add: web_play_def sound_voices_def voice_ok_def automation_ok_def tone_def noise_def
      arpeggio_note_def Let_def numeral_2_eq_2)

subsection \<open>The mute preference\<close>

definition MUTE_KEY :: string where "MUTE_KEY = ''ki-clash-mute''"

record sound_state =
  ss_muted :: bool
  ss_loaded :: bool
  ss_store :: local_storage

definition bool_str :: "bool \<Rightarrow> string" where
  "bool_str b = (if b then ''true'' else ''false'')"

definition sound_mount :: "local_storage \<Rightarrow> sound_state" where
  "sound_mount st = \<lparr>ss_muted = False, ss_loaded = False, ss_store = st\<rparr>"

text \<open>The timer armed on mounting; \<open>toggleMute\<close>; and the phone's read, which only ever mutes.\<close>

definition restore_mute :: "sound_state \<Rightarrow> sound_state" where
  "restore_mute s = s\<lparr>ss_muted := (st_get (ss_store s) MUTE_KEY = Some ''true''), ss_loaded := True\<rparr>"

definition toggleMute :: "sound_state \<Rightarrow> sound_state" where
  "toggleMute s =
     (let next = \<not> ss_muted s
      in s\<lparr>ss_store := st_put MUTE_KEY (bool_str next) (ss_store s), ss_muted := next\<rparr>)"

definition M_restore_mute :: "string option \<Rightarrow> sound_state \<Rightarrow> sound_state" where
  "M_restore_mute val s = (if val = Some ''true'' then s\<lparr>ss_muted := True\<rparr> else s)\<lparr>ss_loaded := True\<rparr>"

datatype mute_event = MuteTimer | MuteToggled

fun mute_step :: "sound_state \<Rightarrow> mute_event \<Rightarrow> sound_state" where
  "mute_step s MuteTimer = (if ss_loaded s then s else restore_mute s)"
| "mute_step s MuteToggled = toggleMute s"

definition mute_inv :: "sound_state \<Rightarrow> bool" where
  "mute_inv s \<longleftrightarrow> (ss_loaded s \<longrightarrow> ss_muted s = (st_get (ss_store s) MUTE_KEY = Some ''true''))"

interpretation mute: machine "sound_mount st" mute_step mute_inv for st
proof
  show "mute_inv (sound_mount st)" by (simp add: mute_inv_def sound_mount_def)
  fix s e assume "mute_inv s"
  then show "mute_inv (mute_step s e)"
    by (cases e) (auto simp: mute_inv_def restore_mute_def toggleMute_def bool_str_def ls.get_put Let_def)
qed

text \<open>
  The mute preference survives a reload: whenever the player has muted or unmuted, before
  or after the stored preference was read, a later visit on the same storage ends up with the
  flag the player last saw.
\<close>

theorem mute_survives_reload:
  assumes "s = run mute_step (sound_mount st) es" and "ss_loaded s"
  shows "ss_muted (mute_step (sound_mount (ss_store s)) MuteTimer) = ss_muted s"
  using mute.always [of st es] assms
  by (simp add: mute_inv_def sound_mount_def restore_mute_def)

lemma mute_survives_reload_witness:
  "ss_muted (mute_step (sound_mount (ss_store
     (run mute_step (sound_mount Map.empty) [MuteTimer, MuteToggled]))) MuteTimer)"
proof -
  have l: "ss_loaded (run mute_step (sound_mount Map.empty) [MuteTimer, MuteToggled])"
    "ss_muted (run mute_step (sound_mount Map.empty) [MuteTimer, MuteToggled])"
    by (simp_all add: sound_mount_def restore_mute_def toggleMute_def st_get_def Let_def)
  show ?thesis using mute_survives_reload [OF refl l(1)] l(2) by simp
qed

end
