(* ===== verification/Glow_Emitter.thy ===== *)
theory Glow_Emitter
  imports Prelude Complex_Main "HOL-Library.Multiset"
begin

text \<open>
  The pooled particle emitter \<open>web/src/components/arena/pixi/particles.ts\<close>.  A particle
  carries what the code keeps on it and on its sprite; a sprite is identified by the
  position at which it was added to the container.  JavaScript numbers are real
  numbers; \<open>Math.random\<close> values are arguments.
\<close>

record spawn_config =
  sc_x :: real
  sc_y :: real
  sc_vx :: "real option"
  sc_vy :: "real option"
  sc_gravity :: "real option"
  sc_drag :: "real option"
  sc_spin :: "real option"
  sc_maxLife :: "real option"
  sc_scale :: "real option"
  sc_scaleDecay :: "real option"
  sc_tint :: "nat option"
  sc_sway :: "real option"
  sc_alpha :: "real option"

record particle =
  pt_sprite :: nat
  sp_x :: real
  sp_y :: real
  sp_scale_x :: real
  sp_scale_y :: real
  sp_alpha :: real
  sp_rotation :: real
  sp_tint :: nat
  sp_visible :: bool
  pt_vx :: real
  pt_vy :: real
  pt_gravity :: real
  pt_drag :: real
  pt_spin :: real
  pt_life :: real
  pt_maxLife :: real
  pt_scaleDecay :: real
  pt_baseX :: real
  pt_sway :: real
  pt_phase :: real
  pt_alpha0 :: real

record emitter =
  em_pool :: "particle list"
  em_live :: "particle list"
  em_clock :: real
  em_children :: nat

definition emitter_init :: emitter where
  "emitter_init = \<lparr>em_pool = [], em_live = [], em_clock = 0, em_children = 0\<rparr>"

definition liveCount :: "emitter \<Rightarrow> nat" where
  "liveCount e = length (em_live e)"

definition fresh_particle :: "nat \<Rightarrow> particle" where
  "fresh_particle i = \<lparr>pt_sprite = i, sp_x = 0, sp_y = 0, sp_scale_x = 1, sp_scale_y = 1, sp_alpha = 1,
     sp_rotation = 0, sp_tint = 0xFFFFFF, sp_visible = True, pt_vx = 0, pt_vy = 0, pt_gravity = 0,
     pt_drag = 1, pt_spin = 0, pt_life = 0, pt_maxLife = 1, pt_scaleDecay = 1, pt_baseX = 0, pt_sway = 0,
     pt_phase = 0, pt_alpha0 = 1\<rparr>"

text \<open>\<open>pool.pop()\<close>, or a new sprite in the container.\<close>

definition acquire :: "emitter \<Rightarrow> particle \<times> emitter" where
  "acquire e =
     (if em_pool e \<noteq> [] then ((last (em_pool e))\<lparr>sp_visible := True\<rparr>, e\<lparr>em_pool := butlast (em_pool e)\<rparr>)
      else (fresh_particle (em_children e), e\<lparr>em_children := em_children e + 1\<rparr>))"

definition configure :: "spawn_config \<Rightarrow> real \<Rightarrow> real \<Rightarrow> particle \<Rightarrow> particle" where
  "configure cfg r1 r2 p = p\<lparr>
     sp_x := sc_x cfg, sp_y := sc_y cfg,
     sp_scale_x := nullish (sc_scale cfg) 1, sp_scale_y := nullish (sc_scale cfg) 1,
     pt_alpha0 := nullish (sc_alpha cfg) 1, sp_alpha := nullish (sc_alpha cfg) 1,
     sp_rotation := r1 * pi * 2, sp_tint := nullish (sc_tint cfg) 0xFFFFFF,
     pt_vx := nullish (sc_vx cfg) 0, pt_vy := nullish (sc_vy cfg) 0,
     pt_gravity := nullish (sc_gravity cfg) 0, pt_drag := nullish (sc_drag cfg) 1,
     pt_spin := nullish (sc_spin cfg) 0, pt_maxLife := nullish (sc_maxLife cfg) 60,
     pt_life := nullish (sc_maxLife cfg) 60, pt_scaleDecay := nullish (sc_scaleDecay cfg) 1,
     pt_baseX := sc_x cfg, pt_sway := nullish (sc_sway cfg) 0, pt_phase := r2 * pi * 2\<rparr>"

definition spawn :: "spawn_config \<Rightarrow> real \<Rightarrow> real \<Rightarrow> emitter \<Rightarrow> emitter" where
  "spawn cfg r1 r2 e =
     (let (p, e1) = acquire e in e1\<lparr>em_live := em_live e1 @ [configure cfg r1 r2 p]\<rparr>)"

text \<open>\<open>burst(n, factory)\<close>, with what each call of the factory and of \<open>Math.random\<close> returned.\<close>

fun burst :: "(spawn_config \<times> real \<times> real) list \<Rightarrow> emitter \<Rightarrow> emitter" where
  "burst [] e = e"
| "burst ((cfg, r1, r2) # cs) e = burst cs (spawn cfg r1 r2 e)"

definition js_pow :: "real \<Rightarrow> real \<Rightarrow> real" where
  "js_pow b x = (if x = 0 then 1 else b powr x)"

definition move_particle :: "real \<Rightarrow> real \<Rightarrow> particle \<Rightarrow> particle" where
  "move_particle dt clock p =
     (let vy1 = pt_vy p + pt_gravity p * dt;
          dragF = js_pow (pt_drag p) dt;
          vx = pt_vx p * dragF;
          vy = vy1 * dragF;
          baseX = pt_baseX p + vx * dt;
          sd = js_pow (pt_scaleDecay p) dt;
          life = pt_life p - dt
      in p\<lparr>pt_vx := vx, pt_vy := vy, pt_baseX := baseX, sp_y := sp_y p + vy * dt,
           sp_x := (if pt_sway p \<noteq> 0 then baseX + sin (clock * (12 / 100) + pt_phase p) * pt_sway p else baseX),
           sp_rotation := sp_rotation p + pt_spin p * dt,
           sp_scale_x := sp_scale_x p * sd, sp_scale_y := sp_scale_y p * sd,
           pt_life := life, sp_alpha := max 0 (life / pt_maxLife p) * pt_alpha0 p\<rparr>)"

text \<open>The loop over \<open>live\<close> from its end, splicing dead particles out into the pool.\<close>

fun update_from :: "real \<Rightarrow> nat \<Rightarrow> emitter \<Rightarrow> emitter" where
  "update_from dt 0 e = e"
| "update_from dt (Suc i) e =
     (let p = move_particle dt (em_clock e) (em_live e ! i)
      in update_from dt i
           (if pt_life p \<le> 0
            then e\<lparr>em_live := take i (em_live e) @ drop (Suc i) (em_live e),
                   em_pool := em_pool e @ [p\<lparr>sp_visible := False\<rparr>]\<rparr>
            else e\<lparr>em_live := (em_live e)[i := p]\<rparr>))"

definition update :: "real \<Rightarrow> emitter \<Rightarrow> emitter" where
  "update dt e = update_from dt (length (em_live e)) (e\<lparr>em_clock := em_clock e + dt\<rparr>)"

definition destroy :: "emitter \<Rightarrow> emitter" where
  "destroy e = e\<lparr>em_pool := [], em_live := [], em_children := 0\<rparr>"

subsection \<open>The loop as a filter\<close>

definition hide :: "particle \<Rightarrow> particle" where
  "hide p = p\<lparr>sp_visible := False\<rparr>"

definition alive :: "particle \<Rightarrow> bool" where
  "alive p \<longleftrightarrow> 0 < pt_life p"

lemma update_from_filter:
  "i \<le> length (em_live e) \<Longrightarrow> update_from dt i e = e\<lparr>
     em_live := filter alive (map (move_particle dt (em_clock e)) (take i (em_live e))) @ drop i (em_live e),
     em_pool := em_pool e @ map hide (rev (filter (\<lambda>p. \<not> alive p)
       (map (move_particle dt (em_clock e)) (take i (em_live e)))))\<rparr>"
proof (induction i arbitrary: e)
  case (Suc i)
  let ?p = "move_particle dt (em_clock e) (em_live e ! i)"
  have i: "i < length (em_live e)" using Suc.prems by simp
  have t: "take (Suc i) (em_live e) = take i (em_live e) @ [em_live e ! i]"
    by (rule take_Suc_conv_app_nth [OF i])
  show ?case
  proof (cases "pt_life ?p \<le> 0")
    case True
    let ?e = "e\<lparr>em_live := take i (em_live e) @ drop (Suc i) (em_live e), em_pool := em_pool e @ [hide ?p]\<rparr>"
    have "update_from dt (Suc i) e = update_from dt i ?e"
      using True by (simp add: Let_def hide_def)
    moreover have "i \<le> length (em_live ?e)" using i by simp
    ultimately show ?thesis
      using Suc.IH [of ?e] True i by (simp add: t alive_def min_absorb2)
  next
    case False
    let ?e = "e\<lparr>em_live := (em_live e)[i := ?p]\<rparr>"
    have "update_from dt (Suc i) e = update_from dt i ?e"
      using False by (simp add: Let_def)
    moreover have "i \<le> length (em_live ?e)" using i by simp
    ultimately show ?thesis
      using Suc.IH [of ?e] False i
      by (simp add: t alive_def upd_conv_take_nth_drop [OF i] min_absorb2)
  qed
qed simp

lemma update_eq:
  "update dt e = e\<lparr>em_clock := em_clock e + dt,
     em_live := filter alive (map (move_particle dt (em_clock e + dt)) (em_live e)),
     em_pool := em_pool e @ map hide (rev (filter (\<lambda>p. \<not> alive p)
       (map (move_particle dt (em_clock e + dt)) (em_live e))))\<rparr>"
  unfolding update_def by (subst update_from_filter) simp_all

subsection \<open>Emission patterns\<close>

definition vortexSpawn :: "real \<Rightarrow> real \<Rightarrow> real \<Rightarrow> nat \<Rightarrow> real \<Rightarrow> real \<Rightarrow> real \<Rightarrow> spawn_config" where
  "vortexSpawn cx cy radius tint r1 r2 r3 =
     (let a = r1 * pi * 2; inward = - (19 / 10); swirl = 28 / 10 in
      \<lparr>sc_x = cx + cos a * radius, sc_y = cy + sin a * radius,
       sc_vx = Some (cos a * inward + - sin a * swirl), sc_vy = Some (sin a * inward + cos a * swirl),
       sc_gravity = None, sc_drag = Some (97 / 100), sc_spin = None, sc_maxLife = Some (40 + r2 * 15),
       sc_scale = Some (1 / 2 + r3 * (4 / 10)), sc_scaleDecay = Some (985 / 1000), sc_tint = Some tint,
       sc_sway = None, sc_alpha = None\<rparr>)"

definition burstSpawn ::
  "real \<Rightarrow> real \<Rightarrow> nat \<Rightarrow> real \<Rightarrow> real \<Rightarrow> real \<Rightarrow> real \<Rightarrow> real \<Rightarrow> real \<Rightarrow> spawn_config" where
  "burstSpawn cx cy tint pwr r1 r2 r3 r4 r5 =
     (let a = r1 * pi * 2; speed = (5 + r2 * 9) * pwr in
      \<lparr>sc_x = cx, sc_y = cy, sc_vx = Some (cos a * speed), sc_vy = Some (sin a * speed),
       sc_gravity = Some (18 / 100), sc_drag = Some (9 / 10), sc_spin = Some ((r3 - 1 / 2) * (1 / 2)),
       sc_maxLife = Some (28 + r4 * 18), sc_scale = Some ((45 / 100 + r5 * (1 / 2)) * pwr),
       sc_scaleDecay = Some (95 / 100), sc_tint = Some tint, sc_sway = None, sc_alpha = None\<rparr>)"

definition risingSpawn ::
  "real \<Rightarrow> real \<Rightarrow> nat \<Rightarrow> real \<Rightarrow> real \<Rightarrow> real \<Rightarrow> real \<Rightarrow> real \<Rightarrow> real \<Rightarrow> real \<Rightarrow> real \<Rightarrow> spawn_config" where
  "risingSpawn baseX baseY tint spread r1 r2 r3 r4 r5 r6 r7 =
      \<lparr>sc_x = baseX + (r1 - 1 / 2) * spread, sc_y = baseY + (r2 - 1 / 2) * 20,
       sc_vx = Some ((r3 - 1 / 2) * (4 / 10)), sc_vy = Some (- (22 / 10) - r4 * (16 / 10)),
       sc_gravity = Some (- (15 / 1000)), sc_drag = None, sc_spin = None, sc_maxLife = Some (55 + r5 * 25),
       sc_scale = Some (4 / 10 + r6 * (4 / 10)), sc_scaleDecay = Some (99 / 100), sc_tint = Some tint,
       sc_sway = Some (12 + r7 * 14), sc_alpha = None\<rparr>"

text \<open>A configuration whose particle fades: it lives, and shrinks by a positive factor.\<close>

definition sane_config :: "real \<Rightarrow> spawn_config \<Rightarrow> bool" where
  "sane_config L c \<longleftrightarrow> 0 < nullish (sc_maxLife c) 60 \<and> nullish (sc_maxLife c) 60 \<le> L \<and>
     0 \<le> nullish (sc_alpha c) 1 \<and> nullish (sc_alpha c) 1 \<le> 1"

definition is_random :: "real \<Rightarrow> bool" where
  "is_random r \<longleftrightarrow> 0 \<le> r \<and> r < 1"

lemma patterns_sane:
  "is_random r2 \<Longrightarrow> sane_config 80 (vortexSpawn cx cy radius tint r1 r2 r3)"
  "is_random r4 \<Longrightarrow> sane_config 80 (burstSpawn cx cy tint pwr r1 r2 r3 r4 r5)"
  "is_random r5 \<Longrightarrow> sane_config 80 (risingSpawn cx cy tint spread r1 r2 r3 r4 r5 r6 r7)"
  by (auto simp: sane_config_def is_random_def vortexSpawn_def burstSpawn_def risingSpawn_def Let_def)

subsection \<open>Runs of an emitter\<close>

datatype emitter_op = Spawn spawn_config real real | Tick real

fun emitter_do :: "emitter_op \<Rightarrow> emitter \<Rightarrow> emitter" where
  "emitter_do (Spawn c r1 r2) e = spawn c r1 r2 e"
| "emitter_do (Tick dt) e = update dt e"

definition emitter_run :: "emitter_op list \<Rightarrow> emitter \<Rightarrow> emitter" where
  "emitter_run ops e = fold emitter_do ops e"

fun sane_op :: "real \<Rightarrow> emitter_op \<Rightarrow> bool" where
  "sane_op L (Spawn c r1 r2) = sane_config L c"
| "sane_op L (Tick dt) = (0 \<le> dt)"

text \<open>A live particle is visible, has life left and its alpha follows its life.\<close>

definition live_ok :: "real \<Rightarrow> particle \<Rightarrow> bool" where
  "live_ok L p \<longleftrightarrow> sp_visible p \<and> 0 < pt_life p \<and> pt_life p \<le> pt_maxLife p \<and> pt_maxLife p \<le> L \<and>
     0 \<le> pt_alpha0 p \<and> pt_alpha0 p \<le> 1 \<and> sp_alpha p = pt_life p / pt_maxLife p * pt_alpha0 p"

definition emitter_ok :: "real \<Rightarrow> emitter \<Rightarrow> bool" where
  "emitter_ok L e \<longleftrightarrow> distinct (map pt_sprite (em_live e @ em_pool e)) \<and>
     set (map pt_sprite (em_live e @ em_pool e)) = {..<em_children e} \<and>
     (\<forall>p \<in> set (em_live e). live_ok L p) \<and> (\<forall>p \<in> set (em_pool e). \<not> sp_visible p)"

lemma move_particle_simps [simp]:
  "pt_sprite (move_particle dt k p) = pt_sprite p" "sp_visible (move_particle dt k p) = sp_visible p"
  "pt_life (move_particle dt k p) = pt_life p - dt" "pt_maxLife (move_particle dt k p) = pt_maxLife p"
  "pt_alpha0 (move_particle dt k p) = pt_alpha0 p"
  "sp_alpha (move_particle dt k p) = max 0 ((pt_life p - dt) / pt_maxLife p) * pt_alpha0 p"
  by (simp_all add: move_particle_def Let_def)

lemma hide_simps [simp]: "pt_sprite (hide p) = pt_sprite p" "\<not> sp_visible (hide p)"
  by (simp_all add: hide_def)

lemma move_live_ok:
  assumes "live_ok L p" "0 \<le> dt" "alive (move_particle dt k p)" shows "live_ok L (move_particle dt k p)"
  using assms by (auto simp: live_ok_def alive_def max_def divide_simps)

lemma emitter_ok_init: "emitter_ok L emitter_init"
  by (simp add: emitter_ok_def emitter_init_def lessThan_def)

lemma configure_live_ok:
  "sane_config L c \<Longrightarrow> sp_visible p \<Longrightarrow> live_ok L (configure c r1 r2 p)"
  by (auto simp: live_ok_def sane_config_def configure_def)

lemma configure_sprite [simp]: "pt_sprite (configure c r1 r2 p) = pt_sprite p"
  by (simp add: configure_def)

lemma spawn_ok:
  assumes "emitter_ok L e" "sane_config L c" shows "emitter_ok L (spawn c r1 r2 e)"
proof (cases "em_pool e" rule: rev_cases)
  case Nil
  then show ?thesis using assms
    by (auto simp: emitter_ok_def spawn_def acquire_def fresh_particle_def lessThan_Suc
        intro!: configure_live_ok)
next
  case (snoc ps p)
  have "live_ok L (configure c r1 r2 (p\<lparr>sp_visible := True\<rparr>))"
    by (rule configure_live_ok [OF assms(2)]) simp
  then show ?thesis using assms(1) snoc by (auto simp: emitter_ok_def spawn_def acquire_def)
qed

lemma split_filter_mset:
  "mset (filter P xs @ zs @ rev (filter (\<lambda>x. \<not> P x) xs)) = mset (xs @ zs)"
  by (simp add: mset_filter)

lemma update_sprites:
  "mset (map pt_sprite (em_live (update dt e) @ em_pool (update dt e))) = mset (map pt_sprite (em_live e @ em_pool e))"
proof -
  let ?m = "move_particle dt (em_clock e + dt)"
  have "map pt_sprite (em_live (update dt e) @ em_pool (update dt e)) =
      map pt_sprite (filter alive (map ?m (em_live e)) @ em_pool e @ rev (filter (\<lambda>p. \<not> alive p) (map ?m (em_live e))))"
    by (simp add: update_eq comp_def)
  then have "mset (map pt_sprite (em_live (update dt e) @ em_pool (update dt e))) =
      image_mset pt_sprite (mset (map ?m (em_live e) @ em_pool e))"
    by (simp only: mset_map split_filter_mset)
  then show ?thesis by (simp add: image_mset.compositionality comp_def)
qed

lemma update_ok:
  assumes "emitter_ok L e" "0 \<le> dt" shows "emitter_ok L (update dt e)"
  unfolding emitter_ok_def
proof (intro conjI)
  show "distinct (map pt_sprite (em_live (update dt e) @ em_pool (update dt e)))"
    using assms(1) mset_eq_imp_distinct_iff [OF update_sprites [of dt e]] by (simp add: emitter_ok_def)
  show "set (map pt_sprite (em_live (update dt e) @ em_pool (update dt e))) = {..<em_children (update dt e)}"
    using assms(1) mset_eq_setD [OF update_sprites [of dt e]] by (simp add: emitter_ok_def update_eq)
  show "\<forall>p \<in> set (em_live (update dt e)). live_ok L p"
    using assms by (auto simp: update_eq emitter_ok_def intro: move_live_ok)
  show "\<forall>p \<in> set (em_pool (update dt e)). \<not> sp_visible p"
    using assms(1) by (auto simp: update_eq emitter_ok_def)
qed

lemma emitter_run_simps [simp]:
  "emitter_run [] e = e" "emitter_run (x # xs) e = emitter_run xs (emitter_do x e)"
  "emitter_run (xs @ ys) e = emitter_run ys (emitter_run xs e)"
  by (simp_all add: emitter_run_def)

lemma emitter_do_ok: "emitter_ok L e \<Longrightarrow> sane_op L x \<Longrightarrow> emitter_ok L (emitter_do x e)"
  by (cases x) (simp_all add: spawn_ok update_ok)

lemma emitter_run_ok:
  "emitter_ok L e \<Longrightarrow> \<forall>x \<in> set xs. sane_op L x \<Longrightarrow> emitter_ok L (emitter_run xs e)"
  by (induction xs arbitrary: e) (simp_all add: emitter_do_ok)

lemma children_count:
  assumes "emitter_ok L e" shows "em_children e = length (em_live e) + length (em_pool e)"
proof -
  have "card (set (map pt_sprite (em_live e @ em_pool e))) = length (map pt_sprite (em_live e @ em_pool e))"
    using assms unfolding emitter_ok_def by (blast intro: distinct_card)
  then show ?thesis using assms by (simp add: emitter_ok_def)
qed

text \<open>The largest number of particles alive at once in a run.\<close>

fun peak :: "emitter_op list \<Rightarrow> emitter \<Rightarrow> nat" where
  "peak [] e = liveCount e"
| "peak (x # xs) e = max (liveCount e) (peak xs (emitter_do x e))"

lemma liveCount_peak: "liveCount e \<le> peak xs e"
  by (cases xs) simp_all

lemma children_do:
  assumes "emitter_ok L e"
  shows "em_children (emitter_do x e) = max (em_children e) (liveCount (emitter_do x e))"
proof (cases x)
  case (Spawn c r1 r2)
  then show ?thesis using children_count [OF assms]
    by (cases "em_pool e" rule: rev_cases) (simp_all add: spawn_def acquire_def liveCount_def)
next
  case (Tick dt)
  have "length (em_live (update dt e)) \<le> length (em_live e)"
    using length_filter_le [of alive "map (move_particle dt (em_clock e + dt)) (em_live e)"]
    by (simp add: update_eq)
  moreover have "em_children (update dt e) = em_children e" by (simp add: update_eq)
  ultimately show ?thesis using Tick children_count [OF assms] by (simp add: liveCount_def)
qed

lemma children_peak:
  "emitter_ok L e \<Longrightarrow> \<forall>x \<in> set xs. sane_op L x \<Longrightarrow>
   em_children (emitter_run xs e) = max (em_children e) (peak xs e)"
proof (induction xs arbitrary: e)
  case Nil
  then show ?case using children_count [of L e] by (simp add: liveCount_def)
next
  case (Cons x xs)
  then show ?case
    using children_do [OF Cons.prems(1), of x] children_count [OF Cons.prems(1)]
      emitter_do_ok [OF Cons.prems(1), of x] liveCount_peak [of "emitter_do x e" xs]
    by (simp add: liveCount_def)
qed

text \<open>Claim C26: the pool never leaks and never shares: after any spawns and frames, live and pooled
  particles own distinct sprites which are exactly the container's children, a live sprite is
  visible with an alpha between zero and one, a pooled one is hidden, and the container holds
  just as many sprites as were ever alive at once.\<close>

theorem glow_pool_sound:
  assumes "\<forall>x \<in> set xs. sane_op L x" and "e = emitter_run xs emitter_init"
  shows "distinct (map pt_sprite (em_live e @ em_pool e)) \<and>
     set (map pt_sprite (em_live e @ em_pool e)) = {..<em_children e} \<and>
     (\<forall>p \<in> set (em_live e). sp_visible p \<and> 0 \<le> sp_alpha p \<and> sp_alpha p \<le> 1) \<and>
     (\<forall>p \<in> set (em_pool e). \<not> sp_visible p) \<and>
     em_children e = peak xs emitter_init"
proof -
  have ok: "emitter_ok L e" using assms emitter_run_ok [OF emitter_ok_init] by simp
  have "sp_alpha p \<le> 1 \<and> 0 \<le> sp_alpha p" if "live_ok L p" for p
  proof -
    let ?q = "pt_life p / pt_maxLife p"
    have "0 \<le> ?q" "?q \<le> 1" "0 \<le> pt_alpha0 p" "pt_alpha0 p \<le> 1"
      using that by (simp_all add: live_ok_def)
    then have "0 \<le> ?q * pt_alpha0 p" "?q * pt_alpha0 p \<le> 1"
      by (simp_all only: mult_nonneg_nonneg mult_le_one)
    then show ?thesis using that by (simp add: live_ok_def)
  qed
  moreover have "em_children e = peak xs emitter_init"
    using children_peak [OF emitter_ok_init assms(1)] assms(2) by (simp add: emitter_init_def)
  ultimately show ?thesis using ok by (auto simp: emitter_ok_def live_ok_def)
qed

definition glow_example :: "emitter_op list" where
  "glow_example = [Spawn (burstSpawn 10 20 0xFFFFFF 1 0 0 0 0 0) 0 0, Tick 14, Tick 20,
     Spawn (vortexSpawn 10 20 70 0xFFFFFF 0 0 0) 0 0]"

lemma glow_example_sane: "\<forall>x \<in> set glow_example. sane_op 80 x"
  by (simp add: glow_example_def sane_config_def burstSpawn_def vortexSpawn_def Let_def)

lemma glow_pool_sound_witness:
  "em_children (emitter_run glow_example emitter_init) = peak glow_example emitter_init \<and>
   em_children (emitter_run glow_example emitter_init) = 1"
proof
  show "em_children (emitter_run glow_example emitter_init) = peak glow_example emitter_init"
    using glow_pool_sound [OF glow_example_sane refl] by blast
  show "em_children (emitter_run glow_example emitter_init) = 1"
    by (simp add: glow_example_def spawn_def acquire_def emitter_init_def update_eq alive_def configure_def
        burstSpawn_def fresh_particle_def Let_def)
qed

subsection \<open>Burning out\<close>

lemma emitter_run_life:
  assumes "\<forall>dt \<in> set dts. 0 \<le> dt" "\<forall>p \<in> set (em_live e). pt_life p \<le> L"
  shows "\<forall>p \<in> set (em_live (emitter_run (map Tick dts) e)). pt_life p \<le> L - sum_list dts"
  using assms
proof (induction dts arbitrary: e L)
  case (Cons dt dts)
  have "\<forall>p \<in> set (em_live (update dt e)). pt_life p \<le> L - dt"
    using Cons.prems(2) by (auto simp: update_eq)
  then show ?case using Cons.IH [of "update dt e" "L - dt"] Cons.prems(1) by (simp add: algebra_simps)
qed simp

lemma emitter_burns_out:
  assumes "emitter_ok L e" "\<forall>dt \<in> set dts. 0 \<le> dt" "L \<le> sum_list dts"
  shows "em_live (emitter_run (map Tick dts) e) = []"
proof -
  have ok: "emitter_ok L (emitter_run (map Tick dts) e)"
    by (rule emitter_run_ok [OF assms(1)]) (use assms(2) in auto)
  have "\<forall>p \<in> set (em_live e). pt_life p \<le> L" using assms(1) by (force simp: emitter_ok_def live_ok_def)
  from emitter_run_life [OF assms(2) this] show ?thesis
    using ok assms(3) by (fastforce simp: emitter_ok_def live_ok_def neq_Nil_conv)
qed

text \<open>Whatever was spawned, a spell without spawns as long as the longest life leaves no
  live particle: every sprite is hidden and back in the pool.\<close>

theorem glow_burns_out:
  assumes "\<forall>x \<in> set xs. sane_op L x" and "\<forall>dt \<in> set dts. 0 \<le> dt" and "L \<le> sum_list dts"
    and "e = emitter_run (xs @ map Tick dts) emitter_init"
  shows "liveCount e = 0 \<and> length (em_pool e) = em_children e \<and> (\<forall>p \<in> set (em_pool e). \<not> sp_visible p)"
proof -
  have ok: "emitter_ok L (emitter_run xs emitter_init)" by (rule emitter_run_ok [OF emitter_ok_init assms(1)])
  have live: "em_live e = []" using emitter_burns_out [OF ok assms(2,3)] assms(4) by simp
  have "emitter_ok L e"
    unfolding assms(4) by (rule emitter_run_ok [OF emitter_ok_init]) (use assms(1,2) in auto)
  then show ?thesis using live children_count [of L e] by (simp add: liveCount_def emitter_ok_def)
qed

lemma glow_burns_out_witness:
  "liveCount (emitter_run (glow_example @ map Tick [50, 30]) emitter_init) = 0"
  using glow_burns_out [OF glow_example_sane _ _ refl, of "[50, 30]"] by simp

text \<open>The emission patterns do what their names say: a vortex starts on its ring and moves
  towards the centre, a burst leaves the point of impact at a bounded speed, and a rising
  particle starts near its base and moves up.\<close>

theorem emission_patterns:
  assumes "is_random r1" and "is_random r2" and "is_random r3" and "is_random r4" and "0 < pwr" and "0 \<le> spread"
  shows "let v = vortexSpawn cx cy radius tint r1 r2 r3; b = burstSpawn cx cy tint pwr r1 r2 r3 r4 r5;
             u = risingSpawn cx cy tint spread r1 r2 r3 r4 r5 r6 r7 in
     (sc_x v - cx)\<^sup>2 + (sc_y v - cy)\<^sup>2 = radius\<^sup>2 \<and>
     nullish (sc_vx v) 0 * (sc_x v - cx) + nullish (sc_vy v) 0 * (sc_y v - cy) = - (19 / 10) * radius \<and>
     sc_x b = cx \<and> sc_y b = cy \<and>
     (5 * pwr)\<^sup>2 \<le> (nullish (sc_vx b) 0)\<^sup>2 + (nullish (sc_vy b) 0)\<^sup>2 \<and>
     (nullish (sc_vx b) 0)\<^sup>2 + (nullish (sc_vy b) 0)\<^sup>2 < (14 * pwr)\<^sup>2 \<and>
     \<bar>sc_x u - cx\<bar> \<le> spread / 2 \<and> \<bar>sc_y u - cy\<bar> \<le> 10 \<and>
     - (38 / 10) < nullish (sc_vy u) 0 \<and> nullish (sc_vy u) 0 \<le> - (22 / 10)"
proof -
  have circle: "(cos a * s)\<^sup>2 + (sin a * s)\<^sup>2 = s\<^sup>2" for a s :: real
    using sin_cos_squared_add [of a] by (metis add.commute distrib_right mult_1 power_mult_distrib)
  have inward: "(cos a * k + - sin a * w) * (cos a * R) + (sin a * k + cos a * w) * (sin a * R) = k * R"
    for a k w R :: real
  proof -
    have "(cos a * k + - sin a * w) * (cos a * R) + (sin a * k + cos a * w) * (sin a * R) =
        k * R * ((cos a)\<^sup>2 + (sin a)\<^sup>2)" by algebra
    then show ?thesis by simp
  qed
  have "5 * pwr \<le> (5 + r2 * 9) * pwr" "(5 + r2 * 9) * pwr < 14 * pwr"
    using assms(2,5) by (simp_all add: is_random_def)
  moreover have "0 \<le> 5 * pwr" "0 \<le> (5 + r2 * 9) * pwr" using assms(2,5) by (simp_all add: is_random_def)
  ultimately have "(5 * pwr)\<^sup>2 \<le> ((5 + r2 * 9) * pwr)\<^sup>2" "((5 + r2 * 9) * pwr)\<^sup>2 < (14 * pwr)\<^sup>2"
    by (simp_all only: power_mono power_strict_mono zero_less_numeral)
  moreover have "\<bar>(r1 - 1 / 2) * spread\<bar> \<le> spread / 2"
  proof -
    have "\<bar>r1 - 1 / 2\<bar> \<le> 1 / 2" using assms(1) unfolding is_random_def abs_le_iff by auto
    from mult_right_mono [OF this assms(6)] show ?thesis using assms(6) by (simp add: abs_mult)
  qed
  ultimately show ?thesis
    using assms(2,4) inward [of "r1 * pi * 2" "- (19 / 10)" "28 / 10" radius]
    by (simp add: Let_def vortexSpawn_def burstSpawn_def risingSpawn_def circle is_random_def abs_le_iff)
qed

lemma emission_patterns_witness:
  "let b = burstSpawn 10 20 0xFFFFFF 2 0 (1 / 3) 0 0 0 in
     (nullish (sc_vx b) 0)\<^sup>2 + (nullish (sc_vy b) 0)\<^sup>2 < 28\<^sup>2"
  using emission_patterns [of 0 "1 / 3" 0 0 2 0 10 20 0 "0xFFFFFF" 0 0 0]
  by (simp add: is_random_def Let_def)

end
