(* ===== verification/Fx_Overlay.thy ===== *)
theory Fx_Overlay
  imports Glow_Emitter
begin

text \<open>
  The transparent effect overlay \<open>web/src/components/arena/pixi/PixiFxOverlay.tsx\<close> over the
  particle emitter, with the page's \<open>fireEffect\<close> that drives it.  \<open>Math.random\<close> is a
  parameter \<open>rnd\<close>: the value of its k-th call; the scene counts the calls.  Pixi's
  application is what the code relies on: its ticker calls the listeners in the order they
  were added, with a frame's \<open>deltaTime\<close> and \<open>deltaMS\<close>.
\<close>

datatype fx_kind = FxCharge | FxAttack | FxEnergyWave | FxTeleport | FxBlock | FxFinisher
datatype overlay_side = FxPlayer | FxEnemy

record overlay_effect =
  oe_kind :: fx_kind
  oe_side :: overlay_side
  oe_nonce :: nat

record beam =
  bm_x :: real
  bm_y :: real
  bm_tint :: nat
  bm_width :: real
  bm_height :: real
  bm_alpha :: real

datatype anim_body =
    ChargeAnim real real nat
  | WaveAnim real real real real nat real real nat bool
  | FinisherAnim real real nat

record fx_anim =
  an_duration :: real
  an_elapsed :: real
  an_body :: anim_body

record scene =
  scn_emitter :: emitter
  scn_anims :: "fx_anim list"
  scn_beams :: "nat \<rightharpoonup> beam"
  scn_next :: nat
  scn_shakes :: "real list"
  scn_left :: "real \<times> real"
  scn_right :: "real \<times> real"
  scn_height :: real
  scn_draws :: nat

subsection \<open>The scene: anchors, animations and particles\<close>

definition layout :: "real \<Rightarrow> real \<Rightarrow> scene \<Rightarrow> scene" where
  "layout W H s = s\<lparr>scn_left := (W * (18 / 100), H * (1 / 2)), scn_right := (W * (82 / 100), H * (1 / 2)),
                    scn_height := H\<rparr>"

definition scene_init :: "real \<Rightarrow> real \<Rightarrow> scene" where
  "scene_init W H = layout W H \<lparr>scn_emitter = emitter_init, scn_anims = [], scn_beams = Map.empty,
     scn_next = 0, scn_shakes = [], scn_left = (0, 0), scn_right = (0, 0), scn_height = 0, scn_draws = 0\<rparr>"

text \<open>A factory takes the position in the random sequence and returns the configuration and
  the next position; \<open>spawn\<close> draws two more values.\<close>

type_synonym factory = "nat \<Rightarrow> spawn_config \<times> nat"

definition vortex_at :: "(nat \<Rightarrow> real) \<Rightarrow> real \<Rightarrow> real \<Rightarrow> real \<Rightarrow> nat \<Rightarrow> factory" where
  "vortex_at rnd x y radius tint k = (vortexSpawn x y radius tint (rnd k) (rnd (k + 1)) (rnd (k + 2)), k + 3)"

definition burst_at :: "(nat \<Rightarrow> real) \<Rightarrow> real \<Rightarrow> real \<Rightarrow> nat \<Rightarrow> real \<Rightarrow> factory" where
  "burst_at rnd x y tint pwr k =
     (burstSpawn x y tint pwr (rnd k) (rnd (k + 1)) (rnd (k + 2)) (rnd (k + 3)) (rnd (k + 4)), k + 5)"

definition rising_at :: "(nat \<Rightarrow> real) \<Rightarrow> real \<Rightarrow> real \<Rightarrow> nat \<Rightarrow> real \<Rightarrow> factory" where
  "rising_at rnd x y tint spread k =
     (risingSpawn x y tint spread (rnd k) (rnd (k + 1)) (rnd (k + 2)) (rnd (k + 3)) (rnd (k + 4))
        (rnd (k + 5)) (rnd (k + 6)), k + 7)"

text \<open>The particles along the beam draw their place first.\<close>

definition rising_along :: "(nat \<Rightarrow> real) \<Rightarrow> real \<Rightarrow> real \<Rightarrow> real \<Rightarrow> real \<Rightarrow> nat \<Rightarrow> real \<Rightarrow> factory" where
  "rising_along rnd x len dir y tint spread k = rising_at rnd (x + len * rnd k * dir) y tint spread (k + 1)"

fun draw_n :: "(nat \<Rightarrow> real) \<Rightarrow> nat \<Rightarrow> factory \<Rightarrow> nat \<Rightarrow> (spawn_config \<times> real \<times> real) list \<times> nat" where
  "draw_n rnd 0 f k = ([], k)"
| "draw_n rnd (Suc n) f k =
     (let (cfg, k1) = f k; (cs, k2) = draw_n rnd n f (k1 + 2)
      in ((cfg, rnd k1, rnd (k1 + 1)) # cs, k2))"

definition emit :: "(nat \<Rightarrow> real) \<Rightarrow> nat \<Rightarrow> factory \<Rightarrow> scene \<Rightarrow> scene" where
  "emit rnd n f s =
     (let (cs, k) = draw_n rnd n f (scn_draws s)
      in s\<lparr>scn_emitter := burst cs (scn_emitter s), scn_draws := k\<rparr>)"

definition shake :: "real \<Rightarrow> scene \<Rightarrow> scene" where
  "shake intensity s = s\<lparr>scn_shakes := scn_shakes s @ [intensity]\<rparr>"

definition set_beam :: "nat \<Rightarrow> (beam \<Rightarrow> beam) \<Rightarrow> scene \<Rightarrow> scene" where
  "set_beam i f s = s\<lparr>scn_beams := (scn_beams s)(i := map_option f (scn_beams s i))\<rparr>"

definition animate :: "real \<Rightarrow> anim_body \<Rightarrow> scene \<Rightarrow> scene" where
  "animate duration body s =
     s\<lparr>scn_anims := scn_anims s @ [\<lparr>an_duration = duration, an_elapsed = 0, an_body = body\<rparr>]\<rparr>"

text \<open>The \<open>onUpdate\<close> callbacks at progress \<open>p\<close>.\<close>

fun anim_update :: "(nat \<Rightarrow> real) \<Rightarrow> real \<Rightarrow> anim_body \<Rightarrow> scene \<Rightarrow> anim_body \<times> scene" where
  "anim_update rnd p (ChargeAnim x y color) s =
     (ChargeAnim x y color,
      if p < 85 / 100 then emit rnd 5 (vortex_at rnd x y (70 * (1 - p * (1 / 2))) color) s else s)"
| "anim_update rnd p (FinisherAnim x y color) s =
     (FinisherAnim x y color,
      if p < 6 / 10
      then let r = rnd (scn_draws s); s1 = s\<lparr>scn_draws := scn_draws s + 1\<rparr>
           in if r < 1 / 2 then emit rnd 3 (rising_at rnd x y color 80) s1 else s1
      else s)"
| "anim_update rnd p (WaveAnim x y tx ty color dir len i hit) s =
     (if p < 3 / 10
      then (WaveAnim x y tx ty color dir len i hit,
            set_beam i (\<lambda>b. b\<lparr>bm_height := scn_height s * (6 / 100) * (p / (3 / 10))\<rparr>)
              (emit rnd 6 (vortex_at rnd x y (60 * (1 - p / (3 / 10))) color) s))
      else if p < 8 / 10
      then let fp = (p - 3 / 10) / (1 / 2);
               s1 = set_beam i (\<lambda>b. b\<lparr>bm_width := len * min 1 (fp * (15 / 10)) * dir,
                                      bm_height := scn_height s * (6 / 100) * (1 + sin (p * 50) * (3 / 10))\<rparr>) s;
               s2 = emit rnd 10 (rising_along rnd x len dir y color 20) s1
           in if fp > 6 / 10 \<and> \<not> hit
              then (WaveAnim x y tx ty color dir len i True,
                    shake 1 (emit rnd 18 (burst_at rnd tx ty 0xFFFFFF 1)
                      (emit rnd 40 (burst_at rnd tx ty color (14 / 10)) s2)))
              else (WaveAnim x y tx ty color dir len i hit, s2)
      else (WaveAnim x y tx ty color dir len i hit,
            set_beam i (\<lambda>b. b\<lparr>bm_alpha := 1 - (p - 8 / 10) / (2 / 10)\<rparr>) s))"

text \<open>\<open>onDone\<close>: the wave destroys its beam.\<close>

fun anim_done :: "anim_body \<Rightarrow> scene \<Rightarrow> scene" where
  "anim_done (WaveAnim x y tx ty color dir len i hit) s = s\<lparr>scn_beams := (scn_beams s)(i := None)\<rparr>"
| "anim_done body s = s"

fun tick_anims :: "(nat \<Rightarrow> real) \<Rightarrow> real \<Rightarrow> fx_anim list \<Rightarrow> scene \<Rightarrow> fx_anim list \<times> scene" where
  "tick_anims rnd dms [] s = ([], s)"
| "tick_anims rnd dms (a # as) s =
     (let elapsed = an_elapsed a + dms;
          p = min 1 (elapsed / an_duration a);
          (body, s1) = anim_update rnd p (an_body a) s;
          s2 = (if p \<ge> 1 then anim_done body s1 else s1);
          (as', s3) = tick_anims rnd dms as s2
      in (if p \<ge> 1 then as' else a\<lparr>an_elapsed := elapsed, an_body := body\<rparr> # as', s3))"

definition scene_frame :: "(nat \<Rightarrow> real) \<Rightarrow> real \<Rightarrow> real \<Rightarrow> scene \<Rightarrow> scene" where
  "scene_frame rnd dt dms s =
     (let (as, s1) = tick_anims rnd dms (scn_anims s) (s\<lparr>scn_emitter := update dt (scn_emitter s)\<rparr>)
      in s1\<lparr>scn_anims := as\<rparr>)"

subsection \<open>The effects\<close>

definition js_sign_or_1 :: "real \<Rightarrow> real" where
  "js_sign_or_1 d = (if d < 0 then - 1 else 1)"

definition fx :: "(nat \<Rightarrow> real) \<Rightarrow> nat \<Rightarrow> nat \<Rightarrow> fx_kind \<Rightarrow> overlay_side \<Rightarrow> scene \<Rightarrow> scene" where
  "fx rnd playerColor enemyColor kind side s =
     (let own = (if side = FxPlayer then scn_left s else scn_right s);
          tgt = (if side = FxPlayer then scn_right s else scn_left s);
          color = (if side = FxPlayer then playerColor else enemyColor)
      in case kind of
        FxCharge \<Rightarrow> animate 850 (ChargeAnim (fst own) (snd own) color) s
      | FxAttack \<Rightarrow> shake (8 / 10)
          (emit rnd 12 (burst_at rnd (fst tgt) (snd tgt) 0xFFFFFF (8 / 10))
            (emit rnd 30 (burst_at rnd (fst tgt) (snd tgt) 0xFFD23F (11 / 10)) s))
      | FxEnergyWave \<Rightarrow>
          animate 1100 (WaveAnim (fst own) (snd own) (fst tgt) (snd tgt) color
              (js_sign_or_1 (fst tgt - fst own)) \<bar>fst tgt - fst own\<bar> (scn_next s) False)
            (s\<lparr>scn_beams := (scn_beams s)(scn_next s \<mapsto> \<lparr>bm_x = fst own, bm_y = snd own, bm_tint = color,
                 bm_width = 0, bm_height = 0, bm_alpha = 1\<rparr>), scn_next := scn_next s + 1\<rparr>)
      | FxTeleport \<Rightarrow> emit rnd 22 (burst_at rnd (fst own) (snd own) 0x7CF3FF (9 / 10)) s
      | FxBlock \<Rightarrow> emit rnd 12 (burst_at rnd (fst own) (snd own) 0x66DDFF (7 / 10)) s
      | FxFinisher \<Rightarrow>
          animate 900 (FinisherAnim (fst tgt) (snd tgt) color)
            (shake (14 / 10)
              (emit rnd 30 (burst_at rnd (fst tgt) (snd tgt) 0xFFFFFF (12 / 10))
                (emit rnd 70 (burst_at rnd (fst tgt) (snd tgt) color (16 / 10)) s))))"

subsection \<open>The component\<close>

text \<open>\<open>ov_closure\<close> numbers the runs of the set-up effect, whose asynchronous initialisation may
  finish late; \<open>ov_calls\<close> logs the calls of \<open>fx\<close>.\<close>

record overlay =
  ov_mounted :: bool
  ov_colors :: "nat \<times> nat"
  ov_nonce :: "nat option"
  ov_closure :: nat
  ov_pending :: "(fx_kind \<times> overlay_side) list"
  ov_scene :: "scene option"
  ov_running :: bool
  ov_calls :: "(fx_kind \<times> overlay_side) list"

definition overlay_init :: overlay where
  "overlay_init = \<lparr>ov_mounted = False, ov_colors = (0, 0), ov_nonce = None, ov_closure = 0,
     ov_pending = [], ov_scene = None, ov_running = False, ov_calls = []\<rparr>"

text \<open>\<open>triggerRef.current\<close>: fire when ready, queue before.\<close>

definition trigger :: "(nat \<Rightarrow> real) \<Rightarrow> fx_kind \<Rightarrow> overlay_side \<Rightarrow> overlay \<Rightarrow> overlay" where
  "trigger rnd k sd w = (case ov_scene w of
      Some s \<Rightarrow> w\<lparr>ov_scene := Some (fx rnd (fst (ov_colors w)) (snd (ov_colors w)) k sd s),
                   ov_calls := ov_calls w @ [(k, sd)]\<rparr>
    | None \<Rightarrow> w\<lparr>ov_pending := ov_pending w @ [(k, sd)]\<rparr>)"

text \<open>The clean-up of the set-up effect and a new run of it.\<close>

definition cleanup :: "overlay \<Rightarrow> overlay" where
  "cleanup w = w\<lparr>ov_scene := None, ov_running := False\<rparr>"

definition setup_effect :: "nat \<times> nat \<Rightarrow> overlay \<Rightarrow> overlay" where
  "setup_effect colors w = w\<lparr>ov_colors := colors, ov_closure := ov_closure w + 1, ov_pending := [],
     ov_scene := None, ov_running := False\<rparr>"

text \<open>A render commits the props and runs the two effects whose dependencies changed.\<close>

definition render :: "(nat \<Rightarrow> real) \<Rightarrow> nat \<times> nat \<Rightarrow> overlay_effect option \<Rightarrow> overlay \<Rightarrow> overlay" where
  "render rnd colors eff w =
     (let fresh = \<not> ov_mounted w;
          o1 = (if fresh then setup_effect colors w
                else if colors \<noteq> ov_colors w then setup_effect colors (cleanup w) else w);
          nonce = map_option oe_nonce eff;
          o2 = o1\<lparr>ov_mounted := True, ov_nonce := nonce\<rparr>
      in if fresh \<or> nonce \<noteq> ov_nonce w
         then (case eff of Some e \<Rightarrow> trigger rnd (oe_kind e) (oe_side e) o2 | None \<Rightarrow> o2)
         else o2)"

definition drain_pending :: "(nat \<Rightarrow> real) \<Rightarrow> overlay \<Rightarrow> overlay" where
  "drain_pending rnd w = (fold (\<lambda>(k, sd). trigger rnd k sd) (ov_pending w) w)\<lparr>ov_pending := []\<rparr>"

text \<open>\<open>instance.init\<close> has settled for the run \<open>g\<close> of the set-up effect; the queue is drained.\<close>

definition init_done :: "(nat \<Rightarrow> real) \<Rightarrow> nat \<Rightarrow> real \<Rightarrow> real \<Rightarrow> overlay \<Rightarrow> overlay" where
  "init_done rnd g W H w =
     (if \<not> ov_mounted w \<or> g \<noteq> ov_closure w \<or> ov_scene w \<noteq> None then w
      else drain_pending rnd (w\<lparr>ov_scene := Some (scene_init W H), ov_running := True\<rparr>))"

definition frame :: "(nat \<Rightarrow> real) \<Rightarrow> real \<Rightarrow> real \<Rightarrow> overlay \<Rightarrow> overlay" where
  "frame rnd dt dms w =
     (if ov_running w then w\<lparr>ov_scene := map_option (scene_frame rnd dt dms) (ov_scene w)\<rparr> else w)"

definition resized :: "real \<Rightarrow> real \<Rightarrow> overlay \<Rightarrow> overlay" where
  "resized W H w = w\<lparr>ov_scene := map_option (layout W H) (ov_scene w)\<rparr>"

definition onVis :: "bool \<Rightarrow> overlay \<Rightarrow> overlay" where
  "onVis is_hidden w = (if ov_scene w = None then w else w\<lparr>ov_running := \<not> is_hidden\<rparr>)"

definition unmount :: "overlay \<Rightarrow> overlay" where
  "unmount w = (cleanup w)\<lparr>ov_mounted := False\<rparr>"

datatype overlay_op = Render "nat \<times> nat" "overlay_effect option" | InitDone nat real real
  | Frame real real | Resized real real | Vis bool | Unmount

fun overlay_do :: "(nat \<Rightarrow> real) \<Rightarrow> overlay_op \<Rightarrow> overlay \<Rightarrow> overlay" where
  "overlay_do rnd (Render c e) w = render rnd c e w"
| "overlay_do rnd (InitDone g W H) w = init_done rnd g W H w"
| "overlay_do rnd (Frame dt dms) w = frame rnd dt dms w"
| "overlay_do rnd (Resized W H) w = resized W H w"
| "overlay_do rnd (Vis h) w = onVis h w"
| "overlay_do rnd Unmount w = unmount w"

definition overlay_run :: "(nat \<Rightarrow> real) \<Rightarrow> overlay_op list \<Rightarrow> overlay \<Rightarrow> overlay" where
  "overlay_run rnd ops w = fold (overlay_do rnd) ops w"

lemma overlay_run_simps [simp]:
  "overlay_run rnd [] w = w" "overlay_run rnd (x # xs) w = overlay_run rnd xs (overlay_do rnd x w)"
  "overlay_run rnd (xs @ ys) w = overlay_run rnd ys (overlay_run rnd xs w)"
  by (simp_all add: overlay_run_def)

subsection \<open>The page's side\<close>

record fx_page =
  fp_effect :: "overlay_effect option"
  fp_nonce :: nat

definition fx_page_init :: fx_page where
  "fx_page_init = \<lparr>fp_effect = None, fp_nonce = 0\<rparr>"

definition fireEffect :: "fx_kind \<Rightarrow> overlay_side \<Rightarrow> fx_page \<Rightarrow> fx_page" where
  "fireEffect k sd s = s\<lparr>fp_nonce := fp_nonce s + 1,
     fp_effect := Some \<lparr>oe_kind = k, oe_side = sd, oe_nonce = fp_nonce s + 1\<rparr>\<rparr>"

subsection \<open>No effect is dropped\<close>

text \<open>The runs in which the overlay stays mounted with fixed colours.\<close>

fun stays :: "nat \<times> nat \<Rightarrow> overlay_op \<Rightarrow> bool" where
  "stays c (Render c' e) = (c' = c)"
| "stays c Unmount = False"
| "stays c _ = True"

text \<open>What the page asked for: the effects whose nonce differs from the one rendered before.\<close>

fun requested :: "nat option \<Rightarrow> overlay_op list \<Rightarrow> (fx_kind \<times> overlay_side) list" where
  "requested n [] = []"
| "requested n (Render c e # xs) =
     (if map_option oe_nonce e \<noteq> n then (case e of Some e \<Rightarrow> [(oe_kind e, oe_side e)] | None \<Rightarrow> []) else []) @
     requested (map_option oe_nonce e) xs"
| "requested n (x # xs) = requested n xs"

definition queue_ok :: "overlay \<Rightarrow> bool" where
  "queue_ok w \<longleftrightarrow> ov_mounted w \<and> (ov_scene w \<noteq> None \<longrightarrow> ov_pending w = [])"

lemma trigger_simps [simp]:
  "ov_calls (trigger rnd k sd w) @ ov_pending (trigger rnd k sd w) =
     (if ov_scene w = None then ov_calls w @ ov_pending w @ [(k, sd)] else ov_calls w @ [(k, sd)] @ ov_pending w)"
  "ov_mounted (trigger rnd k sd w) = ov_mounted w" "ov_nonce (trigger rnd k sd w) = ov_nonce w"
  "ov_colors (trigger rnd k sd w) = ov_colors w" "ov_closure (trigger rnd k sd w) = ov_closure w"
  "(ov_scene (trigger rnd k sd w) = None) = (ov_scene w = None)"
  "ov_scene w \<noteq> None \<Longrightarrow> ov_pending (trigger rnd k sd w) = ov_pending w"
  by (auto simp: trigger_def split: option.split)

lemma fold_trigger:
  assumes "ov_scene w \<noteq> None"
  shows "ov_calls (fold (\<lambda>(k, sd). trigger rnd k sd) q w) = ov_calls w @ q \<and>
    ov_scene (fold (\<lambda>(k, sd). trigger rnd k sd) q w) \<noteq> None \<and>
    ov_mounted (fold (\<lambda>(k, sd). trigger rnd k sd) q w) = ov_mounted w \<and>
    ov_nonce (fold (\<lambda>(k, sd). trigger rnd k sd) q w) = ov_nonce w \<and>
    ov_colors (fold (\<lambda>(k, sd). trigger rnd k sd) q w) = ov_colors w \<and>
    ov_closure (fold (\<lambda>(k, sd). trigger rnd k sd) q w) = ov_closure w"
  using assms
proof (induction q arbitrary: w)
  case (Cons x q)
  obtain k sd where x: "x = (k, sd)" by (cases x)
  have "ov_calls (trigger rnd k sd w) = ov_calls w @ [(k, sd)]"
    using Cons.prems by (auto simp: trigger_def)
  with Cons.IH [of "trigger rnd k sd w"] Cons.prems x show ?case by simp
qed simp

lemma overlay_step_queue:
  assumes "queue_ok w" "stays (ov_colors w) x"
  shows "queue_ok (overlay_do rnd x w) \<and> ov_colors (overlay_do rnd x w) = ov_colors w \<and>
    ov_calls (overlay_do rnd x w) @ ov_pending (overlay_do rnd x w) @ requested (ov_nonce (overlay_do rnd x w)) xs =
    ov_calls w @ ov_pending w @ requested (ov_nonce w) (x # xs)"
proof (cases x)
  case (Render c e)
  then show ?thesis using assms
    by (cases e; cases "ov_scene w") (auto simp: queue_ok_def render_def Let_def trigger_def)
next
  case (InitDone g W H)
  show ?thesis
  proof (cases "ov_scene w = None \<and> g = ov_closure w")
    case True
    then show ?thesis using assms InitDone fold_trigger [of "w\<lparr>ov_scene := Some (scene_init W H), ov_running := True\<rparr>" rnd "ov_pending w"]
      by (simp add: queue_ok_def init_done_def drain_pending_def)
  qed (use assms InitDone in \<open>auto simp: queue_ok_def init_done_def drain_pending_def\<close>)
qed (use assms in \<open>auto simp: queue_ok_def frame_def resized_def onVis_def\<close>)

lemma overlay_run_queue:
  assumes "queue_ok w" "\<forall>x \<in> set xs. stays (ov_colors w) x"
  shows "queue_ok (overlay_run rnd xs w) \<and>
    ov_calls (overlay_run rnd xs w) @ ov_pending (overlay_run rnd xs w) = ov_calls w @ ov_pending w @ requested (ov_nonce w) xs"
  using assms
proof (induction xs arbitrary: w)
  case (Cons x xs)
  then show ?case using overlay_step_queue [OF Cons.prems(1), of x rnd xs] Cons.IH [of "overlay_do rnd x w"] by simp
qed simp

text \<open>Claim C27: whenever Pixi's start-up ends, and however renders, frames, resizes and tab switches
  interleave, the effects run are those the page asked for, in their order and once each; before
  the start-up they wait in the queue, after it the queue is empty.\<close>

theorem no_effect_dropped:
  assumes "\<forall>x \<in> set xs. stays c x"
    and "w = overlay_run rnd (Render c eff # xs) overlay_init"
  shows "ov_calls w @ ov_pending w =
      (case eff of Some e \<Rightarrow> [(oe_kind e, oe_side e)] | None \<Rightarrow> []) @ requested (map_option oe_nonce eff) xs \<and>
    (ov_scene w \<noteq> None \<longrightarrow> ov_pending w = [])"
proof -
  let ?w = "render rnd c eff overlay_init"
  have start: "queue_ok ?w" "ov_colors ?w = c" "ov_nonce ?w = map_option oe_nonce eff" "ov_calls ?w = []"
      "ov_pending ?w = (case eff of Some e \<Rightarrow> [(oe_kind e, oe_side e)] | None \<Rightarrow> [])"
    by (cases eff; simp add: queue_ok_def render_def overlay_init_def setup_effect_def trigger_def Let_def)+
  then show ?thesis using overlay_run_queue [OF start(1), of xs rnd] assms by (simp add: queue_ok_def)
qed

definition fx_page_turn :: "overlay_op list" where
  "fx_page_turn =
     (let s0 = fx_page_init; s1 = fireEffect FxCharge FxPlayer s0; s2 = fireEffect FxAttack FxEnemy s1
      in [Render (1, 2) (fp_effect s1), InitDone 1 800 400, Render (1, 2) (fp_effect s1), Frame 1 16,
          Render (1, 2) (fp_effect s2), Resized 400 300])"

lemma no_effect_dropped_witness:
  "ov_calls (overlay_run (\<lambda>_. 0) (Render (1, 2) None # fx_page_turn) overlay_init) @
   ov_pending (overlay_run (\<lambda>_. 0) (Render (1, 2) None # fx_page_turn) overlay_init) =
   [(FxCharge, FxPlayer), (FxAttack, FxEnemy)]"
proof -
  have "\<forall>x \<in> set fx_page_turn. stays (1, 2) x"
    by (simp add: fx_page_turn_def Let_def)
  from no_effect_dropped [OF this refl, of "\<lambda>_. 0" None]
  show ?thesis by (simp add: fx_page_turn_def Let_def fireEffect_def fx_page_init_def)
qed

subsection \<open>The scene invariant\<close>

fun wave_id :: "anim_body \<Rightarrow> nat list" where
  "wave_id (WaveAnim x y tx ty color dir len i hit) = [i]"
| "wave_id body = []"

definition wave_ids :: "fx_anim list \<Rightarrow> nat list" where
  "wave_ids as = concat (map (\<lambda>a. wave_id (an_body a)) as)"

lemma wave_ids_simps [simp]:
  "wave_ids [] = []" "wave_ids (a # as) = wave_id (an_body a) @ wave_ids as"
  "wave_ids (as @ bs) = wave_ids as @ wave_ids bs"
  by (simp_all add: wave_ids_def)

definition anim_ok :: "fx_anim \<Rightarrow> bool" where
  "anim_ok a \<longleftrightarrow> 0 < an_duration a \<and> an_duration a \<le> 1100 \<and> 0 \<le> an_elapsed a \<and> an_elapsed a < an_duration a"

definition scene_ok :: "scene \<Rightarrow> bool" where
  "scene_ok s \<longleftrightarrow> emitter_ok 80 (scn_emitter s) \<and> (\<forall>a \<in> set (scn_anims s). anim_ok a) \<and>
     distinct (wave_ids (scn_anims s)) \<and> dom (scn_beams s) = set (wave_ids (scn_anims s)) \<and>
     (\<forall>i \<in> set (wave_ids (scn_anims s)). i < scn_next s)"

text \<open>What particles and shakes leave alone.\<close>

definition same_stage :: "scene \<Rightarrow> scene \<Rightarrow> bool" where
  "same_stage s t \<longleftrightarrow> scn_anims t = scn_anims s \<and> dom (scn_beams t) = dom (scn_beams s) \<and> scn_next t = scn_next s \<and>
     (emitter_ok 80 (scn_emitter s) \<longrightarrow> emitter_ok 80 (scn_emitter t))"

lemma same_stage_trans: "same_stage s t \<Longrightarrow> same_stage t u \<Longrightarrow> same_stage s u"
  by (simp add: same_stage_def)

lemma burst_ok:
  "emitter_ok L e \<Longrightarrow> \<forall>(c, r) \<in> set cs. sane_config L c \<Longrightarrow> emitter_ok L (burst cs e)"
  by (induction cs e rule: burst.induct) (simp_all add: spawn_ok)

lemma draw_n_sane:
  "\<forall>k. sane_config L (fst (f k)) \<Longrightarrow> \<forall>(c, r) \<in> set (fst (draw_n rnd n f k)). sane_config L c"
proof (induction n arbitrary: k)
  case (Suc n)
  obtain cfg k1 where f: "f k = (cfg, k1)" by (cases "f k")
  obtain cs k2 where d: "draw_n rnd n f (k1 + 2) = (cs, k2)" by (cases "draw_n rnd n f (k1 + 2)")
  from Suc.prems have "sane_config L cfg" using f by (metis fst_conv)
  with Suc.IH [OF Suc.prems, of "k1 + 2"] f d show ?case by simp
qed simp

lemma factories_sane:
  assumes "\<forall>k. is_random (rnd k)"
  shows "\<forall>k. sane_config 80 (fst (vortex_at rnd x y radius tint k))"
    "\<forall>k. sane_config 80 (fst (burst_at rnd x y tint pwr k))"
    "\<forall>k. sane_config 80 (fst (rising_at rnd x y tint spread k))"
    "\<forall>k. sane_config 80 (fst (rising_along rnd x len dir y tint spread k))"
  using assms patterns_sane
  by (simp_all add: vortex_at_def burst_at_def rising_at_def rising_along_def)

lemma emit_stage: "\<forall>k. sane_config 80 (fst (f k)) \<Longrightarrow> same_stage s (emit rnd n f s)"
  using burst_ok [OF _ draw_n_sane, of 80 "scn_emitter s" f rnd n "scn_draws s"]
  by (auto simp: same_stage_def emit_def split: prod.split)

lemma stage_steps:
  "same_stage s s" "same_stage s (shake r s)" "same_stage s (set_beam i g s)"
  "same_stage s (s\<lparr>scn_draws := k\<rparr>)"
  by (auto simp: same_stage_def shake_def set_beam_def split: if_splits)

lemma emit_stage': "same_stage s t \<Longrightarrow> \<forall>k. sane_config 80 (fst (f k)) \<Longrightarrow> same_stage s (emit rnd n f t)"
  by (rule same_stage_trans [OF _ emit_stage])

lemma shake_stage': "same_stage s t \<Longrightarrow> same_stage s (shake r t)"
  by (rule same_stage_trans [OF _ stage_steps(2)])

lemma set_beam_stage': "same_stage s t \<Longrightarrow> same_stage s (set_beam i g t)"
  by (rule same_stage_trans [OF _ stage_steps(3)])

lemmas stage_intros = stage_steps(1,4) emit_stage' shake_stage' set_beam_stage'

lemma anim_update_stage:
  assumes "\<forall>k. is_random (rnd k)"
  shows "same_stage s (snd (anim_update rnd p body s)) \<and> wave_id (fst (anim_update rnd p body s)) = wave_id body"
  using factories_sane [OF assms]
  by (cases body) (auto simp: Let_def intro!: stage_intros)

lemma anim_done_simps:
  "scn_anims (anim_done body s) = scn_anims s" "scn_next (anim_done body s) = scn_next s"
  "scn_emitter (anim_done body s) = scn_emitter s"
  "dom (scn_beams (anim_done body s)) = dom (scn_beams s) - set (wave_id body)"
  by (cases body; auto)+

lemma tick_anims_ok:
  assumes rnd: "\<forall>k. is_random (rnd k)" and "0 \<le> dms"
  shows "\<lbrakk>\<forall>a \<in> set as. anim_ok a; dom (scn_beams s) = set (wave_ids as) \<union> X; distinct (wave_ids as);
      set (wave_ids as) \<inter> X = {}; emitter_ok 80 (scn_emitter s); tick_anims rnd dms as s = (as', t)\<rbrakk> \<Longrightarrow>
    (\<forall>a \<in> set as'. anim_ok a) \<and> dom (scn_beams t) = set (wave_ids as') \<union> X \<and> distinct (wave_ids as') \<and>
    set (wave_ids as') \<subseteq> set (wave_ids as) \<and> emitter_ok 80 (scn_emitter t) \<and> scn_next t = scn_next s"
proof (induction as arbitrary: s X as')
  case (Cons a as)
  let ?el = "an_elapsed a + dms" let ?p = "min 1 (?el / an_duration a)"
  obtain body s1 where u: "anim_update rnd ?p (an_body a) s = (body, s1)" by (cases "anim_update rnd ?p (an_body a) s")
  have stage: "same_stage s s1" "wave_id body = wave_id (an_body a)"
    using anim_update_stage [OF rnd, of s ?p "an_body a"] u by simp_all
  show ?case
  proof (cases "?p \<ge> 1")
    case True
    let ?s = "anim_done body s1"
    obtain bs s3 where t: "tick_anims rnd dms as ?s = (bs, s3)" by (cases "tick_anims rnd dms as ?s")
    have "as' = bs" "t = s3" using Cons.prems(6) u True t by (simp_all add: Let_def)
    moreover have "dom (scn_beams ?s) = set (wave_ids as) \<union> X"
      using Cons.prems(2-4) stage by (auto simp: anim_done_simps same_stage_def)
    moreover have "emitter_ok 80 (scn_emitter ?s)" "scn_next ?s = scn_next s"
      using Cons.prems(5) stage by (simp_all add: anim_done_simps same_stage_def)
    ultimately show ?thesis using Cons.IH [of ?s X bs] Cons.prems(1,3,4) t by auto
  next
    case False
    obtain bs s3 where t: "tick_anims rnd dms as s1 = (bs, s3)" by (cases "tick_anims rnd dms as s1")
    let ?a = "a\<lparr>an_elapsed := ?el, an_body := body\<rparr>"
    have r: "as' = ?a # bs" "t = s3" using Cons.prems(6) u False t by (simp_all add: Let_def)
    have "anim_ok ?a" using Cons.prems(1) False assms(2) by (auto simp: anim_ok_def min_def split: if_splits)
    moreover have "dom (scn_beams s1) = set (wave_ids as) \<union> (X \<union> set (wave_id body))"
      using Cons.prems(2) stage by (auto simp: same_stage_def)
    moreover have "emitter_ok 80 (scn_emitter s1)" "scn_next s1 = scn_next s"
      using Cons.prems(5) stage(1) by (simp_all add: same_stage_def)
    moreover have "set (wave_ids as) \<inter> (X \<union> set (wave_id body)) = {}" "distinct (wave_ids as)" "distinct (wave_id body)"
      using Cons.prems(3,4) stage(2) by auto
    ultimately show ?thesis using Cons.IH [of s1 "X \<union> set (wave_id body)" bs] Cons.prems(1,4) t r stage(2) by auto
  qed
qed simp

lemma scene_frame_ok:
  assumes "\<forall>k. is_random (rnd k)" "0 \<le> dt" "0 \<le> dms" "scene_ok s"
  shows "scene_ok (scene_frame rnd dt dms s)"
proof -
  let ?s = "s\<lparr>scn_emitter := update dt (scn_emitter s)\<rparr>"
  obtain as t where t: "tick_anims rnd dms (scn_anims s) ?s = (as, t)" by (cases "tick_anims rnd dms (scn_anims s) ?s")
  have "emitter_ok 80 (scn_emitter ?s)" using assms(2,4) by (simp add: scene_ok_def update_ok)
  then show ?thesis
    using tick_anims_ok [OF assms(1,3), of "scn_anims s" ?s "{}" as t] t assms(4)
    by (auto simp: scene_ok_def scene_frame_def)
qed

lemma animate_ok:
  assumes "scene_ok s" "0 < d" "d \<le> 1100" "wave_id body = []" shows "scene_ok (animate d body s)"
  using assms by (auto simp: scene_ok_def animate_def anim_ok_def)

lemma same_stage_ok: "scene_ok s \<Longrightarrow> same_stage s t \<Longrightarrow> scene_ok t"
  by (simp add: scene_ok_def same_stage_def)

lemma animate_stage_ok:
  "scene_ok s \<Longrightarrow> same_stage s t \<Longrightarrow> 0 < d \<Longrightarrow> d \<le> 1100 \<Longrightarrow> wave_id body = [] \<Longrightarrow>
   scene_ok (animate d body t)"
  by (rule animate_ok [OF same_stage_ok])

lemma layout_ok: "scene_ok s \<Longrightarrow> scene_ok (layout W H s)"
  by (simp add: scene_ok_def layout_def)

lemma fx_ok:
  assumes rnd: "\<forall>k. is_random (rnd k)" and "scene_ok s"
  shows "scene_ok (fx rnd c1 c2 k sd s)"
proof (cases k)
  case FxEnergyWave
  then show ?thesis using assms(2) by (auto simp: fx_def scene_ok_def animate_def anim_ok_def Let_def dom_def)
next
  case FxFinisher
  then show ?thesis using factories_sane [OF rnd]
    by (auto simp: fx_def Let_def intro!: animate_stage_ok [OF assms(2)] stage_intros)
next
  case FxCharge
  then show ?thesis using assms(2) by (auto simp: fx_def Let_def intro!: animate_ok)
qed (use factories_sane [OF rnd] in
    \<open>auto simp: fx_def Let_def intro!: same_stage_ok [OF assms(2)] stage_intros\<close>)

lemma scene_init_ok: "scene_ok (scene_init W H)"
  by (simp add: scene_ok_def scene_init_def layout_def emitter_ok_init)

definition overlay_ok :: "overlay \<Rightarrow> bool" where
  "overlay_ok w \<longleftrightarrow> (\<forall>s. ov_scene w = Some s \<longrightarrow> scene_ok s) \<and> (ov_running w \<longrightarrow> ov_scene w \<noteq> None) \<and>
     (ov_scene w \<noteq> None \<longrightarrow> ov_mounted w)"

fun sane_overlay_op :: "overlay_op \<Rightarrow> bool" where
  "sane_overlay_op (Frame dt dms) = (0 \<le> dt \<and> 0 \<le> dms)"
| "sane_overlay_op _ = True"

lemma trigger_ok: "\<forall>k. is_random (rnd k) \<Longrightarrow> overlay_ok w \<Longrightarrow> overlay_ok (trigger rnd k sd w)"
  by (auto simp: overlay_ok_def trigger_def fx_ok split: option.splits)

lemma fold_trigger_ok:
  "\<forall>k. is_random (rnd k) \<Longrightarrow> overlay_ok w \<Longrightarrow> overlay_ok (fold (\<lambda>(k, sd). trigger rnd k sd) q w)"
  by (induction q arbitrary: w) (auto simp: trigger_ok)

lemma overlay_do_ok:
  assumes "\<forall>k. is_random (rnd k)" "overlay_ok w" "sane_overlay_op x"
  shows "overlay_ok (overlay_do rnd x w)"
proof (cases x)
  case (Render c e)
  have "overlay_ok (setup_effect c v)" "overlay_ok (v\<lparr>ov_mounted := True, ov_nonce := n\<rparr>)" if "overlay_ok v" for v n
    using that by (auto simp: overlay_ok_def setup_effect_def)
  moreover have "overlay_ok (cleanup w)" by (simp add: overlay_ok_def cleanup_def)
  ultimately show ?thesis using Render assms
    by (auto simp: render_def Let_def intro!: trigger_ok split: option.split)
next
  case (InitDone g W H)
  have "overlay_ok (w\<lparr>ov_scene := Some (scene_init W H), ov_running := True\<rparr>)" if "ov_mounted w"
    using that by (simp add: overlay_ok_def scene_init_ok)
  moreover have "overlay_ok (v\<lparr>ov_pending := []\<rparr>)" if "overlay_ok v" for v
    using that by (simp add: overlay_ok_def)
  ultimately show ?thesis using InitDone assms by (auto simp: init_done_def drain_pending_def intro!: fold_trigger_ok)
next
  case (Frame dt dms)
  then show ?thesis using assms by (auto simp: overlay_ok_def frame_def scene_frame_ok)
next
  case (Resized W H)
  then show ?thesis using assms(2) by (auto simp: overlay_ok_def resized_def layout_ok)
qed (use assms(2) in \<open>auto simp: overlay_ok_def onVis_def unmount_def cleanup_def\<close>)

lemma overlay_run_ok:
  "\<forall>k. is_random (rnd k) \<Longrightarrow> overlay_ok w \<Longrightarrow> \<forall>x \<in> set xs. sane_overlay_op x \<Longrightarrow> overlay_ok (overlay_run rnd xs w)"
  by (induction xs arbitrary: w) (simp_all add: overlay_do_ok)

lemma overlay_init_ok: "overlay_ok overlay_init"
  by (simp add: overlay_ok_def overlay_init_def)

subsection \<open>The overlay clears\<close>

lemma tick_anims_elapsed:
  "\<lbrakk>\<forall>a \<in> set as. T \<le> an_elapsed a; tick_anims rnd dms as s = (as', t)\<rbrakk> \<Longrightarrow> \<forall>a \<in> set as'. T + dms \<le> an_elapsed a"
proof (induction as arbitrary: s as')
  case (Cons a as)
  then show ?case by (auto simp: Let_def split: prod.splits if_splits)
qed simp

definition frames :: "(real \<times> real) list \<Rightarrow> overlay_op list" where
  "frames fs = map (\<lambda>(dt, dms). Frame dt dms) fs"

lemma frames_simps [simp]: "frames [] = []" "frames ((dt, dms) # fs) = Frame dt dms # frames fs"
  by (simp_all add: frames_def)

definition scene_frames :: "(nat \<Rightarrow> real) \<Rightarrow> (real \<times> real) list \<Rightarrow> scene \<Rightarrow> scene" where
  "scene_frames rnd fs s = fold (\<lambda>(dt, dms). scene_frame rnd dt dms) fs s"

lemma run_frames:
  "ov_running w \<Longrightarrow> ov_scene w = Some s \<Longrightarrow>
   overlay_run rnd (frames fs) w = w\<lparr>ov_scene := Some (scene_frames rnd fs s)\<rparr>"
proof (induction fs arbitrary: w s)
  case (Cons f fs)
  obtain dt dms where f: "f = (dt, dms)" by (cases f)
  show ?case
    using Cons.IH [of "frame rnd dt dms w" "scene_frame rnd dt dms s"] Cons.prems f
    by (simp add: frame_def scene_frames_def)
qed (simp add: scene_frames_def)

lemma scene_frames_ok:
  "\<forall>k. is_random (rnd k) \<Longrightarrow> \<forall>(dt, dms) \<in> set fs. 0 \<le> dt \<and> 0 \<le> dms \<Longrightarrow> scene_ok s \<Longrightarrow> scene_ok (scene_frames rnd fs s)"
  by (induction fs arbitrary: s) (auto simp: scene_frames_def scene_frame_ok)

lemma scene_frames_elapsed:
  "\<forall>a \<in> set (scn_anims s). T \<le> an_elapsed a \<Longrightarrow>
   \<forall>a \<in> set (scn_anims (scene_frames rnd fs s)). T + sum_list (map snd fs) \<le> an_elapsed a"
proof (induction fs arbitrary: s T)
  case (Cons f fs)
  obtain dt dms where f: "f = (dt, dms)" by (cases f)
  have "\<forall>a \<in> set (scn_anims (scene_frame rnd dt dms s)). T + dms \<le> an_elapsed a"
    using tick_anims_elapsed [OF Cons.prems, of rnd dms "s\<lparr>scn_emitter := update dt (scn_emitter s)\<rparr>"]
    by (simp add: scene_frame_def split: prod.split)
  from Cons.IH [OF this] show ?case using f by (simp add: scene_frames_def algebra_simps)
qed (simp add: scene_frames_def)

lemma animations_finish:
  assumes "\<forall>k. is_random (rnd k)" "\<forall>(dt, dms) \<in> set fs. 0 \<le> dt \<and> 0 \<le> dms" "scene_ok s"
    "1100 \<le> sum_list (map snd fs)"
  shows "scn_anims (scene_frames rnd fs s) = []"
proof -
  have "\<forall>a \<in> set (scn_anims s). 0 \<le> an_elapsed a" using assms(3) by (auto simp: scene_ok_def anim_ok_def)
  from scene_frames_elapsed [OF this, of rnd fs] scene_frames_ok [OF assms(1-3)] assms(4)
  show ?thesis by (fastforce simp: scene_ok_def anim_ok_def neq_Nil_conv)
qed

lemma quiet_frames:
  "scn_anims s = [] \<Longrightarrow> scn_emitter (scene_frames rnd fs s) = emitter_run (map Tick (map fst fs)) (scn_emitter s) \<and>
     scn_anims (scene_frames rnd fs s) = []"
  by (induction fs arbitrary: s) (auto simp: scene_frames_def scene_frame_def)

text \<open>Claim C28: after any history, an overlay whose ticker runs clears by itself: once frames of 1100 ms and then
  80 frame units pass without a new effect, no animation, no beam and no live particle is left over
  the arena.\<close>

theorem overlay_clears:
  assumes "\<forall>k. is_random (rnd k)" and "\<forall>x \<in> set xs. sane_overlay_op x"
    and "w = overlay_run rnd xs overlay_init" and "ov_running w"
    and "\<forall>(dt, dms) \<in> set (fs @ gs). 0 \<le> dt \<and> 0 \<le> dms"
    and "1100 \<le> sum_list (map snd fs)" and "80 \<le> sum_list (map fst gs)"
  shows "\<exists>s. ov_scene (overlay_run rnd (frames (fs @ gs)) w) = Some s \<and>
     scn_anims s = [] \<and> scn_beams s = Map.empty \<and> liveCount (scn_emitter s) = 0 \<and>
     (\<forall>p \<in> set (em_pool (scn_emitter s)). \<not> sp_visible p)"
proof -
  have "overlay_ok w" unfolding assms(3) by (rule overlay_run_ok [OF assms(1) overlay_init_ok assms(2)])
  then obtain s where s: "ov_scene w = Some s" "scene_ok s" using assms(4) by (auto simp: overlay_ok_def)
  have split: "scene_frames rnd (fs @ gs) s = scene_frames rnd gs (scene_frames rnd fs s)"
    by (simp add: scene_frames_def)
  have ok: "scene_ok (scene_frames rnd fs s)" "scene_ok (scene_frames rnd (fs @ gs) s)"
    using scene_frames_ok [OF assms(1) _ s(2)] assms(5) by simp_all
  have "scn_anims (scene_frames rnd fs s) = []"
    by (rule animations_finish [OF assms(1) _ s(2) assms(6)]) (use assms(5) in simp)
  note q = quiet_frames [OF this, of rnd gs]
  have "em_live (emitter_run (map Tick (map fst gs)) (scn_emitter (scene_frames rnd fs s))) = []"
    by (rule emitter_burns_out [where L = 80]) (use ok(1) assms(5,7) in \<open>auto simp: scene_ok_def\<close>)
  then have "em_live (scn_emitter (scene_frames rnd (fs @ gs) s)) = []" using q by (simp add: split)
  then show ?thesis
    using run_frames [OF assms(4) s(1), of rnd "fs @ gs"] ok(2) q
    by (auto simp: split scene_ok_def liveCount_def emitter_ok_def)
qed

lemma overlay_clears_witness:
  "\<exists>s. ov_scene (overlay_run (\<lambda>_. 0) (frames (replicate 11 (6, 100) @ replicate 20 (6, 100)))
       (overlay_run (\<lambda>_. 0) (Render (1, 2) (Some \<lparr>oe_kind = FxEnergyWave, oe_side = FxEnemy, oe_nonce = 1\<rparr>) #
          [InitDone 1 800 400]) overlay_init)) = Some s \<and> scn_beams s = Map.empty"
  using overlay_clears [OF _ _ refl, of "\<lambda>_. 0"
      "[Render (1, 2) (Some \<lparr>oe_kind = FxEnergyWave, oe_side = FxEnemy, oe_nonce = 1\<rparr>), InitDone 1 800 400]"
      "replicate 11 (6, 100)" "replicate 20 (6, 100)"]
  by (auto simp: is_random_def render_def overlay_init_def setup_effect_def trigger_def init_done_def drain_pending_def
      sum_list_replicate Let_def)

subsection \<open>The wave's impact\<close>

text \<open>One wave's animation through frames with the given \<open>deltaMS\<close>: its body when it is done
  or the frames end, and the scene.\<close>

fun wave_frames :: "(nat \<Rightarrow> real) \<Rightarrow> real list \<Rightarrow> fx_anim list \<times> scene \<Rightarrow> fx_anim list \<times> scene" where
  "wave_frames rnd [] (as, s) = (as, s)"
| "wave_frames rnd (dms # ds) (as, s) = wave_frames rnd ds (tick_anims rnd dms as s)"

fun wave_hit :: "anim_body \<Rightarrow> bool" where
  "wave_hit (WaveAnim x y tx ty color dir len i hit) = hit"
| "wave_hit body = False"

definition wave_anim :: "real \<Rightarrow> anim_body \<Rightarrow> fx_anim" where
  "wave_anim el body = \<lparr>an_duration = 1100, an_elapsed = el, an_body = body\<rparr>"

definition is_wave :: "anim_body \<Rightarrow> bool" where
  "is_wave body \<longleftrightarrow> wave_id body \<noteq> []"

lemma shakes_simps [simp]:
  "scn_shakes (emit rnd n f s) = scn_shakes s" "scn_shakes (set_beam i g s) = scn_shakes s"
  "scn_shakes (shake r s) = scn_shakes s @ [r]" "scn_shakes (anim_done body s) = scn_shakes s"
  by (simp_all add: emit_def set_beam_def shake_def split: prod.split) (cases body; simp)

lemma wave_update:
  assumes "is_wave body"
  shows "is_wave (fst (anim_update rnd p body s)) \<and>
    wave_hit (fst (anim_update rnd p body s)) = (wave_hit body \<or> (6 / 10 < p \<and> p < 8 / 10)) \<and>
    scn_shakes (snd (anim_update rnd p body s)) =
      scn_shakes s @ (if 6 / 10 < p \<and> p < 8 / 10 \<and> \<not> wave_hit body then [1] else [])"
  using assms by (cases body) (auto simp: is_wave_def Let_def divide_simps)

lemma tick_wave:
  assumes "is_wave body"
  obtains body' s' where
    "tick_anims rnd dms [wave_anim el body] s = (if 1100 \<le> el + dms then [] else [wave_anim (el + dms) body'], s')"
    "is_wave body'" "wave_hit body' = (wave_hit body \<or> (660 < el + dms \<and> el + dms < 880))"
    "scn_shakes s' = scn_shakes s @ (if 660 < el + dms \<and> el + dms < 880 \<and> \<not> wave_hit body then [1] else [])"
proof -
  let ?p = "min 1 ((el + dms) / 1100)"
  obtain body' s1 where u: "anim_update rnd ?p body s = (body', s1)" by (cases "anim_update rnd ?p body s")
  have p: "(6 / 10 < ?p \<and> ?p < 8 / 10) = (660 < el + dms \<and> el + dms < 880)" "(1 \<le> ?p) = (1100 \<le> el + dms)"
    by (auto simp: min_def divide_simps)
  show thesis
    by (rule that [of body' "if 1 \<le> ?p then anim_done body' s1 else s1"])
      (use wave_update [OF assms, of rnd ?p s] u p in \<open>auto simp: wave_anim_def Let_def\<close>)
qed

lemma wave_frames_empty: "wave_frames rnd ds ([], s) = ([], s)"
  by (induction ds) simp_all

lemma wave_frames_hit:
  assumes "\<forall>dms \<in> set ds. 0 < dms \<and> dms \<le> 100" "1100 \<le> el + sum_list ds" "is_wave body"
    "wave_hit body = (660 < el)" "el < 880 \<or> wave_hit body" "el < 1100"
  shows "scn_shakes (snd (wave_frames rnd ds ([wave_anim el body], s))) = scn_shakes s @ (if wave_hit body then [] else [1]) \<and>
    fst (wave_frames rnd ds ([wave_anim el body], s)) = []"
  using assms
proof (induction ds arbitrary: el body s)
  case (Cons dms ds)
  obtain body' s' where t:
    "tick_anims rnd dms [wave_anim el body] s = (if 1100 \<le> el + dms then [] else [wave_anim (el + dms) body'], s')"
    "is_wave body'" "wave_hit body' = (wave_hit body \<or> (660 < el + dms \<and> el + dms < 880))"
    "scn_shakes s' = scn_shakes s @ (if 660 < el + dms \<and> el + dms < 880 \<and> \<not> wave_hit body then [1] else [])"
    using tick_wave [OF Cons.prems(3)] by metis
  have d: "0 < dms" "dms \<le> 100" using Cons.prems(1) by simp_all
  have hit: "wave_hit body' = (660 < el + dms)" using t(3) Cons.prems(4) d by auto
  show ?case
  proof (cases "1100 \<le> el + dms")
    case True
    then have "wave_hit body" using Cons.prems(4) d by simp
    then show ?thesis using True t by (simp add: wave_frames_empty)
  next
    case False
    have "scn_shakes (snd (wave_frames rnd ds ([wave_anim (el + dms) body'], s'))) =
        scn_shakes s' @ (if wave_hit body' then [] else [1]) \<and>
        fst (wave_frames rnd ds ([wave_anim (el + dms) body'], s')) = []"
      by (rule Cons.IH) (use Cons.prems d t(2) hit False in auto)
    then show ?thesis using t hit Cons.prems(4) d False by auto
  qed
qed simp

text \<open>With frames of at most 100 ms (the cap of Pixi's ticker) every energy wave hits exactly once:
  the arena shakes once, and the animation then ends.\<close>

theorem energy_wave_hits_once:
  assumes "\<forall>dms \<in> set ds. 0 < dms \<and> dms \<le> 100" and "1100 \<le> sum_list ds"
    and "as = scn_anims (fx rnd c1 c2 FxEnergyWave sd (scene_init W H))"
  shows "scn_shakes (snd (wave_frames rnd ds (as, s))) = scn_shakes s @ [1] \<and>
     fst (wave_frames rnd ds (as, s)) = []"
proof -
  obtain body where "as = [wave_anim 0 body]" "is_wave body" "\<not> wave_hit body"
    using assms(3) by (auto simp: fx_def animate_def wave_anim_def is_wave_def scene_init_def layout_def Let_def)
  then show ?thesis using wave_frames_hit [of ds 0 body rnd s] assms(1,2) by simp
qed

lemma energy_wave_hits_once_witness:
  "scn_shakes (snd (wave_frames (\<lambda>_. 0) (replicate 11 100)
     (scn_anims (fx (\<lambda>_. 0) 1 2 FxEnergyWave FxPlayer (scene_init 800 400)), scene_init 800 400))) = [1]"
  using energy_wave_hits_once [OF _ _ refl, of "replicate 11 100" "\<lambda>_. 0" 1 2 FxPlayer 800 400 "scene_init 800 400"]
  by (simp add: sum_list_replicate scene_init_def layout_def)

subsection \<open>A stale effect\<close>

text \<open>The pages keep the last \<open>arenaEffect\<close> when a match ends; the overlay that is mounted for
  the next match takes it for a new one and plays the previous match's last effect before any turn.\<close>

theorem stale_effect_replayed:
  assumes "queue_ok w" and "sp = fireEffect k sd sp0"
  shows "ov_calls (overlay_run rnd [Unmount, Render c (fp_effect sp), InitDone (ov_closure w + 1) W H]
       (overlay_run rnd [Render (ov_colors w) (fp_effect sp)] w)) =
     ov_calls (overlay_run rnd [Render (ov_colors w) (fp_effect sp)] w) @ [(k, sd)]"
proof -
  let ?v = "render rnd (ov_colors w) (fp_effect sp) w"
  have v: "ov_closure ?v = ov_closure w"
    using assms by (simp add: queue_ok_def render_def Let_def fireEffect_def)
  show ?thesis using assms(2) v
    by (simp add: unmount_def cleanup_def render_def setup_effect_def init_done_def drain_pending_def trigger_def fireEffect_def Let_def)
qed

lemma stale_effect_replayed_witness:
  "ov_calls (overlay_run (\<lambda>_. 0) [Unmount, Render (1, 2) (fp_effect (fireEffect FxAttack FxEnemy fx_page_init)), InitDone 2 800 400]
     (overlay_run (\<lambda>_. 0) [Render (1, 2) (fp_effect (fireEffect FxAttack FxEnemy fx_page_init))]
       (overlay_run (\<lambda>_. 0) [Render (1, 2) None, InitDone 1 800 400] overlay_init))) =
   [(FxAttack, FxEnemy), (FxAttack, FxEnemy)]"
proof -
  define w where "w = overlay_run (\<lambda>_. 0) [Render (1, 2) None, InitDone 1 800 400] overlay_init"
  have w: "queue_ok w" "ov_closure w = 1" "ov_colors w = (1, 2)" "ov_calls w = []" "ov_nonce w = None"
      "ov_mounted w" "ov_scene w \<noteq> None"
    by (simp_all add: w_def queue_ok_def render_def overlay_init_def setup_effect_def init_done_def drain_pending_def Let_def)
  have "ov_calls (overlay_run (\<lambda>_. 0) [Render (1, 2) (fp_effect (fireEffect FxAttack FxEnemy fx_page_init))] w) =
      [(FxAttack, FxEnemy)]"
    using w by (auto simp: render_def trigger_def fireEffect_def Let_def)
  then show ?thesis
    using stale_effect_replayed [OF w(1) refl, of "\<lambda>_. 0" "(1, 2)" FxAttack FxEnemy fx_page_init 800 400] w(2,3)
    unfolding w_def [symmetric] by (simp add: numeral_2_eq_2 del: overlay_run_simps(2))
qed

end
