(* ===== verification/Mobile_Board.thy ===== *)
theory Mobile_Board
  imports Board Reveal Countdown Mobile_Use_Game
begin

text \<open>
  The phone's match components: the action cards, board, selection timer, ki meter, header,
  staged reveal and the AI's remarks (\<open>mobile/src/components/ActionCard.tsx\<close>, \<open>GameBoard.tsx\<close>,
  \<open>Countdown.tsx\<close>, \<open>KiMeter.tsx\<close>, \<open>MatchHUD.tsx\<close>, \<open>TurnReveal.tsx\<close>, \<open>AITrashTalk.tsx\<close>), with the
  colours of \<open>mobile/src/lib/theme.ts\<close> they use, and the screen's sound effect (\<open>mobile/app/game.tsx\<close>).
  They are compared with the web components of \<open>Board\<close>, \<open>Countdown\<close> and \<open>Reveal\<close>.
\<close>

subsection \<open>Theme\<close>

definition colors :: "string \<Rightarrow> string option" where
  "colors = map_of
     [(''background'', ''#111827''), (''surface'', ''#1F2937''), (''surfaceHover'', ''#374151''),
      (''border'', ''#4B5563''), (''textPrimary'', ''#FFFFFF''), (''textSecondary'', ''#9CA3AF''),
      (''textMuted'', ''#6B7280''), (''green'', ''#4ADE80''), (''red'', ''#F87171''),
      (''yellow'', ''#FACC15''), (''blue'', ''#60A5FA''), (''purple'', ''#C084FC''),
      (''orange'', ''#FB923C''), (''charge'', ''#EAB308''), (''block'', ''#3B82F6''),
      (''attack'', ''#EF4444''), (''energyWave'', ''#F97316''), (''teleport'', ''#A855F7''),
      (''btnPrimary'', ''#2563EB''), (''btnDanger'', ''#DC2626''), (''btnSuccess'', ''#16A34A'')]"

subsection \<open>Action cards\<close>

record m_action_config =
  mc_emoji :: string
  mc_label :: string
  mc_korean :: string
  mc_cost :: int
  mc_color :: "string option"
  mc_bgColor :: string

fun M_ACTION_CONFIG :: "action \<Rightarrow> m_action_config" where
  "M_ACTION_CONFIG Charge = \<lparr>mc_emoji = utf8 [226, 154, 161], mc_label = ''Charge'',
     mc_korean = utf8 [235, 170, 168, 236, 156, 188, 234, 184, 176], mc_cost = 0,
     mc_color = colors ''charge'', mc_bgColor = ''#422006''\<rparr>"
| "M_ACTION_CONFIG Block = \<lparr>mc_emoji = utf8 [240, 159, 155, 161, 239, 184, 143], mc_label = ''Block'',
     mc_korean = utf8 [235, 167, 137, 234, 184, 176], mc_cost = 0,
     mc_color = colors ''block'', mc_bgColor = ''#172554''\<rparr>"
| "M_ACTION_CONFIG Attack = \<lparr>mc_emoji = utf8 [240, 159, 145, 138], mc_label = ''Attack'',
     mc_korean = utf8 [237, 140, 140], mc_cost = 1,
     mc_color = colors ''attack'', mc_bgColor = ''#450A0A''\<rparr>"
| "M_ACTION_CONFIG EnergyWave = \<lparr>mc_emoji = utf8 [240, 159, 148, 165], mc_label = ''Burst'',
     mc_korean = utf8 [234, 184, 176, 237, 143, 173], mc_cost = 3,
     mc_color = colors ''energyWave'', mc_bgColor = ''#431407''\<rparr>"
| "M_ACTION_CONFIG Teleport = \<lparr>mc_emoji = utf8 [240, 159, 146, 168], mc_label = ''Teleport'',
     mc_korean = utf8 [236, 136, 156, 234, 176, 132, 236, 157, 180, 235, 143, 153], mc_cost = 1,
     mc_color = colors ''teleport'', mc_bgColor = ''#3B0764''\<rparr>"

definition M_canAfford :: "action \<Rightarrow> int \<Rightarrow> bool" where
  "M_canAfford a playerKi \<longleftrightarrow> playerKi \<ge> mc_cost (M_ACTION_CONFIG a)"

definition M_card_disabled :: "action \<Rightarrow> int \<Rightarrow> bool \<Rightarrow> bool" where
  "M_card_disabled a playerKi disabled \<longleftrightarrow> disabled \<or> \<not> M_canAfford a playerKi"

definition M_card_press :: "action \<Rightarrow> int \<Rightarrow> bool \<Rightarrow> action option" where
  "M_card_press a playerKi disabled = (if M_card_disabled a playerKi disabled then None else Some a)"

record m_card_view =
  mv_disabled :: bool
  mv_selected :: bool
  mv_badge :: "(string option \<times> string) option"

definition M_ActionCard :: "action \<Rightarrow> int \<Rightarrow> bool \<Rightarrow> bool \<Rightarrow> m_card_view" where
  "M_ActionCard a playerKi isSelected disabled =
     \<lparr>mv_disabled = M_card_disabled a playerKi disabled, mv_selected = isSelected,
      mv_badge = (if mc_cost (M_ACTION_CONFIG a) > 0
        then Some (if M_canAfford a playerKi then colors ''charge'' else colors ''textMuted'',
                   show_int (mc_cost (M_ACTION_CONFIG a))) else None)\<rparr>"

text \<open>A bundled icon, until it has failed to load.\<close>

definition M_card_icon :: "nat option \<Rightarrow> bool \<Rightarrow> action \<Rightarrow> nat + string" where
  "M_card_icon iconAsset imageBroken a = (case iconAsset of
      Some src \<Rightarrow> if \<not> imageBroken then Inl src else Inr (mc_emoji (M_ACTION_CONFIG a))
    | None \<Rightarrow> Inr (mc_emoji (M_ACTION_CONFIG a)))"

subsection \<open>The board\<close>

definition M_ACTIONS :: "action list" where
  "M_ACTIONS = [Charge, Block, Attack, EnergyWave, Teleport]"

definition M_handleSelect :: "action option \<Rightarrow> action \<Rightarrow> action option \<times> action option" where
  "M_handleSelect selected a = (if selected = Some a then (None, Some a) else (Some a, None))"

definition M_handleConfirm :: "action option \<Rightarrow> action option \<times> action option" where
  "M_handleConfirm selected = (case selected of Some a \<Rightarrow> (None, Some a) | None \<Rightarrow> (selected, None))"

definition M_handleTimeout :: "action option \<times> action option" where
  "M_handleTimeout = (None, Some Charge)"

definition M_confirm_label :: "action \<Rightarrow> string" where
  "M_confirm_label a = ''Confirm '' @ replace_first CHR ''_'' CHR '' '' (action_str a) @ '' '' @ utf8 [226, 156, 147]"

text \<open>The confirm button exists only for a selection on an enabled board, the timer only on an enabled one.\<close>

fun M_board_step :: "int \<Rightarrow> bool \<Rightarrow> action option \<Rightarrow> board_event \<Rightarrow> action option \<times> action option" where
  "M_board_step ki disabled sel (CardClick a) =
     (case M_card_press a ki disabled of None \<Rightarrow> (sel, None) | Some x \<Rightarrow> M_handleSelect sel x)"
| "M_board_step ki disabled sel ConfirmClick =
     (if sel \<noteq> None \<and> \<not> disabled then M_handleConfirm sel else (sel, None))"
| "M_board_step ki disabled sel TimerExpired = (if \<not> disabled then M_handleTimeout else (sel, None))"

fun M_board_submits :: "int \<Rightarrow> bool \<Rightarrow> action option \<Rightarrow> board_event list \<Rightarrow> action list" where
  "M_board_submits ki disabled sel [] = []"
| "M_board_submits ki disabled sel (e # es) =
     (let (sel', out) = M_board_step ki disabled sel e
      in (case out of None \<Rightarrow> [] | Some a \<Rightarrow> [a]) @ M_board_submits ki disabled sel' es)"

lemma M_card_cost: "mc_cost (M_ACTION_CONFIG a) = ac_cost (ACTION_CONFIG a)"
  by (cases a) simp_all

lemma M_card_press_eq: "M_card_press a ki disabled = card_click a ki disabled"
  by (simp add: M_card_press_def card_click_def M_card_disabled_def card_disabled_def M_canAfford_def
      canAfford_def M_card_cost)

lemma M_board_step_eq: "M_board_step ki disabled sel e = board_step ki disabled sel e"
  by (cases e)
    (auto simp: M_card_press_eq card_click_def card_disabled_def M_handleSelect_def handleSelect_def
      M_handleConfirm_def handleConfirm_def M_handleTimeout_def handleTimeout_def split: option.split)

text \<open>
  The phone's board is the web's and agrees with the engine: the same cards are enabled, exactly
  those whose action the engine accepts, and any sequence of taps and timeouts submits the same
  actions, each one the engine accepts.
\<close>

theorem phone_board_is_web_board:
  assumes "0 \<le> ki"
  shows "M_ACTIONS = ACTIONS \<and>
    mv_disabled (M_ActionCard a ki isSel False) = (\<not> validate_action a ki) \<and>
    M_board_submits ki disabled sel es = board_submits ki disabled sel es \<and>
    list_all (\<lambda>a. validate_action a ki) (M_board_submits ki disabled None es)"
proof -
  have eq: "M_board_submits ki disabled sel es = board_submits ki disabled sel es" for sel
    by (induction es arbitrary: sel) (simp_all add: M_board_step_eq split: prod.split option.split)
  then show ?thesis
    using board_submits_affordable [of ki None _ disabled es] assms
    by (auto simp: M_ACTIONS_def ACTIONS_def M_ActionCard_def M_card_disabled_def M_canAfford_def M_card_cost
        card_cost validate_action_def list_all_iff selection_ok_def)
qed

lemma phone_board_is_web_board_witness:
  "M_board_submits 1 False None [CardClick EnergyWave, CardClick Attack, ConfirmClick, TimerExpired] =
   board_submits 1 False None [CardClick EnergyWave, CardClick Attack, ConfirmClick, TimerExpired]"
  using phone_board_is_web_board [of 1 _ False False None] by (simp del: M_board_submits.simps board_submits.simps)

subsection \<open>Ki meter, header and remarks\<close>

definition M_KiMeter :: "int \<Rightarrow> bool \<Rightarrow> real \<times> string option \<times> string" where
  "M_KiMeter ki isPlayer = (real_of_int ki / 10, if isPlayer then colors ''green'' else colors ''red'',
     show_int ki @ '' / '' @ show_int 10)"

fun OUTCOME_SHORT :: "turn_outcome \<Rightarrow> string \<times> string option" where
  "OUTCOME_SHORT P1WinsRound = (''HIT'', colors ''green'')"
| "OUTCOME_SHORT P2WinsRound = (''HIT'', colors ''red'')"
| "OUTCOME_SHORT Clash = (''CLASH'', colors ''yellow'')"
| "OUTCOME_SHORT Blocked = (''BLK'', colors ''blue'')"
| "OUTCOME_SHORT Dodged = (''DGE'', colors ''purple'')"
| "OUTCOME_SHORT Neutral = (utf8 [226, 128, 148], colors ''textMuted'')"

definition history_item :: "turn_result \<Rightarrow> string \<times> string \<times> (string \<times> string option)" where
  "history_item turn = (''T'' @ show_int (tr_turn_number turn),
     take 3 (action_str (tr_p1_action turn)) @ '' vs '' @ take 3 (action_str (tr_p2_action turn)),
     OUTCOME_SHORT (tr_outcome turn))"

definition last5 :: "'a list \<Rightarrow> 'a list" where
  "last5 xs = rev (drop (length xs - 5) xs)"

record m_hud_view =
  mh_playerLabel :: string
  mh_aiLabel :: string
  mh_playerDots :: "bool list"
  mh_aiDots :: "bool list"
  mh_turn :: string
  mh_meters :: "((real \<times> string option \<times> string) \<times> (real \<times> string option \<times> string)) option"
  mh_thinking :: bool
  mh_history :: "(string \<times> string \<times> (string \<times> string option)) list"

definition M_MatchHUD :: "game_state \<Rightarrow> string \<Rightarrow> bool \<Rightarrow> character option \<Rightarrow> character option \<Rightarrow> m_hud_view" where
  "M_MatchHUD gs playerName showAIThinking playerCharacter aiCharacter =
     (let rnd = current_round gs
      in \<lparr>mh_playerLabel = (case playerCharacter of Some c \<Rightarrow> ch_name c | None \<Rightarrow> playerName),
          mh_aiLabel = (case aiCharacter of Some c \<Rightarrow> ch_name c | None \<Rightarrow> ''AI''),
          mh_playerDots = map (\<lambda>i. i < gs_rounds_won_p1 gs) [0, 1],
          mh_aiDots = map (\<lambda>i. i < gs_rounds_won_p2 gs) [0, 1],
          mh_turn = ''Turn '' @ show_int (nullish (map_option rs_turn_number rnd) 0) @ '' / 20'',
          mh_meters = map_option (\<lambda>r. (M_KiMeter (rs_p1_ki r) True, M_KiMeter (rs_p2_ki r) False)) rnd,
          mh_thinking = (rnd \<noteq> None \<and> showAIThinking),
          mh_history = (case rnd of None \<Rightarrow> [] | Some r \<Rightarrow> map history_item (last5 (rs_turn_history r)))\<rparr>)"

definition trash_line :: "character \<Rightarrow> int \<Rightarrow> string" where
  "trash_line c turnNumber = ch_trashTalk c ! nat (turnNumber mod int (length (ch_trashTalk c)))"

lemma every_fighter_talks: "list_all (\<lambda>c. ch_trashTalk c \<noteq> []) M_CHARACTERS"
  by (simp add: M_CHARACTERS_def)

text \<open>
  In every state of a match the phone's header is in range and agrees with the web's: the same
  labels and score dots, meters filled between none and all and as wide as the web's, and a history
  of the latest turns of the round, at most five, the newest first.
\<close>

theorem phone_hud_in_range:
  assumes "match_inv gs" and "gs_status gs = InProgress"
  shows "\<exists>r m1 m2. let v = M_MatchHUD gs nm thinking pc ac; w = MatchHUD gs nm pc ac in
     current_round gs = Some r \<and> mh_meters v = Some (m1, m2) \<and>
     0 \<le> fst m1 \<and> fst m1 \<le> 1 \<and> 0 \<le> fst m2 \<and> fst m2 \<le> 1 \<and>
     100 * fst m1 = mv_width_percent (KiMeter (hv_playerKi w) True) \<and>
     100 * fst m2 = mv_width_percent (KiMeter (hv_aiKi w) False) \<and>
     mh_playerLabel v = hv_playerLabel w \<and> mh_aiLabel v = hv_aiLabel w \<and>
     mh_playerDots v = hv_playerDots w \<and> mh_aiDots v = hv_aiDots w \<and>
     mh_turn v = ''Turn '' @ show_int (hv_turnNumber w) @ '' / '' @ show_int TURN_LIMIT \<and>
     length (mh_history v) = min 5 (nat (hv_turnNumber w)) \<and>
     (\<forall>i < length (mh_history v). mh_history v ! i =
        history_item (rs_turn_history r ! (length (rs_turn_history r) - 1 - i)))"
proof -
  from assms obtain r where r: "current_round gs = Some r" "round_ok (length (round_results gs)) r"
    by (auto simp: match_inv_def)
  let ?h = "rs_turn_history r"
  have len: "length (last5 ?h) = min 5 (length ?h)" by (simp add: last5_def min_def)
  have nth: "last5 ?h ! i = ?h ! (length ?h - 1 - i)" if "i < min 5 (length ?h)" for i
    using that by (auto simp: last5_def rev_nth intro!: arg_cong [of _ _ "nth ?h"])
  have t: "int (length ?h) = rs_turn_number r" using r(2) by (simp add: round_ok_def)
  then have "nat (rs_turn_number r) = length ?h" by simp
  moreover have "show_int 20 = ''20''" by code_simp
  ultimately show ?thesis
    using r len nth
    by (simp add: M_MatchHUD_def MatchHUD_def Let_def M_KiMeter_def KiMeter_def KI_METER_CAP_def
        ScoreDots_def round_ok_def KI_CAP_def TURN_LIMIT_def)
qed

lemma phone_hud_in_range_witness:
  "\<exists>m1 m2. mh_meters (M_MatchHUD (start_match ''g'' ''pvp'') ''You'' True None None) = Some (m1, m2) \<and> fst m1 \<le> 1"
  using phone_hud_in_range [of "start_match ''g'' ''pvp''" "''You''" True None None] match_inv_start
  by (auto simp: Let_def start_match_def)

subsection \<open>The selection timer\<close>

text \<open>The effect shows the full time at once; its interval reads the clock every 100 ms.\<close>

definition M_cd_effect :: "int \<Rightarrow> bool \<Rightarrow> countdown \<Rightarrow> countdown" where
  "M_cd_effect seconds paused s =
     (if paused then s
      else (cd_call Beat (s\<lparr>remaining := of_int seconds, firedRef := False, lastBeatRef := seconds\<rparr>))
             \<lparr>cd_ticking := True\<rparr>)"

definition M_cd_tick :: "int \<Rightarrow> nat \<Rightarrow> countdown \<Rightarrow> countdown" where
  "M_cd_tick seconds elapsedMs s =
     (let left = max 0 (of_int seconds - real elapsedMs / 1000);
          s1 = s\<lparr>remaining := left\<rparr>;
          currentSecond = \<lceil>left\<rceil>;
          s2 = (if currentSecond < lastBeatRef s1 \<and> currentSecond > 0
                then cd_call Beat (s1\<lparr>lastBeatRef := currentSecond\<rparr>) else s1)
      in if left \<le> 0 \<and> \<not> firedRef s2
         then (cd_call Timeout (cd_call Beat (s2\<lparr>firedRef := True\<rparr>)))\<lparr>cd_ticking := False\<rparr>
         else s2)"

fun M_cd_ticks :: "int \<Rightarrow> nat list \<Rightarrow> countdown \<Rightarrow> countdown" where
  "M_cd_ticks n [] s = s"
| "M_cd_ticks n (ms # mss) s = M_cd_ticks n mss (if cd_ticking s then M_cd_tick n ms s else s)"

lemma M_cd_tick_eq: "cd_ticking s \<Longrightarrow> M_cd_tick n ms s = cd_tick n ms s"
  by (simp add: M_cd_tick_def cd_tick_def cd_call_def Let_def)

lemma M_cd_ticks_eq: "M_cd_ticks n mss s = run (cd_step n) s (map CdFrame mss)"
  by (induction mss arbitrary: s) (simp_all add: M_cd_tick_eq)

text \<open>
  The phone's timer is the web's on its own clock: whatever the times its interval reads, it is in
  the state the web's timer reaches at frames of these times, and at the interval's 100 ms the
  full three seconds are seen at the thirtieth tick and not before.
\<close>

theorem phone_timer_is_web_timer:
  assumes "0 < n"
  shows "M_cd_ticks n mss (M_cd_effect n False (cd_mount n)) = run (cd_step n) (cd_started n) (map CdFrame mss) \<and>
    timeouts (M_cd_ticks 3 (map (\<lambda>k. 100 * (k + 1)) [0..<j]) (M_cd_effect 3 False (cd_mount 3))) = of_bool (30 \<le> j)"
proof -
  have start: "M_cd_effect n False (cd_mount n) = cd_started n" for n
    by (simp add: M_cd_effect_def cd_started_def cd_effect_def cd_mount_def cd_call_def)
  have inv: "cd_inv 3 (run (cd_step 3) (cd_started 3) es)" for es by (rule cd_run_inv) simp
  let ?es = "map CdFrame (map (\<lambda>k. 100 * (k + 1)) [0..<j])"
  have "(\<exists>ms. CdFrame ms \<in> set ?es \<and> int ms \<ge> 3 * 1000) = (30 \<le> j)"
  proof
    assume "30 \<le> j"
    then have "CdFrame (100 * (29 + 1)) \<in> set ?es" by force
    then show "\<exists>ms. CdFrame ms \<in> set ?es \<and> int ms \<ge> 3 * 1000" by (intro exI [of _ "100 * (29 + 1)"]) simp
  qed auto
  moreover have "\<not> firedRef (cd_started 3)"
    by (simp add: cd_started_def cd_effect_def cd_mount_def cd_call_def)
  ultimately have "firedRef (run (cd_step 3) (cd_started 3) ?es) = (30 \<le> j)"
    using cd_run_fired [OF _ cd_inv_started, of 3 ?es] by simp
  with inv [of ?es] show ?thesis by (simp add: start M_cd_ticks_eq cd_inv_def)
qed

lemma phone_timer_is_web_timer_witness:
  "timeouts (M_cd_ticks 3 (map (\<lambda>k. 100 * (k + 1)) [0..<30]) (M_cd_effect 3 False (cd_mount 3))) = 1"
  using phone_timer_is_web_timer [of 1 "[]" 30] by simp

subsection \<open>The staged reveal\<close>

fun M_OUTCOME_DISPLAY :: "turn_outcome \<Rightarrow> string \<times> string option \<times> string" where
  "M_OUTCOME_DISPLAY P1WinsRound = (''HIT!'', colors ''green'', ''You win the round!'')"
| "M_OUTCOME_DISPLAY P2WinsRound = (''HIT!'', colors ''red'', ''AI wins the round!'')"
| "M_OUTCOME_DISPLAY Clash = (''CLASH!'', colors ''yellow'', ''Both lose ki'')"
| "M_OUTCOME_DISPLAY Blocked = (''BLOCKED!'', colors ''blue'', ''Attack was blocked'')"
| "M_OUTCOME_DISPLAY Dodged = (''DODGED!'', colors ''purple'', ''Attack was dodged'')"
| "M_OUTCOME_DISPLAY Neutral = (utf8 [226, 128, 148], colors ''textSecondary'', ''No effect'')"

fun getShakeIntensity :: "turn_outcome \<Rightarrow> real" where
  "getShakeIntensity P1WinsRound = 6"
| "getShakeIntensity P2WinsRound = 6"
| "getShakeIntensity Clash = 3"
| "getShakeIntensity Blocked = 2"
| "getShakeIntensity Dodged = 2"
| "getShakeIntensity Neutral = 0"

text \<open>The six 50 ms movements of the screen.\<close>

definition shake_sequence :: "turn_outcome \<Rightarrow> real list" where
  "shake_sequence out =
     (let intensity = getShakeIntensity out
      in if intensity > 0
         then [intensity, - intensity, intensity * (7 / 10), - intensity * (7 / 10), intensity * (3 / 10), 0]
         else [])"

text \<open>The effect sets the first stage at once, and hides a card that is no longer shown.\<close>

definition M_reveal_effect ::
  "bool \<Rightarrow> turn_result option \<Rightarrow> reveal_callback timers \<times> reveal \<Rightarrow> reveal_callback timers \<times> reveal" where
  "M_reveal_effect visible turnResult ts =
     (let t0 = clear_all (tv_refs (snd ts)) (fst ts); s = (snd ts)\<lparr>tv_refs := [], tv_stage := FaceDown\<rparr>
      in case turnResult of
           None \<Rightarrow> (t0, s)
         | Some tr \<Rightarrow>
             if \<not> visible then (t0, s)
             else (let (i1, t1) = set_timeout (SetStage Flipping) 300 t0;
                       (i2, t2) = set_timeout (SetStage Paused) 1100 t1;
                       (i3, t3) = set_timeout (RevealOutcome (tr_outcome tr)) 2100 t2
                   in (t3, s\<lparr>tv_refs := [i1, i2, i3]\<rparr>)))"

fun M_reveal_step :: "reveal_callback timers \<times> reveal \<Rightarrow> reveal_event \<Rightarrow> reveal_callback timers \<times> reveal" where
  "M_reveal_step ts (RvProps v tr) = M_reveal_effect v tr (reveal_cleanup ts)"
| "M_reveal_step ts (RvWait ms) = elapse reveal_exec ms ts"
| "M_reveal_step ts RvUnmount = reveal_cleanup ts"

definition M_TurnReveal ::
  "turn_result option \<Rightarrow> bool \<Rightarrow> reveal_stage \<Rightarrow> ((string \<times> string) \<times> (string \<times> string) \<times> (string \<times> string option \<times> string) option \<times> int \<times> int) option" where
  "M_TurnReveal turnResult visible stage =
     (case turnResult of None \<Rightarrow> None
      | Some tr \<Rightarrow> if \<not> visible then None
          else Some ((nullish (ACTION_EMOJI (action_str (tr_p1_action tr))) ''?'', formatActionLabel (action_str (tr_p1_action tr))),
                     (nullish (ACTION_EMOJI (action_str (tr_p2_action tr))) ''?'', formatActionLabel (action_str (tr_p2_action tr))),
                     if stage = OutcomeShown then Some (M_OUTCOME_DISPLAY (tr_outcome tr)) else None,
                     tr_p1_ki_after tr, tr_p2_ki_after tr))"

lemma M_reveal_effect_closed:
  "pending (fst ts) = [] \<Longrightarrow> M_reveal_effect True (Some tr) ts =
    (let n = next_id (fst ts); c = clock (fst ts) in
     (\<lparr>clock = c, next_id = n + 3,
       pending = [(n, c + 300, SetStage Flipping), (n + 1, c + 1100, SetStage Paused),
                  (n + 2, c + 2100, RevealOutcome (tr_outcome tr))]\<rparr>,
      (snd ts)\<lparr>tv_refs := [n, n + 1, n + 2], tv_stage := FaceDown\<rparr>))"
  using clear_all_none [of "fst ts" "tv_refs (snd ts)"]
  by (simp add: M_reveal_effect_def set_timeout_def Let_def)

lemma M_reveal_effect_idle:
  "\<not> visible \<or> tro = None \<Longrightarrow> M_reveal_effect visible tro ts =
     (clear_all (tv_refs (snd ts)) (fst ts), (snd ts)\<lparr>tv_refs := [], tv_stage := FaceDown\<rparr>)"
  by (auto simp: M_reveal_effect_def Let_def split: option.split)

lemma M_reveal_inv_step:
  assumes inv: "reveal_inv ts" shows "reveal_inv (M_reveal_step ts e)"
proof (cases e)
  case (RvProps v tro)
  show ?thesis
  proof (cases "v \<and> tro \<noteq> None")
    case True
    then show ?thesis
      using RvProps inv by (auto simp: reveal_cleanup_closed M_reveal_effect_closed Let_def reveal_inv_def)
  next
    case False
    then show ?thesis
      using RvProps inv M_reveal_effect_idle [of v tro]
      by (auto simp: reveal_cleanup_closed reveal_inv_def clear_all_pending)
  qed
next
  case (RvWait ms)
  with inv show ?thesis by (auto simp: reveal_inv_def elapse_def Let_def dest: set_dropWhileD)
next
  case RvUnmount
  with inv show ?thesis by (simp add: reveal_cleanup_closed) (simp add: reveal_inv_def)
qed

interpretation mrv: machine "(no_timers, reveal_init)" M_reveal_step reveal_inv
  by unfold_locales (rule reveal_inv_init, rule M_reveal_inv_step)

lemma M_reveal_waits: "run M_reveal_step ts (map RvWait ms) = fold (elapse reveal_exec) ms ts"
  by (induction ms arbitrary: ts) simp_all

text \<open>
  A turn shown on the phone goes through the stages of the web's reveal at the same times, whatever
  either component showed before, and both reveal its outcome once, when it has stayed for 2.1 s; the
  outcome's shake returns the screen to its place and never moves it further than its intensity.
\<close>

theorem phone_reveal_is_web_reveal:
  assumes "m = run M_reveal_step (no_timers, reveal_init) es" and "w = run reveal_step (no_timers, reveal_init) es'"
    and "shown = RvProps True (Some tr) # RvWait e # map RvWait ms"
  shows "tv_stage (snd (run M_reveal_step m shown)) = tv_stage (snd (run reveal_step w shown)) \<and>
    tv_revealed (snd (run M_reveal_step m shown)) = tv_revealed (snd m) @ (if 2100 \<le> e + sum_list ms then [tr_outcome tr] else []) \<and>
    tv_revealed (snd (run reveal_step w shown)) = tv_revealed (snd w) @ (if 2100 \<le> e + sum_list ms then [tr_outcome tr] else []) \<and>
    (shake_sequence out \<noteq> [] \<longrightarrow> last (shake_sequence out) = 0) \<and>
    (\<forall>x \<in> set (shake_sequence out). \<bar>x\<bar> \<le> getShakeIntensity out)"
proof -
  have inv: "reveal_inv m" "reveal_inv w" unfolding assms by (rule mrv.always, rule rv.always)
  have eq: "run M_reveal_step m shown = elapse reveal_exec (e + sum_list ms) (M_reveal_step m (RvProps True (Some tr)))"
      "run reveal_step w shown = elapse reveal_exec (e + sum_list ms) (reveal_step w (RvProps True (Some tr)))"
    unfolding assms(3) by (simp_all add: M_reveal_waits reveal_waits elapse_pieces)
  have "tv_stage (snd (run M_reveal_step m shown)) = stage_after (e + sum_list ms)"
    "tv_revealed (snd (run M_reveal_step m shown)) = tv_revealed (snd m) @ (if 2100 \<le> e + sum_list ms then [tr_outcome tr] else [])"
    using inv(1) by (simp_all add: eq reveal_cleanup_closed M_reveal_effect_closed Let_def elapse_def stage_after_def)
  moreover have "tv_stage (snd (run reveal_step w shown)) = stage_after (e + sum_list ms)"
    "tv_revealed (snd (run reveal_step w shown)) = tv_revealed (snd w) @ (if 2100 \<le> e + sum_list ms then [tr_outcome tr] else [])"
    using inv(2) by (simp_all add: eq reveal_cleanup_closed reveal_effect_closed Let_def elapse_def stage_after_def)
  ultimately show ?thesis by (cases out) (simp_all add: shake_sequence_def)
qed

lemma phone_reveal_is_web_reveal_witness:
  "tv_stage (snd (run M_reveal_step (no_timers, reveal_init) [RvProps True (Some sample_turn), RvWait 500])) =
   tv_stage (snd (run reveal_step (no_timers, reveal_init) [RvProps True (Some sample_turn), RvWait 500]))"
  using phone_reveal_is_web_reveal [OF refl refl refl, of "[]" sample_turn 500 "[]" "[]"]
  by (simp del: M_reveal_step.simps reveal_step.simps)

end
