(* ===== verification/Mobile_Game_Page.thy ===== *)
theory Mobile_Game_Page
  imports Play_Page Mobile_Board
begin

text \<open>
  The phone's match screen \<open>mobile/app/game.tsx\<close> around the hook: its sounds, the result it
  announces and how they compare with the web page's (\<open>Play_Page\<close>).
\<close>

subsection \<open>Sounds\<close>

fun M_OUTCOME_SOUND :: "turn_outcome \<Rightarrow> string" where
  "M_OUTCOME_SOUND P1WinsRound = ''hit''"
| "M_OUTCOME_SOUND P2WinsRound = ''hit''"
| "M_OUTCOME_SOUND Clash = ''clash''"
| "M_OUTCOME_SOUND Blocked = ''block''"
| "M_OUTCOME_SOUND Dodged = ''dodge''"
| "M_OUTCOME_SOUND Neutral = ''charge''"

text \<open>What one run of the effect plays, with the delay in milliseconds.\<close>

definition M_transition_sounds :: "m_phase \<Rightarrow> m_game \<Rightarrow> (nat \<times> string) list" where
  "M_transition_sounds prevPhase s =
     (if prevPhase = MLoading \<and> mg_phase s \<noteq> MLoading \<and> mg_phase s \<noteq> MPlaying \<and> mg_phase s \<noteq> MCharacterSelect
      then (0, ''reveal'') #
        (case mg_lastTurn s of None \<Rightarrow> [] | Some tr \<Rightarrow> [(300, M_OUTCOME_SOUND (tr_outcome tr))])
      else []) @
     (if mg_phase s = MRoundEnd then
        (case mg_lastRound s of None \<Rightarrow> []
         | Some rr \<Rightarrow> [(600, if rr_winner rr = WinP1 then ''round_win'' else ''round_lose'')])
      else []) @
     (if mg_phase s = MMatchEnd then
        (case mg_matchResult s of None \<Rightarrow> []
         | Some mr \<Rightarrow> [(600, if mr_winner mr = WinP1 then ''round_win'' else ''round_lose'')])
      else [])"

text \<open>The screen with its effect, which runs when the phase, a result or \<open>play\<close> (the mute flag) changes.\<close>

record m_game_page =
  mgp_game :: m_game
  mgp_prevPhase :: m_phase
  mgp_muted :: bool
  mgp_sounds :: "(nat \<times> string) list"

definition m_page_deps ::
  "m_game_page \<Rightarrow> m_phase \<times> turn_result option \<times> round_result option \<times> match_result option \<times> bool" where
  "m_page_deps p = (mg_phase (mgp_game p), mg_lastTurn (mgp_game p), mg_lastRound (mgp_game p),
     mg_matchResult (mgp_game p), mgp_muted p)"

definition m_run_effect :: "m_game_page \<Rightarrow> m_game_page" where
  "m_run_effect p = p\<lparr>mgp_prevPhase := mg_phase (mgp_game p),
     mgp_sounds := mgp_sounds p @ M_transition_sounds (mgp_prevPhase p) (mgp_game p)\<rparr>"

datatype m_game_page_event = MGame m_event | MSetMuted bool

fun m_game_page_update :: "m_game_page \<Rightarrow> m_game_page_event \<Rightarrow> m_game_page" where
  "m_game_page_update p (MGame e) = p\<lparr>mgp_game := m_game_step (mgp_game p) e\<rparr>"
| "m_game_page_update p (MSetMuted b) = p\<lparr>mgp_muted := b\<rparr>"

definition m_game_page_step :: "m_game_page \<Rightarrow> m_game_page_event \<Rightarrow> m_game_page" where
  "m_game_page_step p e =
     (let p' = m_game_page_update p e in if m_page_deps p' = m_page_deps p then p' else m_run_effect p')"

definition m_game_page_init :: m_game_page where
  "m_game_page_init = m_run_effect \<lparr>mgp_game = m_game_init, mgp_prevPhase = mg_phase m_game_init,
     mgp_muted = False, mgp_sounds = []\<rparr>"

subsection \<open>Results\<close>

definition M_round_text :: "round_winner \<Rightarrow> string" where
  "M_round_text w = (case w of WinP1 \<Rightarrow> ''YOU WIN!'' | WinP2 \<Rightarrow> ''AI WINS!'' | WinDraw \<Rightarrow> ''DRAW!'')"

definition M_match_text :: "round_winner \<Rightarrow> string" where
  "M_match_text w = (case w of WinP1 \<Rightarrow> ''VICTORY!'' | WinP2 \<Rightarrow> ''DEFEAT!'' | WinDraw \<Rightarrow> ''DRAW!'')"

definition M_result_color :: "round_winner \<Rightarrow> string option" where
  "M_result_color w = (case w of WinP1 \<Rightarrow> colors ''green'' | WinP2 \<Rightarrow> colors ''red'' | WinDraw \<Rightarrow> colors ''yellow'')"

text \<open>The portrait over the result: the winner's fighter, or the handshake.\<close>

definition M_result_portrait :: "match_result \<Rightarrow> m_game \<Rightarrow> string option" where
  "M_result_portrait mr s =
     (if mr_winner mr = WinP1 \<and> truthy (mg_playerCharacterId s) then mg_playerCharacterId s
      else if mr_winner mr = WinP2 \<and> truthy (mg_aiCharacterId s) then mg_aiCharacterId s
      else None)"

subsection \<open>Comparison with the web page\<close>

text \<open>The sounds among the web effect's commands.\<close>

fun cmd_sounds :: "page_cmd \<Rightarrow> (nat \<times> string) list" where
  "cmd_sounds (PlaySound s) = [(0, s)]"
| "cmd_sounds (PlaySoundLater d s) = [(d, s)]"
| "cmd_sounds c = []"

lemma M_outcome_sound: "M_OUTCOME_SOUND out = OUTCOME_SOUND out"
  by (cases out) simp_all

text \<open>
  At the same point of a match the phone plays the sounds of the web page at the same times, but
  for the jingle at the end of the match, which comes after 0.6 s instead of 1.5 s.
\<close>

theorem phone_sounds_are_web_sounds:
  assumes "same_match g m"
  shows "M_transition_sounds prevPhase m =
    map (\<lambda>(d, s). (if d = 1500 then 600 else d, s))
      (concat (map cmd_sounds (transition_effect (web_phase prevPhase) g)))"
  using assms
  by (cases "mg_phase m"; cases prevPhase; cases "mg_lastTurn m"; cases "mg_lastRound m"; cases "mg_matchResult m")
    (simp_all add: same_match_def M_transition_sounds_def transition_effect_def reveal_cmds_def winner_sound_def
      M_outcome_sound)

lemma phone_sounds_are_web_sounds_witness:
  "M_transition_sounds MLoading m_game_init =
     map (\<lambda>(d, s). (if d = 1500 then 600 else d, s))
       (concat (map cmd_sounds (transition_effect (web_phase MLoading) (game_init\<lparr>g_phase := web_phase (mg_phase m_game_init)\<rparr>))))"
  by (rule phone_sounds_are_web_sounds) (simp add: same_match_def game_init_def m_game_init_def)

text \<open>The mute button on the result replays the jingle: the effect runs again for the new \<open>play\<close>.\<close>

lemma mute_toggle_replays_jingle:
  assumes "mg_phase (mgp_game p) = MMatchEnd" "mg_matchResult (mgp_game p) = Some mr" "mgp_prevPhase p = MMatchEnd"
  shows "mgp_sounds (m_game_page_step p (MSetMuted (\<not> mgp_muted p))) =
    mgp_sounds p @ [(600, if mr_winner mr = WinP1 then ''round_win'' else ''round_lose'')]"
  using assms by (simp add: m_game_page_step_def m_page_deps_def m_run_effect_def M_transition_sounds_def Let_def)

end
