(* ===== verification/Mobile_Tutorial.thy ===== *)
theory Mobile_Tutorial
  imports Use_Tutorial Mobile_Board
begin

text \<open>
  The phone's tutorial: the hook \<open>mobile/src/hooks/useTutorial.ts\<close> and the screen
  \<open>mobile/app/tutorial.tsx\<close>, compared with the web's in \<open>Use_Tutorial\<close>.
\<close>

definition M_TUTORIAL_STEPS :: "tutorial_step list" where
  "M_TUTORIAL_STEPS =
     [\<lparr>ts_step = 1, ts_title = ''Step 1: Charge Your Ki'',
       ts_instruction = ''Tap CHARGE to build up ki energy. You need ki to attack!'',
       ts_expectedAction = Charge, ts_aiAction = Charge,
       ts_explanation = ''Both fighters charged! You gained +1 ki. Ki is your fuel '' @ utf8 [226, 128, 148] @
         '' you need it for Attack (1 ki) and Ki Burst (3 ki).'',
       ts_highlightActions = [Charge]\<rparr>,
      \<lparr>ts_step = 2, ts_title = ''Step 2: Attack!'',
       ts_instruction = ''Now you have ki! Tap ATTACK to strike. The AI is charging '' @ utf8 [226, 128, 148] @
         '' they'' @ [char_of (39 :: nat)] @ ''re vulnerable!'',
       ts_expectedAction = Attack, ts_aiAction = Charge,
       ts_explanation = ''Your Attack hit while they were Charging! That wins the round. Attack costs 1 ki and beats anyone who''
         @ [char_of (39 :: nat)] @ ''s Charging.'',
       ts_highlightActions = [Attack]\<rparr>,
      \<lparr>ts_step = 3, ts_title = ''Step 3: Block & Counter'',
       ts_instruction = ''The AI will Attack this time. Tap BLOCK to defend yourself!'',
       ts_expectedAction = Block, ts_aiAction = Attack,
       ts_explanation = ''You blocked the Attack! Block costs 0 ki and stops basic Attacks. But watch out ''
         @ utf8 [226, 128, 148] @ '' Ki Burst pierces through Block!'',
       ts_highlightActions = [Block]\<rparr>]"

definition M_currentStep :: "tutorial \<Rightarrow> tutorial_step option" where
  "M_currentStep s = (if tu_stepIndex s < length M_TUTORIAL_STEPS
     then Some (M_TUTORIAL_STEPS ! tu_stepIndex s) else None)"

definition M_startTutorial :: "tutorial \<Rightarrow> tutorial" where
  "M_startTutorial s = s\<lparr>tu_stepIndex := 0, tu_playerKi := 0, tu_aiKi := 0, tu_playerAction := None,
     tu_aiAction := None, tu_phase := TPlaying\<rparr>"

definition M_tut_submitAction :: "action \<Rightarrow> tutorial \<Rightarrow> tutorial" where
  "M_tut_submitAction a s =
     (case M_currentStep s of None \<Rightarrow> s
      | Some st \<Rightarrow>
          (let b = ts_aiAction st;
               p1 = (if a = Charge then tu_playerKi s + 1 else tu_playerKi s);
               p2 = (if a = Attack then p1 - 1 else p1);
               p3 = (if a = EnergyWave then p2 - 3 else p2);
               p4 = (if a = Teleport then p3 - 1 else p3);
               k1 = (if b = Charge then tu_aiKi s + 1 else tu_aiKi s);
               k2 = (if b = Attack then k1 - 1 else k1)
           in s\<lparr>tu_playerAction := Some a, tu_aiAction := Some b, tu_playerKi := max 0 p4,
                tu_aiKi := max 0 k2, tu_phase := TRevealing\<rparr>))"

definition M_tut_continueFromReveal :: "tutorial \<Rightarrow> tutorial" where
  "M_tut_continueFromReveal s = s\<lparr>tu_phase := TExplanation\<rparr>"

definition M_continueFromExplanation :: "tutorial \<Rightarrow> tutorial" where
  "M_continueFromExplanation s =
     (let nextIndex = tu_stepIndex s + 1
      in if nextIndex \<ge> length M_TUTORIAL_STEPS then s\<lparr>tu_phase := TComplete\<rparr>
         else s\<lparr>tu_stepIndex := nextIndex, tu_playerAction := None, tu_aiAction := None,
                tu_phase := TPlaying\<rparr>)"

definition M_tut_restart :: "tutorial \<Rightarrow> tutorial" where
  "M_tut_restart s = s\<lparr>tu_phase := TIntro, tu_stepIndex := 0, tu_playerKi := 0, tu_aiKi := 0,
     tu_playerAction := None, tu_aiAction := None\<rparr>"

fun M_tutorial_do :: "tutorial \<Rightarrow> tutorial_event \<Rightarrow> tutorial" where
  "M_tutorial_do s TuStart = M_startTutorial s"
| "M_tutorial_do s (TuSubmit a) = M_tut_submitAction a s"
| "M_tutorial_do s TuReveal = M_tut_continueFromReveal s"
| "M_tutorial_do s TuExplained = M_continueFromExplanation s"
| "M_tutorial_do s TuRestart = M_tut_restart s"

subsection \<open>The screen\<close>

datatype m_tut_section =
    TutIntro
  | TutPlaying "string list" tutorial_step "(action \<times> bool \<times> bool) list"
  | TutRevealing action action
  | TutExplanation string string
  | TutComplete

text \<open>A card of a lesson: dimmed unless highlighted, and whether a press does anything.\<close>

definition M_lesson_card :: "tutorial_step \<Rightarrow> int \<Rightarrow> action \<Rightarrow> action \<times> bool \<times> bool" where
  "M_lesson_card st ki a =
     (let dimmed = a \<notin> set (ts_highlightActions st) in (a, dimmed, \<not> M_card_disabled a ki dimmed))"

definition M_progress_dots :: "nat \<Rightarrow> string list" where
  "M_progress_dots stepIndex = map (\<lambda>i. the (if i < stepIndex then colors ''green''
     else if i = stepIndex then colors ''blue'' else colors ''surfaceHover'')) [0, 1, 2]"

definition m_tut_sections :: "tutorial \<Rightarrow> m_tut_section list" where
  "m_tut_sections s =
     (if tu_phase s = TIntro then [TutIntro] else []) @
     (case M_currentStep s of None \<Rightarrow> []
      | Some st \<Rightarrow> if tu_phase s = TPlaying
          then [TutPlaying (M_progress_dots (tu_stepIndex s)) st (map (M_lesson_card st (tu_playerKi s)) M_ACTIONS)] else []) @
     (case (M_currentStep s, tu_playerAction s, tu_aiAction s) of
        (Some st, Some a, Some b) \<Rightarrow> if tu_phase s = TRevealing then [TutRevealing a b] else []
      | _ \<Rightarrow> []) @
     (case M_currentStep s of None \<Rightarrow> []
      | Some st \<Rightarrow> if tu_phase s = TExplanation
          then [TutExplanation (ts_explanation st) (if tu_stepIndex s < 2 then ''Next Lesson '' @ utf8 [226, 134, 146]
                 else ''Finish Tutorial '' @ utf8 [226, 134, 146])] else []) @
     (if tu_phase s = TComplete then [TutComplete] else [])"

text \<open>The control of an event is on the screen and works.\<close>

fun M_tutorial_enabled :: "tutorial \<Rightarrow> tutorial_event \<Rightarrow> bool" where
  "M_tutorial_enabled s TuStart = (TutIntro \<in> set (m_tut_sections s))"
| "M_tutorial_enabled s (TuSubmit a) =
     list_ex (\<lambda>x. case x of TutPlaying d st cs \<Rightarrow> list_ex (\<lambda>(b, dim, ok). b = a \<and> ok) cs | _ \<Rightarrow> False) (m_tut_sections s)"
| "M_tutorial_enabled s TuReveal = list_ex (\<lambda>x. case x of TutRevealing a b \<Rightarrow> True | _ \<Rightarrow> False) (m_tut_sections s)"
| "M_tutorial_enabled s TuExplained = list_ex (\<lambda>x. case x of TutExplanation a b \<Rightarrow> True | _ \<Rightarrow> False) (m_tut_sections s)"
| "M_tutorial_enabled s TuRestart = (TutComplete \<in> set (m_tut_sections s))"

subsection \<open>The web's tutorial\<close>

lemma M_STEPS: "M_TUTORIAL_STEPS = TUTORIAL_STEPS"
  by (simp add: M_TUTORIAL_STEPS_def TUTORIAL_STEPS_def)

lemma M_currentStep_eq: "M_currentStep = currentStep"
  by (rule ext) (simp add: M_currentStep_def currentStep_def M_STEPS)

lemma M_tutorial_do_eq: "M_tutorial_do s e = tutorial_do s e"
  by (cases e)
    (simp_all add: M_startTutorial_def startTutorial_def M_tut_submitAction_def tut_submitAction_def
      M_tut_continueFromReveal_def tut_continueFromReveal_def M_continueFromExplanation_def
      continueFromExplanation_def M_tut_restart_def tut_restart_def M_currentStep_eq M_STEPS
      tutorial_player_ki_def tutorial_ai_ki_def Let_def split: option.split)

lemma lesson_cards:
  "list_ex (\<lambda>(b, dim, ok). b = a \<and> ok) (map (M_lesson_card st ki) M_ACTIONS) = (\<not> tutorial_card_disabled st a ki)"
proof -
  have "a \<in> set M_ACTIONS" by (cases a) (simp_all add: M_ACTIONS_def)
  then have "list_ex (\<lambda>(b, dim, ok). b = a \<and> ok) (map (M_lesson_card st ki) M_ACTIONS) =
      (\<not> M_card_disabled a ki (a \<notin> set (ts_highlightActions st)))"
    by (auto simp: list_ex_iff M_lesson_card_def Let_def)
  then show ?thesis
    by (simp add: tutorial_card_disabled_def M_card_disabled_def card_disabled_def M_canAfford_def canAfford_def M_card_cost)
qed

lemma M_tutorial_enabled_eq: "M_tutorial_enabled s e = tutorial_enabled s e"
  using lesson_cards
  by (cases e; cases "tu_phase s")
    (auto simp: m_tut_sections_def M_currentStep_eq split: option.split)

lemma one_tut_section: "tutorial_inv s \<Longrightarrow> length (m_tut_sections s) = 1"
  by (cases "tu_phase s")
    (auto simp: m_tut_sections_def M_currentStep_eq currentStep_def tutorial_inv_def split: option.split)

text \<open>
  The phone teaches the web's tutorial: any sequence of taps its screen allows is one the web page
  allows and leads to the same state, the same controls work there, and the screen shows exactly
  one section.
\<close>

theorem phone_tutorial_is_web_tutorial:
  assumes "legal M_tutorial_enabled M_tutorial_do tutorial_init es"
    and "s = run M_tutorial_do tutorial_init es"
  shows "legal tutorial_enabled tutorial_do tutorial_init es \<and> s = run tutorial_do tutorial_init es \<and>
    (\<forall>e. M_tutorial_enabled s e = tutorial_enabled s e) \<and> length (m_tut_sections s) = 1"
proof -
  have f: "M_tutorial_do = tutorial_do" "M_tutorial_enabled = tutorial_enabled"
    by (intro ext, rule M_tutorial_do_eq) (intro ext, rule M_tutorial_enabled_eq)
  have l: "legal tutorial_enabled tutorial_do tutorial_init es" using assms(1) by (simp only: f)
  have s: "s = run tutorial_do tutorial_init es" using assms(2) by (simp only: f)
  have "tutorial_inv s" unfolding s by (rule tm.inv_run [OF l])
  with l s show ?thesis by (simp add: f one_tut_section)
qed

lemma phone_tutorial_is_web_tutorial_witness:
  "run M_tutorial_do tutorial_init [TuStart] = run tutorial_do tutorial_init [TuStart]"
proof -
  have "legal M_tutorial_enabled M_tutorial_do tutorial_init [TuStart]"
    by (simp add: m_tut_sections_def tutorial_init_def)
  from phone_tutorial_is_web_tutorial [OF this refl] show ?thesis by blast
qed

end
