(* ===== verification/Records.thy ===== *)
theory Records
  imports Api_Types Json Mobile_Board
begin

text \<open>
  The record pages of both clients: the match history (\<open>web/src/app/history/page.tsx\<close>,
  \<open>mobile/app/history.tsx\<close>) and the leaderboard (\<open>web/src/app/ranked/page.tsx\<close>,
  \<open>mobile/app/ranked.tsx\<close>), with what the server sends for a match
  (\<open>app/services/player_service.py\<close>).  A served match is the JSON object that arrives.
\<close>

subsection \<open>When a match was\<close>

text \<open>\<open>getTimeAgo\<close>, from the milliseconds passed and the locale's form of the date.\<close>

definition getTimeAgo :: "int \<Rightarrow> string \<Rightarrow> string" where
  "getTimeAgo diffMs localeDate =
     (let diffMins = diffMs div 60000 in
      if diffMins < 1 then ''just now''
      else if diffMins < 60 then show_int diffMins @ ''m ago''
      else let diffHours = diffMins div 60 in
        if diffHours < 24 then show_int diffHours @ ''h ago''
        else let diffDays = diffHours div 24 in
          if diffDays < 7 then show_int diffDays @ ''d ago'' else localeDate)"

definition M_getTimeAgo :: "int \<Rightarrow> string \<Rightarrow> string" where
  "M_getTimeAgo diffMs localeDate =
     (let diffMins = diffMs div 60000 in
      if diffMins < 1 then ''just now''
      else if diffMins < 60 then show_int diffMins @ ''m ago''
      else let diffHours = diffMins div 60 in
        if diffHours < 24 then show_int diffHours @ ''h ago''
        else let diffDays = diffHours div 24 in
          if diffDays < 7 then show_int diffDays @ ''d ago'' else localeDate)"

lemma div_window: "0 < (k :: int) \<Longrightarrow> d div k * k \<le> d \<and> d < (d div k + 1) * k"
proof -
  assume "0 < k"
  then have "0 \<le> d mod k" "d mod k < k" by simp_all
  then show ?thesis by (simp add: distrib_right minus_mod_eq_div_mult [symmetric])
qed

text \<open>
  A match is dated in whole minutes, hours or days that have really passed: under a minute ago (or in
  the future) it was just now, under an hour a number of minutes from 1 to 59, under a day of hours
  from 1 to 23, under a week of days from 1 to 6, and the date from then on; on both clients.
\<close>

theorem time_ago_in_range:
  "M_getTimeAgo d s = getTimeAgo d s \<and>
   ((d < 60000 \<and> getTimeAgo d s = ''just now'') \<or>
    (\<exists>n. 1 \<le> n \<and> n < 60 \<and> n * 60000 \<le> d \<and> d < (n + 1) * 60000 \<and> getTimeAgo d s = show_int n @ ''m ago'') \<or>
    (\<exists>n. 1 \<le> n \<and> n < 24 \<and> n * 3600000 \<le> d \<and> d < (n + 1) * 3600000 \<and> getTimeAgo d s = show_int n @ ''h ago'') \<or>
    (\<exists>n. 1 \<le> n \<and> n < 7 \<and> n * 86400000 \<le> d \<and> d < (n + 1) * 86400000 \<and> getTimeAgo d s = show_int n @ ''d ago'') \<or>
    (7 * 86400000 \<le> d \<and> getTimeAgo d s = s))"
proof -
  define m h y where "m = d div 60000" and "h = d div 60000 div 60" and "y = d div 60000 div 60 div 24"
  have m: "m * 60000 \<le> d" "d < (m + 1) * 60000" using div_window [of 60000 d] by (simp_all add: m_def)
  have h: "h * 60 \<le> m" "m < (h + 1) * 60" using div_window [of 60 m] by (simp_all add: h_def m_def)
  have y: "y * 24 \<le> h" "h < (y + 1) * 24" using div_window [of 24 h] by (simp_all add: y_def h_def)
  have val: "getTimeAgo d s = (if m < 1 then ''just now'' else if m < 60 then show_int m @ ''m ago''
      else if h < 24 then show_int h @ ''h ago'' else if y < 7 then show_int y @ ''d ago'' else s)"
    by (simp add: getTimeAgo_def m_def h_def y_def Let_def)
  consider "m < 1" | "1 \<le> m" "m < 60" | "60 \<le> m" "h < 24" | "60 \<le> m" "24 \<le> h" "y < 7" | "60 \<le> m" "24 \<le> h" "7 \<le> y"
    by linarith
  then have "(d < 60000 \<and> getTimeAgo d s = ''just now'') \<or>
    (\<exists>n. 1 \<le> n \<and> n < 60 \<and> n * 60000 \<le> d \<and> d < (n + 1) * 60000 \<and> getTimeAgo d s = show_int n @ ''m ago'') \<or>
    (\<exists>n. 1 \<le> n \<and> n < 24 \<and> n * 3600000 \<le> d \<and> d < (n + 1) * 3600000 \<and> getTimeAgo d s = show_int n @ ''h ago'') \<or>
    (\<exists>n. 1 \<le> n \<and> n < 7 \<and> n * 86400000 \<le> d \<and> d < (n + 1) * 86400000 \<and> getTimeAgo d s = show_int n @ ''d ago'') \<or>
    (7 * 86400000 \<le> d \<and> getTimeAgo d s = s)"
  proof cases
    case 1 with m show ?thesis by (simp add: val)
  next
    case 2 with m show ?thesis by (intro disjI2 disjI1 exI [of _ m]) (simp add: val)
  next
    case 3 with m h show ?thesis by (intro disjI2 disjI1 exI [of _ h]) (simp add: val)
  next
    case 4 with m h y show ?thesis by (intro disjI2 disjI1 exI [of _ y]) (simp add: val)
  next
    case 5 with m h y show ?thesis by (intro disjI2) (simp add: val)
  qed
  then show ?thesis by (simp add: M_getTimeAgo_def getTimeAgo_def)
qed

subsection \<open>A match's card\<close>

record match_card =
  mk_result :: string
  mk_color :: string
  mk_type :: string
  mk_score :: string
  mk_opponent :: "string option"
  mk_when :: string

definition match_type_text :: "string \<Rightarrow> string" where
  "match_type_text t = (if take 3 t = ''ai_'' then ''vs AI ('' @ drop 3 t @ '')'' else ''vs Player'')"

definition score_text :: "json \<Rightarrow> string" where
  "score_text j = js_str_opt (jopt (Some j) ''rounds_won_p1'') @ '' '' @ utf8 [226, 128, 148] @ '' '' @
     js_str_opt (jopt (Some j) ''rounds_won_p2'') @ '' '' @ utf8 [226, 128, 162] @ '' '' @
     js_str_opt (jopt (Some j) ''total_turns'') @ '' turns''"

definition result_text :: "json option \<Rightarrow> string" where
  "result_text winner = (if winner = Some (JStr ''p1'') then ''WIN'' else if winner = Some (JStr ''p2'') then ''LOSS''
     else if winner = Some (JStr ''draw'') then ''DRAW'' else ''IN PROGRESS'')"

text \<open>\<open>t\<close> is the match's type, a string in every answer; \<open>opponent_name\<close> is shown when truthy.\<close>

definition opponent_line :: "json \<Rightarrow> string option" where
  "opponent_line j = (let o1 = jopt (Some j) ''opponent_name''
     in if jtruthy o1 then Some (''vs '' @ js_str_opt o1) else None)"

definition MatchCard :: "json \<Rightarrow> string \<Rightarrow> int \<Rightarrow> string \<Rightarrow> match_card" where
  "MatchCard j t diffMs localeDate =
     (let winner = jopt (Some j) ''winner''
      in \<lparr>mk_result = result_text winner,
          mk_color = (if winner = Some (JStr ''p1'') then ''text-green-400''
            else if winner = Some (JStr ''p2'') then ''text-red-400''
            else if winner = Some (JStr ''draw'') then ''text-yellow-400'' else ''text-gray-400''),
          mk_type = match_type_text t, mk_score = score_text j, mk_opponent = opponent_line j,
          mk_when = getTimeAgo diffMs localeDate\<rparr>)"

definition M_MatchCard :: "json \<Rightarrow> string \<Rightarrow> int \<Rightarrow> string \<Rightarrow> match_card" where
  "M_MatchCard j t diffMs localeDate =
     (let winner = jopt (Some j) ''winner''
      in \<lparr>mk_result = result_text winner,
          mk_color = the (if winner = Some (JStr ''p1'') then colors ''green''
            else if winner = Some (JStr ''p2'') then colors ''red'' else colors ''yellow''),
          mk_type = match_type_text t, mk_score = score_text j, mk_opponent = opponent_line j,
          mk_when = M_getTimeAgo diffMs localeDate\<rparr>)"

subsection \<open>What the server sends\<close>

record match_row =
  mw_id :: string
  mw_player1_id :: string
  mw_match_type :: string
  mw_status :: string
  mw_winner_id :: "string option"
  mw_rounds_won_p1 :: int
  mw_rounds_won_p2 :: int
  mw_created_at :: string
  mw_completed_at :: "string option"

definition json_opt_str :: "string option \<Rightarrow> json" where
  "json_opt_str s = (case s of None \<Rightarrow> JNull | Some x \<Rightarrow> JStr x)"

definition row_result :: "string \<Rightarrow> match_row \<Rightarrow> string" where
  "row_result player_id row =
     (if mw_status row \<noteq> ''completed'' then ''in_progress''
      else if mw_winner_id row = Some player_id then ''win''
      else if mw_winner_id row = None then ''draw'' else ''loss'')"

definition match_summary :: "string \<Rightarrow> match_row \<Rightarrow> json" where
  "match_summary player_id row = JObj
     [(''id'', JStr (mw_id row)), (''match_type'', JStr (mw_match_type row)), (''status'', JStr (mw_status row)),
      (''winner_id'', json_opt_str (mw_winner_id row)),
      (''rounds_won_p1'', JNum (mw_rounds_won_p1 row)), (''rounds_won_p2'', JNum (mw_rounds_won_p2 row)),
      (''created_at'', JStr (mw_created_at row)), (''completed_at'', json_opt_str (mw_completed_at row)),
      (''is_player1'', JBool (mw_player1_id row = player_id)), (''result'', JStr (row_result player_id row))]"

text \<open>The end of an AI match, as \<open>game_service.py\<close> writes it: only a won match gets a winner.\<close>

definition end_ai_match :: "string \<Rightarrow> round_winner \<Rightarrow> match_row \<Rightarrow> match_row" where
  "end_ai_match player_id w row =
     row\<lparr>mw_status := ''completed'', mw_winner_id := (if w = WinP1 then Some player_id else mw_winner_id row)\<rparr>"

text \<open>
  The history pages never show a result.  The server's summary says how the match ended under
  \<open>result\<close> and has neither the \<open>winner\<close> nor the \<open>total_turns\<close> nor the \<open>opponent_name\<close> the
  clients read, so every match, finished or not, is shown as in progress, with "undefined turns" and
  no opponent, on both clients.
\<close>

theorem history_never_shows_result:
  "jopt (Some (match_summary pid row)) ''result'' = Some (JStr (row_result pid row)) \<and>
   mk_result (MatchCard (match_summary pid row) (mw_match_type row) d s) = ''IN PROGRESS'' \<and>
   mk_result (M_MatchCard (match_summary pid row) (mw_match_type row) d s) = ''IN PROGRESS'' \<and>
   mk_score (MatchCard (match_summary pid row) (mw_match_type row) d s) =
     show_int (mw_rounds_won_p1 row) @ '' '' @ utf8 [226, 128, 148] @ '' '' @ show_int (mw_rounds_won_p2 row) @
     '' '' @ utf8 [226, 128, 162] @ '' undefined turns'' \<and>
   mk_opponent (MatchCard (match_summary pid row) (mw_match_type row) d s) = None \<and>
   mk_result (MatchCard (JObj [(''winner'', JStr ''p1'')]) (mw_match_type row) d s) = ''WIN''"
proof -
  have none: "jopt (Some (match_summary pid row)) ''winner'' = None" "jopt (Some (match_summary pid row)) ''total_turns'' = None"
      "jopt (Some (match_summary pid row)) ''opponent_name'' = None"
    by (simp_all add: match_summary_def)
  with none show ?thesis
    by (simp add: MatchCard_def M_MatchCard_def result_text_def score_text_def opponent_line_def Let_def)
      (simp add: match_summary_def)
qed

text \<open>A lost AI match is reported as a draw: no winner is stored for the AI.\<close>

lemma ai_loss_reported_as_draw:
  "mw_winner_id row = None \<Longrightarrow> row_result pid (end_ai_match pid WinP2 row) = ''draw''"
  by (simp add: row_result_def end_ai_match_def)

subsection \<open>Loading the history\<close>

record history_page =
  hp_matches :: "json list"
  hp_loading :: bool
  hp_error :: "string option"

definition history_init :: history_page where
  "history_init = \<lparr>hp_matches = [], hp_loading = True, hp_error = None\<rparr>"

text \<open>\<open>load\<close>: the answer of \<open>ensureAuth\<close> and then of \<open>getMatchHistory\<close>.\<close>

definition history_loaded :: "js_thrown + json list \<Rightarrow> history_page \<Rightarrow> history_page" where
  "history_loaded out s = (case out of
      Inr ms \<Rightarrow> s\<lparr>hp_matches := ms, hp_loading := False\<rparr>
    | Inl e \<Rightarrow> s\<lparr>hp_error := Some (message_or ''Failed to load history'' e), hp_loading := False\<rparr>)"

datatype history_section = HistLoading | HistError string | HistEmpty | HistList nat

definition history_sections :: "history_page \<Rightarrow> history_section list" where
  "history_sections s =
     (if hp_loading s then [HistLoading] else []) @
     (if truthy (hp_error s) then [HistError (the (hp_error s))] else []) @
     (if \<not> hp_loading s \<and> \<not> truthy (hp_error s) \<and> hp_matches s = [] then [HistEmpty] else []) @
     (if \<not> hp_loading s \<and> hp_matches s \<noteq> [] then [HistList (length (hp_matches s))] else [])"

text \<open>The page shows exactly one section before and after the answer.\<close>

lemma history_one_section:
  "length (history_sections history_init) = 1 \<and> length (history_sections (history_loaded out history_init)) = 1"
  by (cases out) (simp_all add: history_sections_def history_loaded_def history_init_def)

subsection \<open>The leaderboard\<close>

record ranked_page =
  rk_entries :: "leaderboard_entry list"
  rk_myRank :: "leaderboard_entry option"
  rk_loading :: bool
  rk_error :: "string option"

definition ranked_init :: ranked_page where
  "ranked_init = \<lparr>rk_entries = [], rk_myRank = None, rk_loading = True, rk_error = None\<rparr>"

definition ranked_loaded ::
  "js_thrown + leaderboard_entry list \<times> leaderboard_entry option \<Rightarrow> ranked_page \<Rightarrow> ranked_page" where
  "ranked_loaded out s = (case out of
      Inr (board, rank) \<Rightarrow> s\<lparr>rk_entries := board, rk_myRank := rank, rk_loading := False\<rparr>
    | Inl e \<Rightarrow> s\<lparr>rk_error := Some (message_or ''Failed to load leaderboard'' e), rk_loading := False\<rparr>)"

definition win_rate :: "int \<Rightarrow> int \<Rightarrow> string" where
  "win_rate wins losses =
     (if wins + losses > 0
      then show_int \<lfloor>of_int wins / of_int (wins + losses) * 100 + (1 / 2 :: real)\<rfloor> @ ''% WR''
      else utf8 [226, 128, 148])"

datatype ranked_section = RankCard string string string string string | NoRank | RankLoading | RankError string
  | RankEmpty | RankRow "string option" string string string string

definition rank_card :: "leaderboard_entry \<Rightarrow> ranked_section" where
  "rank_card r = RankCard (CHR ''#'' # show_int (le_rank r)) (show_int (le_elo_rating r))
     (show_int (le_ranked_wins r) @ ''W'') (show_int (le_ranked_losses r) @ ''L'')
     (win_rate (le_ranked_wins r) (le_ranked_losses r))"

definition rank_row :: "string option \<Rightarrow> leaderboard_entry \<Rightarrow> ranked_section" where
  "rank_row col e = RankRow col (show_int (le_rank e)) (le_display_name e) (show_int (le_elo_rating e))
     (show_int (le_ranked_wins e) @ ''/'' @ show_int (le_ranked_losses e))"

definition rank_color :: "nat \<Rightarrow> string" where
  "rank_color i = (if i = 0 then ''text-yellow-400'' else if i = 1 then ''text-gray-300''
     else if i = 2 then ''text-orange-400'' else ''text-gray-500'')"

definition M_rank_color :: "nat \<Rightarrow> string option" where
  "M_rank_color i = (if i = 0 then colors ''yellow'' else if i = 1 then colors ''textSecondary''
     else if i = 2 then Some ''#F97316'' else colors ''textMuted'')"

definition ranked_sections :: "ranked_page \<Rightarrow> ranked_section list" where
  "ranked_sections s =
     (case rk_myRank s of Some r \<Rightarrow> [rank_card r] | None \<Rightarrow> if \<not> rk_loading s then [NoRank] else []) @
     (if rk_loading s then [RankLoading] else []) @
     (if truthy (rk_error s) then [RankError (the (rk_error s))] else []) @
     (if \<not> rk_loading s \<and> \<not> truthy (rk_error s) \<and> rk_entries s = [] then [RankEmpty] else []) @
     (if \<not> rk_loading s \<and> rk_entries s \<noteq> []
      then map (\<lambda>(i, e). rank_row (Some (rank_color i)) e) (List.enumerate 0 (rk_entries s)) else [])"

definition M_ranked_sections :: "ranked_page \<Rightarrow> ranked_section list" where
  "M_ranked_sections s =
     (case rk_myRank s of Some r \<Rightarrow> [rank_card r] | None \<Rightarrow> if \<not> rk_loading s then [NoRank] else []) @
     (if rk_loading s then [RankLoading] else []) @
     (if truthy (rk_error s) then [RankError (the (rk_error s))] else []) @
     (if \<not> rk_loading s \<and> \<not> truthy (rk_error s) \<and> rk_entries s \<noteq> []
      then map (\<lambda>(i, e). rank_row (M_rank_color i) e) (List.enumerate 0 (rk_entries s)) else [])"

lemma win_rate_in_range:
  assumes "0 \<le> w" "0 \<le> l" "0 < w + l"
  shows "\<exists>n. 0 \<le> n \<and> n \<le> 100 \<and> win_rate w l = show_int n @ ''% WR''"
proof -
  let ?q = "of_int w / of_int (w + l) * 100 + (1 / 2 :: real)"
  have "0 \<le> of_int w / (of_int (w + l) :: real)" "of_int w / (of_int (w + l) :: real) \<le> 1"
    using assms by simp_all
  then have "0 \<le> \<lfloor>?q\<rfloor> \<and> \<lfloor>?q\<rfloor> \<le> 100" by linarith
  moreover have "win_rate w l = show_int \<lfloor>?q\<rfloor> @ ''% WR''" unfolding win_rate_def by (simp only: assms(3) if_True)
  ultimately show ?thesis by blast
qed

end
