(* ===== verification/Shop.thy ===== *)
theory Shop
  imports Url_Params Use_Game
begin

text \<open>
  The shop \<open>web/src/app/shop/page.tsx\<close>, split at its \<open>await\<close>s: what the purchase status endpoint
  answers, and each checkout's outcome, are events.
\<close>

datatype shop_await = ShopStatus | ShopCheckout string string

record shop =
  sh_adFree :: bool
  sh_loading :: bool
  sh_purchasing :: bool
  sh_error :: "string option"
  sh_search :: string
  sh_location :: "string option"
  sh_awaiting :: "shop_await list"
  sh_tracked :: "tracked list"

definition sh_track :: "string \<Rightarrow> (string \<times> json) list \<Rightarrow> shop \<Rightarrow> shop" where
  "sh_track ev ps s = s\<lparr>sh_tracked := sh_tracked s @ [(ev, ps)]\<rparr>"

text \<open>The three effects of mounting, in their order; \<open>search\<close> is the page's query string.\<close>

definition shop_state :: "string \<Rightarrow> shop" where
  "shop_state search = \<lparr>sh_adFree = False, sh_loading = True, sh_purchasing = False, sh_error = None,
     sh_search = search, sh_location = None, sh_awaiting = [], sh_tracked = []\<rparr>"

definition shop_load :: "shop \<Rightarrow> shop" where
  "shop_load s = s\<lparr>sh_awaiting := sh_awaiting s @ [ShopStatus]\<rparr>"

definition success_effect :: "shop \<Rightarrow> shop" where
  "success_effect s =
     (if params_get (parse_params (sh_search s)) ''success'' = Some ''true''
      then (sh_track ''founder_pass_checkout_success'' [] (s\<lparr>sh_adFree := True\<rparr>))\<lparr>sh_search := []\<rparr>
      else s)"

definition shop_mount :: "string \<Rightarrow> shop" where
  "shop_mount search = success_effect (shop_load (sh_track ''shop_view'' [] (shop_state search)))"

definition shop_loaded :: "js_thrown + bool \<Rightarrow> shop \<Rightarrow> shop" where
  "shop_loaded out s = (case out of Inr b \<Rightarrow> s\<lparr>sh_adFree := b, sh_loading := False\<rparr> | Inl e \<Rightarrow> s\<lparr>sh_loading := False\<rparr>)"

definition handlePurchase :: "string \<Rightarrow> shop \<Rightarrow> shop" where
  "handlePurchase origin s =
     (let s1 = sh_track ''founder_pass_checkout_started''
            [(''product'', JStr ''founder_pass''), (''checkout_provider'', JStr ''lemon_squeezy'')]
            (s\<lparr>sh_purchasing := True, sh_error := None\<rparr>)
      in s1\<lparr>sh_awaiting := sh_awaiting s1 @ [ShopCheckout (origin @ ''/shop?success=true'') (origin @ ''/shop'')]\<rparr>)"

definition checkout_settled :: "js_thrown + string \<Rightarrow> shop \<Rightarrow> shop" where
  "checkout_settled out s = (case out of
      Inr checkout_url \<Rightarrow> s\<lparr>sh_location := Some checkout_url\<rparr>
    | Inl e \<Rightarrow>
        (let message = message_or ''Checkout is not available right now.'' e
         in (sh_track ''founder_pass_checkout_failed'' [(''product'', JStr ''founder_pass''), (''message'', JStr message)]
               (s\<lparr>sh_error := Some message\<rparr>))\<lparr>sh_purchasing := False\<rparr>))"

datatype shop_event = StatusSettled "js_thrown + bool" | PurchaseClicked string | CheckoutSettled "js_thrown + string"

definition is_checkout :: "shop_await \<Rightarrow> bool" where
  "is_checkout w = (case w of ShopStatus \<Rightarrow> False | ShopCheckout a b \<Rightarrow> True)"

fun drop_first :: "('a \<Rightarrow> bool) \<Rightarrow> 'a list \<Rightarrow> 'a list" where
  "drop_first P [] = []"
| "drop_first P (x # xs) = (if P x then xs else x # drop_first P xs)"

fun shop_step :: "shop \<Rightarrow> shop_event \<Rightarrow> shop" where
  "shop_step s (StatusSettled out) = shop_loaded out (s\<lparr>sh_awaiting := drop_first (\<lambda>w. \<not> is_checkout w) (sh_awaiting s)\<rparr>)"
| "shop_step s (PurchaseClicked origin) = handlePurchase origin s"
| "shop_step s (CheckoutSettled out) = checkout_settled out (s\<lparr>sh_awaiting := drop_first is_checkout (sh_awaiting s)\<rparr>)"

datatype shop_area = ShopChecking | ShopActive | ShopButton string bool

text \<open>The purchase area: checking, active, or the button with its label and whether it is disabled.\<close>

definition shop_section :: "shop \<Rightarrow> shop_area" where
  "shop_section s = (if sh_loading s then ShopChecking else if sh_adFree s then ShopActive
     else ShopButton (if sh_purchasing s then ''Opening checkout...'' else ''Get Founder Pass'') (sh_purchasing s))"

text \<open>What can happen: a pending request settles, an enabled button is clicked.\<close>

fun shop_enabled :: "shop \<Rightarrow> shop_event \<Rightarrow> bool" where
  "shop_enabled s (StatusSettled out) = (ShopStatus \<in> set (sh_awaiting s))"
| "shop_enabled s (PurchaseClicked origin) = (\<exists>l. shop_section s = ShopButton l False)"
| "shop_enabled s (CheckoutSettled out) = (\<exists>w \<in> set (sh_awaiting s). is_checkout w)"

subsection \<open>One checkout at a time\<close>

definition checkouts :: "shop \<Rightarrow> nat" where
  "checkouts s = length (filter is_checkout (sh_awaiting s))"

definition statuses :: "shop \<Rightarrow> nat" where
  "statuses s = length (filter (\<lambda>w. \<not> is_checkout w) (sh_awaiting s))"

definition shop_inv :: "shop \<Rightarrow> bool" where
  "shop_inv s \<longleftrightarrow> checkouts s + of_bool (sh_location s \<noteq> None) = of_bool (sh_purchasing s) \<and>
     statuses s = of_bool (sh_loading s)"

lemma filter_drop_first:
  "\<exists>x \<in> set xs. P x \<Longrightarrow> Suc (length (filter P (drop_first P xs))) = length (filter P xs)"
  "\<forall>x. P x \<longrightarrow> \<not> Q x \<Longrightarrow> filter Q (drop_first P xs) = filter Q xs"
  by (induction xs) auto

lemma status_pending: "ShopStatus \<in> set xs \<longleftrightarrow> (\<exists>w \<in> set xs. \<not> is_checkout w)"
proof -
  have "(\<not> is_checkout w) = (w = ShopStatus)" for w by (cases w) (simp_all add: is_checkout_def)
  then show ?thesis by auto
qed

lemma shop_track_simps [simp]:
  "sh_adFree (sh_track ev ps s) = sh_adFree s" "sh_loading (sh_track ev ps s) = sh_loading s"
  "sh_purchasing (sh_track ev ps s) = sh_purchasing s" "sh_error (sh_track ev ps s) = sh_error s"
  "sh_location (sh_track ev ps s) = sh_location s" "sh_awaiting (sh_track ev ps s) = sh_awaiting s"
  "sh_search (sh_track ev ps s) = sh_search s"
  by (simp_all add: sh_track_def)

lemma shop_inv_mount: "shop_inv (shop_mount search)"
  by (simp add: shop_inv_def shop_mount_def success_effect_def shop_load_def shop_state_def checkouts_def statuses_def
      is_checkout_def)

lemma shop_inv_step: "shop_inv s \<Longrightarrow> shop_enabled s e \<Longrightarrow> shop_inv (shop_step s e)"
proof (cases e)
  case (StatusSettled out)
  moreover assume "shop_inv s" "shop_enabled s e"
  ultimately show ?thesis
    using filter_drop_first(1) [of "sh_awaiting s" "\<lambda>w. \<not> is_checkout w"]
      filter_drop_first(2) [of "\<lambda>w. \<not> is_checkout w" is_checkout "sh_awaiting s"]
    by (cases out) (auto simp: shop_inv_def shop_loaded_def checkouts_def statuses_def status_pending of_bool_def split: if_splits)
next
  case (PurchaseClicked origin)
  moreover assume "shop_inv s" "shop_enabled s e"
  ultimately show ?thesis
    by (auto simp: shop_inv_def shop_section_def handlePurchase_def checkouts_def statuses_def is_checkout_def Let_def
        split: if_splits)
next
  case (CheckoutSettled out)
  moreover assume "shop_inv s" "shop_enabled s e"
  ultimately show ?thesis
    using filter_drop_first(1) [of "sh_awaiting s" is_checkout]
      filter_drop_first(2) [of is_checkout "\<lambda>w. \<not> is_checkout w" "sh_awaiting s"]
    by (cases out) (auto simp: shop_inv_def checkout_settled_def checkouts_def statuses_def of_bool_def Let_def split: if_splits)
qed

interpretation shp: guarded_machine "shop_mount search" shop_enabled shop_step shop_inv
  for search by unfold_locales (rule shop_inv_mount, rule shop_inv_step)

fun status_answers :: "shop_event list \<Rightarrow> (js_thrown + bool) list" where
  "status_answers [] = []"
| "status_answers (StatusSettled out # es) = out # status_answers es"
| "status_answers (PurchaseClicked origin # es) = status_answers es"
| "status_answers (CheckoutSettled out # es) = status_answers es"

text \<open>The benefits shown, from the answer of the status endpoint or, if it failed, the address.\<close>

definition shop_benefits :: "string \<Rightarrow> shop_event list \<Rightarrow> bool" where
  "shop_benefits search es =
     (case status_answers es of
        Inr b # _ \<Rightarrow> b
      | _ \<Rightarrow> params_get (parse_params search) ''success'' = Some ''true'')"

lemma shop_step_other [simp]:
  "sh_adFree (handlePurchase origin s) = sh_adFree s" "sh_adFree (checkout_settled out s) = sh_adFree s"
  "sh_adFree (s\<lparr>sh_awaiting := a\<rparr>) = sh_adFree s"
  by (auto simp: handlePurchase_def checkout_settled_def Let_def split: sum.split)

lemma no_second_status:
  "shop_inv s \<Longrightarrow> \<not> sh_loading s \<Longrightarrow> legal shop_enabled shop_step s es \<Longrightarrow>
   status_answers es = [] \<and> sh_adFree (run shop_step s es) = sh_adFree s"
proof (induction es arbitrary: s)
  case (Cons e es)
  have "e \<noteq> StatusSettled out" for out
    using Cons.prems by (auto simp: shop_inv_def statuses_def status_pending filter_empty_conv)
  moreover have "\<not> sh_loading (shop_step s e)"
    using Cons.prems(2) calculation
    by (cases e) (auto simp: handlePurchase_def checkout_settled_def Let_def split: sum.split)
  ultimately show ?case
    using Cons.IH [of "shop_step s e"] Cons.prems shop_inv_step [of s e] by (cases e) auto
qed simp

lemma benefits_run:
  "shop_inv s \<Longrightarrow> sh_loading s \<Longrightarrow> legal shop_enabled shop_step s es \<Longrightarrow>
   sh_adFree (run shop_step s es) = (case status_answers es of Inr b # _ \<Rightarrow> b | _ \<Rightarrow> sh_adFree s)"
proof (induction es arbitrary: s)
  case (Cons e es)
  have inv: "shop_inv (shop_step s e)" using Cons.prems shop_inv_step [of s e] by simp
  show ?case
  proof (cases e)
    case (StatusSettled out)
    have "\<not> sh_loading (shop_step s e)" using StatusSettled by (cases out) (simp_all add: shop_loaded_def)
    from no_second_status [OF inv this] Cons.prems(3) StatusSettled show ?thesis
      by (cases out) (auto simp: shop_loaded_def)
  next
    case (PurchaseClicked origin)
    with Cons.prems show ?thesis by (simp add: shop_section_def)
  next
    case (CheckoutSettled out)
    have "sh_loading (shop_step s e)" using CheckoutSettled Cons.prems(2)
      by (cases out) (simp_all add: checkout_settled_def Let_def)
    moreover have "sh_adFree (shop_step s e) = sh_adFree s" by (simp add: CheckoutSettled)
    moreover have "status_answers (e # es) = status_answers es" by (simp add: CheckoutSettled)
    ultimately show ?thesis
      using Cons.IH [of "shop_step s e"] inv Cons.prems(3) by (simp only: run.simps legal.simps)
  qed
qed simp

lemma loading_run:
  "shop_inv s \<Longrightarrow> legal shop_enabled shop_step s es \<Longrightarrow>
   sh_loading (run shop_step s es) = (sh_loading s \<and> status_answers es = [])"
proof (induction es arbitrary: s)
  case (Cons e es)
  have "sh_loading (shop_step s e) = (sh_loading s \<and> (\<forall>out. e \<noteq> StatusSettled out))"
    by (cases e) (auto simp: shop_loaded_def handlePurchase_def checkout_settled_def Let_def split: sum.split)
  with Cons.IH [of "shop_step s e"] Cons.prems shop_inv_step [of s e] show ?case by (cases e) auto
qed simp

text \<open>
  Claim C31: in every use of the shop at most one checkout is being opened, and none while one has redirected
  the page; and what the purchase area shows is determined by the answers: it is checking until the
  status request has been answered, then shows the benefits as active exactly when the endpoint said so
  or, if it failed, when the address carries \<open>success=true\<close>, and otherwise the purchase button, enabled
  exactly while no checkout is being opened and none has redirected the page.
\<close>

theorem shop_one_checkout:
  assumes "legal shop_enabled shop_step (shop_mount search) es"
    and "s = run shop_step (shop_mount search) es"
  shows "checkouts s \<le> 1 \<and> (sh_location s \<noteq> None \<longrightarrow> checkouts s = 0 \<and> \<not> (\<exists>o1. shop_enabled s (PurchaseClicked o1))) \<and>
    shop_section s =
      (if status_answers es = [] then ShopChecking
       else if shop_benefits search es then ShopActive
       else if checkouts s = 0 \<and> sh_location s = None then ShopButton ''Get Founder Pass'' False
       else ShopButton ''Opening checkout...'' True)"
proof -
  have inv: "shop_inv s" unfolding assms(2) by (rule shp.inv_run [OF assms(1)])
  then have "checkouts s \<le> 1" by (auto simp: shop_inv_def of_bool_def split: if_splits)
  moreover have "sh_location s \<noteq> None \<longrightarrow> checkouts s = 0 \<and> \<not> (\<exists>o1. shop_enabled s (PurchaseClicked o1))"
    using inv by (auto simp: shop_inv_def shop_section_def of_bool_def split: if_splits)
  moreover have mount: "sh_adFree (shop_mount search) = (params_get (parse_params search) ''success'' = Some ''true'')"
    "sh_loading (shop_mount search)"
    by (simp_all add: shop_mount_def success_effect_def shop_load_def shop_state_def)
  then have "sh_adFree s = shop_benefits search es"
    using benefits_run [OF shop_inv_mount _ assms(1)] unfolding assms(2) shop_benefits_def by (auto split: list.split sum.split)
  moreover have "sh_loading s = (status_answers es = [])"
    using loading_run [OF shop_inv_mount assms(1)] mount(2) unfolding assms(2) by simp
  moreover have "sh_purchasing s = (\<not> (checkouts s = 0 \<and> sh_location s = None))"
    using inv by (auto simp: shop_inv_def of_bool_def split: if_splits)
  ultimately show ?thesis by (simp add: shop_section_def)
qed

lemma shop_one_checkout_witness:
  "shop_section (run shop_step (shop_mount []) [StatusSettled (Inr False), PurchaseClicked ''https://jjan'']) \<noteq> ShopActive"
proof -
  have "legal shop_enabled shop_step (shop_mount []) [StatusSettled (Inr False), PurchaseClicked ''https://jjan'']"
    by (simp add: shop_mount_def success_effect_def shop_load_def shop_state_def shop_loaded_def shop_section_def
        parse_params_def params_get_def)
  from shop_one_checkout [OF this refl] show ?thesis by (simp add: shop_benefits_def del: run.simps)
qed

text \<open>An address with \<open>success=true\<close> shows the benefits to anyone while the status endpoint is down.\<close>

lemma success_address_unlocks:
  "shop_section (shop_step (shop_mount ''success=true'') (StatusSettled (Inl e))) = ShopActive"
proof -
  have "params_get (parse_params ''success=true'') ''success'' = Some ''true''" by code_simp
  then show ?thesis
    by (simp add: shop_mount_def success_effect_def shop_load_def shop_state_def shop_loaded_def shop_section_def)
qed

end
