(* ===== verification/Fighter_Sprite.thy ===== *)
theory Fighter_Sprite
  imports Assets
begin

text \<open>
  The fighter sprite \<open>web/src/components/arena/FighterSprite.tsx\<close>: the chain of images it falls back
  along, the motion of each pose, and the figure it draws itself when no image can be loaded.
  Lengths are real numbers; line caps, filters and blending are not modelled.
\<close>

subsection \<open>Poses and designs\<close>

datatype fighter_pose = FpIdle | FpWindup | FpImpact | FpRecover | FpHit | FpKo | FpVictory

fun poseToAssetPose :: "fighter_pose \<Rightarrow> asset_pose" where
  "poseToAssetPose FpIdle = PoIdle"
| "poseToAssetPose FpWindup = PoWindup"
| "poseToAssetPose FpImpact = PoImpact"
| "poseToAssetPose FpRecover = PoImpact"
| "poseToAssetPose FpHit = PoHit"
| "poseToAssetPose FpKo = PoKo"
| "poseToAssetPose FpVictory = PoVictory"

definition SKIN :: string where "SKIN = ''#F3D9B8''"
definition SKIN_SHADOW :: string where "SKIN_SHADOW = ''#D9B894''"
definition PUPIL :: string where "PUPIL = ''#1A0E0E''"
definition PANTS :: string where "PANTS = ''#1F2937''"

datatype hair = BurstSpike | LongFlow | Topknot | SidePony | Swept | PartedBangs

datatype accessory = Headband | MonkDot | Moon | Beard | Earring | Clip | Scar | NoAccessory

record character_design =
  cd_hair :: hair
  cd_hairColor :: string
  cd_hairTip :: "string option"
  cd_outfitMain :: string
  cd_outfitTrim :: string
  cd_iris :: "string option"
  cd_accessory :: accessory

definition CHARACTER_DESIGN :: "(string \<times> character_design) list" where
  "CHARACTER_DESIGN =
   [(''haneul'', \<lparr>cd_hair = BurstSpike, cd_hairColor = ''#1f2937'', cd_hairTip = Some ''#60A5FA'', cd_outfitMain = ''#F59E0B'',
       cd_outfitTrim = ''#1E40AF'', cd_iris = Some ''#1E3A8A'', cd_accessory = MonkDot\<rparr>),
    (''bora'', \<lparr>cd_hair = Swept, cd_hairColor = ''#A78BFA'', cd_hairTip = Some ''#C084FC'', cd_outfitMain = ''#312E81'',
       cd_outfitTrim = ''#F3F4F6'', cd_iris = Some ''#7C3AED'', cd_accessory = Moon\<rparr>),
    (''taeyang'', \<lparr>cd_hair = BurstSpike, cd_hairColor = ''#FCD34D'', cd_hairTip = Some ''#FBBF24'', cd_outfitMain = ''#EA580C'',
       cd_outfitTrim = ''#0F172A'', cd_iris = Some ''#1D4ED8'', cd_accessory = Headband\<rparr>),
    (''danbi'', \<lparr>cd_hair = BurstSpike, cd_hairColor = ''#E5E7EB'', cd_hairTip = Some ''#22D3EE'', cd_outfitMain = ''#0E7490'',
       cd_outfitTrim = ''#F8FAFC'', cd_iris = Some ''#0891B2'', cd_accessory = Earring\<rparr>),
    (''seokjin'', \<lparr>cd_hair = Topknot, cd_hairColor = ''#451A03'', cd_hairTip = None, cd_outfitMain = ''#9A3412'',
       cd_outfitTrim = ''#FBBF24'', cd_iris = Some ''#78350F'', cd_accessory = Beard\<rparr>),
    (''yuri'', \<lparr>cd_hair = LongFlow, cd_hairColor = ''#F472B6'', cd_hairTip = None, cd_outfitMain = ''#831843'',
       cd_outfitTrim = ''#FBCFE8'', cd_iris = Some ''#BE185D'', cd_accessory = Clip\<rparr>),
    (''seorin'', \<lparr>cd_hair = LongFlow, cd_hairColor = ''#CBD5E1'', cd_hairTip = Some ''#7DD3FC'', cd_outfitMain = ''#0891B2'',
       cd_outfitTrim = ''#E0F2FE'', cd_iris = Some ''#06B6D4'', cd_accessory = Clip\<rparr>),
    (''cheon'', \<lparr>cd_hair = BurstSpike, cd_hairColor = ''#3B82F6'', cd_hairTip = Some ''#FDE047'', cd_outfitMain = ''#4C1D95'',
       cd_outfitTrim = ''#FBBF24'', cd_iris = Some ''#7C3AED'', cd_accessory = NoAccessory\<rparr>),
    (''yeonhwa'', \<lparr>cd_hair = Topknot, cd_hairColor = ''#1E1B2E'', cd_hairTip = Some ''#4C1D95'', cd_outfitMain = ''#1E1B4B'',
       cd_outfitTrim = ''#7C3AED'', cd_iris = Some ''#F59E0B'', cd_accessory = NoAccessory\<rparr>)]"

definition FALLBACK_DESIGN :: character_design where
  "FALLBACK_DESIGN = \<lparr>cd_hair = PartedBangs, cd_hairColor = ''#1f2937'', cd_hairTip = None, cd_outfitMain = ''#6B7280'',
     cd_outfitTrim = ''#374151'', cd_iris = None, cd_accessory = NoAccessory\<rparr>"

text \<open>Identifiers are those of a roster; one without an entry gets the fallback.\<close>

definition designFor :: "character \<Rightarrow> character_design" where
  "designFor c = nullish (map_of CHARACTER_DESIGN (ch_id c)) FALLBACK_DESIGN"

subsection \<open>The chain of images\<close>

datatype image_attempt = TryPose | TryIdle | TrySvg

datatype asset_mode = ModeAuto | ModeSvg

text \<open>The path of a fighter's image; the identifier is passed on as the string it is.\<close>

definition fighter_path :: "string \<Rightarrow> asset_pose \<Rightarrow> string" where
  "fighter_path i p = ''/fighters/'' @ i @ ''/'' @ pose_str p @ ''.png''"

lemma fighter_path_typed: "fighter_path (character_id_str i) p = fighterAsset i (Some p)"
  by (simp add: fighter_path_def fighterAsset_def)

definition first_attempt :: "asset_mode \<Rightarrow> asset_pose \<Rightarrow> image_attempt" where
  "first_attempt mode p = (if mode = ModeSvg then TrySvg else if p = PoIdle then TryIdle else TryPose)"

definition imageSrc :: "string \<Rightarrow> asset_pose \<Rightarrow> asset_mode \<Rightarrow> image_attempt \<Rightarrow> string option" where
  "imageSrc i p mode attempt =
     (if mode = ModeSvg then None
      else if attempt = TryPose then Some (fighter_path i p)
      else if attempt = TryIdle then Some (fighter_path i PoIdle)
      else None)"

fun onImageError :: "image_attempt \<Rightarrow> image_attempt" where
  "onImageError TryPose = TryIdle"
| "onImageError TryIdle = TrySvg"
| "onImageError TrySvg = TrySvg"

text \<open>
  A sprite on the page.  The frame's key is the fighter, the image's pose and the mode: a render with
  another key mounts a fresh frame, whose chain starts again.  \<open>sp_failed\<close> lists the images that
  could not be loaded since the frame was mounted.
\<close>

record sprite =
  sp_character :: string
  sp_assetPose :: asset_pose
  sp_mode :: asset_mode
  sp_attempt :: image_attempt
  sp_failed :: "string list"

definition mount_frame :: "string \<Rightarrow> asset_pose \<Rightarrow> asset_mode \<Rightarrow> sprite" where
  "mount_frame i p mode = \<lparr>sp_character = i, sp_assetPose = p, sp_mode = mode,
     sp_attempt = first_attempt mode p, sp_failed = []\<rparr>"

definition sprite_render :: "string \<Rightarrow> fighter_pose \<Rightarrow> asset_mode \<Rightarrow> sprite \<Rightarrow> sprite" where
  "sprite_render i pose mode s =
     (let p = poseToAssetPose pose
      in if (sp_character s, sp_assetPose s, sp_mode s) = (i, p, mode) then s else mount_frame i p mode)"

definition sprite_src :: "sprite \<Rightarrow> string option" where
  "sprite_src s = (if sp_attempt s \<noteq> TrySvg then imageSrc (sp_character s) (sp_assetPose s) (sp_mode s) (sp_attempt s) else None)"

definition image_failed :: "sprite \<Rightarrow> sprite" where
  "image_failed s = (case sprite_src s of None \<Rightarrow> s
     | Some src \<Rightarrow> s\<lparr>sp_attempt := onImageError (sp_attempt s), sp_failed := sp_failed s @ [src]\<rparr>)"

datatype sprite_event = SpRender string fighter_pose asset_mode | SpError

fun sprite_step :: "sprite \<Rightarrow> sprite_event \<Rightarrow> sprite" where
  "sprite_step s (SpRender i pose mode) = sprite_render i pose mode s"
| "sprite_step s SpError = image_failed s"

definition sprite_inv :: "sprite \<Rightarrow> bool" where
  "sprite_inv s \<longleftrightarrow> (sp_mode s = ModeSvg \<and> sp_attempt s = TrySvg \<and> sp_failed s = []) \<or>
     (sp_mode s = ModeAuto \<and>
      (case sp_attempt s of
         TryPose \<Rightarrow> sp_assetPose s \<noteq> PoIdle \<and> sp_failed s = []
       | TryIdle \<Rightarrow> sp_failed s = (if sp_assetPose s = PoIdle then [] else [fighter_path (sp_character s) (sp_assetPose s)])
       | TrySvg \<Rightarrow> sp_failed s = (if sp_assetPose s = PoIdle then [fighter_path (sp_character s) PoIdle]
             else [fighter_path (sp_character s) (sp_assetPose s), fighter_path (sp_character s) PoIdle])))"

lemma sprite_inv_mount: "sprite_inv (mount_frame i p mode)"
  by (cases mode) (auto simp: sprite_inv_def mount_frame_def first_attempt_def)

lemma sprite_inv_step: "sprite_inv s \<Longrightarrow> sprite_inv (sprite_step s e)"
proof (cases e)
  case (SpRender i pose mode)
  then show "sprite_inv s \<Longrightarrow> ?thesis" by (simp add: sprite_render_def Let_def sprite_inv_mount)
next
  case SpError
  then show "sprite_inv s \<Longrightarrow> ?thesis"
    by (cases "sp_attempt s"; cases "sp_mode s")
      (auto simp: sprite_inv_def image_failed_def sprite_src_def imageSrc_def)
qed

interpretation spr: machine "mount_frame i p mode" sprite_step sprite_inv
  for i p mode by unfold_locales (rule sprite_inv_mount, rule sprite_inv_step)

lemma pose_str_inj: "pose_str p = pose_str q \<longleftrightarrow> p = q"
  by (cases p; cases q) simp_all

lemma fighter_path_inj: "fighter_path i p = fighter_path i q \<longleftrightarrow> p = q"
  by (simp add: fighter_path_def pose_str_inj)

text \<open>
  What was last rendered (fighter, image's pose and mode), and how many images have failed since a render
  changed any of the three.
\<close>

fun since_change :: "string \<times> asset_pose \<times> asset_mode \<Rightarrow> nat \<Rightarrow> sprite_event list \<Rightarrow> (string \<times> asset_pose \<times> asset_mode) \<times> nat" where
  "since_change k n [] = (k, n)"
| "since_change k n (SpRender i pose mode # es) =
     (if k = (i, poseToAssetPose pose, mode) then since_change k n es else since_change (i, poseToAssetPose pose, mode) 0 es)"
| "since_change k n (SpError # es) = since_change k (n + 1) es"

definition attempt_after :: "string \<times> asset_pose \<times> asset_mode \<Rightarrow> nat \<Rightarrow> image_attempt" where
  "attempt_after k n = (onImageError ^^ n) (first_attempt (snd (snd k)) (fst (snd k)))"

definition tracks :: "string \<times> asset_pose \<times> asset_mode \<Rightarrow> nat \<Rightarrow> sprite \<Rightarrow> bool" where
  "tracks k n s \<longleftrightarrow> (sp_character s, sp_assetPose s, sp_mode s) = k \<and> sp_attempt s = attempt_after k n"

lemma tracks_error:
  assumes "sprite_inv s" "tracks k n s" shows "tracks k (n + 1) (image_failed s)"
proof -
  have "sp_attempt (image_failed s) = onImageError (sp_attempt s)"
    using assms(1) by (cases "sp_attempt s"; cases "sp_mode s") (auto simp: sprite_inv_def image_failed_def sprite_src_def imageSrc_def)
  moreover have "(sp_character (image_failed s), sp_assetPose (image_failed s), sp_mode (image_failed s)) = k"
    using assms(2) by (auto simp: tracks_def image_failed_def split: option.split)
  ultimately show ?thesis using assms(2) by (simp add: tracks_def attempt_after_def)
qed

lemma tracks_run:
  "sprite_inv s \<Longrightarrow> tracks k n s \<Longrightarrow>
   tracks (fst (since_change k n es)) (snd (since_change k n es)) (run sprite_step s es)"
proof (induction k n es arbitrary: s rule: since_change.induct)
  case (2 k n i pose mode es)
  have "sprite_inv (sprite_step s (SpRender i pose mode))" using 2(3) by (rule sprite_inv_step)
  moreover have "tracks (if k = (i, poseToAssetPose pose, mode) then k else (i, poseToAssetPose pose, mode))
      (if k = (i, poseToAssetPose pose, mode) then n else 0) (sprite_step s (SpRender i pose mode))"
    using 2(4) by (auto simp: sprite_render_def tracks_def mount_frame_def attempt_after_def Let_def)
  ultimately show ?case using 2(1,2) by (auto split: if_splits)
next
  case (3 k n es)
  from tracks_error [OF 3(2,3)] sprite_inv_step [OF 3(2), of SpError] 3(1) show ?case by simp
qed simp

text \<open>
  Claim C34: whatever is rendered and whichever images fail, the sprite shows the picture of the fighter last
  rendered, in its pose or idle, that has not failed since a render last changed the fighter, the
  picture's pose or the mode, or else the drawn figure; which of these it is depends only on that render
  and on the number of failures since.  No picture is tried twice, and after at most two failures the
  figure is drawn and no picture is asked for any more.
\<close>

theorem sprite_falls_back:
  assumes "s = run sprite_step (mount_frame i p mode) es"
    and "since_change (i, p, mode) 0 es = ((i', p', mode'), n)"
  shows "(sp_character s, sp_assetPose s, sp_mode s) = (i', p', mode') \<and>
    sp_attempt s = (onImageError ^^ n) (first_attempt mode' p') \<and>
    distinct (sp_failed s) \<and> length (sp_failed s) \<le> 2 \<and>
    (case sprite_src s of Some src \<Rightarrow> src \<in> {fighter_path i' p', fighter_path i' PoIdle} \<and> src \<notin> set (sp_failed s) \<and>
         mode' = ModeAuto \<and> length (sp_failed s) \<le> 1
     | None \<Rightarrow> sp_attempt s = TrySvg) \<and>
    sprite_src (sprite_step (sprite_step s SpError) SpError) = None"
proof -
  have inv: "sprite_inv s" unfolding assms(1) by (rule spr.always)
  have "tracks (i, p, mode) 0 (mount_frame i p mode)" by (simp add: tracks_def mount_frame_def attempt_after_def)
  from tracks_run [OF sprite_inv_mount this, of es] have t: "tracks (i', p', mode') n s" by (simp add: assms)
  then have "(sp_character s, sp_assetPose s, sp_mode s) = (i', p', mode')"
    "sp_attempt s = (onImageError ^^ n) (first_attempt mode' p')"
    by (simp_all add: tracks_def attempt_after_def)
  moreover from inv have "distinct (sp_failed s) \<and> length (sp_failed s) \<le> 2 \<and>
    (case sprite_src s of Some src \<Rightarrow> src \<in> {fighter_path (sp_character s) (sp_assetPose s), fighter_path (sp_character s) PoIdle} \<and>
         src \<notin> set (sp_failed s) \<and> sp_mode s = ModeAuto \<and> length (sp_failed s) \<le> 1
     | None \<Rightarrow> sp_attempt s = TrySvg) \<and>
    sprite_src (sprite_step (sprite_step s SpError) SpError) = None"
    by (cases "sp_attempt s"; cases "sp_mode s"; cases "sp_assetPose s = PoIdle")
      (auto simp: sprite_inv_def sprite_src_def imageSrc_def image_failed_def fighter_path_inj)
  ultimately show ?thesis by (cases "sprite_src s") simp_all
qed

lemma sprite_falls_back_witness:
  "sprite_src (run sprite_step (mount_frame ''haneul'' PoHit ModeAuto) [SpError, SpError, SpRender ''bora'' FpHit ModeAuto, SpError]) =
   Some ''/fighters/bora/idle.png''"
proof -
  let ?s = "run sprite_step (mount_frame ''haneul'' PoHit ModeAuto) [SpError, SpError, SpRender ''bora'' FpHit ModeAuto, SpError]"
  have "since_change (''haneul'', PoHit, ModeAuto) 0 [SpError, SpError, SpRender ''bora'' FpHit ModeAuto, SpError] =
      ((''bora'', PoHit, ModeAuto), 1)" by simp
  from sprite_falls_back [OF refl this]
  have "(sp_character ?s, sp_assetPose ?s, sp_mode ?s) = (''bora'', PoHit, ModeAuto)" "sp_attempt ?s = TryIdle"
    by (simp_all add: first_attempt_def del: run.simps)
  then show ?thesis by (simp add: sprite_src_def imageSrc_def fighter_path_def del: run.simps)
qed

subsection \<open>Motion\<close>

text \<open>A value is one target or a list of keyframes.\<close>

record pose_motion =
  pm_scale :: "real list"
  pm_rotate :: real
  pm_x :: "real list"
  pm_y :: "real list"

definition still :: pose_motion where
  "still = \<lparr>pm_scale = [1], pm_rotate = 0, pm_x = [0], pm_y = [0]\<rparr>"

text \<open>\<open>hasPosePng\<close>: the pose is part of the image, so the motion is small; otherwise the figure is turned as a whole.\<close>

fun png_motion :: "fighter_pose \<Rightarrow> bool \<Rightarrow> pose_motion" where
  "png_motion FpWindup flip = \<lparr>pm_scale = [95 / 100], pm_rotate = 0, pm_x = [if flip then 4 else - 4], pm_y = [3]\<rparr>"
| "png_motion FpImpact flip = \<lparr>pm_scale = [98 / 100, 114 / 100, 107 / 100], pm_rotate = 0,
     pm_x = (if flip then [- 2, - 14, - 10] else [2, 14, 10]), pm_y = [1, - 4, - 2]\<rparr>"
| "png_motion FpRecover flip = \<lparr>pm_scale = [1], pm_rotate = 0, pm_x = [0], pm_y = [0]\<rparr>"
| "png_motion FpHit flip = \<lparr>pm_scale = [95 / 100], pm_rotate = (if flip then 6 else - 6),
     pm_x = [if flip then 12 else - 12], pm_y = [- 2]\<rparr>"
| "png_motion FpKo flip = \<lparr>pm_scale = [95 / 100], pm_rotate = 0, pm_x = [0], pm_y = [6]\<rparr>"
| "png_motion FpVictory flip = \<lparr>pm_scale = [1, 112 / 100, 108 / 100], pm_rotate = 0, pm_x = [0], pm_y = [0, - 10, - 6]\<rparr>"
| "png_motion FpIdle flip = still"

fun puppet_motion :: "fighter_pose \<Rightarrow> bool \<Rightarrow> real \<Rightarrow> pose_motion" where
  "puppet_motion FpWindup flip h = \<lparr>pm_scale = [95 / 100], pm_rotate = (if flip then 3 else - 3),
     pm_x = [if flip then 5 else - 5], pm_y = [1]\<rparr>"
| "puppet_motion FpImpact flip h = \<lparr>pm_scale = [98 / 100, 113 / 100, 105 / 100], pm_rotate = 0,
     pm_x = (if flip then [- 3, - 16, - 11] else [3, 16, 11]), pm_y = [0, - 3, 0]\<rparr>"
| "puppet_motion FpRecover flip h = \<lparr>pm_scale = [102 / 100], pm_rotate = 0, pm_x = [0], pm_y = [0]\<rparr>"
| "puppet_motion FpHit flip h = \<lparr>pm_scale = [95 / 100], pm_rotate = (if flip then 18 else - 18),
     pm_x = [if flip then 16 else - 16], pm_y = [- 4]\<rparr>"
| "puppet_motion FpKo flip h = \<lparr>pm_scale = [9 / 10], pm_rotate = (if flip then - 85 else 85),
     pm_x = [if flip then 24 else - 24], pm_y = [h * (22 / 100)]\<rparr>"
| "puppet_motion FpVictory flip h = \<lparr>pm_scale = [1, 112 / 100, 108 / 100], pm_rotate = 0, pm_x = [0], pm_y = [0, - 10, - 6]\<rparr>"
| "puppet_motion FpIdle flip h = still"

definition poseTransform :: "image_attempt \<Rightarrow> fighter_pose \<Rightarrow> bool \<Rightarrow> real \<Rightarrow> pose_motion" where
  "poseTransform attempt pose flip height =
     (let hasPosePng = (attempt = TryPose) in if hasPosePng then png_motion pose flip else puppet_motion pose flip height)"

datatype pose_curve = Tween real "real list" "real list" | Spring real real "real option"

fun poseTransition :: "fighter_pose \<Rightarrow> pose_curve" where
  "poseTransition FpImpact = Tween (34 / 100) [34 / 100, 15 / 10, 5 / 10, 1] [0, 55 / 100, 1]"
| "poseTransition FpVictory = Tween (55 / 100) [34 / 100, 145 / 100, 5 / 10, 1] [0, 5 / 10, 1]"
| "poseTransition FpHit = Spring 620 16 (Some (7 / 10))"
| "poseTransition FpWindup = Spring 210 18 None"
| "poseTransition FpKo = Spring 130 15 None"
| "poseTransition FpIdle = Spring 280 20 (Some (9 / 10))"
| "poseTransition FpRecover = Spring 280 20 (Some (9 / 10))"

definition mirror :: "pose_motion \<Rightarrow> pose_motion" where
  "mirror m = m\<lparr>pm_rotate := - pm_rotate m, pm_x := map uminus (pm_x m)\<rparr>"

text \<open>
  Every pose of the fighter on the right is the mirror image of the pose on the left, and a pose with
  several keyframes has a curve with as many times, increasing from 0 to 1.
\<close>

lemma right_mirrors_left: "poseTransform attempt pose True h = mirror (poseTransform attempt pose False h)"
  by (cases pose) (simp_all add: poseTransform_def mirror_def still_def)

lemma keyframes_timed:
  "case poseTransition pose of
     Tween d e ts \<Rightarrow> sorted ts \<and> hd ts = 0 \<and> last ts = 1 \<and>
       list_all (\<lambda>xs. length xs = 1 \<or> length xs = length ts) [pm_scale (poseTransform attempt pose flip h),
         pm_x (poseTransform attempt pose flip h), pm_y (poseTransform attempt pose flip h)]
   | Spring s d m \<Rightarrow> length (pm_scale (poseTransform attempt pose flip h)) = 1 \<and>
       length (pm_x (poseTransform attempt pose flip h)) = 1 \<and> length (pm_y (poseTransform attempt pose flip h)) = 1"
  by (cases pose) (simp_all add: poseTransform_def still_def)

text \<open>The sparks of an impact: eight, on a circle about the middle of the sprite.\<close>

definition sprite_sparks :: "bool \<Rightarrow> fighter_pose \<Rightarrow> real \<Rightarrow> string \<Rightarrow> (real \<times> real \<times> string) list" where
  "sprite_sparks fx pose width color =
     (if fx \<and> (pose = FpImpact \<or> pose = FpHit)
      then map (\<lambda>i. let angle = (real i / 8) * pi * 2
                    in (cos angle * width * (42 / 100), sin angle * width * (42 / 100),
                        if i mod 2 = 1 then ''#ffffff'' else color)) [0..<8]
      else [])"

lemma scaled_inside:
  assumes "0 \<le> width" and "\<bar>t\<bar> \<le> 1" shows "\<bar>t * width * 21\<bar> \<le> width * (25 :: real)"
proof -
  have "\<bar>t * width * 21\<bar> = \<bar>t\<bar> * (width * 21)" using assms(1) by (simp add: abs_mult)
  also have "\<dots> \<le> 1 * (width * 21)" using assms by (intro mult_right_mono) simp_all
  finally show ?thesis using assms(1) by simp
qed

lemma sparks_inside:
  "0 \<le> width \<Longrightarrow> list_all (\<lambda>(x, y, c). \<bar>x\<bar> \<le> width / 2 \<and> \<bar>y\<bar> \<le> width / 2) (sprite_sparks fx pose width color)"
  unfolding sprite_sparks_def Let_def list_all_iff
  by (auto intro!: scaled_inside simp del: abs_mult upt_Suc split: if_splits)

subsection \<open>The drawn figure\<close>

text \<open>A fill is a colour, a gradient of the drawing by its name, or nothing; coordinates are those of the view box.\<close>

datatype paint = Color string | Gradient string | NoFill

datatype path_op =
    MoveTo real real
  | LineTo real real
  | QuadTo real real real real
  | ArcTo real real nat bool bool real real
  | ClosePath

datatype svg_geometry =
    Polygon "(real \<times> real) list"
  | Ellipse real real real real
  | Circle real real real
  | Rect real real real real
  | Path "path_op list"

record svg_shape =
  svg_geo :: svg_geometry
  svg_fill :: paint
  svg_stroke :: "string option"
  svg_strokeWidth :: real
  svg_opacity :: real

definition filled :: "paint \<Rightarrow> svg_geometry \<Rightarrow> svg_shape" where
  "filled p g = \<lparr>svg_geo = g, svg_fill = p, svg_stroke = None, svg_strokeWidth = 1, svg_opacity = 1\<rparr>"

definition faded :: "paint \<Rightarrow> real \<Rightarrow> svg_geometry \<Rightarrow> svg_shape" where
  "faded p opacity g = \<lparr>svg_geo = g, svg_fill = p, svg_stroke = None, svg_strokeWidth = 1, svg_opacity = opacity\<rparr>"

definition stroked :: "paint \<Rightarrow> string \<Rightarrow> real \<Rightarrow> svg_geometry \<Rightarrow> svg_shape" where
  "stroked p col w g = \<lparr>svg_geo = g, svg_fill = p, svg_stroke = Some col, svg_strokeWidth = w, svg_opacity = 1\<rparr>"

definition curve3 :: "real \<Rightarrow> real \<Rightarrow> real \<Rightarrow> real \<Rightarrow> real \<Rightarrow> real \<Rightarrow> svg_geometry" where
  "curve3 a b c d e f = Path [MoveTo a b, QuadTo c d e f]"

definition line2 :: "real \<Rightarrow> real \<Rightarrow> real \<Rightarrow> real \<Rightarrow> svg_geometry" where
  "line2 a b c d = Path [MoveTo a b, LineTo c d]"

subsubsection \<open>Darkening\<close>

text \<open>
  \<open>parseInt(s, 16)\<close> is \<open>NaN\<close> when the text does not begin with a digit, and \<open>NaN\<close> is kept by the
  arithmetic and printed as such.
\<close>

definition parse_channel :: "string \<Rightarrow> nat option" where
  "parse_channel s = (case s of [] \<Rightarrow> None | c # _ \<Rightarrow> if hex_val c = None then None else Some (parse_hex 0 s))"

definition padStart2 :: "string \<Rightarrow> string" where
  "padStart2 s = replicate (2 - length s) CHR ''0'' @ s"

definition darken_channel :: "real \<Rightarrow> string \<Rightarrow> string" where
  "darken_channel factor s = (case parse_channel s of
      None \<Rightarrow> ''NaN''
    | Some r \<Rightarrow> padStart2 (show_hex (nat (max 0 \<lfloor>real r * (1 - factor)\<rfloor>))))"

definition darken :: "string \<Rightarrow> real \<Rightarrow> string" where
  "darken hex factor =
     (let h = remove1 (CHR ''#'') hex
      in ''#'' @ darken_channel factor (take 2 h) @ darken_channel factor (take 2 (drop 2 h)) @
         darken_channel factor (take 2 (drop 4 h)))"

definition hex_color :: "string \<Rightarrow> bool" where
  "hex_color s \<longleftrightarrow> length s = 7 \<and> hd s = CHR ''#'' \<and> list_all (\<lambda>c. hex_val c \<noteq> None) (tl s)"

lemma show_hex_byte:
  assumes "n < 256" shows "padStart2 (show_hex n) = [hex_lower (n div 16), hex_lower (n mod 16)]"
proof (cases "n < 16")
  case True
  then show ?thesis by (simp add: show_hex.simps [of n] padStart2_def hex_lower_0)
next
  case False
  have "n div 16 < 16" using assms by (simp add: less_mult_imp_div_less)
  with False show ?thesis by (simp add: show_hex.simps [of n] show_hex.simps [of "n div 16"] padStart2_def)
qed

lemma parse_channel_byte:
  assumes "hex_val a = Some x" "hex_val b = Some y"
  shows "parse_channel [a, b] = Some (16 * x + y) \<and> 16 * x + y < 256"
  using assms hex_val_bound [OF assms(1)] hex_val_bound [OF assms(2)] by (simp add: parse_channel_def)

lemma darken_channel_byte:
  assumes "hex_val a = Some x" "hex_val b = Some y" and f: "0 \<le> factor" "factor \<le> 1"
  shows "\<exists>u v. darken_channel factor [a, b] = [hex_lower u, hex_lower v] \<and> u < 16 \<and> v < 16 \<and> 16 * u + v \<le> 16 * x + y"
proof -
  let ?r = "16 * x + y" and ?d = "nat (max 0 \<lfloor>real (16 * x + y) * (1 - factor)\<rfloor>)"
  have r: "parse_channel [a, b] = Some ?r" "?r < 256" using parse_channel_byte [OF assms(1,2)] by auto
  have "real ?r * (1 - factor) \<le> real ?r * 1" using f by (intro mult_left_mono) simp_all
  then have "\<lfloor>real ?r * (1 - factor)\<rfloor> \<le> \<lfloor>real ?r\<rfloor>" by (intro floor_mono) (simp only: mult_1_right)
  then have "\<lfloor>real ?r * (1 - factor)\<rfloor> \<le> int ?r" by (simp only: floor_of_nat)
  then have le: "?d \<le> ?r" by linarith
  with r(2) have "?d < 256" by linarith
  then have "darken_channel factor [a, b] = [hex_lower (?d div 16), hex_lower (?d mod 16)]"
    unfolding darken_channel_def r(1) option.case by (rule show_hex_byte)
  moreover have "?d div 16 < 16" using \<open>?d < 256\<close> by (simp add: less_mult_imp_div_less)
  moreover have "16 * (?d div 16) + ?d mod 16 = ?d" by (simp add: mult_div_mod_eq)
  ultimately show ?thesis using le by (intro exI [of _ "?d div 16"] exI [of _ "?d mod 16"]) simp
qed

lemma hex_color_chars:
  assumes "hex_color s"
  shows "\<exists>a b c d e f. s = [CHR ''#'', a, b, c, d, e, f] \<and> hex_val a \<noteq> None \<and> hex_val b \<noteq> None \<and>
    hex_val c \<noteq> None \<and> hex_val d \<noteq> None \<and> hex_val e \<noteq> None \<and> hex_val f \<noteq> None"
proof -
  from assms obtain t where t: "s = CHR ''#'' # t" "length t = 6" "list_all (\<lambda>c. hex_val c \<noteq> None) t"
    by (cases s) (auto simp: hex_color_def)
  from t(2) obtain a b c d e f where "t = [a, b, c, d, e, f]"
    by (auto simp: numeral_eq_Suc length_Suc_conv)
  with t show ?thesis by auto
qed

lemma darken_hex_color:
  assumes "hex_color s" "0 \<le> factor" "factor \<le> 1"
  shows "hex_color (darken s factor)"
proof -
  from hex_color_chars [OF assms(1)] obtain a b c d e f where s: "s = [CHR ''#'', a, b, c, d, e, f]"
    and "hex_val a \<noteq> None" "hex_val b \<noteq> None" "hex_val c \<noteq> None" "hex_val d \<noteq> None" "hex_val e \<noteq> None" "hex_val f \<noteq> None"
    by blast
  then obtain x y z u v w where v: "hex_val a = Some x" "hex_val b = Some y" "hex_val c = Some z"
      "hex_val d = Some u" "hex_val e = Some v" "hex_val f = Some w" by auto
  show ?thesis
    using darken_channel_byte [OF v(1,2) assms(2,3)] darken_channel_byte [OF v(3,4) assms(2,3)]
      darken_channel_byte [OF v(5,6) assms(2,3)]
    by (auto simp: darken_def s hex_color_def hex_val_lower Let_def numeral_2_eq_2)
qed

subsubsection \<open>Limbs and head\<close>

definition FighterLegs :: "string \<Rightarrow> svg_shape list" where
  "FighterLegs characterId =
     (let fill = Gradient (''pants-'' @ characterId)
      in [filled fill (Polygon [(50, 98), (60, 128), (64, 158), (56, 158), (50, 132), (44, 98)]),
          filled (Color ''#0a0a0a'') (Ellipse 60 158 8 3),
          filled fill (Polygon [(50, 98), (42, 124), (34, 154), (42, 158), (50, 130), (50, 100)]),
          filled (Color ''#0a0a0a'') (Ellipse 38 156 8 3)])"

definition FighterBody :: "character_design \<Rightarrow> string \<Rightarrow> svg_shape list" where
  "FighterBody design characterId =
     (let fill = Gradient (''outfit-'' @ characterId)
      in [filled fill (Polygon [(28, 52), (72, 52), (70, 100), (30, 100)]),
          filled (Color (cd_outfitTrim design)) (Polygon [(44, 52), (50, 72), (56, 52)]),
          filled (Color (cd_outfitTrim design)) (Rect 29 92 42 7),
          faded (Color (cd_outfitTrim design)) (7 / 10) (Rect 48 92 4 14)])"

definition FighterArmBack :: "character_design \<Rightarrow> svg_shape list" where
  "FighterArmBack design =
     [filled (Color (cd_outfitMain design)) (Polygon [(32, 52), (18, 78), (24, 84), (38, 58)]),
      filled (Color (cd_outfitTrim design)) (Rect 18 75 8 3),
      filled (Color SKIN) (Circle 20 82 5)]"

definition FighterArmFront :: "character_design \<Rightarrow> svg_shape list" where
  "FighterArmFront design =
     [filled (Color (cd_outfitMain design)) (Polygon [(68, 52), (86, 74), (80, 80), (62, 58)]),
      filled (Color (cd_outfitTrim design)) (Rect 78 72 8 3),
      filled (Color SKIN) (Circle 84 78 (65 / 10)),
      stroked NoFill SKIN_SHADOW (6 / 10) (Circle 84 78 (65 / 10))]"

definition Head :: "svg_shape list" where
  "Head = [filled (Color SKIN_SHADOW) (Rect 46 44 8 6), filled (Color SKIN) (Ellipse 50 32 14 16),
           faded (Color SKIN_SHADOW) (45 / 100) (Ellipse 50 42 9 4)]"

subsubsection \<open>Face\<close>

datatype eyes_shape = EyesDefault | EyesX | EyesSquint | EyesWide
datatype mouth_shape = MouthNeutral | MouthShout | MouthOuch | MouthGrin | MouthKo

definition eyes_of :: "fighter_pose \<Rightarrow> eyes_shape" where
  "eyes_of pose = (if pose = FpKo then EyesX else if pose = FpHit then EyesSquint
     else if pose = FpVictory then EyesWide else EyesDefault)"

definition brows_fierce :: "fighter_pose \<Rightarrow> bool" where
  "brows_fierce pose \<longleftrightarrow> pose = FpWindup \<or> pose = FpImpact \<or> pose = FpVictory"

definition mouth_of :: "fighter_pose \<Rightarrow> mouth_shape" where
  "mouth_of pose = (if pose = FpWindup \<or> pose = FpImpact then MouthShout else if pose = FpHit then MouthOuch
     else if pose = FpVictory then MouthGrin else if pose = FpKo then MouthKo else MouthNeutral)"

definition Eyebrows :: "bool \<Rightarrow> svg_shape list" where
  "Eyebrows fierce =
     (if fierce then [stroked NoFill ''#1a0a0a'' 2 (line2 38 24 47 28), stroked NoFill ''#1a0a0a'' 2 (line2 62 24 53 28)]
      else [stroked NoFill ''#1a0a0a'' (18 / 10) (line2 39 24 47 24), stroked NoFill ''#1a0a0a'' (18 / 10) (line2 53 24 61 24)])"

definition Eyes :: "eyes_shape \<Rightarrow> string \<Rightarrow> fighter_pose \<Rightarrow> svg_shape list" where
  "Eyes shape iris pose =
     (if shape = EyesX then
        map (stroked NoFill ''#1a0a0a'' (18 / 10)) [line2 40 30 47 34, line2 47 30 40 34, line2 53 30 60 34, line2 60 30 53 34]
      else if shape = EyesSquint then
        [stroked NoFill ''#1a0a0a'' 2 (curve3 40 32 44 30 47 32), stroked NoFill ''#1a0a0a'' 2 (curve3 53 32 56 30 60 32)]
      else
        (let irisR = (if shape = EyesWide then 26 / 10 else 23 / 10);
             pupilR = (if shape = EyesWide then 13 / 10 else 11 / 10);
             lookX = (if pose = FpWindup then - 7 / 10 else if pose = FpImpact then 9 / 10 else 0)
         in [filled (Color ''white'') (Ellipse 44 32 (34 / 10) (42 / 10)), filled (Color ''white'') (Ellipse 56 32 (34 / 10) (42 / 10)),
             stroked NoFill ''#1a0a0a'' (6 / 10) (Ellipse 44 32 (34 / 10) (42 / 10)),
             stroked NoFill ''#1a0a0a'' (6 / 10) (Ellipse 56 32 (34 / 10) (42 / 10)),
             filled (Color iris) (Circle (44 + lookX) (325 / 10) irisR), filled (Color iris) (Circle (56 + lookX) (325 / 10) irisR),
             filled (Color PUPIL) (Circle (44 + lookX) (325 / 10) pupilR), filled (Color PUPIL) (Circle (56 + lookX) (325 / 10) pupilR),
             filled (Color ''white'') (Circle (448 / 10 + lookX) (314 / 10) (7 / 10)),
             filled (Color ''white'') (Circle (568 / 10 + lookX) (314 / 10) (7 / 10))]))"

definition Nose :: "svg_shape list" where
  "Nose = [faded (Color SKIN_SHADOW) (75 / 100) (Ellipse 50 36 (9 / 10) (14 / 10))]"

fun Mouth :: "mouth_shape \<Rightarrow> svg_shape list" where
  "Mouth MouthShout = [filled (Color ''#2a0a0a'') (Ellipse 50 41 3 (26 / 10)), faded (Color ''white'') (85 / 100) (Rect 48 40 4 1)]"
| "Mouth MouthOuch = [stroked NoFill ''#2a0a0a'' (16 / 10) (curve3 47 41 50 39 53 41)]"
| "Mouth MouthGrin = [stroked NoFill ''#2a0a0a'' (15 / 10) (curve3 44 39 50 45 56 39),
     faded (Color ''white'') (85 / 100) (Path [MoveTo 44 39, QuadTo 50 42 56 39, QuadTo 50 41 44 39, ClosePath])]"
| "Mouth MouthKo = [stroked NoFill ''#2a0a0a'' (16 / 10) (line2 47 41 53 41)]"
| "Mouth MouthNeutral = [stroked NoFill ''#2a0a0a'' (14 / 10) (curve3 47 40 50 42 53 40)]"

definition Face :: "character \<Rightarrow> character_design \<Rightarrow> fighter_pose \<Rightarrow> svg_shape list" where
  "Face character design pose =
     (let iris = nullish (cd_iris design) (ch_color character)
      in Eyebrows (brows_fierce pose) @ Eyes (eyes_of pose) iris pose @ Nose @ Mouth (mouth_of pose))"

subsubsection \<open>Hair and accessory\<close>

definition HairBack :: "character_design \<Rightarrow> string \<Rightarrow> svg_shape list" where
  "HairBack design characterId =
     (let fill = Gradient (''hair-'' @ characterId)
      in case cd_hair design of
           LongFlow \<Rightarrow>
             [filled fill (Path [MoveTo 30 22, QuadTo 22 60 30 90, LineTo 42 92, QuadTo 36 50 38 26, ClosePath,
                                 MoveTo 70 22, QuadTo 78 60 70 90, LineTo 58 92, QuadTo 64 50 62 26, ClosePath])]
         | BurstSpike \<Rightarrow>
             [filled fill (Path [MoveTo 30 22, LineTo 22 6, LineTo 32 18, LineTo 24 0, LineTo 38 16, LineTo 28 (- 4), LineTo 44 14,
                                 LineTo 50 (- 8), LineTo 56 14, LineTo 72 (- 4), LineTo 62 16, LineTo 76 0, LineTo 68 18, LineTo 78 6,
                                 LineTo 70 22, ClosePath])]
         | Topknot \<Rightarrow>
             [filled fill (Ellipse 50 22 17 12), filled fill (Ellipse 50 6 (65 / 10) (65 / 10)),
              filled (Color (darken (cd_hairColor design) (5 / 10))) (Rect 48 8 4 6)]
         | SidePony \<Rightarrow>
             [filled fill (Ellipse 50 22 16 12),
              filled fill (Path [MoveTo 64 26, QuadTo 84 50 72 78, LineTo 64 76, QuadTo 76 50 60 32, ClosePath])]
         | Swept \<Rightarrow>
             [filled fill (Ellipse 50 22 17 13),
              filled fill (Path [MoveTo 30 22, LineTo 36 60, LineTo 44 56, LineTo 38 24, ClosePath]),
              filled fill (Path [MoveTo 70 22, LineTo 64 60, LineTo 56 56, LineTo 62 24, ClosePath])]
         | PartedBangs \<Rightarrow> [filled fill (Ellipse 50 22 16 12)])"

definition HairFront :: "character_design \<Rightarrow> string \<Rightarrow> svg_shape list" where
  "HairFront design characterId =
     (let fill = Gradient (''hair-'' @ characterId)
      in [filled fill (Path (case cd_hair design of
           BurstSpike \<Rightarrow> [MoveTo 30 22, LineTo 36 (- 2), LineTo 42 16, LineTo 48 (- 6), LineTo 54 16, LineTo 60 (- 2), LineTo 68 22, ClosePath]
         | LongFlow \<Rightarrow> [MoveTo 35 22, LineTo 42 18, LineTo 44 30, LineTo 38 32, ClosePath,
                        MoveTo 65 22, LineTo 58 18, LineTo 56 30, LineTo 62 32, ClosePath,
                        MoveTo 38 18, QuadTo 50 8 62 18, LineTo 62 14, QuadTo 50 4 38 14, ClosePath]
         | Swept \<Rightarrow> [MoveTo 34 18, LineTo 60 30, LineTo 64 22, LineTo 66 14, QuadTo 50 6 34 14, ClosePath]
         | Topknot \<Rightarrow> [MoveTo 38 22, QuadTo 50 12 62 22, LineTo 62 18, QuadTo 50 10 38 18, ClosePath]
         | SidePony \<Rightarrow> [MoveTo 36 22, QuadTo 50 14 64 22, LineTo 62 16, QuadTo 50 8 38 16, ClosePath]
         | PartedBangs \<Rightarrow> [MoveTo 36 22, QuadTo 42 18 48 24, LineTo 52 24, QuadTo 58 18 64 22, LineTo 64 16, QuadTo 50 8 36 16, ClosePath]))])"

definition Accessory :: "character_design \<Rightarrow> svg_shape list" where
  "Accessory design =
     (case cd_accessory design of
        Headband \<Rightarrow> [filled (Color ''#0F172A'') (Rect 34 19 32 4), filled (Color (cd_outfitTrim design)) (Rect 34 19 32 (6 / 10)),
          filled (Color ''#9CA3AF'') (Rect 46 (185 / 10) 8 5), stroked NoFill ''#4B5563'' (4 / 10) (Rect 46 (185 / 10) 8 5)]
      | MonkDot \<Rightarrow> [stroked (Color (cd_outfitTrim design)) ''white'' (3 / 10) (Circle 50 22 2)]
      | Moon \<Rightarrow> [filled (Color (cd_outfitTrim design))
          (Path [MoveTo 50 18, ArcTo 3 3 0 True True 47 18, ArcTo 2 2 0 True False 50 18, ClosePath])]
      | Beard \<Rightarrow> [faded (Color ''#1f1108'') (85 / 100)
          (Path [MoveTo 42 42, QuadTo 50 50 58 42, QuadTo 54 47 50 47, QuadTo 46 47 42 42, ClosePath])]
      | Earring \<Rightarrow> [filled (Color (cd_outfitMain design)) (Ellipse (365 / 10) 38 (15 / 10) (22 / 10))]
      | Clip \<Rightarrow> [stroked (Color (cd_outfitTrim design)) ''white'' (4 / 10)
          (Polygon [(39, 16), (42, 185 / 10), (39, 21), (36, 185 / 10)])]
      | Scar \<Rightarrow> [stroked NoFill ''#7C2D12'' (8 / 10) (line2 41 28 38 36)]
      | NoAccessory \<Rightarrow> [])"

subsubsection \<open>The drawing\<close>

text \<open>The gradients defined in front of the figure, with their two colours.\<close>

definition sprite_gradients :: "character \<Rightarrow> (string \<times> string \<times> string) list" where
  "sprite_gradients character =
     (let design = designFor character
      in [(''outfit-'' @ ch_id character, cd_outfitMain design, darken (cd_outfitMain design) (35 / 100)),
          (''hair-'' @ ch_id character, nullish (cd_hairTip design) (cd_hairColor design), cd_hairColor design),
          (''pants-'' @ ch_id character, PANTS, ''#0a0e16'')])"

definition sprite_figure :: "character \<Rightarrow> fighter_pose \<Rightarrow> svg_shape list" where
  "sprite_figure character pose =
     (let design = designFor character; i = ch_id character
      in FighterLegs i @ FighterBody design i @ FighterArmBack design @ HairBack design i @ Head @
         Face character design pose @ HairFront design i @ Accessory design @ FighterArmFront design)"

subsubsection \<open>Every figure is well formed\<close>

text \<open>
  Points whose rectangle contains the shape: a quadratic curve stays within its control points, an
  arc within the diameters about its end.
\<close>

fun op_points :: "path_op \<Rightarrow> (real \<times> real) list" where
  "op_points (MoveTo x y) = [(x, y)]"
| "op_points (LineTo x y) = [(x, y)]"
| "op_points (QuadTo a b x y) = [(a, b), (x, y)]"
| "op_points (ArcTo rx ry rot large sweep x y) = [(x - 2 * rx, y - 2 * ry), (x + 2 * rx, y + 2 * ry)]"
| "op_points ClosePath = []"

fun geo_points :: "svg_geometry \<Rightarrow> (real \<times> real) list" where
  "geo_points (Polygon ps) = ps"
| "geo_points (Ellipse cx cy rx ry) = [(cx - rx, cy - ry), (cx + rx, cy + ry)]"
| "geo_points (Circle cx cy r) = [(cx - r, cy - r), (cx + r, cy + r)]"
| "geo_points (Rect x y w h) = [(x, y), (x + w, y + h)]"
| "geo_points (Path ops) = concat (map op_points ops)"

definition stroke_margin :: "svg_shape \<Rightarrow> real" where
  "stroke_margin s = (case svg_stroke s of None \<Rightarrow> 0 | Some _ \<Rightarrow> svg_strokeWidth s / 2)"

text \<open>The view box is 120 by 190 from (-10, -20).\<close>

definition in_view :: "svg_shape \<Rightarrow> bool" where
  "in_view s \<longleftrightarrow> list_all (\<lambda>(x, y). - 10 \<le> x - stroke_margin s \<and> x + stroke_margin s \<le> 110 \<and>
      - 20 \<le> y - stroke_margin s \<and> y + stroke_margin s \<le> 170) (geo_points (svg_geo s))"

definition css_color :: "string \<Rightarrow> bool" where
  "css_color s \<longleftrightarrow> s = ''white'' \<or> hex_color s"

definition painted :: "string list \<Rightarrow> svg_shape \<Rightarrow> bool" where
  "painted gradients s \<longleftrightarrow>
     (case svg_fill s of Color c \<Rightarrow> css_color c | Gradient g \<Rightarrow> g \<in> set gradients | NoFill \<Rightarrow> svg_stroke s \<noteq> None) \<and>
     (case svg_stroke s of None \<Rightarrow> True | Some c \<Rightarrow> css_color c) \<and> 0 \<le> svg_opacity s \<and> svg_opacity s \<le> 1"

definition design_ok :: "character_design \<Rightarrow> bool" where
  "design_ok d \<longleftrightarrow> hex_color (cd_hairColor d) \<and> (case cd_hairTip d of None \<Rightarrow> True | Some c \<Rightarrow> hex_color c) \<and>
     hex_color (cd_outfitMain d) \<and> hex_color (cd_outfitTrim d) \<and> (case cd_iris d of None \<Rightarrow> True | Some c \<Rightarrow> hex_color c)"

definition shape_ok :: "string list \<Rightarrow> svg_shape \<Rightarrow> bool" where
  "shape_ok gradients s \<longleftrightarrow> in_view s \<and> painted gradients s"

lemmas shape_defs = shape_ok_def in_view_def painted_def stroke_margin_def filled_def faded_def stroked_def curve3_def line2_def

lemma fixed_colors [simp]:
  "css_color ''white''" "css_color ''#0a0a0a''" "css_color ''#1a0a0a''" "css_color ''#2a0a0a''" "css_color ''#0F172A''"
  "css_color ''#9CA3AF''" "css_color ''#4B5563''" "css_color ''#1f1108''" "css_color ''#7C2D12''" "css_color ''#0a0e16''"
  "css_color SKIN" "css_color SKIN_SHADOW" "css_color PUPIL" "css_color PANTS"
  by (simp_all add: css_color_def hex_color_def hex_val_def SKIN_def SKIN_SHADOW_def PUPIL_def PANTS_def)

lemma hex_css: "hex_color s \<Longrightarrow> css_color s"
  by (simp add: css_color_def)

lemma designs_ok: "list_all (\<lambda>(i, d). design_ok d) CHARACTER_DESIGN" "design_ok FALLBACK_DESIGN"
  by (simp_all add: CHARACTER_DESIGN_def FALLBACK_DESIGN_def design_ok_def hex_color_def hex_val_def)

lemma designFor_ok: "design_ok (designFor c)"
  using designs_ok
  by (auto simp: designFor_def list_all_iff dest!: map_of_SomeD split: option.split)
     (cases "map_of CHARACTER_DESIGN (ch_id c)"; auto dest!: map_of_SomeD)

lemma limbs_ok:
  assumes "design_ok d"
  shows "list_all (shape_ok [''outfit-'' @ i, ''hair-'' @ i, ''pants-'' @ i])
     (FighterLegs i @ FighterBody d i @ FighterArmBack d @ Head @ FighterArmFront d)"
  using assms
  by (simp add: FighterLegs_def FighterBody_def FighterArmBack_def Head_def FighterArmFront_def shape_defs design_ok_def css_color_def [of "cd_outfitMain d"]
      css_color_def [of "cd_outfitTrim d"] Let_def)

lemma face_ok:
  assumes "design_ok d" and "hex_color (ch_color c)"
  shows "list_all (shape_ok gs) (Face c d pose)"
proof -
  have "css_color (nullish (cd_iris d) (ch_color c))"
    using assms by (auto simp: design_ok_def css_color_def split: option.splits)
  then show ?thesis
    by (cases pose) (simp_all add: Face_def Eyebrows_def Eyes_def Nose_def eyes_of_def brows_fierce_def mouth_of_def shape_defs Let_def)
qed

lemma hair_ok:
  assumes "design_ok d"
  shows "list_all (shape_ok [''outfit-'' @ i, ''hair-'' @ i, ''pants-'' @ i]) (HairBack d i @ HairFront d i)"
proof -
  have "css_color (darken (cd_hairColor d) (5 / 10))"
    using assms darken_hex_color [of "cd_hairColor d" "5 / 10"] by (simp add: design_ok_def css_color_def)
  then show ?thesis
    by (cases "cd_hair d") (simp_all add: HairBack_def HairFront_def shape_defs Let_def)
qed

lemma accessory_ok: "design_ok d \<Longrightarrow> list_all (shape_ok gs) (Accessory d)"
  by (cases "cd_accessory d")
    (simp_all add: Accessory_def shape_defs design_ok_def css_color_def [of "cd_outfitMain d"] css_color_def [of "cd_outfitTrim d"])

text \<open>
  The figure drawn when no image can be loaded is well formed for every fighter in every pose: every
  shape lies inside the view box, strokes included, every colour is a CSS colour (also the darkened
  ones), and every gradient a shape refers to is defined in the same drawing, once.
\<close>

theorem sprite_well_drawn:
  assumes "hex_color (ch_color c)"
  shows "list_all (shape_ok (map fst (sprite_gradients c))) (sprite_figure c pose) \<and>
    distinct (map fst (sprite_gradients c)) \<and>
    list_all (\<lambda>(g, a, b). css_color a \<and> css_color b) (sprite_gradients c)"
proof -
  let ?d = "designFor c" and ?i = "ch_id c"
  have names: "map fst (sprite_gradients c) = [''outfit-'' @ ?i, ''hair-'' @ ?i, ''pants-'' @ ?i]"
    by (simp add: sprite_gradients_def Let_def)
  have "list_all (shape_ok (map fst (sprite_gradients c))) (sprite_figure c pose)"
    using limbs_ok [OF designFor_ok, of ?i c] hair_ok [OF designFor_ok, of ?i c] face_ok [OF designFor_ok assms]
      accessory_ok [OF designFor_ok]
    unfolding names sprite_figure_def Let_def by simp
  moreover have "distinct (map fst (sprite_gradients c))" unfolding names by simp
  moreover have "list_all (\<lambda>(g, a, b). css_color a \<and> css_color b) (sprite_gradients c)"
    using designFor_ok [of c] darken_hex_color [of "cd_outfitMain ?d" "35 / 100"]
    by (auto simp: sprite_gradients_def design_ok_def Let_def intro: hex_css split: option.splits)
  ultimately show ?thesis by blast
qed

lemma sprite_well_drawn_witness:
  "list_all (shape_ok (map fst (sprite_gradients (hd CHARACTERS)))) (sprite_figure (hd CHARACTERS) FpKo)"
  using sprite_well_drawn [of "hd CHARACTERS" FpKo] by (simp add: CHARACTERS_def hex_color_def hex_val_def)

end
