(* ===== verification/Arena.thy ===== *)
theory Arena
  imports PvP_Page Fighter_Sprite
begin

text \<open>
  The battle arena \<open>web/src/components/arena/KiAuraArena.tsx\<close>: which pose each fighter takes, which
  effects are on the screen and how long their motions last, the effects that cross the screen and
  their confetti; and what the AI page and the PvP page pass to it.  Colours, gradients and easing
  are not modelled.  Times are in milliseconds.
\<close>

subsection \<open>Fighters\<close>

datatype arena_side = LeftSide | RightSide

definition arena_pose :: "arena_side \<Rightarrow> action_phase \<Rightarrow> turn_outcome option \<Rightarrow> fighter_pose" where
  "arena_pose side phase outcome =
     (if phase = PhImpact \<and> side = LeftSide \<and> outcome = Some P2WinsRound then FpHit
      else if phase = PhImpact \<and> side = RightSide \<and> outcome = Some P1WinsRound then FpHit
      else if phase = PhWindup then FpWindup
      else if phase = PhImpact then FpImpact
      else if phase = PhRecover then FpRecover
      else FpIdle)"

record arena_fighter =
  af_pose :: fighter_pose
  af_flip :: bool
  af_opacity :: real
  af_fastAura :: bool
  af_name :: string
  af_fx :: "(action_kind \<times> action_phase) option"

text \<open>A fighter with its aura; a teleporting one is nearly invisible during the impact.\<close>

definition FighterWithAura ::
  "character \<Rightarrow> action_kind option \<Rightarrow> action_phase \<Rightarrow> turn_outcome option \<Rightarrow> arena_side \<Rightarrow> bool \<Rightarrow> arena_fighter" where
  "FighterWithAura character act phase outcome side flip =
     (let teleportHiding = (act = Some KTeleport \<and> phase = PhImpact)
      in \<lparr>af_pose = arena_pose side phase outcome, af_flip = flip,
          af_opacity = (if teleportHiding then 15 / 100 else 1), af_fastAura = (phase \<noteq> PhIdle), af_name = ch_name character,
          af_fx = (case act of None \<Rightarrow> None | Some a \<Rightarrow> if phase = PhIdle then None else Some (a, phase))\<rparr>)"

record arena_props =
  ap_playerCharacterId :: string
  ap_aiCharacterId :: string
  ap_playerAction :: "action_kind option"
  ap_aiAction :: "action_kind option"
  ap_phase :: action_phase
  ap_outcome :: "turn_outcome option"

definition KiAuraArena :: "arena_props \<Rightarrow> (arena_fighter \<times> arena_fighter) option" where
  "KiAuraArena p =
     (case (getCharacter (ap_playerCharacterId p), getCharacter (ap_aiCharacterId p)) of
        (Some player, Some ai) \<Rightarrow>
          Some (FighterWithAura player (ap_playerAction p) (ap_phase p) (ap_outcome p) LeftSide False,
                FighterWithAura ai (ap_aiAction p) (ap_phase p) (ap_outcome p) RightSide True)
      | _ \<Rightarrow> None)"

text \<open>The stars of the background: place in percent, size, opacity, delay and duration in seconds.\<close>

definition STAR_POSITIONS :: "(int \<times> int \<times> int \<times> real \<times> real \<times> real) list" where
  "STAR_POSITIONS =
   [(8, 15, 2, 7 / 10, 0, 3), (22, 8, 1, 5 / 10, 5 / 10, 4), (35, 22, 3, 8 / 10, 1, 35 / 10), (48, 12, 1, 4 / 10, 15 / 10, 5),
    (62, 18, 2, 6 / 10, 2, 4), (78, 6, 1, 5 / 10, 3 / 10, 32 / 10), (88, 24, 2, 7 / 10, 18 / 10, 45 / 10),
    (15, 32, 1, 4 / 10, 8 / 10, 38 / 10), (55, 28, 2, 6 / 10, 25 / 10, 42 / 10), (70, 35, 1, 5 / 10, 12 / 10, 36 / 10),
    (92, 40, 2, 6 / 10, 6 / 10, 48 / 10), (5, 45, 1, 4 / 10, 22 / 10, 34 / 10)]"

subsection \<open>What the pages show\<close>

definition play_arena :: "game \<Rightarrow> anim \<Rightarrow> arena_props" where
  "play_arena g a =
     (let idle = (g_phase g = GPlaying)
      in \<lparr>ap_playerCharacterId = nullish (g_playerCharacterId g) [], ap_aiCharacterId = nullish (g_aiCharacterId g) [],
          ap_playerAction = (if idle then None else an_action a),
          ap_aiAction = (if idle then None else aiArenaAction (an_action a) (g_lastTurn g)),
          ap_phase = (if idle then PhIdle else an_phase a),
          ap_outcome = (if idle then None else map_option tr_outcome (g_lastTurn g))\<rparr>)"

definition pvp_arena :: "string \<Rightarrow> string \<Rightarrow> pvp_phase \<Rightarrow> anim \<Rightarrow> turn_data option \<Rightarrow> arena_props" where
  "pvp_arena player opponent phase a t =
     (let shown = (phase = PRevealing \<or> phase = PRoundEnd)
      in \<lparr>ap_playerCharacterId = player, ap_aiCharacterId = opponent,
          ap_playerAction = (if shown then an_action a else None),
          ap_aiAction = (if shown then opponentArenaAction (an_action a) t else None),
          ap_phase = (if shown then an_phase a else PhIdle),
          ap_outcome = (if shown then arenaOutcome t else None)\<rparr>)"

text \<open>What a fighter should do in each phase, given whether it lost the turn.\<close>

fun pose_in :: "action_phase \<Rightarrow> bool \<Rightarrow> fighter_pose" where
  "pose_in PhIdle lost = FpIdle"
| "pose_in PhWindup lost = FpWindup"
| "pose_in PhImpact lost = (if lost then FpHit else FpImpact)"
| "pose_in PhRecover lost = FpRecover"

lemma arena_pose_pose_in:
  "arena_pose LeftSide ph out = pose_in ph (out = Some P2WinsRound)"
  "arena_pose RightSide ph out = pose_in ph (out = Some P1WinsRound)"
  by (cases ph; simp add: arena_pose_def)+

text \<open>How a fighter should be drawn: its own picture, in that pose, with the effects of its action.\<close>

definition fighter_drawn :: "character \<Rightarrow> action_kind \<Rightarrow> action_phase \<Rightarrow> bool \<Rightarrow> bool \<Rightarrow> arena_fighter" where
  "fighter_drawn c k ph lost mirrored =
     \<lparr>af_pose = pose_in ph lost, af_flip = mirrored,
      af_opacity = (if k = KTeleport \<and> ph = PhImpact then 15 / 100 else 1), af_fastAura = (ph \<noteq> PhIdle),
      af_name = ch_name c, af_fx = (if ph = PhIdle then None else Some (k, ph))\<rparr>"

lemma anim_later:
  assumes "a = snd (run (anim_step opts) (anim_step opts (run (anim_step opts) (no_timers, anim_init) es) (Trigger k))
     (map Wait (e # ms)))"
  shows "an_phase a = phase_after opts (e + sum_list ms)"
    and "an_action a = (if phase_after opts (e + sum_list ms) = PhIdle then None else Some k)"
proof -
  have waits: "run (anim_step opts) ts' (map Wait xs) = fold (elapse anim_exec) xs ts'" for ts' xs
    by (induction xs arbitrary: ts') simp_all
  show "an_phase a = phase_after opts (e + sum_list ms)"
    "an_action a = (if phase_after opts (e + sum_list ms) = PhIdle then None else Some k)"
    unfolding assms by (simp_all add: waits elapse_pieces anim_after_trigger [OF an.always])
qed

lemma fighter_view:
  "FighterWithAura c (if ph = PhIdle then None else Some k) ph out LeftSide m = fighter_drawn c k ph (out = Some P2WinsRound) m"
  "FighterWithAura c (if ph = PhIdle then None else Some k) ph out RightSide m = fighter_drawn c k ph (out = Some P1WinsRound) m"
  by (simp_all add: FighterWithAura_def fighter_drawn_def arena_pose_pose_in)

text \<open>
  Claim C32: whoever loses the turn recoils, and nobody else.  Whatever was animated before and however the time
  since the trigger is split, the arena of the AI page draws the player's fighter on the left and the
  opponent's, mirrored, on the right, each with the effects of its own action, in the phase of that
  moment, and during the impact the one whose action the rules say lost in the recoil; the arena of
  either player's PvP page does the same from that player's side, with the opponent's action and the
  outcome of the message the server sent to them.
\<close>

theorem loser_recoils:
  assumes "a = snd (run (anim_step default_options) (anim_step default_options
      (run (anim_step default_options) (no_timers, anim_init) es) (Trigger k)) (map Wait (e # ms)))"
    and "ph = phase_after default_options (e + sum_list ms)"
    and "g_phase g \<noteq> GPlaying" and "g_lastTurn g = Some (resolve_turn n a1 a2 k1 k2)"
    and "g_playerCharacterId g = Some i" and "g_aiCharacterId g = Some j"
    and "getCharacter i = Some c" and "getCharacter j = Some d"
    and "pvp = PRevealing \<or> pvp = PRoundEnd"
  shows "KiAuraArena (play_arena g a) = Some
      (fighter_drawn c k ph (resolve_actions a1 a2 = P2WinsRound) False,
       fighter_drawn d (API_TO_ACTION a2) ph (resolve_actions a1 a2 = P1WinsRound) True) \<and>
    KiAuraArena (pvp_arena i j pvp a (Some (turn_data_of p (resolve_turn n a1 a2 k1 k2)))) = Some
      (fighter_drawn c k ph (resolve_actions (own p a1 a2) (opp p a1 a2) = P2WinsRound) False,
       fighter_drawn d (API_TO_ACTION (opp p a1 a2)) ph (resolve_actions (own p a1 a2) (opp p a1 a2) = P1WinsRound) True)"
proof -
  let ?t = "turn_data_of p (resolve_turn n a1 a2 k1 k2)"
  have a: "an_phase a = ph" "an_action a = (if ph = PhIdle then None else Some k)"
    unfolding assms(2) by (rule anim_later [OF assms(1)])+
  have out: "arenaOutcome (Some ?t) = Some (resolve_actions (own p a1 a2) (opp p a1 a2))"
    using arenaOutcome_flip [of ?t "resolve_actions a1 a2" p] resolve_actions_swap [of a2 a1]
    by (cases p) simp_all
  have act: "aiArenaAction (an_action a) (g_lastTurn g) = (if ph = PhIdle then None else Some (API_TO_ACTION a2))"
    "opponentArenaAction (an_action a) (Some ?t) = (if ph = PhIdle then None else Some (API_TO_ACTION (opp p a1 a2)))"
    by (simp_all add: a assms(4) aiArenaAction_def opponentArenaAction_def action_of_str_inv)
  have "KiAuraArena (play_arena g a) = Some
      (FighterWithAura c (if ph = PhIdle then None else Some k) ph (Some (resolve_actions a1 a2)) LeftSide False,
       FighterWithAura d (if ph = PhIdle then None else Some (API_TO_ACTION a2)) ph (Some (resolve_actions a1 a2)) RightSide True)"
    using assms(3-8) a act by (simp add: KiAuraArena_def play_arena_def Let_def)
  moreover have "KiAuraArena (pvp_arena i j pvp a (Some ?t)) = Some
      (FighterWithAura c (if ph = PhIdle then None else Some k) ph (Some (resolve_actions (own p a1 a2) (opp p a1 a2))) LeftSide False,
       FighterWithAura d (if ph = PhIdle then None else Some (API_TO_ACTION (opp p a1 a2))) ph
         (Some (resolve_actions (own p a1 a2) (opp p a1 a2))) RightSide True)"
    using assms(7-9) a act out by (auto simp: KiAuraArena_def pvp_arena_def Let_def)
  ultimately show ?thesis by (simp only: fighter_view option.inject)
qed

lemma loser_recoils_witness:
  "\<exists>l r. KiAuraArena (play_arena (game_init\<lparr>g_phase := GRevealing, g_lastTurn := Some (resolve_turn 1 Attack Charge 1 0),
       g_playerCharacterId := Some ''haneul'', g_aiCharacterId := Some ''bora''\<rparr>)
     (snd (run (anim_step default_options) (anim_step default_options
        (run (anim_step default_options) (no_timers, anim_init) []) (Trigger KAttack)) (map Wait [700, 100])))) = Some (l, r) \<and>
     af_pose l = FpImpact \<and> af_pose r = FpHit \<and> af_flip r"
proof -
  let ?g = "game_init\<lparr>g_phase := GRevealing, g_lastTurn := Some (resolve_turn 1 Attack Charge 1 0),
       g_playerCharacterId := Some ''haneul'', g_aiCharacterId := Some ''bora''\<rparr>"
  have ph: "PhImpact = phase_after default_options (700 + sum_list [100])"
    by (simp add: phase_after_def default_options_def)
  obtain c d where c: "getCharacter ''haneul'' = Some c" and d: "getCharacter ''bora'' = Some d"
    by (simp add: getCharacter_def CHARACTERS_def)
  have "resolve_actions Attack Charge = P1WinsRound" by simp
  with loser_recoils [OF refl ph _ _ _ _ c d, of ?g 1 Attack Charge 1 0 PRevealing "[]" KAttack] show ?thesis
    by (simp add: fighter_drawn_def del: run.simps)
qed

subsection \<open>Effects of an action\<close>

text \<open>A motion of an effect: its key, when it starts and how long it takes, and whether it repeats.\<close>

record fx_layer =
  ly_key :: string
  ly_delay :: nat
  ly_duration :: nat
  ly_loop :: bool

definition once :: "string \<Rightarrow> nat \<Rightarrow> nat \<Rightarrow> fx_layer" where
  "once k delay duration = \<lparr>ly_key = k, ly_delay = delay, ly_duration = duration, ly_loop = False\<rparr>"

definition forever :: "string \<Rightarrow> nat \<Rightarrow> nat \<Rightarrow> fx_layer" where
  "forever k delay duration = \<lparr>ly_key = k, ly_delay = delay, ly_duration = duration, ly_loop = True\<rparr>"

definition numbered :: "string \<Rightarrow> nat \<Rightarrow> string" where
  "numbered k i = k @ ''-'' @ show_nat i"

text \<open>
  What an effect gives to its \<open>AnimatePresence\<close>: whether its child is there, how long the exits of the moving
  elements in it take (\<open>None\<close> where the code leaves the duration to the library; elements without an
  exit are left out), and its motions.
\<close>

record presence_child =
  pc_shown :: bool
  pc_exits :: "nat option list"
  pc_layers :: "fx_layer list"

definition ChargeFX :: "action_phase \<Rightarrow> presence_child" where
  "ChargeFX phase =
     \<lparr>pc_shown = (phase = PhWindup \<or> phase = PhImpact), pc_exits = [None],
      pc_layers = [once ''pillar'' 0 400] @
        map (\<lambda>i. forever (numbered ''ring'' i) ([0, 200, 400] ! i) 1200) [0..<3] @
        concat (map (\<lambda>ci. map (\<lambda>i. forever (numbered (numbered ''column'' ci) i) ([0, 150, 300, 450, 600, 750] ! i + ci * 70) 1200) [0..<6]) [0..<5]) @
        map (\<lambda>i. once (numbered ''mote'' i) (i * 40) 550) [0..<8]\<rparr>"

definition BlockFX :: "action_phase \<Rightarrow> presence_child" where
  "BlockFX phase =
     \<lparr>pc_shown = (phase = PhImpact \<or> phase = PhRecover), pc_exits = [Some 300],
      pc_layers = [once ''block'' 0 300] @ map (\<lambda>i. once (numbered ''shock'' i) ([0, 150, 300] ! i) 800) [0..<3]\<rparr>"

definition AttackFX :: "action_phase \<Rightarrow> presence_child" where
  "AttackFX phase =
     \<lparr>pc_shown = (phase = PhImpact), pc_exits = [Some 180],
      pc_layers = [once ''attack'' 0 180, once ''flash'' 0 180, once ''shock-burst'' 0 280, once ''starburst'' 0 350] @
        map (\<lambda>i. once (numbered ''slash'' i) (i * 40) 250) [0..<2] @
        map (\<lambda>i. once (numbered ''debris'' i) 0 600) [0..<14]\<rparr>"

definition TeleportFX :: "action_phase \<Rightarrow> presence_child" where
  "TeleportFX phase =
     \<lparr>pc_shown = (phase = PhImpact \<or> phase = PhRecover), pc_exits = [Some 650],
      pc_layers = [once ''teleport'' 0 650] @ map (\<lambda>i. once (numbered ''chrom'' i) 0 600) [0..<2] @
        [once ''portal'' 0 550, once ''centre'' 0 400] @
        map (\<lambda>i. once (numbered ''after'' i) ([0, 100, 200] ! i) 500) [0..<3]\<rparr>"

definition EnergyChargeFX :: "action_phase \<Rightarrow> presence_child" where
  "EnergyChargeFX phase =
     \<lparr>pc_shown = (phase = PhWindup), pc_exits = [Some 500],
      pc_layers = [once ''energy-charge'' 0 500, once ''aura'' 0 550, once ''orb'' 0 550, forever ''core'' 0 300] @
        map (\<lambda>i. forever (numbered ''arc'' i) (i * 40) 500) [0..<12] @
        concat (map (\<lambda>ci. map (\<lambda>i. forever (numbered (numbered ''col'' ci) i) ([0, 150, 300] ! i + ci * 50) 900) [0..<3]) [0..<5])\<rparr>"

text \<open>\<open>None\<close>: nothing is rendered, \<open>AnimatePresence\<close> included; its children go with it at once.\<close>

fun ActionFXOverlay :: "(action_kind \<times> action_phase) option \<Rightarrow> presence_child option" where
  "ActionFXOverlay None = None"
| "ActionFXOverlay (Some (KCharge, phase)) = Some (ChargeFX phase)"
| "ActionFXOverlay (Some (KBlock, phase)) = Some (BlockFX phase)"
| "ActionFXOverlay (Some (KAttack, phase)) = Some (AttackFX phase)"
| "ActionFXOverlay (Some (KTeleport, phase)) = Some (TeleportFX phase)"
| "ActionFXOverlay (Some (KEnergyWave, phase)) = Some (EnergyChargeFX phase)"
| "ActionFXOverlay (Some (KVictory, phase)) = None"
| "ActionFXOverlay (Some (KDefeat, phase)) = None"

text \<open>A beam and a fist, as children of the \<open>AnimatePresence\<close> across the arena; only three parts of the beam have an exit.\<close>

definition KiBurstBeam :: "bool \<Rightarrow> presence_child" where
  "KiBurstBeam shown =
     \<lparr>pc_shown = shown, pc_exits = [Some 300, Some 350, Some 320],
      pc_layers = [once ''beam-glow'' 0 300, once ''beam-main'' 0 350, once ''beam-core'' 0 320] @
        map (\<lambda>i. once (numbered ''arc'' i) (100 + i * 50) 500) [0..<4] @
        [once ''beam-impact-glow'' 250 700, once ''beam-screen-flash'' 200 450] @
        map (\<lambda>i. once (numbered ''smoke'' i) 400 900) [0..<6]\<rparr>"

definition flying_fist :: "bool \<Rightarrow> presence_child" where
  "flying_fist shown = \<lparr>pc_shown = shown, pc_exits = [Some 320], pc_layers = [once ''punch'' 0 320]\<rparr>"

text \<open>The end of a motion that starts when its effect appears.\<close>

definition ly_end :: "fx_layer \<Rightarrow> nat" where
  "ly_end l = ly_delay l + ly_duration l"

subsection \<open>Children that leave\<close>

text \<open>
  What the code relies on of framer-motion's \<open>AnimatePresence\<close>: a child that is no longer given stays on the screen
  until the exits of its elements are over (\<open>keep\<close> is how long an exit takes, given the duration the
  code sets), a child given again is simply there, and without the \<open>AnimatePresence\<close> there is no child.
\<close>

datatype presence = Gone | Present | Leaving nat

definition leave_ms :: "(nat option \<Rightarrow> nat) \<Rightarrow> presence_child \<Rightarrow> nat" where
  "leave_ms keep c = foldr max (map keep (pc_exits c)) 0"

definition presence_render :: "(nat option \<Rightarrow> nat) \<Rightarrow> presence_child option \<Rightarrow> presence \<Rightarrow> presence" where
  "presence_render keep child s =
     (case child of None \<Rightarrow> Gone
      | Some c \<Rightarrow>
          if pc_shown c then Present
          else if s = Present then (if leave_ms keep c = 0 then Gone else Leaving (leave_ms keep c)) else s)"

fun presence_tick :: "presence \<Rightarrow> presence" where
  "presence_tick (Leaving r) = (if r \<le> 1 then Gone else Leaving (r - 1))"
| "presence_tick s = s"

text \<open>The child a number of milliseconds after a trigger, drawn again at every one of them.\<close>

fun presence_at :: "(nat option \<Rightarrow> nat) \<Rightarrow> (nat \<Rightarrow> presence_child option) \<Rightarrow> nat \<Rightarrow> presence" where
  "presence_at keep child 0 = presence_render keep (child 0) Gone"
| "presence_at keep child (Suc e) = presence_render keep (child (Suc e)) (presence_tick (presence_at keep child e))"

lemma presence_window:
  assumes "\<And>e. child e = (if z e then None else Some (c e))"
    and "\<And>e. \<not> z e \<Longrightarrow> pc_shown (c e) \<longleftrightarrow> a \<le> e \<and> e < b" and "\<And>e. leave_ms keep (c e) = l"
    and "a < b" and "\<And>e. z e \<Longrightarrow> b \<le> e" and "\<And>e. z e \<Longrightarrow> z (Suc e)"
  shows "presence_at keep child e =
    (if z e \<or> e < a then Gone else if e < b then Present else if e < b + l then Leaving (b + l - e) else Gone)"
proof (induction e)
  case 0
  have "\<not> z 0" using assms(5) [of 0] assms(4) by auto
  then show ?case using assms(4) by (simp add: presence_render_def assms(1,2))
next
  case (Suc e)
  show ?case
  proof (cases "z (Suc e)")
    case True
    then show ?thesis by (simp add: presence_render_def assms(1))
  next
    case False
    then have n: "\<not> z e" using assms(6) by blast
    have "child (Suc e) = Some (c (Suc e))" using assms(1) False by simp
    moreover have "pc_shown (c (Suc e)) \<longleftrightarrow> a \<le> Suc e \<and> Suc e < b" by (rule assms(2) [OF False])
    ultimately show ?thesis
      unfolding presence_at.simps Suc presence_render_def using False n assms(3) [of "Suc e"] assms(4) by auto
  qed
qed

text \<open>The children of the two places that show effects, after a trigger from rest.\<close>

definition overlay_child :: "action_kind \<Rightarrow> nat \<Rightarrow> presence_child option" where
  "overlay_child k e =
     (let ph = phase_after default_options e in ActionFXOverlay (if ph = PhIdle then None else Some (k, ph)))"

definition beam_child :: "nat \<Rightarrow> presence_child option" where
  "beam_child e = Some (KiBurstBeam (phase_after default_options e = PhImpact))"

text \<open>A fist alone; beside a beam \<open>AnimatePresence\<close> keeps both until the later exit.\<close>

definition fist_child :: "nat \<Rightarrow> presence_child option" where
  "fist_child e = Some (flying_fist (phase_after default_options e = PhImpact))"

text \<open>When the effect of an action is on the screen after a trigger, in milliseconds.\<close>

fun fx_window :: "(nat option \<Rightarrow> nat) \<Rightarrow> action_kind \<Rightarrow> nat \<times> nat" where
  "fx_window keep KCharge = (0, min 2000 (1400 + keep None))"
| "fx_window keep KBlock = (600, 2000)"
| "fx_window keep KAttack = (600, 1580)"
| "fx_window keep KTeleport = (600, 2000)"
| "fx_window keep KEnergyWave = (0, 1100)"
| "fx_window keep KVictory = (0, 0)"
| "fx_window keep KDefeat = (0, 0)"

lemma idle_after: "phase_after default_options e = PhIdle \<longleftrightarrow> 2000 \<le> e"
  by (simp add: phase_after_def default_options_def)

lemmas fx_children = ChargeFX_def BlockFX_def AttackFX_def TeleportFX_def EnergyChargeFX_def KiBurstBeam_def flying_fist_def

lemma overlay_window:
  assumes "\<And>ph. ActionFXOverlay (Some (k, ph)) = Some (c ph)"
    and "\<And>e. e < 2000 \<Longrightarrow> pc_shown (c (phase_after default_options e)) \<longleftrightarrow> a \<le> e \<and> e < b"
    and "\<And>ph. leave_ms keep (c ph) = l" and "a < b" "b \<le> 2000"
  shows "presence_at keep (overlay_child k) e =
    (if 2000 \<le> e \<or> e < a then Gone else if e < b then Present else if e < b + l then Leaving (b + l - e) else Gone)"
proof (rule presence_window [where z = "\<lambda>e. 2000 \<le> e" and c = "\<lambda>e. c (phase_after default_options e)"])
  show "overlay_child k e = (if 2000 \<le> e then None else Some (c (phase_after default_options e)))" for e
    using assms(1) by (simp add: overlay_child_def Let_def idle_after)
qed (use assms in auto)

lemma overlay_presence:
  assumes "\<And>d. keep (Some d) = d"
  shows "presence_at keep (overlay_child KCharge) e =
      (if 2000 \<le> e then Gone else if e < 1400 then Present else if e < 1400 + keep None then Leaving (1400 + keep None - e) else Gone)"
    and "presence_at keep (overlay_child KBlock) e = (if 2000 \<le> e \<or> e < 600 then Gone else Present)"
    and "presence_at keep (overlay_child KAttack) e =
      (if 2000 \<le> e \<or> e < 600 then Gone else if e < 1400 then Present else if e < 1580 then Leaving (1580 - e) else Gone)"
    and "presence_at keep (overlay_child KTeleport) e = (if 2000 \<le> e \<or> e < 600 then Gone else Present)"
    and "presence_at keep (overlay_child KEnergyWave) e =
      (if 2000 \<le> e then Gone else if e < 600 then Present else if e < 1100 then Leaving (1100 - e) else Gone)"
proof -
  note d = fx_children leave_ms_def phase_after_def default_options_def assms
  show "presence_at keep (overlay_child KCharge) e =
      (if 2000 \<le> e then Gone else if e < 1400 then Present else if e < 1400 + keep None then Leaving (1400 + keep None - e) else Gone)"
    by (subst overlay_window [where c = ChargeFX and a = 0 and b = 1400 and l = "keep None"]) (simp_all add: d)
  show "presence_at keep (overlay_child KBlock) e = (if 2000 \<le> e \<or> e < 600 then Gone else Present)"
    by (subst overlay_window [where c = BlockFX and a = 600 and b = 2000 and l = 300]) (simp_all add: d)
  show "presence_at keep (overlay_child KAttack) e =
      (if 2000 \<le> e \<or> e < 600 then Gone else if e < 1400 then Present else if e < 1580 then Leaving (1580 - e) else Gone)"
    by (subst overlay_window [where c = AttackFX and a = 600 and b = 1400 and l = 180]) (simp_all add: d)
  show "presence_at keep (overlay_child KTeleport) e = (if 2000 \<le> e \<or> e < 600 then Gone else Present)"
    by (subst overlay_window [where c = TeleportFX and a = 600 and b = 2000 and l = 650]) (simp_all add: d)
  show "presence_at keep (overlay_child KEnergyWave) e =
      (if 2000 \<le> e then Gone else if e < 600 then Present else if e < 1100 then Leaving (1100 - e) else Gone)"
    by (subst overlay_window [where c = EnergyChargeFX and a = 0 and b = 600 and l = 500]) (simp_all add: d)
qed

lemma cross_presence:
  assumes "\<And>d. keep (Some d) = d"
  shows "presence_at keep beam_child e =
      (if e < 600 then Gone else if e < 1400 then Present else if e < 1750 then Leaving (1750 - e) else Gone)"
    and "presence_at keep fist_child e =
      (if e < 600 then Gone else if e < 1400 then Present else if e < 1720 then Leaving (1720 - e) else Gone)"
proof -
  note d = fx_children leave_ms_def phase_after_def default_options_def assms beam_child_def fist_child_def
  show "presence_at keep beam_child e =
      (if e < 600 then Gone else if e < 1400 then Present else if e < 1750 then Leaving (1750 - e) else Gone)"
    by (subst presence_window [where z = "\<lambda>_. False" and c = "\<lambda>e. KiBurstBeam (phase_after default_options e = PhImpact)"
          and a = 600 and b = 1400 and l = 350]) (simp_all add: d)
  show "presence_at keep fist_child e =
      (if e < 600 then Gone else if e < 1400 then Present else if e < 1720 then Leaving (1720 - e) else Gone)"
    by (subst presence_window [where z = "\<lambda>_. False" and c = "\<lambda>e. flying_fist (phase_after default_options e = PhImpact)"
          and a = 600 and b = 1400 and l = 320]) (simp_all add: d)
qed

lemma small_ranges: "[0..<2] = [0, 1]" "[0..<3] = [0, 1, 2]" "[0..<4] = [0, 1, 2, 3]" "[0..<6] = [0, 1, 2, 3, 4, 5]"
  by (simp_all add: upt_rec)

lemma layers_fit:
  "list_all (\<lambda>l. ly_loop l \<or> ly_end l \<le> 1400) (pc_layers (ChargeFX ph))"
  "list_all (\<lambda>l. ly_loop l \<or> 600 + ly_end l \<le> 2000) (pc_layers (BlockFX ph))"
  "list_all (\<lambda>l. ly_loop l \<or> 600 + ly_end l \<le> 1580) (pc_layers (AttackFX ph))"
  "list_all (\<lambda>l. ly_loop l \<or> 600 + ly_end l \<le> 2000) (pc_layers (TeleportFX ph))"
  "list_all (\<lambda>l. ly_loop l \<or> ly_end l \<le> 1100) (pc_layers (EnergyChargeFX ph))"
  by (auto simp: list_all_iff small_ranges fx_children once_def forever_def ly_end_def simp del: upt_Suc)

lemma overlay_layers_fit:
  assumes "overlay_child (API_TO_ACTION act) e = Some c"
  shows "list_all (\<lambda>l. ly_loop l \<or> fst (fx_window keep (API_TO_ACTION act)) + ly_end l \<le> snd (fx_window keep (API_TO_ACTION act)))
    (pc_layers c)"
proof -
  have weaker: "list_all (\<lambda>l. ly_loop l \<or> ly_end l \<le> min 2000 (1400 + keep None)) (pc_layers (ChargeFX ph))" for ph
    using layers_fit(1) [of ph] by (auto simp: list_all_iff)
  from assms show ?thesis
    using layers_fit weaker by (cases act) (auto simp: overlay_child_def Let_def split: if_splits)
qed

text \<open>
  Claim C33: the effect of an action, after a trigger from rest, is on the screen exactly from the first of its
  phases until the exit after the last one is over, or until the fighter is idle, which takes the whole
  overlay away; every motion that does not repeat is over by then; and since the phases of block and
  teleport end with the animation, their exits are never seen.  Of what crosses the arena, a beam stays
  for 350 ms after the impact and a fist, with no beam beside it, for 320 ms; all their motions end before, but for the beam's
  smoke, which is cut off.  (The exit of charge has the library's own duration.)
\<close>

theorem effects_fit_their_phases:
  assumes "\<And>d. keep (Some d) = d"
  shows "(presence_at keep (overlay_child (API_TO_ACTION act)) e \<noteq> Gone \<longleftrightarrow>
     fst (fx_window keep (API_TO_ACTION act)) \<le> e \<and> e < snd (fx_window keep (API_TO_ACTION act))) \<and>
   (\<forall>c. overlay_child (API_TO_ACTION act) e = Some c \<longrightarrow>
     list_all (\<lambda>l. ly_loop l \<or> fst (fx_window keep (API_TO_ACTION act)) + ly_end l \<le> snd (fx_window keep (API_TO_ACTION act)))
       (pc_layers c)) \<and>
   (act = Block \<or> act = Teleport \<longrightarrow> presence_at keep (overlay_child (API_TO_ACTION act)) e \<in> {Gone, Present}) \<and>
   (presence_at keep beam_child e \<noteq> Gone \<longleftrightarrow> 600 \<le> e \<and> e < 1750) \<and>
   (presence_at keep fist_child e \<noteq> Gone \<longleftrightarrow> 600 \<le> e \<and> e < 1720) \<and>
   list_all (\<lambda>l. 600 + ly_end l \<le> 1720) (pc_layers (flying_fist shown)) \<and>
   map ly_key (filter (\<lambda>l. 1750 < 600 + ly_end l) (pc_layers (KiBurstBeam shown))) = map (numbered ''smoke'') [0..<6]"
proof -
  have "presence_at keep (overlay_child (API_TO_ACTION act)) e \<noteq> Gone \<longleftrightarrow>
     fst (fx_window keep (API_TO_ACTION act)) \<le> e \<and> e < snd (fx_window keep (API_TO_ACTION act))"
    by (cases act) (auto simp: overlay_presence [OF assms])
  moreover have "map ly_key (filter (\<lambda>l. 1750 < 600 + ly_end l) (pc_layers (KiBurstBeam shown))) = map (numbered ''smoke'') [0..<6]"
    by (simp add: KiBurstBeam_def once_def ly_end_def small_ranges)
  moreover have "list_all (\<lambda>l. 600 + ly_end l \<le> 1720) (pc_layers (flying_fist shown))"
    by (simp add: flying_fist_def once_def ly_end_def)
  moreover have "act = Block \<or> act = Teleport \<longrightarrow> presence_at keep (overlay_child (API_TO_ACTION act)) e \<in> {Gone, Present}"
    by (auto simp: overlay_presence [OF assms])
  ultimately show ?thesis using overlay_layers_fit by (auto simp: cross_presence [OF assms])
qed

lemma effects_fit_their_phases_witness:
  "presence_at (\<lambda>d. case d of None \<Rightarrow> 300 | Some ms \<Rightarrow> ms) (overlay_child KEnergyWave) 1000 \<noteq> Gone \<and>
   presence_at (\<lambda>d. case d of None \<Rightarrow> 300 | Some ms \<Rightarrow> ms) beam_child 1749 \<noteq> Gone"
  using effects_fit_their_phases [of "\<lambda>d. case d of None \<Rightarrow> 300 | Some ms \<Rightarrow> ms" EnergyWave 1000]
    effects_fit_their_phases [of "\<lambda>d. case d of None \<Rightarrow> 300 | Some ms \<Rightarrow> ms" EnergyWave 1749] by simp

subsection \<open>Effects across the arena\<close>

text \<open>
  The options of a burst: \<open>cc_more\<close> holds the numeric ones that only some bursts set, and an origin given
  by its height alone is in the middle, the library's default.
\<close>

record confetti_call =
  cc_count :: nat
  cc_spread :: nat
  cc_velocity :: "nat option"
  cc_origin :: "real \<times> real"
  cc_colors :: "string list"
  cc_scalar :: "real option"
  cc_ticks :: "nat option"
  cc_shapes :: "string list"
  cc_more :: "(string \<times> real) list"

record cross_props =
  cp_phase :: action_phase
  cp_playerAction :: "action_kind option"
  cp_aiAction :: "action_kind option"
  cp_playerColor :: string
  cp_aiColor :: string

definition playerBeam :: "cross_props \<Rightarrow> bool" where
  "playerBeam p \<longleftrightarrow> cp_playerAction p = Some KEnergyWave \<and> cp_phase p = PhImpact"

definition aiBeam :: "cross_props \<Rightarrow> bool" where
  "aiBeam p \<longleftrightarrow> cp_aiAction p = Some KEnergyWave \<and> cp_phase p = PhImpact"

definition playerPunch :: "cross_props \<Rightarrow> bool" where
  "playerPunch p \<longleftrightarrow> cp_playerAction p = Some KAttack \<and> cp_phase p = PhImpact"

definition aiPunch :: "cross_props \<Rightarrow> bool" where
  "aiPunch p \<longleftrightarrow> cp_aiAction p = Some KAttack \<and> cp_phase p = PhImpact"

text \<open>What crosses the screen: beams from either side, fists from either side.\<close>

definition cross_shown :: "cross_props \<Rightarrow> string list" where
  "cross_shown p = (if playerBeam p then [''left-beam''] else []) @ (if aiBeam p then [''right-beam''] else []) @
     (if playerPunch p then [''player-punch''] else []) @ (if aiPunch p then [''ai-punch''] else [])"

definition impact_burst :: "cross_props \<Rightarrow> confetti_call option" where
  "impact_burst p =
     (if playerPunch p \<or> aiPunch p then
        Some \<lparr>cc_count = 30, cc_spread = 50, cc_velocity = Some 22, cc_origin = (if playerPunch p then 7 / 10 else 3 / 10, 45 / 100),
              cc_colors = [''#FCD34D'', ''#FBBF24'', ''#FFFFFF'', ''#FCA5A5''], cc_scalar = Some (8 / 10), cc_ticks = Some 60,
              cc_shapes = [], cc_more = []\<rparr>
      else if playerBeam p \<or> aiBeam p then
        Some \<lparr>cc_count = 60, cc_spread = 80, cc_velocity = Some 28, cc_origin = (if playerBeam p then 78 / 100 else 22 / 100, 5 / 10),
              cc_colors = [''#F97316'', ''#FACC15'', ''#FFFFFF'', if playerBeam p then cp_playerColor p else cp_aiColor p],
              cc_scalar = Some (11 / 10), cc_ticks = Some 90, cc_shapes = [], cc_more = []\<rparr>
      else None)"

type_synonym fired_key = "action_phase \<times> action_kind option \<times> action_kind option"

record cross_fx =
  xf_props :: cross_props
  xf_confettiFiredRef :: "fired_key option"
  xf_confetti :: "confetti_call list"

definition cross_key :: "cross_props \<Rightarrow> fired_key" where
  "cross_key p = (cp_phase p, cp_playerAction p, cp_aiAction p)"

definition cross_effect :: "cross_fx \<Rightarrow> cross_fx" where
  "cross_effect s =
     (let p = xf_props s; key = cross_key p
      in if xf_confettiFiredRef s = Some key then s
         else if cp_phase p \<noteq> PhImpact then s\<lparr>xf_confettiFiredRef := None\<rparr>
         else (case impact_burst p of None \<Rightarrow> s
               | Some c \<Rightarrow> s\<lparr>xf_confettiFiredRef := Some key, xf_confetti := xf_confetti s @ [c]\<rparr>))"

definition cross_mount :: "cross_props \<Rightarrow> cross_fx" where
  "cross_mount p = cross_effect \<lparr>xf_props = p, xf_confettiFiredRef = None, xf_confetti = []\<rparr>"

text \<open>The effect runs again when any of its dependencies has changed; all of them come from the properties.\<close>

definition cross_render :: "cross_fx \<Rightarrow> cross_props \<Rightarrow> cross_fx" where
  "cross_render s p = (if p = xf_props s then s else cross_effect (s\<lparr>xf_props := p\<rparr>))"

definition cross_settled :: "cross_fx \<Rightarrow> bool" where
  "cross_settled s \<longleftrightarrow> (case xf_confettiFiredRef s of
      None \<Rightarrow> impact_burst (xf_props s) = None
    | Some k \<Rightarrow> cross_key (xf_props s) = k \<and> cp_phase (xf_props s) = PhImpact \<and> impact_burst (xf_props s) \<noteq> None)"

text \<open>The properties begin an impact that throws sparks.\<close>

definition impact_begins :: "cross_props \<Rightarrow> cross_props \<Rightarrow> bool" where
  "impact_begins p q \<longleftrightarrow> cp_phase p \<noteq> PhImpact \<and> impact_burst q \<noteq> None"

fun impacts :: "cross_props \<Rightarrow> cross_props list \<Rightarrow> nat" where
  "impacts p [] = 0"
| "impacts p (q # qs) = of_bool (impact_begins p q) + impacts q qs"

text \<open>Both actions stay as they are during an impact; the colours may change.\<close>

fun steady :: "cross_props \<Rightarrow> cross_props list \<Rightarrow> bool" where
  "steady p [] = True"
| "steady p (q # qs) = ((cp_phase p = PhImpact \<and> cp_phase q = PhImpact \<longrightarrow> cross_key p = cross_key q) \<and> steady q qs)"

lemma burst_phase: "impact_burst p \<noteq> None \<Longrightarrow> cp_phase p = PhImpact"
  by (auto simp: impact_burst_def playerPunch_def aiPunch_def playerBeam_def aiBeam_def split: if_splits)

lemma burst_key: "cross_key p = cross_key q \<Longrightarrow> (impact_burst p = None) = (impact_burst q = None)"
  by (auto simp: impact_burst_def playerPunch_def aiPunch_def playerBeam_def aiBeam_def cross_key_def)

lemma cross_render_settled:
  assumes "cross_settled s" "steady (xf_props s) [q]"
  shows "cross_settled (cross_render s q) \<and> xf_props (cross_render s q) = q \<and>
    length (xf_confetti (cross_render s q)) = length (xf_confetti s) + of_bool (impact_begins (xf_props s) q)"
proof (cases "q = xf_props s")
  case True
  then show ?thesis using assms burst_phase [of q] by (auto simp: cross_render_def impact_begins_def)
next
  case False
  show ?thesis
  proof (cases "cp_phase (xf_props s) = PhImpact \<and> cp_phase q = PhImpact")
    case True
    then have "cross_key q = cross_key (xf_props s)" using assms(2) by simp
    then show ?thesis
      using assms(1) True False burst_key [of q "xf_props s"]
      by (auto simp: cross_render_def cross_effect_def cross_settled_def impact_begins_def Let_def split: option.splits)
  next
    case other: False
    then have "xf_confettiFiredRef s \<noteq> Some (cross_key q)"
      using assms(1) by (auto simp: cross_settled_def cross_key_def split: option.splits)
    then show ?thesis
      using other False assms(1) burst_phase [of q] burst_phase [of "xf_props s"]
      by (auto simp: cross_render_def cross_effect_def cross_settled_def impact_begins_def Let_def split: option.splits)
  qed
qed

text \<open>
  Every impact of an attack or a burst throws its confetti exactly once, however often the arena is drawn
  again during it, with changed colours or not, and no other phase throws any.
\<close>

theorem confetti_once_per_impact:
  assumes "cp_phase p \<noteq> PhImpact" and "steady p qs"
  shows "length (xf_confetti (run cross_render (cross_mount p) qs)) = impacts p qs"
proof -
  have "length (xf_confetti (run cross_render s qs)) = length (xf_confetti s) + impacts (xf_props s) qs"
    if "cross_settled s" "steady (xf_props s) qs" for s
    using that
  proof (induction qs arbitrary: s)
    case (Cons q qs)
    from Cons.prems have "steady (xf_props s) [q]" by simp
    from cross_render_settled [OF Cons.prems(1) this] Cons.IH [of "cross_render s q"] Cons.prems(2) show ?case by simp
  qed simp
  moreover have "impact_burst p = None" using assms(1) burst_phase [of p] by blast
  then have "cross_settled (cross_mount p)" "xf_props (cross_mount p) = p" "xf_confetti (cross_mount p) = []"
    using assms(1) by (simp_all add: cross_mount_def cross_effect_def cross_settled_def Let_def)
  ultimately show ?thesis using assms(2) by simp
qed

lemma confetti_once_per_impact_witness:
  "length (xf_confetti (run cross_render (cross_mount \<lparr>cp_phase = PhWindup, cp_playerAction = Some KAttack, cp_aiAction = Some KCharge,
      cp_playerColor = ''#60A5FA'', cp_aiColor = ''#C084FC''\<rparr>)
     [\<lparr>cp_phase = PhImpact, cp_playerAction = Some KAttack, cp_aiAction = Some KCharge, cp_playerColor = ''#60A5FA'', cp_aiColor = ''#C084FC''\<rparr>,
      \<lparr>cp_phase = PhImpact, cp_playerAction = Some KAttack, cp_aiAction = Some KCharge, cp_playerColor = ''#FACC15'', cp_aiColor = ''#C084FC''\<rparr>])) = 1"
  by (subst confetti_once_per_impact) (simp_all add: cross_key_def impact_begins_def impact_burst_def playerPunch_def aiPunch_def playerBeam_def aiBeam_def)

text \<open>When both fighters punch, only the player's fist throws sparks.\<close>

lemma double_punch_one_side:
  "playerPunch p \<Longrightarrow> aiPunch p \<Longrightarrow> map_option cc_origin (impact_burst p) = Some (7 / 10, 45 / 100) \<and> length (cross_shown p) = 2"
  by (simp add: impact_burst_def cross_shown_def playerBeam_def aiBeam_def playerPunch_def aiPunch_def)

end
