(* ===== verification/Finishers.thy ===== *)
theory Finishers
  imports Arena
begin

text \<open>
  The finishing moves of the final blow, \<open>web/src/components/finale/CharacterFinishers.tsx\<close>: which parts
  each of the six moves shows in each phase, where they stand and how long their motions take, and
  the choice by the winner's fighter.  A part is a motion of the arena's kind with its place: the
  percentage of the screen it hangs at (none for parts across the whole screen), the offset in
  pixels, its size in pixels (zero for an extent the style leaves to the screen), its turn in degrees
  and, for parts that fly along a circle around their place, the angle and distance in pixels.
  Colours, gradients, filters and easings are left out.  The phases are those of
  \<open>web/src/components/finale/MatchFinale.tsx\<close>, whose timers are modelled in \<open>Match_Finale\<close>.
\<close>

subsection \<open>Parts\<close>

datatype blow_sub = BReady | BCharge | BFire | BHit | BFly | BLand

record finisher_part = fx_layer +
  fp_left :: "int option"
  fp_dx :: int
  fp_size :: "real \<times> real"
  fp_turn :: real
  fp_polar :: "(real \<times> real) option"

definition part :: "string \<Rightarrow> nat \<Rightarrow> nat \<Rightarrow> int option \<Rightarrow> int \<Rightarrow> real \<times> real \<Rightarrow> real \<Rightarrow> finisher_part" where
  "part k delay duration left dx extent turn =
     \<lparr>ly_key = k, ly_delay = delay, ly_duration = duration, ly_loop = False,
      fp_left = left, fp_dx = dx, fp_size = extent, fp_turn = turn, fp_polar = None\<rparr>"

definition around :: "real \<Rightarrow> real \<Rightarrow> finisher_part \<Rightarrow> finisher_part" where
  "around angle radius p = p\<lparr>fp_polar := Some (angle, radius)\<rparr>"

definition targetX :: "bool \<Rightarrow> int" where
  "targetX winnerOnLeft = (if winnerOnLeft then 80 else 20)"

text \<open>
  A scene is one \<open>AnimatePresence\<close> block: the phases in which its parts are on the screen.
\<close>

type_synonym 'p scenes = "(blow_sub list \<times> 'p list) list"

definition shown_parts :: "'p scenes \<Rightarrow> blow_sub \<Rightarrow> 'p list" where
  "shown_parts scenes phase = concat (map snd (filter (\<lambda>s. phase \<in> set (fst s)) scenes))"

subsection \<open>The six moves\<close>

definition KaelFinisher :: "bool \<Rightarrow> finisher_part scenes" where
  "KaelFinisher winnerOnLeft =
     (let target = Some (targetX winnerOnLeft)
      in [([BFire, BHit],
           map (\<lambda>i. part (numbered ''vortex'' i) ([0, 100, 200] ! i) 1100 target (- (150 - int i * 30)) (300 - real i * 60, 300 - real i * 60)
                  (if winnerOnLeft then 1080 else - 1080)) [0..<3]),
          ([BHit], map (\<lambda>i. part (numbered ''bolt'' i) (i * 40) 350 target ((int i - 2) * 30) (6, 0) 0) [0..<5]),
          ([BFire, BHit], map (\<lambda>i. part (numbered ''wind'' i) (i * 15) 400 target 0 (200, 15 / 10) (real (i * 360) / 20)) [0..<20])])"

definition SeleneFinisher :: "bool \<Rightarrow> finisher_part scenes" where
  "SeleneFinisher winnerOnLeft =
     (let target = Some (targetX winnerOnLeft)
      in [([BCharge, BFire, BHit], [part ''moon'' 0 700 (Some (if winnerOnLeft then 10 else 90)) (- 180) (360, 360) 0]),
          ([BFire], map (\<lambda>i. part (numbered ''crescent'' i) (i * 100) 500 target (- 150) (300, 300) ([- 45, 0, 45] ! i)) [0..<3]),
          ([BHit], map (\<lambda>i. part (numbered ''crack'' i) (i * 30) 400 target 0 (320, 3) ([0, 30, 60, 90, 120, 150] ! i)) [0..<6]),
          ([BFly, BLand], [part ''void'' 0 400 target (- 140) (280, 80) 0])])"

definition BlazeFinisher :: "bool \<Rightarrow> finisher_part scenes" where
  "BlazeFinisher winnerOnLeft =
     [([BCharge, BFire, BHit], [part ''sun'' 0 600 (Some (if winnerOnLeft then 5 else 95)) (- 250) (500, 500) 0]),
      ([BFire, BHit], map (\<lambda>i. part (numbered ''beam'' i) (i * 50) 400 None 0 (0, 32) ([- 30, - 15, 0, 15, 30] ! i * (3 / 10))) [0..<5]),
      ([BFire, BHit], [(part ''heat'' 0 500 None 0 (0, 0) 0)\<lparr>ly_loop := True\<rparr>])]"

definition YukiFinisher :: "bool \<Rightarrow> finisher_part scenes" where
  "YukiFinisher winnerOnLeft =
     (let target = Some (targetX winnerOnLeft)
      in [([BCharge], map (\<lambda>i. around (real (i * 360) / 12) 100
             (part (numbered ''ice'' i) (i * 30) 500 target 0 (14, 28) (real (i * 360) / 12 + 90))) [0..<12]),
          ([BFire], [part ''katana'' 0 450 target (- 300) (600, 14) (if winnerOnLeft then - 25 else 25)]),
          ([BHit], [part ''freeze'' 0 300 target (- 120) (240, 320) 0]),
          ([BFly, BLand], map (\<lambda>i. around (real (i * 360) / 20) (200 + real (i mod 4) * 40)
             (part (numbered ''shard'' i) (i * 10) 700 target 0 (8 + real (i mod 3) * 4, 16 + real (i mod 3) * 6) 540)) [0..<20])])"

definition AtlasFinisher :: "bool \<Rightarrow> finisher_part scenes" where
  "AtlasFinisher winnerOnLeft =
     (let target = Some (targetX winnerOnLeft)
      in [([BCharge, BFire, BHit], [part ''sky-dark'' 0 400 None 0 (0, 0) 0]),
          ([BFire, BHit], map (\<lambda>i. part (numbered ''meteor'' i) (i * 80) 550 target ([- 40, - 15, 15, 40] ! i) (30 + real i * 5, 90) 0) [0..<4]),
          ([BHit, BFly], map (\<lambda>i. part (numbered ''crack'' i) (i * 50) 450 target 0 (350, 6) ([- 1, 0, 1] ! i * 20)) [0..<3]),
          ([BHit], [part ''boulder'' 0 300 target (- 90) (180, 180) 0])])"

definition RosaFinisher :: "bool \<Rightarrow> finisher_part scenes" where
  "RosaFinisher winnerOnLeft =
     (let target = Some (targetX winnerOnLeft)
      in [([BCharge, BFire], map (\<lambda>i. part (numbered ''spike'' i) (i * 40) 350 target ((int i - 4) * 30) (28, 140) 0) [0..<8]),
          ([BFire, BHit], map (\<lambda>i. part (numbered ''laser'' i) (i * 30) 350 None 0 (0, 4) ([- 30, - 15, 0, 15, 30] ! i * (3 / 10))) [0..<5]),
          ([BHit], [part ''heart'' 0 500 target (- 120) (240, 240) 0]),
          ([BHit, BFly], map (\<lambda>i. around (real (i * 360) / 25) (150 + real (i mod 5) * 30)
             (part (numbered ''glitter'' i) (i * 15) 800 target 0 (6, 6) 360)) [0..<25])])"

lemmas finisher_defs = KaelFinisher_def SeleneFinisher_def BlazeFinisher_def YukiFinisher_def AtlasFinisher_def RosaFinisher_def

definition finisher_scenes :: "string \<Rightarrow> bool \<Rightarrow> finisher_part scenes" where
  "finisher_scenes characterId winnerOnLeft =
     (if characterId = ''haneul'' then KaelFinisher winnerOnLeft
      else if characterId = ''bora'' then SeleneFinisher winnerOnLeft
      else if characterId = ''taeyang'' then BlazeFinisher winnerOnLeft
      else if characterId = ''danbi'' then YukiFinisher winnerOnLeft
      else if characterId = ''seokjin'' then AtlasFinisher winnerOnLeft
      else if characterId = ''yuri'' then RosaFinisher winnerOnLeft
      else [])"

definition CharacterFinisher :: "string \<Rightarrow> bool \<Rightarrow> blow_sub \<Rightarrow> finisher_part list" where
  "CharacterFinisher characterId winnerOnLeft phase = shown_parts (finisher_scenes characterId winnerOnLeft) phase"

text \<open>Three fighters of the roster win without a finishing move.\<close>

lemma fighters_without_finisher:
  "map ch_id (filter (\<lambda>c. \<forall>l. finisher_scenes (ch_id c) l = []) CHARACTERS) = [''seorin'', ''cheon'', ''yeonhwa'']"
  by (simp add: CHARACTERS_def finisher_scenes_def finisher_defs Let_def)

subsection \<open>When a part is seen\<close>

definition SUBS :: "blow_sub list" where
  "SUBS = [BReady, BCharge, BFire, BHit, BFly, BLand]"

text \<open>The phases in milliseconds of the final blow, which is gone after its 2300 ms and 200 ms of fading.\<close>

fun sub_span :: "blow_sub \<Rightarrow> nat \<times> nat" where
  "sub_span BReady = (0, 200)"
| "sub_span BCharge = (200, 1000)"
| "sub_span BFire = (1000, 1200)"
| "sub_span BHit = (1200, 1700)"
| "sub_span BFly = (1700, 2400)"
| "sub_span BLand = (2400, 2500)"

text \<open>The phases of a scene follow each other, so its parts are mounted once and for this long.\<close>

definition scene_steady :: "blow_sub list \<times> 'p list \<Rightarrow> bool" where
  "scene_steady s \<longleftrightarrow> fst s \<noteq> [] \<and> (\<exists>m\<in>set [0..<6]. fst s = take (length (fst s)) (drop m SUBS))"

definition scene_length :: "blow_sub list \<times> 'p list \<Rightarrow> nat" where
  "scene_length s = snd (sub_span (last (fst s))) - fst (sub_span (hd (fst s)))"

definition cut_off :: "'a fx_layer_scheme scenes \<Rightarrow> string list" where
  "cut_off scenes = concat (map (\<lambda>s. map ly_key
     (filter (\<lambda>p. \<not> ly_loop p \<and> scene_length s < ly_delay p + ly_duration p) (snd s))) scenes)"

definition never_seen :: "'a fx_layer_scheme scenes \<Rightarrow> string list" where
  "never_seen scenes = concat (map (\<lambda>s. map ly_key (filter (\<lambda>p. scene_length s \<le> ly_delay p) (snd s))) scenes)"

text \<open>A scene of the mirrored move: every part hangs as far from the other edge.\<close>

definition mirrors :: "blow_sub list \<times> finisher_part list \<Rightarrow> blow_sub list \<times> finisher_part list \<Rightarrow> bool" where
  "mirrors s t \<longleftrightarrow> fst s = fst t \<and> map ly_key (snd s) = map ly_key (snd t) \<and>
     map fp_left (snd t) = map (map_option (\<lambda>x. 100 - x) \<circ> fp_left) (snd s)"

lemmas scene_simps = finisher_defs Let_def part_def around_def comp_def filter_map scene_length_def

lemma ranges: "[0..<5] = [0, 1, 2, 3, 4]" "[0..<8] = [0, 1, 2, 3, 4, 5, 6, 7]"
  "[0..<12] = [0, 1, 2, 3, 4, 5, 6, 7, 8, 9, 10, 11]"
  "[0..<20] = [0, 1, 2, 3, 4, 5, 6, 7, 8, 9, 10, 11, 12, 13, 14, 15, 16, 17, 18, 19]"
  "[0..<25] = [0, 1, 2, 3, 4, 5, 6, 7, 8, 9, 10, 11, 12, 13, 14, 15, 16, 17, 18, 19, 20, 21, 22, 23, 24]"
  by code_simp+

lemma scenes_steady: "list_all scene_steady (finisher_scenes i l)"
  by (simp add: finisher_scenes_def finisher_defs Let_def scene_steady_def SUBS_def upt_rec)

lemma scenes_mirrored: "list_all2 mirrors (finisher_scenes i True) (finisher_scenes i False)"
  by (simp add: finisher_scenes_def scene_simps mirrors_def targetX_def)

text \<open>
  Which motions are taken away before they are over: among others the three vortices, the last
  bolt, the crescents and the katana, whose phase lasts only 200 ms.
\<close>

fun cut_parts :: "string \<Rightarrow> string list" where
  "cut_parts i =
     (if i = ''haneul'' then map (numbered ''vortex'') [0, 1, 2] @ [numbered ''bolt'' 4]
      else if i = ''bora'' then map (numbered ''crescent'') [0, 1, 2] @ map (numbered ''crack'') [4, 5]
      else if i = ''danbi'' then [numbered ''ice'' 11, ''katana''] @ map (numbered ''shard'') [11, 12, 13, 14, 15, 16, 17, 18, 19]
      else if i = ''seokjin'' then map (numbered ''meteor'') [2, 3]
      else [])"

lemma moves_cut_off:
  "cut_off (KaelFinisher l) = cut_parts ''haneul''" "cut_off (SeleneFinisher l) = cut_parts ''bora''"
  "cut_off (BlazeFinisher l) = cut_parts ''taeyang''" "cut_off (YukiFinisher l) = cut_parts ''danbi''"
  "cut_off (AtlasFinisher l) = cut_parts ''seokjin''" "cut_off (RosaFinisher l) = cut_parts ''yuri''"
  by (simp_all add: cut_off_def scene_simps ranges small_ranges del: upt_Suc concat_eq_Nil_conv)

lemma moves_never_seen:
  "never_seen (KaelFinisher l) = []" "never_seen (SeleneFinisher l) = [numbered ''crescent'' 2]"
  "never_seen (BlazeFinisher l) = []" "never_seen (YukiFinisher l) = []"
  "never_seen (AtlasFinisher l) = []" "never_seen (RosaFinisher l) = []"
  by (simp_all add: never_seen_def scene_simps ranges small_ranges del: upt_Suc concat_eq_Nil_conv)

lemma cut_off_parts: "cut_off (finisher_scenes i l) = cut_parts i"
  by (simp add: finisher_scenes_def moves_cut_off) (simp add: cut_off_def)

lemma never_seen_parts: "never_seen (finisher_scenes i l) = (if i = ''bora'' then [numbered ''crescent'' 2] else [])"
  by (simp add: finisher_scenes_def moves_never_seen) (simp add: never_seen_def)

text \<open>
  Every finishing move is mirrored to the loser's side, each of its parts is mounted once, and
  its parts are over before their phases are, but for the listed ones, which are cut off; the third
  crescent of Bora's move would start when its phase is over and is never seen.
\<close>

theorem finishers_mirrored_and_timed:
  "list_all scene_steady (finisher_scenes i l) \<and>
   list_all2 mirrors (finisher_scenes i True) (finisher_scenes i False) \<and>
   cut_off (finisher_scenes i l) = cut_parts i \<and>
   never_seen (finisher_scenes i l) = (if i = ''bora'' then [numbered ''crescent'' 2] else [])"
  using scenes_steady scenes_mirrored cut_off_parts never_seen_parts by blast

end
