(* ===== verification/Match_Finale.thy ===== *)
theory Match_Finale
  imports Finishers
begin

text \<open>
  The end of a match, \<open>web/src/components/finale/MatchFinale.tsx\<close>: the stages of the overlay, the final
  blow before it with its own stages, fighters and layers, the confetti and the panel with the
  score.  The winner's own move is that of \<open>Finishers\<close>.  An event is the firing of the next timer, the
  end of the final blow's fading (\<open>AnimatePresence\<close> keeps it on the page until then), or the removal
  of the overlay.  Of the layers the styles are left out.
\<close>

subsection \<open>What is shown\<close>

datatype finale_result = ResWin | ResLoss | ResDraw

datatype finale_stage = FinalBlow | Vignette | Zoom | Flash | Shake | Stats

record palette =
  pal_title :: string
  pal_subtitle :: string
  pal_text :: string
  pal_accent :: string
  pal_glow :: string

definition finale_palette :: "finale_result \<Rightarrow> palette" where
  "finale_palette r =
     (if r = ResWin then
        \<lparr>pal_title = ''VICTORY'', pal_subtitle = utf8 [234, 184, 176, 236, 139, 184, 236, 155, 128] @ '' '' @ utf8 [236, 138, 185, 235, 166, 172],
         pal_text = ''text-yellow-200'', pal_accent = ''#FCD34D'', pal_glow = ''#F59E0B''\<rparr>
      else if r = ResDraw then
        \<lparr>pal_title = ''DRAW'', pal_subtitle = utf8 [235, 172, 180, 236, 138, 185, 235, 182, 128],
         pal_text = ''text-gray-100'', pal_accent = ''#9CA3AF'', pal_glow = ''#6B7280''\<rparr>
      else
        \<lparr>pal_title = ''DEFEAT'', pal_subtitle = utf8 [234, 184, 176, 236, 139, 184, 236, 155, 128] @ '' '' @ utf8 [237, 140, 168, 235, 176, 176],
         pal_text = ''text-red-300'', pal_accent = ''#EF4444'', pal_glow = ''#B91C1C''\<rparr>)"

definition winnerCharacter :: "finale_result \<Rightarrow> character option \<Rightarrow> character option \<Rightarrow> character option" where
  "winnerCharacter r player opponent = (if r = ResWin then player else opponent)"

definition loserCharacter :: "finale_result \<Rightarrow> character option \<Rightarrow> character option \<Rightarrow> character option" where
  "loserCharacter r player opponent = (if r = ResWin then opponent else player)"

text \<open>The two fighters of the closing scene: pose and width, for those that are given.\<close>

definition finale_fighters :: "finale_result \<Rightarrow> character option \<Rightarrow> character option \<Rightarrow> (fighter_pose \<times> nat \<times> bool) option \<times> (fighter_pose \<times> nat \<times> bool) option" where
  "finale_fighters r player opponent =
     (map_option (\<lambda>c. (if r = ResWin then FpVictory else if r = ResDraw then FpIdle else FpKo, if r = ResWin then 180 else 130, False)) player,
      map_option (\<lambda>c. (if r \<noteq> ResWin \<and> r \<noteq> ResDraw then FpVictory else if r = ResDraw then FpIdle else FpKo,
                       if r \<noteq> ResWin \<and> r \<noteq> ResDraw then 180 else 130, True)) opponent)"

datatype finale_layer = LyFinalBlow | LyVignette | LySpeedLines | LyColorWash | LyFighters | LyFlash | LyTitle bool | LyStats

text \<open>The layers of a stage, the final blow only with both fighters; the title's flag is the shaking.\<close>

definition finale_layers :: "finale_stage \<Rightarrow> bool \<Rightarrow> finale_layer list" where
  "finale_layers stage both =
     (let showWinner = (stage = Zoom \<or> stage = Flash); showTitle = (stage = Shake \<or> stage = Stats); showStats = (stage = Stats)
      in (if stage = FinalBlow \<and> both then [LyFinalBlow] else []) @
         (if stage \<noteq> FinalBlow then [LyVignette] else []) @
         (if showWinner then [LySpeedLines] else []) @
         (if stage = Flash \<or> stage = Shake \<or> stage = Stats then [LyColorWash] else []) @
         (if showWinner \<or> stage = Shake \<or> stage = Stats then [LyFighters] else []) @
         (if stage = Flash then [LyFlash] else []) @
         (if showTitle then [LyTitle (stage = Shake)] else []) @
         (if showStats then [LyStats] else []))"

subsection \<open>The final blow\<close>

definition winnerPose :: "blow_sub \<Rightarrow> fighter_pose" where
  "winnerPose sub = (if sub = BCharge then FpWindup else if sub = BFire then FpImpact else FpIdle)"

definition loserPose :: "blow_sub \<Rightarrow> fighter_pose" where
  "loserPose sub = (if sub = BHit then FpHit else if sub = BFly \<or> sub = BLand then FpKo else FpIdle)"

definition isDestroying :: "blow_sub \<Rightarrow> bool" where
  "isDestroying sub \<longleftrightarrow> sub = BHit \<or> sub = BFly"

text \<open>How far the loser is thrown, how high, how far turned, and how visible.\<close>

definition loser_motion :: "blow_sub \<Rightarrow> bool \<Rightarrow> int \<times> int \<times> int \<times> nat" where
  "loser_motion sub winnerOnLeft =
     (let loserFlyX = (if winnerOnLeft then 900 else - 900)
      in (if sub = BFly \<or> sub = BLand then loserFlyX else 0,
          if sub = BFly then - 180 else if sub = BLand then 60 else 0,
          if sub = BFly then (if winnerOnLeft then 540 else - 540)
          else if sub = BLand then (if winnerOnLeft then 720 else - 720) else 0,
          if sub = BLand then 0 else 1))"

text \<open>The blow's own layers; those of the winner's move lie between the flash of the release and the rest.\<close>

definition blow_scenes :: "fx_layer scenes" where
  "blow_scenes =
     [([BCharge], [once ''vignette'' 0 600] @ map (\<lambda>i. once (numbered ''speed'' i) (i * 20) 500) [0..<16] @ [once ''shockwave'' 0 800]),
      ([BFire], [once ''fire-flash'' 0 180]),
      ([BHit], map (\<lambda>i. once (numbered ''chrom'' i) 0 300) [0..<2]),
      ([BHit, BFly], [once ''impact-core'' 0 700, once ''impact-shell'' 50 800, once ''impact-ring'' 0 600]),
      ([BHit], [once ''hit-flash'' 0 300]),
      ([BFly], map (\<lambda>i. once (numbered ''debris'' i) (i * 20) 700) [0..<14]),
      ([BLand], [once ''dust'' 0 500])]"

definition blow_layers :: "blow_sub \<Rightarrow> fx_layer list" where
  "blow_layers = shown_parts blow_scenes"

text \<open>Only the debris, whose last piece would fly 260 ms longer, and the dust are cut off.\<close>

lemma ranges_blow: "[0..<14] = [0, 1, 2, 3, 4, 5, 6, 7, 8, 9, 10, 11, 12, 13]"
  "[0..<16] = [0, 1, 2, 3, 4, 5, 6, 7, 8, 9, 10, 11, 12, 13, 14, 15]"
  by code_simp+

lemma blow_cut_off: "cut_off blow_scenes = map (numbered ''debris'') [1, 2, 3, 4, 5, 6, 7, 8, 9, 10, 11, 12, 13] @ [''dust'']"
  by (simp add: blow_scenes_def cut_off_def scene_length_def once_def comp_def filter_map ranges_blow small_ranges del: upt_Suc)

subsection \<open>The panel\<close>

datatype finale_row = ScoreRow "int \<times> string" "int \<times> string" | VsRow string | TurnsRow int | AgainButton string

definition finale_panel :: "finale_result \<Rightarrow> int \<times> int \<Rightarrow> int \<Rightarrow> string option \<Rightarrow> string option \<Rightarrow> finale_row list" where
  "finale_panel r finalScore totalTurns opponentName playAgainLabel =
     [ScoreRow (fst finalScore, if r = ResWin then ''text-green-400'' else ''text-gray-300'')
               (snd finalScore, if r \<noteq> ResWin \<and> r \<noteq> ResDraw then ''text-red-400'' else ''text-gray-300'')] @
     (if truthy opponentName then [VsRow (the opponentName)] else []) @
     [TurnsRow totalTurns, AgainButton (case playAgainLabel of None \<Rightarrow> ''Play Again'' | Some l \<Rightarrow> l)]"

subsection \<open>Confetti\<close>

definition fire_confetti ::
  "real \<Rightarrow> nat \<Rightarrow> nat option \<Rightarrow> real option \<Rightarrow> (string \<times> real) list \<Rightarrow> confetti_call" where
  "fire_confetti ratio spread velocity scalar opts =
     \<lparr>cc_count = nat \<lfloor>220 * ratio\<rfloor>, cc_spread = spread, cc_velocity = velocity, cc_origin = (1 / 2, 65 / 100),
      cc_colors = [''#FCD34D'', ''#F59E0B'', ''#FBBF24'', ''#FFFFFF'', ''#FEF3C7''], cc_scalar = scalar, cc_ticks = None,
      cc_shapes = [], cc_more = opts\<rparr>"

definition title_confetti :: "finale_result \<Rightarrow> confetti_call list" where
  "title_confetti r =
     (if r = ResWin then
        [fire_confetti (25 / 100) 26 (Some 55) (Some (12 / 10)) [], fire_confetti (2 / 10) 60 None None [],
         fire_confetti (35 / 100) 100 None (Some (8 / 10)) [(''decay'', 91 / 100)],
         fire_confetti (1 / 10) 120 (Some 25) (Some (12 / 10)) [(''decay'', 92 / 100)],
         fire_confetti (1 / 10) 120 (Some 45) None []]
      else if r \<noteq> ResDraw then
        [\<lparr>cc_count = 90, cc_spread = 100, cc_velocity = Some 12, cc_origin = (1 / 2, - 1 / 10),
          cc_colors = [''#374151'', ''#1F2937'', ''#4B5563'', ''#6B7280'', ''#111827''], cc_scalar = Some (7 / 10), cc_ticks = Some 220,
          cc_shapes = [''circle''], cc_more = [(''gravity'', 5 / 10), (''drift'', 4 / 10)]\<rparr>]
      else [])"

definition impactX :: "bool \<Rightarrow> real" where
  "impactX winnerOnLeft = (if winnerOnLeft then 78 / 100 else 22 / 100)"

definition blow_wave1 :: "bool \<Rightarrow> confetti_call" where
  "blow_wave1 l = \<lparr>cc_count = 220, cc_spread = 100, cc_velocity = Some 55, cc_origin = (impactX l, 5 / 10),
     cc_colors = [''#FFFFFF'', ''#FEF3C7'', ''#FACC15'', ''#F97316'', ''#EF4444''], cc_scalar = Some (14 / 10), cc_ticks = Some 180,
     cc_shapes = [], cc_more = []\<rparr>"

definition blow_wave2 :: "bool \<Rightarrow> confetti_call" where
  "blow_wave2 l = \<lparr>cc_count = 140, cc_spread = 180, cc_velocity = Some 35, cc_origin = (impactX l, 5 / 10),
     cc_colors = [''#F97316'', ''#EF4444'', ''#7F1D1D'', ''#1F2937''], cc_scalar = Some (11 / 10), cc_ticks = Some 150, cc_shapes = [], cc_more = []\<rparr>"

definition blow_wave3 :: "bool \<Rightarrow> confetti_call" where
  "blow_wave3 l = \<lparr>cc_count = 80, cc_spread = 60, cc_velocity = Some 70, cc_origin = (impactX l, 5 / 10),
     cc_colors = [''#1F2937'', ''#374151'', ''#7F1D1D''], cc_scalar = Some (9 / 10), cc_ticks = Some 200,
     cc_shapes = [''square''], cc_more = [(''angle'', if l then 30 else 150)]\<rparr>"

text \<open>The five bursts of a victory are 220 pieces together.\<close>

lemma victory_confetti: "sum_list (map cc_count (title_confetti ResWin)) = 220"
  by (simp add: title_confetti_def fire_confetti_def)

subsection \<open>The overlay as a machine\<close>

datatype finale_callback = SetFinaleStage finale_stage | SetSub blow_sub | BlowWave confetti_call

record blow =
  bl_sub :: blow_sub
  bl_confettiFired :: bool
  bl_refs :: "nat list"

record finale =
  fi_mounted :: bool
  fi_stage :: finale_stage
  fi_confettiFired :: bool
  fi_refs :: "nat list"
  fi_blow :: "blow option"
  fi_timers :: "finale_callback timers"
  fi_confetti :: "(nat \<times> confetti_call list) list"

fun set_timeouts :: "('c \<times> nat) list \<Rightarrow> 'c timers \<Rightarrow> nat list \<times> 'c timers" where
  "set_timeouts [] t = ([], t)"
| "set_timeouts ((c, d) # cs) t =
     (let (i, t1) = set_timeout c d t; (is, t2) = set_timeouts cs t1 in (i # is, t2))"

text \<open>The final blow schedules its stages when it is mounted, and its effect runs first.\<close>

definition blow_mount :: "finale \<Rightarrow> finale" where
  "blow_mount s =
     (let (refs, t) = set_timeouts [(SetSub BCharge, 200), (SetSub BFire, 1000), (SetSub BHit, 1200), (SetSub BFly, 1700),
            (SetSub BLand, 2400)] (fi_timers s)
      in s\<lparr>fi_blow := Some \<lparr>bl_sub = BReady, bl_confettiFired = False, bl_refs = refs\<rparr>, fi_timers := t\<rparr>)"

definition finale_schedule :: "finale_result \<Rightarrow> finale \<Rightarrow> finale" where
  "finale_schedule r s =
     (let offset = (if r = ResDraw then 0 else 2300);
          (refs, t) = set_timeouts [(SetFinaleStage Vignette, offset), (SetFinaleStage Zoom, offset + 500),
            (SetFinaleStage Flash, offset + 500 + 600), (SetFinaleStage Shake, offset + 500 + 600 + 200),
            (SetFinaleStage Stats, offset + 500 + 600 + 200 + 700)] (fi_timers s)
      in s\<lparr>fi_refs := refs, fi_timers := t\<rparr>)"

definition finale_mount :: "finale_result \<Rightarrow> bool \<Rightarrow> finale" where
  "finale_mount r both =
     (let s = \<lparr>fi_mounted = True, fi_stage = (if r = ResDraw then Vignette else FinalBlow), fi_confettiFired = False, fi_refs = [],
               fi_blow = None, fi_timers = no_timers, fi_confetti = []\<rparr>
      in finale_schedule r (if LyFinalBlow \<in> set (finale_layers (fi_stage s) both) then blow_mount s else s))"

definition throw_confetti :: "confetti_call list \<Rightarrow> finale \<Rightarrow> finale" where
  "throw_confetti cs s = s\<lparr>fi_confetti := fi_confetti s @ [(clock (fi_timers s), cs)]\<rparr>"

text \<open>The effect on the stage; and the one on the final blow's stage, whose later waves nobody clears.\<close>

definition title_effect :: "finale_result \<Rightarrow> finale \<Rightarrow> finale" where
  "title_effect r s =
     (if fi_stage s \<noteq> Shake \<or> fi_confettiFired s then s
      else throw_confetti (title_confetti r) (s\<lparr>fi_confettiFired := True\<rparr>))"

definition blow_effect :: "bool \<Rightarrow> finale \<Rightarrow> finale" where
  "blow_effect winnerOnLeft s = (case fi_blow s of None \<Rightarrow> s
     | Some b \<Rightarrow>
         if bl_sub b \<noteq> BHit \<or> bl_confettiFired b then s
         else (let s1 = throw_confetti [blow_wave1 winnerOnLeft] (s\<lparr>fi_blow := Some (b\<lparr>bl_confettiFired := True\<rparr>)\<rparr>);
                   (refs, t) = set_timeouts [(BlowWave (blow_wave2 winnerOnLeft), 120), (BlowWave (blow_wave3 winnerOnLeft), 240)] (fi_timers s1)
               in s1\<lparr>fi_timers := t\<rparr>))"

fun finale_exec :: "finale_result \<Rightarrow> finale_callback \<Rightarrow> finale \<Rightarrow> finale" where
  "finale_exec r (SetFinaleStage st) s = title_effect r (s\<lparr>fi_stage := st\<rparr>)"
| "finale_exec r (SetSub sub) s =
     (case fi_blow s of None \<Rightarrow> s | Some b \<Rightarrow> blow_effect (r = ResWin) (s\<lparr>fi_blow := Some (b\<lparr>bl_sub := sub\<rparr>)\<rparr>))"
| "finale_exec r (BlowWave c) s = throw_confetti [c] s"

text \<open>The next timer fires: time moves on to when it is due.\<close>

definition finale_fire :: "finale_result \<Rightarrow> finale \<Rightarrow> finale" where
  "finale_fire r s = (case pending (fi_timers s) of [] \<Rightarrow> s
     | (i, due, c) # rest \<Rightarrow> finale_exec r c (s\<lparr>fi_timers := (fi_timers s)\<lparr>clock := due, pending := rest\<rparr>\<rparr>))"

definition blow_unmount :: "finale \<Rightarrow> finale" where
  "blow_unmount s = (case fi_blow s of None \<Rightarrow> s
     | Some b \<Rightarrow> s\<lparr>fi_blow := None, fi_timers := clear_all (bl_refs b) (fi_timers s)\<rparr>)"

definition finale_unmount :: "finale \<Rightarrow> finale" where
  "finale_unmount s = (let s1 = blow_unmount s in s1\<lparr>fi_mounted := False, fi_timers := clear_all (fi_refs s1) (fi_timers s1)\<rparr>)"

datatype finale_event = FiFire | FiFaded | FiUnmount

fun finale_step :: "finale_result \<Rightarrow> finale \<Rightarrow> finale_event \<Rightarrow> finale" where
  "finale_step r s FiFire = finale_fire r s"
| "finale_step r s FiFaded = blow_unmount s"
| "finale_step r s FiUnmount = finale_unmount s"

text \<open>The final blow has faded only after its stage is over.\<close>

fun finale_enabled :: "finale \<Rightarrow> finale_event \<Rightarrow> bool" where
  "finale_enabled s FiFire = (pending (fi_timers s) \<noteq> [])"
| "finale_enabled s FiFaded = (fi_stage s \<noteq> FinalBlow \<and> fi_blow s \<noteq> None)"
| "finale_enabled s FiUnmount = fi_mounted s"

text \<open>The phases of \<open>sub_span\<close> are those of the blow's timers, from its mounting on.\<close>

lemma sub_spans_scheduled:
  "map (\<lambda>(i, due, c). (due, c)) (pending (fi_timers (blow_mount s))) =
   map (\<lambda>sub. (fst (sub_span sub), SetSub sub)) (tl SUBS)"
  if "fi_timers s = no_timers"
  using that by (simp add: blow_mount_def set_timeout_def no_timers_def SUBS_def Let_def)

subsection \<open>Its course\<close>

text \<open>
  Everything that happens, in order, with the number of its timer and its time: with both fighters,
  without, and in a draw.
\<close>

definition finale_script :: "finale_result \<Rightarrow> bool \<Rightarrow> (nat \<times> nat \<times> finale_callback) list" where
  "finale_script r both =
     (if r = ResDraw then
        [(0, 0, SetFinaleStage Vignette), (1, 500, SetFinaleStage Zoom), (2, 1100, SetFinaleStage Flash),
         (3, 1300, SetFinaleStage Shake), (4, 2000, SetFinaleStage Stats)]
      else if both then
        [(0, 200, SetSub BCharge), (1, 1000, SetSub BFire), (2, 1200, SetSub BHit), (10, 1320, BlowWave (blow_wave2 (r = ResWin))),
         (11, 1440, BlowWave (blow_wave3 (r = ResWin))), (3, 1700, SetSub BFly), (5, 2300, SetFinaleStage Vignette), (4, 2400, SetSub BLand),
         (6, 2800, SetFinaleStage Zoom), (7, 3400, SetFinaleStage Flash), (8, 3600, SetFinaleStage Shake), (9, 4300, SetFinaleStage Stats)]
      else
        [(0, 2300, SetFinaleStage Vignette), (1, 2800, SetFinaleStage Zoom), (2, 3400, SetFinaleStage Flash),
         (3, 3600, SetFinaleStage Shake), (4, 4300, SetFinaleStage Stats)])"

definition stage_after :: "(nat \<times> nat \<times> finale_callback) list \<Rightarrow> finale_stage \<Rightarrow> finale_stage" where
  "stage_after evs st = fold (\<lambda>(i, d, c) st. case c of SetFinaleStage x \<Rightarrow> x | _ \<Rightarrow> st) evs st"

definition sub_after :: "(nat \<times> nat \<times> finale_callback) list \<Rightarrow> blow_sub" where
  "sub_after evs = fold (\<lambda>(i, d, c) st. case c of SetSub x \<Rightarrow> x | _ \<Rightarrow> st) evs BReady"

definition confetti_after :: "finale_result \<Rightarrow> (nat \<times> nat \<times> finale_callback) list \<Rightarrow> (nat \<times> confetti_call list) list" where
  "confetti_after r evs = concat (map (\<lambda>(i, d, c). case c of
      SetFinaleStage x \<Rightarrow> if x = Shake then [(d, title_confetti r)] else []
    | SetSub x \<Rightarrow> if x = BHit then [(d, [blow_wave1 (r = ResWin)])] else []
    | BlowWave w \<Rightarrow> [(d, [w])]) evs)"

text \<open>What is still to come at a point of the script: the waves once the blow has hit, its stages while it is there.\<close>

definition to_come :: "nat \<Rightarrow> bool \<Rightarrow> nat \<times> nat \<times> finale_callback \<Rightarrow> bool" where
  "to_come k present x = (case snd (snd x) of SetFinaleStage _ \<Rightarrow> True | SetSub _ \<Rightarrow> present | BlowWave _ \<Rightarrow> 3 \<le> k)"

text \<open>The overlay after the first \<open>k\<close> steps of the script, with or without the final blow.\<close>

definition finale_at :: "finale_result \<Rightarrow> bool \<Rightarrow> nat \<Rightarrow> bool \<Rightarrow> finale" where
  "finale_at r both k present =
     (let F = finale_script r both; past = take k F; blow_played = (both \<and> r \<noteq> ResDraw)
      in \<lparr>fi_mounted = True, fi_stage = stage_after past (if r = ResDraw then Vignette else FinalBlow),
          fi_confettiFired = list_ex (\<lambda>x. snd (snd x) = SetFinaleStage Shake) past,
          fi_refs = (if blow_played then [5, 6, 7, 8, 9] else [0, 1, 2, 3, 4]),
          fi_blow = (if present then Some \<lparr>bl_sub = sub_after past, bl_confettiFired = (3 \<le> k), bl_refs = [0, 1, 2, 3, 4]\<rparr> else None),
          fi_timers = \<lparr>clock = (if k = 0 then 0 else fst (snd (F ! (k - 1)))),
                       next_id = (if blow_played then if 3 \<le> k then 12 else 10 else 5),
                       pending = filter (to_come k present) (drop k F)\<rparr>,
          fi_confetti = confetti_after r past\<rparr>)"

lemmas finale_at_simps = finale_at_def finale_script_def stage_after_def sub_after_def confetti_after_def to_come_def

lemma finale_mount_at: "finale_mount r both = finale_at r both 0 (both \<and> r \<noteq> ResDraw)"
  by (cases r; cases both)
    (simp_all add: finale_mount_def finale_schedule_def blow_mount_def finale_layers_def no_timers_def set_timeout_def
      Let_def finale_at_simps)

definition next_point :: "finale_result \<Rightarrow> bool \<Rightarrow> nat \<Rightarrow> bool \<Rightarrow> nat" where
  "next_point r both k present = (if both \<and> r \<noteq> ResDraw \<and> \<not> present \<and> k = 7 then 9 else Suc k)"

definition point_ok :: "finale_result \<Rightarrow> bool \<Rightarrow> nat \<Rightarrow> bool \<Rightarrow> bool" where
  "point_ok r both k present \<longleftrightarrow>
     (if r = ResDraw \<or> \<not> both then k \<le> 5 \<and> \<not> present else k \<le> 12 \<and> (present \<or> 7 \<le> k))"

lemmas fire_simps = finale_fire_def title_effect_def blow_effect_def throw_confetti_def set_timeout_def Let_def finale_at_simps

lemma cases_12: "(k :: nat) < 12 \<Longrightarrow> k = 0 \<or> k = 1 \<or> k = 2 \<or> k = 3 \<or> k = 4 \<or> k = 5 \<or> k = 6 \<or> k = 7 \<or> k = 8 \<or> k = 9 \<or> k = 10 \<or> k = 11"
  by presburger

lemma finale_fire_at_short:
  assumes "r = ResDraw \<or> \<not> both" "k < 5"
  shows "finale_fire r (finale_at r both k False) = finale_at r both (Suc k) False"
proof -
  from assms(2) have "k = 0 \<or> k = 1 \<or> k = 2 \<or> k = 3 \<or> k = 4" by linarith
  then show ?thesis using assms(1) by (elim disjE; cases r) (simp_all add: fire_simps)
qed

lemma finale_fire_at_blow:
  assumes "r \<noteq> ResDraw" "k < 12" "present \<or> 7 \<le> k"
  shows "finale_fire r (finale_at r True k present) = finale_at r True (next_point r True k present) present"
  using cases_12 [OF assms(2)] assms(1,3)
  by (elim disjE; cases present) (simp_all add: fire_simps next_point_def)

definition script_length :: "finale_result \<Rightarrow> bool \<Rightarrow> nat" where
  "script_length r both = (if r = ResDraw \<or> \<not> both then 5 else 12)"

definition finale_playing :: "finale_result \<Rightarrow> bool \<Rightarrow> nat \<Rightarrow> finale \<Rightarrow> bool" where
  "finale_playing r both k s \<longleftrightarrow> (\<exists>present. point_ok r both k present \<and> s = finale_at r both k present)"

definition finale_gone :: "finale \<Rightarrow> bool" where
  "finale_gone s \<longleftrightarrow> \<not> fi_mounted s \<and> fi_blow s = None \<and> list_all (\<lambda>x. \<exists>w. snd (snd x) = BlowWave w) (pending (fi_timers s))"

lemma playing_mount: "finale_playing r both 0 (finale_mount r both)"
  by (auto simp: finale_playing_def finale_mount_at point_ok_def)

lemma playing_bound: "finale_playing r both k s \<Longrightarrow> k \<le> script_length r both"
  by (auto simp: finale_playing_def point_ok_def script_length_def split: if_splits)

lemma at_end:
  "(r = ResDraw \<or> \<not> both \<Longrightarrow> pending (fi_timers (finale_at r both 5 False)) = [])"
  "r \<noteq> ResDraw \<Longrightarrow> pending (fi_timers (finale_at r True 12 present)) = []"
  by (cases r; simp add: finale_at_simps)+

lemma playing_fire:
  assumes "finale_playing r both k s" "pending (fi_timers s) \<noteq> []"
  shows "\<exists>j. k < j \<and> finale_playing r both j (finale_fire r s)"
proof -
  from assms(1) obtain present where p: "point_ok r both k present" "s = finale_at r both k present"
    by (auto simp: finale_playing_def)
  show ?thesis
  proof (cases "r = ResDraw \<or> \<not> both")
    case True
    with p assms(2) at_end(1) have "k < 5" "\<not> present" by (auto simp: point_ok_def le_less)
    with True p finale_fire_at_short [of r both k] show ?thesis
      by (intro exI [of _ "Suc k"]) (auto simp: finale_playing_def point_ok_def)
  next
    case False
    with p assms(2) at_end(2) [of r present] have k: "k < 12" "present \<or> 7 \<le> k" by (auto simp: point_ok_def le_less)
    from False have b: "both" "r \<noteq> ResDraw" by simp_all
    have "finale_fire r s = finale_at r both (next_point r both k present) present"
      using finale_fire_at_blow [OF b(2) k] b p(2) by simp
    moreover have "point_ok r both (next_point r both k present) present" using b k by (auto simp: point_ok_def next_point_def)
    moreover have "k < next_point r both k present" by (simp add: next_point_def)
    ultimately show ?thesis unfolding finale_playing_def by blast
  qed
qed

lemma no_blow_before_end:
  assumes "k < 7" "r \<noteq> ResDraw" shows "fi_stage (finale_at r True k present) = FinalBlow"
proof -
  from assms(1) have "k = 0 \<or> k = 1 \<or> k = 2 \<or> k = 3 \<or> k = 4 \<or> k = 5 \<or> k = 6" by presburger
  with assms(2) show ?thesis by (elim disjE) (simp_all add: finale_at_simps)
qed

lemma blow_unmount_at:
  assumes "7 \<le> k" "k \<le> 12" "r \<noteq> ResDraw" shows "blow_unmount (finale_at r True k True) = finale_at r True k False"
proof -
  from assms(1,2) have "k = 7 \<or> k = 8 \<or> k = 9 \<or> k = 10 \<or> k = 11 \<or> k = 12" by presburger
  with assms(3) show ?thesis
    by (elim disjE) (simp_all add: blow_unmount_def finale_at_simps clear_all_def clear_timeout_def)
qed

lemma playing_faded:
  assumes "finale_playing r both k s" "fi_stage s \<noteq> FinalBlow" "fi_blow s \<noteq> None"
  shows "finale_playing r both k (blow_unmount s)"
proof -
  from assms(1) obtain present where p: "point_ok r both k present" "s = finale_at r both k present"
    by (auto simp: finale_playing_def)
  with assms(3) have "present" by (cases present) (simp_all add: finale_at_def Let_def)
  with p have b: "both" "r \<noteq> ResDraw" "k \<le> 12" by (auto simp: point_ok_def split: if_splits)
  with p assms(2) no_blow_before_end [of k r present] have "7 \<le> k" by force
  with p b \<open>present\<close> blow_unmount_at [of k r] show ?thesis
    by (auto simp: finale_playing_def point_ok_def)
qed

lemma playing_step:
  assumes "finale_playing r both k s" "finale_enabled s e" "e \<noteq> FiUnmount"
  shows "\<exists>j. k + of_bool (e = FiFire) \<le> j \<and> finale_playing r both j (finale_step r s e)"
proof (cases e)
  case FiFire
  with playing_fire [OF assms(1)] assms(2) show ?thesis by (auto simp: Suc_le_eq)
next
  case FiFaded
  with playing_faded [OF assms(1)] assms(2) show ?thesis by auto
qed (use assms(3) in simp)

lemma playing_run:
  "finale_playing r both k s \<Longrightarrow> legal finale_enabled (finale_step r) s es \<Longrightarrow> FiUnmount \<notin> set es \<Longrightarrow>
   \<exists>j. k + count_list es FiFire \<le> j \<and> finale_playing r both j (run (finale_step r) s es)"
proof (induction es arbitrary: s k)
  case (Cons e es)
  from playing_step [OF Cons.prems(1), of e] Cons.prems obtain j where
    j: "k + of_bool (e = FiFire) \<le> j" "finale_playing r both j (finale_step r s e)" by auto
  from Cons.IH [OF j(2)] Cons.prems obtain j' where
    "j + count_list es FiFire \<le> j'" "finale_playing r both j' (run (finale_step r) (finale_step r s e) es)" by auto
  with j(1) show ?case by (intro exI [of _ j']) (auto split: if_splits)
qed auto

definition all_confetti :: "finale_result \<Rightarrow> bool \<Rightarrow> (nat \<times> confetti_call list) list" where
  "all_confetti r both =
     (if both \<and> r \<noteq> ResDraw then [(1200, [blow_wave1 (r = ResWin)]), (1320, [blow_wave2 (r = ResWin)]), (1440, [blow_wave3 (r = ResWin)])]
      else []) @ [(if r = ResDraw then 1300 else 3600, title_confetti r)]"

lemma cases_13: "(k :: nat) \<le> 12 \<Longrightarrow> k = 0 \<or> k = 1 \<or> k = 2 \<or> k = 3 \<or> k = 4 \<or> k = 5 \<or> k = 6 \<or> k = 7 \<or> k = 8 \<or> k = 9 \<or> k = 10 \<or> k = 11 \<or> k = 12"
  by presburger

lemma playing_facts:
  assumes "finale_playing r both k s"
  shows "(pending (fi_timers s) = []) = (k = script_length r both)"
    and "(pending (fi_timers s) = []) = (LyStats \<in> set (finale_layers (fi_stage s) both))"
    and "take (length (fi_confetti s)) (all_confetti r both) = fi_confetti s"
    and "pending (fi_timers s) = [] \<Longrightarrow> clock (fi_timers s) = (if r = ResDraw then 2000 else 4300) \<and> fi_confetti s = all_confetti r both"
proof -
  from assms obtain present where p: "point_ok r both k present" "s = finale_at r both k present"
    by (auto simp: finale_playing_def)
  have "(pending (fi_timers s) = []) = (k = script_length r both) \<and>
    (pending (fi_timers s) = []) = (LyStats \<in> set (finale_layers (fi_stage s) both)) \<and>
    take (length (fi_confetti s)) (all_confetti r both) = fi_confetti s \<and>
    (pending (fi_timers s) = [] \<longrightarrow> clock (fi_timers s) = (if r = ResDraw then 2000 else 4300) \<and> fi_confetti s = all_confetti r both)"
  proof (cases "r = ResDraw \<or> \<not> both")
    case True
    with p(1) have "k = 0 \<or> k = 1 \<or> k = 2 \<or> k = 3 \<or> k = 4 \<or> k = 5" "present = False" by (auto simp: point_ok_def)
    with True show ?thesis
      unfolding p(2) by (elim disjE; cases r) (simp_all add: finale_at_simps finale_layers_def all_confetti_def script_length_def Let_def)
  next
    case False
    with p(1) have k: "k \<le> 12" "present \<or> 7 \<le> k" by (auto simp: point_ok_def)
    from cases_13 [OF k(1)] k(2) False show ?thesis
      unfolding p(2)
      by (elim disjE; cases present) (simp_all add: finale_at_simps finale_layers_def all_confetti_def script_length_def Let_def)
  qed
  then show "(pending (fi_timers s) = []) = (k = script_length r both)"
    and "(pending (fi_timers s) = []) = (LyStats \<in> set (finale_layers (fi_stage s) both))"
    and "take (length (fi_confetti s)) (all_confetti r both) = fi_confetti s"
    and "pending (fi_timers s) = [] \<Longrightarrow> clock (fi_timers s) = (if r = ResDraw then 2000 else 4300) \<and> fi_confetti s = all_confetti r both"
    by blast+
qed

text \<open>
  Claim C35: the end of a match always comes to its result.  The timers fire as they fall due, and scenes that are
  fading away may go at any moment between two firings.  However that happens, as long as the overlay
  stays on the page at most twelve timers fire, and the panel with the score and the Play Again button is
  there exactly when none is left, which is 4.3 seconds after the match, 2 seconds after a draw; the
  confetti thrown at any time is a beginning of the script's, and the whole of it by then, each burst
  once and in its order.
\<close>

theorem finale_comes_to_result:
  assumes "legal finale_enabled (finale_step r) (finale_mount r both) es" and "FiUnmount \<notin> set es"
    and "s = run (finale_step r) (finale_mount r both) es"
  shows "count_list es FiFire \<le> 12 \<and>
    (pending (fi_timers s) = [] \<longleftrightarrow> LyStats \<in> set (finale_layers (fi_stage s) both)) \<and>
    take (length (fi_confetti s)) (all_confetti r both) = fi_confetti s \<and>
    (pending (fi_timers s) = [] \<longrightarrow>
       clock (fi_timers s) = (if r = ResDraw then 2000 else 4300) \<and> fi_confetti s = all_confetti r both)"
proof -
  from playing_run [OF playing_mount assms(1,2)] obtain k where
    k: "count_list es FiFire \<le> k" "finale_playing r both k s" unfolding assms(3) by auto
  from playing_bound [OF k(2)] k(1) have "count_list es FiFire \<le> 12" by (simp add: script_length_def split: if_splits)
  with playing_facts [OF k(2)] show ?thesis by blast
qed

lemma finale_comes_to_result_witness:
  "LyStats \<in> set (finale_layers (fi_stage (run (finale_step ResDraw) (finale_mount ResDraw True) (replicate 5 FiFire))) True)"
proof -
  let ?s = "run (finale_step ResDraw) (finale_mount ResDraw True) (replicate 5 FiFire)"
  have "legal finale_enabled (finale_step ResDraw) (finale_mount ResDraw True) (replicate 5 FiFire) \<and> pending (fi_timers ?s) = []"
    by (simp add: numeral_eq_Suc finale_mount_at finale_fire_at_short)
      (simp add: numeral_eq_Suc finale_at_simps)
  with finale_comes_to_result [of ResDraw True "replicate 5 FiFire" ?s] show ?thesis by simp
qed

text \<open>
  The stage of the final blow lasts 2300 ms and the blow's own last stage begins at 2400 ms: the
  loser lands, with the dust, only while the whole scene is fading away.
\<close>

lemma loser_lands_unseen:
  assumes "legal finale_enabled (finale_step r) (finale_mount r both) es" "FiUnmount \<notin> set es"
    and "s = run (finale_step r) (finale_mount r both) es" and "fi_blow s = Some b" "bl_sub b = BLand"
  shows "LyFinalBlow \<notin> set (finale_layers (fi_stage s) both)"
proof -
  from playing_run [OF playing_mount assms(1,2)] obtain k where "finale_playing r both k s" unfolding assms(3) by auto
  then obtain present where p: "point_ok r both k present" "s = finale_at r both k present"
    by (auto simp: finale_playing_def)
  with assms(4) have "present" by (cases present) (simp_all add: finale_at_def Let_def)
  with p(1) have b: "both" "r \<noteq> ResDraw" "k \<le> 12" by (auto simp: point_ok_def split: if_splits)
  have "\<not> k < 7"
  proof
    assume "k < 7"
    then have "k = 0 \<or> k = 1 \<or> k = 2 \<or> k = 3 \<or> k = 4 \<or> k = 5 \<or> k = 6" by presburger
    with b(1,2) \<open>present\<close> p(2) assms(4,5) show False by (elim disjE) (auto simp: finale_at_simps)
  qed
  with b have "k = 7 \<or> k = 8 \<or> k = 9 \<or> k = 10 \<or> k = 11 \<or> k = 12" by presburger
  with b p(2) show ?thesis by (elim disjE) (simp_all add: finale_at_simps finale_layers_def Let_def)
qed

text \<open>After the overlay has been removed only waves of confetti are left to fire.\<close>

lemma gone_unmount:
  assumes "finale_playing r both k s" shows "finale_gone (finale_unmount s)"
proof -
  from assms obtain present where p: "point_ok r both k present" "s = finale_at r both k present"
    by (auto simp: finale_playing_def)
  show ?thesis
  proof (cases "r = ResDraw \<or> \<not> both")
    case True
    with p(1) have "k = 0 \<or> k = 1 \<or> k = 2 \<or> k = 3 \<or> k = 4 \<or> k = 5" "present = False" by (auto simp: point_ok_def)
    with True show ?thesis
      unfolding p(2) by (elim disjE; cases r)
        (simp_all add: finale_gone_def finale_unmount_def blow_unmount_def clear_all_def clear_timeout_def finale_at_simps Let_def)
  next
    case False
    with p(1) have k: "k \<le> 12" "present \<or> 7 \<le> k" by (auto simp: point_ok_def)
    from cases_13 [OF k(1)] k(2) False show ?thesis
      unfolding p(2) by (elim disjE; cases present)
        (simp_all add: finale_gone_def finale_unmount_def blow_unmount_def clear_all_def clear_timeout_def finale_at_simps Let_def)
  qed
qed

end
