(* ===== verification/Invite_Links.thy ===== *)
theory Invite_Links
  imports Analytics Characters
begin

unbundle bit_operations_syntax

text \<open>
  Invitations: the challenge links of the phone (\<open>mobile/app/invite.tsx\<close>), the promotion link of
  the web's invite page (\<open>web/src/app/invite/page.tsx\<close>), and the phone's own analytics client
  (\<open>mobile/src/lib/analytics.ts\<close>).  Random digits, what the share sheet and the clipboard answer and
  when a pending read or write of the device's store resolves are arguments or events.
\<close>

subsection \<open>Challenge links\<close>

text \<open>
  \<open>generateUUID\<close>: the random digits are \<open>(Math.random() * 16) | 0\<close>, so below 16; every \<open>x\<close> and \<open>y\<close>
  of the pattern takes the next one.
\<close>

definition UUID_PATTERN :: string where
  "UUID_PATTERN = ''xxxxxxxx-xxxx-4xxx-yxxx-xxxxxxxxxxxx''"

definition uuid_digit :: "char \<Rightarrow> nat \<Rightarrow> string" where
  "uuid_digit c r = (let v = (if c = CHR ''x'' then r else (r AND 3) OR 8) in show_hex v)"

fun fill_pattern :: "string \<Rightarrow> nat list \<Rightarrow> string" where
  "fill_pattern [] rs = []"
| "fill_pattern (c # cs) rs =
     (if c = CHR ''x'' \<or> c = CHR ''y''
      then (case rs of [] \<Rightarrow> [] | r # rs' \<Rightarrow> uuid_digit c r @ fill_pattern cs rs')
      else c # fill_pattern cs rs)"

definition generateUUID :: "nat list \<Rightarrow> string" where
  "generateUUID randoms = fill_pattern UUID_PATTERN randoms"

definition challenge_link :: "string \<Rightarrow> string \<Rightarrow> nat list \<Rightarrow> string" where
  "challenge_link web_base selectedChar randoms =
     href (search_set ''share'' (generateUUID randoms) (search_set ''character'' selectedChar
       (search_set ''ref'' ''mobile'' (new_url_at ''/invite'' web_base))))"

text \<open>A string fits a pattern: hexadecimal digits for \<open>x\<close>, one of 8, 9, a, b for \<open>y\<close>.\<close>

definition fits_char :: "char \<Rightarrow> char \<Rightarrow> bool" where
  "fits_char p c = (if p = CHR ''x'' then hex_val c \<noteq> None else if p = CHR ''y'' then c \<in> set ''89ab'' else c = p)"

lemma variant_digit: "r < 16 \<Longrightarrow> (r AND 3) OR 8 \<in> {8, 9, 10, 11 :: nat}"
proof -
  have "list_all (\<lambda>r. (r AND 3) OR 8 = 8 \<or> (r AND 3) OR 8 = 9 \<or> (r AND 3) OR 8 = 10 \<or> (r AND 3) OR 8 = (11 :: nat)) [0..<16]"
    by code_simp
  then show "r < 16 \<Longrightarrow> ?thesis" by (simp only: list_all_iff set_upt insert_iff empty_iff) simp
qed

lemma variant_char: "v \<in> {8, 9, 10, 11} \<Longrightarrow> [hex_lower v] = show_hex v \<and> hex_lower v \<in> set ''89ab''"
proof -
  have "list_all (\<lambda>v. [hex_lower v] = show_hex v \<and> hex_lower v \<in> set ''89ab'') [8, 9, 10, 11]" by code_simp
  then show "v \<in> {8, 9, 10, 11} \<Longrightarrow> ?thesis" by (auto simp only: list_all_iff list.set)
qed

lemma uuid_digit_fits:
  assumes "r < 16" "c = CHR ''x'' \<or> c = CHR ''y''"
  shows "\<exists>d. uuid_digit c r = [d] \<and> fits_char c d"
  using assms(2)
proof
  assume "c = CHR ''x''"
  with assms(1) show ?thesis by (simp add: uuid_digit_def fits_char_def show_hex.simps [of r] hex_val_lower)
next
  assume c: "c = CHR ''y''"
  let ?v = "(r AND 3) OR 8"
  have "[hex_lower ?v] = show_hex ?v" "hex_lower ?v \<in> set ''89ab''"
    using variant_char [OF variant_digit [OF assms(1)]] by blast+
  with c show ?thesis unfolding uuid_digit_def fits_char_def Let_def by (intro exI [of _ "hex_lower ?v"]) auto
qed

lemma fill_pattern_fits:
  "list_all (\<lambda>r. r < 16) rs \<Longrightarrow> length (filter (\<lambda>c. c = CHR ''x'' \<or> c = CHR ''y'') pat) \<le> length rs \<Longrightarrow>
   list_all2 fits_char pat (fill_pattern pat rs)"
proof (induction pat rs rule: fill_pattern.induct)
  case (2 c cs rs)
  show ?case
  proof (cases "c = CHR ''x'' \<or> c = CHR ''y''")
    case True
    with 2(4) obtain r rs' where rs: "rs = r # rs'" by (cases rs) auto
    with 2(3) uuid_digit_fits [of r c] True obtain d where "uuid_digit c r = [d]" "fits_char c d" by auto
    with True rs 2(1) [OF True rs] 2(3,4) show ?thesis by simp
  next
    case False
    with 2(2) [OF False] 2(3,4) show ?thesis by (simp add: fits_char_def)
  qed
qed simp

text \<open>
  Claim C36: the link the phone makes is a well-formed address that carries what it was made from.  Parsed
  as a URL, from any origin and for any fighter's name, it has this origin, the path of the invite page, and
  exactly three parameters: \<open>mobile\<close> as referrer, the chosen fighter, and an identifier of the shape of a
  version 4 UUID, whatever the random numbers.  (What is parsed is the address; the web's invite page
  itself looks at none of its parameters.)
\<close>

theorem challenge_link_roundtrip:
  assumes "origin_ok web_base" and "list_all (\<lambda>r. r < 16) randoms" and "31 \<le> length randoms"
  shows "u_path (parse_url (challenge_link web_base fighter randoms)) = ''/invite'' \<and>
    u_origin (parse_url (challenge_link web_base fighter randoms)) = web_base \<and>
    parse_params (u_query (parse_url (challenge_link web_base fighter randoms))) =
      [(''ref'', ''mobile''), (''character'', fighter), (''share'', generateUUID randoms)] \<and>
    length (generateUUID randoms) = 36 \<and> list_all2 fits_char UUID_PATTERN (generateUUID randoms)"
proof -
  let ?u = "search_set ''share'' (generateUUID randoms) (search_set ''character'' fighter
       (search_set ''ref'' ''mobile'' (new_url_at ''/invite'' web_base)))"
  have fits: "list_all2 fits_char UUID_PATTERN (generateUUID randoms)"
    unfolding generateUUID_def using assms(2,3) by (intro fill_pattern_fits) (simp_all add: UUID_PATTERN_def)
  have "parse_url (challenge_link web_base fighter randoms) = ?u"
    unfolding challenge_link_def using assms(1) by (intro parse_href) (simp_all add: search_set_def new_url_at_def)
  moreover have "parse_params [] = []" by (simp add: parse_params_def)
  ultimately show ?thesis
    using fits list_all2_lengthD [OF fits] by (simp add: search_set_def new_url_at_def) (simp add: UUID_PATTERN_def)
qed

lemma challenge_link_roundtrip_witness:
  "parse_params (u_query (parse_url (challenge_link ''https://jjan.daeseon.ai'' ''yuri'' (replicate 31 15)))) =
   [(''ref'', ''mobile''), (''character'', ''yuri''), (''share'', generateUUID (replicate 31 15))]"
proof -
  have "origin_ok (''https:'' @ ''//jjan.daeseon.ai'')" 
    unfolding origin_ok_def by (rule exI [of _ "''https''"], rule exI [of _ "''jjan.daeseon.ai''"]) simp
  with challenge_link_roundtrip [of "''https://jjan.daeseon.ai''" "replicate 31 15" "''yuri''"] show ?thesis by (simp add: list_all_iff)
qed

subsection \<open>The phone's invite screen\<close>

record m_invite =
  mi_selectedChar :: string
  mi_challengeLink :: "string option"
  mi_copied :: bool
  mi_shared :: "string list"
  mi_alerts :: "string list"
  mi_resets :: nat

definition m_invite_init :: m_invite where
  "m_invite_init = \<lparr>mi_selectedChar = ''haneul'', mi_challengeLink = None, mi_copied = False, mi_shared = [], mi_alerts = [], mi_resets = 0\<rparr>"

definition createChallenge :: "string \<Rightarrow> nat list \<Rightarrow> m_invite \<Rightarrow> m_invite" where
  "createChallenge web_base randoms s =
     s\<lparr>mi_challengeLink := Some (challenge_link web_base (mi_selectedChar s) randoms), mi_copied := False\<rparr>"

definition shareLink :: "m_invite \<Rightarrow> m_invite" where
  "shareLink s = (case mi_challengeLink s of None \<Rightarrow> s
     | Some l \<Rightarrow> s\<lparr>mi_shared := mi_shared s @ [''I challenge you to a Ki Clash battle! '' @ l]\<rparr>)"

text \<open>\<open>copyLink\<close> with the share sheet's outcome; \<open>mi_resets\<close> counts the timers that will take \<open>copied\<close> back.\<close>

definition copyLink :: "bool \<Rightarrow> m_invite \<Rightarrow> m_invite" where
  "copyLink shared s = (case mi_challengeLink s of None \<Rightarrow> s
     | Some l \<Rightarrow> (if shared then s\<lparr>mi_shared := mi_shared s @ [l]\<rparr> else s\<lparr>mi_alerts := mi_alerts s @ [l]\<rparr>)
                  \<lparr>mi_copied := True, mi_resets := mi_resets s + 1\<rparr>)"

datatype m_invite_event = MiPick string | MiCreate "nat list" | MiShare | MiCopy bool | MiReset

fun m_invite_step :: "string \<Rightarrow> m_invite \<Rightarrow> m_invite_event \<Rightarrow> m_invite" where
  "m_invite_step web s (MiPick i) = s\<lparr>mi_selectedChar := i\<rparr>"
| "m_invite_step web s (MiCreate rs) = createChallenge web rs s"
| "m_invite_step web s MiShare = shareLink s"
| "m_invite_step web s (MiCopy shared) = copyLink shared s"
| "m_invite_step web s MiReset = (if mi_resets s = 0 then s else s\<lparr>mi_copied := False, mi_resets := mi_resets s - 1\<rparr>)"

text \<open>The timer of an earlier copy takes back the label of a later one, and a link keeps the fighter it was made with.\<close>

lemma older_timer_clears_label:
  "mi_copied (run (m_invite_step web) m_invite_init [MiCreate rs, MiCopy True, MiCreate rs, MiCopy True]) \<and>
   \<not> mi_copied (run (m_invite_step web) m_invite_init [MiCreate rs, MiCopy True, MiCreate rs, MiCopy True, MiReset])"
  by (simp add: m_invite_init_def createChallenge_def copyLink_def)

lemma link_keeps_fighter:
  "mi_challengeLink (run (m_invite_step web) m_invite_init [MiPick a, MiCreate rs, MiPick b]) = Some (challenge_link web a rs)"
  by (simp add: m_invite_init_def createChallenge_def)

subsection \<open>The web's invite page\<close>

record w_invite =
  wi_copied :: bool
  wi_resets :: nat
  wi_tracked :: "(string \<times> js_obj) list"

definition invite_link :: "string \<Rightarrow> string" where
  "invite_link origin = (case PROMO_CAMPAIGN_BY_SLUG ''friend-share'' of Some e \<Rightarrow> buildPromoUrl e origin | None \<Rightarrow> [])"

definition invite_event :: "string \<Rightarrow> string \<times> js_obj" where
  "invite_event way = (''invite_copied'', [(''surface'', Some (JStr ''invite_page'')), (''method'', Some (JStr way)),
     (''promo'', Some (JStr ''friend-share''))])"

definition copyPromoLink :: "bool \<Rightarrow> w_invite \<Rightarrow> w_invite" where
  "copyPromoLink written s =
     (if written then s\<lparr>wi_copied := True, wi_tracked := wi_tracked s @ [invite_event ''clipboard''], wi_resets := wi_resets s + 1\<rparr>
       else s\<lparr>wi_copied := False\<rparr>)"

text \<open>\<open>share\<close> is \<open>None\<close> where the browser has no share sheet, otherwise whether it was used.\<close>

definition sharePromoLink :: "bool option \<Rightarrow> bool \<Rightarrow> w_invite \<Rightarrow> w_invite" where
  "sharePromoLink share written s = (case share of
      None \<Rightarrow> copyPromoLink written s
    | Some True \<Rightarrow> s\<lparr>wi_tracked := wi_tracked s @ [invite_event ''native_share'']\<rparr>
    | Some False \<Rightarrow> s)"

text \<open>The page's link is that of a campaign of the table, whose promotion leads to the PvP page.\<close>

lemma invite_link_resolves:
  "invite_link origin = origin @ ''/go/friend-share'' \<and>
   (\<exists>c. PROMO_CAMPAIGN_BY_SLUG ''friend-share'' = Some (Campaign c) \<and> pc_targetPath c = ''/pvp'')"
  by (simp add: invite_link_def PROMO_CAMPAIGN_BY_SLUG_def PROMO_CAMPAIGNS_def buildPromoUrl_def href_def new_url_at_def url_search_def)

text \<open>The web's label has the same fault: the timer of an earlier copy takes back the label of a later one.\<close>

datatype w_invite_event = WiCopy bool | WiShare "bool option" bool | WiReset

fun w_invite_step :: "w_invite \<Rightarrow> w_invite_event \<Rightarrow> w_invite" where
  "w_invite_step s (WiCopy written) = copyPromoLink written s"
| "w_invite_step s (WiShare share written) = sharePromoLink share written s"
| "w_invite_step s WiReset = (if wi_resets s = 0 then s else s\<lparr>wi_copied := False, wi_resets := wi_resets s - 1\<rparr>)"

lemma older_timer_clears_promo_label:
  "\<not> wi_copied (run w_invite_step \<lparr>wi_copied = False, wi_resets = 0, wi_tracked = []\<rparr> [WiCopy True, WiCopy True, WiReset])"
  by (simp add: copyPromoLink_def)

subsection \<open>The phone's analytics\<close>

text \<open>
  A call first reads the session and the player from the store, creates the session when there is
  none, waits until it is stored, and then posts; calls overlap.  A call that fails anywhere is
  dropped.  The store is any key-value store.
\<close>

datatype track_stage = TrackReading | TrackCreating string "string option" | TrackReady string "string option"

record 's phone_track =
  pt_store :: 's
  pt_calls :: "(string \<times> js_obj \<times> track_stage) list"
  pt_posts :: "json list"

definition M_payload :: "string \<Rightarrow> js_obj \<Rightarrow> string \<Rightarrow> string option \<Rightarrow> string \<Rightarrow> json" where
  "M_payload event properties sid player now =
     JObj [(''event'', JStr event),
           (''properties'', obj_json (obj_spread properties [(''client'', Some (JStr ''mobile''))])),
           (''session_id'', JStr sid), (''player_id'', jnullable player), (''path'', JStr ''mobile''),
           (''referrer'', JNull), (''timestamp'', JStr now)]"

datatype track_event = TrkCall string js_obj | TrkRead nat string | TrkStored nat | TrkPost nat string | TrkFailed nat

fun drop_at :: "nat \<Rightarrow> 'a list \<Rightarrow> 'a list" where
  "drop_at i xs = take i xs @ drop (Suc i) xs"

fun M_track_step :: "('s \<Rightarrow> string \<Rightarrow> string option) \<Rightarrow> (string \<Rightarrow> string \<Rightarrow> 's \<Rightarrow> 's) \<Rightarrow> 's phone_track \<Rightarrow> track_event \<Rightarrow> 's phone_track" where
  "M_track_step get put s (TrkCall event ps) = s\<lparr>pt_calls := pt_calls s @ [(event, ps, TrackReading)]\<rparr>"
| "M_track_step get put s (TrkRead i fresh) =
     (if i < length (pt_calls s) then
        (case pt_calls s ! i of
           (event, ps, TrackReading) \<Rightarrow>
             (let existing = get (pt_store s) SESSION_KEY; player = get (pt_store s) K_PLAYER
              in s\<lparr>pt_calls := (pt_calls s)[i := (event, ps,
                   if truthy existing then TrackReady (the existing) player else TrackCreating fresh player)]\<rparr>)
         | _ \<Rightarrow> s)
      else s)"
| "M_track_step get put s (TrkStored i) =
     (if i < length (pt_calls s) then
        (case pt_calls s ! i of
           (event, ps, TrackCreating sid player) \<Rightarrow>
             s\<lparr>pt_store := put SESSION_KEY sid (pt_store s), pt_calls := (pt_calls s)[i := (event, ps, TrackReady sid player)]\<rparr>
         | _ \<Rightarrow> s)
      else s)"
| "M_track_step get put s (TrkPost i now) =
     (if i < length (pt_calls s) then
        (case pt_calls s ! i of
           (event, ps, TrackReady sid player) \<Rightarrow>
             s\<lparr>pt_posts := pt_posts s @ [M_payload event ps sid player now], pt_calls := drop_at i (pt_calls s)\<rparr>
         | _ \<Rightarrow> s)
      else s)"
| "M_track_step get put s (TrkFailed i) = s\<lparr>pt_calls := drop_at i (pt_calls s)\<rparr>"

text \<open>The events the phone's code sends.\<close>

definition M_EVENTS :: "string list" where
  "M_EVENTS = [''action_submitted'', ''invite_copied'', ''match_finish'', ''mobile_matchmaking_timeout'', ''mobile_pvp_error'',
     ''mobile_room_error'', ''mobile_ws_game_close'', ''mobile_ws_game_error'', ''mobile_ws_game_open'',
     ''mobile_ws_matchmaking_close'', ''mobile_ws_matchmaking_error'', ''mobile_ws_matchmaking_open'', ''play_start'',
     ''pvp_match_started'', ''pvp_quick_match_started'', ''pvp_room_created'', ''pvp_room_joined'']"

lemma M_event_names_ok: "list_all event_name_ok M_EVENTS"
  by code_simp

definition session_of :: "json \<Rightarrow> json option" where
  "session_of j = jopt (Some j) ''session_id''"

lemma M_payload_parts [simp]:
  "session_of (M_payload ev ps sid player now) = Some (JStr sid)"
  "jopt (Some (M_payload ev ps sid player now)) ''event'' = Some (JStr ev)"
  "jprop (M_payload ev ps sid player now) ''event'' = Inr (Some (JStr ev))"
  by (simp_all add: session_of_def M_payload_def)

text \<open>
  Whatever the phone tracks is accepted by the web's analytics route as long as its text keeps within
  the limit, and is logged under its own name, as coming from a mobile client also where the caller
  gave another, and with its session.
\<close>

theorem phone_events_accepted:
  assumes "event \<in> set M_EVENTS" and "length raw \<le> MAX_BODY_BYTES" and "distinct (map fst properties)"
  shows "\<exists>logged ps. POST_events raw (Some (M_payload event properties sid player now)) headers =
       Inr (Analytics.Response 200 (JObj [(''ok'', JBool True)]), Some logged) \<and>
     jopt (Some logged) ''event'' = Some (JStr event) \<and>
     jopt (Some logged) ''properties'' = Some (JObj ps) \<and> map_of ps ''client'' = Some (JStr ''mobile'') \<and>
     jopt (Some logged) ''session_id'' = Some (JStr (take 300 sid))"
proof -
  let ?ps = "obj_spread properties [(''client'', Some (JStr ''mobile''))]"
  have ok: "event_name_ok event \<and> slice_to 300 event = event \<and> event \<noteq> []"
    using assms(1) M_event_names_ok by (auto simp: list_all_iff event_name_ok_def slice_to_def)
  have "map_of (defined_props ?ps) ''client'' = Some (JStr ''mobile'')"
    using assms(3) by (simp add: map_of_defined distinct_obj_spread map_of_obj_spread)
  moreover have "POST_events raw (Some (M_payload event properties sid player now)) headers =
      Inr (Analytics.Response 200 (JObj [(''ok'', JBool True)]), Some (logged_payload (M_payload event properties sid player now) event headers))"
    using assms(2) ok by (simp add: POST_events_def asString_def)
  moreover have "jopt (Some (logged_payload (M_payload event properties sid player now) event headers)) ''properties'' = Some (JObj (defined_props ?ps))"
    by (simp add: logged_payload_def asRecord_def M_payload_def obj_json_defined Let_def)
  ultimately show ?thesis
    by (simp add: logged_payload_def asString_def slice_to_def Let_def) (simp add: M_payload_def slice_to_def)
qed

lemma phone_events_accepted_witness:
  "\<exists>logged. POST_events ''text'' (Some (M_payload ''play_start'' [(''client'', Some (JStr ''x''))] ''s1'' None ''2026-01-01'')) (\<lambda>_. None) =
     Inr (Analytics.Response 200 (JObj [(''ok'', JBool True)]), Some logged)"
proof -
  have "''play_start'' \<in> set M_EVENTS" "length ''text'' \<le> MAX_BODY_BYTES"
    "distinct (map fst [(''client'', Some (JStr ''x''))])" by (simp_all add: M_EVENTS_def MAX_BODY_BYTES_def)
  from phone_events_accepted [OF this, of "''s1''" None "''2026-01-01''" "\<lambda>_. None"] show ?thesis by fast
qed

text \<open>Two calls that overlap at the first start see no session and post under two.\<close>

lemma overlapping_first_calls:
  assumes "\<And>k v s k'. get (put k v s) k' = (if k' = k then Some v else get s k')" and "get st SESSION_KEY = None"
  shows "map session_of (pt_posts (run (M_track_step get put) \<lparr>pt_store = st, pt_calls = [], pt_posts = []\<rparr>
     [TrkCall a [], TrkCall b [], TrkRead 0 x, TrkRead 1 y, TrkStored 0, TrkPost 0 t, TrkStored 0, TrkPost 0 u])) =
     [Some (JStr x), Some (JStr y)]"
  using assms(2) by (simp add: Let_def)

end
