(* ===== verification/Duel_Server.thy ===== *)
theory Duel_Server
  imports PvP_Session
begin

text \<open>
  The server's side of an online match, \<open>app/modules/ki_clash/game_session.py\<close>, with the web-socket
  loop of \<open>app/api/v1/endpoints/ws.py\<close> that calls it.  The server is one asyncio event loop: a task runs
  without interruption up to an \<open>await\<close> that waits for the store or a socket, so a task is the list of
  its remaining blocks and an event runs the next block of one task.  Each player's socket has a
  handler task that takes one message at a time; every turn has a timer task, every disconnection a
  forfeit task.  Cancelling a task drops its remaining blocks; this holds for the running task too,
  whose next \<open>await\<close> raises.  The store is one value, updated atomically; an attempt that loses a race
  is repeated (\<open>watch_and_update\<close>).  The players are told apart by their side.
\<close>

subsection \<open>State\<close>

fun other :: "side \<Rightarrow> side" where
  "other SideP1 = SideP2"
| "other SideP2 = SideP1"

record pvp_session =
  ss_game_state :: game_state
  ss_connected :: "side list"
  ss_started :: bool
  ss_action :: "side \<Rightarrow> action option"

datatype task = Handler side | Timer nat | Forfeit nat

datatype block =
    HandleConnect side
  | StartGame
  | StoreAction side action
  | SendTo side game_msg
  | ResolveTurn action action
  | Pause
  | AskNext
  | StartTimer
  | SleepTurn
  | FireTimer
  | HandleDisconnect side
  | StartForfeit side
  | LeaveSocket side
  | SleepForfeit
  | ForfeitNow side

record server =
  sv_session :: "pvp_session option"
  sv_tasks :: "task \<Rightarrow> block list"
  sv_timeout :: "nat option"
  sv_forfeits :: "side \<Rightarrow> nat option"
  sv_next :: nat
  sv_room :: "side list"
  sv_out :: "side \<Rightarrow> game_msg list"

definition new_session :: "game_state \<Rightarrow> pvp_session" where
  "new_session gs = \<lparr>ss_game_state = gs, ss_connected = [], ss_started = False, ss_action = (\<lambda>_. None)\<rparr>"

definition new_server :: "game_state \<Rightarrow> server" where
  "new_server gs = \<lparr>sv_session = Some (new_session gs), sv_tasks = (\<lambda>_. []), sv_timeout = None,
     sv_forfeits = (\<lambda>_. None), sv_next = 0, sv_room = [], sv_out = (\<lambda>_. [])\<rparr>"

subsection \<open>Storing an action\<close>

text \<open>
  The mutator of \<open>submit_action\<close> with the local variables it sets: they survive an attempt that is
  repeated.
\<close>

record store_flags =
  sf_error :: "string option"
  sf_resolve :: "(action \<times> action) option"
  sf_turn :: int

definition no_flags :: store_flags where
  "no_flags = \<lparr>sf_error = None, sf_resolve = None, sf_turn = 0\<rparr>"

definition store_action :: "side \<Rightarrow> action \<Rightarrow> store_flags \<times> pvp_session \<Rightarrow> store_flags \<times> pvp_session" where
  "store_action p a x = (case x of (fl, s) \<Rightarrow>
     if gs_status (ss_game_state s) \<noteq> InProgress then (fl\<lparr>sf_error := Some ''Game is not in progress''\<rparr>, s)
     else case current_round (ss_game_state s) of
         None \<Rightarrow> (fl\<lparr>sf_error := Some ''Round not active''\<rparr>, s)
       | Some r \<Rightarrow>
           (let ki = own p (rs_p1_ki r) (rs_p2_ki r)
            in if \<not> validate_action a ki then
                 (fl\<lparr>sf_error := Some (''Cannot afford '' @ action_str a @ '' (ki='' @ show_int ki @ '')'')\<rparr>, s)
               else
                 (let s1 = s\<lparr>ss_action := (ss_action s)(p := Some a)\<rparr>; fl1 = fl\<lparr>sf_turn := rs_turn_number r + 1\<rparr>
                  in case (ss_action s1 SideP1, ss_action s1 SideP2) of
                       (Some a1, Some a2) \<Rightarrow> (fl1\<lparr>sf_resolve := Some (a1, a2)\<rparr>, s1\<lparr>ss_action := (\<lambda>_. None)\<rparr>)
                     | _ \<Rightarrow> (fl1, s1))))"

text \<open>The attempts of one update: all but the last saw a session that someone else replaced meanwhile.\<close>

definition watch_and_update :: "('f \<times> pvp_session \<Rightarrow> 'f \<times> pvp_session) \<Rightarrow> pvp_session list \<Rightarrow> 'f \<Rightarrow> pvp_session \<Rightarrow> 'f \<times> pvp_session" where
  "watch_and_update mutate stale fl s = mutate (fold (\<lambda>s0 fl. fst (mutate (fl, s0))) stale fl, s)"

definition after_store :: "side \<Rightarrow> store_flags \<Rightarrow> block list" where
  "after_store p fl = (case sf_error fl of
      Some e \<Rightarrow> [SendTo p (ErrorMsg e)]
    | None \<Rightarrow> SendTo p ActionConfirmed # (case sf_resolve fl of None \<Rightarrow> [] | Some (a1, a2) \<Rightarrow> [ResolveTurn a1 a2]))"

subsection \<open>Blocks\<close>

definition set_task :: "task \<Rightarrow> block list \<Rightarrow> server \<Rightarrow> server" where
  "set_task t bs sv = sv\<lparr>sv_tasks := (sv_tasks sv)(t := bs)\<rparr>"

definition cancel_timeout :: "server \<Rightarrow> server" where
  "cancel_timeout sv = (case sv_timeout sv of None \<Rightarrow> sv
     | Some k \<Rightarrow> set_task (Timer k) [] (sv\<lparr>sv_timeout := None\<rparr>))"

definition waiting_blocks :: "game_state \<Rightarrow> block list" where
  "waiting_blocks gs = (if current_round gs = None then []
     else map (SendTo SideP1) (waiting_message SideP1 gs) @ map (SendTo SideP2) (waiting_message SideP2 gs) @ [StartTimer])"

text \<open>The messages of a resolved turn, to both players in turn, and what follows.\<close>

definition both :: "(side \<Rightarrow> game_msg) \<Rightarrow> block list" where
  "both m = [SendTo SideP1 (m SideP1), SendTo SideP2 (m SideP2)]"

definition result_blocks :: "turn_result \<Rightarrow> round_result option \<Rightarrow> match_result option \<Rightarrow> block list" where
  "result_blocks tr rr mr =
     both (\<lambda>p. turn_message p tr) @
     (case rr of None \<Rightarrow> [] | Some x \<Rightarrow> both (\<lambda>p. round_message p x)) @
     (case mr of Some x \<Rightarrow> both (\<lambda>p. match_message p x) | None \<Rightarrow> [Pause, AskNext])"

text \<open>An exception ends the task; a handler's socket is closed and leaves the room.\<close>

fun crash :: "task \<Rightarrow> server \<Rightarrow> server" where
  "crash (Handler p) sv = set_task (Handler p) [LeaveSocket p] sv"
| "crash t sv = set_task t [] sv"

definition forfeit :: "game_state \<Rightarrow> side \<Rightarrow> game_state" where
  "forfeit gs p = gs\<lparr>gs_status := Abandoned\<rparr>"

definition forfeit_message :: "game_state \<Rightarrow> game_msg" where
  "forfeit_message gs = MatchResultMsg
     \<lparr>md_winner = ''you'', md_rounds_won_p1 = gs_rounds_won_p1 gs, md_rounds_won_p2 = gs_rounds_won_p2 gs,
      md_total_turns = sum_list (map rr_total_turns (round_results gs))\<rparr>"

text \<open>A player's forfeit timer is cancelled when they are back, and every timer when the game is over.\<close>

definition cancel_forfeit :: "side \<Rightarrow> server \<Rightarrow> server" where
  "cancel_forfeit p sv = (case sv_forfeits sv p of None \<Rightarrow> sv
     | Some k \<Rightarrow> set_task (Forfeit k) [] (sv\<lparr>sv_forfeits := (sv_forfeits sv)(p := None)\<rparr>))"

definition cleanup_game :: "server \<Rightarrow> server" where
  "cleanup_game sv = cancel_forfeit SideP2 (cancel_forfeit SideP1 (cancel_timeout sv))"

text \<open>The next block of a task, whose remaining blocks are \<open>rest\<close>.\<close>

fun exec_block :: "task \<Rightarrow> block \<Rightarrow> block list \<Rightarrow> server \<Rightarrow> server" where
  "exec_block t (HandleConnect p) rest sv =
     (case sv_session sv of
        None \<Rightarrow> set_task t (SendTo p (ErrorMsg ''Game not found'') # rest) sv
      | Some s \<Rightarrow>
          if p \<in> set (ss_connected s) then
            set_task t (SendTo (other p) OpponentReconnected #
              (if gs_status (ss_game_state s) = InProgress then waiting_blocks (ss_game_state s) else []) @ rest) (cancel_forfeit p sv)
          else set_task t rest (sv\<lparr>sv_session := Some (s\<lparr>ss_connected := ss_connected s @ [p]\<rparr>)\<rparr>))"
| "exec_block t StartGame rest sv =
     (if 2 \<le> length (sv_room sv) then
        (case sv_session sv of None \<Rightarrow> set_task t rest sv
         | Some s \<Rightarrow> if ss_started s then set_task t rest sv
             else set_task t (waiting_blocks (ss_game_state s) @ rest) (sv\<lparr>sv_session := Some (s\<lparr>ss_started := True\<rparr>)\<rparr>))
      else set_task t rest sv)"
| "exec_block t (StoreAction p a) rest sv =
     (case sv_session sv of
        None \<Rightarrow> set_task t (SendTo p (ErrorMsg ''Game not found'') # rest) sv
      | Some s \<Rightarrow> (case watch_and_update (store_action p a) [] no_flags s of (fl, s') \<Rightarrow>
          set_task t (after_store p fl @ rest) (sv\<lparr>sv_session := Some s'\<rparr>)))"
| "exec_block t (SendTo p m) rest sv =
     set_task t rest (if p \<in> set (sv_room sv) then sv\<lparr>sv_out := (sv_out sv)(p := sv_out sv p @ [m])\<rparr> else sv)"
| "exec_block t (ResolveTurn a1 a2) rest sv =
     (case sv_session sv of
        None \<Rightarrow> set_task t rest sv
      | Some s \<Rightarrow> (case submit_turn (ss_game_state s) a1 a2 of
          Inl e \<Rightarrow> crash t sv
        | Inr (gs, tr, rr, mr) \<Rightarrow>
            cancel_timeout (set_task t (result_blocks tr rr mr @ rest) (sv\<lparr>sv_session := Some (s\<lparr>ss_game_state := gs\<rparr>)\<rparr>))))"
| "exec_block t Pause rest sv = set_task t rest sv"
| "exec_block t AskNext rest sv =
     (case sv_session sv of
        None \<Rightarrow> set_task t rest sv
      | Some s \<Rightarrow> set_task t ((if gs_status (ss_game_state s) = InProgress then waiting_blocks (ss_game_state s) else []) @ rest) sv)"
| "exec_block t StartTimer rest sv =
     (let k = sv_next sv
      in set_task (Timer k) [SleepTurn, FireTimer] (set_task t rest ((cancel_timeout sv)\<lparr>sv_timeout := Some k, sv_next := k + 1\<rparr>)))"
| "exec_block t SleepTurn rest sv = set_task t rest sv"
| "exec_block t FireTimer rest sv =
     (case sv_session sv of
        None \<Rightarrow> set_task t rest sv
      | Some s \<Rightarrow>
          if gs_status (ss_game_state s) \<noteq> InProgress then set_task t rest sv
          else set_task t ((if ss_action s SideP1 = None then [StoreAction SideP1 Charge] else []) @
                           (if ss_action s SideP2 = None then [StoreAction SideP2 Charge] else []) @ rest) sv)"
| "exec_block t (HandleDisconnect p) rest sv =
     (case sv_session sv of
        None \<Rightarrow> set_task t rest sv
      | Some s \<Rightarrow> set_task t ([SendTo (other p) (OpponentDisconnected 30), StartForfeit p] @ rest) sv)"
| "exec_block t (StartForfeit p) rest sv =
     (let k = sv_next sv
      in set_task t rest (set_task (Forfeit k) [SleepForfeit, ForfeitNow p]
           (sv\<lparr>sv_forfeits := (sv_forfeits sv)(p := Some k), sv_next := k + 1\<rparr>)))"
| "exec_block t (LeaveSocket p) rest sv =
     (let sv1 = set_task t rest (sv\<lparr>sv_room := filter (\<lambda>q. q \<noteq> p) (sv_room sv)\<rparr>)
      in case sv_session sv1 of
           None \<Rightarrow> sv1
         | Some s \<Rightarrow> if gs_status (ss_game_state s) \<noteq> InProgress then (cleanup_game sv1)\<lparr>sv_session := None\<rparr> else sv1)"
| "exec_block t SleepForfeit rest sv = set_task t rest sv"
| "exec_block t (ForfeitNow p) rest sv =
     (if p \<in> set (sv_room sv) then set_task t rest sv
      else case sv_session sv of
        None \<Rightarrow> set_task t rest sv
      | Some s \<Rightarrow> (let gs = forfeit (ss_game_state s) p
          in set_task t (SendTo (other p) (forfeit_message gs) # rest) (sv\<lparr>sv_session := Some (s\<lparr>ss_game_state := gs\<rparr>)\<rparr>)))"

definition run_task :: "task \<Rightarrow> server \<Rightarrow> server" where
  "run_task t sv = (case sv_tasks sv t of [] \<Rightarrow> sv | b # rest \<Rightarrow> exec_block t b rest sv)"

text \<open>A message on a player's socket.\<close>

definition Action :: "string \<Rightarrow> action option" where
  "Action s = find (\<lambda>a. action_str a = s) [Charge, Block, Attack, EnergyWave, Teleport]"

definition text_field :: "json \<Rightarrow> string \<Rightarrow> string" where
  "text_field data k = (case jopt (Some data) k of Some (JStr s) \<Rightarrow> s | _ \<Rightarrow> [])"

definition game_ws_message :: "side \<Rightarrow> json \<Rightarrow> block list" where
  "game_ws_message p data =
     (if text_field data ''type'' = ''submit_action'' then
        (case Action (text_field data ''action'') of
           None \<Rightarrow> [SendTo p (ErrorMsg (''Invalid action: '' @ text_field data ''action''))]
         | Some a \<Rightarrow> [StoreAction p a])
      else if text_field data ''type'' = ''ping'' then [SendTo p GamePong]
      else [])"

lemma Action_str [simp]: "Action (action_str a) = Some a"
  by (cases a) (simp_all add: Action_def)

lemma message_of_action: "game_ws_message p (action_message a) = [StoreAction p a]"
  by (simp add: game_ws_message_def text_field_def action_message_def)

text \<open>
  What reaches the server: a player's connection (their previous socket gone), one message on an
  idle socket, the loss of a connection while its handler waits for a message, and the turn of a
  task.
\<close>

datatype server_event = SvConnect side | SvReceive side json | SvLost side | SvRun task

fun server_step :: "server \<Rightarrow> server_event \<Rightarrow> server" where
  "server_step sv (SvConnect p) =
     set_task (Handler p) [HandleConnect p, StartGame] (sv\<lparr>sv_room := filter (\<lambda>q. q \<noteq> p) (sv_room sv) @ [p]\<rparr>)"
| "server_step sv (SvReceive p data) = set_task (Handler p) (game_ws_message p data) sv"
| "server_step sv (SvLost p) = set_task (Handler p) [HandleDisconnect p, LeaveSocket p] sv"
| "server_step sv (SvRun t) = run_task t sv"

subsection \<open>Two weaknesses\<close>

text \<open>
  The timer's own task resolves the turn when a player has not chosen; resolving cancels the timer,
  that is, the task that is running: the turn is played, but no player is told and no next turn is
  asked for.
\<close>

lemma timer_cancels_itself:
  assumes "sv_tasks sv (Timer k) = ResolveTurn a1 a2 # rest" "sv_timeout sv = Some k" "sv_session sv = Some s"
    and "submit_turn (ss_game_state s) a1 a2 = Inr (gs, tr, rr, mr)"
  shows "let sv' = run_task (Timer k) sv in
      sv_session sv' = Some (s\<lparr>ss_game_state := gs\<rparr>) \<and> sv_tasks sv' = (sv_tasks sv)(Timer k := []) \<and>
      sv_timeout sv' = None \<and> sv_out sv' = sv_out sv"
  using assms by (simp add: run_task_def cancel_timeout_def set_task_def)

text \<open>
  An attempt to store an action that lost the race leaves its decision behind: when the session it
  saw held the opponent's action but the turn was resolved meanwhile, the repeated attempt stores the
  action for the next turn and resolves the old pair once more.
\<close>

lemma repeated_attempt_resolves_again:
  assumes "gs_status (ss_game_state s) = InProgress" "current_round (ss_game_state s) = Some r"
    "validate_action a (rs_p1_ki r)" "ss_action s = (\<lambda>_. None)(SideP2 := Some b)"
    and "s' = s\<lparr>ss_action := (\<lambda>_. None)\<rparr>"
  shows "sf_resolve (fst (watch_and_update (store_action SideP1 a) [s] no_flags s')) = Some (a, b) \<and>
    ss_action (snd (watch_and_update (store_action SideP1 a) [s] no_flags s')) SideP1 = Some a"
  using assms by (simp add: watch_and_update_def store_action_def no_flags_def Let_def)

end
