(* ===== verification/Duel.thy ===== *)
theory Duel
  imports Duel_Server PvP_Page
begin

text \<open>
  A whole online match: two web clients (\<open>web/src/hooks/usePvP.ts\<close>, on the cards of
  \<open>web/src/app/pvp/page.tsx\<close>) and the server, joined by their sockets.  Each client taps cards, its
  messages wait on its socket until the server's handler takes them, the server's messages wait until
  the client gets them, and the server's tasks run, all in any order.  The theorem below is about
  matches in which both connections last, nobody lets the five seconds pass and nobody taps twice
  before the tap is confirmed; the two lemmas after it show what happens otherwise.
\<close>

subsection \<open>The three parties\<close>

record duel =
  du_server :: server
  du_client :: "side \<Rightarrow> pvp"
  du_taken :: "side \<Rightarrow> nat"
  du_delivered :: "side \<Rightarrow> nat"

text \<open>The sockets are the clients' current ones; \<open>sent\<close> is what a client wrote to it.\<close>

definition game_socket :: "nat \<Rightarrow> pvp \<Rightarrow> ws_socket" where
  "game_socket i c = sockets c ! i"

definition sent :: "(side \<Rightarrow> nat) \<Rightarrow> duel \<Rightarrow> side \<Rightarrow> json list" where
  "sent sock d p = sk_sent (game_socket (sock p) (du_client d p))"

definition arrived :: "duel \<Rightarrow> side \<Rightarrow> game_msg list" where
  "arrived d p = take (du_delivered d p) (sv_out (du_server d) p)"

datatype duel_event = Tap side action | Take side | Serve task | Deliver side

fun duel_step :: "(side \<Rightarrow> nat) \<Rightarrow> duel \<Rightarrow> duel_event \<Rightarrow> duel" where
  "duel_step sock d (Tap p a) = d\<lparr>du_client := (du_client d)(p := pvp_submitAction a (du_client d p))\<rparr>"
| "duel_step sock d (Take p) =
     d\<lparr>du_server := server_step (du_server d) (SvReceive p (sent sock d p ! du_taken d p)),
       du_taken := (du_taken d)(p := du_taken d p + 1)\<rparr>"
| "duel_step sock d (Serve t) = d\<lparr>du_server := server_step (du_server d) (SvRun t)\<rparr>"
| "duel_step sock d (Deliver p) =
     d\<lparr>du_client := (du_client d)(p := pvp_step (du_client d p) (GameMessage (sock p) (sv_out (du_server d) p ! du_delivered d p))),
       du_delivered := (du_delivered d)(p := du_delivered d p + 1)\<rparr>"

text \<open>What can happen at all: cards are on the screen, messages are there, the handler is idle, a task has a block left.\<close>

definition card_shown :: "pvp \<Rightarrow> action \<Rightarrow> bool" where
  "card_shown c a \<longleftrightarrow> pv_phase c = PPlaying \<and>
     (case pv_gameState c of None \<Rightarrow> False | Some g \<Rightarrow> \<not> card_disabled a (ps_your_ki g) False)"

fun duel_possible :: "(side \<Rightarrow> nat) \<Rightarrow> duel \<Rightarrow> duel_event \<Rightarrow> bool" where
  "duel_possible sock d (Tap p a) = card_shown (du_client d p) a"
| "duel_possible sock d (Take p) = (du_taken d p < length (sent sock d p) \<and> sv_tasks (du_server d) (Handler p) = [])"
| "duel_possible sock d (Serve t) = (sv_tasks (du_server d) t \<noteq> [])"
| "duel_possible sock d (Deliver p) = (du_delivered d p < length (sv_out (du_server d) p))"

text \<open>A prompt match: one tap for each request, and no timer runs out.\<close>

fun is_waiting :: "game_msg \<Rightarrow> bool" where
  "is_waiting (WaitingForAction a b c d e) = True"
| "is_waiting _ = False"

fun is_error :: "game_msg \<Rightarrow> bool" where
  "is_error (ErrorMsg e) = True"
| "is_error _ = False"

definition asked :: "duel \<Rightarrow> side \<Rightarrow> nat" where
  "asked d p = length (filter is_waiting (arrived d p))"

fun is_handler :: "task \<Rightarrow> bool" where
  "is_handler (Handler p) = True"
| "is_handler t = False"

fun prompt :: "(side \<Rightarrow> nat) \<Rightarrow> duel \<Rightarrow> duel_event \<Rightarrow> bool" where
  "prompt sock d (Tap p a) = (card_shown (du_client d p) a \<and> length (sent sock d p) < asked d p)"
| "prompt sock d (Serve t) = (duel_possible sock d (Serve t) \<and> is_handler t)"
| "prompt sock d e = duel_possible sock d e"

definition both_connected :: "game_state \<Rightarrow> server" where
  "both_connected gs = run server_step (new_server gs)
     [SvConnect SideP1, SvRun (Handler SideP1), SvRun (Handler SideP1),
      SvConnect SideP2, SvRun (Handler SideP2), SvRun (Handler SideP2)]"

definition duel_start :: "game_state \<Rightarrow> (side \<Rightarrow> pvp) \<Rightarrow> duel" where
  "duel_start gs cs = \<lparr>du_server = both_connected gs, du_client = cs, du_taken = (\<lambda>_. 0), du_delivered = (\<lambda>_. 0)\<rparr>"

text \<open>A client that has just been connected to the match.\<close>

definition ready_client :: "nat \<Rightarrow> pvp \<Rightarrow> bool" where
  "ready_client i c \<longleftrightarrow> connected i c \<and> sk_sent (sockets c ! i) = [] \<and> roundsWonYou c = 0 \<and> roundsWonOpponent c = 0 \<and>
     pv_matchResult c = None"

lemma both_connected_eq:
  assumes "current_round gs \<noteq> None"
  shows "both_connected gs = \<lparr>sv_session = Some \<lparr>ss_game_state = gs, ss_connected = [SideP1, SideP2], ss_started = True, ss_action = (\<lambda>_. None)\<rparr>,
     sv_tasks = (\<lambda>_. [])(Handler SideP2 := waiting_blocks gs), sv_timeout = None, sv_forfeits = (\<lambda>_. None), sv_next = 0,
     sv_room = [SideP1, SideP2], sv_out = (\<lambda>_. [])\<rparr>"
  using assms by (simp add: both_connected_def new_server_def new_session_def run_task_def set_task_def fun_eq_iff)

subsection \<open>What a player is told\<close>

definition news :: "game_msg list \<Rightarrow> game_msg list" where
  "news ms = filter (\<lambda>m. m \<noteq> ActionConfirmed) ms"

lemma news_simps [simp]: "news [] = []" "news (ms @ ns) = news ms @ news ns"
  "news (m # ms) = (if m = ActionConfirmed then news ms else m # news ms)"
  by (simp_all add: news_def)

fun turns_script :: "side \<Rightarrow> game_state \<Rightarrow> (action \<times> action) list \<Rightarrow> game_msg list" where
  "turns_script p gs [] = []"
| "turns_script p gs ((a1, a2) # ms) = (case submit_turn gs a1 a2 of
      Inl e \<Rightarrow> []
    | Inr res \<Rightarrow> resolve_messages p res @ turns_script p (fst res) ms)"

definition script :: "side \<Rightarrow> game_state \<Rightarrow> (action \<times> action) list \<Rightarrow> game_msg list" where
  "script p gs ms = waiting_message p gs @ turns_script p gs ms"

lemma news_waiting [simp]: "news (waiting_message p gs) = waiting_message p gs"
  by (simp add: waiting_message_def split: option.split)

lemma news_resolve [simp]: "news (resolve_messages p res) = resolve_messages p res"
  by (simp add: resolve_messages_def turn_message_def round_message_def match_message_def split: prod.split option.split)

lemma news_session: "news (session_messages p gs ms) = turns_script p gs ms"
  by (induction p gs ms rule: session_messages.induct) (simp_all split: sum.split)

lemma script_snoc:
  "play gs ms = Inr gs' \<Longrightarrow> submit_turn gs' a1 a2 = Inr res \<Longrightarrow>
   script p gs (ms @ [(a1, a2)]) = script p gs ms @ resolve_messages p res"
proof -
  have "play gs ms = Inr gs' \<Longrightarrow> submit_turn gs' a1 a2 = Inr res \<Longrightarrow>
    turns_script p gs (ms @ [(a1, a2)]) = turns_script p gs ms @ resolve_messages p res"
    by (induction p gs ms rule: turns_script.induct) (auto split: sum.splits)
  then show "play gs ms = Inr gs' \<Longrightarrow> submit_turn gs' a1 a2 = Inr res \<Longrightarrow> ?thesis" by (simp add: script_def)
qed

lemma play_snocD:
  "play gs (ms @ [(a1, a2)]) = Inr gs' \<Longrightarrow>
   \<exists>g res. play gs ms = Inr g \<and> submit_turn g a1 a2 = Inr res \<and> gs' = fst res"
  by (induction gs ms rule: play.induct) (auto split: sum.splits)

text \<open>In a running match the last message of the script asks for the next action.\<close>

lemma resolve_ends_waiting:
  assumes "submit_turn gs a1 a2 = Inr (gs', tr, rr, mr)"
  shows "\<exists>xs. resolve_messages p (gs', tr, rr, mr) = xs @ (if gs_status gs' = InProgress then waiting_message p gs' else []) \<and>
    filter is_waiting xs = [] \<and> (gs_status gs' = InProgress \<longrightarrow> current_round gs' \<noteq> None)"
  using assms
proof (cases rule: submit_turn_cases)
  case (1 r)
  then show ?thesis
    by (cases rr; cases mr)
      (auto simp: resolve_messages_def turn_message_def round_message_def match_message_def start_new_round_def)
qed

lemma filter_waiting: "filter is_waiting (waiting_message p gs) = waiting_message p gs"
  by (simp add: waiting_message_def split: option.split)

lemma waiting_length: "length (waiting_message p gs) = (if current_round gs = None then 0 else 1)"
  by (simp add: waiting_message_def split: option.split)

lemma script_ends_waiting:
  assumes "play gs ms = Inr gs'" "current_round gs \<noteq> None" "gs_status gs = InProgress"
  shows "\<exists>xs. script p gs ms = xs @ (if gs_status gs' = InProgress then waiting_message p gs' else []) \<and>
    length (filter is_waiting xs) = length ms \<and> (gs_status gs' = InProgress \<longrightarrow> current_round gs' \<noteq> None)"
  using assms(1)
proof (induction ms arbitrary: gs' rule: rev_induct)
  case Nil
  with assms(2,3) show ?case by (simp add: script_def)
next
  case (snoc m ms)
  obtain a1 a2 where m: "m = (a1, a2)" by (cases m)
  from snoc.prems m obtain g res where g: "play gs ms = Inr g" "submit_turn g a1 a2 = Inr res" "gs' = fst res"
    by (auto dest: play_snocD)
  then have ip: "gs_status g = InProgress" by (auto dest: submit_turn_InrD)
  obtain tr rr mr where res: "res = (gs', tr, rr, mr)" using g(3) by (cases res) auto
  from snoc.IH [OF g(1)] ip obtain xs where xs: "script p gs ms = xs @ waiting_message p g"
    "length (filter is_waiting xs) = length ms" "current_round g \<noteq> None" by auto
  from resolve_ends_waiting [OF g(2) [unfolded res], of p] obtain ys where
    "resolve_messages p res = ys @ (if gs_status gs' = InProgress then waiting_message p gs' else [])"
    "filter is_waiting ys = []" "gs_status gs' = InProgress \<longrightarrow> current_round gs' \<noteq> None" by (auto simp: res)
  with xs show ?case
    by (intro exI [of _ "xs @ waiting_message p g @ ys"])
      (simp add: m script_snoc [OF g(1,2)] filter_waiting waiting_length)
qed

lemma script_waits:
  assumes "play gs ms = Inr gs'" "current_round gs \<noteq> None" "gs_status gs = InProgress"
  shows "length (filter is_waiting (script p gs ms)) = length ms + of_bool (gs_status gs' = InProgress)"
  using script_ends_waiting [OF assms, of p] by (auto simp: filter_waiting waiting_length)

subsection \<open>What a client shows of it\<close>

text \<open>The state that the server's news determine: all but the phase, the tracked events and what was sent.\<close>

definition core :: "pvp \<Rightarrow> pvp" where
  "core c = c\<lparr>pv_phase := PLobby, pv_tracked := [], sockets := map (\<lambda>s. s\<lparr>sk_sent := []\<rparr>) (sockets c)\<rparr>"

lemma core_eq_iff:
  "core c = core c' \<longleftrightarrow>
   pv_opponentName c = pv_opponentName c' \<and> pv_gameState c = pv_gameState c' \<and> pv_turnResult c = pv_turnResult c' \<and>
   pv_roundResult c = pv_roundResult c' \<and> pv_matchResult c = pv_matchResult c' \<and>
   roundsWonYou c = roundsWonYou c' \<and> roundsWonOpponent c = roundsWonOpponent c' \<and> pv_error c = pv_error c' \<and>
   matchmakingWs c = matchmakingWs c' \<and> gameWs c = gameWs c' \<and> pv_awaiting c = pv_awaiting c' \<and>
   map (\<lambda>s. s\<lparr>sk_sent := []\<rparr>) (sockets c) = map (\<lambda>s. s\<lparr>sk_sent := []\<rparr>) (sockets c')"
  by (cases c; cases c') (auto simp: core_def)

lemma core_socket:
  assumes "core c = core c'"
  shows "length (sockets c) = length (sockets c')"
    and "i < length (sockets c) \<Longrightarrow> sk_ready (sockets c ! i) = sk_ready (sockets c' ! i)"
    and "i < length (sockets c) \<Longrightarrow> sk_target (sockets c ! i) = sk_target (sockets c' ! i)"
proof -
  have m: "map (\<lambda>s. s\<lparr>sk_sent := []\<rparr>) (sockets c) = map (\<lambda>s. s\<lparr>sk_sent := []\<rparr>) (sockets c')"
    using assms by (simp add: core_eq_iff)
  then show l: "length (sockets c) = length (sockets c')" by (metis length_map)
  assume i: "i < length (sockets c)"
  from arg_cong [OF m, of "\<lambda>xs. xs ! i"] i l
  have e: "(sockets c ! i)\<lparr>sk_sent := []\<rparr> = (sockets c' ! i)\<lparr>sk_sent := []\<rparr>" by simp
  from arg_cong [OF e, of sk_ready] show "sk_ready (sockets c ! i) = sk_ready (sockets c' ! i)" by simp
  from arg_cong [OF e, of sk_target] show "sk_target (sockets c ! i) = sk_target (sockets c' ! i)" by simp
qed

lemma core_open:
  assumes "core c = core c'" shows "is_open i (sockets c) = is_open i (sockets c')"
  using core_socket [OF assms] by (auto simp: is_open_def)

lemma core_connected:
  assumes "core c = core c'" shows "connected i c = connected i c'"
proof -
  have "gameWs c = gameWs c'" using assms by (simp add: core_eq_iff)
  moreover have "is_open i (sockets c) \<Longrightarrow> sk_target (sockets c ! i) = sk_target (sockets c' ! i)"
    using core_socket(3) [OF assms] by (simp add: is_open_def)
  ultimately show ?thesis using core_open [OF assms, of i] unfolding connected_def by metis
qed

lemma core_socket_close:
  assumes "core c = core c'"
  shows "map (\<lambda>s. s\<lparr>sk_sent := []\<rparr>) (socket_close i (sockets c)) = map (\<lambda>s. s\<lparr>sk_sent := []\<rparr>) (socket_close i (sockets c'))"
proof -
  let ?f = "\<lambda>s :: ws_socket. s\<lparr>sk_sent := []\<rparr>"
  have m: "map ?f (sockets c) = map ?f (sockets c')" using assms by (simp add: core_eq_iff)
  have swap: "(s\<lparr>sk_ready := CLOSING\<rparr>)\<lparr>sk_sent := []\<rparr> = (s\<lparr>sk_sent := []\<rparr>)\<lparr>sk_ready := CLOSING\<rparr>" for s :: ws_socket
    by (cases s) simp
  have close: "map ?f (socket_close i ss) = socket_close i (map ?f ss)" for ss
    by (cases "i < length ss") (simp_all add: socket_close_def map_update swap)
  show ?thesis by (simp add: close m)
qed

lemma core_message:
  assumes "core c = core c'"
  shows "core (game_onmessage i m c) = core (game_onmessage i m c')"
proof (cases m)
  case (MatchResultMsg d)
  with assms core_socket_close [OF assms, of i] show ?thesis
    unfolding core_eq_iff by (simp add: ws_close_def ptrack_def)
next
  case (RoundResultMsg d)
  with assms show ?thesis unfolding core_eq_iff by (simp add: Let_def)
qed (use assms in \<open>simp_all add: core_eq_iff\<close>)

lemma core_step:
  assumes "core c = core c'"
  shows "core (pvp_step c (GameMessage i m)) = core (pvp_step c' (GameMessage i m))"
proof (cases "is_open i (sockets c)")
  case False
  with assms core_open [OF assms, of i] show ?thesis by simp
next
  case True
  then have "sk_target (sockets c ! i) = sk_target (sockets c' ! i)"
    using core_socket(3) [OF assms] by (simp add: is_open_def)
  with True assms core_open [OF assms, of i] core_message [OF assms, of i m] show ?thesis
    by (simp split: socket_target.split)
qed

lemma core_confirm: "core (pvp_step c (GameMessage i ActionConfirmed)) = core c"
  by (cases "is_open i (sockets c)") (simp_all add: core_def split: socket_target.split)

lemma core_submit: "core (pvp_submitAction a c) = core c"
proof -
  have "(map (\<lambda>s. s\<lparr>sk_sent := []\<rparr>) ss)[i := (ss ! i)\<lparr>sk_sent := []\<rparr>] = map (\<lambda>s. s\<lparr>sk_sent := []\<rparr>) ss" for ss :: "ws_socket list" and i
    by (rule map_list_update_same) simp
  then show ?thesis
    by (simp add: pvp_submitAction_def ptrack_def socket_send_def core_eq_iff map_update split: option.split)
qed

lemma core_receive:
  assumes "core c = core c'" shows "core (receive i c ms) = core (receive i c' ms)"
  using assms
proof (induction ms arbitrary: c c')
  case Nil
  then show ?case by simp
next
  case (Cons m ms)
  from Cons.IH [OF core_step [OF Cons.prems]] show ?case by (simp del: pvp_step.simps)
qed

lemma core_receive_news: "core (receive i c ms) = core (receive i c (news ms))"
proof (induction ms arbitrary: c)
  case Nil
  then show ?case by simp
next
  case (Cons m ms)
  show ?case
  proof (cases "m = ActionConfirmed")
    case True
    with Cons core_receive [OF core_confirm] show ?thesis by (simp del: pvp_step.simps)
  next
    case False
    with Cons show ?thesis by (simp del: pvp_step.simps)
  qed
qed

lemma core_game_state: "core c = core c' \<Longrightarrow> pv_gameState c = pv_gameState c' \<and> pv_matchResult c = pv_matchResult c' \<and> gameWs c = gameWs c'"
  by (simp add: core_eq_iff)

lemma core_scores: "core c = core c' \<Longrightarrow> scores p gs c = scores p gs c'"
  by (simp add: core_eq_iff scores_def)

definition shows_numbers :: "side \<Rightarrow> game_state \<Rightarrow> pvp \<Rightarrow> bool" where
  "shows_numbers p gs c \<longleftrightarrow> (\<exists>r. current_round gs = Some r \<and>
     pv_gameState c = Some \<lparr>ps_turn = rs_turn_number r + 1, ps_round_number = rs_round_number r,
        ps_your_ki = own p (rs_p1_ki r) (rs_p2_ki r), ps_opponent_ki = opp p (rs_p1_ki r) (rs_p2_ki r),
        ps_time_limit = TURN_TIME_LIMIT_SECONDS\<rparr>)"

definition shows_winner :: "side \<Rightarrow> game_state \<Rightarrow> pvp \<Rightarrow> bool" where
  "shows_winner p gs c \<longleftrightarrow> gameWs c = None \<and> (\<exists>mr d. check_match_end gs = Some mr \<and> pv_matchResult c = Some d \<and>
     md_winner d = winner_for_player (mr_winner mr) p \<and> md_total_turns d = mr_total_turns mr)"

lemma client_after:
  assumes "play (start_match gid mt) ms = Inr gs" "ready_client i c"
    and c': "core c' = core (receive i c (script p (start_match gid mt) ms))"
  shows "scores p gs c' \<and> (if gs_status gs = InProgress then connected i c' \<and> shows_numbers p gs c' else shows_winner p gs c')"
proof -
  let ?g = "start_match gid mt"
  let ?c = "receive i (receive i c (waiting_message p ?g)) (session_messages p ?g ms)"
  have con: "connected i c" and zero: "roundsWonYou c = 0" "roundsWonOpponent c = 0" using assms(2) by (simp_all add: ready_client_def)
  obtain r where r: "current_round ?g = Some r" by (simp add: start_match_def start_new_round_def)
  have sc: "scores p ?g c" using zero by (cases p) (simp_all add: scores_def start_match_def start_new_round_def)
  note w = receive_waiting [OF con r, of p]
  have ip: "gs_status ?g = InProgress" by (simp add: start_match_def)
  have all: "scores p gs ?c \<and> (if gs_status gs = InProgress then connected i ?c \<and> shows_turn p gs ?c else shows_result p gs ?c)"
    by (rule mirror_match [OF match_inv_start assms(1) w(1) _ w(2) ip refl]) (use w(3) sc in simp)
  have "core ?c = core (receive i c (news (waiting_message p ?g @ session_messages p ?g ms)))"
    by (simp add: core_receive_news [of i c, symmetric] del: news_simps)
  also have "\<dots> = core c'" by (simp add: c' news_session script_def)
  finally have core: "core ?c = core c'" .
  note same = core_game_state [OF core] core_connected [OF core, of i] core_scores [OF core, of p gs]
  show ?thesis
  proof (cases "gs_status gs = InProgress")
    case True
    with all same show ?thesis by (simp add: shows_turn_def shows_numbers_def)
  next
    case False
    with all same show ?thesis by (simp add: shows_result_def shows_winner_def)
  qed
qed

text \<open>Once the result is there the socket is closed and the phase stays.\<close>

definition phase_ok :: "nat \<Rightarrow> pvp \<Rightarrow> bool" where
  "phase_ok i c \<longleftrightarrow> (pv_matchResult c \<noteq> None \<longrightarrow> pv_phase c = PMatchEnd \<and> \<not> is_open i (sockets c))"

lemma socket_close_not_open: "\<not> is_open i (socket_close i ss)"
  by (auto simp: is_open_def socket_close_def)

lemma phase_ok_message:
  assumes "phase_ok i c" shows "phase_ok i (pvp_step c (GameMessage i m))"
proof (cases "is_open i (sockets c)")
  case False
  with assms show ?thesis by simp
next
  case True
  with assms have "pv_matchResult c = None" by (auto simp: phase_ok_def)
  with True show ?thesis
    by (cases m) (simp_all add: phase_ok_def Let_def ws_close_def ptrack_def socket_close_not_open split: socket_target.split)
qed

lemma phase_ok_submit:
  assumes "phase_ok i c" shows "phase_ok i (pvp_submitAction a c)"
proof -
  have "pv_phase (pvp_submitAction a c) = pv_phase c"
    by (simp add: pvp_submitAction_def ptrack_def split: option.split sum.split)
  with assms core_open [OF core_submit, of i a c] core_game_state [OF core_submit, of a c] show ?thesis
    by (simp add: phase_ok_def)
qed

subsection \<open>The server's course\<close>

text \<open>What a task will still tell a player.\<close>

fun fut :: "side \<Rightarrow> game_state \<Rightarrow> block \<Rightarrow> game_msg list" where
  "fut p gs (SendTo q m) = (if q = p then news [m] else [])"
| "fut p gs AskNext = (if gs_status gs = InProgress then waiting_message p gs else [])"
| "fut p gs b = []"

definition futs :: "side \<Rightarrow> game_state \<Rightarrow> block list \<Rightarrow> game_msg list" where
  "futs p gs bs = concat (map (fut p gs) bs)"

lemma futs_simps [simp]: "futs p gs [] = []" "futs p gs (b # bs) = fut p gs b @ futs p gs bs"
  "futs p gs (bs @ cs) = futs p gs bs @ futs p gs cs"
  by (simp_all add: futs_def)

lemma futs_waiting: "futs p g (waiting_blocks gs) = waiting_message p gs"
  by (cases p) (auto simp: waiting_blocks_def waiting_message_def split: option.split)

lemma futs_result: "futs p gs' (result_blocks tr rr mr) = resolve_messages p (gs', tr, rr, mr)"
  by (cases p; cases rr; cases mr)
    (simp_all add: result_blocks_def both_def resolve_messages_def turn_message_def round_message_def match_message_def)

text \<open>
  The handlers in a prompt match, given what each player chose so far, how many of a player's choices
  were taken and how many turns were played.  A handler waits for a choice, stores one or has
  stored one; or it resolves the turn, both choices in hand; or it tells the players the result and
  asks for the next action.
\<close>

definition fine :: "(side \<Rightarrow> nat) \<Rightarrow> (side \<Rightarrow> action list) \<Rightarrow> nat \<Rightarrow> (side \<Rightarrow> action option) \<Rightarrow> (side \<Rightarrow> block list) \<Rightarrow> side \<Rightarrow> bool" where
  "fine tk ch n act B p \<longleftrightarrow>
     tk p = n \<and> act p = None \<and> B p \<in> {[], [SendTo p ActionConfirmed]} \<or>
     tk p = Suc n \<and> act p = None \<and> B p = [StoreAction p (ch p ! n)] \<or>
     tk p = Suc n \<and> act p = Some (ch p ! n) \<and> B p \<in> {[], [SendTo p ActionConfirmed]}"

fun tail_block :: "block \<Rightarrow> bool" where
  "tail_block (SendTo q m) = (\<not> is_error m)"
| "tail_block Pause = True"
| "tail_block AskNext = True"
| "tail_block StartTimer = True"
| "tail_block b = False"

definition telling :: "(side \<Rightarrow> nat) \<Rightarrow> nat \<Rightarrow> (side \<Rightarrow> action option) \<Rightarrow> (side \<Rightarrow> block list) \<Rightarrow> side \<Rightarrow> bool" where
  "telling tk n act B q \<longleftrightarrow> tk q = n \<and> act q = None \<and> list_all tail_block (B q)"

definition resolving :: "(side \<Rightarrow> nat) \<Rightarrow> (side \<Rightarrow> action list) \<Rightarrow> nat \<Rightarrow> (side \<Rightarrow> action option) \<Rightarrow> (side \<Rightarrow> block list) \<Rightarrow> side \<Rightarrow> bool" where
  "resolving tk ch n act B q \<longleftrightarrow>
     (\<forall>x. tk x = Suc n \<and> act x = None) \<and>
     B q \<in> {[SendTo q ActionConfirmed, ResolveTurn (ch SideP1 ! n) (ch SideP2 ! n)], [ResolveTurn (ch SideP1 ! n) (ch SideP2 ! n)]} \<and>
     B (other q) \<in> {[], [SendTo (other q) ActionConfirmed]}"

definition stage :: "(side \<Rightarrow> nat) \<Rightarrow> (side \<Rightarrow> action list) \<Rightarrow> nat \<Rightarrow> (side \<Rightarrow> action option) \<Rightarrow> (side \<Rightarrow> block list) \<Rightarrow> bool" where
  "stage tk ch n act B \<longleftrightarrow>
     (\<exists>q. fine tk ch n act B (other q) \<and> (fine tk ch n act B q \<or> telling tk n act B q)) \<or> (\<exists>q. resolving tk ch n act B q)"

definition handlers :: "server \<Rightarrow> side \<Rightarrow> block list" where
  "handlers sv p = sv_tasks sv (Handler p)"

definition affordable :: "game_state \<Rightarrow> side \<Rightarrow> action \<Rightarrow> bool" where
  "affordable gs p a \<longleftrightarrow> gs_status gs = InProgress \<and>
     (\<exists>r. current_round gs = Some r \<and> validate_action a (own p (rs_p1_ki r) (rs_p2_ki r)))"

definition server_ok :: "game_state \<Rightarrow> (side \<Rightarrow> action list) \<Rightarrow> (side \<Rightarrow> nat) \<Rightarrow> (action \<times> action) list \<Rightarrow> pvp_session \<Rightarrow> server \<Rightarrow> bool" where
  "server_ok gs0 ch tk ms s sv \<longleftrightarrow>
     sv_session sv = Some s \<and> play gs0 ms = Inr (ss_game_state s) \<and> (\<forall>p. p \<in> set (sv_room sv)) \<and>
     (\<forall>p. map (\<lambda>(a1, a2). own p a1 a2) ms = take (length ms) (ch p)) \<and>
     stage tk ch (length ms) (ss_action s) (handlers sv) \<and>
     (\<forall>p. tk p \<le> length (ch p) \<and> length (ch p) \<le> Suc (length ms)) \<and>
     (\<forall>p. length (ch p) = Suc (length ms) \<longrightarrow> affordable (ss_game_state s) p (ch p ! length ms)) \<and>
     (\<forall>p. news (sv_out sv p) @ futs p (ss_game_state s) (handlers sv SideP1) @ futs p (ss_game_state s) (handlers sv SideP2) =
          script p gs0 ms) \<and>
     (\<forall>p. list_all (\<lambda>m. \<not> is_error m) (sv_out sv p))"

lemma side_all: "(\<forall>p. P p) \<longleftrightarrow> P SideP1 \<and> P SideP2"
  by (metis side.exhaust)

lemma side_ex: "(\<exists>p. P p) \<longleftrightarrow> P SideP1 \<or> P SideP2"
  by (metis side.exhaust)

lemma other_other [simp]: "other (other p) = p" "other p \<noteq> p" "p \<noteq> other p"
  by (cases p; simp)+

lemma handlers_set_task [simp]:
  "handlers (set_task (Handler p) bs sv) = (handlers sv)(p := bs)"
  "handlers (set_task (Timer k) bs sv) = handlers sv"
  by (simp_all add: handlers_def set_task_def fun_eq_iff)

lemmas stage_defs = stage_def fine_def telling_def resolving_def side_ex side_all

text \<open>How the stage moves with each kind of block.\<close>

lemma stage_take:
  assumes "stage tk ch n act B" "B p = []" "tk p < length (ch p)" "length (ch p) \<le> Suc n"
  shows "tk p = n \<and> stage (tk(p := Suc n)) ch n act (B(p := [StoreAction p (ch p ! n)]))"
  using assms by (cases p) (auto simp: stage_defs)

lemma fine_tail: "fine tk ch n act B p \<Longrightarrow> B p = b # rest \<Longrightarrow> tail_block b \<Longrightarrow> fine tk ch n act (B(p := rest)) p"
  by (auto simp: fine_def)

lemma stage_parts_other:
  "q \<noteq> p \<Longrightarrow> fine tk ch n act (B(p := bs)) q = fine tk ch n act B q"
  "q \<noteq> p \<Longrightarrow> telling tk n act (B(p := bs)) q = telling tk n act B q"
  by (simp_all add: fine_def telling_def)

lemma resolving_tail:
  "resolving tk ch n act B q \<Longrightarrow> B p = b # rest \<Longrightarrow> tail_block b \<Longrightarrow> resolving tk ch n act (B(p := rest)) q"
  by (cases "p = q"; cases p; cases q) (auto simp: resolving_def)

lemma stage_tail:
  assumes "stage tk ch n act B" "B p = b # rest" "tail_block b"
  shows "stage tk ch n act (B(p := rest))"
proof (cases "\<exists>q. resolving tk ch n act B q")
  case True
  then show ?thesis unfolding stage_def using resolving_tail [where B = B, OF _ assms(2,3)] by blast
next
  case False
  with assms(1) obtain q where q: "fine tk ch n act B (other q)" "fine tk ch n act B q \<or> telling tk n act B q"
    by (auto simp: stage_def)
  have "fine tk ch n act (B(p := rest)) (other q)"
    using q(1) assms(2,3) by (cases "other q = p") (auto simp: stage_parts_other fine_tail)
  moreover have "fine tk ch n act (B(p := rest)) q \<or> telling tk n act (B(p := rest)) q"
  proof (cases "q = p")
    case True
    with q(2) assms(2,3) fine_tail show ?thesis by (auto simp: telling_def)
  next
    case False
    with q(2) show ?thesis by (simp add: stage_parts_other)
  qed
  ultimately show ?thesis by (auto simp: stage_def)
qed

lemma stage_ask:
  assumes "stage tk ch n act B" "B p = AskNext # rest" "list_all tail_block bs"
  shows "stage tk ch n act (B(p := bs @ rest))"
  using assms by (cases p) (auto simp: stage_defs)

lemma stage_blocks:
  assumes "stage tk ch n act B" "B p = b # rest"
  shows "tail_block b \<or> b = StoreAction p (ch p ! n) \<or> b = ResolveTurn (ch SideP1 ! n) (ch SideP2 ! n)"
  using assms by (cases p) (auto simp: stage_defs)

lemma stage_store:
  assumes "stage tk ch n act B" "B p = StoreAction q a # rest"
  shows "q = p \<and> a = ch p ! n \<and> rest = [] \<and> tk p = Suc n \<and> act p = None \<and>
    (act (other p) = None \<longrightarrow> stage tk ch n (act(p := Some a)) (B(p := [SendTo p ActionConfirmed]))) \<and>
    (act (other p) \<noteq> None \<longrightarrow> act (other p) = Some (ch (other p) ! n) \<and>
       stage tk ch n (\<lambda>_. None) (B(p := [SendTo p ActionConfirmed, ResolveTurn (ch SideP1 ! n) (ch SideP2 ! n)])))"
  using assms by (cases p) (auto simp: stage_defs)

lemma stage_resolve:
  assumes "stage tk ch n act B" "B p = ResolveTurn a1 a2 # rest"
  shows "a1 = ch SideP1 ! n \<and> a2 = ch SideP2 ! n \<and> rest = [] \<and> (\<forall>x. tk x = Suc n) \<and>
    (list_all tail_block bs \<longrightarrow> stage tk ch (Suc n) act (B(p := bs)))"
  using assms by (cases p) (auto simp: stage_defs)

text \<open>Only one handler at a time has anything to tell.\<close>

lemma fine_futs: "fine tk ch n act B p \<Longrightarrow> futs x gs (B p) = []"
  by (auto simp: fine_def)

lemma stage_futs:
  assumes "stage tk ch n act B" "B p = b # rest" "tail_block b" "b \<noteq> SendTo p ActionConfirmed"
  shows "futs x gs (B (other p)) = []"
  using assms unfolding stage_def
proof (elim disjE exE conjE)
  fix q assume "fine tk ch n act B (other q)" "fine tk ch n act B q"
  then have "futs x gs (B q) = []" "futs x gs (B (other q)) = []" by (simp_all add: fine_futs)
  then show ?thesis by (cases p; cases q) simp_all
next
  fix q assume f: "fine tk ch n act B (other q)" and "telling tk n act B q"
  show ?thesis
  proof (cases "p = q")
    case True
    with f show ?thesis by (simp add: fine_futs)
  next
    case False
    then have "p = other q" by (cases p; cases q) simp_all
    with f assms(2-4) show ?thesis by (auto simp: fine_def)
  qed
next
  fix q assume "resolving tk ch n act B q"
  with assms(2-4) show ?thesis by (cases p; cases q) (auto simp: resolving_def)
qed

lemma resolve_futs:
  assumes "stage tk ch n act B" "B p = ResolveTurn a1 a2 # rest"
  shows "futs x gs (B q) = []"
  using assms by (cases p; cases q) (auto simp: stage_defs)

lemma store_futs:
  assumes "stage tk ch n act B" "B p = StoreAction q a # rest"
  shows "futs x gs (B p) = []"
  using stage_store [OF assms] assms(2) by simp

lemma cancel_timeout_fields [simp]:
  "sv_session (cancel_timeout sv) = sv_session sv" "sv_room (cancel_timeout sv) = sv_room sv"
  "sv_out (cancel_timeout sv) = sv_out sv" "handlers (cancel_timeout sv) = handlers sv"
  by (simp_all add: cancel_timeout_def set_task_def handlers_def fun_eq_iff split: option.split)

lemma set_task_fields [simp]:
  "sv_session (set_task t bs sv) = sv_session sv" "sv_room (set_task t bs sv) = sv_room sv"
  "sv_out (set_task t bs sv) = sv_out sv" "sv_next (set_task t bs sv) = sv_next sv"
  by (simp_all add: set_task_def)

lemma handlers_updates [simp]:
  "handlers (sv\<lparr>sv_session := x1\<rparr>) = handlers sv" "handlers (sv\<lparr>sv_out := x2\<rparr>) = handlers sv"
  "handlers (sv\<lparr>sv_timeout := x3\<rparr>) = handlers sv" "handlers (sv\<lparr>sv_next := x4\<rparr>) = handlers sv"
  by (simp_all add: handlers_def fun_eq_iff)

lemma server_take:
  assumes "server_ok gs0 ch tk ms s sv" "handlers sv p = []" "tk p < length (ch p)"
  shows "server_ok gs0 ch (tk(p := Suc (tk p))) ms s (set_task (Handler p) [StoreAction p (ch p ! tk p)] sv)"
proof -
  note ok = assms(1) [unfolded server_ok_def]
  have st: "tk p = length ms \<and> stage (tk(p := Suc (length ms))) ch (length ms) (ss_action s) ((handlers sv)(p := [StoreAction p (ch p ! length ms)]))"
    by (rule stage_take) (use ok assms in auto)
  have "futs x g (((handlers sv)(p := [StoreAction p a])) q) = futs x g (handlers sv q)" for x g q a
    using assms(2) by (cases "q = p") simp_all
  with ok st assms(3) show ?thesis by (auto simp: server_ok_def)
qed

lemma server_send:
  assumes "server_ok gs0 ch tk ms s sv" "handlers sv p = SendTo q m # rest"
  shows "server_ok gs0 ch tk ms s (run_task (Handler p) sv)"
proof -
  note ok = assms(1) [unfolded server_ok_def]
  have st: "stage tk ch (length ms) (ss_action s) (handlers sv)" using ok by blast
  then have tb: "tail_block (SendTo q m)" using stage_blocks [OF st assms(2)] by auto
  let ?sv = "run_task (Handler p) sv"
  have run: "?sv = set_task (Handler p) rest (sv\<lparr>sv_out := (sv_out sv)(q := sv_out sv q @ [m])\<rparr>)"
    using assms(2) ok by (simp add: run_task_def handlers_def)
  have "news (sv_out ?sv x) @ futs x g (handlers ?sv SideP1) @ futs x g (handlers ?sv SideP2) =
    news (sv_out sv x) @ futs x g (handlers sv SideP1) @ futs x g (handlers sv SideP2)" for x g
  proof (cases "SendTo q m = SendTo p ActionConfirmed")
    case True
    with assms(2) show ?thesis unfolding run by (cases p) simp_all
  next
    case False
    with stage_futs [OF st assms(2) tb, of x g] assms(2) show ?thesis unfolding run by (cases p; cases "q = x") simp_all
  qed
  moreover have "stage tk ch (length ms) (ss_action s) (handlers ?sv)"
    using stage_tail [OF st assms(2) tb] by (simp add: run)
  ultimately show ?thesis using ok tb by (simp add: server_ok_def run)
qed

lemma server_quiet:
  assumes "server_ok gs0 ch tk ms s sv" "handlers sv p = b # rest" "b = Pause \<or> b = StartTimer"
  shows "server_ok gs0 ch tk ms s (run_task (Handler p) sv)"
proof -
  note ok = assms(1) [unfolded server_ok_def]
  let ?sv = "run_task (Handler p) sv"
  have run: "sv_session ?sv = sv_session sv" "sv_room ?sv = sv_room sv" "sv_out ?sv = sv_out sv"
    "handlers ?sv = (handlers sv)(p := rest)"
    using assms(2,3) by (auto simp: run_task_def handlers_def set_task_def cancel_timeout_def Let_def fun_eq_iff split: option.split)
  have "futs x g (handlers ?sv q) = futs x g (handlers sv q)" for x g q
    using assms(2,3) by (cases "q = p") (auto simp: run)
  moreover have "stage tk ch (length ms) (ss_action s) (handlers ?sv)"
    using stage_tail [of tk ch "length ms" "ss_action s" "handlers sv" p b rest] ok assms(2,3) by (auto simp: run)
  ultimately show ?thesis using ok by (simp add: server_ok_def run(1-3))
qed

lemma server_ask:
  assumes "server_ok gs0 ch tk ms s sv" "handlers sv p = AskNext # rest"
  shows "server_ok gs0 ch tk ms s (run_task (Handler p) sv)"
proof -
  note ok = assms(1) [unfolded server_ok_def]
  let ?new = "if gs_status (ss_game_state s) = InProgress then waiting_blocks (ss_game_state s) else []"
  have run: "run_task (Handler p) sv = set_task (Handler p) (?new @ rest) sv"
    using assms(2) ok by (simp add: run_task_def handlers_def)
  have "list_all tail_block ?new"
    by (auto simp: waiting_blocks_def waiting_message_def split: option.split)
  with ok stage_ask [where B = "handlers sv", OF _ assms(2)]
  have "stage tk ch (length ms) (ss_action s) ((handlers sv)(p := ?new @ rest))" by blast
  moreover have "futs x (ss_game_state s) (((handlers sv)(p := ?new @ rest)) q) = futs x (ss_game_state s) (handlers sv q)" for x q
    using assms(2) by (cases "q = p") (simp_all add: futs_waiting)
  ultimately show ?thesis using ok by (simp add: server_ok_def run)
qed

text \<open>A choice that a player can afford is stored, and the second of two is resolved with the first.\<close>

lemma store_affordable:
  assumes "affordable (ss_game_state s) p a" "ss_action s p = None"
  shows "\<exists>fl. store_action p a (no_flags, s) =
      (fl, if ss_action s (other p) = None then s\<lparr>ss_action := (ss_action s)(p := Some a)\<rparr> else s\<lparr>ss_action := (\<lambda>_. None)\<rparr>) \<and>
    after_store p fl = SendTo p ActionConfirmed # (case ss_action s (other p) of None \<Rightarrow> []
      | Some b \<Rightarrow> [ResolveTurn (own p a b) (opp p a b)])"
  using assms by (cases p) (auto simp: affordable_def store_action_def no_flags_def after_store_def Let_def split: option.split)

lemma server_store:
  assumes "server_ok gs0 ch tk ms s sv" "handlers sv p = StoreAction q a # rest"
  shows "\<exists>s'. server_ok gs0 ch tk ms s' (run_task (Handler p) sv)"
proof -
  note ok = assms(1) [unfolded server_ok_def]
  let ?n = "length ms" let ?gs = "ss_game_state s"
  have st: "stage tk ch ?n (ss_action s) (handlers sv)" using ok by blast
  note now = stage_store [OF st assms(2)]
  have q: "q = p" "a = ch p ! ?n" "rest = []" "ss_action s p = None" using now by simp_all
  have "tk p = Suc ?n" using now by blast
  moreover have "tk p \<le> length (ch p)" "length (ch p) \<le> Suc ?n" using ok by blast+
  ultimately have "length (ch p) = Suc ?n" by simp
  then have aff: "affordable ?gs p a" using ok q(2) by simp
  from store_affordable [OF aff q(4)] obtain fl where fl: "store_action p a (no_flags, s) =
      (fl, if ss_action s (other p) = None then s\<lparr>ss_action := (ss_action s)(p := Some a)\<rparr> else s\<lparr>ss_action := (\<lambda>_. None)\<rparr>)"
    "after_store p fl = SendTo p ActionConfirmed # (case ss_action s (other p) of None \<Rightarrow> [] | Some b \<Rightarrow> [ResolveTurn (own p a b) (opp p a b)])"
    by blast
  define s' where "s' = (if ss_action s (other p) = None then s\<lparr>ss_action := (ss_action s)(p := Some a)\<rparr> else s\<lparr>ss_action := (\<lambda>_. None)\<rparr>)"
  have run: "run_task (Handler p) sv = set_task (Handler p) (after_store p fl) (sv\<lparr>sv_session := Some s'\<rparr>)"
    using assms(2) ok q fl(1) by (simp add: run_task_def handlers_def watch_and_update_def s'_def)
  have gs: "ss_game_state s' = ?gs" by (simp add: s'_def)
  have stage': "stage tk ch ?n (ss_action s') ((handlers sv)(p := after_store p fl))"
  proof (cases "ss_action s (other p)")
    case None
    with now have "stage tk ch ?n ((ss_action s)(p := Some a)) ((handlers sv)(p := [SendTo p ActionConfirmed]))" by blast
    with None show ?thesis by (simp add: s'_def fl(2))
  next
    case (Some b)
    with now have "b = ch (other p) ! ?n" by simp
    then have "own p a b = ch SideP1 ! ?n" "opp p a b = ch SideP2 ! ?n" using q(2) by (cases p; simp)+
    with Some now show ?thesis by (simp add: s'_def fl(2))
  qed
  have "futs x g (after_store p fl) = []" for x g
    by (simp add: fl(2) split: option.split)
  then have "futs x g (((handlers sv)(p := after_store p fl)) y) = futs x g (handlers sv y)" for x g y
    using store_futs [OF st assms(2), of x g] by (cases "y = p") simp_all
  with ok stage' have "server_ok gs0 ch tk ms s' (run_task (Handler p) sv)"
    by (simp add: server_ok_def run gs)
  then show ?thesis by blast
qed

lemma server_resolve:
  assumes "server_ok gs0 ch tk ms s sv" "handlers sv p = ResolveTurn a1 a2 # rest"
  shows "\<exists>ms' s'. server_ok gs0 ch tk ms' s' (run_task (Handler p) sv)"
proof -
  note ok = assms(1) [unfolded server_ok_def]
  let ?n = "length ms" let ?gs = "ss_game_state s"
  have st: "stage tk ch ?n (ss_action s) (handlers sv)" using ok by blast
  note now = stage_resolve [OF st assms(2)]
  have len: "length (ch x) = Suc ?n" for x using now ok le_antisym by metis
  then have aff: "affordable ?gs x (ch x ! ?n)" for x using ok by blast
  have "\<exists>gs tr rr mr. submit_turn ?gs a1 a2 = Inr (gs, tr, rr, mr)"
    using aff [of SideP1] aff [of SideP2] now
    by (auto simp: affordable_def intro: submit_turn_accepts)
  then obtain gs tr rr mr where sub: "submit_turn ?gs a1 a2 = Inr (gs, tr, rr, mr)" by blast
  define s' where "s' = s\<lparr>ss_game_state := gs\<rparr>"
  let ?sv = "run_task (Handler p) sv"
  have run: "sv_session ?sv = Some s'" "sv_room ?sv = sv_room sv" "sv_out ?sv = sv_out sv"
    "handlers ?sv = (handlers sv)(p := result_blocks tr rr mr)"
    using assms(2) ok sub now by (simp_all add: run_task_def handlers_def [of sv, symmetric] handlers_def [of sv p, symmetric] s'_def)
  have tails: "list_all tail_block (result_blocks tr rr mr)"
    by (simp add: result_blocks_def both_def turn_message_def round_message_def match_message_def split: option.split)
  have "stage tk ch (Suc ?n) (ss_action s') (handlers ?sv)"
    using stage_resolve [OF st assms(2), of "result_blocks tr rr mr"] tails by (simp add: run s'_def)
  moreover have "play gs0 (ms @ [(a1, a2)]) = Inr gs"
    using ok play_snoc [of gs0 ms ?gs a1 a2] sub by simp
  moreover have "map (\<lambda>(a1, a2). own x a1 a2) (ms @ [(a1, a2)]) = take (Suc ?n) (ch x)" for x
  proof -
    have "own x a1 a2 = ch x ! ?n" using now by (cases x) simp_all
    moreover have "map (\<lambda>(a1, a2). own x a1 a2) ms = take ?n (ch x)" using ok by blast
    ultimately show ?thesis using len [of x] take_Suc_conv_app_nth [of ?n "ch x"] by simp
  qed
  moreover have "news (sv_out ?sv x) @ futs x gs (handlers ?sv SideP1) @ futs x gs (handlers ?sv SideP2) = script x gs0 (ms @ [(a1, a2)])" for x
  proof -
    have old: "news (sv_out sv x) = script x gs0 ms"
      using ok resolve_futs [OF st assms(2)] by (metis append_Nil2)
    have "futs x gs (handlers ?sv SideP1) @ futs x gs (handlers ?sv SideP2) = futs x gs (result_blocks tr rr mr)"
      unfolding run using resolve_futs [OF st assms(2)] by (cases p) simp_all
    with old futs_result script_snoc [of gs0 ms ?gs a1 a2 "(gs, tr, rr, mr)" x] sub ok show ?thesis
      by (simp add: run)
  qed
  moreover have "tk x \<le> length (ch x) \<and> length (ch x) \<le> Suc (Suc ?n)" for x using len ok by simp
  moreover have "length (ch x) \<noteq> Suc (Suc ?n)" for x using len by simp
  ultimately have "server_ok gs0 ch tk (ms @ [(a1, a2)]) s' ?sv"
    unfolding server_ok_def using ok run by (simp add: s'_def)
  then show ?thesis by blast
qed

lemma server_serve:
  assumes "server_ok gs0 ch tk ms s sv" "handlers sv p \<noteq> []"
  shows "\<exists>ms' s'. server_ok gs0 ch tk ms' s' (run_task (Handler p) sv)"
proof -
  from assms(2) obtain b rest where b: "handlers sv p = b # rest" by (cases "handlers sv p") auto
  from assms(1) have "stage tk ch (length ms) (ss_action s) (handlers sv)" by (simp add: server_ok_def)
  from stage_blocks [OF this b] consider
      (send) q m where "b = SendTo q m" | (quiet) "b = Pause \<or> b = StartTimer" | (ask) "b = AskNext"
    | (store) q a where "b = StoreAction q a" | (resolve) a1 a2 where "b = ResolveTurn a1 a2"
    by (cases b) auto
  then show ?thesis
  proof cases
    case send
    with assms(1) b server_send show ?thesis by blast
  next
    case quiet
    with assms(1) b server_quiet show ?thesis by blast
  next
    case ask
    with assms(1) b server_ask show ?thesis by blast
  next
    case store
    with assms(1) b server_store show ?thesis by blast
  next
    case resolve
    with assms(1) b server_resolve show ?thesis by blast
  qed
qed

text \<open>A task only ever adds to what a player was told.\<close>

lemma run_task_out: "\<exists>ys. sv_out (run_task t sv) q = sv_out sv q @ ys"
proof (cases "sv_tasks sv t")
  case (Cons b rest)
  have forfeit: "sv_out (cancel_forfeit y x) = sv_out x" for x y
    by (simp add: cancel_forfeit_def set_task_def split: option.split)
  then have cleanup: "sv_out (cleanup_game x) = sv_out x" for x by (simp add: cleanup_game_def)
  have crash: "sv_out (crash t x) = sv_out x" for x by (cases t) simp_all
  show ?thesis unfolding run_task_def Cons list.case
    by (cases b) (simp_all add: Let_def cleanup forfeit crash split: option.split sum.split prod.split)
qed (simp add: run_task_def)

subsection \<open>The course of a prompt match\<close>

text \<open>What a player has chosen, read from what the client sent.\<close>

definition choices :: "(side \<Rightarrow> nat) \<Rightarrow> duel \<Rightarrow> side \<Rightarrow> action list" where
  "choices sock d p = map (\<lambda>j. the (Action (text_field j ''action''))) (sent sock d p)"

definition client_ok :: "(side \<Rightarrow> nat) \<Rightarrow> (side \<Rightarrow> pvp) \<Rightarrow> duel \<Rightarrow> side \<Rightarrow> bool" where
  "client_ok sock cs d p \<longleftrightarrow> sent sock d p = map action_message (choices sock d p) \<and>
     du_delivered d p \<le> length (sv_out (du_server d) p) \<and>
     core (du_client d p) = core (receive (sock p) (cs p) (arrived d p)) \<and> phase_ok (sock p) (du_client d p)"

definition duel_inv :: "game_state \<Rightarrow> (side \<Rightarrow> nat) \<Rightarrow> (side \<Rightarrow> pvp) \<Rightarrow> duel \<Rightarrow> bool" where
  "duel_inv gs0 sock cs d \<longleftrightarrow> (\<exists>ms s. server_ok gs0 (choices sock d) (du_taken d) ms s (du_server d)) \<and>
     (\<forall>p. client_ok sock cs d p)"

lemma chosen_message [simp]: "the (Action (text_field (action_message a) ''action'')) = a"
  by (simp add: text_field_def action_message_def)

lemma stage_choice:
  "stage tk ch n act B \<Longrightarrow> tk p \<le> n \<Longrightarrow> stage tk (ch(p := c)) n act B"
  by (cases p) (auto simp: stage_defs)

lemma server_choice:
  assumes "server_ok gs0 ch tk ms s sv" "length (ch p) = length ms" "affordable (ss_game_state s) p a"
  shows "server_ok gs0 (ch(p := ch p @ [a])) tk ms s sv"
proof -
  note ok = assms(1) [unfolded server_ok_def]
  have "tk p \<le> length ms" using ok assms(2) by metis
  then have "stage tk (ch(p := ch p @ [a])) (length ms) (ss_action s) (handlers sv)"
    using ok stage_choice by blast
  moreover have "map (\<lambda>(a1, a2). own p a1 a2) ms = take (length ms) (ch p)" "tk p \<le> length (ch p)" using ok by blast+
  ultimately show ?thesis
    unfolding server_ok_def using ok assms(2,3) by (auto simp: nth_append)
qed

text \<open>A player who has been asked once more than they have chosen has heard everything, and it is their turn.\<close>

lemma asked_once_more:
  assumes "server_ok (start_match gid mt) ch tk ms s sv" "news (sv_out sv p) = news xs @ ys"
    and "length (ch p) < length (filter is_waiting xs)"
  shows "length (ch p) = length ms \<and> gs_status (ss_game_state s) = InProgress \<and> news xs = script p (start_match gid mt) ms"
proof -
  let ?g = "start_match gid mt"
  note ok = assms(1) [unfolded server_ok_def]
  have pl: "play ?g ms = Inr (ss_game_state s)" using ok by blast
  have cr: "current_round ?g \<noteq> None" "gs_status ?g = InProgress" by (simp_all add: start_match_def start_new_round_def)
  have "news (sv_out sv p) @ futs p (ss_game_state s) (handlers sv SideP1) @ futs p (ss_game_state s) (handlers sv SideP2) = script p ?g ms"
    using ok by blast
  then have "script p ?g ms = news xs @ ys @ futs p (ss_game_state s) (handlers sv SideP1) @ futs p (ss_game_state s) (handlers sv SideP2)"
    unfolding assms(2) append_assoc by (rule sym)
  then obtain zs where zs: "script p ?g ms = news xs @ zs" by blast
  have "map (\<lambda>(a1, a2). own p a1 a2) ms = take (length ms) (ch p)" using ok by blast
  then have le: "length ms \<le> length (ch p)" by (metis length_map length_take min.cobounded1)
  have "filter is_waiting (news xs) = filter is_waiting xs"
    by (auto simp: news_def intro: filter_cong)
  then have w: "length (filter is_waiting xs) + length (filter is_waiting zs) = length ms + of_bool (gs_status (ss_game_state s) = InProgress)"
    using script_waits [OF pl cr, of p] by (simp add: zs)
  have n2: "gs_status (ss_game_state s) = InProgress"
  proof (rule ccontr)
    assume "gs_status (ss_game_state s) \<noteq> InProgress"
    with w have "length (filter is_waiting xs) \<le> length ms" by simp
    with le assms(3) show False by linarith
  qed
  with w have "length (filter is_waiting xs) + length (filter is_waiting zs) = length ms + 1" by simp
  with le assms(3) have "length (ch p) = length ms" "length (filter is_waiting zs) = 0" by linarith+
  with n2 have n: "length (ch p) = length ms" "gs_status (ss_game_state s) = InProgress" "filter is_waiting zs = []" by simp_all
  from script_ends_waiting [OF pl cr, of p] n(2) obtain us where us: "script p ?g ms = us @ waiting_message p (ss_game_state s)"
    "current_round (ss_game_state s) \<noteq> None" by auto
  then obtain w where w: "waiting_message p (ss_game_state s) = [w]" "is_waiting w"
    by (auto simp: waiting_message_def)
  have "zs = []"
  proof (rule ccontr)
    assume "zs \<noteq> []"
    with us(1) w(1) zs have "last zs = w" by (metis last_appendR last_snoc)
    with \<open>zs \<noteq> []\<close> w(2) n(3) show False by (metis filter_empty_conv last_in_set)
  qed
  with n zs show ?thesis by simp
qed

lemma sent_close: "sk_sent (socket_close i ss ! j) = sk_sent (ss ! j)"
proof (cases "i = j \<and> i < length ss")
  case False
  then show ?thesis by (cases "i = j") (simp_all add: socket_close_def)
qed (simp add: socket_close_def)

lemma sent_onmessage: "sk_sent (sockets (game_onmessage i m c) ! j) = sk_sent (sockets c ! j)"
  by (cases m) (simp_all add: Let_def ws_close_def ptrack_def sent_close)

lemma sent_message: "sk_sent (sockets (pvp_step c (GameMessage i m)) ! j) = sk_sent (sockets c ! j)"
proof (cases "is_open i (sockets c)")
  case False
  then show ?thesis by simp
next
  case True
  then show ?thesis by (simp add: sent_onmessage split: socket_target.split)
qed

lemma receive_snoc: "receive i c (ms @ [m]) = pvp_step (receive i c ms) (GameMessage i m)"
  by (induction ms arbitrary: c) (simp_all del: pvp_step.simps)

lemma duel_deliver:
  assumes "duel_inv gs0 sock cs d" "duel_possible sock d (Deliver p)"
  shows "duel_inv gs0 sock cs (duel_step sock d (Deliver p))"
proof -
  let ?d = "duel_step sock d (Deliver p)"
  have "sent sock ?d = sent sock d"
    by (rule ext) (simp add: sent_def game_socket_def sent_message del: pvp_step.simps)
  then have ch: "choices sock ?d = choices sock d" "\<And>q. sent sock ?d q = sent sock d q" by (simp_all add: choices_def fun_eq_iff)
  have arr: "arrived ?d p = arrived d p @ [sv_out (du_server d) p ! du_delivered d p]"
    "q \<noteq> p \<Longrightarrow> arrived ?d q = arrived d q" for q
    using assms(2) by (simp_all add: arrived_def take_Suc_conv_app_nth)
  have "client_ok sock cs ?d q" for q
  proof (cases "q = p")
    case False
    with assms(1) ch arr show ?thesis by (simp add: duel_inv_def client_ok_def)
  next
    case True
    let ?m = "sv_out (du_server d) p ! du_delivered d p" and ?c = "du_client d p"
    have ok: "client_ok sock cs d p" using assms(1) by (simp add: duel_inv_def)
    then have "core ?c = core (receive (sock p) (cs p) (arrived d p))" "phase_ok (sock p) ?c"
      by (simp_all add: client_ok_def)
    moreover have new: "du_client ?d p = pvp_step ?c (GameMessage (sock p) ?m)" by simp
    ultimately have "core (du_client ?d p) = core (receive (sock p) (cs p) (arrived ?d p))"
      unfolding new arr receive_snoc by (intro core_step)
    moreover have "phase_ok (sock p) (du_client ?d p)"
      unfolding new by (rule phase_ok_message) fact
    moreover have "sent sock ?d p = map action_message (choices sock ?d p)"
      using ok by (simp only: ch client_ok_def)
    moreover have "du_delivered ?d p \<le> length (sv_out (du_server ?d) p)" using assms(2) by simp
    ultimately show ?thesis unfolding True client_ok_def by blast
  qed
  with assms(1) ch show ?thesis by (simp add: duel_inv_def)
qed

lemma duel_take:
  assumes "duel_inv gs0 sock cs d" "duel_possible sock d (Take p)"
  shows "duel_inv gs0 sock cs (duel_step sock d (Take p))"
proof -
  let ?d = "duel_step sock d (Take p)" and ?a = "choices sock d p ! du_taken d p"
  have ch: "choices sock ?d = choices sock d" "\<And>q. sent sock ?d q = sent sock d q" "arrived ?d = arrived d"
    by (simp_all add: choices_def sent_def arrived_def fun_eq_iff)
  have len: "length (sent sock d p) = length (choices sock d p)" by (simp add: choices_def)
  have "sent sock d p = map action_message (choices sock d p)" using assms(1) by (auto simp: duel_inv_def client_ok_def)
  with assms(2) len have "sent sock d p ! du_taken d p = action_message ?a" by (metis duel_possible.simps(2) nth_map)
  then have sv: "du_server ?d = set_task (Handler p) [StoreAction p ?a] (du_server d)"
    by (simp add: message_of_action)
  from assms(1) obtain ms s where "server_ok gs0 (choices sock d) (du_taken d) ms s (du_server d)" by (auto simp: duel_inv_def)
  from server_take [OF this, of p] assms(2) len
  have "server_ok gs0 (choices sock ?d) (du_taken ?d) ms s (du_server ?d)"
    unfolding sv ch by (simp add: handlers_def)
  moreover have "client_ok sock cs ?d q" for q
  proof -
    have "client_ok sock cs d q" using assms(1) by (simp add: duel_inv_def)
    then show ?thesis using ch sv by (simp add: client_ok_def)
  qed
  ultimately show ?thesis by (auto simp: duel_inv_def)
qed

lemma duel_serve:
  assumes "duel_inv gs0 sock cs d" "prompt sock d (Serve t)"
  shows "duel_inv gs0 sock cs (duel_step sock d (Serve t))"
proof -
  let ?d = "duel_step sock d (Serve t)" and ?sv = "du_server d"
  from assms(2) obtain p where t: "t = Handler p" "handlers ?sv p \<noteq> []" by (cases t) (auto simp: handlers_def)
  from assms(1) obtain ms s where ok: "server_ok gs0 (choices sock d) (du_taken d) ms s ?sv" by (auto simp: duel_inv_def)
  have sv: "du_server ?d = run_task (Handler p) ?sv" by (simp add: t)
  have ch: "choices sock ?d = choices sock d" "sent sock ?d = sent sock d"
    by (simp_all add: choices_def sent_def fun_eq_iff)
  have tk: "du_taken ?d = du_taken d" by simp
  from server_serve [OF ok t(2)] obtain ms' s' where "server_ok gs0 (choices sock d) (du_taken d) ms' s' (run_task (Handler p) ?sv)"
    by blast
  then have "server_ok gs0 (choices sock ?d) (du_taken ?d) ms' s' (du_server ?d)" unfolding sv ch tk .
  moreover have "client_ok sock cs ?d q" for q
  proof -
    obtain ys where ys: "sv_out (run_task t ?sv) q = sv_out ?sv q @ ys"
      using run_task_out [of t ?sv q] by blast
    have c: "client_ok sock cs d q" using assms(1) by (simp add: duel_inv_def)
    then have "arrived ?d q = arrived d q" by (simp add: arrived_def client_ok_def ys)
    with c ch show ?thesis by (simp add: client_ok_def ys)
  qed
  ultimately show ?thesis by (auto simp: duel_inv_def)
qed

lemma duel_tap:
  assumes inv: "duel_inv (start_match gid mt) sock cs d" and tap: "prompt sock d (Tap p a)"
    and ready: "\<And>p. ready_client (sock p) (cs p)"
  shows "duel_inv (start_match gid mt) sock cs (duel_step sock d (Tap p a))"
proof -
  let ?g = "start_match gid mt" and ?d = "duel_step sock d (Tap p a)" and ?c = "du_client d p"
  from inv obtain ms s where ok: "server_ok ?g (choices sock d) (du_taken d) ms s (du_server d)" by (auto simp: duel_inv_def)
  have cl: "client_ok sock cs d q" for q using inv by (simp add: duel_inv_def)
  have out: "news (sv_out (du_server d) p) = news (arrived d p) @ news (drop (du_delivered d p) (sv_out (du_server d) p))"
    unfolding arrived_def news_simps(2) [symmetric] by simp
  have "length (choices sock d p) < length (filter is_waiting (arrived d p))"
    using tap by (simp add: choices_def asked_def)
  note now = asked_once_more [OF ok out this]
  have "core ?c = core (receive (sock p) (cs p) (script p ?g ms))"
    using cl [of p] now core_receive_news by (metis client_ok_def)
  moreover have "play ?g ms = Inr (ss_game_state s)" using ok by (simp add: server_ok_def)
  ultimately have con: "connected (sock p) ?c" and num: "shows_numbers p (ss_game_state s) ?c"
    using client_after [OF _ ready] now by auto
  have "affordable (ss_game_state s) p a"
    using tap num now by (auto simp: affordable_def shows_numbers_def card_shown_def card_disabled_def canAfford_validate)
  with ok now have sv: "server_ok ?g ((choices sock d)(p := choices sock d p @ [a])) (du_taken d) ms s (du_server d)"
    by (blast intro: server_choice)
  have one: "sent sock ?d p = sent sock d p @ [action_message a]"
    using con by (simp add: sent_def game_socket_def pvp_submitAction_def connected_def socket_send_def is_open_def ptrack_def)
  have "q \<noteq> p \<Longrightarrow> sent sock ?d q = sent sock d q" for q by (simp add: sent_def)
  with one have ch: "choices sock ?d = (choices sock d)(p := choices sock d p @ [a])"
    by (simp add: choices_def fun_eq_iff)
  have "client_ok sock cs ?d q" for q
  proof (cases "q = p")
    case False
    with cl [of q] show ?thesis by (simp add: client_ok_def sent_def choices_def arrived_def)
  next
    case True
    have "sent sock ?d p = map action_message (choices sock ?d p)"
      using cl [of p] by (simp only: one ch client_ok_def fun_upd_same map_append list.map)
    moreover have "du_client ?d p = pvp_submitAction a ?c" "arrived ?d p = arrived d p" by (simp_all add: arrived_def)
    ultimately show ?thesis
      using True cl [of p] core_submit [of a ?c] phase_ok_submit [of "sock p" ?c a] by (simp add: client_ok_def)
  qed
  moreover have "du_taken ?d = du_taken d" "du_server ?d = du_server d" by simp_all
  ultimately show ?thesis using sv ch unfolding duel_inv_def by metis
qed

lemma duel_begin:
  assumes "\<And>p. ready_client (sock p) (cs p)"
  shows "duel_inv (start_match gid mt) sock cs (duel_start (start_match gid mt) cs)"
proof -
  let ?g = "start_match gid mt" and ?d = "duel_start (start_match gid mt) cs"
  define s where "s = \<lparr>ss_game_state = ?g, ss_connected = [SideP1, SideP2], ss_started = True, ss_action = (\<lambda>_. None :: action option)\<rparr>"
  have r: "current_round ?g \<noteq> None" by (simp add: start_match_def start_new_round_def)
  have none: "sent sock ?d p = []" "choices sock ?d p = []" "arrived ?d p = []" for p
    using assms [of p] by (simp_all add: sent_def choices_def game_socket_def duel_start_def arrived_def ready_client_def)
  have "list_all tail_block (waiting_blocks ?g)"
    by (auto simp: waiting_blocks_def waiting_message_def split: option.split)
  then have "stage (\<lambda>_. 0) (choices sock ?d) 0 (\<lambda>_. None) (handlers (du_server ?d))"
    by (simp add: duel_start_def both_connected_eq [OF r] handlers_def stage_defs)
  then have "server_ok ?g (choices sock ?d) (du_taken ?d) [] s (du_server ?d)"
    by (simp add: server_ok_def s_def duel_start_def both_connected_eq [OF r] none side_all handlers_def script_def futs_waiting
      none [unfolded duel_start_def both_connected_eq [OF r]])
  moreover have "client_ok sock cs ?d p" for p
    using none [of p] assms [of p] by (simp add: client_ok_def duel_start_def phase_ok_def ready_client_def)
  ultimately show ?thesis by (auto simp: duel_inv_def)
qed

interpretation dm: guarded_machine "duel_start (start_match gid mt) cs" "prompt sock" "duel_step sock"
  "\<lambda>d. (\<forall>p. ready_client (sock p) (cs p)) \<longrightarrow> duel_inv (start_match gid mt) sock cs d"
  for gid mt sock cs
proof
  show "(\<forall>p. ready_client (sock p) (cs p)) \<longrightarrow> duel_inv (start_match gid mt) sock cs (duel_start (start_match gid mt) cs)"
    by (simp add: duel_begin)
next
  fix d e
  assume "(\<forall>p. ready_client (sock p) (cs p)) \<longrightarrow> duel_inv (start_match gid mt) sock cs d" "prompt sock d e"
  then show "(\<forall>p. ready_client (sock p) (cs p)) \<longrightarrow> duel_inv (start_match gid mt) sock cs (duel_step sock d e)"
    by (cases e) (auto simp del: duel_step.simps prompt.simps(1,2) intro: duel_tap duel_take duel_serve duel_deliver)
qed

text \<open>Everything has been handled: nothing is under way, and each client has all its messages.\<close>

definition settled :: "duel \<Rightarrow> bool" where
  "settled d \<longleftrightarrow> (\<forall>p. sv_tasks (du_server d) (Handler p) = [] \<and> du_delivered d p = length (sv_out (du_server d) p))"

lemma settled_client:
  assumes inv: "duel_inv (start_match gid mt) sock cs d"
    and ok: "server_ok (start_match gid mt) (choices sock d) (du_taken d) ms s (du_server d)"
    and quiet: "settled d" and ready: "ready_client (sock p) (cs p)"
  shows "scores p (ss_game_state s) (du_client d p) \<and>
      (if gs_status (ss_game_state s) = InProgress then connected (sock p) (du_client d p) \<and> shows_numbers p (ss_game_state s) (du_client d p)
       else shows_winner p (ss_game_state s) (du_client d p) \<and> pv_phase (du_client d p) = PMatchEnd)"
proof -
  let ?g = "start_match gid mt" and ?c = "du_client d p"
  have cl: "core ?c = core (receive (sock p) (cs p) (arrived d p))" "phase_ok (sock p) ?c"
    using inv by (simp_all add: duel_inv_def client_ok_def)
  have "news (arrived d p) = script p ?g ms"
    using ok quiet by (simp add: server_ok_def settled_def arrived_def handlers_def)
  with cl(1) have "core ?c = core (receive (sock p) (cs p) (script p ?g ms))" using core_receive_news by metis
  moreover have "play ?g ms = Inr (ss_game_state s)" using ok by (simp add: server_ok_def)
  ultimately have all: "scores p (ss_game_state s) ?c \<and> (if gs_status (ss_game_state s) = InProgress
      then connected (sock p) ?c \<and> shows_numbers p (ss_game_state s) ?c else shows_winner p (ss_game_state s) ?c)"
    using client_after [OF _ ready] by blast
  have "shows_winner p (ss_game_state s) ?c \<Longrightarrow> pv_phase ?c = PMatchEnd"
    using cl(2) by (auto simp: shows_winner_def phase_ok_def)
  with all show ?thesis by (auto split: if_splits)
qed

text \<open>
  Claim C8: a whole online match between two prompt players.  Two web clients that have just been connected
  and show no score, and the server, are joined by sockets on which messages wait.  Suppose that each player
  taps one affordable card for each request and no timer runs out, no connection breaks and each update
  of the stored session succeeds at its first attempt.  Then in every order in which cards are tapped,
  messages taken and delivered and the handlers' blocks run, the server's game is the rules' game on the
  actions the two players chose, in the order they chose them, none lost and none used twice; nobody is
  ever sent an error; and once everything under way is done, each client shows its own side's score, the
  ki, round and turn of a running match, or the result screen with the winner told from its own side.
  Both conditions on the players are needed: see \<open>auto_charge_stops_match\<close> and
  \<open>second_tap_chooses_next_turn\<close> below.
\<close>

theorem online_match_follows_choices:
  assumes "\<And>p. ready_client (sock p) (cs p)"
    and "legal (prompt sock) (duel_step sock) (duel_start (start_match gid mt) cs) es"
  shows "let d = run (duel_step sock) (duel_start (start_match gid mt) cs) es in
    \<exists>ms gs s. sv_session (du_server d) = Some s \<and> ss_game_state s = gs \<and> play (start_match gid mt) ms = Inr gs \<and>
      (\<forall>p. map (\<lambda>(a1, a2). own p a1 a2) ms = take (length ms) (choices sock d p) \<and> length (choices sock d p) \<le> Suc (length ms)) \<and>
      (\<forall>p. list_all (\<lambda>m. \<not> is_error m) (sv_out (du_server d) p)) \<and>
      (settled d \<longrightarrow> (\<forall>p. scores p gs (du_client d p) \<and>
         (if gs_status gs = InProgress then connected (sock p) (du_client d p) \<and> shows_numbers p gs (du_client d p)
          else shows_winner p gs (du_client d p) \<and> pv_phase (du_client d p) = PMatchEnd)))"
proof -
  let ?d = "run (duel_step sock) (duel_start (start_match gid mt) cs) es"
  have inv: "duel_inv (start_match gid mt) sock cs ?d" using dm.inv_run [OF assms(2)] assms(1) by blast
  then obtain ms s where ok: "server_ok (start_match gid mt) (choices sock ?d) (du_taken ?d) ms s (du_server ?d)"
    by (auto simp: duel_inv_def)
  have "scores p (ss_game_state s) (du_client ?d p) \<and>
      (if gs_status (ss_game_state s) = InProgress then connected (sock p) (du_client ?d p) \<and> shows_numbers p (ss_game_state s) (du_client ?d p)
       else shows_winner p (ss_game_state s) (du_client ?d p) \<and> pv_phase (du_client ?d p) = PMatchEnd)" if "settled ?d" for p
    using settled_client [OF inv ok that, of p] assms(1) by blast
  with ok show ?thesis unfolding Let_def server_ok_def by blast
qed

definition first_turn_events :: "duel_event list" where
  "first_turn_events = replicate 3 (Serve (Handler SideP2)) @
     [Deliver SideP1, Deliver SideP2, Tap SideP2 Block, Tap SideP1 Charge, Take SideP1, Take SideP2] @
     replicate 2 (Serve (Handler SideP1)) @ replicate 10 (Serve (Handler SideP2)) @
     replicate 3 (Deliver SideP1) @ replicate 3 (Deliver SideP2)"

abbreviation example_duel :: "duel_event list \<Rightarrow> duel" where
  "example_duel \<equiv> run (duel_step (\<lambda>_. 0)) (duel_start (start_match ''g'' ''pvp'') (\<lambda>_. fresh_client))"

abbreviation example_legal :: "((side \<Rightarrow> nat) \<Rightarrow> duel \<Rightarrow> duel_event \<Rightarrow> bool) \<Rightarrow> duel_event list \<Rightarrow> bool" where
  "example_legal en \<equiv> legal (en (\<lambda>_. 0)) (duel_step (\<lambda>_. 0)) (duel_start (start_match ''g'' ''pvp'') (\<lambda>_. fresh_client))"

lemma fresh_ready: "ready_client 0 fresh_client"
  by (simp add: ready_client_def fresh_client_ok) (simp add: fresh_client_def pvp_init_def new_socket_def)

text \<open>One pass over the events checks that they are legal and looks at the state after them.\<close>

fun checked :: "('s \<Rightarrow> 'e \<Rightarrow> bool) \<Rightarrow> ('s \<Rightarrow> 'e \<Rightarrow> 's) \<Rightarrow> ('s \<Rightarrow> bool) \<Rightarrow> 's \<Rightarrow> 'e list \<Rightarrow> bool" where
  "checked en step P s [] = P s"
| "checked en step P s (e # es) = (en s e \<and> checked en step P (step s e) es)"

lemma checkedD: "checked en step P s es \<Longrightarrow> legal en step s es \<and> P (run step s es)"
  by (induction es arbitrary: s) auto

abbreviation example_checked :: "((side \<Rightarrow> nat) \<Rightarrow> duel \<Rightarrow> duel_event \<Rightarrow> bool) \<Rightarrow> (duel \<Rightarrow> bool) \<Rightarrow> duel_event list \<Rightarrow> bool" where
  "example_checked en P \<equiv> checked (en (\<lambda>_. 0)) (duel_step (\<lambda>_. 0)) P (duel_start (start_match ''g'' ''pvp'') (\<lambda>_. fresh_client))"

lemma first_turn_checked: "example_checked prompt (\<lambda>d.
     list_all (\<lambda>p. sv_tasks (du_server d) (Handler p) = [] \<and> du_delivered d p = length (sv_out (du_server d) p)) [SideP1, SideP2] \<and>
     choices (\<lambda>_. 0) d SideP1 = [Charge]) first_turn_events"
  by code_simp

lemmas first_turn_legal = checkedD [OF first_turn_checked, THEN conjunct1]
lemmas first_turn_state = checkedD [OF first_turn_checked, THEN conjunct2]

lemma first_turn_settled: "settled (example_duel first_turn_events)"
  using first_turn_state by (simp add: settled_def side_all)

theorem online_match_follows_choices_witness:
  "\<exists>ms gs s. sv_session (du_server (example_duel first_turn_events)) = Some s \<and> ss_game_state s = gs \<and>
     play (start_match ''g'' ''pvp'') ms = Inr gs \<and>
     (\<forall>p. map (\<lambda>(a1, a2). own p a1 a2) ms = take (length ms) (choices (\<lambda>_. 0) (example_duel first_turn_events) p)) \<and>
     choices (\<lambda>_. 0) (example_duel first_turn_events) SideP1 = [Charge] \<and> scores SideP1 gs (du_client (example_duel first_turn_events) SideP1)"
proof -
  have "choices (\<lambda>_. 0) (example_duel first_turn_events) SideP1 = [Charge]" using first_turn_state by blast
  moreover from online_match_follows_choices [of "\<lambda>_. 0" "\<lambda>_. fresh_client", OF fresh_ready first_turn_legal] first_turn_settled
  have "\<exists>ms gs s. sv_session (du_server (example_duel first_turn_events)) = Some s \<and> ss_game_state s = gs \<and>
     play (start_match ''g'' ''pvp'') ms = Inr gs \<and>
     (\<forall>p. map (\<lambda>(a1, a2). own p a1 a2) ms = take (length ms) (choices (\<lambda>_. 0) (example_duel first_turn_events) p)) \<and>
     scores SideP1 gs (du_client (example_duel first_turn_events) SideP1)"
    unfolding Let_def by blast
  ultimately show ?thesis by blast
qed

subsection \<open>When a player does not choose, or taps twice\<close>

text \<open>Timers that were not yet started have nothing to do.\<close>

definition unborn :: "server \<Rightarrow> bool" where
  "unborn sv \<longleftrightarrow> (\<forall>k \<ge> sv_next sv. sv_tasks sv (Timer k) = [] \<and> sv_tasks sv (Forfeit k) = [])"

fun started :: "server \<Rightarrow> task \<Rightarrow> bool" where
  "started sv (Timer k) = (k < sv_next sv)"
| "started sv (Forfeit k) = (k < sv_next sv)"
| "started sv (Handler p) = True"

lemma unborn_set_task: "unborn sv \<Longrightarrow> started sv t \<or> bs = [] \<Longrightarrow> unborn (set_task t bs sv)"
  by (cases t) (auto simp: unborn_def set_task_def)

lemma unborn_set [intro]: "unborn sv \<Longrightarrow> started sv t \<Longrightarrow> unborn (set_task t bs sv)"
  by (simp add: unborn_set_task)

lemma started_updates [simp]:
  "started (sv\<lparr>sv_session := x1\<rparr>) t = started sv t" "started (sv\<lparr>sv_out := x2\<rparr>) t = started sv t"
  "started (sv\<lparr>sv_timeout := x3\<rparr>) t = started sv t" "started (sv\<lparr>sv_forfeits := x4\<rparr>) t = started sv t"
  "started (sv\<lparr>sv_room := x5\<rparr>) t = started sv t" "started (set_task t' bs sv) t = started sv t"
  by (cases t; simp)+

lemma unborn_updates [simp]:
  "unborn (sv\<lparr>sv_session := x1\<rparr>) = unborn sv" "unborn (sv\<lparr>sv_out := x2\<rparr>) = unborn sv"
  "unborn (sv\<lparr>sv_timeout := x3\<rparr>) = unborn sv" "unborn (sv\<lparr>sv_forfeits := x4\<rparr>) = unborn sv"
  "unborn (sv\<lparr>sv_room := x5\<rparr>) = unborn sv"
  by (simp_all add: unborn_def)

lemma started_cancel [simp]:
  "started (cancel_timeout sv) t = started sv t" "started (cancel_forfeit p sv) t = started sv t" "started (cleanup_game sv) t = started sv t"
  by (simp_all add: cancel_timeout_def cancel_forfeit_def cleanup_game_def split: option.split)

lemma unborn_cancel [intro]: "unborn sv \<Longrightarrow> unborn (cancel_timeout sv)" "unborn sv \<Longrightarrow> unborn (cancel_forfeit p sv)"
  by (auto simp: cancel_timeout_def cancel_forfeit_def intro: unborn_set_task split: option.split)

lemma unborn_next: "unborn sv \<Longrightarrow> k \<le> sv_next sv \<Longrightarrow> unborn (sv\<lparr>sv_next := Suc (sv_next sv)\<rparr>) \<and>
    (started sv t \<longrightarrow> started (sv\<lparr>sv_next := Suc (sv_next sv)\<rparr>) t)"
  by (cases t) (auto simp: unborn_def)

lemma unborn_crash [intro]: "unborn sv \<Longrightarrow> unborn (crash t sv)"
  by (cases t) (auto intro: unborn_set_task)

lemma next_cancel [simp]: "sv_next (cancel_timeout sv) = sv_next sv"
  by (simp add: cancel_timeout_def split: option.split)

lemma unborn_timer:
  assumes "unborn sv" "started sv t"
  shows "unborn (exec_block t StartTimer rest sv)" "unborn (exec_block t (StartForfeit p) rest sv)"
  using assms unborn_cancel(1) [OF assms(1)] by (cases t; auto simp: Let_def unborn_def set_task_def)+

lemma unborn_exec:
  assumes "unborn sv" "started sv t"
  shows "unborn (exec_block t b rest sv)"
proof (cases b)
  case StartTimer
  with unborn_timer [OF assms] show ?thesis by simp
next
  case (StartForfeit p)
  with unborn_timer [OF assms] show ?thesis by simp
next
  case (LeaveSocket p)
  with assms show ?thesis
    by (auto simp: Let_def cleanup_game_def split: option.split intro!: unborn_cancel)
qed (use assms in \<open>auto simp: Let_def split: option.split sum.split prod.split intro!: unborn_cancel\<close>)

lemma unborn_run: "unborn sv \<Longrightarrow> unborn (run_task t sv)"
proof (cases "sv_tasks sv t")
  case (Cons b rest)
  assume "unborn sv"
  moreover from this Cons have "started sv t" by (cases t) (auto simp: unborn_def not_less [symmetric])
  ultimately show ?thesis by (simp add: run_task_def Cons unborn_exec)
qed (simp add: run_task_def)

interpretation ids: machine "new_server gs" server_step unborn for gs
proof
  show "unborn (new_server gs)" by (simp add: unborn_def new_server_def)
next
  fix sv e
  assume "unborn sv"
  then show "unborn (server_step sv e)" by (cases e) (auto intro: unborn_set_task unborn_run)
qed

lemma duel_server_run:
  "unborn (du_server d) \<Longrightarrow> unborn (du_server (run (duel_step sock) d es))"
proof (induction es arbitrary: d)
  case (Cons e es)
  have "unborn (du_server (duel_step sock d e))"
    by (cases e) (use Cons.prems unborn_run in \<open>auto simp: unborn_set\<close>)
  with Cons.IH show ?case by simp
qed simp

text \<open>Nothing can happen any more: no card is shown, no message is under way and no task has a block left.\<close>

definition stuck :: "(side \<Rightarrow> nat) \<Rightarrow> duel \<Rightarrow> bool" where
  "stuck sock d \<longleftrightarrow> (\<forall>e. \<not> duel_possible sock d e)"

definition nothing_left :: "(side \<Rightarrow> nat) \<Rightarrow> duel \<Rightarrow> bool" where
  "nothing_left sock d \<longleftrightarrow> sv_next (du_server d) = 1 \<and>
     list_all (\<lambda>t. sv_tasks (du_server d) t = []) [Handler SideP1, Handler SideP2, Timer 0, Forfeit 0] \<and>
     list_all (\<lambda>p. pv_phase (du_client d p) \<noteq> PPlaying \<and> length (sent sock d p) \<le> du_taken d p \<and>
       length (sv_out (du_server d) p) \<le> du_delivered d p) [SideP1, SideP2]"

lemma stuckI:
  assumes born: "unborn (du_server d)" and "nothing_left sock d"
  shows "stuck sock d"
  unfolding stuck_def
proof
  fix e
  note left = born assms(2) [unfolded nothing_left_def]
  have idle: "sv_tasks (du_server d) t = []" for t
  proof (cases t)
    case (Handler p)
    with left show ?thesis by (cases p) simp_all
  next
    case (Timer k)
    with left show ?thesis by (cases k) (simp_all add: unborn_def)
  next
    case (Forfeit k)
    with left show ?thesis by (cases k) (simp_all add: unborn_def)
  qed
  have client: "pv_phase (du_client d p) \<noteq> PPlaying \<and> length (sent sock d p) \<le> du_taken d p \<and>
      length (sv_out (du_server d) p) \<le> du_delivered d p" for p
    using left by (cases p) simp_all
  show "\<not> duel_possible sock d e"
  proof (cases e)
    case (Tap p a)
    with client [of p] show ?thesis by (simp add: card_shown_def)
  next
    case (Take p)
    with client [of p] show ?thesis by simp
  next
    case (Serve t)
    with idle show ?thesis by simp
  next
    case (Deliver p)
    with client [of p] show ?thesis by simp
  qed
qed

text \<open>One player taps Block, the other lets the five seconds pass.\<close>

definition timer_events :: "side \<Rightarrow> duel_event list" where
  "timer_events p = replicate 3 (Serve (Handler SideP2)) @ [Deliver SideP1, Deliver SideP2, Tap p Block, Take p] @
     replicate 2 (Serve (Handler p)) @ [Deliver p] @ replicate 5 (Serve (Timer 0)) @ [Deliver (other p)]"

lemma timer_checked:
  "example_checked duel_possible (\<lambda>d. nothing_left (\<lambda>_. 0) d \<and>
     map_option (\<lambda>s. (gs_status (ss_game_state s), map_option rs_turn_number (current_round (ss_game_state s))))
       (sv_session (du_server d)) = Some (InProgress, Some 1) \<and>
     map (\<lambda>q. (pv_phase (du_client d q), pv_turnResult (du_client d q))) [SideP1, SideP2] = [(PWaiting, None), (PWaiting, None)])
   (timer_events p)"
  by (cases p; hypsubst; code_simp)

lemma auto_charge_stops_match:
  "let d = example_duel (timer_events p) in
     example_legal duel_possible (timer_events p) \<and> stuck (\<lambda>_. 0) d \<and>
     map_option (\<lambda>s. (gs_status (ss_game_state s), map_option rs_turn_number (current_round (ss_game_state s))))
       (sv_session (du_server d)) = Some (InProgress, Some 1) \<and>
     pv_phase (du_client d q) = PWaiting \<and> pv_turnResult (du_client d q) = None"
proof -
  let ?d = "example_duel (timer_events p)"
  note st = checkedD [OF timer_checked [of p]]
  have "unborn (du_server (duel_start (start_match ''g'' ''pvp'') (\<lambda>_. fresh_client)))"
    unfolding duel_start_def both_connected_def by (simp only: duel.simps ids.always)
  from stuckI [OF duel_server_run [OF this]] st have "stuck (\<lambda>_. 0) ?d" by blast
  moreover have "pv_phase (du_client ?d q) = PWaiting \<and> pv_turnResult (du_client ?d q) = None"
    using st by (cases q) simp_all
  ultimately show ?thesis using st unfolding Let_def by blast
qed

text \<open>
  The hook sends whatever is tapped, and the cards stay until the confirmation arrives: a second tap
  is stored as the choice of the next turn, before that turn was asked for.
\<close>

definition double_tap_events :: "duel_event list" where
  "double_tap_events = replicate 3 (Serve (Handler SideP2)) @
     [Deliver SideP1, Deliver SideP2, Tap SideP1 Charge, Tap SideP2 Charge, Tap SideP2 Charge, Take SideP1] @
     replicate 2 (Serve (Handler SideP1)) @ [Take SideP2] @ replicate 10 (Serve (Handler SideP2)) @ [Take SideP2] @
     replicate 2 (Serve (Handler SideP2))"

lemma second_tap_chooses_next_turn:
  "example_checked duel_possible (\<lambda>d.
     map_option (\<lambda>s. map (ss_action s) [SideP1, SideP2]) (sv_session (du_server d)) = Some [None, Some Charge] \<and>
     filter is_waiting (drop (du_delivered d SideP2) (sv_out (du_server d) SideP2)) \<noteq> []) double_tap_events"
  by code_simp

end
