(* ===== verification/Arena_Effects.thy ===== *)
theory Arena_Effects
  imports Fx_Overlay
begin

text \<open>
  The six effects of the WebGL arena, \<open>web/src/components/arena/pixi/effects.ts\<close>, on the scene that
  \<open>web/src/components/arena/pixi/PixiBattleArena.tsx\<close> builds: two fighter sprites, the layer of the
  effects with its screen-wide filters, the particle emitter and the animations on Pixi's ticker.
  A filter is named by what it is and the number of the effect that made it; its parameters are
  kept beside it.  \<open>Math.random\<close> is a parameter, as in \<open>Fx_Overlay\<close>.
\<close>

subsection \<open>The scene\<close>

datatype fx_filter = Aura overlay_side | ChargeGlow nat | Shockwave nat | RgbSplit nat | TeleportFlash nat | Shield nat | Bloom nat

record fighter_sprite =
  fs_x :: real
  fs_y :: real
  fs_scale_x :: real
  fs_scale_y :: real
  fs_alpha :: real
  fs_rotation :: real
  fs_texture_height :: real
  fs_filters :: "fx_filter list"

record beam_layer =
  bl_visible :: bool
  bl_width :: real
  bl_height :: real
  bl_alpha :: real

record wave_sprites =
  wv_layers :: "beam_layer list"
  wv_orb_scale :: real
  wv_orb_alpha :: real
  wv_orb_glow :: real
  wv_flash_alpha :: real

text \<open>What the callbacks of an effect have captured.\<close>

datatype afx_body =
    ChargeFx overlay_side "real \<times> real" real nat
  | AttackFx overlay_side real
  | WaveFx overlay_side "real \<times> real" "real \<times> real" real real real nat real bool
  | TeleportFx overlay_side "real \<times> real" real real
  | BlockFx overlay_side
  | FinisherFx overlay_side "real \<times> real" real nat

record afx =
  afx_id :: nat
  afx_duration :: real
  afx_elapsed :: real
  afx_body :: afx_body

record arena_scene =
  as_player :: fighter_sprite
  as_enemy :: fighter_sprite
  as_layer :: "fx_filter list"
  as_param :: "fx_filter \<Rightarrow> real list"
  as_waves :: "nat \<rightharpoonup> wave_sprites"
  as_anims :: "afx list"
  as_next :: nat
  as_emitter :: emitter
  as_draws :: nat
  as_shakes :: "real list"
  as_color :: "overlay_side \<Rightarrow> nat"
  as_width :: real
  as_height :: real

fun foe :: "overlay_side \<Rightarrow> overlay_side" where
  "foe FxPlayer = FxEnemy"
| "foe FxEnemy = FxPlayer"

fun fighter_of :: "overlay_side \<Rightarrow> arena_scene \<Rightarrow> fighter_sprite" where
  "fighter_of FxPlayer s = as_player s"
| "fighter_of FxEnemy s = as_enemy s"

fun on_fighter :: "overlay_side \<Rightarrow> (fighter_sprite \<Rightarrow> fighter_sprite) \<Rightarrow> arena_scene \<Rightarrow> arena_scene" where
  "on_fighter FxPlayer f s = s\<lparr>as_player := f (as_player s)\<rparr>"
| "on_fighter FxEnemy f s = s\<lparr>as_enemy := f (as_enemy s)\<rparr>"

definition sprite_height :: "fighter_sprite \<Rightarrow> real" where
  "sprite_height f = \<bar>fs_scale_y f\<bar> * fs_texture_height f"

definition centerOf :: "fighter_sprite \<Rightarrow> real \<times> real" where
  "centerOf f = (fs_x f, fs_y f - sprite_height f * (45 / 100))"

definition set_filters :: "overlay_side \<Rightarrow> fx_filter list \<Rightarrow> arena_scene \<Rightarrow> arena_scene" where
  "set_filters sd fl = on_fighter sd (\<lambda>f. f\<lparr>fs_filters := fl\<rparr>)"

definition set_x :: "overlay_side \<Rightarrow> real \<Rightarrow> arena_scene \<Rightarrow> arena_scene" where
  "set_x sd x = on_fighter sd (\<lambda>f. f\<lparr>fs_x := x\<rparr>)"

definition set_param :: "fx_filter \<Rightarrow> real list \<Rightarrow> arena_scene \<Rightarrow> arena_scene" where
  "set_param k v s = s\<lparr>as_param := (as_param s)(k := v)\<rparr>"

definition set_wave :: "nat \<Rightarrow> (wave_sprites \<Rightarrow> wave_sprites) \<Rightarrow> arena_scene \<Rightarrow> arena_scene" where
  "set_wave i f s = s\<lparr>as_waves := (as_waves s)(i := map_option f (as_waves s i))\<rparr>"

definition onShake :: "real \<Rightarrow> arena_scene \<Rightarrow> arena_scene" where
  "onShake intensity s = s\<lparr>as_shakes := as_shakes s @ [intensity]\<rparr>"

definition fx_burst :: "(nat \<Rightarrow> real) \<Rightarrow> nat \<Rightarrow> factory \<Rightarrow> arena_scene \<Rightarrow> arena_scene" where
  "fx_burst rnd n f s =
     (let (cs, k) = draw_n rnd n f (as_draws s)
      in s\<lparr>as_emitter := burst cs (as_emitter s), as_draws := k\<rparr>)"

definition start_anim :: "nat \<Rightarrow> real \<Rightarrow> afx_body \<Rightarrow> arena_scene \<Rightarrow> arena_scene" where
  "start_anim i duration b s =
     s\<lparr>as_anims := as_anims s @ [\<lparr>afx_id = i, afx_duration = duration, afx_elapsed = 0, afx_body = b\<rparr>], as_next := i + 1\<rparr>"

subsection \<open>Starting an effect\<close>

text \<open>Which way the blow goes: away from the acting side.\<close>

fun away :: "overlay_side \<Rightarrow> real" where
  "away FxPlayer = 1"
| "away FxEnemy = - 1"

definition fxCharge :: "overlay_side \<Rightarrow> arena_scene \<Rightarrow> arena_scene" where
  "fxCharge sd s =
     (let i = as_next s; f = fighter_of sd s
      in start_anim i 900 (ChargeFx sd (centerOf f) (sprite_height f * (6 / 10)) (as_color s sd))
           (set_param (ChargeGlow i) [2, 16] (set_filters sd [ChargeGlow i] s)))"

definition fxAttack :: "(nat \<Rightarrow> real) \<Rightarrow> overlay_side \<Rightarrow> arena_scene \<Rightarrow> arena_scene" where
  "fxAttack rnd sd s =
     (let i = as_next s; (hx, hy) = centerOf (fighter_of (foe sd) s);
          s1 = fx_burst rnd 14 (burst_at rnd hx hy 0xffffff (8 / 10)) (fx_burst rnd 34 (burst_at rnd hx hy 0xffd23f (12 / 10)) s);
          s2 = onShake 1 (set_param (RgbSplit i) [- 10, 10] (set_param (Shockwave i) [0] (s1\<lparr>as_layer := [Shockwave i, RgbSplit i]\<rparr>)))
      in start_anim i 600 (AttackFx sd (fs_x (fighter_of (foe sd) s2))) s2)"

definition wave_full_len :: "real \<times> real \<Rightarrow> real \<times> real \<Rightarrow> real" where
  "wave_full_len origin dest = \<bar>fst dest - fst origin\<bar> + 90"

definition layer_heights :: "real \<Rightarrow> real list" where
  "layer_heights H = [H * (17 / 100), H * (9 / 100), H * (35 / 1000)]"

definition fxEnergyWave :: "overlay_side \<Rightarrow> arena_scene \<Rightarrow> arena_scene" where
  "fxEnergyWave sd s =
     (let i = as_next s; origin = centerOf (fighter_of sd s); dest = centerOf (fighter_of (foe sd) s); H = as_height s
      in start_anim i 1500
           (WaveFx sd origin dest (js_sign_or_1 (fst dest - fst origin)) (wave_full_len origin dest) H
              (as_color s sd) (fs_x (fighter_of (foe sd) s)) False)
           (s\<lparr>as_waves := (as_waves s)(i \<mapsto>
              \<lparr>wv_layers = map (\<lambda>h. \<lparr>bl_visible = False, bl_width = 0, bl_height = h, bl_alpha = 1\<rparr>) (layer_heights H),
               wv_orb_scale = 4 / 10, wv_orb_alpha = 1, wv_orb_glow = 2, wv_flash_alpha = 0\<rparr>)\<rparr>))"

definition fxTeleport :: "(nat \<Rightarrow> real) \<Rightarrow> overlay_side \<Rightarrow> arena_scene \<Rightarrow> arena_scene" where
  "fxTeleport rnd sd s =
     (let i = as_next s; f = fighter_of sd s; (cx, cy) = centerOf f
      in start_anim i 280 (TeleportFx sd (cx, cy) (fs_scale_x f) (fs_scale_y f))
           (fx_burst rnd 18 (burst_at rnd cx cy 0x7cf3ff (9 / 10)) (set_filters sd [TeleportFlash i] s)))"

definition fxBlock :: "(nat \<Rightarrow> real) \<Rightarrow> overlay_side \<Rightarrow> arena_scene \<Rightarrow> arena_scene" where
  "fxBlock rnd sd s =
     (let i = as_next s; (cx, cy) = centerOf (fighter_of sd s)
      in start_anim i 360 (BlockFx sd)
           (fx_burst rnd 10 (burst_at rnd cx cy 0x66ddff (7 / 10)) (set_filters sd [Shield i] s)))"

definition fxFinisher :: "(nat \<Rightarrow> real) \<Rightarrow> overlay_side \<Rightarrow> arena_scene \<Rightarrow> arena_scene" where
  "fxFinisher rnd sd s =
     (let i = as_next s; color = as_color s sd; (cx, cy) = centerOf (fighter_of (foe sd) s);
          s1 = onShake (15 / 10) (set_param (RgbSplit i) [- 14, 2, 14, - 2] (set_param (Bloom i) [6 / 10, 12 / 10]
                 (s\<lparr>as_layer := [Bloom i, RgbSplit i]\<rparr>)));
          s2 = fx_burst rnd 30 (burst_at rnd cx cy 0xffffff (12 / 10)) (fx_burst rnd 60 (burst_at rnd cx cy color (16 / 10)) s1)
      in start_anim i 1400 (FinisherFx sd (cx, cy) (fs_x (fighter_of (foe sd) s2)) color) s2)"

fun triggerEffect :: "(nat \<Rightarrow> real) \<Rightarrow> fx_kind \<Rightarrow> overlay_side \<Rightarrow> arena_scene \<Rightarrow> arena_scene" where
  "triggerEffect rnd FxCharge sd s = fxCharge sd s"
| "triggerEffect rnd FxAttack sd s = fxAttack rnd sd s"
| "triggerEffect rnd FxEnergyWave sd s = fxEnergyWave sd s"
| "triggerEffect rnd FxTeleport sd s = fxTeleport rnd sd s"
| "triggerEffect rnd FxBlock sd s = fxBlock rnd sd s"
| "triggerEffect rnd FxFinisher sd s = fxFinisher rnd sd s"

subsection \<open>The callbacks of an effect\<close>

text \<open>The three layers of the live beam: as wide as the reach, their heights crackling about the base heights.\<close>

definition live_layers :: "real \<Rightarrow> real \<Rightarrow> real \<Rightarrow> beam_layer list \<Rightarrow> beam_layer list" where
  "live_layers H width p ls =
     map2 (\<lambda>(baseH, i) l. l\<lparr>bl_visible := True, bl_width := width, bl_height := baseH * (1 + sin (p * 60 + i * 2) * (35 / 100))\<rparr>)
       (zip (layer_heights H) [0, 1, 2]) ls"

definition beam_motes :: "(nat \<Rightarrow> real) \<Rightarrow> real \<times> real \<Rightarrow> real \<Rightarrow> real \<Rightarrow> real \<Rightarrow> real \<Rightarrow> nat \<Rightarrow> factory" where
  "beam_motes rnd origin fullLen reach dir H color k =
     rising_at rnd (fst origin + fullLen * rnd k * reach * dir) (snd origin + (rnd (k + 1) - 1 / 2) * H * (12 / 100)) color 24 (k + 2)"

fun afx_update :: "(nat \<Rightarrow> real) \<Rightarrow> nat \<Rightarrow> real \<Rightarrow> afx_body \<Rightarrow> arena_scene \<Rightarrow> afx_body \<times> arena_scene" where
  "afx_update rnd i p (ChargeFx sd c radius color) s =
     (ChargeFx sd c radius color,
      set_param (ChargeGlow i) [2 + sin (p * pi) * 6, 16 + sin (p * pi) * 14]
        (if p < 85 / 100
         then let r = rnd (as_draws s); s1 = s\<lparr>as_draws := as_draws s + 1\<rparr>
              in if r < 9 / 10 then fx_burst rnd 3 (vortex_at rnd (fst c) (snd c) (radius * (1 - p * (4 / 10))) color) s1 else s1
         else s))"
| "afx_update rnd i p (AttackFx sd tx0) s =
     (AttackFx sd tx0,
      set_x (foe sd) (tx0 + sin (p * pi) * (28 * away sd))
        (set_param (RgbSplit i) [- 10 * (1 - p), 10 * (1 - p)] (set_param (Shockwave i) [p * (6 / 10)] s)))"
| "afx_update rnd i p (WaveFx sd origin dest dir fullLen H color tx0 impacted) s =
     (if p < 3 / 10 then
        let cp = p / (3 / 10);
            s1 = set_wave i (\<lambda>w. w\<lparr>wv_orb_scale := 4 / 10 + cp * (18 / 10), wv_orb_glow := 2 + cp * 12\<rparr>)
                   (fx_burst rnd 8 (vortex_at rnd (fst origin) (snd origin) (95 * (1 - cp)) color) s)
        in (WaveFx sd origin dest dir fullLen H color tx0 impacted, if 27 / 100 < p then onShake (3 / 10) s1 else s1)
      else if p < 82 / 100 then
        let fp = (p - 3 / 10) / (52 / 100); reach = min 1 (fp * (15 / 10));
            s1 = set_wave i (\<lambda>w. w\<lparr>wv_orb_scale := 22 / 10 * (1 - fp * (4 / 10)),
                   wv_flash_alpha := (if p < 42 / 100 then max 0 (85 / 100 * (1 - (p - 3 / 10) / (12 / 100))) else wv_flash_alpha w),
                   wv_layers := live_layers H (fullLen * reach * dir) p (wv_layers w)\<rparr>) s;
            s2 = fx_burst rnd 14 (beam_motes rnd origin fullLen reach dir H color) s1;
            hits = 98 / 100 \<le> reach \<and> \<not> impacted;
            s3 = (if hits then
                    onShake 1 (set_param (Shockwave i) [0]
                      ((fx_burst rnd 24 (burst_at rnd (fst dest) (snd dest) 0xffffff (12 / 10))
                         (fx_burst rnd 48 (burst_at rnd (fst dest) (snd dest) color (16 / 10)) s2))\<lparr>as_layer := [Shockwave i]\<rparr>))
                  else s2);
            sp = min 1 ((p - 1 / 2) / (32 / 100));
            s4 = (if impacted \<or> hits then
                    set_x (foe sd) (tx0 + sin (sp * pi) * 30 * dir) (set_param (Shockwave i) [sp * (6 / 10)] s3)
                  else s3)
        in (WaveFx sd origin dest dir fullLen H color tx0 (impacted \<or> hits), s4)
      else
        let ep = (p - 82 / 100) / (18 / 100)
        in (WaveFx sd origin dest dir fullLen H color tx0 impacted,
            set_wave i (\<lambda>w. w\<lparr>wv_layers := map (\<lambda>l. l\<lparr>bl_alpha := 1 - ep\<rparr>) (wv_layers w), wv_orb_alpha := 1 - ep\<rparr>) s))"
| "afx_update rnd i p (TeleportFx sd c sx0 sy0) s =
     (TeleportFx sd c sx0 sy0,
      set_param (TeleportFlash i) [1 + p * (25 / 10)]
        (on_fighter sd (\<lambda>f. f\<lparr>fs_scale_x := sx0 * (1 - p), fs_scale_y := sy0 * (1 + p * (4 / 10))\<rparr>) s))"
| "afx_update rnd i p (BlockFx sd) s =
     (BlockFx sd, set_param (Shield i) [1 + sin (p * pi) * (6 / 10)] s)"
| "afx_update rnd i p (FinisherFx sd c lx0 color) s =
     (FinisherFx sd c lx0 color,
      let s1 = set_param (RgbSplit i) [- 14 * (1 - p), 2 * (1 - p), 14 * (1 - p), - 2 * (1 - p)]
                 (set_param (Bloom i) [6 / 10 + sin (p * pi) * (24 / 10), 12 / 10 + sin (p * pi) * (8 / 10)] s);
          s2 = (if 25 / 100 < p \<and> p < 28 / 100 then fx_burst rnd 50 (burst_at rnd (fst c) (snd c) color (14 / 10)) s1 else s1);
          s3 = (if 1 / 2 < p \<and> p < 53 / 100 then fx_burst rnd 40 (burst_at rnd (fst c) (snd c) 0xffaa33 (15 / 10)) s2 else s2);
          s4 = (if p < 7 / 10
                then let r = rnd (as_draws s3); s' = s3\<lparr>as_draws := as_draws s3 + 1\<rparr>
                     in if r < 6 / 10 then fx_burst rnd 2 (rising_at rnd (fst c) (snd c) color 90) s' else s'
                else s3)
      in on_fighter (foe sd) (\<lambda>f. f\<lparr>fs_x := lx0 + p * 120 * away sd, fs_alpha := max 0 (1 - p * (11 / 10)),
                                      fs_rotation := p * (6 / 10) * away sd\<rparr>) s4)"

fun afx_done :: "(nat \<Rightarrow> real) \<Rightarrow> nat \<Rightarrow> afx_body \<Rightarrow> arena_scene \<Rightarrow> arena_scene" where
  "afx_done rnd i (ChargeFx sd c radius color) s = set_filters sd [] s"
| "afx_done rnd i (AttackFx sd tx0) s = set_x (foe sd) tx0 (s\<lparr>as_layer := []\<rparr>)"
| "afx_done rnd i (WaveFx sd origin dest dir fullLen H color tx0 impacted) s =
     set_x (foe sd) tx0 (s\<lparr>as_waves := (as_waves s)(i := None), as_layer := []\<rparr>)"
| "afx_done rnd i (TeleportFx sd c sx0 sy0) s =
     fx_burst rnd 18 (burst_at rnd (fst c) (snd c) 0x7cf3ff (9 / 10))
       (set_filters sd [] (on_fighter sd (\<lambda>f. f\<lparr>fs_scale_x := sx0, fs_scale_y := sy0\<rparr>) s))"
| "afx_done rnd i (BlockFx sd) s = set_filters sd [] s"
| "afx_done rnd i (FinisherFx sd c lx0 color) s =
     on_fighter (foe sd) (\<lambda>f. f\<lparr>fs_x := lx0, fs_alpha := 1, fs_rotation := 0\<rparr>) (s\<lparr>as_layer := []\<rparr>)"

text \<open>One frame of the ticker: \<open>animate\<close> of every running effect, in the order they were started.\<close>

fun tick_afx :: "(nat \<Rightarrow> real) \<Rightarrow> real \<Rightarrow> afx list \<Rightarrow> arena_scene \<Rightarrow> afx list \<times> arena_scene" where
  "tick_afx rnd dms [] s = ([], s)"
| "tick_afx rnd dms (a # as) s =
     (let elapsed = afx_elapsed a + dms; p = min 1 (elapsed / afx_duration a);
          (b, s1) = afx_update rnd (afx_id a) p (afx_body a) s
      in if 1 \<le> p then tick_afx rnd dms as (afx_done rnd (afx_id a) b s1)
         else (let (as', s2) = tick_afx rnd dms as s1 in (a\<lparr>afx_elapsed := elapsed, afx_body := b\<rparr> # as', s2)))"

definition arena_frame :: "(nat \<Rightarrow> real) \<Rightarrow> real \<Rightarrow> arena_scene \<Rightarrow> arena_scene" where
  "arena_frame rnd dms s = (let (as, s1) = tick_afx rnd dms (as_anims s) s in s1\<lparr>as_anims := as\<rparr>)"

subsection \<open>Effects clean up after themselves\<close>

text \<open>Which effect a filter belongs to; the fighters' auras belong to none.\<close>

fun filter_owner :: "fx_filter \<Rightarrow> nat option" where
  "filter_owner (Aura sd) = None"
| "filter_owner (ChargeGlow i) = Some i"
| "filter_owner (Shockwave i) = Some i"
| "filter_owner (RgbSplit i) = Some i"
| "filter_owner (TeleportFlash i) = Some i"
| "filter_owner (Shield i) = Some i"
| "filter_owner (Bloom i) = Some i"

definition owners :: "fx_filter list \<Rightarrow> nat set" where
  "owners fl = {i. Some i \<in> filter_owner ` set fl}"

lemma owners_simps [simp]: "owners [] = {}"
  "owners (f # fl) = (case filter_owner f of None \<Rightarrow> owners fl | Some i \<Rightarrow> insert i (owners fl))"
  by (auto simp: owners_def split: option.split)

fun on_self :: "afx_body \<Rightarrow> overlay_side option" where
  "on_self (ChargeFx sd c radius color) = Some sd"
| "on_self (TeleportFx sd c sx0 sy0) = Some sd"
| "on_self (BlockFx sd) = Some sd"
| "on_self b = None"

fun on_layer :: "afx_body \<Rightarrow> bool" where
  "on_layer (AttackFx sd x) = True"
| "on_layer (WaveFx sd origin dest dir fullLen H color tx0 impacted) = True"
| "on_layer (FinisherFx sd c x color) = True"
| "on_layer b = False"

fun is_wavefx :: "afx_body \<Rightarrow> bool" where
  "is_wavefx (WaveFx sd origin dest dir fullLen H color tx0 impacted) = True"
| "is_wavefx b = False"

text \<open>Every filter and every beam on the scene belongs to an effect of the list that puts it there.\<close>

definition ids_where :: "(afx_body \<Rightarrow> bool) \<Rightarrow> afx list \<Rightarrow> nat set" where
  "ids_where P as = afx_id ` {a \<in> set as. P (afx_body a)}"

lemma ids_where_simps [simp]:
  "ids_where P [] = {}" "ids_where P (xs @ ys) = ids_where P xs \<union> ids_where P ys"
  "ids_where P (a # as) = (if P (afx_body a) then insert (afx_id a) (ids_where P as) else ids_where P as)"
  by (auto simp: ids_where_def)

lemma ids_where_moved:
  "P b = P (afx_body a) \<Longrightarrow> ids_where P (xs @ a\<lparr>afx_elapsed := e, afx_body := b\<rparr> # as) = ids_where P (xs @ a # as)"
  by (cases "P b") simp_all

definition held :: "arena_scene \<Rightarrow> afx list \<Rightarrow> bool" where
  "held s as \<longleftrightarrow>
     (\<forall>sd. owners (fs_filters (fighter_of sd s)) \<subseteq> ids_where (\<lambda>b. on_self b = Some sd) as) \<and>
     owners (as_layer s) \<subseteq> ids_where on_layer as \<and> dom (as_waves s) \<subseteq> ids_where is_wavefx as"

text \<open>What a step leaves of the filters and beams.\<close>

definition filters_of :: "arena_scene \<Rightarrow> overlay_side \<Rightarrow> fx_filter list" where
  "filters_of s sd = fs_filters (fighter_of sd s)"

lemma scene_parts [simp]:
  "filters_of (fx_burst rnd n f s) sd = filters_of s sd" "as_layer (fx_burst rnd n f s) = as_layer s"
  "as_waves (fx_burst rnd n f s) = as_waves s" "as_anims (fx_burst rnd n f s) = as_anims s"
  "fighter_of sd (fx_burst rnd n f s) = fighter_of sd s" "as_next (fx_burst rnd n f s) = as_next s"
  "fighter_of sd (s\<lparr>as_draws := d\<rparr>) = fighter_of sd s" "fighter_of sd (s\<lparr>as_layer := l\<rparr>) = fighter_of sd s"
  "fighter_of sd (s\<lparr>as_waves := w\<rparr>) = fighter_of sd s" "fighter_of sd (s\<lparr>as_anims := an\<rparr>) = fighter_of sd s"
  "fighter_of sd (set_param k v s) = fighter_of sd s" "as_layer (set_param k v s) = as_layer s"
  "as_waves (set_param k v s) = as_waves s" "as_anims (set_param k v s) = as_anims s" "as_next (set_param k v s) = as_next s"
  "fighter_of sd (onShake r s) = fighter_of sd s" "as_layer (onShake r s) = as_layer s"
  "as_waves (onShake r s) = as_waves s" "as_anims (onShake r s) = as_anims s" "as_next (onShake r s) = as_next s"
  "fighter_of sd (set_wave i g s) = fighter_of sd s" "as_layer (set_wave i g s) = as_layer s"
  "dom (as_waves (set_wave i g s)) = dom (as_waves s)" "as_anims (set_wave i g s) = as_anims s" "as_next (set_wave i g s) = as_next s"
  by (cases sd; auto simp: filters_of_def fx_burst_def set_param_def onShake_def set_wave_def split: prod.split)+

lemma fighter_of_on [simp]:
  "fighter_of sd (on_fighter sd' f s) = (if sd = sd' then f (fighter_of sd s) else fighter_of sd s)"
  "as_layer (on_fighter sd' f s) = as_layer s" "as_waves (on_fighter sd' f s) = as_waves s"
  "as_anims (on_fighter sd' f s) = as_anims s" "as_next (on_fighter sd' f s) = as_next s"
  by (cases sd; cases sd'; simp)+

lemma foe_neq [simp]: "foe sd \<noteq> sd" "sd \<noteq> foe sd" "foe (foe sd) = sd"
  by (cases sd; simp)+

lemma update_body [simp]:
  "on_self (fst (afx_update rnd i p b s)) = on_self b" "on_layer (fst (afx_update rnd i p b s)) = on_layer b"
  "is_wavefx (fst (afx_update rnd i p b s)) = is_wavefx b"
  by (cases b; simp add: Let_def)+

lemma update_leaves:
  "fs_filters (fighter_of sd (snd (afx_update rnd i p b s))) = fs_filters (fighter_of sd s)"
  "owners (as_layer (snd (afx_update rnd i p b s))) \<subseteq> (if on_layer b then insert i (owners (as_layer s)) else owners (as_layer s))"
  "dom (as_waves (snd (afx_update rnd i p b s))) = dom (as_waves s)"
  "as_anims (snd (afx_update rnd i p b s)) = as_anims s" "as_next (snd (afx_update rnd i p b s)) = as_next s"
  by (cases b; auto simp: Let_def set_x_def)+

lemma done_leaves:
  "fs_filters (fighter_of sd (afx_done rnd i b s)) = (if on_self b = Some sd then [] else fs_filters (fighter_of sd s))"
  "as_layer (afx_done rnd i b s) = (if on_layer b then [] else as_layer s)"
  "as_waves (afx_done rnd i b s) = (if is_wavefx b then (as_waves s)(i := None) else as_waves s)"
  "as_anims (afx_done rnd i b s) = as_anims s" "as_next (afx_done rnd i b s) = as_next s"
  by (cases b; auto simp: set_x_def set_filters_def)+

lemma heldD:
  assumes "held s as"
  shows "owners (fs_filters (fighter_of sd s)) \<subseteq> ids_where (\<lambda>b. on_self b = Some sd) as"
    "owners (as_layer s) \<subseteq> ids_where on_layer as" "dom (as_waves s) \<subseteq> ids_where is_wavefx as"
  using assms unfolding held_def by blast+

lemma held_update:
  assumes "held s (xs @ a # as)" "afx_update rnd (afx_id a) p (afx_body a) s = (b, s1)"
  shows "held s1 (xs @ a\<lparr>afx_elapsed := e, afx_body := b\<rparr> # as)"
proof -
  have b: "b = fst (afx_update rnd (afx_id a) p (afx_body a) s)" and s1: "s1 = snd (afx_update rnd (afx_id a) p (afx_body a) s)"
    using assms(2) by simp_all
  let ?as = "xs @ a\<lparr>afx_elapsed := e, afx_body := b\<rparr> # as"
  have ids: "ids_where (\<lambda>b. on_self b = Some sd) ?as = ids_where (\<lambda>b. on_self b = Some sd) (xs @ a # as)"
    "ids_where on_layer ?as = ids_where on_layer (xs @ a # as)" "ids_where is_wavefx ?as = ids_where is_wavefx (xs @ a # as)" for sd
    by (rule ids_where_moved, simp add: b)+
  have "owners (as_layer s1) \<subseteq> ids_where on_layer (xs @ a # as)"
  proof (cases "on_layer (afx_body a)")
    case True
    then have "owners (as_layer s1) \<subseteq> insert (afx_id a) (owners (as_layer s))" "afx_id a \<in> ids_where on_layer (xs @ a # as)"
      using update_leaves(2) [of rnd "afx_id a" p "afx_body a" s] by (simp_all add: s1)
    with heldD(2) [OF assms(1)] show ?thesis by blast
  next
    case False
    then have "owners (as_layer s1) \<subseteq> owners (as_layer s)"
      using update_leaves(2) [of rnd "afx_id a" p "afx_body a" s] by (simp add: s1)
    with heldD(2) [OF assms(1)] show ?thesis by blast
  qed
  with heldD(1,3) [OF assms(1)] show ?thesis
    unfolding held_def ids by (simp only: s1 update_leaves) blast
qed

lemma held_done:
  assumes "held s (xs @ a # as)" shows "held (afx_done rnd (afx_id a) (afx_body a) s) (xs @ as)"
proof -
  have "owners (fs_filters (fighter_of sd (afx_done rnd (afx_id a) (afx_body a) s))) \<subseteq> ids_where (\<lambda>b. on_self b = Some sd) (xs @ as)" for sd
    using heldD(1) [OF assms, of sd] by (cases "on_self (afx_body a) = Some sd") (simp_all add: done_leaves)
  moreover have "owners (as_layer (afx_done rnd (afx_id a) (afx_body a) s)) \<subseteq> ids_where on_layer (xs @ as)"
    using heldD(2) [OF assms] by (cases "on_layer (afx_body a)") (simp_all add: done_leaves)
  moreover have "dom (as_waves (afx_done rnd (afx_id a) (afx_body a) s)) \<subseteq> ids_where is_wavefx (xs @ as)"
    using heldD(3) [OF assms] by (cases "is_wavefx (afx_body a)") (auto simp: done_leaves)
  ultimately show ?thesis unfolding held_def by blast
qed

lemma tick_afx_held:
  "held s (xs @ as) \<Longrightarrow> held (snd (tick_afx rnd dms as s)) (xs @ fst (tick_afx rnd dms as s))"
proof (induction as arbitrary: s xs)
  case (Cons a as)
  define e where "e = afx_elapsed a + dms"
  define p where "p = min 1 (e / afx_duration a)"
  obtain b s1 where u: "afx_update rnd (afx_id a) p (afx_body a) s = (b, s1)" by (cases "afx_update rnd (afx_id a) p (afx_body a) s")
  let ?a = "a\<lparr>afx_elapsed := e, afx_body := b\<rparr>"
  from held_update [OF Cons.prems u, of e] have h: "held s1 (xs @ ?a # as)" .
  note u' = u [unfolded p_def e_def]
  show ?case
  proof (cases "1 \<le> p")
    case True
    have "held (afx_done rnd (afx_id a) b s1) (xs @ as)" using held_done [OF h, of rnd] by simp
    from Cons.IH [OF this] True show ?thesis unfolding tick_afx.simps Let_def u' prod.case p_def e_def by simp
  next
    case False
    obtain as' s2 where t: "tick_afx rnd dms as s1 = (as', s2)" by (cases "tick_afx rnd dms as s1")
    from h have "held s1 ((xs @ [?a]) @ as)" by simp
    from Cons.IH [OF this] have "held s2 (xs @ ?a # as')" by (simp add: t)
    with False show ?thesis unfolding tick_afx.simps Let_def u' prod.case p_def e_def t by simp
  qed
qed simp

lemma held_anims [simp]: "held (s\<lparr>as_anims := as\<rparr>) xs = held s xs"
  by (simp add: held_def)

definition arena_ok :: "arena_scene \<Rightarrow> bool" where
  "arena_ok s \<longleftrightarrow> held s (as_anims s) \<and> (\<forall>a \<in> set (as_anims s). 0 \<le> afx_elapsed a \<and> 0 < afx_duration a \<and> afx_duration a \<le> 1500)"

lemma tick_afx_elapsed:
  assumes "a \<in> set (fst (tick_afx rnd dms as s))" "\<forall>x \<in> set as. 0 < afx_duration x"
  shows "\<exists>x \<in> set as. afx_elapsed a = afx_elapsed x + dms \<and> afx_duration a = afx_duration x \<and> afx_elapsed a < afx_duration a"
  using assms
proof (induction as arbitrary: s)
  case (Cons x as)
  obtain b s1 where u: "afx_update rnd (afx_id x) (min 1 ((afx_elapsed x + dms) / afx_duration x)) (afx_body x) s = (b, s1)" by fastforce
  show ?case
  proof (cases "1 \<le> min 1 ((afx_elapsed x + dms) / afx_duration x)")
    case True
    with Cons.prems(1) have "a \<in> set (fst (tick_afx rnd dms as (afx_done rnd (afx_id x) b s1)))"
      unfolding tick_afx.simps Let_def u prod.case by simp
    from Cons.IH [OF this] Cons.prems(2) show ?thesis by auto
  next
    case False
    with Cons.prems(2) have lt: "afx_elapsed x + dms < afx_duration x" by (simp add: le_divide_eq)
    obtain as' s2 where t: "tick_afx rnd dms as s1 = (as', s2)" by (cases "tick_afx rnd dms as s1")
    from False Cons.prems(1) have "a = x\<lparr>afx_elapsed := afx_elapsed x + dms, afx_body := b\<rparr> \<or> a \<in> set as'"
      unfolding tick_afx.simps Let_def u prod.case t by simp
    then show ?thesis
    proof
      assume "a = x\<lparr>afx_elapsed := afx_elapsed x + dms, afx_body := b\<rparr>"
      with lt show ?thesis by simp
    next
      assume "a \<in> set as'"
      with Cons.IH [of s1] Cons.prems(2) show ?thesis by (simp add: t)
    qed
  qed
qed simp

lemma frame_parts:
  "as_anims (arena_frame rnd dms s) = fst (tick_afx rnd dms (as_anims s) s)"
  "held (arena_frame rnd dms s) xs = held (snd (tick_afx rnd dms (as_anims s) s)) xs"
  by (simp_all add: arena_frame_def split: prod.split)

lemma arena_frame_ok:
  assumes "arena_ok s" "0 \<le> dms"
  shows "arena_ok (arena_frame rnd dms s) \<and> (\<forall>a \<in> set (as_anims (arena_frame rnd dms s)).
    \<exists>a0 \<in> set (as_anims s). afx_elapsed a = afx_elapsed a0 + dms \<and> afx_elapsed a < 1500)"
proof -
  have keep: "\<exists>a0 \<in> set (as_anims s). afx_elapsed a = afx_elapsed a0 + dms \<and> afx_duration a = afx_duration a0 \<and> afx_elapsed a < afx_duration a"
    if "a \<in> set (as_anims (arena_frame rnd dms s))" for a
  proof -
    from that have "a \<in> set (fst (tick_afx rnd dms (as_anims s) s))" by (simp add: frame_parts)
    from tick_afx_elapsed [OF this] assms(1) show ?thesis by (simp add: arena_ok_def)
  qed
  have "held (arena_frame rnd dms s) (as_anims (arena_frame rnd dms s))"
    using tick_afx_held [of s "[]" "as_anims s" rnd dms] assms(1) by (simp add: frame_parts arena_ok_def)
  with keep assms show ?thesis unfolding arena_ok_def by force
qed

lemma start_anim_parts [simp]:
  "fighter_of sd (start_anim i D b s) = fighter_of sd s" "as_layer (start_anim i D b s) = as_layer s"
  "as_waves (start_anim i D b s) = as_waves s"
  "as_anims (start_anim i D b s) = as_anims s @ [\<lparr>afx_id = i, afx_duration = D, afx_elapsed = 0, afx_body = b\<rparr>]"
  by (cases sd; simp add: start_anim_def)+

lemmas fx_defs = fxCharge_def fxAttack_def fxEnergyWave_def fxTeleport_def fxBlock_def fxFinisher_def

lemma trigger_filters:
  "fs_filters (fighter_of x (triggerEffect rnd k sd s)) = (if x = sd then (case k of
       FxCharge \<Rightarrow> [ChargeGlow (as_next s)] | FxTeleport \<Rightarrow> [TeleportFlash (as_next s)] | FxBlock \<Rightarrow> [Shield (as_next s)]
     | _ \<Rightarrow> fs_filters (fighter_of x s)) else fs_filters (fighter_of x s))"
  by (cases k) (simp_all add: fx_defs set_filters_def Let_def split: prod.split)

lemma trigger_layer:
  "as_layer (triggerEffect rnd k sd s) = (case k of
     FxAttack \<Rightarrow> [Shockwave (as_next s), RgbSplit (as_next s)] | FxFinisher \<Rightarrow> [Bloom (as_next s), RgbSplit (as_next s)] | _ \<Rightarrow> as_layer s)"
  by (cases k) (simp_all add: fx_defs set_filters_def Let_def split: prod.split)

lemma trigger_waves:
  "dom (as_waves (triggerEffect rnd k sd s)) = (if k = FxEnergyWave then insert (as_next s) (dom (as_waves s)) else dom (as_waves s))"
  by (cases k) (simp_all add: fx_defs set_filters_def Let_def split: prod.split)

lemma trigger_anims:
  "\<exists>b D. as_anims (triggerEffect rnd k sd s) = as_anims s @ [\<lparr>afx_id = as_next s, afx_duration = D, afx_elapsed = 0, afx_body = b\<rparr>] \<and>
     0 < D \<and> D \<le> 1500 \<and> on_self b = (if k \<in> {FxCharge, FxTeleport, FxBlock} then Some sd else None) \<and>
     on_layer b = (k \<in> {FxAttack, FxFinisher, FxEnergyWave}) \<and> is_wavefx b = (k = FxEnergyWave)"
  by (cases k) (simp_all add: fx_defs set_filters_def Let_def split: prod.split)

lemma afx_trigger_ok:
  assumes "arena_ok s" shows "arena_ok (triggerEffect rnd k sd s)"
proof -
  let ?s = "triggerEffect rnd k sd s"
  obtain b D where a: "as_anims ?s = as_anims s @ [\<lparr>afx_id = as_next s, afx_duration = D, afx_elapsed = 0, afx_body = b\<rparr>]"
    "0 < D" "D \<le> 1500" "on_self b = (if k \<in> {FxCharge, FxTeleport, FxBlock} then Some sd else None)"
    "on_layer b = (k \<in> {FxAttack, FxFinisher, FxEnergyWave})" "is_wavefx b = (k = FxEnergyWave)"
    using trigger_anims by blast
  have h: "held s (as_anims s)" using assms by (simp add: arena_ok_def)
  have "owners (fs_filters (fighter_of x ?s)) \<subseteq> ids_where (\<lambda>b. on_self b = Some x) (as_anims ?s)" for x
    using heldD(1) [OF h, of x] a(4) unfolding trigger_filters a(1) by (cases k) auto
  moreover have "owners (as_layer ?s) \<subseteq> ids_where on_layer (as_anims ?s)"
    using heldD(2) [OF h] a(5) unfolding trigger_layer a(1) by (cases k) auto
  moreover have "dom (as_waves ?s) \<subseteq> ids_where is_wavefx (as_anims ?s)"
    using heldD(3) [OF h] a(6) unfolding trigger_waves a(1) by (cases "k = FxEnergyWave") auto
  ultimately have "held ?s (as_anims ?s)" unfolding held_def by blast
  with assms a(1-3) show ?thesis by (auto simp: arena_ok_def)
qed

text \<open>The scene with effects started and frames drawn in any order.\<close>

datatype arena_event = Trigger fx_kind overlay_side | DrawFrame real

fun arena_step :: "(nat \<Rightarrow> real) \<Rightarrow> arena_scene \<Rightarrow> arena_event \<Rightarrow> arena_scene" where
  "arena_step rnd s (Trigger k sd) = triggerEffect rnd k sd s"
| "arena_step rnd s (DrawFrame dms) = arena_frame rnd dms s"

fun forwards :: "arena_scene \<Rightarrow> arena_event \<Rightarrow> bool" where
  "forwards s (DrawFrame dms) = (0 \<le> dms)"
| "forwards s (Trigger k sd) = True"

definition quiet_scene :: "arena_scene \<Rightarrow> bool" where
  "quiet_scene s \<longleftrightarrow> as_anims s = [] \<and> held s []"

lemma quiet_ok: "quiet_scene s \<Longrightarrow> arena_ok s"
  by (simp add: quiet_scene_def arena_ok_def)

lemma arena_step_ok: "arena_ok s \<Longrightarrow> forwards s e \<Longrightarrow> arena_ok (arena_step rnd s e)"
  by (cases e) (simp_all add: afx_trigger_ok arena_frame_ok)

lemma arena_run_ok: "arena_ok s \<Longrightarrow> legal forwards (arena_step rnd) s es \<Longrightarrow> arena_ok (run (arena_step rnd) s es)"
  by (induction es arbitrary: s) (auto simp del: arena_step.simps intro: arena_step_ok)

definition arena_frames :: "(nat \<Rightarrow> real) \<Rightarrow> real list \<Rightarrow> arena_scene \<Rightarrow> arena_scene" where
  "arena_frames rnd ds s = fold (arena_frame rnd) ds s"

lemma arena_frames_simps [simp]: "arena_frames rnd [] s = s" "arena_frames rnd (d # ds) s = arena_frames rnd ds (arena_frame rnd d s)"
  by (simp_all add: arena_frames_def)

lemma arena_frames_elapsed:
  assumes "arena_ok s" "\<forall>d \<in> set ds. 0 \<le> d"
  shows "arena_ok (arena_frames rnd ds s) \<and> (\<forall>a \<in> set (as_anims (arena_frames rnd ds s)). sum_list ds \<le> afx_elapsed a \<and> (ds = [] \<or> afx_elapsed a < 1500))"
  using assms
proof (induction ds rule: rev_induct)
  case Nil
  then show ?case by (auto simp: arena_ok_def)
next
  case (snoc d ds)
  let ?s = "arena_frames rnd ds s"
  have ih: "arena_ok ?s" "\<forall>a \<in> set (as_anims ?s). sum_list ds \<le> afx_elapsed a" using snoc by simp_all
  have eq: "arena_frames rnd (ds @ [d]) s = arena_frame rnd d ?s" by (simp add: arena_frames_def)
  from arena_frame_ok [OF ih(1), of d rnd] snoc.prems(2) ih(2) show ?case unfolding eq by fastforce
qed

lemma arena_frames_end:
  assumes "arena_ok s" "\<forall>d \<in> set ds. 0 \<le> d" "1500 \<le> sum_list ds"
  shows "as_anims (arena_frames rnd ds s) = [] \<and> held (arena_frames rnd ds s) []"
proof -
  note el = arena_frames_elapsed [OF assms(1,2), of rnd]
  have "ds \<noteq> []" using assms(3) by auto
  have "as_anims (arena_frames rnd ds s) = []"
  proof (rule ccontr)
    assume "as_anims (arena_frames rnd ds s) \<noteq> []"
    then obtain a where "a \<in> set (as_anims (arena_frames rnd ds s))" by (meson list.set_sel(1))
    with el \<open>ds \<noteq> []\<close> have "sum_list ds \<le> afx_elapsed a" "afx_elapsed a < 1500" by blast+
    with assms(3) show False by linarith
  qed
  with arena_frames_elapsed [OF assms(1,2), of rnd] show ?thesis by (auto simp: arena_ok_def)
qed

text \<open>
  Claim C38: However the effects of the arena overlap, they end and take what they put on the scene
  away again.  From a scene without effects, after any starts and frames, a spell of 1.5 seconds
  without a new effect leaves no animation running, no filter of an effect on a fighter or on the
  screen and no beam.
\<close>

theorem arena_effects_clean_up:
  assumes "quiet_scene s0" and "legal forwards (arena_step rnd) s0 es" and "s = run (arena_step rnd) s0 es"
    and "\<forall>d \<in> set ds. 0 \<le> d" and "1500 \<le> sum_list ds"
  shows "as_anims (arena_frames rnd ds s) = [] \<and> as_waves (arena_frames rnd ds s) = Map.empty \<and>
    owners (as_layer (arena_frames rnd ds s)) = {} \<and> owners (fs_filters (fighter_of sd (arena_frames rnd ds s))) = {}"
proof -
  have "arena_ok s" unfolding assms(3) by (rule arena_run_ok [OF quiet_ok [OF assms(1)] assms(2)])
  from arena_frames_end [OF this assms(4,5), of rnd] show ?thesis by (auto simp: held_def)
qed

subsection \<open>One effect at a time leaves the fighters as they were\<close>

text \<open>Whatever the callbacks of an effect do on the way, its end undoes.\<close>

definition shown :: "arena_scene \<Rightarrow> (overlay_side \<Rightarrow> fighter_sprite) \<times> fx_filter list \<times> (nat \<Rightarrow> wave_sprites option)" where
  "shown s = ((\<lambda>sd. fighter_of sd s), as_layer s, as_waves s)"

lemma shown_eq: "shown s = shown t \<longleftrightarrow> (\<forall>sd. fighter_of sd s = fighter_of sd t) \<and> as_layer s = as_layer t \<and> as_waves s = as_waves t"
  by (auto simp: shown_def fun_eq_iff)

lemma set_wave_gone [simp]: "(as_waves (set_wave i g s))(i := None) = (as_waves s)(i := None)"
  by (simp add: set_wave_def)

lemma done_undoes_update:
  "shown (afx_done rnd i (fst (afx_update rnd i p b s)) (snd (afx_update rnd i p b s))) = shown (afx_done rnd i b s)"
  by (cases b) (auto simp: shown_eq Let_def set_x_def set_filters_def)

text \<open>The scene as it will be when a fresh effect is over.\<close>

definition settled_fighter :: "fx_kind \<Rightarrow> overlay_side \<Rightarrow> arena_scene \<Rightarrow> overlay_side \<Rightarrow> fighter_sprite" where
  "settled_fighter k sd s x = (if x = sd \<and> k \<in> {FxCharge, FxTeleport, FxBlock} then (fighter_of x s)\<lparr>fs_filters := []\<rparr> else fighter_of x s)"

definition standing :: "fighter_sprite \<Rightarrow> bool" where
  "standing f \<longleftrightarrow> fs_alpha f = 1 \<and> fs_rotation f = 0"

lemma trigger_undone:
  assumes "as_layer s = []" "as_waves s = Map.empty" "standing (fighter_of (foe sd) s)"
    and "as_anims (triggerEffect rnd k sd s) = as_anims s @ [a]"
  shows "shown (afx_done rnd (afx_id a) (afx_body a) (triggerEffect rnd k sd s)) = (settled_fighter k sd s, [], Map.empty)"
  using assms
  by (cases k) (auto simp: fx_defs shown_def settled_fighter_def standing_def set_filters_def set_x_def Let_def fun_eq_iff split: prod.splits)

lemma single_frame:
  assumes "as_anims s = [a]" "shown (afx_done rnd (afx_id a) (afx_body a) s) = R"
  shows "(\<exists>a'. as_anims (arena_frame rnd d s) = [a'] \<and> shown (afx_done rnd (afx_id a') (afx_body a') (arena_frame rnd d s)) = R) \<or>
    as_anims (arena_frame rnd d s) = [] \<and> shown (arena_frame rnd d s) = R"
proof -
  let ?p = "min 1 ((afx_elapsed a + d) / afx_duration a)"
  obtain b s1 where u: "afx_update rnd (afx_id a) ?p (afx_body a) s = (b, s1)" by fastforce
  have R: "shown (afx_done rnd (afx_id a) b s1) = R"
    using done_undoes_update [of rnd "afx_id a" ?p "afx_body a" s] assms(2) by (simp add: u)
  have anims: "shown (s\<lparr>as_anims := as\<rparr>) = shown s" "shown (afx_done rnd i b (s\<lparr>as_anims := as\<rparr>)) = shown (afx_done rnd i b s)" for s as i b
    by (cases b; simp add: shown_eq set_filters_def set_x_def)+
  show ?thesis
  proof (cases "1 \<le> ?p")
    case True
    then have "tick_afx rnd d [a] s = ([], afx_done rnd (afx_id a) b s1)" unfolding tick_afx.simps Let_def u prod.case by simp
    with R show ?thesis by (simp add: arena_frame_def assms(1) anims)
  next
    case False
    then have "tick_afx rnd d [a] s = ([a\<lparr>afx_elapsed := afx_elapsed a + d, afx_body := b\<rparr>], s1)"
      unfolding tick_afx.simps Let_def u prod.case by simp
    with R show ?thesis by (simp add: arena_frame_def assms(1) anims)
  qed
qed

lemma idle_frames: "as_anims s = [] \<Longrightarrow> as_anims (arena_frames rnd ds s) = [] \<and> shown (arena_frames rnd ds s) = shown s"
proof (induction ds arbitrary: s)
  case (Cons d ds)
  have "as_anims (arena_frame rnd d s) = []" "shown (arena_frame rnd d s) = shown s"
    using Cons.prems by (simp_all add: arena_frame_def shown_eq)
  with Cons.IH show ?case by simp
qed simp

lemma single_frames:
  assumes "as_anims s = [a]" "shown (afx_done rnd (afx_id a) (afx_body a) s) = R" "as_anims (arena_frames rnd ds s) = []"
  shows "shown (arena_frames rnd ds s) = R"
  using assms
proof (induction ds arbitrary: s a)
  case (Cons d ds)
  from single_frame [OF Cons.prems(1,2), of d] show ?case
  proof (elim disjE exE conjE)
    fix a' assume "as_anims (arena_frame rnd d s) = [a']" "shown (afx_done rnd (afx_id a') (afx_body a') (arena_frame rnd d s)) = R"
    from Cons.IH [OF this] Cons.prems(3) show ?thesis by simp
  next
    assume "as_anims (arena_frame rnd d s) = []" "shown (arena_frame rnd d s) = R"
    with idle_frames show ?thesis by simp
  qed
qed simp

text \<open>
  An effect that runs alone leaves the fighters where and as they were: 1.5 seconds of frames
  after its start, however long each frame is, both fighters have the position, size, opacity and
  rotation they had before, the screen has no filter and no beam.  The one trace is on the acting
  fighter after a charge, a teleport or a block: all its filters are gone, its lasting aura with them.
\<close>

theorem lone_effect_restores:
  assumes "quiet_scene s" and "as_layer s = []" and "standing (fighter_of (foe sd) s)"
    and "\<forall>d \<in> set ds. 0 \<le> d" and "1500 \<le> sum_list ds" and "t = arena_frames rnd ds (triggerEffect rnd k sd s)"
  shows "as_layer t = [] \<and> as_waves t = Map.empty \<and> fighter_of (foe sd) t = fighter_of (foe sd) s \<and>
    fighter_of sd t = (if k \<in> {FxCharge, FxTeleport, FxBlock} then (fighter_of sd s)\<lparr>fs_filters := []\<rparr> else fighter_of sd s)"
proof -
  have w: "as_waves s = Map.empty" and n: "as_anims s = []" using assms(1) by (auto simp: quiet_scene_def held_def)
  obtain a where a: "as_anims (triggerEffect rnd k sd s) = [a]" using trigger_anims [of rnd k sd s] n by auto
  have "shown (afx_done rnd (afx_id a) (afx_body a) (triggerEffect rnd k sd s)) = (settled_fighter k sd s, [], Map.empty)"
    by (rule trigger_undone [OF assms(2) w assms(3)]) (simp add: a n)
  moreover have "as_anims t = []"
    unfolding assms(6) using arena_frames_end [OF afx_trigger_ok [OF quiet_ok [OF assms(1)]] assms(4,5)] by blast
  ultimately have "shown t = (settled_fighter k sd s, [], Map.empty)"
    using single_frames [OF a] unfolding assms(6) by blast
  then have "fighter_of x t = settled_fighter k sd s x" "as_layer t = []" "as_waves t = Map.empty" for x
    by (simp_all add: shown_def fun_eq_iff)
  then show ?thesis by (simp add: settled_fighter_def)
qed

subsection \<open>The scene of the arena\<close>

definition new_fighter :: "overlay_side \<Rightarrow> real \<Rightarrow> fighter_sprite" where
  "new_fighter sd texture_height = \<lparr>fs_x = 0, fs_y = 0, fs_scale_x = 1, fs_scale_y = 1, fs_alpha = 1, fs_rotation = 0,
     fs_texture_height = texture_height, fs_filters = [Aura sd]\<rparr>"

text \<open>The fighters near the edges, at 66 per cent of the height; the enemy is mirrored.\<close>

definition arena_layout :: "real \<Rightarrow> real \<Rightarrow> arena_scene \<Rightarrow> arena_scene" where
  "arena_layout W H s =
     (let ps = H * (66 / 100) / fs_texture_height (as_player s); es = H * (66 / 100) / fs_texture_height (as_enemy s)
      in s\<lparr>as_width := W, as_height := H,
           as_player := (as_player s)\<lparr>fs_scale_x := ps, fs_scale_y := ps, fs_x := W * (16 / 100), fs_y := H * (93 / 100)\<rparr>,
           as_enemy := (as_enemy s)\<lparr>fs_scale_x := - es, fs_scale_y := es, fs_x := W * (84 / 100), fs_y := H * (93 / 100)\<rparr>\<rparr>)"

definition new_arena :: "(overlay_side \<Rightarrow> nat) \<Rightarrow> real \<Rightarrow> real \<Rightarrow> real \<Rightarrow> real \<Rightarrow> arena_scene" where
  "new_arena color ph eh W H = arena_layout W H
     \<lparr>as_player = new_fighter FxPlayer ph, as_enemy = new_fighter FxEnemy eh, as_layer = [], as_param = (\<lambda>_. []),
      as_waves = Map.empty, as_anims = [], as_next = 0, as_emitter = emitter_init, as_draws = 0, as_shakes = [],
      as_color = color, as_width = 0, as_height = 0\<rparr>"

lemma new_arena_quiet: "quiet_scene (new_arena color ph eh W H)" "as_layer (new_arena color ph eh W H) = []"
  "standing (fighter_of sd (new_arena color ph eh W H))"
proof -
  have "owners (fs_filters (fighter_of sd (new_arena color ph eh W H))) = {}" for sd
    by (cases sd) (simp_all add: new_arena_def arena_layout_def Let_def new_fighter_def)
  then show "quiet_scene (new_arena color ph eh W H)"
    by (simp add: quiet_scene_def held_def) (simp add: new_arena_def arena_layout_def Let_def)
  show "as_layer (new_arena color ph eh W H) = []" by (simp add: new_arena_def arena_layout_def Let_def)
  show "standing (fighter_of sd (new_arena color ph eh W H))"
    by (cases sd) (simp_all add: new_arena_def arena_layout_def Let_def new_fighter_def standing_def)
qed

abbreviation example_arena :: arena_scene where
  "example_arena \<equiv> new_arena (\<lambda>_. 0xff8800) 512 512 800 400"

lemma arena_effects_clean_up_witness:
  "as_anims (arena_frames (\<lambda>_. 0) [1000, 500] (run (arena_step (\<lambda>_. 0)) example_arena
     [Trigger FxEnergyWave FxPlayer, DrawFrame 700, Trigger FxAttack FxEnemy])) = []"
  using arena_effects_clean_up [OF new_arena_quiet(1), where es = "[Trigger FxEnergyWave FxPlayer, DrawFrame 700, Trigger FxAttack FxEnemy]"
    and rnd = "\<lambda>_. 0" and ds = "[1000, 500]", OF _ refl] by simp

lemma lone_effect_restores_witness:
  "fighter_of FxEnemy (arena_frames (\<lambda>_. 0) [700, 800] (triggerEffect (\<lambda>_. 0) FxFinisher FxPlayer example_arena)) = fighter_of FxEnemy example_arena"
  using lone_effect_restores [OF new_arena_quiet(1,2), of FxPlayer, OF _ _ _ refl, where ds = "[700, 800]" and k = FxFinisher]
    new_arena_quiet(3) [of FxEnemy] by simp

subsection \<open>Effects that overlap or meet long frames\<close>

text \<open>
  A second attack on a fighter who is still recoiling takes the displaced position for the fighter's
  own: after both, the fighter stands 28 pixels further off, for good.
\<close>

lemma frame_attacks:
  assumes "as_anims s = [\<lparr>afx_id = i, afx_duration = 600, afx_elapsed = 0, afx_body = AttackFx sd x\<rparr>]"
  shows "as_anims (arena_frame rnd 300 s) = [\<lparr>afx_id = i, afx_duration = 600, afx_elapsed = 300, afx_body = AttackFx sd x\<rparr>] \<and>
    fs_x (fighter_of (foe sd) (arena_frame rnd 300 s)) = x + 28 * away sd"
  using assms by (simp add: arena_frame_def Let_def set_x_def)

lemma second_attack_displaces:
  assumes "as_anims s = []"
  shows "fs_x (fighter_of (foe sd) (run (arena_step rnd) s
      [Trigger FxAttack sd, DrawFrame 300, Trigger FxAttack sd, DrawFrame 300, DrawFrame 300])) =
    fs_x (fighter_of (foe sd) s) + 28 * away sd"
proof -
  have attack: "as_anims (fxAttack rnd sd u) = as_anims u @ [\<lparr>afx_id = as_next u, afx_duration = 600, afx_elapsed = 0,
      afx_body = AttackFx sd (fs_x (fighter_of (foe sd) u))\<rparr>]" "fs_x (fighter_of x (fxAttack rnd sd u)) = fs_x (fighter_of x u)" for u x
    by (simp_all add: fxAttack_def Let_def split: prod.split)
  let ?s1 = "arena_frame rnd 300 (fxAttack rnd sd s)"
  have s1: "as_anims ?s1 = [\<lparr>afx_id = as_next s, afx_duration = 600, afx_elapsed = 300, afx_body = AttackFx sd (fs_x (fighter_of (foe sd) s))\<rparr>]"
    "fs_x (fighter_of (foe sd) ?s1) = fs_x (fighter_of (foe sd) s) + 28 * away sd"
    using frame_attacks [where s = "fxAttack rnd sd s"] attack [where u = s] assms by simp_all
  define u where "u = fxAttack rnd sd ?s1"
  have u: "as_anims u = [\<lparr>afx_id = as_next s, afx_duration = 600, afx_elapsed = 300, afx_body = AttackFx sd (fs_x (fighter_of (foe sd) s))\<rparr>,
      \<lparr>afx_id = as_next ?s1, afx_duration = 600, afx_elapsed = 0, afx_body = AttackFx sd (fs_x (fighter_of (foe sd) s) + 28 * away sd)\<rparr>]"
    unfolding u_def attack(1) s1 by simp
  define v where "v = arena_frame rnd 300 u"
  have v: "as_anims v = [\<lparr>afx_id = as_next ?s1, afx_duration = 600, afx_elapsed = 300,
      afx_body = AttackFx sd (fs_x (fighter_of (foe sd) s) + 28 * away sd)\<rparr>]"
    unfolding v_def by (simp add: arena_frame_def u Let_def)
  have "fs_x (fighter_of (foe sd) (arena_frame rnd 300 v)) = fs_x (fighter_of (foe sd) s) + 28 * away sd"
    by (simp add: arena_frame_def v Let_def set_x_def)
  then show ?thesis by (simp add: u_def v_def)
qed

text \<open>
  The finisher's later explosions are thrown in every frame whose progress is between 25 and 28, or
  between 50 and 53 per cent, 42 milliseconds each: with frames of 20 ms each is thrown twice, with
  frames of 50 ms neither is thrown at all.
\<close>

fun explosions :: "real \<Rightarrow> real list \<Rightarrow> int list" where
  "explosions e [] = []"
| "explosions e (d # ds) = (let p = (e + d) / 1400
     in (if 25 / 100 < p \<and> p < 28 / 100 then [50] else []) @ (if 1 / 2 < p \<and> p < 53 / 100 then [40] else []) @ explosions (e + d) ds)"

lemma burst_count [simp]: "int (liveCount (as_emitter (fx_burst rnd n f s))) = int n + int (liveCount (as_emitter s))"
proof -
  have drawn: "length cs = n" if "draw_n rnd n f k = (cs, k')" for k cs k'
    using that by (induction n arbitrary: k cs k') (auto split: prod.splits)
  moreover have "liveCount (burst cs e) = length cs + liveCount e" for cs e
    by (induction cs e rule: burst.induct) (auto simp: liveCount_def spawn_def acquire_def split: prod.split)
  ultimately show ?thesis by (auto simp: fx_burst_def split: prod.split)
qed

lemma emitter_parts [simp]:
  "as_emitter (set_param k v s) = as_emitter s" "as_emitter (onShake r s) = as_emitter s"
  "as_emitter (on_fighter sd g s) = as_emitter s" "as_emitter (start_anim i D b s) = as_emitter s"
  by (cases sd; simp add: set_param_def onShake_def start_anim_def)+

lemma frame_finisher:
  assumes "as_anims s = [\<lparr>afx_id = i, afx_duration = 1400, afx_elapsed = e, afx_body = FinisherFx sd c x color\<rparr>]"
    and "0 \<le> e" "0 < d" "e + d < 1400" "\<forall>k. 6 / 10 \<le> rnd k"
  shows "as_anims (arena_frame rnd d s) = [\<lparr>afx_id = i, afx_duration = 1400, afx_elapsed = e + d, afx_body = FinisherFx sd c x color\<rparr>] \<and>
    int (liveCount (as_emitter (arena_frame rnd d s))) = int (liveCount (as_emitter s)) + sum_list (explosions e [d])"
proof -
  have p: "min 1 ((e + d) / 1400) = (e + d) / 1400" "\<not> 1 \<le> (e + d) / 1400" using assms(4) by simp_all
  have "\<not> rnd k < 6 / 10" for k using assms(5) by (simp add: not_less)
  then show ?thesis using p by (simp add: arena_frame_def assms(1) Let_def)
qed

lemma frames_finisher:
  assumes "as_anims s = [\<lparr>afx_id = i, afx_duration = 1400, afx_elapsed = e, afx_body = FinisherFx sd c x color\<rparr>]"
    and "0 \<le> e" "\<forall>d \<in> set ds. 0 < d" "e + sum_list ds < 1400" "\<forall>k. 6 / 10 \<le> rnd k"
  shows "int (liveCount (as_emitter (arena_frames rnd ds s))) = int (liveCount (as_emitter s)) + sum_list (explosions e ds)"
  using assms
proof (induction ds arbitrary: s e)
  case (Cons d ds)
  have "0 \<le> sum_list ds" using Cons.prems(3) by (intro sum_list_nonneg) auto
  with Cons.prems have d: "0 < d" "e + d < 1400" by auto
  note f = frame_finisher [OF Cons.prems(1,2) d Cons.prems(5)]
  from Cons.IH [OF f [THEN conjunct1]] Cons.prems d f show ?case by (simp add: Let_def)
qed simp

lemma explosions_depend_on_frames:
  assumes "as_anims s = []" "\<forall>k. 6 / 10 \<le> rnd k"
  shows "int (liveCount (as_emitter (arena_frames rnd (replicate 60 20) (fxFinisher rnd sd s)))) =
      int (liveCount (as_emitter s)) + 90 + 2 * 50 + 2 * 40 \<and>
    int (liveCount (as_emitter (arena_frames rnd (replicate 24 50) (fxFinisher rnd sd s)))) = int (liveCount (as_emitter s)) + 90"
proof -
  have start: "\<exists>i c x color. as_anims (fxFinisher rnd sd s) = [\<lparr>afx_id = i, afx_duration = 1400, afx_elapsed = 0, afx_body = FinisherFx sd c x color\<rparr>]"
    "int (liveCount (as_emitter (fxFinisher rnd sd s))) = int (liveCount (as_emitter s)) + 90"
    using assms(1) by (simp_all add: fxFinisher_def Let_def split: prod.split)
  have "sum_list (explosions 0 (replicate 60 20)) = 180" "sum_list (explosions 0 (replicate 24 50)) = 0"
    by (simp_all add: eval_nat_numeral)
  with start frames_finisher [OF _ _ _ _ assms(2), of "fxFinisher rnd sd s" _ 0] show ?thesis
    by (auto simp: sum_list_replicate)
qed

end
