(* ===== verification/Arena_Host.thy ===== *)
theory Arena_Host
  imports Arena_Effects
begin

text \<open>
  The component \<open>web/src/components/arena/pixi/PixiBattleArena.tsx\<close> that owns the WebGL arena.  Every run
  of its mount effect has a closure of its own, whose asynchronous set-up may finish after the clean-up;
  the trigger is in a ref that all runs share.  Pixi's application, the loading of the pictures, the
  resize observer and the document's visibility are events.
\<close>

subsection \<open>The scene on the ticker\<close>

record arena_view =
  av_scene :: arena_scene
  av_ambient :: emitter
  av_ember :: real
  av_ground :: real

text \<open>One ember rises from below the picture; its place, speed and size are drawn first, then \<open>spawn\<close> draws twice.\<close>

definition ember :: "real \<Rightarrow> real \<Rightarrow> real \<Rightarrow> real \<Rightarrow> real \<Rightarrow> spawn_config" where
  "ember W H r1 r2 r3 =
     \<lparr>sc_x = r1 * W, sc_y = H + 10, sc_vx = None, sc_vy = Some (- (6 / 10) - r2 * (6 / 10)), sc_gravity = None, sc_drag = None,
      sc_spin = None, sc_maxLife = Some 220, sc_scale = Some (25 / 100 + r3 * (2 / 10)), sc_scaleDecay = Some (999 / 1000),
      sc_tint = Some 0x4466aa, sc_sway = Some 18, sc_alpha = Some (6 / 10)\<rparr>"

definition bob :: "real \<Rightarrow> real \<Rightarrow> arena_scene \<Rightarrow> arena_scene" where
  "bob ground t s =
     on_fighter FxEnemy (\<lambda>f. f\<lparr>fs_y := ground + sin (t * (16 / 10) + 1) * 4\<rparr>)
       (on_fighter FxPlayer (\<lambda>f. f\<lparr>fs_y := ground + sin (t * (16 / 10)) * 4\<rparr>) s)"

definition drift_ember :: "(nat \<Rightarrow> real) \<Rightarrow> real \<Rightarrow> arena_view \<Rightarrow> arena_view" where
  "drift_ember rnd dt v =
     (let clock = av_ember v + dt; s = av_scene v; k = as_draws s
      in if 6 < clock
         then v\<lparr>av_ember := 0, av_scene := s\<lparr>as_draws := k + 5\<rparr>,
                av_ambient := spawn (ember (as_width s) (as_height s) (rnd k) (rnd (k + 1)) (rnd (k + 2))) (rnd (k + 3)) (rnd (k + 4)) (av_ambient v)\<rparr>
         else v\<lparr>av_ember := clock\<rparr>)"

text \<open>A frame: the component's own listener, which was added first, then the running effects.\<close>

definition view_frame :: "(nat \<Rightarrow> real) \<Rightarrow> real \<Rightarrow> real \<Rightarrow> real \<Rightarrow> arena_view \<Rightarrow> arena_view" where
  "view_frame rnd dt dms t v =
     (let s = bob (av_ground v) t (av_scene v);
          v1 = drift_ember rnd dt (v\<lparr>av_scene := s\<lparr>as_emitter := update dt (as_emitter s)\<rparr>\<rparr>);
          v2 = v1\<lparr>av_ambient := update dt (av_ambient v1)\<rparr>
      in v2\<lparr>av_scene := arena_frame rnd dms (av_scene v2)\<rparr>)"

definition view_layout :: "real \<Rightarrow> real \<Rightarrow> arena_view \<Rightarrow> arena_view" where
  "view_layout W H v = v\<lparr>av_ground := H * (93 / 100), av_scene := arena_layout W H (av_scene v)\<rparr>"

definition new_view :: "(overlay_side \<Rightarrow> nat) \<Rightarrow> real \<Rightarrow> real \<Rightarrow> real \<Rightarrow> real \<Rightarrow> arena_view" where
  "new_view color ph eh W H =
     \<lparr>av_scene = new_arena color ph eh W H, av_ambient = emitter_init, av_ember = 0, av_ground = H * (93 / 100)\<rparr>"

subsection \<open>The component\<close>

record arena_run =
  ar_color :: "overlay_side \<Rightarrow> nat"
  ar_destroyed :: bool
  ar_app :: bool
  ar_ticking :: bool
  ar_observed :: bool
  ar_listening :: bool
  ar_view :: "arena_view option"

record arena_props =
  ap_srcs :: "string \<times> string"
  ap_colors :: "nat \<times> nat"
  ap_effect :: "overlay_effect option"

record arena_host =
  ah_runs :: "arena_run list"
  ah_trigger :: "nat option"
  ah_props :: "arena_props option"
  ah_fired :: "(fx_kind \<times> overlay_side) list"

definition host_init :: arena_host where
  "host_init = \<lparr>ah_runs = [], ah_trigger = None, ah_props = None, ah_fired = []\<rparr>"

definition on_run :: "nat \<Rightarrow> (arena_run \<Rightarrow> arena_run) \<Rightarrow> arena_host \<Rightarrow> arena_host" where
  "on_run i f h = (if i < length (ah_runs h) then h\<lparr>ah_runs := (ah_runs h)[i := f (ah_runs h ! i)]\<rparr> else h)"

text \<open>The mount effect: a fresh closure listens to the document and begins its set-up.\<close>

definition mount_arena :: "arena_props \<Rightarrow> arena_host \<Rightarrow> arena_host" where
  "mount_arena p h = h\<lparr>ah_runs := ah_runs h @
     [\<lparr>ar_color = (\<lambda>sd. if sd = FxPlayer then fst (ap_colors p) else snd (ap_colors p)), ar_destroyed = False, ar_app = False,
       ar_ticking = False, ar_observed = False, ar_listening = True, ar_view = None\<rparr>]\<rparr>"

definition unmount_run :: "arena_run \<Rightarrow> arena_run" where
  "unmount_run r = r\<lparr>ar_destroyed := True, ar_listening := False, ar_observed := False, ar_app := False, ar_ticking := False\<rparr>"

definition cleanup_arena :: "arena_host \<Rightarrow> arena_host" where
  "cleanup_arena h = on_run (length (ah_runs h) - 1) unmount_run (h\<lparr>ah_trigger := None\<rparr>)"

text \<open>\<open>await instance.init\<close> has returned.\<close>

definition init_returned :: "nat \<Rightarrow> arena_host \<Rightarrow> arena_host" where
  "init_returned i = on_run i (\<lambda>r. if ar_destroyed r then r else r\<lparr>ar_app := True, ar_ticking := True\<rparr>)"

text \<open>Both pictures are there.\<close>

definition pictures_loaded :: "nat \<Rightarrow> real \<Rightarrow> real \<Rightarrow> real \<Rightarrow> real \<Rightarrow> arena_host \<Rightarrow> arena_host" where
  "pictures_loaded i ph eh W H h =
     (if i < length (ah_runs h) \<and> \<not> ar_destroyed (ah_runs h ! i) \<and> ar_app (ah_runs h ! i)
      then (on_run i (\<lambda>r. r\<lparr>ar_view := Some (new_view (ar_color r) ph eh W H), ar_observed := True\<rparr>) h)\<lparr>ah_trigger := Some i\<rparr>
      else h)"

definition fire_effect :: "(nat \<Rightarrow> real) \<Rightarrow> overlay_effect option \<Rightarrow> arena_host \<Rightarrow> arena_host" where
  "fire_effect rnd eff h =
     (case (eff, ah_trigger h) of
        (Some e, Some i) \<Rightarrow>
          (on_run i (\<lambda>r. r\<lparr>ar_view := map_option (\<lambda>v. v\<lparr>av_scene := triggerEffect rnd (oe_kind e) (oe_side e) (av_scene v)\<rparr>) (ar_view r)\<rparr>) h)
            \<lparr>ah_fired := ah_fired h @ [(oe_kind e, oe_side e)]\<rparr>
      | _ \<Rightarrow> h)"

text \<open>A render commits its effects: the first when its dependencies changed, the second when the nonce did.\<close>

definition arena_deps :: "arena_props \<Rightarrow> (string \<times> string) \<times> nat \<times> nat" where
  "arena_deps p = (ap_srcs p, ap_colors p)"

definition render_arena :: "(nat \<Rightarrow> real) \<Rightarrow> arena_props \<Rightarrow> arena_host \<Rightarrow> arena_host" where
  "render_arena rnd p h =
     (let h1 = (case ah_props h of None \<Rightarrow> mount_arena p h
                | Some q \<Rightarrow> if arena_deps q = arena_deps p then h else mount_arena p (cleanup_arena h));
          h2 = h1\<lparr>ah_props := Some p\<rparr>
      in case ah_props h of
           None \<Rightarrow> fire_effect rnd (ap_effect p) h2
         | Some q \<Rightarrow> if map_option oe_nonce (ap_effect q) = map_option oe_nonce (ap_effect p) then h2 else fire_effect rnd (ap_effect p) h2)"

definition unmount_arena :: "arena_host \<Rightarrow> arena_host" where
  "unmount_arena h = (case ah_props h of None \<Rightarrow> h | Some p \<Rightarrow> (cleanup_arena h)\<lparr>ah_props := None\<rparr>)"

datatype host_event =
    RenderArena arena_props
  | InitReturned nat
  | PicturesLoaded nat real real real real
  | ResizeObserved nat real real
  | TickerFrame nat real real real
  | VisibilityChange bool
  | UnmountArena

text \<open>Observers, tickers and listeners only run while they are attached.\<close>

fun host_step :: "(nat \<Rightarrow> real) \<Rightarrow> arena_host \<Rightarrow> host_event \<Rightarrow> arena_host" where
  "host_step rnd h (RenderArena p) = render_arena rnd p h"
| "host_step rnd h (InitReturned i) = init_returned i h"
| "host_step rnd h (PicturesLoaded i ph eh W H) = pictures_loaded i ph eh W H h"
| "host_step rnd h (ResizeObserved i W H) =
     on_run i (\<lambda>r. if ar_observed r \<and> ar_app r then r\<lparr>ar_view := map_option (view_layout W H) (ar_view r)\<rparr> else r) h"
| "host_step rnd h (TickerFrame i dt dms t) =
     on_run i (\<lambda>r. if ar_ticking r then r\<lparr>ar_view := map_option (view_frame rnd dt dms t) (ar_view r)\<rparr> else r) h"
| "host_step rnd h (VisibilityChange hidden) =
     h\<lparr>ah_runs := map (\<lambda>r. if ar_listening r \<and> ar_app r then r\<lparr>ar_ticking := \<not> hidden\<rparr> else r) (ah_runs h)\<rparr>"
| "host_step rnd h UnmountArena = unmount_arena h"

subsection \<open>Nothing outlives its run\<close>

definition run_quiet :: "arena_run \<Rightarrow> bool" where
  "run_quiet r \<longleftrightarrow> ar_destroyed r \<and> \<not> ar_app r \<and> \<not> ar_ticking r \<and> \<not> ar_observed r \<and> \<not> ar_listening r"

text \<open>Only the last run can be alive, and only while the component is mounted; the trigger is its own.\<close>

definition host_ok :: "arena_host \<Rightarrow> bool" where
  "host_ok h \<longleftrightarrow>
     (\<forall>i < length (ah_runs h). Suc i \<noteq> length (ah_runs h) \<or> ah_props h = None \<longrightarrow> run_quiet (ah_runs h ! i)) \<and>
     (ah_props h \<noteq> None \<longrightarrow> ah_runs h \<noteq> [] \<and> \<not> ar_destroyed (last (ah_runs h))) \<and>
     (\<forall>i. ah_trigger h = Some i \<longrightarrow> ah_props h \<noteq> None \<and> Suc i = length (ah_runs h) \<and> ar_app (ah_runs h ! i) \<and> ar_view (ah_runs h ! i) \<noteq> None)"

lemma on_run_parts [simp]:
  "length (ah_runs (on_run i f h)) = length (ah_runs h)" "ah_props (on_run i f h) = ah_props h"
  "ah_trigger (on_run i f h) = ah_trigger h" "ah_fired (on_run i f h) = ah_fired h"
  "j < length (ah_runs h) \<Longrightarrow> ah_runs (on_run i f h) ! j = (if j = i then f (ah_runs h ! j) else ah_runs h ! j)"
  by (auto simp: on_run_def)

lemma last_run: "ah_runs h \<noteq> [] \<Longrightarrow> last (ah_runs h) = ah_runs h ! (length (ah_runs h) - 1)"
  by (rule last_conv_nth)

lemma host_okI:
  assumes "\<And>i. i < length (ah_runs h) \<Longrightarrow> Suc i \<noteq> length (ah_runs h) \<or> ah_props h = None \<Longrightarrow> run_quiet (ah_runs h ! i)"
    and "ah_props h \<noteq> None \<Longrightarrow> ah_runs h \<noteq> [] \<and> \<not> ar_destroyed (ah_runs h ! (length (ah_runs h) - 1))"
    and "\<And>i. ah_trigger h = Some i \<Longrightarrow> ah_props h \<noteq> None \<and> Suc i = length (ah_runs h) \<and> ar_app (ah_runs h ! i) \<and> ar_view (ah_runs h ! i) \<noteq> None"
  shows "host_ok h"
  using assms unfolding host_ok_def by (auto simp: last_run)

lemma host_okD:
  assumes "host_ok h"
  shows "i < length (ah_runs h) \<Longrightarrow> Suc i \<noteq> length (ah_runs h) \<or> ah_props h = None \<Longrightarrow> run_quiet (ah_runs h ! i)"
    and "ah_props h \<noteq> None \<Longrightarrow> ah_runs h \<noteq> [] \<and> \<not> ar_destroyed (ah_runs h ! (length (ah_runs h) - 1))"
    and "ah_trigger h = Some i \<Longrightarrow> ah_props h \<noteq> None \<and> Suc i = length (ah_runs h) \<and> ar_app (ah_runs h ! i) \<and> ar_view (ah_runs h ! i) \<noteq> None"
  using assms unfolding host_ok_def by (auto simp: last_run)

text \<open>A change of a run that respects its quietness, its destruction and its being ready keeps the invariant.\<close>

definition harmless :: "(arena_run \<Rightarrow> arena_run) \<Rightarrow> bool" where
  "harmless f \<longleftrightarrow> (\<forall>r. (run_quiet r \<longrightarrow> run_quiet (f r)) \<and> ar_destroyed (f r) = ar_destroyed r \<and>
     (ar_app r \<longrightarrow> ar_app (f r)) \<and> (ar_view r \<noteq> None \<longrightarrow> ar_view (f r) \<noteq> None))"

lemma on_run_ok:
  assumes "host_ok h" "harmless f" shows "host_ok (on_run i f h)"
proof -
  have f: "run_quiet r \<Longrightarrow> run_quiet (f r)" "ar_destroyed (f r) = ar_destroyed r" "ar_app r \<Longrightarrow> ar_app (f r)"
    "ar_view r \<noteq> None \<Longrightarrow> ar_view (f r) \<noteq> None" for r
    using assms(2) by (simp_all add: harmless_def)
  show ?thesis
  proof (rule host_okI)
    fix j assume "j < length (ah_runs (on_run i f h))" "Suc j \<noteq> length (ah_runs (on_run i f h)) \<or> ah_props (on_run i f h) = None"
    then have "j < length (ah_runs h)" "run_quiet (ah_runs h ! j)" using host_okD(1) [OF assms(1), of j] by simp_all
    with f(1) show "run_quiet (ah_runs (on_run i f h) ! j)" by (cases "j = i") simp_all
  next
    assume "ah_props (on_run i f h) \<noteq> None"
    then have "ah_runs h \<noteq> []" "\<not> ar_destroyed (ah_runs h ! (length (ah_runs h) - 1))" using host_okD(2) [OF assms(1)] by simp_all
    moreover from this(1) have "ar_destroyed (ah_runs (on_run i f h) ! (length (ah_runs h) - 1)) = ar_destroyed (ah_runs h ! (length (ah_runs h) - 1))"
      by (subst on_run_parts(5)) (simp_all add: f(2))
    moreover have "ah_runs (on_run i f h) \<noteq> []" using calculation(1) by (metis length_0_conv on_run_parts(1))
    ultimately show "ah_runs (on_run i f h) \<noteq> [] \<and> \<not> ar_destroyed (ah_runs (on_run i f h) ! (length (ah_runs (on_run i f h)) - 1))"
      by simp
  next
    fix j assume "ah_trigger (on_run i f h) = Some j"
    then have "ah_trigger h = Some j" by simp
    from host_okD(3) [OF assms(1) this] have "ah_props h \<noteq> None" "Suc j = length (ah_runs h)" "ar_app (ah_runs h ! j)" "ar_view (ah_runs h ! j) \<noteq> None"
      by blast+
    moreover from this(2) have "ah_runs (on_run i f h) ! j = (if j = i then f (ah_runs h ! j) else ah_runs h ! j)" by simp
    ultimately show "ah_props (on_run i f h) \<noteq> None \<and> Suc j = length (ah_runs (on_run i f h)) \<and> ar_app (ah_runs (on_run i f h) ! j) \<and>
        ar_view (ah_runs (on_run i f h) ! j) \<noteq> None"
      using f(3,4) [of "ah_runs h ! j"] by (cases "j = i") simp_all
  qed
qed

lemma fire_ok: "host_ok h \<Longrightarrow> host_ok (fire_effect rnd e h)"
proof -
  have fired: "host_ok (h\<lparr>ah_fired := x\<rparr>) = host_ok h" for h :: arena_host and x by (simp add: host_ok_def)
  assume "host_ok h"
  then show ?thesis
    by (auto simp: fire_effect_def fired harmless_def run_quiet_def intro!: on_run_ok split: option.split)
qed

lemma mount_ok:
  assumes "\<forall>r \<in> set (ah_runs h). run_quiet r" "ah_trigger h = None"
  shows "host_ok ((mount_arena p h)\<lparr>ah_props := Some q\<rparr>)"
  using assms by (auto simp: mount_arena_def nth_append less_Suc_eq intro!: host_okI)

lemma cleanup_quiet:
  assumes "host_ok h" shows "\<forall>r \<in> set (ah_runs (cleanup_arena h)). run_quiet r" "ah_trigger (cleanup_arena h) = None"
proof -
  have "run_quiet (ah_runs (cleanup_arena h) ! i)" if "i < length (ah_runs (cleanup_arena h))" for i
    using that host_okD(1) [OF assms, of i]
    by (cases "Suc i = length (ah_runs h)") (auto simp: cleanup_arena_def unmount_run_def run_quiet_def)
  then show "\<forall>r \<in> set (ah_runs (cleanup_arena h)). run_quiet r" by (metis in_set_conv_nth)
qed (simp add: cleanup_arena_def)

lemma host_props_kept: "ah_props (cleanup_arena h) = ah_props h" "ah_props (mount_arena p h) = ah_props h"
  by (simp_all add: cleanup_arena_def mount_arena_def)

lemma render_ok:
  assumes "host_ok h" shows "host_ok (render_arena rnd p h)"
proof (cases "ah_props h")
  case None
  with assms have "\<forall>r \<in> set (ah_runs h). run_quiet r" "ah_trigger h = None"
    using host_okD(1,3) [OF assms] by (force simp: in_set_conv_nth)+
  with None show ?thesis by (simp add: render_arena_def fire_ok mount_ok)
next
  case (Some q)
  have "host_ok (h\<lparr>ah_props := Some p\<rparr>)" using assms Some by (simp add: host_ok_def)
  with cleanup_quiet [OF assms] Some show ?thesis by (simp add: render_arena_def Let_def fire_ok mount_ok)
qed

lemma visibility_harmless: "harmless (\<lambda>r. if ar_listening r \<and> ar_app r then r\<lparr>ar_ticking := b\<rparr> else r)"
  by (simp add: harmless_def run_quiet_def)

lemma host_step_ok: "host_ok h \<Longrightarrow> host_ok (host_step rnd h e)"
proof (cases e)
  case (PicturesLoaded i ph eh W H)
  assume ok: "host_ok h"
  show ?thesis
  proof (cases "i < length (ah_runs h) \<and> \<not> ar_destroyed (ah_runs h ! i) \<and> ar_app (ah_runs h ! i)")
    case True
    have "\<not> (Suc i \<noteq> length (ah_runs h) \<or> ah_props h = None)"
    proof
      assume "Suc i \<noteq> length (ah_runs h) \<or> ah_props h = None"
      with True have "run_quiet (ah_runs h ! i)" by (intro host_okD(1) [OF ok]) simp_all
      with True show False by (simp add: run_quiet_def)
    qed
    then have last: "Suc i = length (ah_runs h)" "ah_props h \<noteq> None" by blast+
    let ?f = "\<lambda>r. r\<lparr>ar_view := Some (new_view (ar_color r) ph eh W H), ar_observed := True\<rparr>"
    have "host_ok ((on_run i ?f h)\<lparr>ah_trigger := Some i\<rparr>)"
    proof (rule host_okI)
      fix j assume "j < length (ah_runs ((on_run i ?f h)\<lparr>ah_trigger := Some i\<rparr>))"
        "Suc j \<noteq> length (ah_runs ((on_run i ?f h)\<lparr>ah_trigger := Some i\<rparr>)) \<or> ah_props ((on_run i ?f h)\<lparr>ah_trigger := Some i\<rparr>) = None"
      with last host_okD(1) [OF ok, of j] show "run_quiet (ah_runs ((on_run i ?f h)\<lparr>ah_trigger := Some i\<rparr>) ! j)" by auto
    next
      show "ah_runs ((on_run i ?f h)\<lparr>ah_trigger := Some i\<rparr>) \<noteq> [] \<and>
        \<not> ar_destroyed (ah_runs ((on_run i ?f h)\<lparr>ah_trigger := Some i\<rparr>) ! (length (ah_runs ((on_run i ?f h)\<lparr>ah_trigger := Some i\<rparr>)) - 1))"
        using True host_okD(2) [OF ok] last by (auto simp flip: length_0_conv)
    next
      fix j assume "ah_trigger ((on_run i ?f h)\<lparr>ah_trigger := Some i\<rparr>) = Some j"
      with True last show "ah_props ((on_run i ?f h)\<lparr>ah_trigger := Some i\<rparr>) \<noteq> None \<and>
        Suc j = length (ah_runs ((on_run i ?f h)\<lparr>ah_trigger := Some i\<rparr>)) \<and>
        ar_app (ah_runs ((on_run i ?f h)\<lparr>ah_trigger := Some i\<rparr>) ! j) \<and> ar_view (ah_runs ((on_run i ?f h)\<lparr>ah_trigger := Some i\<rparr>) ! j) \<noteq> None"
        by auto
    qed
    with True PicturesLoaded show ?thesis by (simp add: pictures_loaded_def)
  next
    case False
    with ok PicturesLoaded show ?thesis by (auto simp: pictures_loaded_def)
  qed
next
  case (VisibilityChange hidden)
  assume ok: "host_ok h"
  then show ?thesis unfolding VisibilityChange
    using visibility_harmless [of "\<not> hidden"] unfolding host_ok_def harmless_def by (auto simp: last_map)
next
  case UnmountArena
  assume ok: "host_ok h"
  show ?thesis
  proof (cases "ah_props h")
    case None
    with ok UnmountArena show ?thesis by (simp add: unmount_arena_def)
  next
    case (Some p)
    with cleanup_quiet [OF ok] UnmountArena show ?thesis by (auto simp: unmount_arena_def intro!: host_okI)
  qed
qed (auto simp: render_ok init_returned_def harmless_def run_quiet_def intro!: on_run_ok)

interpretation arena: machine host_init "host_step rnd" host_ok for rnd
proof
  show "host_ok host_init" by (simp add: host_ok_def host_init_def)
qed (rule host_step_ok)

text \<open>
  Claim C39: The WebGL arena leaves nothing behind.  In whatever order renders, late set-ups, pictures,
  resizes, frames and an unmount come, at most one run owns a Pixi application, a ticker, an
  observer or a listener, none does once the component is gone, and the trigger that effects go
  through belongs to the run on the screen, whose scene is built.
\<close>

theorem arena_leaves_nothing_behind:
  assumes "h = run (host_step rnd) host_init es"
  shows "(\<forall>i < length (ah_runs h). Suc i \<noteq> length (ah_runs h) \<or> ah_props h = None \<longrightarrow>
      \<not> ar_app (ah_runs h ! i) \<and> \<not> ar_ticking (ah_runs h ! i) \<and> \<not> ar_observed (ah_runs h ! i) \<and> \<not> ar_listening (ah_runs h ! i)) \<and>
    (\<forall>i. ah_trigger h = Some i \<longrightarrow> ah_props h \<noteq> None \<and> Suc i = length (ah_runs h) \<and> ar_app (ah_runs h ! i) \<and> ar_view (ah_runs h ! i) \<noteq> None)"
proof -
  have ok: "host_ok h" unfolding assms by (rule arena.always)
  show ?thesis using host_okD(1,3) [OF ok] by (auto simp: run_quiet_def)
qed

text \<open>The fighters' pictures change while the first set-up is still waiting for them, and the component goes before the second is done.\<close>

definition arena_example :: "host_event list" where
  "arena_example =
     [RenderArena \<lparr>ap_srcs = (''a'', ''b''), ap_colors = (1, 2), ap_effect = None\<rparr>, InitReturned 0,
      RenderArena \<lparr>ap_srcs = (''a'', ''c''), ap_colors = (1, 2), ap_effect = None\<rparr>, PicturesLoaded 0 400 400 800 600,
      UnmountArena, InitReturned 1, PicturesLoaded 1 400 400 800 600]"

lemma arena_leaves_nothing_behind_witness:
  "\<not> ar_app (ah_runs (run (host_step (\<lambda>_. 1 / 2)) host_init arena_example) ! 0) \<and>
   \<not> ar_app (ah_runs (run (host_step (\<lambda>_. 1 / 2)) host_init arena_example) ! 1)"
proof -
  let ?h = "run (host_step (\<lambda>_. 1 / 2)) host_init arena_example"
  have "length (ah_runs ?h) = 2 \<and> ah_props ?h = None"
    by (simp add: arena_example_def host_init_def render_arena_def mount_arena_def cleanup_arena_def unmount_arena_def
        pictures_loaded_def init_returned_def fire_effect_def arena_deps_def on_run_def unmount_run_def Let_def)
  with arena_leaves_nothing_behind [of ?h "\<lambda>_. 1 / 2" arena_example, OF refl] show ?thesis by simp
qed

subsection \<open>Particles\<close>

text \<open>Both emitters stay sound: the pool of the effects never holds a particle older than 80 frames, the embers' none older than 220.\<close>

definition view_ok :: "arena_view \<Rightarrow> bool" where
  "view_ok v \<longleftrightarrow> emitter_ok 80 (as_emitter (av_scene v)) \<and> emitter_ok 220 (av_ambient v)"

definition sparks_ok :: "arena_scene \<Rightarrow> bool" where
  "sparks_ok s \<longleftrightarrow> emitter_ok 80 (as_emitter s)"

lemma sparks_burst:
  assumes "\<And>k. sane_config 80 (fst (f k))" "sparks_ok s"
  shows "sparks_ok (fx_burst rnd n f s)"
  using burst_ok [OF _ draw_n_sane, of 80 "as_emitter s" f rnd n "as_draws s"] assms
  by (auto simp: sparks_ok_def fx_burst_def split: prod.split)

lemma sparks_parts:
  "sparks_ok s \<Longrightarrow> sparks_ok (set_param k v s)" "sparks_ok s \<Longrightarrow> sparks_ok (onShake r s)"
  "sparks_ok s \<Longrightarrow> sparks_ok (on_fighter sd g s)" "sparks_ok s \<Longrightarrow> sparks_ok (set_x sd x s)"
  "sparks_ok s \<Longrightarrow> sparks_ok (set_filters sd fl s)" "sparks_ok s \<Longrightarrow> sparks_ok (set_wave i h s)"
  "sparks_ok s \<Longrightarrow> sparks_ok (start_anim i D b s)" "sparks_ok s \<Longrightarrow> sparks_ok (s\<lparr>as_draws := n\<rparr>)"
  "sparks_ok s \<Longrightarrow> sparks_ok (s\<lparr>as_layer := l\<rparr>)" "sparks_ok s \<Longrightarrow> sparks_ok (s\<lparr>as_anims := an\<rparr>)"
  "sparks_ok s \<Longrightarrow> sparks_ok (s\<lparr>as_waves := w\<rparr>)" "sparks_ok s \<Longrightarrow> sparks_ok (s\<lparr>as_waves := w, as_layer := l\<rparr>)"
  by (simp_all add: sparks_ok_def set_x_def set_filters_def set_wave_def)

lemma sparks_if: "(c \<Longrightarrow> sparks_ok s) \<Longrightarrow> (\<not> c \<Longrightarrow> sparks_ok t) \<Longrightarrow> sparks_ok (if c then s else t)"
  by simp

lemma sparks_snd: "(c \<Longrightarrow> sparks_ok (snd x)) \<Longrightarrow> (\<not> c \<Longrightarrow> sparks_ok (snd y)) \<Longrightarrow> sparks_ok (snd (if c then x else y))"
  by simp

lemma factory_sane:
  assumes "\<forall>k. is_random (rnd k)"
  shows "sane_config 80 (fst (vortex_at rnd x y radius tint k))" "sane_config 80 (fst (burst_at rnd x y tint pwr k))"
    "sane_config 80 (fst (rising_at rnd x y tint spread k))" "sane_config 80 (fst (beam_motes rnd origin fullLen reach dir H tint k))"
  using factories_sane [OF assms] by (simp_all add: beam_motes_def)

lemmas sparks_intros = sparks_if sparks_snd sparks_parts sparks_burst

lemma sparks_update:
  assumes "\<forall>k. is_random (rnd k)" "sparks_ok s" shows "sparks_ok (snd (afx_update rnd i p b s))"
  by (cases b; simp only: afx_update.simps Let_def snd_conv; intro sparks_intros factory_sane assms; simp only: snd_conv;
      intro sparks_intros factory_sane assms)

lemma sparks_done:
  assumes "\<forall>k. is_random (rnd k)" "sparks_ok s" shows "sparks_ok (afx_done rnd i b s)"
  by (cases b; simp only: afx_done.simps; intro sparks_intros factory_sane assms)

lemma sparks_tick:
  assumes "\<forall>k. is_random (rnd k)" "sparks_ok s" shows "sparks_ok (snd (tick_afx rnd dms as s))"
  using assms(2)
proof (induction as arbitrary: s)
  case (Cons a as)
  let ?u = "afx_update rnd (afx_id a) (min 1 ((afx_elapsed a + dms) / afx_duration a)) (afx_body a) s"
  obtain b s1 where u: "?u = (b, s1)" by fastforce
  have s1: "sparks_ok s1" using sparks_update [OF assms(1) Cons.prems, of "afx_id a"] u by (metis snd_conv)
  obtain as' s2 where t: "tick_afx rnd dms as s1 = (as', s2)" by (cases "tick_afx rnd dms as s1")
  show ?case unfolding tick_afx.simps Let_def u prod.case t
    using Cons.IH [OF s1] Cons.IH [OF sparks_done [OF assms(1) s1]] by (simp add: t)
qed simp

lemma sparks_frame:
  assumes "\<forall>k. is_random (rnd k)" "sparks_ok s" shows "sparks_ok (arena_frame rnd dms s)"
  using sparks_tick [OF assms, of dms "as_anims s"] by (auto simp: arena_frame_def intro: sparks_parts split: prod.split)

lemma sparks_trigger:
  assumes "\<forall>k. is_random (rnd k)" "sparks_ok s" shows "sparks_ok (triggerEffect rnd k sd s)"
proof -
  have "sparks_ok (s\<lparr>as_waves := w\<rparr>)" for w using assms(2) by (rule sparks_parts)
  then show ?thesis
    by (cases k; simp only: triggerEffect.simps fx_defs Let_def split_beta; intro sparks_intros factory_sane assms)
qed

lemma view_frame_ok:
  assumes "\<forall>k. is_random (rnd k)" "view_ok v" "0 \<le> dt" shows "view_ok (view_frame rnd dt dms t v)"
proof -
  have ember: "sane_config 220 (ember W H r1 r2 r3)" for W H r1 r2 r3 by (simp add: sane_config_def ember_def)
  let ?s = "bob (av_ground v) t (av_scene v)"
  have "sparks_ok (?s\<lparr>as_emitter := update dt (as_emitter ?s)\<rparr>)"
    using assms(2,3) by (simp add: view_ok_def sparks_ok_def bob_def update_ok)
  then have "sparks_ok (av_scene (drift_ember rnd dt (v\<lparr>av_scene := ?s\<lparr>as_emitter := update dt (as_emitter ?s)\<rparr>\<rparr>)))"
    by (simp add: drift_ember_def Let_def sparks_parts)
  moreover have "emitter_ok 220 (av_ambient (drift_ember rnd dt (v\<lparr>av_scene := ?s\<lparr>as_emitter := update dt (as_emitter ?s)\<rparr>\<rparr>)))"
    using assms(2) by (simp add: drift_ember_def Let_def view_ok_def spawn_ok ember)
  ultimately show ?thesis
    using sparks_frame [OF assms(1)] assms(3) by (simp add: view_frame_def Let_def view_ok_def sparks_ok_def update_ok)
qed

text \<open>Effects started and frames drawn on the live scene, in any order.\<close>

datatype view_event = VEffect fx_kind overlay_side | VFrame real real real | VLayout real real

fun view_step :: "(nat \<Rightarrow> real) \<Rightarrow> arena_view \<Rightarrow> view_event \<Rightarrow> arena_view" where
  "view_step rnd v (VEffect k sd) = v\<lparr>av_scene := triggerEffect rnd k sd (av_scene v)\<rparr>"
| "view_step rnd v (VFrame dt dms t) = view_frame rnd dt dms t v"
| "view_step rnd v (VLayout W H) = view_layout W H v"

fun view_enabled :: "arena_view \<Rightarrow> view_event \<Rightarrow> bool" where
  "view_enabled v (VFrame dt dms t) = (0 \<le> dt)"
| "view_enabled v e = True"

interpretation view: guarded_machine "new_view color ph eh W H" view_enabled "view_step rnd"
  "\<lambda>v. (\<forall>k. is_random (rnd k)) \<longrightarrow> view_ok v" for color ph eh W H rnd
proof
  show "(\<forall>k. is_random (rnd k)) \<longrightarrow> view_ok (new_view color ph eh W H)"
    by (simp add: view_ok_def new_view_def new_arena_def arena_layout_def Let_def emitter_ok_init)
next
  fix v e
  assume "(\<forall>k. is_random (rnd k)) \<longrightarrow> view_ok v" "view_enabled v e"
  then show "(\<forall>k. is_random (rnd k)) \<longrightarrow> view_ok (view_step rnd v e)"
    using sparks_trigger [of rnd "av_scene v"]
    by (cases e) (auto simp: view_frame_ok, auto simp: view_ok_def sparks_ok_def view_layout_def arena_layout_def Let_def)
qed

lemma arena_particles_sound:
  assumes "\<forall>k. is_random (rnd k)" "legal view_enabled (view_step rnd) (new_view color ph eh W H) es"
    and "v = run (view_step rnd) (new_view color ph eh W H) es"
  shows "emitter_ok 80 (as_emitter (av_scene v)) \<and> emitter_ok 220 (av_ambient v)"
  using view.inv_run [OF assms(2)] assms(1,3) by (simp add: view_ok_def)

text \<open>
  A resize moves the fighters, but an attack that is under way ends by putting its target back where
  it stood before the resize.
\<close>

lemma resize_during_attack:
  assumes "as_anims s = []"
  shows "fs_x (fighter_of (foe sd) (arena_frame rnd 600 (arena_layout W H (triggerEffect rnd FxAttack sd s)))) = fs_x (fighter_of (foe sd) s)"
proof -
  have "as_anims (triggerEffect rnd FxAttack sd s) = [\<lparr>afx_id = as_next s, afx_duration = 600, afx_elapsed = 0,
      afx_body = AttackFx sd (fs_x (fighter_of (foe sd) s))\<rparr>]"
    using assms by (simp add: fxAttack_def Let_def split: prod.split)
  then have "as_anims (arena_layout W H (triggerEffect rnd FxAttack sd s)) = [\<lparr>afx_id = as_next s, afx_duration = 600, afx_elapsed = 0,
      afx_body = AttackFx sd (fs_x (fighter_of (foe sd) s))\<rparr>]"
    by (simp add: arena_layout_def Let_def)
  then show ?thesis by (simp add: arena_frame_def Let_def set_x_def)
qed

text \<open>An effect that is asked for before the pictures are there is not shown, and not remembered: only a later nonce brings another.\<close>

lemma early_effect_lost:
  assumes "ap_effect p = Some e" "h = run (host_step rnd) host_init [RenderArena p, InitReturned 0, PicturesLoaded 0 ph eh W H, RenderArena p]"
  shows "ah_fired h = [] \<and> ah_trigger h = Some 0"
  using assms by (simp add: host_init_def render_arena_def mount_arena_def fire_effect_def init_returned_def pictures_loaded_def on_run_def Let_def)

end
