(* ===== verification/Widgets.thy ===== *)
theory Widgets
  imports Ad_Timing Timers Assets Mobile_Board Analytics
begin

text \<open>
  The small components that screens are made of: the interstitial advertisement with its delayed button
  (\<open>web/src/components/ads/InterstitialAd.tsx\<close>, driven by the hook of \<open>Ad_Timing\<close>), the banner
  (\<open>AdBanner.tsx\<close>), portraits, avatars and the choice of a fighter on both clients, the mute buttons, the
  thinking dots and trash talk of the AI, the registration of the service worker and the component that
  reports page views.
\<close>

subsection \<open>The interstitial advertisement\<close>

text \<open>
  The component's timers only set \<open>canDismiss\<close>: a callback is the value it sets.  \<open>it_held\<close> are the timers the
  clean-up of the running effect will clear.
\<close>

record interstitial =
  it_ads :: ad_timing
  it_canDismiss :: bool
  it_timers :: "bool timers"
  it_held :: "nat list"

definition interstitial_init :: interstitial where
  "interstitial_init = \<lparr>it_ads = ad_init, it_canDismiss = False, it_timers = no_timers, it_held = []\<rparr>"

definition show_effect :: "interstitial \<Rightarrow> interstitial" where
  "show_effect s =
     (if showInterstitial (it_ads s) then
        (let (resetTimer, t1) = set_timeout False 0 (it_timers s); (allowTimer, t2) = set_timeout True 2000 t1
         in s\<lparr>it_timers := t2, it_held := [resetTimer, allowTimer]\<rparr>)
      else s)"

definition show_cleanup :: "interstitial \<Rightarrow> interstitial" where
  "show_cleanup s = s\<lparr>it_timers := clear_all (it_held s) (it_timers s), it_held := []\<rparr>"

definition with_ads :: "ad_event \<Rightarrow> interstitial \<Rightarrow> interstitial" where
  "with_ads e s =
     (let s1 = s\<lparr>it_ads := ad_step (it_ads s) e\<rparr>
      in if showInterstitial (it_ads s1) = showInterstitial (it_ads s) then s1 else show_effect (show_cleanup s1))"

text \<open>The button works when it is shown and enabled.\<close>

definition can_continue :: "interstitial \<Rightarrow> bool" where
  "can_continue s \<longleftrightarrow> showInterstitial (it_ads s) \<and> it_canDismiss s"

definition button_label :: "interstitial \<Rightarrow> string" where
  "button_label s = (if it_canDismiss s then ''Continue'' else ''Loading...'')"

definition wait_ms :: "nat \<Rightarrow> interstitial \<Rightarrow> interstitial" where
  "wait_ms ms s = (let (t, b) = elapse (\<lambda>c _. c) ms (it_timers s, it_canDismiss s) in s\<lparr>it_timers := t, it_canDismiss := b\<rparr>)"

datatype interstitial_event = ItMatchEnd | ItChecked "js_thrown + bool" | ItWait nat | ItContinue

fun interstitial_step :: "interstitial \<Rightarrow> interstitial_event \<Rightarrow> interstitial" where
  "interstitial_step s ItMatchEnd = with_ads AdMatchEnd s"
| "interstitial_step s (ItChecked out) = with_ads (AdChecked out) s"
| "interstitial_step s (ItWait ms) = wait_ms ms s"
| "interstitial_step s ItContinue = (if can_continue s then with_ads AdDismiss s else s)"

text \<open>
  Which timers are set: none while the advertisement is hidden; while it is shown, the one that allows
  to go on, after the one that disables the button as long as no time has passed.
\<close>

definition interstitial_ok :: "interstitial \<Rightarrow> bool" where
  "interstitial_ok s \<longleftrightarrow>
     (if showInterstitial (it_ads s)
      then (\<exists>i j d. it_held s = [i, j] \<and> i \<noteq> j \<and> (
              pending (it_timers s) = [(i, d, False), (j, d + 2000, True)] \<and> clock (it_timers s) = d \<or>
              pending (it_timers s) = [(j, d + 2000, True)] \<and> d \<le> clock (it_timers s) \<and> clock (it_timers s) < d + 2000 \<and> \<not> it_canDismiss s \<or>
              pending (it_timers s) = [] \<and> it_canDismiss s))
      else it_held s = [] \<and> pending (it_timers s) = [])"

lemma cleared: "interstitial_ok s \<Longrightarrow> pending (it_timers (show_cleanup s)) = [] \<and> it_held (show_cleanup s) = []"
  by (auto simp: interstitial_ok_def show_cleanup_def clear_all_pending split: if_splits)

lemma effect_ok:
  assumes "pending (it_timers s) = []" "it_held s = []" shows "interstitial_ok (show_effect s)"
  using assms by (auto simp: show_effect_def interstitial_ok_def set_timeout_def)

lemma with_ads_ok: "interstitial_ok s \<Longrightarrow> interstitial_ok (with_ads e s)"
proof -
  assume ok: "interstitial_ok s"
  have "pending (it_timers (show_cleanup (s\<lparr>it_ads := a\<rparr>))) = []" "it_held (show_cleanup (s\<lparr>it_ads := a\<rparr>)) = []" for a
    using cleared [OF ok] by (simp_all add: show_cleanup_def)
  then have "interstitial_ok (show_effect (show_cleanup (s\<lparr>it_ads := a\<rparr>)))" for a by (rule effect_ok)
  moreover have "showInterstitial a = showInterstitial (it_ads s) \<Longrightarrow> interstitial_ok (s\<lparr>it_ads := a\<rparr>)" for a
    using ok by (auto simp: interstitial_ok_def split: if_splits)
  ultimately show ?thesis by (simp add: with_ads_def Let_def)
qed

lemma wait_ok: "interstitial_ok s \<Longrightarrow> interstitial_ok (wait_ms ms s)"
  by (auto simp: interstitial_ok_def wait_ms_def elapse_def Let_def split: if_splits)

interpretation interstitial: machine interstitial_init interstitial_step interstitial_ok
proof
  show "interstitial_ok interstitial_init" by (simp add: interstitial_ok_def interstitial_init_def no_timers_def ad_init_def)
next
  fix s e
  assume "interstitial_ok s"
  then show "interstitial_ok (interstitial_step s e)" by (cases e) (simp_all add: with_ads_ok wait_ok)
qed

lemma wait_parts [simp]: "it_ads (wait_ms ms s) = it_ads s" "it_held (wait_ms ms s) = it_held s"
  by (simp_all add: wait_ms_def Let_def split: prod.split)

lemma wait_wait: "wait_ms m (wait_ms n s) = wait_ms (n + m) s"
  using elapse_elapse [of "\<lambda>c _. c" m n "(it_timers s, it_canDismiss s)"]
  by (auto simp: wait_ms_def Let_def split: prod.splits)

lemma waits: "run interstitial_step (wait_ms n s) (map ItWait ms) = wait_ms (n + sum_list ms) s"
  by (induction ms arbitrary: n) (simp_all add: wait_wait add.assoc)

text \<open>
  Claim C37: An interstitial advertisement holds the player for two seconds, and no longer.  It appears
  after every second match of a player who sees advertisements.  When it is first drawn its button is as the
  advertisement before left it; from the timer of zero milliseconds on, which is the first thing to happen
  as time passes, and however it passes, the button is disabled until 2000 ms have gone by since the
  advertisement appeared, and works from then on.
\<close>

theorem interstitial_holds_two_seconds:
  assumes "s = run interstitial_step interstitial_init es" and "\<not> showInterstitial (it_ads s)"
    and "showInterstitial (it_ads (interstitial_step s ItMatchEnd))"
  shows "can_continue (interstitial_step s ItMatchEnd) = it_canDismiss s \<and>
    (can_continue (run interstitial_step (interstitial_step s ItMatchEnd) (map ItWait (m # ms))) \<longleftrightarrow> 2000 \<le> m + sum_list ms)"
proof -
  let ?a = "interstitial_step s ItMatchEnd"
  have ok: "interstitial_ok s" unfolding assms(1) by (rule interstitial.always)
  have "?a = show_effect (show_cleanup (s\<lparr>it_ads := ad_step (it_ads s) AdMatchEnd\<rparr>))"
    using assms(2,3) by (simp add: with_ads_def Let_def split: if_splits)
  moreover have "pending (it_timers (show_cleanup (s\<lparr>it_ads := a\<rparr>))) = []" for a
    using cleared [OF ok] by (simp add: show_cleanup_def)
  ultimately obtain i j d where "pending (it_timers ?a) = [(i, d, False), (j, d + 2000, True)]" "clock (it_timers ?a) = d"
    using assms(3) by (auto simp: show_effect_def set_timeout_def Let_def split: if_splits)
  then have "it_canDismiss (wait_ms n ?a) \<longleftrightarrow> 2000 \<le> n" for n
    by (simp add: wait_ms_def elapse_def Let_def)
  moreover have "it_canDismiss ?a = it_canDismiss s"
    using assms(2,3) by (simp add: with_ads_def show_effect_def show_cleanup_def Let_def set_timeout_def)
  ultimately show ?thesis using assms(3) by (simp add: waits can_continue_def del: interstitial_step.simps(1))
qed

lemma interstitial_holds_two_seconds_witness:
  "can_continue (run interstitial_step (interstitial_step (run interstitial_step interstitial_init [ItMatchEnd]) ItMatchEnd) (map ItWait [1500, 500]))"
proof -
  let ?s = "run interstitial_step interstitial_init [ItMatchEnd]"
  have "\<not> showInterstitial (it_ads ?s)" "showInterstitial (it_ads (interstitial_step ?s ItMatchEnd))"
    by (simp_all add: interstitial_init_def ad_init_def with_ads_def onMatchEnd_def show_effect_def Let_def show_cleanup_def set_timeout_def)
  from interstitial_holds_two_seconds [OF refl this, of 1500 "[500]"] show ?thesis by simp
qed

text \<open>
  From the second advertisement on, the button is enabled when the overlay is first drawn, left over from
  the one before, until the timer of zero milliseconds runs.
\<close>

lemma second_interstitial_starts_enabled:
  "can_continue (run interstitial_step interstitial_init
     [ItMatchEnd, ItMatchEnd, ItWait 2000, ItContinue, ItMatchEnd, ItMatchEnd])"
  by code_simp

subsection \<open>The banner\<close>

text \<open>
  \<open>initialized\<close> is a ref, so that a repeated run of the effect (as in development) requests nothing; whether
  the advertisement script is there is what the effect finds.
\<close>

record ad_banner =
  ab_initialized :: bool
  ab_pushes :: nat

definition banner_effect :: "bool \<Rightarrow> ad_banner \<Rightarrow> ad_banner" where
  "banner_effect script_loaded b =
     (if ab_initialized b then b
      else b\<lparr>ab_initialized := True, ab_pushes := (if script_loaded then ab_pushes b + 1 else ab_pushes b)\<rparr>)"

text \<open>With an ad client the element of the slot, else a placeholder.\<close>

definition AdBanner :: "string option \<Rightarrow> string \<Rightarrow> string option \<Rightarrow> (string \<times> string \<times> string) option" where
  "AdBanner adClient adSlot adFormat = (if truthy adClient then Some (the adClient, adSlot, nullish adFormat ''auto'') else None)"

lemma banner_requests:
  "ab_pushes (fold banner_effect (loaded # ls) \<lparr>ab_initialized = False, ab_pushes = 0\<rparr>) = (if loaded then 1 else 0)"
proof -
  have "ab_initialized b \<Longrightarrow> fold banner_effect ls b = b" for b by (induction ls) (simp_all add: banner_effect_def)
  then show ?thesis by (simp add: banner_effect_def)
qed

subsection \<open>Portraits and avatars\<close>

datatype portrait = NoPortrait | PortraitImage string nat string | PortraitEmoji string nat real string

definition PORTRAIT_PX :: "string \<Rightarrow> nat" where
  "PORTRAIT_PX sz = (if sz = ''sm'' then 48 else if sz = ''lg'' then 144 else 96)"

definition KNOWN_IDS :: "character_id list" where
  "KNOWN_IDS = [Haneul, Bora, Taeyang, Danbi, Seokjin, Yuri]"

definition known_id :: "string \<Rightarrow> character_id option" where
  "known_id i = find (\<lambda>k. character_id_str k = i) KNOWN_IDS"

text \<open>The web's portrait: \<open>imageBroken\<close> is set by the image's error and never reset.\<close>

definition CharacterPortrait :: "string \<Rightarrow> character_expression option \<Rightarrow> string \<Rightarrow> bool \<Rightarrow> portrait" where
  "CharacterPortrait i expression sz imageBroken =
     (case getCharacter i of
        None \<Rightarrow> NoPortrait
      | Some c \<Rightarrow>
          (case known_id i of
             Some k \<Rightarrow> if \<not> imageBroken then PortraitImage (characterAsset k expression) (PORTRAIT_PX sz) (ch_name c)
                       else PortraitEmoji (ch_emoji c) (PORTRAIT_PX sz) (real (PORTRAIT_PX sz) * (6 / 10)) (ch_name c)
           | None \<Rightarrow> PortraitEmoji (ch_emoji c) (PORTRAIT_PX sz) (real (PORTRAIT_PX sz) * (6 / 10)) (ch_name c)))"

datatype portrait_event = PortraitRender string | PortraitError

fun portrait_step :: "string \<times> bool \<Rightarrow> portrait_event \<Rightarrow> string \<times> bool" where
  "portrait_step (i, broken) (PortraitRender j) = (j, broken)"
| "portrait_step (i, broken) PortraitError =
     (i, if (case CharacterPortrait i None ''md'' broken of PortraitImage src px alt \<Rightarrow> True | _ \<Rightarrow> False) then True else broken)"

text \<open>The phone's portrait: a bundled image, or the emoji.\<close>

definition M_CharacterPortrait :: "string \<Rightarrow> character_expression option \<Rightarrow> string \<Rightarrow> nat + portrait" where
  "M_CharacterPortrait i expression sz =
     (case M_getCharacter i of
        None \<Rightarrow> Inr NoPortrait
      | Some c \<Rightarrow>
          (case (case known_id i of Some k \<Rightarrow> M_characterAsset k expression | None \<Rightarrow> None) of
             Some asset \<Rightarrow> Inl asset
           | None \<Rightarrow> Inr (PortraitEmoji (ch_emoji c) (PORTRAIT_PX sz) (real (PORTRAIT_PX sz) * (6 / 10)) (ch_name c))))"

text \<open>No image is bundled with the phone's app: it always shows the emoji.\<close>

lemma phone_portrait_is_emoji:
  "M_CharacterPortrait i e sz = Inr (case M_getCharacter i of None \<Rightarrow> NoPortrait
     | Some c \<Rightarrow> PortraitEmoji (ch_emoji c) (PORTRAIT_PX sz) (real (PORTRAIT_PX sz) * (6 / 10)) (ch_name c))"
  by (simp add: M_CharacterPortrait_def M_characterAsset_def CHARACTER_MANIFEST_def split: option.split)

text \<open>At most one failure leads from an image to the emoji, and a fighter the component does not know never gets an image.\<close>

lemma portrait_falls_back:
  "(case CharacterPortrait i e sz True of PortraitImage src px alt \<Rightarrow> False | _ \<Rightarrow> True)"
  "known_id i = None \<Longrightarrow> CharacterPortrait i e sz b = CharacterPortrait i e sz True"
  by (simp_all add: CharacterPortrait_def split: option.split)

text \<open>A portrait whose image failed shows no image of another fighter either, until it is mounted anew.\<close>

lemma broken_portrait_stays_broken:
  "portrait_step (portrait_step (''haneul'', False) PortraitError) (PortraitRender ''bora'') = (''bora'', True)"
  "CharacterPortrait ''bora'' None ''md'' True \<noteq> CharacterPortrait ''bora'' None ''md'' False"
  by (simp_all add: CharacterPortrait_def getCharacter_def CHARACTERS_def known_id_def KNOWN_IDS_def)

definition AVATAR_PX :: "string \<Rightarrow> nat" where
  "AVATAR_PX sz = (if sz = ''sm'' then 48 else if sz = ''lg'' then 128 else 80)"

text \<open>An avatar: the emoji, its size, the box, the halo's colours and the label.\<close>

record avatar_view =
  av_emoji :: string
  av_px :: nat
  av_emojiSize :: real
  av_halo :: "string list"
  av_label :: "string option"

definition CharacterAvatar :: "string \<Rightarrow> string \<Rightarrow> bool \<Rightarrow> avatar_view option" where
  "CharacterAvatar i sz showLabel = map_option (\<lambda>c.
     \<lparr>av_emoji = ch_emoji c, av_px = AVATAR_PX sz, av_emojiSize = real (AVATAR_PX sz) * (65 / 100),
      av_halo = [ch_color c @ ''cc'', ch_color c @ ''55'', ch_color c @ ''88'', ch_color c @ ''66''],
      av_label = (if showLabel then Some (ch_name c) else None)\<rparr>) (getCharacter i)"

lemma avatar_fits: "CharacterAvatar i sz l = Some v \<Longrightarrow> 0 < av_emojiSize v \<and> av_emojiSize v < real (av_px v)"
  by (auto simp: CharacterAvatar_def AVATAR_PX_def split: if_splits)

subsection \<open>Choosing a fighter\<close>

record fighter_card =
  fc_name :: string
  fc_koreanName :: string
  fc_bio :: string
  fc_edge :: string
  fc_select :: string

definition CharacterSelect :: "fighter_card list" where
  "CharacterSelect = map (\<lambda>c. \<lparr>fc_name = ch_name c, fc_koreanName = ch_koreanName c, fc_bio = ch_bio c, fc_edge = ch_color c @ ''22'', fc_select = ch_id c\<rparr>) CHARACTERS"

definition M_CharacterSelect :: "fighter_card list" where
  "M_CharacterSelect = map (\<lambda>c. \<lparr>fc_name = ch_name c, fc_koreanName = ch_koreanName c, fc_bio = ch_bio c, fc_edge = ch_color c @ ''40'', fc_select = ch_id c\<rparr>) M_CHARACTERS"

text \<open>Both clients offer the same fighters in the same order, each once; the layout the comments call two by three holds nine.\<close>

lemma same_fighters_offered:
  "map fc_select CharacterSelect = map fc_select M_CharacterSelect" "distinct (map fc_select CharacterSelect)" "length CharacterSelect = 9"
  by (simp_all add: CharacterSelect_def M_CharacterSelect_def CHARACTERS_def M_CHARACTERS_def)

subsection \<open>Small indicators\<close>

definition MuteButton :: "bool \<Rightarrow> string \<times> string" where
  "MuteButton muted = (if muted then (''Unmute sounds'', ''Unmute'') else (''Mute sounds'', ''Mute''))"

definition M_MuteButton :: "bool \<Rightarrow> string \<times> string" where
  "M_MuteButton muted = (if muted then (''Unmute sounds'', utf8 [240, 159, 148, 135]) else (''Mute sounds'', utf8 [240, 159, 148, 138]))"

text \<open>The web picks a remark of the AI's fighter by the turn, and keeps it within the turn.\<close>

definition AITrashTalk :: "character \<Rightarrow> int \<Rightarrow> string" where
  "AITrashTalk c turnNumber = ch_trashTalk c ! nat (turnNumber mod int (length (ch_trashTalk c)))"

lemma talk_in_range: "list_all (\<lambda>c. ch_trashTalk c \<noteq> [] \<and> distinct (ch_trashTalk c)) CHARACTERS"
  by (simp add: CHARACTERS_def)

lemma remark_of_fighter:
  assumes "c \<in> set CHARACTERS" shows "AITrashTalk c n \<in> set (ch_trashTalk c)"
proof -
  have "ch_trashTalk c \<noteq> []" using talk_in_range assms by (simp add: list_all_iff)
  then show ?thesis by (simp add: AITrashTalk_def nat_less_iff)
qed

text \<open>
  A dot of the phone's waiting indicator: a loop of a delay, a rise and a fall of 400 ms each; time is
  counted in whole milliseconds from the start and a rise or fall is given by its progress.
\<close>

datatype dot_state = DotWaiting | DotRising nat | DotFalling nat

definition createPulse :: "nat \<Rightarrow> nat \<Rightarrow> dot_state" where
  "createPulse delay t =
     (let u = t mod (delay + 800)
      in if u < delay then DotWaiting else if u < delay + 400 then DotRising (u - delay) else DotFalling (u - delay - 400))"

definition M_AIThinking :: "nat \<Rightarrow> dot_state list" where
  "M_AIThinking t = map (\<lambda>delay. createPulse delay t) [0, 200, 400]"

text \<open>
  The delays are part of the loops, so the dots have different periods and do not stay staggered: two
  seconds after the start the first and the third peak together.
\<close>

lemma dots_drift: "M_AIThinking 400 = [DotFalling 0, DotRising 200, DotRising 0]" "M_AIThinking 2000 = [DotFalling 0, DotWaiting, DotFalling 0]"
  by (simp_all add: M_AIThinking_def createPulse_def Let_def)

text \<open>The web's dots: delays in milliseconds before one common period.\<close>

definition AIThinking :: "nat list" where
  "AIThinking = map (\<lambda>i. i * 200) [0, 1, 2]"

subsection \<open>The service worker\<close>

text \<open>The page's \<open>load\<close> event comes once, before or after the component is mounted.\<close>

record worker_reg =
  wr_listening :: bool
  wr_registered :: nat

datatype worker_event = WorkerMount | WorkerUnmount | PageLoad

fun worker_step :: "bool \<Rightarrow> bool \<Rightarrow> worker_reg \<Rightarrow> worker_event \<Rightarrow> worker_reg" where
  "worker_step supported production s WorkerMount = (if \<not> supported \<or> \<not> production then s else s\<lparr>wr_listening := True\<rparr>)"
| "worker_step supported production s WorkerUnmount = s\<lparr>wr_listening := False\<rparr>"
| "worker_step supported production s PageLoad = (if wr_listening s then s\<lparr>wr_registered := wr_registered s + 1\<rparr> else s)"

definition worker_init :: worker_reg where
  "worker_init = \<lparr>wr_listening = False, wr_registered = 0\<rparr>"

text \<open>The worker is registered when the page loads after the mount, and never when it has loaded before.\<close>

lemma worker_registered:
  "wr_registered (run (worker_step True True) worker_init [WorkerMount, PageLoad]) = 1"
  "wr_registered (run (worker_step True True) worker_init [PageLoad, WorkerMount]) = 0"
  "wr_registered (run (worker_step supported False) worker_init [WorkerMount, PageLoad]) = 0"
  by (simp_all add: worker_init_def)

subsection \<open>Analytics of every page\<close>

text \<open>
  The component that reports page views: on its mount it first reports a return on another day, and on
  its mount and whenever the address changes the page, and on the start page its campaign.
\<close>

definition page_view_properties :: "browser \<Rightarrow> js_obj" where
  "page_view_properties b =
     (let search = params_to_string (params_of_search (br_search b))
      in [(''pathname'', Some (JStr (br_pathname b))), (''search'', Some (if search = [] then JNull else JStr search))])"

definition landing_properties :: "browser \<Rightarrow> js_obj" where
  "landing_properties b =
     (let ps = params_of_search (br_search b); got = (\<lambda>k. (k, Some (jnullable (params_get ps k))))
      in map got [''ref'', ''promo'', ''utm_source'', ''utm_medium'', ''utm_campaign'', ''utm_content''])"

definition address_effect :: "browser \<Rightarrow> local_storage \<Rightarrow> local_storage \<times> analytics_request list" where
  "address_effect b st =
     (let (st1, r1) = trackEvent b ''page_view'' (page_view_properties b) st
      in if br_pathname b = ''/'' then (let (st2, r2) = trackEvent b ''landing_view'' (landing_properties b) st1 in (st2, r1 @ r2))
         else (st1, r1))"

record bootstrap =
  bs_address :: "(string \<times> string) option"
  bs_store :: local_storage
  bs_sent :: "analytics_request list"

definition bootstrap_render :: "browser \<Rightarrow> bootstrap \<Rightarrow> bootstrap" where
  "bootstrap_render b s =
     (let (st1, r1) = (if bs_address s = None then trackDailyReturn b (bs_store s) else (bs_store s, []));
          (st2, r2) = (if bs_address s = Some (br_pathname b, br_search b) then (st1, []) else address_effect b st1)
      in \<lparr>bs_address = Some (br_pathname b, br_search b), bs_store = st2, bs_sent = bs_sent s @ r1 @ r2\<rparr>)"

text \<open>A render at the same address reports nothing more.\<close>

lemma same_address_silent:
  "br_pathname b' = br_pathname b \<Longrightarrow> br_search b' = br_search b \<Longrightarrow>
   bs_sent (bootstrap_render b' (bootstrap_render b s)) = bs_sent (bootstrap_render b s)"
  by (simp add: bootstrap_render_def Let_def split: prod.split)

text \<open>A mounted page has a session: the one that was stored, or a fresh one, under which everything is sent.\<close>

lemma track_store: "fst (trackEvent b e p st) = snd (getSessionId b st)"
  by (simp add: trackEvent_def Let_def split: prod.split)

definition session_after :: "browser \<Rightarrow> local_storage \<Rightarrow> string option" where
  "session_after b st = Some (if truthy (st_get st SESSION_KEY) then the (st_get st SESSION_KEY) else br_fresh_id b)"

lemma session_stored:
  assumes "br_fresh_id b \<noteq> []" shows "st_get (snd (getSessionId b st)) SESSION_KEY = session_after b st"
    and "session_after b (snd (getSessionId b st)) = session_after b st"
    and "session_after b (st_put LAST_VISIT_KEY d st) = session_after b st"
proof -
  show g: "st_get (snd (getSessionId b st)) SESSION_KEY = session_after b st"
    by (auto simp: getSessionId_def session_after_def Let_def truthy_def ls.get_put split: option.splits if_splits)
  have "\<exists>x. session_after b st = Some x \<and> x \<noteq> []" using assms by (auto simp: session_after_def truthy_def split: option.splits)
  with g show "session_after b (snd (getSessionId b st)) = session_after b st" by (auto simp: session_after_def [of b "snd (getSessionId b st)"])
  show "session_after b (st_put LAST_VISIT_KEY d st) = session_after b st"
    by (simp add: session_after_def SESSION_KEY_def LAST_VISIT_KEY_def ls.get_put)
qed

lemma mounted_page_has_session:
  assumes "br_fresh_id b \<noteq> []" "bs_address s = None"
  shows "st_get (bs_store (bootstrap_render b s)) SESSION_KEY = session_after b (bs_store s)"
proof -
  have d: "session_after b (fst (trackDailyReturn b st)) = session_after b st" for st
    using session_stored [OF assms(1)] by (simp add: trackDailyReturn_def Let_def track_store split: prod.split)
      (metis fst_conv track_store)
  have a: "st_get (fst (address_effect b st)) SESSION_KEY = session_after b st" for st
    using session_stored [OF assms(1)] by (simp add: address_effect_def Let_def split: prod.split) (metis fst_conv track_store)
  show ?thesis using assms(2) a d by (simp add: bootstrap_render_def Let_def split: prod.split) (metis fst_conv)
qed

end
