(* ===== verification/Pixel_Art.thy ===== *)
theory Pixel_Art
  imports Reveal
begin

text \<open>
  The first presentation of the fight, pixel figures made of CSS shadows, which the repository keeps
  under \<open>deprecated\<close> and still shows on the page of animation styles: the hook
  \<open>web/src/hooks/deprecated/usePixelAnimation.ts\<close> and its copy \<open>useAnimationState.ts\<close> of the test page, the
  frames and their rendering (\<open>web/src/lib/deprecated\<close>), and the figures, effects and arena of
  \<open>web/src/components/deprecated/pixel-art\<close>, with the phone's portrait.
\<close>

subsection \<open>The animation hooks\<close>

text \<open>The two hooks are written for different types of actions but with the same state; times are in milliseconds.\<close>

record 'a clip =
  cl_action :: "'a option"
  cl_phase :: action_phase
  cl_timeoutRefs :: "nat list"

definition clip_init :: "'a clip" where
  "clip_init = \<lparr>cl_action = None, cl_phase = PhIdle, cl_timeoutRefs = []\<rparr>"

definition clip_isAnimating :: "'a clip \<Rightarrow> bool" where
  "clip_isAnimating s \<longleftrightarrow> cl_phase s \<noteq> PhIdle"

fun clip_exec :: "anim_callback \<Rightarrow> 'a clip \<Rightarrow> 'a clip" where
  "clip_exec SetImpact s = s\<lparr>cl_phase := PhImpact\<rparr>"
| "clip_exec SetRecover s = s\<lparr>cl_phase := PhRecover\<rparr>"
| "clip_exec SetIdle s = s\<lparr>cl_phase := PhIdle, cl_action := None\<rparr>"

definition pixel_triggerAction :: "anim_options \<Rightarrow> 'a \<Rightarrow> anim_callback timers \<times> 'a clip \<Rightarrow> anim_callback timers \<times> 'a clip" where
  "pixel_triggerAction opts newAction ts =
     (let t0 = clear_all (cl_timeoutRefs (snd ts)) (fst ts);
          s = (snd ts)\<lparr>cl_timeoutRefs := [], cl_action := Some newAction, cl_phase := PhWindup\<rparr>;
          (i1, t1) = set_timeout SetImpact (windupMs opts) t0;
          (i2, t2) = set_timeout SetRecover (windupMs opts + impactMs opts) t1;
          (i3, t3) = set_timeout SetIdle (windupMs opts + impactMs opts + recoverMs opts) t2
      in (t3, s\<lparr>cl_timeoutRefs := [i1, i2, i3]\<rparr>))"

definition test_triggerAction :: "'a \<Rightarrow> anim_callback timers \<times> 'a clip \<Rightarrow> anim_callback timers \<times> 'a clip" where
  "test_triggerAction newAction ts =
     (let t0 = clear_all (cl_timeoutRefs (snd ts)) (fst ts);
          s = (snd ts)\<lparr>cl_timeoutRefs := [], cl_action := Some newAction, cl_phase := PhWindup\<rparr>;
          (i1, t1) = set_timeout SetImpact 200 t0;
          (i2, t2) = set_timeout SetRecover 500 t1;
          (i3, t3) = set_timeout SetIdle 800 t2
      in (t3, s\<lparr>cl_timeoutRefs := [i1, i2, i3]\<rparr>))"

datatype 'a clip_event = ClipTrigger 'a | ClipWait nat

fun pixel_step :: "anim_options \<Rightarrow> anim_callback timers \<times> 'a clip \<Rightarrow> 'a clip_event \<Rightarrow> anim_callback timers \<times> 'a clip" where
  "pixel_step opts ts (ClipTrigger a) = pixel_triggerAction opts a ts"
| "pixel_step opts ts (ClipWait ms) = elapse clip_exec ms ts"

fun test_step :: "anim_callback timers \<times> 'a clip \<Rightarrow> 'a clip_event \<Rightarrow> anim_callback timers \<times> 'a clip" where
  "test_step ts (ClipTrigger a) = test_triggerAction a ts"
| "test_step ts (ClipWait ms) = elapse clip_exec ms ts"

definition test_options :: anim_options where
  "test_options = \<lparr>windupMs = 200, impactMs = 300, recoverMs = 300\<rparr>"

lemma test_is_pixel: "test_step = pixel_step test_options"
proof (intro ext)
  fix ts :: "anim_callback timers \<times> 'a clip" and e :: "'a clip_event"
  show "test_step ts e = pixel_step test_options ts e"
    by (cases e) (simp_all add: test_triggerAction_def pixel_triggerAction_def test_options_def)
qed

text \<open>A clip read as the state of the hook that replaced it.\<close>

definition as_anim :: "('a \<Rightarrow> action_kind) \<Rightarrow> 'a clip \<Rightarrow> anim" where
  "as_anim f s = \<lparr>an_action = map_option f (cl_action s), an_phase = cl_phase s, timeoutRefs = cl_timeoutRefs s\<rparr>"

fun as_event :: "('a \<Rightarrow> action_kind) \<Rightarrow> 'a clip_event \<Rightarrow> anim_event" where
  "as_event f (ClipTrigger a) = Trigger (f a)"
| "as_event f (ClipWait ms) = Wait ms"

lemma as_anim_init: "as_anim f clip_init = anim_init"
  by (simp add: as_anim_def clip_init_def anim_init_def)

lemma as_anim_exec: "as_anim f (clip_exec c s) = anim_exec c (as_anim f s)"
  by (cases c) (simp_all add: as_anim_def)

lemma as_anim_fold:
  "as_anim f (fold (\<lambda>x. clip_exec (snd (snd x))) xs s) = fold (\<lambda>x. anim_exec (snd (snd x))) xs (as_anim f s)"
  by (induction xs arbitrary: s) (simp_all add: as_anim_exec)

lemma as_anim_step:
  "anim_step opts (fst ts, as_anim f (snd ts)) (as_event f e) = (fst (pixel_step opts ts e), as_anim f (snd (pixel_step opts ts e)))"
  by (cases e) (simp_all add: pixel_triggerAction_def triggerAction_def elapse_def Let_def as_anim_fold split: prod.split, simp_all add: as_anim_def)

lemma as_anim_run:
  "run (anim_step opts) (fst ts, as_anim f (snd ts)) (map (as_event f) es) =
   (fst (run (pixel_step opts) ts es), as_anim f (snd (run (pixel_step opts) ts es)))"
  by (induction es arbitrary: ts) (simp_all add: as_anim_step)

text \<open>
  The hook that replaced \<open>usePixelAnimation\<close> is the same state machine, as its comment says, and so is
  the copy of the test page with 200, 300 and 300 milliseconds.  Whatever names the actions get, the same
  triggers and waits bring all three to the same phase, action and pending timers.
\<close>

theorem animation_hooks_agree:
  "run (anim_step opts) (no_timers, anim_init) (map (as_event f) es) =
     (fst (run (pixel_step opts) (no_timers, clip_init) es), as_anim f (snd (run (pixel_step opts) (no_timers, clip_init) es))) \<and>
   run test_step (no_timers, clip_init) es = run (pixel_step test_options) (no_timers, clip_init) es"
  using as_anim_run [of opts "(no_timers, clip_init)" f es] by (simp add: test_is_pixel as_anim_init)

subsection \<open>Frames\<close>

text \<open>A frame is a grid of colours; \<open>None\<close> is transparent.  The palette's short names are those of the source's imports.\<close>

type_synonym pixel_frame = "string option list list"

definition HANEUL_COLOR :: string where "HANEUL_COLOR = ''#60A5FA''"
definition BORA_COLOR :: string where "BORA_COLOR = ''#C084FC''"
definition TAEYANG_COLOR :: string where "TAEYANG_COLOR = ''#FACC15''"
definition DANBI_COLOR :: string where "DANBI_COLOR = ''#22D3EE''"
definition SEOKJIN_COLOR :: string where "SEOKJIN_COLOR = ''#FB923C''"
definition YURI_COLOR :: string where "YURI_COLOR = ''#F472B6''"

abbreviation "xx \<equiv> None :: string option"
abbreviation "bb \<equiv> Some ''#1a1a2e''"
abbreviation "ss \<equiv> Some ''#e2e8f0''"
abbreviation "ee \<equiv> Some ''#0f172a''"
abbreviation "ww \<equiv> Some ''#ffffff''"
abbreviation "hh \<equiv> Some HANEUL_COLOR"
abbreviation "pp \<equiv> Some BORA_COLOR"
abbreviation "yy \<equiv> Some TAEYANG_COLOR"
abbreviation "cc \<equiv> Some DANBI_COLOR"
abbreviation "oo \<equiv> Some SEOKJIN_COLOR"
abbreviation "kk \<equiv> Some YURI_COLOR"

definition haneul_idle :: pixel_frame where
  "haneul_idle =
    [[xx, xx, xx, xx, hh, hh, hh, hh, xx, xx, xx, xx],
     [xx, xx, xx, hh, hh, hh, hh, hh, hh, xx, xx, xx],
     [xx, xx, xx, hh, ss, ss, ss, ss, hh, xx, xx, xx],
     [xx, xx, xx, ss, ss, ee, ss, ee, ss, xx, xx, xx],
     [xx, xx, xx, ss, ss, ss, ss, ss, ss, xx, xx, xx],
     [xx, xx, xx, xx, ss, ss, ss, ss, xx, xx, xx, xx],
     [xx, xx, xx, xx, xx, hh, hh, xx, xx, xx, xx, xx],
     [xx, xx, hh, hh, hh, hh, hh, hh, hh, hh, xx, xx],
     [xx, xx, hh, hh, hh, hh, hh, hh, hh, hh, xx, xx],
     [xx, hh, hh, xx, hh, hh, hh, hh, xx, hh, hh, xx],
     [xx, hh, hh, xx, hh, hh, hh, hh, xx, hh, hh, xx],
     [xx, xx, xx, xx, hh, hh, hh, hh, xx, xx, xx, xx],
     [xx, xx, xx, xx, bb, bb, bb, bb, xx, xx, xx, xx],
     [xx, xx, xx, bb, bb, xx, xx, bb, bb, xx, xx, xx],
     [xx, xx, xx, bb, bb, xx, xx, bb, bb, xx, xx, xx],
     [xx, xx, bb, bb, xx, xx, xx, xx, bb, bb, xx, xx]]"

definition bora_idle :: pixel_frame where
  "bora_idle =
    [[xx, xx, xx, xx, pp, pp, pp, pp, xx, xx, xx, xx],
     [xx, xx, xx, pp, pp, pp, pp, pp, pp, xx, xx, xx],
     [xx, xx, xx, pp, ss, ss, ss, ss, pp, xx, xx, xx],
     [xx, xx, xx, ss, ss, ee, ss, ee, ss, xx, xx, xx],
     [xx, xx, xx, ss, ss, ss, ss, ss, ss, xx, xx, xx],
     [xx, xx, xx, xx, ss, ss, ss, ss, xx, xx, xx, xx],
     [xx, xx, xx, xx, xx, pp, pp, xx, xx, xx, xx, xx],
     [xx, xx, pp, pp, pp, pp, pp, pp, pp, pp, xx, xx],
     [xx, xx, pp, pp, pp, pp, pp, pp, pp, pp, xx, xx],
     [xx, pp, pp, xx, pp, pp, pp, pp, xx, pp, pp, xx],
     [xx, pp, pp, xx, pp, pp, pp, pp, xx, pp, pp, xx],
     [xx, xx, xx, xx, pp, pp, pp, pp, xx, xx, xx, xx],
     [xx, xx, xx, xx, bb, bb, bb, bb, xx, xx, xx, xx],
     [xx, xx, xx, bb, bb, xx, xx, bb, bb, xx, xx, xx],
     [xx, xx, xx, bb, bb, xx, xx, bb, bb, xx, xx, xx],
     [xx, xx, bb, bb, xx, xx, xx, xx, bb, bb, xx, xx]]"

definition taeyang_idle :: pixel_frame where
  "taeyang_idle =
    [[xx, xx, xx, yy, xx, yy, yy, xx, yy, xx, xx, xx],
     [xx, xx, xx, yy, yy, yy, yy, yy, yy, xx, xx, xx],
     [xx, xx, xx, yy, ss, ss, ss, ss, yy, xx, xx, xx],
     [xx, xx, xx, ss, ss, ee, ss, ee, ss, xx, xx, xx],
     [xx, xx, xx, ss, ss, ss, ss, ss, ss, xx, xx, xx],
     [xx, xx, xx, xx, ss, ss, ss, ss, xx, xx, xx, xx],
     [xx, xx, xx, xx, xx, yy, yy, xx, xx, xx, xx, xx],
     [xx, xx, yy, yy, yy, yy, yy, yy, yy, yy, xx, xx],
     [xx, xx, yy, yy, yy, yy, yy, yy, yy, yy, xx, xx],
     [xx, yy, yy, xx, yy, yy, yy, yy, xx, yy, yy, xx],
     [xx, yy, yy, xx, yy, yy, yy, yy, xx, yy, yy, xx],
     [xx, xx, xx, xx, yy, yy, yy, yy, xx, xx, xx, xx],
     [xx, xx, xx, xx, bb, bb, bb, bb, xx, xx, xx, xx],
     [xx, xx, xx, bb, bb, xx, xx, bb, bb, xx, xx, xx],
     [xx, xx, xx, bb, bb, xx, xx, bb, bb, xx, xx, xx],
     [xx, xx, bb, bb, xx, xx, xx, xx, bb, bb, xx, xx]]"

definition danbi_idle :: pixel_frame where
  "danbi_idle =
    [[xx, xx, xx, xx, cc, cc, cc, cc, xx, xx, xx, xx],
     [xx, xx, xx, cc, cc, cc, cc, cc, cc, xx, xx, xx],
     [xx, xx, cc, cc, ss, ss, ss, ss, cc, cc, xx, xx],
     [xx, xx, cc, ss, ss, ee, ss, ee, ss, cc, xx, xx],
     [xx, xx, xx, ss, ss, ss, ss, ss, ss, xx, xx, xx],
     [xx, xx, xx, xx, ss, ss, ss, ss, xx, xx, xx, xx],
     [xx, xx, xx, xx, xx, cc, cc, xx, xx, xx, xx, xx],
     [xx, xx, cc, cc, cc, cc, cc, cc, cc, cc, xx, xx],
     [xx, xx, cc, cc, cc, cc, cc, cc, cc, cc, xx, xx],
     [xx, cc, cc, xx, cc, cc, cc, cc, xx, cc, cc, xx],
     [xx, cc, cc, xx, cc, cc, cc, cc, xx, cc, cc, xx],
     [xx, xx, xx, xx, cc, cc, cc, cc, xx, xx, xx, xx],
     [xx, xx, xx, xx, bb, bb, bb, bb, xx, xx, xx, xx],
     [xx, xx, xx, bb, bb, xx, xx, bb, bb, xx, xx, xx],
     [xx, xx, xx, bb, bb, xx, xx, bb, bb, xx, xx, xx],
     [xx, xx, bb, bb, xx, xx, xx, xx, bb, bb, xx, xx]]"

definition seokjin_idle :: pixel_frame where
  "seokjin_idle =
    [[xx, xx, xx, xx, oo, oo, oo, oo, xx, xx, xx, xx],
     [xx, xx, xx, oo, oo, oo, oo, oo, oo, xx, xx, xx],
     [xx, xx, xx, oo, ss, ss, ss, ss, oo, xx, xx, xx],
     [xx, xx, xx, ss, ss, ee, ss, ee, ss, xx, xx, xx],
     [xx, xx, xx, ss, ss, ss, ss, ss, ss, xx, xx, xx],
     [xx, xx, xx, xx, ss, ss, ss, ss, xx, xx, xx, xx],
     [xx, xx, xx, xx, xx, oo, oo, xx, xx, xx, xx, xx],
     [xx, oo, oo, oo, oo, oo, oo, oo, oo, oo, oo, xx],
     [xx, oo, oo, oo, oo, oo, oo, oo, oo, oo, oo, xx],
     [oo, oo, oo, xx, oo, oo, oo, oo, xx, oo, oo, oo],
     [oo, oo, oo, xx, oo, oo, oo, oo, xx, oo, oo, oo],
     [xx, xx, xx, xx, oo, oo, oo, oo, xx, xx, xx, xx],
     [xx, xx, xx, xx, bb, bb, bb, bb, xx, xx, xx, xx],
     [xx, xx, xx, bb, bb, xx, xx, bb, bb, xx, xx, xx],
     [xx, xx, xx, bb, bb, xx, xx, bb, bb, xx, xx, xx],
     [xx, xx, bb, bb, xx, xx, xx, xx, bb, bb, xx, xx]]"

definition yuri_idle :: pixel_frame where
  "yuri_idle =
    [[xx, xx, xx, xx, xx, kk, kk, xx, xx, xx, xx, xx],
     [xx, xx, xx, xx, kk, kk, kk, kk, xx, xx, xx, xx],
     [xx, xx, xx, kk, kk, kk, kk, kk, kk, xx, xx, xx],
     [xx, xx, xx, kk, ss, ss, ss, ss, kk, xx, xx, xx],
     [xx, xx, xx, ss, ss, ee, ss, ee, ss, xx, xx, xx],
     [xx, xx, xx, ss, ss, ss, ss, ss, ss, xx, xx, xx],
     [xx, xx, xx, xx, ss, ss, ss, ss, xx, xx, xx, xx],
     [xx, xx, xx, xx, xx, kk, kk, xx, xx, xx, xx, xx],
     [xx, xx, kk, kk, kk, kk, kk, kk, kk, kk, xx, xx],
     [xx, xx, kk, kk, ww, kk, kk, ww, kk, kk, xx, xx],
     [xx, kk, kk, xx, kk, kk, kk, kk, xx, kk, kk, xx],
     [xx, kk, kk, xx, kk, kk, kk, kk, xx, kk, kk, xx],
     [xx, xx, xx, xx, kk, kk, kk, kk, xx, xx, xx, xx],
     [xx, xx, xx, xx, bb, bb, bb, bb, xx, xx, xx, xx],
     [xx, xx, xx, bb, bb, xx, xx, bb, bb, xx, xx, xx],
     [xx, xx, bb, bb, xx, xx, xx, xx, bb, bb, xx, xx]]"


record frame_set =
  fr_id :: string
  fr_idle :: pixel_frame
  fr_actions :: "string \<rightharpoonup> pixel_frame"

definition idle_only :: "string \<Rightarrow> pixel_frame \<Rightarrow> frame_set" where
  "idle_only i idle = \<lparr>fr_id = i, fr_idle = idle, fr_actions = Map.empty\<rparr>"

definition FRAME_REGISTRY :: "(string \<times> frame_set) list" where
  "FRAME_REGISTRY =
     [(''haneul'', idle_only ''haneul'' haneul_idle), (''bora'', idle_only ''bora'' bora_idle),
      (''taeyang'', idle_only ''taeyang'' taeyang_idle), (''danbi'', idle_only ''danbi'' danbi_idle),
      (''seokjin'', idle_only ''seokjin'' seokjin_idle), (''yuri'', idle_only ''yuri'' yuri_idle)]"

definition getCharacterFrames :: "string \<Rightarrow> frame_set option" where
  "getCharacterFrames i = map_of FRAME_REGISTRY i"

definition getRegisteredCharacterIds :: "string list" where
  "getRegisteredCharacterIds = map fst FRAME_REGISTRY"

text \<open>
  \<open>getFrame\<close> looks for the action among the names of the frame set, where \<open>id\<close> is one too: its text is then
  handed out as a frame.  The left values are such texts.
\<close>

definition getFrame :: "string \<Rightarrow> string option \<Rightarrow> (string + pixel_frame) option" where
  "getFrame i action =
     (case map_of FRAME_REGISTRY i of
        None \<Rightarrow> None
      | Some frames \<Rightarrow>
          if truthy action then
            (if the action = ''id'' then Some (Inl (fr_id frames))
             else if the action = ''idle'' then Some (Inr (fr_idle frames))
             else Some (Inr (nullish (fr_actions frames (the action)) (fr_idle frames))))
          else Some (Inr (fr_idle frames)))"

lemma getFrame_of_id: "getFrame ''haneul'' (Some ''id'') = Some (Inl ''haneul'')"
  by (simp add: getFrame_def FRAME_REGISTRY_def idle_only_def)

subsection \<open>Rendering\<close>

definition DEFAULT_PX :: nat where "DEFAULT_PX = 3"

definition shadow_of :: "nat \<Rightarrow> nat \<Rightarrow> nat \<Rightarrow> string \<Rightarrow> string" where
  "shadow_of px x y color = show_nat (x * px) @ ''px '' @ show_nat (y * px) @ ''px 0 '' @ color"

fun join_with :: "string \<Rightarrow> string list \<Rightarrow> string" where
  "join_with sep [] = []"
| "join_with sep [s] = s"
| "join_with sep (s # t # ts) = s @ sep @ join_with sep (t # ts)"

text \<open>The two nested loops visit the cells row by row and keep those with a colour.\<close>

definition colored_cells :: "pixel_frame \<Rightarrow> (nat \<times> nat \<times> string) list" where
  "colored_cells grid = concat (map (\<lambda>(y, row). concat (map (\<lambda>(x, color). if truthy color then [(x, y, the color)] else [])
     (enumerate 0 row))) (enumerate 0 grid))"

definition frameToBoxShadow :: "pixel_frame \<Rightarrow> nat \<Rightarrow> string" where
  "frameToBoxShadow grid px = join_with '', '' (map (\<lambda>(x, y, color). shadow_of px x y color) (colored_cells grid))"

definition frameDimensions :: "pixel_frame \<Rightarrow> nat \<times> nat" where
  "frameDimensions grid = ((if length grid > 0 then length (grid ! 0) else 0), length grid)"

text \<open>A portrait: the phone places one view per cell, the web one element with all shadows.\<close>

definition SIZE_PX :: "string \<Rightarrow> nat option" where
  "SIZE_PX = map_of [(''sm'', 2), (''md'', 3), (''lg'', 4)]"

definition portrait_px :: "string \<Rightarrow> nat" where
  "portrait_px s = nullish (SIZE_PX s) 3"

definition frame_of :: "string \<Rightarrow> pixel_frame option" where
  "frame_of i = (case getFrame i None of Some (Inr f) \<Rightarrow> Some f | _ \<Rightarrow> None)"

definition PixelPortrait :: "string \<Rightarrow> string \<Rightarrow> ((nat \<times> nat) \<times> string) option" where
  "PixelPortrait i s = map_option (\<lambda>f. let (w, h) = frameDimensions f; px = portrait_px s in ((w * px, h * px), frameToBoxShadow f px)) (frame_of i)"

definition M_PixelPortrait :: "string \<Rightarrow> string \<Rightarrow> ((nat \<times> nat) \<times> (nat \<times> nat \<times> string) list) option" where
  "M_PixelPortrait i s = map_option (\<lambda>f. let px = portrait_px s; w = (case f of [] \<Rightarrow> 12 | r # _ \<Rightarrow> length r)
     in ((w * px, length f * px), map (\<lambda>(x, y, color). (x * px, y * px, color)) (colored_cells f))) (frame_of i)"

text \<open>How the browser reads a list of shadows \<open>Xpx Ypx 0 color\<close>: split at the commas, then at the blanks.\<close>

definition digit :: "char \<Rightarrow> bool" where
  "digit c \<longleftrightarrow> 48 \<le> (of_char c :: nat) \<and> (of_char c :: nat) \<le> 57"

definition read_nat :: "string \<Rightarrow> nat" where
  "read_nat s = fold (\<lambda>c n. 10 * n + (of_char c - 48)) (takeWhile digit s) 0"

fun split_at :: "char \<Rightarrow> string \<Rightarrow> string list" where
  "split_at d [] = [[]]"
| "split_at d (c # cs) = (if c = d then [] # split_at d cs else (case split_at d cs of [] \<Rightarrow> [[c]] | x # xs \<Rightarrow> (c # x) # xs))"

definition read_shadow :: "string \<Rightarrow> nat \<times> nat \<times> string" where
  "read_shadow s = (case filter (\<lambda>w. w \<noteq> []) (split_at CHR '' '' s) of
     [x, y, _, color] \<Rightarrow> (read_nat x, read_nat y, color) | _ \<Rightarrow> (0, 0, []))"

definition read_shadows :: "string \<Rightarrow> (nat \<times> nat \<times> string) list" where
  "read_shadows s = (if s = [] then [] else map read_shadow (split_at CHR '','' s))"

lemma split_at_append: "d \<notin> set x \<Longrightarrow> split_at d (x @ d # rest) = x # split_at d rest"
  by (induction x) auto

lemma split_at_single: "d \<notin> set x \<Longrightarrow> split_at d x = [x]"
  by (induction x) auto

lemma show_nat_digits: "\<forall>c \<in> set (show_nat n). digit c"
  by (induction n rule: show_nat.induct) (subst show_nat.simps, auto simp: digit_def of_char_of)

lemma fold_digits: "fold (\<lambda>c n. 10 * n + (of_char c - 48)) (show_nat n) (0 :: nat) = n"
proof (induction n rule: show_nat.induct)
  case (1 n)
  then show ?case by (subst show_nat.simps) (auto simp: of_char_of)
qed

lemma read_show_nat: "\<not> digit c \<Longrightarrow> read_nat (show_nat n @ c # rest) = n"
proof -
  assume c: "\<not> digit c"
  have "takeWhile digit (show_nat n @ c # rest) = show_nat n"
    using show_nat_digits [of n] c by (simp add: takeWhile_append2)
  then show ?thesis by (simp add: read_nat_def fold_digits)
qed

lemma digit_not: "digit c \<Longrightarrow> c \<noteq> CHR '' '' \<and> c \<noteq> CHR '',''"
  by (auto simp: digit_def)

lemma show_nat_clean: "CHR '' '' \<notin> set (show_nat n)" "CHR '','' \<notin> set (show_nat n)" "show_nat n \<noteq> []"
proof -
  show "CHR '' '' \<notin> set (show_nat n)" "CHR '','' \<notin> set (show_nat n)" using show_nat_digits [of n] digit_not by blast+
  show "show_nat n \<noteq> []" by (subst show_nat.simps) simp
qed

definition plain_color :: "string \<Rightarrow> bool" where
  "plain_color c \<longleftrightarrow> c \<noteq> [] \<and> CHR '' '' \<notin> set c \<and> CHR '','' \<notin> set c"

definition plain_frame :: "pixel_frame \<Rightarrow> bool" where
  "plain_frame grid \<longleftrightarrow> (\<forall>row \<in> set grid. \<forall>color \<in> set row. case color of None \<Rightarrow> True | Some c \<Rightarrow> plain_color c)"

lemma read_shadow_of:
  assumes "plain_color color"
  shows "read_shadow (shadow_of px x y color) = (x * px, y * px, color)" "read_shadow (CHR '' '' # shadow_of px x y color) = (x * px, y * px, color)"
proof -
  have px: "\<not> digit CHR ''p''" by (simp add: digit_def)
  have s: "shadow_of px x y color = (show_nat (x * px) @ ''px'') @ CHR '' '' # (show_nat (y * px) @ ''px'') @ CHR '' '' # ''0'' @ CHR '' '' # color"
    by (simp add: shadow_of_def)
  have c: "CHR '' '' \<notin> set (show_nat n @ ''px'')" for n using show_nat_clean(1) [of n] by auto
  have "CHR '' '' \<notin> set color" "CHR '' '' \<notin> set ''0''" "color \<noteq> []" using assms by (auto simp: plain_color_def)
  note split = split_at_append [OF c] split_at_append [OF this(2)] split_at_single [OF this(1)] this
  have "read_nat (show_nat n @ ''px'') = n" for n using read_show_nat [OF px, of n "''x''"] by simp
  then show "read_shadow (shadow_of px x y color) = (x * px, y * px, color)" "read_shadow (CHR '' '' # shadow_of px x y color) = (x * px, y * px, color)"
    unfolding read_shadow_def s by (simp_all only: split_at.simps split append_Cons append_Nil) (simp_all add: split)
qed

lemma shadow_no_comma: "plain_color color \<Longrightarrow> CHR '','' \<notin> set (shadow_of px x y color)"
  using show_nat_clean(2) by (auto simp: shadow_of_def plain_color_def)

lemma split_joined:
  "xs \<noteq> [] \<Longrightarrow> \<forall>x \<in> set xs. CHR '','' \<notin> set x \<Longrightarrow> split_at CHR '','' (join_with '', '' xs) = hd xs # map (Cons CHR '' '') (tl xs)"
proof (induction xs)
  case (Cons s ss)
  show ?case
  proof (cases ss)
    case Nil
    with Cons.prems show ?thesis by (simp add: split_at_single)
  next
    case (Cons t ts)
    then have "split_at CHR '','' (join_with '', '' ss) = t # map (Cons CHR '' '') ts" using Cons.IH Cons.prems by simp
    with Cons Cons.prems show ?thesis by (simp add: split_at_append)
  qed
qed simp

lemma enumerated: "(i, v) \<in> set (enumerate n vs) \<Longrightarrow> v \<in> set vs"
  using imageI [of "(i, v)" "set (enumerate n vs)" snd] by (simp flip: set_map)

lemma in_cells: "(x, y, c) \<in> set (colored_cells grid) \<Longrightarrow> \<exists>row. (y, row) \<in> set (enumerate 0 grid) \<and> (x, Some c) \<in> set (enumerate 0 row)"
  by (fastforce simp: colored_cells_def truthy_def split: if_splits option.splits)

lemma colored_plain:
  assumes "plain_frame grid" "(x, y, c) \<in> set (colored_cells grid)" shows "plain_color c"
proof -
  obtain row where "row \<in> set grid" "Some c \<in> set row" using in_cells [OF assms(2)] enumerated by metis
  with assms(1) show ?thesis unfolding plain_frame_def by fastforce
qed

lemma read_shadows_of:
  assumes "\<forall>(x, y, c) \<in> set cells. plain_color c"
  shows "read_shadows (join_with '', '' (map (\<lambda>(x, y, c). shadow_of px x y c) cells)) = map (\<lambda>(x, y, c). (x * px, y * px, c)) cells"
proof (cases cells)
  case Nil
  then show ?thesis by (simp add: read_shadows_def)
next
  case (Cons p ps)
  let ?sh = "\<lambda>(x, y, c). shadow_of px x y c"
  have nc: "\<forall>s \<in> set (map ?sh cells). CHR '','' \<notin> set s" using assms shadow_no_comma by fastforce
  have "join_with '', '' (map ?sh cells) \<noteq> []"
    using Cons by (cases p; cases ps) (auto simp: shadow_of_def)
  moreover have "split_at CHR '','' (join_with '', '' (map ?sh cells)) = ?sh p # map (Cons CHR '' '') (map ?sh ps)"
    using split_joined [OF _ nc] Cons by simp
  moreover have "read_shadow (?sh p) = (\<lambda>(x, y, c). (x * px, y * px, c)) p" using assms Cons by (auto simp: read_shadow_of)
  moreover have "map (\<lambda>q. read_shadow (CHR '' '' # ?sh q)) ps = map (\<lambda>(x, y, c). (x * px, y * px, c)) ps"
    using assms Cons by (auto simp: read_shadow_of)
  ultimately show ?thesis using Cons by (simp add: read_shadows_def comp_def)
qed

lemmas frame_defs = haneul_idle_def bora_idle_def taeyang_idle_def danbi_idle_def seokjin_idle_def yuri_idle_def

lemma registry_frames:
  "list_all (\<lambda>(i, f). fr_id f = i \<and> plain_frame (fr_idle f) \<and> length (fr_idle f) = 16 \<and> list_all (\<lambda>row. length row = 12) (fr_idle f)) FRAME_REGISTRY"
  by code_simp

lemma frame_of_registry:
  "frame_of i = map_option fr_idle (map_of FRAME_REGISTRY i)"
  by (simp add: frame_of_def getFrame_def split: option.split)

lemma frame_of_ok:
  assumes "frame_of i = Some f"
  shows "plain_frame f" "length f = 16" "\<forall>row \<in> set f. length row = 12"
proof -
  obtain fs where "map_of FRAME_REGISTRY i = Some fs" "f = fr_idle fs" using assms by (auto simp: frame_of_registry)
  from map_of_SomeD [OF this(1)] this(2) registry_frames
  show "plain_frame f" "length f = 16" "\<forall>row \<in> set f. length row = 12" by (auto simp: list_all_iff)
qed

text \<open>
  The phone's portrait paints what the web's does.  The browser's reading of the one string of
  box shadows that the web builds is, shadow for shadow, the list of views the phone places: the same
  places in pixels and the same colours, in an area of the same size; and both show nothing for the same ids.
\<close>

theorem portraits_agree:
  "M_PixelPortrait i s = map_option (\<lambda>(area, shadow). (area, read_shadows shadow)) (PixelPortrait i s)"
proof (cases "frame_of i")
  case None
  then show ?thesis by (simp add: M_PixelPortrait_def PixelPortrait_def)
next
  case (Some f)
  have "\<forall>(x, y, c) \<in> set (colored_cells f). plain_color c" using colored_plain [OF frame_of_ok(1) [OF Some]] by blast
  then have "read_shadows (frameToBoxShadow f px) = map (\<lambda>(x, y, c). (x * px, y * px, c)) (colored_cells f)" for px
    by (simp add: frameToBoxShadow_def read_shadows_of)
  with Some frame_of_ok(2) [OF Some] show ?thesis
    by (cases f) (simp_all add: M_PixelPortrait_def PixelPortrait_def frameDimensions_def Let_def)
qed

text \<open>Only six of the nine fighters have a frame: the others have no figure at all.\<close>

lemma fighters_without_frame: "filter (\<lambda>c. frame_of (ch_id c) = None) CHARACTERS = filter (\<lambda>c. ch_id c \<in> {''seorin'', ''cheon'', ''yeonhwa''}) CHARACTERS"
  by (simp add: frame_of_registry FRAME_REGISTRY_def CHARACTERS_def)

text \<open>Each figure wears its fighter's colour of the roster.\<close>

lemma accents_match_roster:
  "map_option ch_color (getCharacter ''haneul'') = Some HANEUL_COLOR" "map_option ch_color (getCharacter ''bora'') = Some BORA_COLOR"
  "map_option ch_color (getCharacter ''taeyang'') = Some TAEYANG_COLOR" "map_option ch_color (getCharacter ''danbi'') = Some DANBI_COLOR"
  "map_option ch_color (getCharacter ''seokjin'') = Some SEOKJIN_COLOR" "map_option ch_color (getCharacter ''yuri'') = Some YURI_COLOR"
  by (simp_all add: getCharacter_def CHARACTERS_def HANEUL_COLOR_def BORA_COLOR_def TAEYANG_COLOR_def DANBI_COLOR_def SEOKJIN_COLOR_def YURI_COLOR_def)

subsection \<open>The figure\<close>

datatype pixel_action = PxCharge | PxBlock | PxAttack | PxEnergyWave | PxTeleport | PxVictory | PxDefeat

datatype px_side = PxLeft | PxRight

text \<open>CSS transforms; lengths in pixels, angles in degrees.\<close>

datatype css_transform = TranslateX real | TranslateY real | Scale real | ScaleX real | Rotate real

record px_style =
  st_transition :: "nat \<times> string"
  st_opacity :: "real option"
  st_transform :: "css_transform list"

text \<open>The duration in milliseconds and the curve of a phase's transition.\<close>

fun phase_transition :: "action_phase \<Rightarrow> nat \<times> string" where
  "phase_transition PhWindup = (500, ''cubic-bezier(0.34, 1.56, 0.64, 1)'')"
| "phase_transition PhImpact = (150, ''cubic-bezier(0, 0, 0.2, 1)'')"
| "phase_transition PhRecover = (600, ''cubic-bezier(0.22, 1, 0.36, 1)'')"
| "phase_transition PhIdle = (400, ''ease-out'')"

fun action_transforms :: "pixel_action \<Rightarrow> action_phase \<Rightarrow> css_transform list" where
  "action_transforms a PhIdle = []"
| "action_transforms PxCharge PhWindup = [TranslateY 8, Scale (85 / 100)]"
| "action_transforms PxCharge PhImpact = [TranslateY (- 12), Scale (14 / 10)]"
| "action_transforms PxCharge PhRecover = [TranslateY (- 2), Scale (11 / 10)]"
| "action_transforms PxBlock PhWindup = [TranslateY 6, TranslateX (- 6), Scale (8 / 10), Rotate (- 5)]"
| "action_transforms PxBlock PhImpact = [TranslateY 4, TranslateX (- 10), Scale (75 / 100), Rotate (- 8)]"
| "action_transforms PxBlock PhRecover = [TranslateY 2, Scale (95 / 100)]"
| "action_transforms PxAttack PhWindup = [TranslateX (- 20), TranslateY 6, Rotate (- 12)]"
| "action_transforms PxAttack PhImpact = [TranslateX 55, TranslateY (- 8), Rotate 6]"
| "action_transforms PxAttack PhRecover = [TranslateX 12, TranslateY 2, Rotate 2]"
| "action_transforms PxEnergyWave PhWindup = [TranslateX (- 10), TranslateY (- 6), Scale (13 / 10), Rotate (- 6)]"
| "action_transforms PxEnergyWave PhImpact = [TranslateX (- 14), TranslateY 4, Scale (8 / 10), Rotate 4]"
| "action_transforms PxEnergyWave PhRecover = [TranslateX (- 4), Scale (105 / 100)]"
| "action_transforms PxTeleport PhWindup = [Scale (6 / 10), TranslateY (- 14), Rotate 15]"
| "action_transforms PxTeleport PhImpact = [Scale (3 / 10), TranslateY (- 40), Rotate 30]"
| "action_transforms PxTeleport PhRecover = [TranslateX 40, TranslateY 6, Scale (115 / 100), Rotate (- 5)]"
| "action_transforms PxVictory PhWindup = [TranslateY 6, Scale (11 / 10)]"
| "action_transforms PxVictory PhImpact = [TranslateY (- 24), Scale (15 / 10), Rotate 5]"
| "action_transforms PxVictory PhRecover = [TranslateY (- 4), Scale (13 / 10)]"
| "action_transforms PxDefeat PhWindup = [TranslateX (- 4), Rotate (- 5)]"
| "action_transforms PxDefeat PhImpact = [TranslateY 12, TranslateX (- 16), Scale (7 / 10), Rotate (- 25)]"
| "action_transforms PxDefeat PhRecover = [TranslateY 16, TranslateX (- 20), Scale (6 / 10), Rotate (- 30)]"

fun action_opacity :: "pixel_action \<Rightarrow> action_phase \<Rightarrow> real option" where
  "action_opacity PxTeleport PhWindup = Some (3 / 10)"
| "action_opacity PxTeleport PhImpact = Some 0"
| "action_opacity PxTeleport PhRecover = Some 1"
| "action_opacity PxDefeat PhImpact = Some (1 / 2)"
| "action_opacity PxDefeat PhRecover = Some (3 / 10)"
| "action_opacity a ph = None"

fun action_transition :: "pixel_action \<Rightarrow> action_phase \<Rightarrow> nat \<times> string" where
  "action_transition PxVictory ph = (800, ''cubic-bezier(0.34, 1.56, 0.64, 1)'')"
| "action_transition PxDefeat ph = (800, ''cubic-bezier(0.22, 1, 0.36, 1)'')"
| "action_transition a ph = phase_transition ph"

definition mirror :: "px_side \<Rightarrow> css_transform list" where
  "mirror side = (if side = PxRight then [ScaleX (- 1)] else [])"

definition PixelFighter :: "string \<Rightarrow> px_side \<Rightarrow> pixel_action option \<Rightarrow> action_phase \<Rightarrow> px_style option" where
  "PixelFighter i side action ph = map_option (\<lambda>_.
     case action of
       Some a \<Rightarrow> if ph \<noteq> PhIdle
                 then \<lparr>st_transition = action_transition a ph, st_opacity = action_opacity a ph, st_transform = mirror side @ action_transforms a ph\<rparr>
                 else \<lparr>st_transition = phase_transition ph, st_opacity = None, st_transform = mirror side\<rparr>
     | None \<Rightarrow> \<lparr>st_transition = phase_transition ph, st_opacity = None, st_transform = mirror side\<rparr>) (frame_of i)"

text \<open>
  Where the middle of a box goes: the leftmost function of a transform list is applied last, to the
  outcome of the others, all of them about the middle.
\<close>

fun css_apply :: "css_transform \<Rightarrow> real \<times> real \<Rightarrow> real \<times> real" where
  "css_apply (TranslateX d) (x, y) = (x + d, y)"
| "css_apply (TranslateY d) (x, y) = (x, y + d)"
| "css_apply (Scale k) (x, y) = (k * x, k * y)"
| "css_apply (ScaleX k) (x, y) = (k * x, y)"
| "css_apply (Rotate w) (x, y) = (x * cos (w * pi / 180) - y * sin (w * pi / 180), x * sin (w * pi / 180) + y * cos (w * pi / 180))"

definition moved :: "css_transform list \<Rightarrow> real \<times> real" where
  "moved ts = foldr css_apply ts (0, 0)"

subsection \<open>Effects\<close>

text \<open>
  An effect's element: the edge it hangs at with the distance in per cent (none for one across the
  arena), its top in per cent, its layer and its keyframe animation.
\<close>

record px_overlay =
  ov_place :: "(px_side \<times> real \<times> real) option"
  ov_z :: nat
  ov_animation :: string
  ov_delay :: nat
  ov_ms :: nat
  ov_infinite :: bool

definition overlay_at :: "px_side \<Rightarrow> real \<Rightarrow> real \<Rightarrow> nat \<Rightarrow> string \<Rightarrow> nat \<Rightarrow> bool \<Rightarrow> px_overlay" where
  "overlay_at side edge down z an ms again =
     \<lparr>ov_place = Some (side, edge, down), ov_z = z, ov_animation = an, ov_delay = 0, ov_ms = ms, ov_infinite = again\<rparr>"

definition PixelEnergyBall :: "pixel_action option \<Rightarrow> action_phase \<Rightarrow> px_side \<Rightarrow> px_overlay list" where
  "PixelEnergyBall action ph side =
     (if action \<noteq> Some PxEnergyWave \<or> ph \<noteq> PhWindup then [] else [overlay_at side 28 38 6 ''pixel-energy-ball'' 600 True])"

definition PixelBeam :: "pixel_action option \<Rightarrow> action_phase \<Rightarrow> px_side \<Rightarrow> px_overlay list" where
  "PixelBeam action ph side =
     (if action \<noteq> Some PxEnergyWave \<or> (ph \<noteq> PhImpact \<and> ph \<noteq> PhRecover) then [] else [overlay_at side 20 36 5 ''pixel-beam-grow'' 600 False])"

definition PixelShield :: "pixel_action option \<Rightarrow> action_phase \<Rightarrow> px_side \<Rightarrow> px_overlay list" where
  "PixelShield action ph side =
     (if action \<noteq> Some PxBlock \<or> (ph \<noteq> PhWindup \<and> ph \<noteq> PhImpact) then [] else [overlay_at side 30 25 5 ''pixel-shield-in'' 250 False])"

definition shield_pixels :: "string \<Rightarrow> (nat \<times> nat \<times> string) list" where
  "shield_pixels color = concat (map (\<lambda>y. map (\<lambda>x. (x * DEFAULT_PX, y * DEFAULT_PX, if (x + y) mod 2 = 0 then ''#ffffff'' else color)) [0..<2]) [0..<12])"

definition PixelFlash :: "pixel_action option \<Rightarrow> action_phase \<Rightarrow> px_overlay list" where
  "PixelFlash action ph =
     (if ph \<noteq> PhImpact \<or> (action \<noteq> Some PxAttack \<and> action \<noteq> Some PxEnergyWave) then []
      else [\<lparr>ov_place = None, ov_z = 15, ov_animation = ''pixel-flash'', ov_delay = 0, ov_ms = 200, ov_infinite = False\<rparr>])"

definition PixelChargeAura :: "pixel_action option \<Rightarrow> action_phase \<Rightarrow> px_side \<Rightarrow> px_overlay list" where
  "PixelChargeAura action ph side =
     (if action \<noteq> Some PxCharge \<or> (ph \<noteq> PhWindup \<and> ph \<noteq> PhImpact) then [] else [overlay_at side 22 35 5 ''pixel-charge-pulse'' 500 True])"

definition charge_particles :: "string \<Rightarrow> (int \<times> int \<times> string) list" where
  "charge_particles color = map (\<lambda>(index, x, y). (x * int DEFAULT_PX, y * int DEFAULT_PX, if index mod 2 = 0 then color else ''#ffffff''))
     (enumerate 0 [(-2, -3), (3, -4), (-3, 2), (4, 1), (0, -5), (-4, -1), (5, -2), (1, 3), (-1, -6), (4, -5), (-5, 0), (2, -7)])"

definition PixelTeleportTrail :: "pixel_action option \<Rightarrow> action_phase \<Rightarrow> px_side \<Rightarrow> px_overlay list" where
  "PixelTeleportTrail action ph side =
     (if action \<noteq> Some PxTeleport \<or> (ph \<noteq> PhImpact \<and> ph \<noteq> PhRecover) then [] else [overlay_at side 22 30 4 ''pixel-teleport-ghost'' 400 False])"

definition PixelVictoryBurst :: "pixel_action option \<Rightarrow> action_phase \<Rightarrow> px_side \<Rightarrow> px_overlay list" where
  "PixelVictoryBurst action ph side =
     (if action \<noteq> Some PxVictory \<or> ph = PhIdle then []
      else map (\<lambda>i. (overlay_at side (18 + real i * 5) (20 + real (i mod 3) * 12) 6 ''pixel-victory-sparkle'' 1000 True)\<lparr>ov_delay := i * 100\<rparr>) [0..<6])"

definition PixelDefeatSmoke :: "pixel_action option \<Rightarrow> action_phase \<Rightarrow> px_side \<Rightarrow> px_overlay list" where
  "PixelDefeatSmoke action ph side =
     (if action \<noteq> Some PxDefeat \<or> ph = PhIdle \<or> ph = PhWindup then [] else [overlay_at side 15 40 4 ''pixel-defeat-smoke'' 1200 False])"

definition fighter_effects :: "pixel_action option \<Rightarrow> action_phase \<Rightarrow> px_side \<Rightarrow> px_overlay list" where
  "fighter_effects action ph side =
     PixelBeam action ph side @ PixelShield action ph side @ PixelChargeAura action ph side @ PixelEnergyBall action ph side @
     PixelTeleportTrail action ph side @ PixelVictoryBurst action ph side @ PixelDefeatSmoke action ph side"

subsection \<open>The arena\<close>

record pixel_arena =
  pa_flashes :: "px_overlay list"
  pa_effects :: "px_side \<Rightarrow> px_overlay list"
  pa_color :: "px_side \<Rightarrow> string"
  pa_fighter :: "px_side \<Rightarrow> px_style option"
  pa_name :: "px_side \<Rightarrow> string option"

record arena_input =
  in_player :: string
  in_ai :: string
  in_playerAction :: "pixel_action option"
  in_aiAction :: "pixel_action option"
  in_action :: "pixel_action option"
  in_phase :: action_phase

definition resolved :: "pixel_action option \<Rightarrow> pixel_action option \<Rightarrow> pixel_action option" where
  "resolved own action = (case own of Some a \<Rightarrow> Some a | None \<Rightarrow> action)"

definition side_action :: "arena_input \<Rightarrow> px_side \<Rightarrow> pixel_action option" where
  "side_action p side = resolved (if side = PxLeft then in_playerAction p else in_aiAction p) (in_action p)"

definition side_id :: "arena_input \<Rightarrow> px_side \<Rightarrow> string" where
  "side_id p side = (if side = PxLeft then in_player p else in_ai p)"

definition BattleArena :: "arena_input \<Rightarrow> pixel_arena" where
  "BattleArena p =
     \<lparr>pa_flashes = PixelFlash (side_action p PxLeft) (in_phase p) @ PixelFlash (side_action p PxRight) (in_phase p),
      pa_effects = (\<lambda>sd. fighter_effects (side_action p sd) (in_phase p) sd),
      pa_color = (\<lambda>sd. case getCharacter (side_id p sd) of Some c \<Rightarrow> ch_color c | None \<Rightarrow> if sd = PxLeft then ''#60A5FA'' else ''#C084FC''),
      pa_fighter = (\<lambda>sd. PixelFighter (side_id p sd) sd (side_action p sd) (in_phase p)),
      pa_name = (\<lambda>sd. map_option ch_name (getCharacter (side_id p sd)))\<rparr>"

text \<open>The phases in which an effect is on the screen follow each other, so it lasts their durations together.\<close>

definition phase_ms :: "anim_options \<Rightarrow> action_phase \<Rightarrow> nat" where
  "phase_ms opts ph = (case ph of PhIdle \<Rightarrow> 0 | PhWindup \<Rightarrow> windupMs opts | PhImpact \<Rightarrow> impactMs opts | PhRecover \<Rightarrow> recoverMs opts)"

definition shown_ms :: "anim_options \<Rightarrow> (action_phase \<Rightarrow> px_overlay list) \<Rightarrow> px_overlay \<Rightarrow> nat" where
  "shown_ms opts f v = (\<Sum>ph \<leftarrow> [PhWindup, PhImpact, PhRecover]. if v \<in> set (f ph) then phase_ms opts ph else 0)"

lemmas effect_defs = PixelEnergyBall_def PixelBeam_def PixelShield_def PixelFlash_def PixelChargeAura_def PixelTeleportTrail_def
  PixelVictoryBurst_def PixelDefeatSmoke_def overlay_at_def

lemma idle_no_effects: "fighter_effects a PhIdle sd = []" "PixelFlash a PhIdle = []" "fighter_effects None ph sd = []" "PixelFlash None ph = []"
  by (simp_all add: fighter_effects_def effect_defs)

lemma effects_named:
  "v \<in> set (fighter_effects a ph sd) \<Longrightarrow> \<exists>e t. ov_place v = Some (sd, e, t) \<and> 15 \<le> e \<and> e \<le> 43 \<and> 20 \<le> t \<and> t \<le> 44"
  by (auto simp: fighter_effects_def effect_defs upt_rec_numeral split: if_splits)

text \<open>Every effect that does not repeat is over when it is removed, with the hook's durations and with the test page's.\<close>

definition over_in_time :: "anim_options \<Rightarrow> px_side \<Rightarrow> pixel_action option \<Rightarrow> action_phase \<Rightarrow> bool" where
  "over_in_time opts sd a ph = list_all (\<lambda>v. ov_infinite v \<or> ov_delay v + ov_ms v \<le> shown_ms opts (\<lambda>ph. fighter_effects a ph sd @ PixelFlash a ph) v)
     (fighter_effects a ph sd @ PixelFlash a ph)"

lemma over_in_time_all:
  "list_all (\<lambda>sd. list_all (\<lambda>a. list_all (over_in_time default_options sd (Some a)) [PhWindup, PhImpact, PhRecover])
     [PxCharge, PxBlock, PxAttack, PxEnergyWave, PxTeleport, PxVictory, PxDefeat]) [PxLeft, PxRight]"
  "list_all (\<lambda>sd. list_all (\<lambda>a. list_all (over_in_time test_options sd (Some a)) [PhWindup, PhImpact, PhRecover])
     [PxCharge, PxBlock, PxAttack, PxEnergyWave, PxTeleport, PxVictory]) [PxLeft, PxRight]"
  by code_simp+

lemma pixel_effects_complete:
  assumes "v \<in> set (fighter_effects a ph sd @ PixelFlash a ph)" "\<not> ov_infinite v" "opts = default_options \<or> opts = test_options \<and> a \<noteq> Some PxDefeat"
  shows "ov_delay v + ov_ms v \<le> shown_ms opts (\<lambda>ph. fighter_effects a ph sd @ PixelFlash a ph) v"
proof -
  obtain b where a: "a = Some b" using assms(1) by (cases a) (simp_all add: idle_no_effects)
  have "ph \<noteq> PhIdle" using assms(1) by (cases ph) (simp_all add: idle_no_effects)
  then have ph: "ph \<in> set [PhWindup, PhImpact, PhRecover]" by (cases ph) simp_all
  have sd: "sd \<in> set [PxLeft, PxRight]" by (cases sd) simp_all
  have m: "b \<in> set [PxCharge, PxBlock, PxAttack, PxEnergyWave, PxTeleport, PxVictory, PxDefeat]"
    "b \<noteq> PxDefeat \<Longrightarrow> b \<in> set [PxCharge, PxBlock, PxAttack, PxEnergyWave, PxTeleport, PxVictory]"
    by (cases b; simp)+
  have "over_in_time opts sd (Some b) ph"
    using over_in_time_all [unfolded list_all_iff] sd ph m assms(3) a by blast
  with assms(1,2) a show ?thesis by (auto simp: over_in_time_def list_all_iff)
qed

text \<open>The comment of the beam says it is shown during the impact only, that of the afterimage too; both stay through the recovery.\<close>

lemma beam_outlasts_impact: "PixelBeam (Some PxEnergyWave) PhRecover sd \<noteq> []" "PixelTeleportTrail (Some PxTeleport) PhRecover sd \<noteq> []"
  by (simp_all add: effect_defs)

text \<open>
  A fighter's figure lunges towards the other and staggers away from it, on either side: the right
  one's horizontal moves are the left one's, mirrored.
\<close>

lemma moved_mirror: "moved (mirror PxRight @ ts) = (- fst (moved ts), snd (moved ts))" "moved (mirror PxLeft @ ts) = moved ts"
  by (simp_all add: moved_def mirror_def split: prod.split) (metis css_apply.simps(4) mult_minus1 prod.collapse)

lemma lunge_distance:
  "moved (action_transforms PxAttack PhImpact) = (55, - 8)" "moved (action_transforms PxDefeat PhImpact) = (- 16, 12)"
  "moved (action_transforms PxTeleport PhImpact) = (0, - 12)" "moved (action_transforms PxBlock PhImpact) = (- 10, 4)"
  by (simp_all add: moved_def)

end
