(* ===== verification/Anim_Panels.thy ===== *)
theory Anim_Panels
  imports Pixel_Art
begin

text \<open>
  The page of animation styles, \<open>web/src/app/test-animations\<close>: the panel with its buttons and hook, and what
  each of the four styles (SVG, Lottie, pixel figures, emoji) makes of an action and a phase.  The left
  fighter attacks, the right one defends.  Of the styles, the transforms, opacities, filters, glows and
  elements shown are modelled, and the numbers of the generated Lottie animations.
\<close>

subsection \<open>The panel\<close>

datatype animation_action = AnCharge | AnBlock | AnAttack | AnEnergyWave | AnTeleport

fun toPixelAction :: "animation_action \<Rightarrow> pixel_action" where
  "toPixelAction AnCharge = PxCharge"
| "toPixelAction AnBlock = PxBlock"
| "toPixelAction AnAttack = PxAttack"
| "toPixelAction AnEnergyWave = PxEnergyWave"
| "toPixelAction AnTeleport = PxTeleport"

definition ACTIONS :: "(string \<times> animation_action) list" where
  "ACTIONS = [(''Charge'', AnCharge), (''Block'', AnBlock), (''Attack'', AnAttack), (''E.Wave'', AnEnergyWave), (''Teleport'', AnTeleport)]"

type_synonym panel = "anim_callback timers \<times> animation_action clip"

datatype panel_event = PanelClick animation_action | PanelWait nat

text \<open>A disabled button does not fire.\<close>

fun panel_step :: "panel \<Rightarrow> panel_event \<Rightarrow> panel" where
  "panel_step ts (PanelClick a) = (if clip_isAnimating (snd ts) then ts else test_triggerAction a ts)"
| "panel_step ts (PanelWait ms) = elapse clip_exec ms ts"

definition panel_init :: panel where
  "panel_init = (no_timers, clip_init)"

subsection \<open>What a fighter wears\<close>

datatype css_filter = Brightness real | Blur real

record fighter_css =
  fc_opacity :: "real option"
  fc_filter :: "css_filter option"
  fc_transform :: "css_transform list"

definition plain_css :: fighter_css where
  "plain_css = \<lparr>fc_opacity = None, fc_filter = None, fc_transform = []\<rparr>"

text \<open>At rest: the middle unmoved, fully opaque, unfiltered.\<close>

definition at_rest :: "fighter_css \<Rightarrow> bool" where
  "at_rest c \<longleftrightarrow> nullish (fc_opacity c) 1 = 1 \<and> fc_filter c = None \<and> moved (fc_transform c) = (0, 0)"

subsection \<open>Style 1: SVG\<close>

datatype svg_piece = SvgCircle real real real string | SvgRect real real real real real string

definition SvgFighter :: "string \<Rightarrow> string \<Rightarrow> bool \<Rightarrow> svg_piece list" where
  "SvgFighter color accent flip =
     [SvgCircle 30 14 10 color, SvgCircle (if flip then 26 else 34) 12 2 ''white'', SvgRect 24 24 12 24 4 accent,
      SvgRect 10 26 14 6 3 color, SvgRect 36 26 14 6 3 color, SvgRect 22 48 7 20 3 accent, SvgRect 31 48 7 20 3 accent]"

fun svg_css :: "px_side \<Rightarrow> animation_action \<Rightarrow> action_phase \<Rightarrow> fighter_css" where
  "svg_css PxLeft AnCharge PhWindup = plain_css\<lparr>fc_transform := [Scale (11 / 10)]\<rparr>"
| "svg_css PxLeft AnCharge PhImpact = plain_css\<lparr>fc_transform := [Scale (11 / 10)]\<rparr>"
| "svg_css PxRight AnBlock PhWindup = plain_css\<lparr>fc_transform := [Scale (9 / 10)]\<rparr>"
| "svg_css PxRight AnBlock PhImpact = plain_css\<lparr>fc_transform := [Scale (9 / 10)]\<rparr>"
| "svg_css PxLeft AnAttack PhWindup = plain_css\<lparr>fc_transform := [TranslateX (- 12), Rotate (- 5)]\<rparr>"
| "svg_css PxLeft AnAttack PhImpact = plain_css\<lparr>fc_transform := [TranslateX 50]\<rparr>"
| "svg_css PxLeft AnAttack PhRecover = plain_css\<lparr>fc_transform := [TranslateX 0]\<rparr>"
| "svg_css PxRight AnAttack PhImpact = plain_css\<lparr>fc_transform := [TranslateX 8, Rotate 3], fc_filter := Some (Brightness (6 / 10))\<rparr>"
| "svg_css PxLeft AnEnergyWave PhWindup = plain_css\<lparr>fc_transform := [Scale (115 / 100)]\<rparr>"
| "svg_css PxLeft AnEnergyWave PhImpact = plain_css\<lparr>fc_transform := [Scale (9 / 10), TranslateX (- 5)]\<rparr>"
| "svg_css PxRight AnEnergyWave PhImpact = plain_css\<lparr>fc_transform := [TranslateX 15], fc_filter := Some (Brightness (1 / 2))\<rparr>"
| "svg_css PxLeft AnTeleport PhWindup = plain_css\<lparr>fc_opacity := Some (1 / 2), fc_transform := [Scale (8 / 10)]\<rparr>"
| "svg_css PxLeft AnTeleport PhImpact = plain_css\<lparr>fc_opacity := Some 0, fc_transform := [TranslateY (- 30), Scale (3 / 10)]\<rparr>"
| "svg_css PxLeft AnTeleport PhRecover = plain_css\<lparr>fc_opacity := Some 1, fc_transform := [TranslateX 50]\<rparr>"
| "svg_css sd a ph = plain_css"

text \<open>Opacity and scale of the aura.\<close>

fun svg_aura :: "px_side \<Rightarrow> animation_action \<Rightarrow> action_phase \<Rightarrow> real \<times> real" where
  "svg_aura PxLeft AnCharge PhWindup = (8 / 10, 14 / 10)"
| "svg_aura PxLeft AnCharge PhImpact = (8 / 10, 14 / 10)"
| "svg_aura PxLeft AnCharge PhRecover = (4 / 10, 12 / 10)"
| "svg_aura PxRight AnBlock PhWindup = (6 / 10, 1)"
| "svg_aura PxRight AnBlock PhImpact = (6 / 10, 1)"
| "svg_aura PxLeft AnEnergyWave PhWindup = (9 / 10, 15 / 10)"
| "svg_aura sd a ph = (2 / 10, 1)"

definition hex_char :: "nat \<Rightarrow> char" where
  "hex_char n = ''0123456789abcdef'' ! n"

definition hex2 :: "nat \<Rightarrow> string" where
  "hex2 n = [hex_char (n div 16), hex_char (n mod 16)]"

definition aura_color :: "string \<Rightarrow> real \<Rightarrow> string" where
  "aura_color color opacity = color @ hex2 (nat \<lfloor>opacity * 255 + 1 / 2\<rfloor>)"

definition on_action :: "'b \<Rightarrow> (animation_action \<Rightarrow> 'b) \<Rightarrow> animation_action option \<Rightarrow> action_phase \<Rightarrow> 'b" where
  "on_action d f action ph = (case action of None \<Rightarrow> d | Some a \<Rightarrow> if ph \<noteq> PhIdle then f a else d)"

datatype svg_effect = SvgFlashed | SvgBeamed string | SvgShielded string

definition ImpactFlash :: "animation_action option \<Rightarrow> action_phase \<Rightarrow> svg_effect list" where
  "ImpactFlash action ph = (if ph \<noteq> PhImpact \<or> (action \<noteq> Some AnAttack \<and> action \<noteq> Some AnEnergyWave) then [] else [SvgFlashed])"

definition SvgBeam :: "animation_action option \<Rightarrow> action_phase \<Rightarrow> string \<Rightarrow> svg_effect list" where
  "SvgBeam action ph color = (if action \<noteq> Some AnEnergyWave \<or> ph \<noteq> PhImpact then [] else [SvgBeamed color])"

definition SvgShield :: "animation_action option \<Rightarrow> action_phase \<Rightarrow> string \<Rightarrow> svg_effect list" where
  "SvgShield action ph color = (if action \<noteq> Some AnBlock \<or> (ph \<noteq> PhWindup \<and> ph \<noteq> PhImpact) then [] else [SvgShielded color])"

definition CssSvgPanel :: "animation_action option \<Rightarrow> action_phase \<Rightarrow> svg_effect list \<times> (px_side \<Rightarrow> fighter_css \<times> real \<times> real)" where
  "CssSvgPanel action ph =
     (ImpactFlash action ph @ SvgBeam action ph ''#60A5FA'' @ SvgShield action ph ''#C084FC'',
      \<lambda>sd. (on_action plain_css (\<lambda>a. svg_css sd a ph) action ph, on_action (2 / 10, 1) (\<lambda>a. svg_aura sd a ph) action ph))"

subsection \<open>Style 4: emoji\<close>

text \<open>The sparks fly 40 pixels outwards, 60 degrees apart, rounded to whole pixels.\<close>

definition PARTICLE_KEYFRAMES :: "(int \<times> int) list" where
  "PARTICLE_KEYFRAMES = map (\<lambda>i. let angle = real i * 60 * pi / 180 in (\<lfloor>cos angle * 40 + 1 / 2\<rfloor>, \<lfloor>sin angle * 40 + 1 / 2\<rfloor>)) [0..<6]"

fun emoji_css :: "px_side \<Rightarrow> animation_action \<Rightarrow> action_phase \<Rightarrow> fighter_css" where
  "emoji_css PxLeft AnCharge PhWindup = plain_css\<lparr>fc_transform := [Scale (115 / 100)], fc_filter := Some (Brightness (13 / 10))\<rparr>"
| "emoji_css PxLeft AnCharge PhImpact = plain_css\<lparr>fc_transform := [Scale (115 / 100)], fc_filter := Some (Brightness (13 / 10))\<rparr>"
| "emoji_css PxLeft AnCharge PhRecover = plain_css\<lparr>fc_transform := [Scale (105 / 100)]\<rparr>"
| "emoji_css PxRight AnBlock PhWindup = plain_css\<lparr>fc_transform := [Scale (95 / 100)]\<rparr>"
| "emoji_css PxRight AnBlock PhImpact = plain_css\<lparr>fc_transform := [Scale (95 / 100)]\<rparr>"
| "emoji_css PxLeft AnAttack PhWindup = plain_css\<lparr>fc_transform := [TranslateX (- 15), Scale (105 / 100)]\<rparr>"
| "emoji_css PxLeft AnAttack PhImpact = plain_css\<lparr>fc_transform := [TranslateX 60], fc_filter := Some (Brightness (12 / 10))\<rparr>"
| "emoji_css PxLeft AnAttack PhRecover = plain_css\<lparr>fc_transform := [TranslateX 0]\<rparr>"
| "emoji_css PxRight AnAttack PhImpact = plain_css\<lparr>fc_transform := [TranslateX 10, Rotate 5], fc_filter := Some (Brightness (7 / 10))\<rparr>"
| "emoji_css PxRight AnAttack PhRecover = plain_css\<lparr>fc_transform := [TranslateX 3]\<rparr>"
| "emoji_css PxLeft AnEnergyWave PhWindup = plain_css\<lparr>fc_transform := [Scale (11 / 10)], fc_filter := Some (Brightness (14 / 10))\<rparr>"
| "emoji_css PxLeft AnEnergyWave PhImpact = plain_css\<lparr>fc_transform := [Scale (95 / 100)]\<rparr>"
| "emoji_css PxLeft AnTeleport PhWindup = \<lparr>fc_opacity = Some (4 / 10), fc_filter = Some (Blur 4), fc_transform = [Scale (9 / 10)]\<rparr>"
| "emoji_css PxLeft AnTeleport PhImpact = \<lparr>fc_opacity = Some 0, fc_filter = Some (Blur 8), fc_transform = [TranslateY (- 20), Scale (1 / 2)]\<rparr>"
| "emoji_css PxLeft AnTeleport PhRecover = \<lparr>fc_opacity = Some 1, fc_filter = Some (Blur 0), fc_transform = [TranslateX 40]\<rparr>"
| "emoji_css sd a ph = plain_css"

text \<open>The glow around a fighter: blur, spread and the alpha digits of each shadow.\<close>

fun emoji_aura :: "px_side \<Rightarrow> animation_action \<Rightarrow> action_phase \<Rightarrow> (nat \<times> nat \<times> string) list" where
  "emoji_aura PxLeft AnCharge PhWindup = [(30, 15, ''66''), (60, 30, ''33'')]"
| "emoji_aura PxLeft AnCharge PhImpact = [(30, 15, ''66''), (60, 30, ''33'')]"
| "emoji_aura PxLeft AnCharge PhRecover = [(15, 8, ''33'')]"
| "emoji_aura PxLeft AnEnergyWave PhWindup = [(40, 20, ''88'')]"
| "emoji_aura sd a ph = []"

datatype emoji_effect = EmSparks "(int \<times> int) list" | EmShield | EmStarburst | EmGhost | EmFlash | EmBeam

fun emoji_overlays :: "px_side \<Rightarrow> animation_action \<Rightarrow> action_phase \<Rightarrow> emoji_effect list" where
  "emoji_overlays PxLeft AnCharge PhWindup = [EmSparks PARTICLE_KEYFRAMES]"
| "emoji_overlays PxLeft AnCharge PhImpact = [EmSparks PARTICLE_KEYFRAMES]"
| "emoji_overlays PxRight AnBlock PhWindup = [EmShield]"
| "emoji_overlays PxRight AnBlock PhImpact = [EmShield]"
| "emoji_overlays PxRight AnAttack PhImpact = [EmStarburst]"
| "emoji_overlays PxRight AnTeleport PhRecover = [EmGhost]"
| "emoji_overlays sd a ph = []"

definition ScreenFlash :: "animation_action option \<Rightarrow> action_phase \<Rightarrow> emoji_effect list" where
  "ScreenFlash action ph = (if ph \<noteq> PhImpact then [] else if action \<noteq> Some AnAttack \<and> action \<noteq> Some AnEnergyWave then [] else [EmFlash])"

definition EnergyBeam :: "animation_action option \<Rightarrow> action_phase \<Rightarrow> emoji_effect list" where
  "EnergyBeam action ph = (if action \<noteq> Some AnEnergyWave \<or> ph \<noteq> PhImpact then [] else [EmBeam])"

definition EmojiEnhancedPanel ::
  "animation_action option \<Rightarrow> action_phase \<Rightarrow> emoji_effect list \<times> (px_side \<Rightarrow> fighter_css \<times> (nat \<times> nat \<times> string) list)" where
  "EmojiEnhancedPanel action ph =
     (ScreenFlash action ph @ EnergyBeam action ph @ concat (map (\<lambda>sd. on_action [] (\<lambda>a. emoji_overlays sd a ph) action ph) [PxLeft, PxRight]),
      \<lambda>sd. (on_action plain_css (\<lambda>a. emoji_css sd a ph) action ph, on_action [] (\<lambda>a. emoji_aura sd a ph) action ph))"

subsection \<open>Style 2: Lottie\<close>

definition hex_digit_val :: "char \<Rightarrow> nat option" where
  "hex_digit_val c = (let n = (of_char c :: nat) in
     if 48 \<le> n \<and> n \<le> 57 then Some (n - 48) else if 97 \<le> n \<and> n \<le> 102 then Some (n - 87)
     else if 65 \<le> n \<and> n \<le> 70 then Some (n - 55) else None)"

definition parse_hex2 :: "string \<Rightarrow> real option" where
  "parse_hex2 s = (case s of [a, b] \<Rightarrow> (case (hex_digit_val a, hex_digit_val b) of (Some x, Some y) \<Rightarrow> Some (real (16 * x + y)) | _ \<Rightarrow> None) | _ \<Rightarrow> None)"

definition lottie_rgb :: "string \<Rightarrow> (real \<times> real \<times> real) option" where
  "lottie_rgb color =
     (case (parse_hex2 (take 2 (drop 1 color)), parse_hex2 (take 2 (drop 3 color)), parse_hex2 (take 2 (drop 5 color))) of
        (Some r, Some g, Some b) \<Rightarrow> Some (r / 255, g / 255, b / 255) | _ \<Rightarrow> None)"

datatype lottie_item =
    LtEllipse "real \<times> real" "real \<times> real"
  | LtRect "real \<times> real" "real \<times> real" real
  | LtFill "real \<times> real \<times> real" real
  | LtStroke "real \<times> real \<times> real" real real

record lottie_key =
  lk_t :: real
  lk_s :: "real list"

record lottie =
  lt_fr :: nat
  lt_op :: nat
  lt_w :: real
  lt_h :: real
  lt_name :: string
  lt_opacity :: "lottie_key list"
  lt_position :: "lottie_key list"
  lt_scale :: "lottie_key list"
  lt_shapes :: "lottie_item list list"

text \<open>A value without keyframes is a single one at time 0.\<close>

definition still :: "real list \<Rightarrow> lottie_key list" where
  "still v = [\<lparr>lk_t = 0, lk_s = v\<rparr>]"

definition key :: "real \<Rightarrow> real list \<Rightarrow> lottie_key" where
  "key t v = \<lparr>lk_t = t, lk_s = v\<rparr>"

definition createFighterLottie :: "real \<times> real \<times> real \<Rightarrow> real \<Rightarrow> lottie" where
  "createFighterLottie rgb bobOffset =
     (let (r, g, b) = rgb; dark = (r * (8 / 10), g * (8 / 10), b * (8 / 10)); legs = (1 / 10, 1 / 10, 15 / 100)
      in \<lparr>lt_fr = 30, lt_op = 60, lt_w = 100, lt_h = 140, lt_name = ''fighter'', lt_opacity = still [100],
          lt_position = [key (0 + bobOffset) [50, 70, 0], key (15 + bobOffset) [50, 65, 0], key (30 + bobOffset) [50, 70, 0],
                         key (45 + bobOffset) [50, 65, 0], key 60 [50, 70, 0]],
          lt_scale = still [100, 100, 100],
          lt_shapes = [[LtEllipse (0, - 30) (30, 30), LtFill rgb 100], [LtRect (0, 5) (24, 40) 4, LtFill dark 100],
                       [LtRect (- 20, 0) (16, 8) 3, LtFill rgb 100], [LtRect (20, 0) (16, 8) 3, LtFill rgb 100],
                       [LtRect (- 8, 35) (10, 24) 3, LtFill legs 100], [LtRect (8, 35) (10, 24) 3, LtFill legs 100]]\<rparr>)"

definition createBurstLottie :: "real \<times> real \<times> real \<Rightarrow> lottie" where
  "createBurstLottie rgb =
     \<lparr>lt_fr = 30, lt_op = 15, lt_w = 100, lt_h = 100, lt_name = ''burst'', lt_opacity = [key 0 [100], key 15 [0]],
      lt_position = still [50, 50, 0], lt_scale = [key 0 [30, 30, 100], key 15 [150, 150, 100]],
      lt_shapes = [[LtEllipse (0, 0) (50, 50), LtFill rgb 80]]\<rparr>"

definition shieldData :: "real \<times> real \<times> real \<Rightarrow> lottie" where
  "shieldData rgb =
     \<lparr>lt_fr = 30, lt_op = 30, lt_w = 80, lt_h = 100, lt_name = ''shield'',
      lt_opacity = [key 0 [0], key 5 [70], key 25 [70], key 30 [0]], lt_position = still [40, 50, 0], lt_scale = still [100, 100, 100],
      lt_shapes = [[LtEllipse (0, 0) (50, 70), LtStroke rgb 100 3, LtFill rgb 15]]\<rparr>"

fun lottie_css :: "px_side \<Rightarrow> animation_action \<Rightarrow> action_phase \<Rightarrow> fighter_css" where
  "lottie_css PxLeft AnCharge PhWindup = plain_css\<lparr>fc_transform := [Scale (12 / 10)]\<rparr>"
| "lottie_css PxLeft AnCharge PhImpact = plain_css\<lparr>fc_transform := [Scale (12 / 10)]\<rparr>"
| "lottie_css PxLeft AnCharge PhRecover = plain_css\<lparr>fc_transform := [Scale (105 / 100)]\<rparr>"
| "lottie_css PxRight AnBlock PhWindup = plain_css\<lparr>fc_transform := [Scale (85 / 100)]\<rparr>"
| "lottie_css PxRight AnBlock PhImpact = plain_css\<lparr>fc_transform := [Scale (85 / 100)]\<rparr>"
| "lottie_css PxLeft AnAttack PhWindup = plain_css\<lparr>fc_transform := [TranslateX (- 10)]\<rparr>"
| "lottie_css PxLeft AnAttack PhImpact = plain_css\<lparr>fc_transform := [TranslateX 50]\<rparr>"
| "lottie_css PxRight AnAttack PhImpact = plain_css\<lparr>fc_transform := [TranslateX 10]\<rparr>"
| "lottie_css PxLeft AnEnergyWave PhWindup = plain_css\<lparr>fc_transform := [Scale (115 / 100)]\<rparr>"
| "lottie_css PxLeft AnEnergyWave PhImpact = plain_css\<lparr>fc_transform := [Scale (9 / 10)]\<rparr>"
| "lottie_css PxLeft AnTeleport PhWindup = plain_css\<lparr>fc_opacity := Some (4 / 10), fc_transform := [Scale (85 / 100)]\<rparr>"
| "lottie_css PxLeft AnTeleport PhImpact = plain_css\<lparr>fc_opacity := Some 0, fc_transform := [TranslateY (- 20), Scale (3 / 10)]\<rparr>"
| "lottie_css PxLeft AnTeleport PhRecover = plain_css\<lparr>fc_opacity := Some 1, fc_transform := [TranslateX 40]\<rparr>"
| "lottie_css sd a ph = plain_css"

text \<open>The right fighter's list begins with its mirroring.\<close>

definition LottieFighter :: "px_side \<Rightarrow> animation_action option \<Rightarrow> action_phase \<Rightarrow> fighter_css" where
  "LottieFighter sd action ph = (let c = on_action plain_css (\<lambda>a. lottie_css sd a ph) action ph in c\<lparr>fc_transform := mirror sd @ fc_transform c\<rparr>)"

definition BurstEffect :: "animation_action option \<Rightarrow> action_phase \<Rightarrow> string \<Rightarrow> lottie list" where
  "BurstEffect action ph color =
     (if ph \<noteq> PhImpact then [] else if action \<noteq> Some AnAttack \<and> action \<noteq> Some AnEnergyWave then []
      else [createBurstLottie (nullish (lottie_rgb color) (0, 0, 0))])"

definition ShieldEffect :: "animation_action option \<Rightarrow> action_phase \<Rightarrow> string \<Rightarrow> lottie list" where
  "ShieldEffect action ph color =
     (if action \<noteq> Some AnBlock \<or> (ph \<noteq> PhWindup \<and> ph \<noteq> PhImpact) then [] else [shieldData (nullish (lottie_rgb color) (0, 0, 0))])"

definition LottiePanel :: "animation_action option \<Rightarrow> action_phase \<Rightarrow> lottie list \<times> (px_side \<Rightarrow> fighter_css)" where
  "LottiePanel action ph = (BurstEffect action ph ''#60A5FA'' @ ShieldEffect action ph ''#C084FC'', \<lambda>sd. LottieFighter sd action ph)"

subsection \<open>Style 3: pixel figures\<close>

definition PixelArtPanel :: "animation_action option \<Rightarrow> action_phase \<Rightarrow> pixel_arena" where
  "PixelArtPanel action ph = BattleArena
     \<lparr>in_player = ''haneul'', in_ai = ''bora'', in_playerAction = None, in_aiAction = None, in_action = map_option toPixelAction action, in_phase = ph\<rparr>"

definition arena_css :: "pixel_arena \<Rightarrow> px_side \<Rightarrow> fighter_css option" where
  "arena_css r sd = map_option (\<lambda>s. \<lparr>fc_opacity = st_opacity s, fc_filter = None, fc_transform = st_transform s\<rparr>) (pa_fighter r sd)"

subsection \<open>The panel is never disturbed\<close>

definition waits :: "panel_event list \<Rightarrow> nat" where
  "waits es = (\<Sum>e \<leftarrow> es. case e of PanelWait ms \<Rightarrow> ms | PanelClick a \<Rightarrow> 0)"

definition clip_ok :: "anim_callback timers \<times> 'a clip \<Rightarrow> bool" where
  "clip_ok ts \<longleftrightarrow> fst ` set (pending (fst ts)) \<subseteq> set (cl_timeoutRefs (snd ts)) \<and> (cl_phase (snd ts) = PhIdle \<longleftrightarrow> cl_action (snd ts) = None)"

lemma clip_exec_refs [simp]: "cl_timeoutRefs (clip_exec c s) = cl_timeoutRefs s"
  by (cases c) simp_all

lemma fold_clip_exec_refs [simp]: "cl_timeoutRefs (fold (\<lambda>x. clip_exec (snd (snd x))) xs s) = cl_timeoutRefs s"
  by (induction xs arbitrary: s) simp_all

text \<open>The state of a panel \<open>e\<close> milliseconds after the click that started an animation with the timers \<open>n\<close>, \<open>n + 1\<close> and \<open>n + 2\<close>.\<close>

definition playing :: "animation_action \<Rightarrow> nat \<Rightarrow> nat \<Rightarrow> nat \<Rightarrow> panel" where
  "playing a n c e =
     (\<lparr>clock = c + e, next_id = n + 3,
       pending = dropWhile (\<lambda>x. fst (snd x) \<le> c + e) [(n, c + 200, SetImpact), (n + 1, c + 500, SetRecover), (n + 2, c + 800, SetIdle)]\<rparr>,
      \<lparr>cl_action = (if e < 800 then Some a else None), cl_phase = phase_after test_options e, cl_timeoutRefs = [n, n + 1, n + 2]\<rparr>)"

lemma click_plays:
  assumes "clip_ok ts" shows "test_triggerAction a ts = playing a (next_id (fst ts)) (clock (fst ts)) 0"
  using assms
  by (simp add: test_triggerAction_def clip_ok_def clear_all_none set_timeout_def Let_def playing_def phase_after_def test_options_def)

lemma playing_elapse: "elapse clip_exec ms (playing a n c e) = playing a n c (e + ms)"
proof -
  have "elapse clip_exec e (playing a n c 0) = playing a n c e" for e
    by (simp add: elapse_def playing_def phase_after_def test_options_def Let_def)
  from this [of e] this [of "e + ms"] show ?thesis by (metis elapse_elapse)
qed

lemma playing_ok: "clip_ok (playing a n c e)"
  by (simp add: clip_ok_def playing_def phase_after_def test_options_def)

text \<open>Every reachable state is the first one, or an animation under way or over.\<close>

definition panel_ok :: "panel \<Rightarrow> bool" where
  "panel_ok ts \<longleftrightarrow> (pending (fst ts) = [] \<and> snd ts = clip_init) \<or> (\<exists>a n c e. ts = playing a n c e)"

lemma panel_clip_ok: "panel_ok ts \<Longrightarrow> clip_ok ts"
  by (auto simp: panel_ok_def playing_ok) (simp add: clip_ok_def clip_init_def)

interpretation panel: machine panel_init panel_step panel_ok
proof
  show "panel_ok panel_init" by (simp add: panel_ok_def panel_init_def no_timers_def)
next
  fix ts e
  assume ok: "panel_ok ts"
  show "panel_ok (panel_step ts e)"
  proof (cases e)
    case (PanelClick a)
    with ok click_plays [OF panel_clip_ok [OF ok], of a] show ?thesis by (auto simp: panel_ok_def)
  next
    case (PanelWait ms)
    have "elapse clip_exec ms ts = (fst ts\<lparr>clock := clock (fst ts) + ms\<rparr>, clip_init)" if "pending (fst ts) = []" "snd ts = clip_init"
      using that by (simp add: elapse_def Let_def)
    with PanelWait have "panel_ok (panel_step ts e)" if "pending (fst ts) = []" "snd ts = clip_init" using that by (simp add: panel_ok_def)
    moreover have "panel_ok (panel_step ts e)" if "ts = playing a n c d" for a n c d
      unfolding that PanelWait panel_step.simps playing_elapse panel_ok_def by blast
    ultimately show ?thesis using ok unfolding panel_ok_def [of ts] by blast
  qed
qed

lemma clip_playing_run:
  assumes "e + waits es < 800" shows "run panel_step (playing a n c e) es = playing a n c (e + waits es)"
  using assms
proof (induction es arbitrary: e)
  case (Cons ev es)
  show ?case
  proof (cases ev)
    case (PanelClick b)
    have "clip_isAnimating (snd (playing a n c e))"
      using Cons.prems by (simp add: clip_isAnimating_def playing_def phase_after_def test_options_def)
    with PanelClick Cons show ?thesis by (simp add: waits_def)
  next
    case (PanelWait ms)
    with Cons.prems have "e + ms + waits es < 800" by (simp add: waits_def)
    from Cons.IH [OF this] PanelWait show ?thesis by (simp add: playing_elapse waits_def add.assoc)
  qed
qed (simp add: waits_def)

text \<open>What the four styles show when nothing happens: no effect and both fighters at rest.\<close>

definition all_at_rest :: "animation_action option \<Rightarrow> action_phase \<Rightarrow> bool" where
  "all_at_rest action ph \<longleftrightarrow>
     (let (se, sf) = CssSvgPanel action ph; (le, lf) = LottiePanel action ph; (ee, ef) = EmojiEnhancedPanel action ph; pa = PixelArtPanel action ph
      in se = [] \<and> le = [] \<and> ee = [] \<and> pa_flashes pa = [] \<and>
         (\<forall>sd. at_rest (fst (sf sd)) \<and> at_rest (lf sd) \<and> at_rest (fst (ef sd)) \<and> snd (ef sd) = [] \<and> pa_effects pa sd = [] \<and>
               (\<exists>c. arena_css pa sd = Some c \<and> at_rest c)))"

lemma rest_mirror: "at_rest (c\<lparr>fc_transform := mirror sd @ ts\<rparr>) = at_rest (c\<lparr>fc_transform := ts\<rparr>)"
  by (cases sd) (auto simp: at_rest_def moved_mirror prod_eq_iff)

lemma plain_at_rest: "at_rest plain_css" "at_rest (plain_css\<lparr>fc_transform := mirror sd\<rparr>)"
  using rest_mirror [where c = plain_css and sd = sd and ts = "[]"] by (simp_all add: at_rest_def plain_css_def moved_def)

lemma idle_rest: "all_at_rest action PhIdle"
proof -
  have ids: "frame_of ''haneul'' \<noteq> None" "frame_of ''bora'' \<noteq> None" by (simp_all add: frame_of_registry FRAME_REGISTRY_def)
  have "\<exists>c. arena_css (PixelArtPanel action PhIdle) sd = Some c \<and> at_rest c" for sd
    using ids plain_at_rest(2) [of sd]
    by (cases sd) (auto simp: PixelArtPanel_def BattleArena_def arena_css_def PixelFighter_def side_id_def plain_css_def split: option.split)
  moreover have "at_rest (LottieFighter sd action PhIdle)" for sd
    using plain_at_rest(2) [of sd] by (simp add: LottieFighter_def on_action_def plain_css_def split: option.split)
  ultimately show ?thesis
    by (auto simp: all_at_rest_def CssSvgPanel_def LottiePanel_def EmojiEnhancedPanel_def ImpactFlash_def SvgBeam_def SvgShield_def
        BurstEffect_def ShieldEffect_def ScreenFlash_def EnergyBeam_def on_action_def plain_at_rest(1) PixelArtPanel_def BattleArena_def
        idle_no_effects split: option.split)
qed

text \<open>
  A panel of the page of animation styles plays a clicked action out, undisturbed.  From any
  state its user can reach in which the buttons work, all four styles show two fighters at rest without
  effects; a click starts the action, and whatever is clicked in the next 800 milliseconds, the action
  is the clicked one and its phase windup, impact and recovery after 0, 200 and 500 milliseconds; then
  the buttons work again.
\<close>

theorem click_plays_through:
  assumes "ts = run panel_step panel_init es" "\<not> clip_isAnimating (snd ts)" "waits fs < 800" "800 \<le> waits fs + ms"
  shows "all_at_rest (cl_action (snd ts)) (cl_phase (snd ts)) \<and>
    cl_action (snd (run panel_step (panel_step ts (PanelClick a)) fs)) = Some a \<and>
    cl_phase (snd (run panel_step (panel_step ts (PanelClick a)) fs)) = phase_after test_options (waits fs) \<and>
    \<not> clip_isAnimating (snd (run panel_step (panel_step ts (PanelClick a)) (fs @ [PanelWait ms])))"
proof -
  have "clip_ok ts" unfolding assms(1) by (intro panel_clip_ok panel.always)
  then have click: "panel_step ts (PanelClick a) = playing a (next_id (fst ts)) (clock (fst ts)) 0"
    using assms(2) by (simp add: click_plays)
  have "cl_phase (snd ts) = PhIdle" using assms(2) by (simp add: clip_isAnimating_def)
  with assms(3,4) show ?thesis
    unfolding click run_append by (simp add: clip_playing_run playing_elapse idle_rest) (simp add: playing_def clip_isAnimating_def phase_after_def test_options_def)
qed

lemma click_plays_through_witness:
  "cl_action (snd (run panel_step (panel_step (run panel_step panel_init [PanelClick AnBlock, PanelWait 900]) (PanelClick AnAttack))
     [PanelWait 300, PanelClick AnTeleport, PanelWait 400])) = Some AnAttack"
proof -
  have "\<not> clip_isAnimating (snd (run panel_step panel_init [PanelClick AnBlock, PanelWait 900]))" by code_simp
  from click_plays_through [OF refl this, of "[PanelWait 300, PanelClick AnTeleport, PanelWait 400]" 200 AnAttack] show ?thesis
    by (simp add: waits_def)
qed

subsection \<open>How the styles differ\<close>

text \<open>
  The attacker lunges to the right in all of them.  Hit, the defender is thrown further to the right in
  the SVG and the emoji style; in the Lottie style its list of transforms begins with the mirroring, so
  that the same positive distance takes it towards the attacker.
\<close>

lemma hit_defender:
  "fst (moved (fc_transform (fst (snd (CssSvgPanel (Some AnAttack) PhImpact) PxRight)))) = 8"
  "fst (moved (fc_transform (fst (snd (EmojiEnhancedPanel (Some AnAttack) PhImpact) PxRight)))) = 10"
  "fst (moved (fc_transform (snd (LottiePanel (Some AnAttack) PhImpact) PxRight))) = - 10"
  by (simp_all add: CssSvgPanel_def EmojiEnhancedPanel_def LottiePanel_def LottieFighter_def on_action_def moved_def mirror_def plain_css_def)

lemma lunging_attacker:
  "fst (moved (fc_transform (fst (snd (CssSvgPanel (Some AnAttack) PhImpact) PxLeft)))) = 50"
  "fst (moved (fc_transform (fst (snd (EmojiEnhancedPanel (Some AnAttack) PhImpact) PxLeft)))) = 60"
  "fst (moved (fc_transform (snd (LottiePanel (Some AnAttack) PhImpact) PxLeft))) = 50"
  "map_option (\<lambda>c. fst (moved (fc_transform c))) (arena_css (PixelArtPanel (Some AnAttack) PhImpact) PxLeft) = Some 55"
  by (simp_all add: CssSvgPanel_def EmojiEnhancedPanel_def LottiePanel_def LottieFighter_def on_action_def moved_def mirror_def plain_css_def
      PixelArtPanel_def BattleArena_def arena_css_def PixelFighter_def side_action_def side_id_def resolved_def frame_of_registry FRAME_REGISTRY_def)

text \<open>In the pixel style both fighters act, since the panel passes its action for both; in the others only the left one attacks.\<close>

lemma both_pixel_fighters_act:
  "map_option (\<lambda>c. fst (moved (fc_transform c))) (arena_css (PixelArtPanel (Some AnAttack) PhImpact) PxRight) = Some (- 55)"
  by (simp add: moved_def mirror_def PixelArtPanel_def BattleArena_def arena_css_def PixelFighter_def side_action_def side_id_def
      resolved_def frame_of_registry FRAME_REGISTRY_def)

text \<open>
  Times of a Lottie animation in milliseconds.  The burst plays for 500 and the shield for 1000, but the
  phases they are shown in last 300 and 500: the burst is cut off and the shield never fades.
\<close>

definition lottie_ms :: "lottie \<Rightarrow> nat" where
  "lottie_ms l = lt_op l * 1000 div lt_fr l"

lemma lottie_cut_off:
  "lottie_ms (createBurstLottie rgb) = 500" "phase_ms test_options PhImpact = 300"
  "lottie_ms (shieldData rgb) = 1000" "phase_ms test_options PhWindup + phase_ms test_options PhImpact = 500"
  by (simp_all add: lottie_ms_def createBurstLottie_def shieldData_def phase_ms_def test_options_def)

text \<open>The keyframes of both fighters follow each other inside the animation, whose end repeats its beginning.\<close>

lemma fighter_keyframes:
  assumes "0 \<le> bob" "bob < 15"
  shows "sorted_wrt (<) (map lk_t (lt_position (createFighterLottie rgb bob)))"
    "\<forall>k \<in> set (lt_position (createFighterLottie rgb bob)). 0 \<le> lk_t k \<and> lk_t k \<le> real (lt_op (createFighterLottie rgb bob))"
    "lk_s (hd (lt_position (createFighterLottie rgb bob))) = lk_s (last (lt_position (createFighterLottie rgb bob)))"
  using assms by (auto simp: createFighterLottie_def key_def Let_def split: prod.split)

lemma panel_colors: "lottie_rgb ''#60A5FA'' = Some (96 / 255, 165 / 255, 250 / 255)" "lottie_rgb ''#C084FC'' = Some (192 / 255, 132 / 255, 252 / 255)"
  by (simp_all add: lottie_rgb_def parse_hex2_def hex_digit_val_def)

lemma aura_color_digits: "aura_color c (2 / 10) = c @ ''33''" "aura_color c (8 / 10) = c @ ''cc''" "aura_color c (9 / 10) = c @ ''e6''"
  by (simp_all add: aura_color_def hex2_def hex_char_def)

text \<open>The six sparks fly to opposite places, two by two.\<close>

lemma spark_places: "PARTICLE_KEYFRAMES = [(40, 0), (20, 35), (- 20, 35), (- 40, 0), (- 20, - 35), (20, - 35)]"
proof -
  have s: "(346 / 200 :: real) < sqrt 3" "sqrt 3 < (347 / 200 :: real)"
    by (rule real_less_rsqrt, simp add: power2_eq_square) (rule real_less_lsqrt, simp_all add: power2_eq_square)
  have a: "real i * 60 * pi / 180 = real i * pi / 3" for i by simp
  have n: "[0..<6] = [0, 1, 2, 3, 4, 5 :: nat]" by code_simp
  have 4: "cos (4 * pi / 3) = - 1 / 2" "sin (4 * pi / 3) = - (sqrt 3 / 2)"
    using cos_periodic_pi [of "pi / 3"] sin_periodic_pi [of "pi / 3"] cos_60 sin_60 by (simp_all add: algebra_simps)
  have 5: "cos (5 * pi / 3) = 1 / 2" "sin (5 * pi / 3) = - (sqrt 3 / 2)"
    using cos_2pi_minus [of "pi / 3"] sin_2pi_minus [of "pi / 3"] cos_60 sin_60 by (simp_all add: algebra_simps)
  have f: "\<lfloor>20 * sqrt 3 + 1 / 2\<rfloor> = 35" "\<lfloor>1 / 2 - 20 * sqrt 3\<rfloor> = - 35" "\<lfloor>- (20 * sqrt 3) + 1 / 2\<rfloor> = - 35"
    using s by (simp_all add: floor_eq_iff)
  show ?thesis
    unfolding PARTICLE_KEYFRAMES_def a Let_def n by (simp add: cos_120 sin_120 4 5 cos_60 sin_60 f)
qed

end
