(* ===== verification/Home_Pages.thy ===== *)
theory Home_Pages
  imports Invite_Links Timers Mobile_Board Arena_Host
begin

text \<open>
  The pages a visitor starts from: the web's official page (\<open>web/src/app/page.tsx\<close>) and promo kit
  (\<open>web/src/app/promo/page.tsx\<close>), the phone's home screen (\<open>mobile/app/index.tsx\<close>), and the test page of the
  WebGL arena (\<open>web/src/app/pixi-test/page.tsx\<close>), which drives the component of \<open>Arena_Host\<close>.  Writing to the
  clipboard and sharing end in events of their own; markup is left out but for what depends on state.
\<close>

subsection \<open>A label that says Copied\<close>

text \<open>Both web pages show for a while what was copied; every timer clears the label, whoever set it.\<close>

record 'l copied_label =
  cp_shown :: "'l option"
  cp_timers :: "unit timers"

definition no_label :: "'l copied_label" where
  "no_label = \<lparr>cp_shown = None, cp_timers = no_timers\<rparr>"

definition show_label :: "nat \<Rightarrow> 'l \<Rightarrow> 'l copied_label \<Rightarrow> 'l copied_label" where
  "show_label ms l s = s\<lparr>cp_shown := Some l, cp_timers := snd (set_timeout () ms (cp_timers s))\<rparr>"

definition hide_label :: "'l copied_label \<Rightarrow> 'l copied_label" where
  "hide_label s = s\<lparr>cp_shown := None\<rparr>"

definition pass_time :: "nat \<Rightarrow> 'l copied_label \<Rightarrow> 'l copied_label" where
  "pass_time ms s = (let (t, c) = elapse (\<lambda>_ _. None) ms (cp_timers s, cp_shown s) in s\<lparr>cp_timers := t, cp_shown := c\<rparr>)"

text \<open>A shown label has a timer that will clear it, at most \<open>d\<close> milliseconds ahead.\<close>

definition label_ok :: "nat \<Rightarrow> 'l copied_label \<Rightarrow> bool" where
  "label_ok d s \<longleftrightarrow> (cp_shown s \<noteq> None \<longrightarrow> (\<exists>x \<in> set (pending (cp_timers s)). fst (snd x) \<le> clock (cp_timers s) + d)) \<and>
     sorted (map (\<lambda>x. fst (snd x)) (pending (cp_timers s)))"

lemma sorted_enqueue: "sorted (map (\<lambda>x. fst (snd x)) xs) \<Longrightarrow> sorted (map (\<lambda>x. fst (snd x)) (enqueue x xs))"
  by (induction xs) auto

lemma fold_cleared: "fold (\<lambda>x c. None) xs c = (if xs = [] then c else None)"
  by (induction xs arbitrary: c) auto

lemma fold_cleared_pairs: "fold (\<lambda>x. (\<lambda>_ _. None) (snd (snd x))) xs c = (if xs = [] then c else None)"
  by (induction xs arbitrary: c) auto

lemma label_ok_parts:
  "label_ok d no_label" "label_ok d s \<Longrightarrow> label_ok d (show_label d l s)" "label_ok d s \<Longrightarrow> label_ok d (hide_label s)"
  by (auto simp: label_ok_def no_label_def no_timers_def show_label_def hide_label_def set_timeout_def sorted_enqueue)

lemma sorted_due:
  assumes "sorted (map (\<lambda>x. fst (snd x)) xs)" "x \<in> set xs" "fst (snd x) \<le> (t :: nat)"
  shows "takeWhile (\<lambda>x. fst (snd x) \<le> t) xs \<noteq> []"
  using assms by (cases xs) auto

lemma label_ok_time: "label_ok d s \<Longrightarrow> label_ok d (pass_time ms s)"
proof -
  assume ok: "label_ok d s"
  let ?t = "cp_timers s" let ?due = "\<lambda>x. fst (snd x) \<le> clock ?t + ms"
  have s: "sorted (map (\<lambda>x. fst (snd x)) (pending ?t))" using ok by (simp add: label_ok_def)
  have sd: "sorted (map (\<lambda>x. fst (snd x)) (dropWhile ?due (pending ?t)))"
    using s by (metis dropWhile_eq_drop drop_map sorted_wrt_drop)
  show ?thesis
  proof (cases "takeWhile ?due (pending ?t) = []")
    case True
    then have "dropWhile ?due (pending ?t) = pending ?t" by (metis append_self_conv2 takeWhile_dropWhile_id)
    moreover have "\<exists>x \<in> set (pending ?t). fst (snd x) \<le> clock ?t + ms + d" if ne: "cp_shown s \<noteq> None"
    proof -
      obtain x where "x \<in> set (pending ?t)" "fst (snd x) \<le> clock ?t + d" using ok ne by (auto simp: label_ok_def)
      then show ?thesis by (intro bexI [of _ x]) simp_all
    qed
    ultimately show ?thesis using s True by (simp add: label_ok_def pass_time_def elapse_def Let_def fold_cleared_pairs)
  next
    case False
    with sd show ?thesis by (simp add: label_ok_def pass_time_def elapse_def Let_def fold_cleared_pairs)
  qed
qed

lemma label_goes:
  assumes "label_ok d s" "d \<le> ms" shows "cp_shown (pass_time ms s) = None"
proof (cases "cp_shown s")
  case (Some l)
  with assms(1) obtain x where "x \<in> set (pending (cp_timers s))" "fst (snd x) \<le> clock (cp_timers s) + d" by (auto simp: label_ok_def)
  with assms have "takeWhile (\<lambda>x. fst (snd x) \<le> clock (cp_timers s) + ms) (pending (cp_timers s)) \<noteq> []"
    by (intro sorted_due [of _ x]) (auto simp: label_ok_def)
  then show ?thesis by (simp add: pass_time_def elapse_def Let_def fold_cleared_pairs)
qed (simp add: pass_time_def elapse_def Let_def fold_cleared_pairs)

lemma pass_time_shown: "cp_shown (pass_time ms s) = Some l \<Longrightarrow> cp_shown s = Some l"
  by (auto simp: pass_time_def elapse_def Let_def fold_cleared_pairs split: if_splits)

subsection \<open>The official page\<close>

definition HERO_FIGHTERS :: "(string \<times> string \<times> nat) list" where
  "HERO_FIGHTERS = [(''haneul'', ''impact'', 240), (''bora'', ''windup'', 230), (''taeyang'', ''victory'', 150)]"

definition MODES :: "(string \<times> string \<times> string) list" where
  "MODES = [(''Practice'', ''Fast AI matches from Novice to a game-solving Grandmaster.'', ''/play''),
     (''PvP Rooms'', ''Create a four-character room and send the link.'', ''/pvp''),
     (''Ranked'', ''Leaderboard groundwork is already live.'', ''/ranked'')]"

definition HeroFighter :: "string \<Rightarrow> (string \<times> string \<times> nat) option" where
  "HeroFighter i = (case find (\<lambda>h. fst h = i) HERO_FIGHTERS of None \<Rightarrow> None | Some h \<Rightarrow> if getCharacter i = None then None else Some h)"

definition home_stats :: "(string \<times> string) list" where
  "home_stats = [(''Actions'', ''5''), (''Fighters'', show_nat (length CHARACTERS)), (''Room Code'', ''4''), (''Rounds'', ''BO3'')]"

record home_page =
  hp_label :: "unit copied_label"
  hp_writing :: nat
  hp_sharing :: nat
  hp_clipboard :: "string option"
  hp_tracked :: "(string \<times> js_obj) list"

definition home_init :: home_page where
  "home_init = \<lparr>hp_label = no_label, hp_writing = 0, hp_sharing = 0, hp_clipboard = None, hp_tracked = []\<rparr>"

definition shareUrl :: "string \<Rightarrow> string" where
  "shareUrl origin = (case PROMO_CAMPAIGN_BY_SLUG ''friend-share'' of Some e \<Rightarrow> buildPromoUrl e origin | None \<Rightarrow> [])"

definition landing_event :: "string \<Rightarrow> string \<times> js_obj" where
  "landing_event way = (''invite_copied'', [(''surface'', Some (JStr ''landing'')), (''method'', Some (JStr way)), (''promo'', Some (JStr ''friend-share''))])"

datatype home_event = HpTap bool | HpWritten bool | HpShared bool | HpWait nat

text \<open>A tap shares where the browser has a share sheet, and copies otherwise; an answer is to an earlier tap.\<close>

fun home_step :: "string \<Rightarrow> home_page \<Rightarrow> home_event \<Rightarrow> home_page" where
  "home_step origin s (HpTap can_share) = (if can_share then s\<lparr>hp_sharing := hp_sharing s + 1\<rparr> else s\<lparr>hp_writing := hp_writing s + 1\<rparr>)"
| "home_step origin s (HpWritten ok) =
     (if hp_writing s = 0 then s
      else if ok then s\<lparr>hp_writing := hp_writing s - 1, hp_clipboard := Some (shareUrl origin),
                        hp_tracked := hp_tracked s @ [landing_event ''clipboard''], hp_label := show_label 1800 () (hp_label s)\<rparr>
      else s\<lparr>hp_writing := hp_writing s - 1, hp_label := hide_label (hp_label s)\<rparr>)"
| "home_step origin s (HpShared ok) =
     (if hp_sharing s = 0 then s
      else if ok then s\<lparr>hp_sharing := hp_sharing s - 1, hp_tracked := hp_tracked s @ [landing_event ''native_share'']\<rparr>
      else s\<lparr>hp_sharing := hp_sharing s - 1\<rparr>)"
| "home_step origin s (HpWait ms) = s\<lparr>hp_label := pass_time ms (hp_label s)\<rparr>"

definition share_button :: "home_page \<Rightarrow> string" where
  "share_button s = (if cp_shown (hp_label s) \<noteq> None then ''Promo link copied'' else ''Share promo link'')"

definition home_ok :: "string \<Rightarrow> home_page \<Rightarrow> bool" where
  "home_ok origin s \<longleftrightarrow> label_ok 1800 (hp_label s) \<and> (cp_shown (hp_label s) \<noteq> None \<longrightarrow> hp_clipboard s = Some (shareUrl origin))"

interpretation home: machine home_init "home_step origin" "home_ok origin" for origin
proof
  show "home_ok origin home_init" by (simp add: home_ok_def home_init_def label_ok_parts) (simp add: no_label_def)
next
  fix s e
  assume "home_ok origin s"
  then show "home_ok origin (home_step origin s e)"
    by (cases e) (auto simp: home_ok_def label_ok_parts label_ok_time hide_label_def dest: pass_time_shown,
      simp_all add: label_ok_def)
qed

text \<open>The button says that the link was copied only while it is in the clipboard, and for at most 1.8 seconds after the last tap.\<close>

lemma home_label:
  assumes "s = run (home_step origin) home_init es"
  shows "share_button s = ''Promo link copied'' \<longrightarrow> hp_clipboard s = Some (origin @ ''/go/friend-share'')"
    and "1800 \<le> ms \<Longrightarrow> share_button (home_step origin s (HpWait ms)) = ''Share promo link''"
proof -
  have ok: "home_ok origin s" unfolding assms by (rule home.always)
  have "shareUrl origin = origin @ ''/go/friend-share''" using invite_link_resolves [of origin] by (simp add: invite_link_def shareUrl_def)
  with ok show "share_button s = ''Promo link copied'' \<longrightarrow> hp_clipboard s = Some (origin @ ''/go/friend-share'')"
    by (auto simp: share_button_def home_ok_def split: if_splits)
  assume "1800 \<le> ms"
  with ok show "share_button (home_step origin s (HpWait ms)) = ''Share promo link''"
    by (simp add: share_button_def home_ok_def label_goes [of 1800])
qed

text \<open>Every figure on the page is a fighter of the roster.\<close>

lemma heroes_shown: "list_all (\<lambda>(i, p, w). HeroFighter i = Some (i, p, w)) HERO_FIGHTERS"
  by (simp add: HERO_FIGHTERS_def HeroFighter_def getCharacter_def CHARACTERS_def)

subsection \<open>The promo kit\<close>

definition POSTS :: "(string \<times> string \<times> string) list" where
  "POSTS =
     [(''Short-form video'', ''Friend duel'',
         utf8 [236, 132, 164, 236, 185, 152] @ '' '' @ utf8 [236, 151, 134, 236, 157, 180] @ '' '' @ utf8 [236, 185, 156, 234, 181, 172,
         235, 158, 145] @ '' '' @ utf8 [235, 176, 148, 235, 161, 156] @ '' '' @ utf8 [235, 182, 153, 235, 138, 148] @ '' '' @ utf8 [234,
         184, 176, 236, 139, 184, 236, 155, 128] @ '' PvP '' @ utf8 [235, 167, 140, 235, 147, 164, 236, 151, 136, 236, 138, 181, 235, 139,
         136, 235, 139, 164] @ ''. '' @ utf8 [235, 167, 129, 237, 129, 172] @ '' '' @ utf8 [235, 136, 132, 235, 165, 180, 235, 169, 180] @
         '' '' @ utf8 [235, 176, 169] @ '' '' @ utf8 [235, 167, 140, 235, 147, 164, 234, 179, 160] @ '' '' @ utf8 [235, 176, 148, 235, 161,
         156] @ '' '' @ utf8 [235, 140, 128, 236, 160, 132, 235, 144, 169, 235, 139, 136, 235, 139, 164] @ ''.''),
      (''Community'', ''Feedback ask'',
         utf8 [236, 155, 185, 236, 151, 144, 236, 132, 156] @ '' '' @ utf8 [235, 176, 148, 235, 161, 156] @ '' '' @ utf8 [235, 144, 152,
         235, 138, 148] @ '' 1v1 '' @ utf8 [236, 139, 172, 235, 166, 172, 236, 160, 132] @ '' '' @ utf8 [234, 178, 140, 236, 158, 132] @
         '' '' @ utf8 [237, 133, 140, 236, 138, 164, 237, 138, 184] @ '' '' @ utf8 [236, 164, 145, 236, 158, 133, 235, 139, 136, 235, 139,
         164] @ ''. PvP '' @ utf8 [235, 176, 169] @ '' '' @ utf8 [235, 167, 140, 235, 147, 164, 234, 179, 160] @ '' '' @ utf8 [237, 149,
         156] @ '' '' @ utf8 [237, 140, 144, 235, 167, 140] @ '' '' @ utf8 [237, 149, 180, 235, 179, 180, 234, 179, 160] @ '' '' @ utf8
         [236, 150, 180, 235, 148, 148, 236, 132, 156] @ '' '' @ utf8 [236, 157, 180, 237, 131, 136, 237, 149, 152, 235, 138, 148, 236,
         167, 128] @ '' '' @ utf8 [237, 148, 188, 235, 147, 156, 235, 176, 177] @ '' '' @ utf8 [235, 182, 128, 237, 131, 129, 235, 147,
         156, 235, 166, 189, 235, 139, 136, 235, 139, 164] @ ''.''),
      (''Founder post'', ''Build-in-public'',
         ''JJAN! Ki Clash is live as a browser-first 1v1 ki reveal duel. No install, just open a PvP room and send the link.''),
      (''Creator DM'', ''Demo request'',
         utf8 [236, 167, 167, 236, 157, 128] @ '' PvP '' @ utf8 [236, 155, 185, 234, 178, 140, 236, 158, 132] @ '' '' @ utf8 [237, 149,
         152, 235, 130, 152] @ '' '' @ utf8 [235, 167, 140, 235, 147, 164, 236, 151, 136, 236, 138, 181, 235, 139, 136, 235, 139, 164] @
         ''. 30'' @ utf8 [236, 180, 136] @ '' '' @ utf8 [236, 149, 136, 236, 151, 144] @ '' '' @ utf8 [237, 149, 156] @ '' '' @ utf8 [237,
         140, 144] @ '' '' @ utf8 [235, 129, 157, 235, 130, 152, 235, 138, 148] @ '' '' @ utf8 [236, 185, 156, 234, 181, 172] @ '' '' @
         utf8 [235, 140, 128, 236, 160, 132, 236, 154, 169, 236, 157, 180, 235, 157, 188] @ '' '' @ utf8 [236, 135, 188, 236, 184, 160] @
         '' '' @ utf8 [236, 134, 140, 236, 158, 172, 235, 161, 156] @ '' '' @ utf8 [235, 167, 158, 236, 157, 132] @ '' '' @ utf8 [234, 178,
         131] @ '' '' @ utf8 [234, 176, 153, 236, 149, 132] @ '' '' @ utf8 [235, 141, 176, 235, 170, 168] @ '' '' @ utf8 [235, 167, 129,
         237, 129, 172] @ '' '' @ utf8 [235, 179, 180, 235, 131, 133, 235, 139, 136, 235, 139, 164] @ ''.'')]"

definition SHOT_LIST :: "string list" where
  "SHOT_LIST =
     [utf8 [235, 176, 169] @ '' '' @ utf8 [236, 131, 157, 236, 132, 177] @ '' '' @ utf8 [235, 178, 132, 237, 138, 188] @ '' '' @ utf8
         [235, 136, 132, 235, 165, 180, 235, 138, 148] @ '' 1'' @ utf8 [236, 180, 136],
      utf8 [236, 185, 156, 234, 181, 172, 236, 151, 144, 234, 178, 140] @ '' '' @ utf8 [236, 189, 148, 235, 147, 156] @ ''/'' @ utf8
         [235, 167, 129, 237, 129, 172] @ '' '' @ utf8 [235, 179, 180, 235, 130, 180, 235, 138, 148] @ '' '' @ utf8 [236, 158, 165, 235,
         169, 180],
      utf8 [235, 145, 152] @ '' '' @ utf8 [235, 139, 164] @ '' Ready '' @ utf8 [235, 144, 152, 235, 138, 148] @ '' '' @ utf8 [236, 158,
         165, 235, 169, 180],
      utf8 [236, 182, 169, 236, 160, 132, 237, 149, 152, 235, 139, 164, 234, 176, 128] @ '' '' @ utf8 [237, 149, 156] @ '' '' @ utf8
         [235, 176, 169] @ '' '' @ utf8 [235, 167, 158, 235, 138, 148] @ '' '' @ utf8 [236, 158, 165, 235, 169, 180],
      utf8 [236, 138, 185, 235, 166, 172] @ ''/'' @ utf8 [237, 140, 168, 235, 176, 176] @ '' '' @ utf8 [234, 178, 176, 234, 179, 188] @
         '' '' @ utf8 [237, 153, 148, 235, 169, 180],
      utf8 [235, 139, 164, 235, 165, 184] @ '' '' @ utf8 [236, 186, 144, 235, 166, 173, 237, 132, 176, 235, 161, 156] @ '' '' @ utf8
         [236, 158, 172, 235, 143, 132, 236, 160, 132, 237, 149, 152, 235, 138, 148] @ '' '' @ utf8 [236, 158, 165, 235, 169, 180]]"

record promo_link =
  pl_campaign :: promo_campaign
  pl_shortUrl :: string
  pl_targetUrl :: string

definition kit_links :: "string \<Rightarrow> promo_link list" where
  "kit_links origin = map (\<lambda>c. \<lparr>pl_campaign = c, pl_shortUrl = buildPromoUrl (Campaign c) origin, pl_targetUrl = buildCampaignTarget (Campaign c) origin\<rparr>) PROMO_CAMPAIGNS"

text \<open>A button copies a text, shows \<open>Copied\<close> while its label is the shown one, and reports the campaign's slug, if any.\<close>

record copy_button =
  cb_label :: string
  cb_text :: string
  cb_promo :: "string option"

definition kit_buttons :: "string \<Rightarrow> copy_button list" where
  "kit_buttons origin =
     map (\<lambda>l. \<lparr>cb_label = pc_slug (pl_campaign l), cb_text = pl_shortUrl l, cb_promo = Some (pc_slug (pl_campaign l))\<rparr>) (kit_links origin) @
     map (\<lambda>(channel, title, copy). \<lparr>cb_label = title, cb_text = copy, cb_promo = None\<rparr>) POSTS"

record promo_kit =
  pk_label :: "string copied_label"
  pk_writing :: "copy_button list"
  pk_clipboard :: "string option"
  pk_tracked :: "(string \<times> js_obj) list"

definition kit_init :: promo_kit where
  "kit_init = \<lparr>pk_label = no_label, pk_writing = [], pk_clipboard = None, pk_tracked = []\<rparr>"

definition kit_event :: "copy_button \<Rightarrow> string \<times> js_obj" where
  "kit_event b = (''promo_link_copied'', [(''surface'', Some (JStr ''promo_kit'')), (''label'', Some (JStr (cb_label b))), (''promo'', map_option JStr (cb_promo b))])"

datatype kit_input = PkClick nat | PkWritten nat bool | PkWait nat

fun kit_step :: "string \<Rightarrow> promo_kit \<Rightarrow> kit_input \<Rightarrow> promo_kit" where
  "kit_step origin s (PkClick i) = (if i < length (kit_buttons origin) then s\<lparr>pk_writing := pk_writing s @ [kit_buttons origin ! i]\<rparr> else s)"
| "kit_step origin s (PkWritten j ok) =
     (if j < length (pk_writing s) then
        (let b = pk_writing s ! j; s1 = s\<lparr>pk_writing := take j (pk_writing s) @ drop (Suc j) (pk_writing s)\<rparr>
         in if ok then s1\<lparr>pk_clipboard := Some (cb_text b), pk_tracked := pk_tracked s1 @ [kit_event b], pk_label := show_label 1600 (cb_label b) (pk_label s1)\<rparr>
            else s1\<lparr>pk_label := hide_label (pk_label s1)\<rparr>)
      else s)"
| "kit_step origin s (PkWait ms) = s\<lparr>pk_label := pass_time ms (pk_label s)\<rparr>"

definition says_copied :: "promo_kit \<Rightarrow> copy_button \<Rightarrow> bool" where
  "says_copied s b \<longleftrightarrow> cp_shown (pk_label s) = Some (cb_label b)"

definition kit_ok :: "string \<Rightarrow> promo_kit \<Rightarrow> bool" where
  "kit_ok origin s \<longleftrightarrow> label_ok 1600 (pk_label s) \<and> set (pk_writing s) \<subseteq> set (kit_buttons origin) \<and>
     (\<forall>l. cp_shown (pk_label s) = Some l \<longrightarrow> (\<exists>b \<in> set (kit_buttons origin). cb_label b = l \<and> pk_clipboard s = Some (cb_text b)))"

lemma kit_labels_distinct: "distinct (map cb_label (kit_buttons origin))"
  by (simp add: kit_buttons_def kit_links_def POSTS_def comp_def) (simp add: PROMO_CAMPAIGNS_def)

interpretation kit: machine kit_init "kit_step origin" "kit_ok origin" for origin
proof
  show "kit_ok origin kit_init" by (simp add: kit_ok_def kit_init_def label_ok_parts) (simp add: no_label_def)
next
  fix s e
  assume ok: "kit_ok origin s"
  show "kit_ok origin (kit_step origin s e)"
  proof (cases e)
    case (PkWritten j written)
    have "set (take j (pk_writing s) @ drop (Suc j) (pk_writing s)) \<subseteq> set (pk_writing s)"
      by (auto dest: in_set_takeD in_set_dropD)
    moreover have "j < length (pk_writing s) \<Longrightarrow> pk_writing s ! j \<in> set (kit_buttons origin)" using ok nth_mem unfolding kit_ok_def by blast
    ultimately show ?thesis
      using ok PkWritten by (auto simp: kit_ok_def Let_def label_ok_parts show_label_def [of _ _ "pk_label s"] hide_label_def [of "pk_label s"]
        simp del: set_append, simp_all add: label_ok_parts(2) [unfolded show_label_def] label_ok_parts(3) [unfolded hide_label_def])
  qed (use ok in \<open>auto simp: kit_ok_def label_ok_time dest: pass_time_shown\<close>)
qed

lemma one_label: "distinct (map f xs) \<Longrightarrow> length (filter (\<lambda>x. Some l = Some (f x)) xs) \<le> 1"
  by (induction xs) (auto simp: filter_empty_conv)

text \<open>
  Claim C40: On the promo kit at most one button says Copied, whatever is clicked and however the writes
  to the clipboard interleave; the text of that button is what the clipboard holds, and 1.6 seconds
  without a write later no button says so.
\<close>

theorem kit_says_what_was_copied:
  assumes "s = run (kit_step origin) kit_init es"
  shows "length (filter (says_copied s) (kit_buttons origin)) \<le> 1 \<and>
    (\<forall>b \<in> set (kit_buttons origin). says_copied s b \<longrightarrow> pk_clipboard s = Some (cb_text b)) \<and>
    (\<forall>ms \<ge> 1600. \<forall>b. \<not> says_copied (kit_step origin s (PkWait ms)) b)"
proof (intro conjI ballI allI impI)
  have ok: "kit_ok origin s" unfolding assms by (rule kit.always)
  show "length (filter (says_copied s) (kit_buttons origin)) \<le> 1"
    using one_label [OF kit_labels_distinct] by (cases "cp_shown (pk_label s)") (simp_all add: says_copied_def [abs_def])
  show "pk_clipboard s = Some (cb_text b)" if "b \<in> set (kit_buttons origin)" "says_copied s b" for b
    using ok that kit_labels_distinct [of origin] unfolding kit_ok_def says_copied_def distinct_map inj_on_def by metis
  show "\<not> says_copied (kit_step origin s (PkWait ms)) b" if "1600 \<le> ms" for ms b
    using ok that by (simp add: says_copied_def kit_ok_def label_goes [of 1600])
qed

lemma kit_says_what_was_copied_witness:
  "length (filter (says_copied (run (kit_step ''https://jjan.daeseon.ai'') kit_init [PkClick 0, PkClick 11, PkWritten 1 True, PkWritten 0 True]))
     (kit_buttons ''https://jjan.daeseon.ai'')) \<le> 1"
  using kit_says_what_was_copied [OF refl, of "''https://jjan.daeseon.ai''" "[PkClick 0, PkClick 11, PkWritten 1 True, PkWritten 0 True]"] by blast

text \<open>An earlier copy's timer clears the label of a later one: half a second after the second copy it is gone.\<close>

lemma earlier_timer_clears_kit_label:
  "cp_shown (pk_label (run (kit_step origin) kit_init [PkClick 0, PkWritten 0 True, PkWait 1500, PkClick 1, PkWritten 0 True])) \<noteq> None \<and>
   cp_shown (pk_label (run (kit_step origin) kit_init [PkClick 0, PkWritten 0 True, PkWait 1500, PkClick 1, PkWritten 0 True, PkWait 100])) = None"
proof -
  have "1 < length (kit_buttons origin)" "kit_buttons origin \<noteq> []" by (simp_all add: kit_buttons_def kit_links_def PROMO_CAMPAIGNS_def)
  then show ?thesis
    by (simp add: kit_init_def no_label_def no_timers_def show_label_def set_timeout_def pass_time_def elapse_def Let_def)
qed

text \<open>Every link of the table goes through \<open>/go\<close> to the target shown under it.\<close>

lemma kit_links_resolve:
  assumes "l \<in> set (kit_links origin)" "origin_ok origin"
  shows "pl_shortUrl l = origin @ ''/go/'' @ pc_slug (pl_campaign l)"
    and "origin @ promo_target origin (Some (pc_slug (pl_campaign l))) [] = pl_targetUrl l"
proof -
  obtain c where c: "c \<in> set PROMO_CAMPAIGNS" "l = \<lparr>pl_campaign = c, pl_shortUrl = buildPromoUrl (Campaign c) origin, pl_targetUrl = buildCampaignTarget (Campaign c) origin\<rparr>"
    using assms(1) by (auto simp: kit_links_def)
  show "pl_shortUrl l = origin @ ''/go/'' @ pc_slug (pl_campaign l)"
    by (simp add: c buildPromoUrl_def href_def new_url_at_def url_search_def)
  let ?u = "(new_url_at (pc_targetPath c) origin)\<lparr>u_query := params_to_string (campaignSearchParams (Campaign c))\<rparr>"
  have "parse_url (href ?u) = ?u"
    using campaign_paths [OF c(1)] assms(2) by (intro parse_href) (simp_all add: new_url_at_def)
  then show "origin @ promo_target origin (Some (pc_slug (pl_campaign l))) [] = pl_targetUrl l"
    using campaign_paths [OF c(1)] campaign_found [OF c(1)]
    by (simp add: c promo_target_def buildCampaignTarget_def Let_def) (simp add: href_def new_url_at_def)
qed

subsection \<open>The phone's home screen\<close>

definition DIFFICULTIES :: "(difficulty \<times> string \<times> string) list" where
  "DIFFICULTIES =
     [(Novice, ''Novice'', ''Barely reactive '' @ utf8 [226, 128, 148] @ '' great for learning''),
      (Easy, ''Easy'', ''Random moves, charges a lot''),
      (Medium, ''Medium'', ''Reads your patterns, punishes habits''),
      (Hard, ''Hard'', ''Adapts fast, manages ki aggressively''),
      (Expert, ''Expert'', ''Calculates optimal moves '' @ utf8 [226, 128, 148] @ '' brutal''),
      (Grandmaster, ''Grandmaster'', ''Solved the game. Punishes every habit. Near-unbeatable.'')]"

datatype lobby_link = GoGame difficulty | GoPvP | GoTutorial | GoInvite | GoHistory | GoRanked

fun pushed :: "lobby_link \<Rightarrow> string \<times> (string \<times> string) list" where
  "pushed (GoGame d) = (''/game'', [(''difficulty'', difficulty_str d)])"
| "pushed GoPvP = (''/pvp'', [])"
| "pushed GoTutorial = (''/tutorial'', [])"
| "pushed GoInvite = (''/invite'', [])"
| "pushed GoHistory = (''/history'', [])"
| "pushed GoRanked = (''/ranked'', [])"

definition LobbyScreen :: "(string \<times> lobby_link) list" where
  "LobbyScreen = map (\<lambda>(level, label, desc). (label, GoGame level)) DIFFICULTIES @
     [(''vs Real Player (PvP) '' @ utf8 [226, 134, 146], GoPvP), (''Tutorial '' @ utf8 [226, 128, 148] @ '' Learn the basics'', GoTutorial),
      (''Challenge a Friend'', GoInvite), (''Match History'', GoHistory), (''Ranked Leaderboard'', GoRanked)]"

text \<open>Every level of the backend can be chosen exactly once, and no two entries lead to the same place.\<close>

lemma lobby_offers_all: "d \<in> fst ` set DIFFICULTIES" "distinct (map (pushed \<circ> snd) LobbyScreen)" "distinct (map fst LobbyScreen)"
  by (cases d) (simp_all add: DIFFICULTIES_def LobbyScreen_def utf8_def)

subsection \<open>The test page of the WebGL arena\<close>

definition EFFECTS :: "(fx_kind \<times> string) list" where
  "EFFECTS = [(FxCharge, ''Charge''), (FxAttack, ''Attack''), (FxEnergyWave, ''Ki Burst''), (FxTeleport, ''Teleport''), (FxBlock, ''Block''), (FxFinisher, ''FINISHER'')]"

record pixi_page =
  px_playerId :: string
  px_enemyId :: string
  px_effect :: "overlay_effect option"
  px_nonce :: nat

definition pixi_init :: pixi_page where
  "pixi_init = \<lparr>px_playerId = ''haneul'', px_enemyId = ''taeyang'', px_effect = None, px_nonce = 0\<rparr>"

definition fire :: "fx_kind \<Rightarrow> overlay_side \<Rightarrow> pixi_page \<Rightarrow> pixi_page" where
  "fire k sd s = (let n = px_nonce s + 1 in s\<lparr>px_nonce := n, px_effect := Some \<lparr>oe_kind = k, oe_side = sd, oe_nonce = n\<rparr>\<rparr>)"

definition fighter_src :: "string \<Rightarrow> string" where
  "fighter_src i = ''/fighters/'' @ i @ ''/idle.png''"

definition pixi_props :: "pixi_page \<Rightarrow> arena_props" where
  "pixi_props s =
     \<lparr>ap_srcs = (fighter_src (px_playerId s), fighter_src (px_enemyId s)),
      ap_colors = (hexToNum (map_option ch_color (find (\<lambda>c. ch_id c = px_playerId s) CHARACTERS)),
                   hexToNum (map_option ch_color (find (\<lambda>c. ch_id c = px_enemyId s) CHARACTERS))),
      ap_effect = px_effect s\<rparr>"

text \<open>
  The page with the component it renders.  Both rows of fighters offer the whole roster, so a picked
  number is a place in it; every change renders the component anew.
\<close>

datatype pixi_event = PickPlayer nat | PickEnemy nat | FireButton nat overlay_side | ArenaEvent host_event

definition rendered :: "(nat \<Rightarrow> real) \<Rightarrow> arena_host \<Rightarrow> pixi_page \<Rightarrow> pixi_page \<times> arena_host" where
  "rendered rnd h s = (s, render_arena rnd (pixi_props s) h)"

fun of_arena :: "host_event \<Rightarrow> bool" where
  "of_arena (RenderArena p) = False" | "of_arena UnmountArena = False" | "of_arena e = True"

fun pixi_step :: "(nat \<Rightarrow> real) \<Rightarrow> pixi_page \<times> arena_host \<Rightarrow> pixi_event \<Rightarrow> pixi_page \<times> arena_host" where
  "pixi_step rnd (s, h) (PickPlayer i) = (if i < length CHARACTERS then rendered rnd h (s\<lparr>px_playerId := ch_id (CHARACTERS ! i)\<rparr>) else (s, h))"
| "pixi_step rnd (s, h) (PickEnemy i) = (if i < length CHARACTERS then rendered rnd h (s\<lparr>px_enemyId := ch_id (CHARACTERS ! i)\<rparr>) else (s, h))"
| "pixi_step rnd (s, h) (FireButton i sd) = (if i < length EFFECTS then rendered rnd h (fire (fst (EFFECTS ! i)) sd s) else (s, h))"
| "pixi_step rnd (s, h) (ArenaEvent e) = (s, if of_arena e then host_step rnd h e else h)"

definition pixi_start :: "(nat \<Rightarrow> real) \<Rightarrow> pixi_page \<times> arena_host" where
  "pixi_start rnd = rendered rnd host_init pixi_init"

definition pixi_ok :: "pixi_page \<times> arena_host \<Rightarrow> bool" where
  "pixi_ok sh \<longleftrightarrow> ah_props (snd sh) = Some (pixi_props (fst sh)) \<and>
     (case px_effect (fst sh) of None \<Rightarrow> px_nonce (fst sh) = 0 | Some e \<Rightarrow> oe_nonce e = px_nonce (fst sh))"

lemma fire_effect_props [simp]: "ah_props (fire_effect rnd e h) = ah_props h"
  by (simp add: fire_effect_def split: option.split)

lemma render_props: "ah_props (render_arena rnd p h) = Some p"
  by (simp add: render_arena_def Let_def split: option.split)

lemma arena_keeps_props: "of_arena e \<Longrightarrow> ah_props (host_step rnd h e) = ah_props h"
  by (cases e) (simp_all add: init_returned_def pictures_loaded_def)

interpretation pixi: machine "pixi_start rnd" "pixi_step rnd" pixi_ok for rnd
proof
  show "pixi_ok (pixi_start rnd)" by (simp add: pixi_ok_def pixi_start_def rendered_def render_props pixi_init_def)
next
  fix sh e
  assume "pixi_ok sh"
  then show "pixi_ok (pixi_step rnd sh e)"
    by (cases sh; cases e; cases "px_effect (fst sh)") (auto simp: pixi_ok_def rendered_def render_props arena_keeps_props fire_def Let_def)
qed

text \<open>
  On the test page, once the scene is built, every press of an effect button starts exactly the effect of
  the button, on its side, and picking other fighters starts none.
\<close>

lemma press_starts_effect:
  assumes "(s, h) = run (pixi_step rnd) (pixi_start rnd) es" "ah_trigger h = Some r"
  shows "i < length EFFECTS \<Longrightarrow> ah_fired (snd (pixi_step rnd (s, h) (FireButton i sd))) = ah_fired h @ [(fst (EFFECTS ! i), sd)]"
    and "ah_fired (snd (pixi_step rnd (s, h) (PickPlayer j))) = ah_fired h"
proof -
  have "pixi_ok (s, h)" unfolding assms(1) by (rule pixi.always)
  then have props: "ah_props h = Some (pixi_props s)" and n: "map_option oe_nonce (px_effect s) \<noteq> Some (Suc (px_nonce s))"
    by (auto simp: pixi_ok_def split: option.splits)
  have deps: "arena_deps (pixi_props (fire k sd s)) = arena_deps (pixi_props s)" for k
    by (simp add: arena_deps_def pixi_props_def fire_def Let_def)
  show "ah_fired (snd (pixi_step rnd (s, h) (FireButton i sd))) = ah_fired h @ [(fst (EFFECTS ! i), sd)]" if "i < length EFFECTS"
    using that props n deps assms(2)
    by (simp add: rendered_def render_arena_def Let_def) (simp add: pixi_props_def fire_def fire_effect_def Let_def)
  have fired: "ah_fired (mount_arena p h') = ah_fired h'" "ah_fired (cleanup_arena h') = ah_fired h'" for p h'
    by (simp_all add: mount_arena_def cleanup_arena_def)
  show "ah_fired (snd (pixi_step rnd (s, h) (PickPlayer j))) = ah_fired h"
    using props by (simp add: rendered_def render_arena_def Let_def fired) (simp add: pixi_props_def)
qed

end
