(* ===== verification/Page_Stage.thy ===== *)
theory Page_Stage
  imports Play_Page PvP_Page Fx_Overlay Timers
begin

text \<open>
  What becomes of the commands of the match pages' phase-change effects
  (\<open>web/src/app/play/page.tsx\<close>, \<open>web/src/app/pvp/page.tsx\<close>): sounds and particle effects
  now or after a delay, the timer of the opponent's effect and its clean-up when the page
  goes away, the screen shake of a revealed outcome, and the timer that opens a room link.
\<close>

subsection \<open>Delayed calls\<close>

text \<open>
  A delayed sound calls the \<open>play\<close> of the render that set it, whose mute flag it keeps.
  \<open>sg_heard\<close> lists the sounds \<open>play\<close> lets through, \<open>sg_triggered\<close> the calls of
  \<open>triggerArenaAction\<close>.  React ignores a state update of a page that is gone, while
  \<open>effectNonce\<close> is a ref.
\<close>

datatype late_call = LatePlay bool string | LateEffect action fx_side | ClearShake

record stage_fx =
  sg_fx :: fx_page
  sg_enemyTimer :: "nat option"
  sg_shakeClass :: string
  sg_heard :: "string list"
  sg_triggered :: "action_kind list"
  sg_mounted :: bool

definition stage_mount :: stage_fx where
  "stage_mount = \<lparr>sg_fx = fx_page_init, sg_enemyTimer = None, sg_shakeClass = [],
     sg_heard = [], sg_triggered = [], sg_mounted = True\<rparr>"

fun fx_of_action :: "action \<Rightarrow> fx_kind" where
  "fx_of_action Charge = FxCharge"
| "fx_of_action Block = FxBlock"
| "fx_of_action Attack = FxAttack"
| "fx_of_action EnergyWave = FxEnergyWave"
| "fx_of_action Teleport = FxTeleport"

fun overlay_of_side :: "fx_side \<Rightarrow> overlay_side" where
  "overlay_of_side SidePlayer = FxPlayer"
| "overlay_of_side SideEnemy = FxEnemy"

definition hear :: "bool \<Rightarrow> string \<Rightarrow> stage_fx \<Rightarrow> stage_fx" where
  "hear muted n s = (if muted then s else s\<lparr>sg_heard := sg_heard s @ [n]\<rparr>)"

definition fire_now :: "action \<Rightarrow> fx_side \<Rightarrow> stage_fx \<Rightarrow> stage_fx" where
  "fire_now a sd s =
     (let f = fireEffect (fx_of_action a) (overlay_of_side sd) (sg_fx s)
      in s\<lparr>sg_fx := (if sg_mounted s then f else f\<lparr>fp_effect := fp_effect (sg_fx s)\<rparr>)\<rparr>)"

fun late_exec :: "late_call \<Rightarrow> stage_fx \<Rightarrow> stage_fx" where
  "late_exec (LatePlay muted n) s = hear muted n s"
| "late_exec (LateEffect a sd) s = fire_now a sd s"
| "late_exec ClearShake s = (if sg_mounted s then s\<lparr>sg_shakeClass := []\<rparr> else s)"

text \<open>
  One command of the effect.  The match count of \<open>CallOnMatchEnd\<close> is the ad hook's and
  is followed by the pages' own models.
\<close>

fun stage_cmd :: "bool \<Rightarrow> page_cmd \<Rightarrow> late_call timers \<times> stage_fx \<Rightarrow> late_call timers \<times> stage_fx" where
  "stage_cmd muted (PlaySound n) (t, s) = (t, hear muted n s)"
| "stage_cmd muted (PlaySoundLater d n) (t, s) = (snd (set_timeout (LatePlay muted n) d t), s)"
| "stage_cmd muted (TriggerArena k) (t, s) = (t, s\<lparr>sg_triggered := sg_triggered s @ [k]\<rparr>)"
| "stage_cmd muted (FireEffect a sd) (t, s) = (t, fire_now a sd s)"
| "stage_cmd muted ClearEnemyTimer (t, s) =
     ((case sg_enemyTimer s of None \<Rightarrow> t | Some i \<Rightarrow> clear_timeout i t), s)"
| "stage_cmd muted (FireEffectLater d a sd) (t, s) =
     (let r = set_timeout (LateEffect a sd) d t in (snd r, s\<lparr>sg_enemyTimer := Some (fst r)\<rparr>))"
| "stage_cmd muted CallOnMatchEnd (t, s) = (t, s)"

definition stage_cmds ::
  "bool \<Rightarrow> page_cmd list \<Rightarrow> late_call timers \<times> stage_fx \<Rightarrow> late_call timers \<times> stage_fx" where
  "stage_cmds muted cmds ts = fold (stage_cmd muted) cmds ts"

text \<open>The outcome shown by the reveal shakes the page; the class goes after half a second.\<close>

definition stage_outcomeRevealed ::
  "turn_outcome \<Rightarrow> late_call timers \<times> stage_fx \<Rightarrow> late_call timers \<times> stage_fx" where
  "stage_outcomeRevealed o1 ts =
     (let cls = getShakeClass o1
      in if cls = [] then ts
         else (snd (set_timeout ClearShake 500 (fst ts)), (snd ts)\<lparr>sg_shakeClass := cls\<rparr>))"

text \<open>The page goes away: of its pending calls only the opponent's effect is cancelled.\<close>

definition stage_unmount :: "late_call timers \<times> stage_fx \<Rightarrow> late_call timers \<times> stage_fx" where
  "stage_unmount ts =
     ((case sg_enemyTimer (snd ts) of None \<Rightarrow> fst ts | Some i \<Rightarrow> clear_timeout i (fst ts)),
      (snd ts)\<lparr>sg_mounted := False\<rparr>)"

datatype stage_event =
    PlayPhase bool game_phase game
  | PvpPhase pvp_phase pvp
  | OutcomeShown turn_outcome
  | StageWait nat
  | StageGone

fun stage_step :: "late_call timers \<times> stage_fx \<Rightarrow> stage_event \<Rightarrow> late_call timers \<times> stage_fx" where
  "stage_step ts (PlayPhase muted prev g) = stage_cmds muted (transition_effect prev g) ts"
| "stage_step ts (PvpPhase prev p) = stage_cmds False (pvp_transition prev p) ts"
| "stage_step ts (OutcomeShown o1) = stage_outcomeRevealed o1 ts"
| "stage_step ts (StageWait ms) = elapse late_exec ms ts"
| "stage_step ts StageGone = stage_unmount ts"

text \<open>A page that is gone runs no effect and shows no outcome.\<close>

fun stage_enabled :: "late_call timers \<times> stage_fx \<Rightarrow> stage_event \<Rightarrow> bool" where
  "stage_enabled ts (StageWait ms) = True"
| "stage_enabled ts e = sg_mounted (snd ts)"

subsection \<open>At most one opponent's effect is pending\<close>

definition stage_inv :: "late_call timers \<times> stage_fx \<Rightarrow> bool" where
  "stage_inv ts \<longleftrightarrow>
     (\<forall>x \<in> set (pending (fst ts)). fst x < next_id (fst ts)) \<and>
     (\<forall>i. sg_enemyTimer (snd ts) = Some i \<longrightarrow> i < next_id (fst ts)) \<and>
     (\<forall>x \<in> set (pending (fst ts)). (\<exists>a sd. snd (snd x) = LateEffect a sd) \<longrightarrow>
        sg_enemyTimer (snd ts) = Some (fst x) \<and> sg_mounted (snd ts))"

lemma stage_cmds_simps [simp]:
  "stage_cmds m [] ts = ts" "stage_cmds m (c # cs) ts = stage_cmds m cs (stage_cmd m c ts)"
  "stage_cmds m (cs @ ds) ts = stage_cmds m ds (stage_cmds m cs ts)"
  by (simp_all add: stage_cmds_def)

lemma stage_fx_fields [simp]:
  "sg_mounted (hear m n s) = sg_mounted s" "sg_enemyTimer (hear m n s) = sg_enemyTimer s"
  "sg_fx (hear m n s) = sg_fx s" "sg_shakeClass (hear m n s) = sg_shakeClass s"
  "sg_mounted (fire_now a sd s) = sg_mounted s" "sg_enemyTimer (fire_now a sd s) = sg_enemyTimer s"
  "sg_shakeClass (fire_now a sd s) = sg_shakeClass s" "sg_heard (fire_now a sd s) = sg_heard s"
  by (simp_all add: hear_def fire_now_def Let_def)

lemma late_exec_fields [simp]:
  "sg_mounted (late_exec c s) = sg_mounted s" "sg_enemyTimer (late_exec c s) = sg_enemyTimer s"
  by (cases c; simp)+

lemma fold_late_fields [simp]:
  "sg_mounted (fold (\<lambda>x. late_exec (f x)) xs s) = sg_mounted s"
  "sg_enemyTimer (fold (\<lambda>x. late_exec (f x)) xs s) = sg_enemyTimer s"
  by (induction xs arbitrary: s) simp_all

lemma stage_cmd_mounted [simp]: "sg_mounted (snd (stage_cmd m c ts)) = sg_mounted (snd ts)"
  by (cases ts; cases c; simp add: Let_def)

lemma stage_cmds_mounted [simp]: "sg_mounted (snd (stage_cmds m cs ts)) = sg_mounted (snd ts)"
  by (induction cs arbitrary: ts) simp_all

lemma stage_inv_cmd:
  assumes "stage_inv ts" "\<And>d a sd. c \<noteq> FireEffectLater d a sd"
  shows "stage_inv (stage_cmd m c ts)"
  using assms
  by (cases ts; cases c)
    (auto simp: stage_inv_def set_timeout_def clear_timeout_def less_Suc_eq split: option.split)

text \<open>Setting the opponent's effect keeps the invariant because the old one is cleared first.\<close>

lemma stage_inv_replace:
  assumes "stage_inv ts" "sg_mounted (snd ts)"
  shows "stage_inv (stage_cmd m (FireEffectLater d a sd) (stage_cmd m ClearEnemyTimer ts))"
  using assms
  by (cases ts)
    (fastforce simp: stage_inv_def set_timeout_def clear_timeout_def less_Suc_eq Let_def split: option.split)

lemma stage_inv_reveal:
  "stage_inv ts \<Longrightarrow> sg_mounted (snd ts) \<Longrightarrow> stage_inv (stage_cmds m (reveal_cmds lt) ts)"
  by (cases lt) (simp_all add: reveal_cmds_def stage_inv_replace stage_inv_cmd)

lemma stage_inv_transition:
  assumes "stage_inv ts" "sg_mounted (snd ts)"
  shows "stage_inv (stage_cmds m (transition_effect prev g) ts)"
  using assms
  by (auto simp: transition_effect_def stage_inv_reveal stage_inv_cmd split: option.split)

lemma stage_inv_pvp:
  assumes "stage_inv ts" "sg_mounted (snd ts)"
  shows "stage_inv (stage_cmds m (pvp_transition prev p) ts)"
  using assms
  by (auto simp: pvp_transition_def stage_inv_replace stage_inv_cmd split: option.split)

lemma stage_inv_elapse: "stage_inv ts \<Longrightarrow> stage_inv (elapse late_exec ms ts)"
  by (auto simp: stage_inv_def elapse_def Let_def dest: set_dropWhileD)

lemma stage_inv_shake: "stage_inv ts \<Longrightarrow> stage_inv (stage_outcomeRevealed o1 ts)"
  by (auto simp: stage_inv_def stage_outcomeRevealed_def set_timeout_def Let_def less_Suc_eq)

lemma stage_inv_gone: "stage_inv ts \<Longrightarrow> stage_inv (stage_unmount ts)"
  by (auto simp: stage_inv_def stage_unmount_def clear_timeout_def split: option.split)

lemma stage_inv_step: "stage_inv ts \<Longrightarrow> stage_enabled ts e \<Longrightarrow> stage_inv (stage_step ts e)"
  by (cases e) (simp_all add: stage_inv_transition stage_inv_pvp stage_inv_elapse stage_inv_shake stage_inv_gone)

interpretation stg: guarded_machine "(no_timers, stage_mount)" stage_enabled stage_step stage_inv
  by unfold_locales (simp add: stage_inv_def no_timers_def stage_mount_def, rule stage_inv_step)

text \<open>
  Whatever the order of phases, reveals and waiting: once the page is gone, time passing
  neither fires an effect nor touches the shake class.
\<close>

lemma late_exec_gone:
  assumes "\<not> sg_mounted s" "\<nexists>a sd. c = LateEffect a sd"
  shows "sg_fx (late_exec c s) = sg_fx s \<and> sg_shakeClass (late_exec c s) = sg_shakeClass s"
  using assms by (cases c) auto

lemma fold_late_gone:
  assumes "\<not> sg_mounted s" "\<forall>x \<in> set xs. \<nexists>a sd. snd (snd x) = LateEffect a sd"
  shows "sg_fx (fold (\<lambda>x. late_exec (snd (snd x))) xs s) = sg_fx s \<and>
         sg_shakeClass (fold (\<lambda>x. late_exec (snd (snd x))) xs s) = sg_shakeClass s"
  using assms by (induction xs arbitrary: s) (simp_all add: late_exec_gone)

theorem gone_page_is_still:
  assumes "legal stage_enabled stage_step (no_timers, stage_mount) es"
    and ts: "ts = run stage_step (no_timers, stage_mount) es" and "\<not> sg_mounted (snd ts)"
  shows "sg_fx (snd (elapse late_exec ms ts)) = sg_fx (snd ts) \<and>
    sg_shakeClass (snd (elapse late_exec ms ts)) = sg_shakeClass (snd ts)"
proof -
  have inv: "stage_inv ts" using stg.inv_run [OF assms(1)] by (simp add: ts)
  then have "\<forall>x \<in> set (pending (fst ts)). \<nexists>a sd. snd (snd x) = LateEffect a sd"
    using assms(3) by (auto simp: stage_inv_def)
  then have "\<forall>x \<in> set (takeWhile (\<lambda>x. fst (snd x) \<le> clock (fst ts) + ms) (pending (fst ts))).
      \<nexists>a sd. snd (snd x) = LateEffect a sd"
    by (meson set_takeWhileD)
  from fold_late_gone [OF assms(3) this] show ?thesis by (simp add: elapse_def Let_def)
qed

subsection \<open>A reveal, step by step\<close>

lemma after_reveal:
  assumes "pending t = []" "stage_inv (t, s)"
  shows "stage_cmds m (reveal_cmds (Some tr)) (t, s) =
    (t\<lparr>next_id := next_id t + 2,
       pending := [(next_id t + 1, clock t + 140, LateEffect (tr_p2_action tr) SideEnemy),
                   (next_id t, clock t + 300, LatePlay m (OUTCOME_SOUND (tr_outcome tr)))]\<rparr>,
     (fire_now (tr_p1_action tr) SidePlayer
        (hear m ''reveal'' s\<lparr>sg_triggered := sg_triggered s @ [API_TO_ACTION (tr_p1_action tr)]\<rparr>))
       \<lparr>sg_enemyTimer := Some (next_id t + 1)\<rparr>)"
  using assms
  by (auto simp: reveal_cmds_def set_timeout_def clear_timeout_def stage_inv_def hear_def fire_now_def Let_def
      split: option.split)

lemmas stage_timing = elapse_def fire_now_def fireEffect_def hear_def Let_def

text \<open>
  With no call pending: the player's effect at once, the opponent's after 140 ms and not
  before, the outcome's sound after 300 ms.
\<close>

lemma reveal_on_time:
  assumes "pending t = []" "sg_mounted s" "stage_inv (t, s)"
    and "ts = stage_cmds m (reveal_cmds (Some tr)) (t, s)"
  shows "ms < 140 \<Longrightarrow> fp_effect (sg_fx (snd (elapse late_exec ms ts))) =
      Some \<lparr>oe_kind = fx_of_action (tr_p1_action tr), oe_side = FxPlayer, oe_nonce = fp_nonce (sg_fx s) + 1\<rparr>"
    and "140 \<le> ms \<Longrightarrow> fp_effect (sg_fx (snd (elapse late_exec ms ts))) =
      Some \<lparr>oe_kind = fx_of_action (tr_p2_action tr), oe_side = FxEnemy, oe_nonce = fp_nonce (sg_fx s) + 2\<rparr>"
    and "ms < 300 \<Longrightarrow> sg_heard (snd (elapse late_exec ms ts)) = sg_heard (hear m ''reveal'' s)"
    and "300 \<le> ms \<Longrightarrow> sg_heard (snd (elapse late_exec ms ts)) =
      sg_heard (hear m (OUTCOME_SOUND (tr_outcome tr)) (hear m ''reveal'' s))"
  using assms by (simp_all add: after_reveal stage_timing)

text \<open>
  A reveal that follows within 140 ms replaces the opponent's effect of the one before:
  of two reveals in a row only the second one's is fired.
\<close>

lemma quick_reveals_replace:
  assumes "pending t = []" "sg_mounted s" "stage_inv (t, s)" "ms < 140"
  shows "fp_nonce (sg_fx (snd (elapse late_exec 140 (stage_cmds m (reveal_cmds (Some tr2))
      (elapse late_exec ms (stage_cmds m (reveal_cmds (Some tr1)) (t, s))))))) = fp_nonce (sg_fx s) + 3"
  using assms
  by (simp add: after_reveal stage_timing) (auto simp: reveal_cmds_def set_timeout_def clear_timeout_def stage_timing)

text \<open>
  Leaving the page cancels the opponent's effect but no sound: the outcome of a reveal
  is heard on the page the player has gone to, and a mute pressed meanwhile does not
  reach the \<open>play\<close> that the timer holds.
\<close>

lemma outcome_sound_outlives_page:
  assumes "pending t = []" "sg_mounted s" "stage_inv (t, s)"
  shows "sg_heard (snd (elapse late_exec 300 (stage_unmount
      (stage_cmds False (reveal_cmds (Some tr)) (t, s))))) =
      sg_heard s @ [''reveal'', OUTCOME_SOUND (tr_outcome tr)]"
  using assms by (simp add: after_reveal stage_timing stage_unmount_def clear_timeout_def)

text \<open>
  A shake lasts half a second when nothing else is pending.  The timer of one shake is
  not cancelled by the next: two within half a second end together with the first.
\<close>

lemma shake_lasts_half_a_second:
  assumes "pending t = []" "sg_mounted s"
  shows "sg_shakeClass (snd (elapse late_exec ms (stage_outcomeRevealed o1 (t, s)))) =
     (if getShakeClass o1 = [] then sg_shakeClass s else if ms < 500 then getShakeClass o1 else [])"
  using assms by (auto simp: stage_outcomeRevealed_def set_timeout_def elapse_def Let_def)

lemma second_shake_cut_off:
  assumes "pending t = []" "sg_mounted s" "ms < 500" "o1 \<noteq> Neutral"
  shows "sg_shakeClass (snd (elapse late_exec (500 - ms) (stage_outcomeRevealed o2
      (elapse late_exec ms (stage_outcomeRevealed o1 (t, s)))))) = []"
proof -
  have "getShakeClass o1 \<noteq> []" using assms(4) by (cases o1) simp_all
  with assms(1-3) show ?thesis
    by (simp add: stage_outcomeRevealed_def set_timeout_def elapse_def Let_def)
qed

subsection \<open>Opening a room link\<close>

text \<open>
  The online page's effect on mounting reads the link once (a ref remembers that it did)
  and opens the room in a timer of its own, which the effect's clean-up cancels.
\<close>

record link_effect =
  le_handled :: bool
  le_timer :: "string option"

definition link_init :: link_effect where
  "link_init = \<lparr>le_handled = False, le_timer = None\<rparr>"

definition initial_room_effect :: "(string \<Rightarrow> string option) option \<Rightarrow> link_effect \<Rightarrow> link_effect" where
  "initial_room_effect query l =
     (if le_handled l then l
      else (let roomCode = readInitialRoomCode query
            in if length roomCode \<noteq> 4 then l\<lparr>le_handled := True\<rparr>
               else l\<lparr>le_handled := True, le_timer := Some roomCode\<rparr>))"

definition initial_room_cleanup :: "link_effect \<Rightarrow> link_effect" where
  "initial_room_cleanup l = l\<lparr>le_timer := None\<rparr>"

definition initial_room_fires :: "link_effect \<times> pvp_page \<Rightarrow> link_effect \<times> pvp_page" where
  "initial_room_fires lp =
     (case le_timer (fst lp) of None \<Rightarrow> lp
      | Some roomCode \<Rightarrow> ((fst lp)\<lparr>le_timer := None\<rparr>, openRoomLink roomCode (snd lp)))"

text \<open>
  Mounted once, the link of a four-letter room fills the code and opens the join flow.
  Where React mounts, cleans up and mounts again, as its strict mode does in development,
  the clean-up cancels the timer and the ref keeps the second run from setting it again.
\<close>

lemma room_link_opens:
  assumes "length (readInitialRoomCode query) = 4"
  shows "pp_joinCode (snd (initial_room_fires (initial_room_effect query link_init, p))) = readInitialRoomCode query"
    and "pp_mode (snd (initial_room_fires (initial_room_effect query link_init, p))) = ModeRoom"
    and "pp_roomMode (snd (initial_room_fires (initial_room_effect query link_init, p))) = RoomJoin"
  using assms
  by (simp_all add: initial_room_fires_def initial_room_effect_def link_init_def openRoomLink_def)

lemma strict_mode_loses_room_link:
  "snd (initial_room_fires (initial_room_effect query (initial_room_cleanup
     (initial_room_effect query link_init)), p)) = p"
  by (simp add: initial_room_fires_def initial_room_effect_def initial_room_cleanup_def link_init_def Let_def)

end
