(* ===== verification/Play_Board.thy ===== *)
theory Play_Board
  imports Play_Page
begin

text \<open>
  The action board (\<open>web/src/components/GameBoard.tsx\<close>) on the page of an AI match
  (\<open>web/src/app/play/page.tsx\<close>): when it is on the screen, and what its actions do to the hook.
\<close>

subsection \<open>The board on the page\<close>

text \<open>
  \<open>GameBoard\<close> as the page mounts it: it is on the screen in the playing phase, gets the player's ki and
  hands its action to \<open>playAction\<close>; its selection is lost when it is taken off the screen.
\<close>

fun section_boards :: "page_section \<Rightarrow> int list" where
  "section_boards (SecGameplay a slots) =
     List.map_filter (\<lambda>b. case b of SlotBoard ki \<Rightarrow> Some ki | _ \<Rightarrow> None) slots"
| "section_boards _ = []"

definition shown_boards :: "game \<Rightarrow> int list" where
  "shown_boards g = concat (map section_boards (page_sections g))"

definition board_on_page :: "play_page \<times> action option \<Rightarrow> board_event \<Rightarrow> play_page \<times> action option" where
  "board_on_page ps e =
     (case shown_boards (pg_game (fst ps)) of
        [] \<Rightarrow> ps
      | ki # _ \<Rightarrow>
          (case board_step ki False (snd ps) e of
             (sel, None) \<Rightarrow> (fst ps, sel)
           | (sel, Some a) \<Rightarrow> (page_step (fst ps) (PgGame (PlayAction a)), sel)))"

definition unmount_board :: "play_page \<times> action option \<Rightarrow> play_page \<times> action option" where
  "unmount_board ps = (if shown_boards (pg_game (fst ps)) = [] then (fst ps, None) else ps)"

datatype table_event = OnPage page_event | OnBoard board_event

fun table_step :: "play_page \<times> action option \<Rightarrow> table_event \<Rightarrow> play_page \<times> action option" where
  "table_step ps (OnPage e) = unmount_board (page_step (fst ps) e, snd ps)"
| "table_step ps (OnBoard e) = unmount_board (board_on_page ps e)"

text \<open>An action is only ever handed in by the board.\<close>

fun table_enabled :: "play_page \<times> action option \<Rightarrow> table_event \<Rightarrow> bool" where
  "table_enabled ps (OnPage e) = (page_enabled (fst ps) e \<and> (\<forall>a. e \<noteq> PgGame (PlayAction a)))"
| "table_enabled ps (OnBoard e) = (shown_boards (pg_game (fst ps)) \<noteq> [])"

definition submissions :: "play_page \<Rightarrow> (game_state \<times> action) list" where
  "submissions p = List.map_filter (\<lambda>w. case w of AwaitSubmit gs a \<Rightarrow> Some (gs, a) | _ \<Rightarrow> None) (g_awaiting (pg_game p))"

definition player_ki :: "game_state \<Rightarrow> int" where
  "player_ki gs = nullish (map_option rs_p1_ki (current_round gs)) 0"

lemma shown_boards_eq:
  assumes "game_inv g"
  shows "shown_boards g = (case g_gameState g of Some gs \<Rightarrow> if g_phase g = GPlaying then [player_ki gs] else [] | None \<Rightarrow> [])"
  using assms
  by (cases "g_phase g")
    (auto simp: game_inv_def in_match_def shown_boards_def page_sections_def bottom_slots_def player_ki_def map_filter_simps
      split: option.splits)

text \<open>While the board is up nothing but the board changes the match.\<close>

lemma playing_still:
  assumes "game_inv g" "g_phase g = GPlaying" "game_enabled g e" "\<And>a. e \<noteq> PlayAction a"
  shows "game_step g e = g"
  using assms by (cases e) (auto simp: game_inv_def)

definition sent_ok :: "game \<Rightarrow> bool" where
  "sent_ok g \<longleftrightarrow> (\<forall>gs a. AwaitSubmit gs a \<in> set (g_awaiting g) \<longrightarrow>
     g_gameState g = Some gs \<and> (0 \<le> player_ki gs \<longrightarrow> validate_action a (player_ki gs)))"

lemma sent_ok_quiet: "g_awaiting g = [] \<Longrightarrow> sent_ok g"
  by (simp add: sent_ok_def)

lemma sent_ok_step:
  assumes inv: "game_inv g" and "sent_ok g" "game_enabled g e" "\<And>a. e \<noteq> PlayAction a"
  shows "sent_ok (game_step g e)"
proof (cases "g_phase (game_step g e) = GLoading")
  case False
  then have "g_awaiting (game_step g e) = []"
    using game_inv_step [OF inv assms(3)] by (cases "g_phase (game_step g e)") (auto simp: game_inv_def)
  then show ?thesis by (rule sent_ok_quiet)
next
  case True
  show ?thesis
  proof (cases e)
    case (StartGame c r)
    with assms(3) have r: "0 \<le> r" "r < 1" and ph: "g_phase g = GCharacterSelect" by auto
    obtain a where st: "startGame c r g = g\<lparr>g_error := None, g_phase := GLoading, g_playerCharacterId := Some c,
        g_aiCharacterId := Some a, g_awaiting := g_awaiting g @ [AwaitAuth c a]\<rparr>"
      using startGame_starts [OF r, of c g] by metis
    from ph inv have "g_awaiting g = []" by (simp add: game_inv_def)
    then show ?thesis by (simp add: StartGame st sent_ok_def)
  qed (use assms True in \<open>auto simp: sent_ok_def game_handler_defs game_inv_def split: list.splits game_await.splits sum.splits option.splits if_splits\<close>)
qed

definition table_inv :: "play_page \<times> action option \<Rightarrow> bool" where
  "table_inv ps \<longleftrightarrow> page_inv (fst ps) \<and> sent_ok (pg_game (fst ps)) \<and>
     (case shown_boards (pg_game (fst ps)) of [] \<Rightarrow> snd ps = None | ki # _ \<Rightarrow> 0 \<le> ki \<longrightarrow> selection_ok ki (snd ps))"

lemma table_inv_unmount:
  assumes "page_inv p" "sent_ok (pg_game p)"
    and "\<And>ki kis. shown_boards (pg_game p) = ki # kis \<Longrightarrow> 0 \<le> ki \<Longrightarrow> selection_ok ki sel"
  shows "table_inv (unmount_board (p, sel))"
  using assms by (auto simp: table_inv_def unmount_board_def split: list.split)

lemma table_inv_page:
  assumes "table_inv (p, sel)" "page_enabled p e" "\<And>a. e \<noteq> PgGame (PlayAction a)"
  shows "table_inv (unmount_board (page_step p e, sel))"
proof (rule table_inv_unmount)
  have inv: "page_inv p" "game_inv (pg_game p)" "sent_ok (pg_game p)"
    using assms(1) by (simp_all add: table_inv_def page_inv_def)
  show "page_inv (page_step p e)" by (rule page_inv_step [OF inv(1) assms(2)])
  show "sent_ok (pg_game (page_step p e))"
    using assms inv sent_ok_step by (cases e) (auto simp: page_step_game)
  fix ki kis assume shown: "shown_boards (pg_game (page_step p e)) = ki # kis" and ki: "0 \<le> ki"
  show "selection_ok ki sel"
  proof (cases "g_phase (pg_game p) = GPlaying")
    case True
    then have "pg_game (page_step p e) = pg_game p"
      using assms(2,3) inv(2) playing_still by (cases e) (auto simp: page_step_game)
    with assms(1) shown ki show ?thesis by (simp add: table_inv_def)
  next
    case False
    then have "shown_boards (pg_game p) = []" using inv(2) by (simp add: shown_boards_eq split: option.split)
    with assms(1) show ?thesis by (simp add: table_inv_def selection_ok_def)
  qed
qed

text \<open>What one event on the board does to the page.\<close>

lemma board_on_page_cases:
  assumes "table_inv (p, sel)" "shown_boards (pg_game p) \<noteq> []"
  obtains gs sel' where "g_gameState (pg_game p) = Some gs" "g_phase (pg_game p) = GPlaying" "g_awaiting (pg_game p) = []"
      "board_step (player_ki gs) False sel e = (sel', None)"
      "board_on_page (p, sel) e = (p, sel')" "0 \<le> player_ki gs \<longrightarrow> selection_ok (player_ki gs) sel'"
      "shown_boards (pg_game p) = [player_ki gs]"
  | gs sel' a where "g_gameState (pg_game p) = Some gs" "g_phase (pg_game p) = GPlaying" "g_awaiting (pg_game p) = []"
      "board_step (player_ki gs) False sel e = (sel', Some a)"
      "board_on_page (p, sel) e = (page_step p (PgGame (PlayAction a)), sel')"
      "0 \<le> player_ki gs \<longrightarrow> validate_action a (player_ki gs)"
proof -
  have inv: "game_inv (pg_game p)" using assms(1) by (simp add: table_inv_def page_inv_def)
  with assms(2) obtain gs where gs: "g_gameState (pg_game p) = Some gs" "g_phase (pg_game p) = GPlaying"
    "shown_boards (pg_game p) = [player_ki gs]"
    by (auto simp: shown_boards_eq split: option.splits if_splits)
  moreover from inv gs(2) have "g_awaiting (pg_game p) = []" by (simp add: game_inv_def)
  moreover obtain sel' sub where st: "board_step (player_ki gs) False sel e = (sel', sub)"
    by (cases "board_step (player_ki gs) False sel e")
  moreover have "0 \<le> player_ki gs \<Longrightarrow> selection_ok (player_ki gs) sel' \<and> selection_ok (player_ki gs) sub"
    using assms(1) gs(3) board_step_ok [OF _ _ st] by (simp add: table_inv_def)
  ultimately show ?thesis
    using that by (cases sub) (auto simp: board_on_page_def selection_ok_def)
qed

lemma table_inv_board:
  assumes "table_inv (p, sel)" "shown_boards (pg_game p) \<noteq> []"
  shows "table_inv (unmount_board (board_on_page (p, sel) e))"
proof -
  have inv: "page_inv p" "sent_ok (pg_game p)" using assms(1) by (simp_all add: table_inv_def)
  from assms show ?thesis
  proof (cases rule: board_on_page_cases [where e = e])
    case (1 gs sel')
    with inv show ?thesis by (simp add: table_inv_def unmount_board_def)
  next
    case (2 gs sel' a)
    then have "page_inv (page_step p (PgGame (PlayAction a)))" by (intro page_inv_step [OF inv(1)]) simp
    moreover from this 2 have "shown_boards (pg_game (page_step p (PgGame (PlayAction a)))) = []"
      by (simp add: page_inv_def shown_boards_eq page_step_game playAction_def)
    moreover from 2 have "sent_ok (pg_game (page_step p (PgGame (PlayAction a))))"
      by (simp add: page_step_game playAction_def sent_ok_def)
    ultimately show ?thesis using 2(5) by (simp add: table_inv_def unmount_board_def)
  qed
qed

lemma table_inv_step: "table_inv ps \<Longrightarrow> table_enabled ps e \<Longrightarrow> table_inv (table_step ps e)"
  by (cases ps; cases e) (auto intro: table_inv_page table_inv_board)

lemma table_inv_init: "table_inv (page_init, None)"
proof -
  have "shown_boards (pg_game page_init) = []" "sent_ok (pg_game page_init)"
    by (simp_all add: page_init_def game_init_def shown_boards_def page_sections_def sent_ok_def)
  then show ?thesis using page_inv_init by (simp add: table_inv_def)
qed

interpretation tbl: guarded_machine "(page_init, None)" table_enabled table_step table_inv
  by unfold_locales (rule table_inv_init, rule table_inv_step)

text \<open>
  Claim C10: A turn gets one action, and one the rules accept.  In every run of the page, whatever the player
  clicks on the board, in whatever order, and whenever the timer runs out: at most one action is on its way
  to the server, it belongs to the shown game state and the engine accepts it at the player's ki (unless the
  server had sent a negative one), and as long
  as it is unanswered there is no board to send another; and while the board is up nothing is on its way
  and an expired timer sends exactly one Charge.
\<close>

theorem one_affordable_action_per_turn:
  assumes "legal table_enabled table_step (page_init, None) es"
    and run: "run table_step (page_init, None) es = (p, sel)"
  shows "length (submissions p) \<le> 1 \<and>
    (\<forall>gs a. (gs, a) \<in> set (submissions p) \<longrightarrow> g_gameState (pg_game p) = Some gs \<and>
       (0 \<le> player_ki gs \<longrightarrow> validate_action a (player_ki gs)) \<and> shown_boards (pg_game p) = []) \<and>
    (shown_boards (pg_game p) \<noteq> [] \<longrightarrow> submissions p = [] \<and>
       map snd (submissions (fst (table_step (p, sel) (OnBoard TimerExpired)))) = [Charge])"
proof (intro conjI allI impI)
  have inv: "table_inv (p, sel)" using tbl.inv_run [OF assms(1)] by (simp add: run)
  then have g: "game_inv (pg_game p)" "sent_ok (pg_game p)" by (simp_all add: table_inv_def page_inv_def)
  have mem: "(gs, a) \<in> set (submissions p) \<Longrightarrow> AwaitSubmit gs a \<in> set (g_awaiting (pg_game p))" for gs a
    by (auto simp: submissions_def List.map_filter_def split: game_await.splits)
  show "length (submissions p) \<le> 1"
    using g(1) by (cases "g_phase (pg_game p)") (auto simp: game_inv_def submissions_def map_filter_simps split: game_await.split)
  show "g_gameState (pg_game p) = Some gs" "0 \<le> player_ki gs \<Longrightarrow> validate_action a (player_ki gs)"
    if "(gs, a) \<in> set (submissions p)" for gs a
    using g(2) mem [OF that] by (simp_all add: sent_ok_def)
  show "shown_boards (pg_game p) = []" if "(gs, a) \<in> set (submissions p)" for gs a
    using g(1) mem [OF that] by (cases "g_phase (pg_game p)") (auto simp: game_inv_def shown_boards_eq split: option.split)
  assume up: "shown_boards (pg_game p) \<noteq> []"
  with inv have "g_awaiting (pg_game p) = []" by (cases rule: board_on_page_cases) simp_all
  then show "submissions p = []" by (simp add: submissions_def map_filter_simps)
  from inv up show "map snd (submissions (fst (table_step (p, sel) (OnBoard TimerExpired)))) = [Charge]"
    by (cases rule: board_on_page_cases [where e = TimerExpired])
      (auto simp: handleTimeout_def unmount_board_def submissions_def page_step_game playAction_def map_filter_simps)
qed

text \<open>The hook's own events, run on the page.\<close>

lemma page_runs_hook:
  assumes "legal game_enabled game_step (pg_game p) ges" "\<And>a. PlayAction a \<notin> set ges"
  shows "legal table_enabled table_step (p, sel) (map (OnPage \<circ> PgGame) ges) \<and>
    pg_game (fst (run table_step (p, sel) (map (OnPage \<circ> PgGame) ges))) = run game_step (pg_game p) ges"
  using assms
proof (induction ges arbitrary: p sel)
  case (Cons e ges)
  obtain p' sel' where st: "table_step (p, sel) (OnPage (PgGame e)) = (p', sel')" "pg_game p' = game_step (pg_game p) e"
    by (cases "table_step (p, sel) (OnPage (PgGame e))") (auto simp: unmount_board_def page_step_game split: if_splits)
  have "legal game_enabled game_step (pg_game p') ges" "\<And>a. PlayAction a \<notin> set ges"
    using Cons.prems by (auto simp: st(2))
  from Cons.IH [OF this, of sel'] Cons.prems st show ?case by (auto simp del: table_step.simps)
qed simp

lemma one_affordable_action_per_turn_witness:
  "map snd (submissions (fst (run table_step (page_init, None)
     (map (OnPage \<circ> PgGame) sample_run @ [OnBoard TimerExpired])))) = [Charge]"
proof -
  let ?es = "map (OnPage \<circ> PgGame) sample_run"
  have "legal game_enabled game_step (pg_game page_init) sample_run"
    by (simp add: page_init_def sample_run_simps CHARACTERS_ids roster_ids_def)
  moreover have "PlayAction a \<notin> set sample_run" for a by (simp add: sample_run_def)
  ultimately have r: "legal table_enabled table_step (page_init, None) ?es"
    "pg_game (fst (run table_step (page_init, None) ?es)) = run game_step (pg_game page_init) sample_run"
    using page_runs_hook by blast+
  have "shown_boards (run game_step (pg_game page_init) sample_run) \<noteq> []"
    by (simp add: page_init_def sample_run_simps shown_boards_def page_sections_def bottom_slots_def map_filter_simps)
  with r one_affordable_action_per_turn [OF r(1) prod.collapse [symmetric]] show ?thesis
    by (simp add: run_append del: table_step.simps)
qed

end
