(* ===== verification/Spec2Isabelle.thy ===== *)
theory Spec2Isabelle
  imports Prelude Api_Types Engine Json Storage Api_Client Api_Session Characters Assets Use_Game Board
    Ad_Timing Timers Reveal Countdown Play_Page Sockets Use_PvP PvP_Session PvP_Page Use_Tutorial
    Room_Screen Url_Params Promo Analytics Mobile_Api Mobile_Use_Game Mobile_PvP Mobile_PvP_Page
    Mobile_Room Wav_Sound Web_Sound Glow_Emitter Fx_Overlay Mobile_Board Mobile_Game_Page Mobile_Tutorial
    Records Shop Fighter_Sprite Arena Match_Finale Invite_Links Duel Arena_Effects Arena_Host Widgets Pixel_Art Anim_Panels Home_Pages
    Page_Stage Play_Board
begin

text \<open>
  \<^bold>\<open>Ki Clash (JJAN!)\<close> is a two-player duel: each turn both players secretly pick charge, block, attack,
  energy wave or teleport, the rules decide who wins the round and how much ki each has, and the first
  to win two of at most three rounds wins the match.  The repository holds a web client
  (\<open>web/\<close>, Next.js), a phone client (\<open>mobile/\<close>, Expo) and a Python back end (\<open>app/\<close>).  This development
  models the two TypeScript clients and, of the back end, the pure rules and the messages of a match,
  as the reference the clients are compared with.

  \<^bold>\<open>How the parts interact.\<close>  A page owns a hook (the state of a match and its requests) and shows
  components that call back into it.  The hooks of AI matches call the API client, which keeps a
  session in a key-value store; those of online matches hold web sockets.  A room lobby polls the API
  and hands the game to the online hook.  Effects on a phase change play sounds, trigger the
  animation of the turn and count the match for the advertisements.

  \<^bold>\<open>Conventions.\<close>  A component is a record of its state and one function per handler; a handler that awaits
  is split at its \<open>await\<close>s, and the answers, timers, frames, renders and user's actions are the events of
  a step function.  An exception is the left value of a sum.  Effects with dependency lists run when the
  list changed since the last run, and effects run in the order of their declaration.  \<open>Prelude\<close> holds the
  runs of such machines and their three interfaces: \<open>machine\<close> (every event keeps an invariant),
  \<open>guarded_machine\<close> (every event that the shown controls allow) and \<open>simulation\<close> (one machine's events
  answered by another's); \<open>Storage\<close> adds \<open>key_store\<close>.  Every locale is interpreted on the components' own
  functions.  JavaScript numbers are integers or reals where the code stays in the range in which
  doubles are exact or where rounding does not matter; only the 16-bit samples of the sounds
  are words.
  Strings are character lists; text outside ASCII is written as its UTF-8 bytes.

  \<^bold>\<open>Parameters.\<close>  The network (\<open>fetch\<close> and the back end behind it), the browser's and the phone's stores,
  the parsed values of messages, the share sheet and clipboard, random numbers, clocks, Pixi's ticker, the audio
  context, image loading and canvas-confetti are arguments or events.  Of framer-motion's \<open>AnimatePresence\<close> the
  code relies on children staying until their exits are over (\<open>presence\<close> of \<open>Arena\<close>); how long an exit takes
  is an argument.

  \<^bold>\<open>Theories.\<close>

  \<^item> Rules and vocabulary.  \<open>Engine\<close>: \<open>app/core/game_engine\<close>, with the invariant of every reachable match
    and the bound of sixty turns (three rounds of twenty).  \<open>Api_Types\<close>: \<open>web/src/lib/actions.ts\<close> and the
    wire types.  \<open>Characters\<close>, \<open>Assets\<close>: the rosters and asset paths of both clients.  \<open>Json\<close>, \<open>Timers\<close>, \<open>Sockets\<close>,
    \<open>Url_Params\<close>: what the code uses of the platform.
  \<^item> Sessions.  \<open>Api_Client\<close>, \<open>Api_Session\<close>: \<open>web/src/lib/api.ts\<close>; at most three requests per call, recovery from
    an expired token, every error branch.  \<open>Mobile_Api\<close>: \<open>mobile/src/lib/api.ts\<close>, which has no such recovery.
  \<^item> AI matches.  \<open>Use_Game\<close>: \<open>web/src/hooks/useGame.ts\<close>, refined to the engine.  \<open>Board\<close>, \<open>Ad_Timing\<close>, \<open>Reveal\<close>,
    \<open>Countdown\<close>, \<open>Play_Page\<close>: cards, board, header, advertisement counter, staged reveal, timer and
    \<open>web/src/app/play/page.tsx\<close>.  \<open>Play_Board\<close>: the board on that page, one acceptable action a turn.  \<open>Mobile_Use_Game\<close>, \<open>Mobile_Board\<close>, \<open>Mobile_Game_Page\<close>: the same on the phone, simulated by
    the web's.
  \<^item> Online matches.  \<open>Use_PvP\<close>, \<open>PvP_Page\<close>: \<open>web/src/hooks/usePvP.ts\<close> and \<open>web/src/app/pvp/page.tsx\<close>.
    \<open>Page_Stage\<close>: the delayed sounds, effects and shakes of both match pages.
    \<open>PvP_Session\<close>: the server's messages and the refinement of the engine by both players' clients.
    \<open>Mobile_PvP\<close>, \<open>Mobile_PvP_Page\<close>: the phone's, equal to the web's but for a room game.  \<open>Room_Screen\<close>, \<open>Mobile_Room\<close>:
    the lobbies, which hand over exactly once.  \<open>Duel_Server\<close>: the server's session
    (\<open>app/modules/ki_clash/game_session.py\<close>) as tasks made of blocks, each run up to its next \<open>await\<close>.  \<open>Duel\<close>: two web
    clients and this server joined by their sockets; a whole match of prompt players, in any order of events, follows
    the rules on the players' own choices, and the runs that stop it (a turn that times out) or shift it (a
    second tap).
  \<^item> Tutorial, records, shop, links.  \<open>Use_Tutorial\<close>, \<open>Mobile_Tutorial\<close> (ten taps to the end), \<open>Records\<close>, \<open>Shop\<close>, \<open>Promo\<close>,
    \<open>Analytics\<close>, \<open>Invite_Links\<close>.
  \<^item> Presentation with logic of its own.  \<open>Fighter_Sprite\<close> (the chain of images, the drawn figures), \<open>Arena\<close>
    (poses, effects of an action), \<open>Finishers\<close> and \<open>Match_Finale\<close> (the closing scene and its twelve timers in 4.3 s),
    \<open>Fx_Overlay\<close> and \<open>Glow_Emitter\<close> (WebGL effects and the particle pool), \<open>Wav_Sound\<close> (the phone's synthesised
    WAV files), \<open>Web_Sound\<close>.  \<open>Widgets\<close>: the interstitial with its two seconds, banner, portraits, indicators,
    page views.  \<open>Home_Pages\<close>: the web's start page and promo kit, the phone's home screen, the arena's test page.
  \<^item> Prototypes still in the repository.  \<open>Arena_Effects\<close>, \<open>Arena_Host\<close>: \<open>pixi/effects.ts\<close> frame by frame and
    \<open>PixiBattleArena.tsx\<close> with its asynchronous set-up; effects may overlap, and still clean up within
    1.5 s (the longest lasts 1500 ms).  \<open>Pixel_Art\<close>: the deprecated pixel figures, whose frames both clients
    render alike and whose hook is the same state machine as the current one.  \<open>Anim_Panels\<close>: the page of
    animation styles, four renderings of one action and phase.

  \<^bold>\<open>What the lemmas show.\<close>  Each component has an invariant that its machine keeps, the behaviour of its
  handlers on every branch, and what its user relies on: refinement of the engine by the hooks and
  screens, equivalence of the phone's and the web's components where they agree and counterexamples
  where they do not, at-most-once and exactly-once facts for hand-offs, counters and effects,
  termination of every chain of retries, timers, images and particles, round trips of links and sounds,
  and bounds of what is displayed.

  \<^bold>\<open>Termination.\<close>  The only recursion of the code that could repeat is the API client's retry; it is a
  function with a measure.  All other loops are structural.  No fuel is used.

  \<^bold>\<open>Not modelled.\<close>  Markup and styling (classes, colours of panels, gradients, easings, React Native style
  sheets), since nothing in it can go wrong in a way HOL could state; the keyframe animations and Lottie
  files once a browser plays them; static pages; and the back end's data base, matchmaking,
  authentication, payment and AI opponents.
\<close>

end
